(* ===== verification/Prelude.thy ===== *)
theory Prelude
  imports Main "HOL-Library.Word" "HOL-Library.AList"
begin

text \<open>
  Shared ground of the development: the machine types of
  \<^verbatim>\<open>include/scorbit_sdk/common_types_c.h\<close>, the containers and text functions of the C++
  standard library that the sources use, and the generic lemmas about them.

  \<^item> \<^verbatim>\<open>std::map\<close> is an association list kept in strictly increasing key order, so that
    \<^verbatim>\<open>size\<close>, comparison and iteration are the list's own;
  \<^item> \<^verbatim>\<open>std::unordered_map\<close> is an association list with distinct keys;
  \<^item> \<^verbatim>\<open>std::to_string\<close> and the \<^verbatim>\<open>{}\<close> placeholder for integers are decimal printing.
\<close>

named_theorems inv_intros \<open>how the operations of a component preserve its invariant\<close>
named_theorems frame_simps \<open>what an operation leaves unchanged\<close>

type_synonym u32 = "32 word"
type_synonym u64 = "64 word"
type_synonym i32 = "32 word"
type_synonym i64 = "64 word"

type_synonym sb_ball_t = u32
type_synonym sb_player_t = u32
type_synonym sb_score_t = i64
type_synonym sb_score_feature_t = i32

text \<open>Clock readings, in nanoseconds for the steady clock and seconds where the code casts.\<close>

type_synonym time_point = int
type_synonym duration = int

definition seconds :: "int \<Rightarrow> duration" where
  "seconds s = s * 1000000000"

definition milliseconds :: "int \<Rightarrow> duration" where
  "milliseconds ms = ms * 1000000"

lemma unat_u32_of_nat: "n < 2 ^ 32 \<Longrightarrow> unat (of_nat n :: u32) = n"
  by (simp add: unsigned_of_nat take_bit_nat_eq_self)

lemma unat_u32_less: "unat (n :: u32) < 2 ^ 32"
  using unsigned_less [of n, where ?'a = nat] by simp

section \<open>Ordered maps\<close>

fun smap_put :: "'k::linorder \<Rightarrow> 'v \<Rightarrow> ('k \<times> 'v) list \<Rightarrow> ('k \<times> 'v) list" where
  "smap_put k v [] = [(k, v)]"
| "smap_put k v ((a, b) # m) =
     (if k < a then (k, v) # (a, b) # m
      else if k = a then (k, v) # m
      else (a, b) # smap_put k v m)"

definition smap_count :: "'k \<Rightarrow> ('k \<times> 'v) list \<Rightarrow> nat" where
  "smap_count k m = (if map_of m k = None then 0 else 1)"

definition smap_emplace :: "'k::linorder \<Rightarrow> 'v \<Rightarrow> ('k \<times> 'v) list \<Rightarrow> ('k \<times> 'v) list" where
  "smap_emplace k v m = (if map_of m k = None then smap_put k v m else m)"

definition smap_erase :: "'k \<Rightarrow> ('k \<times> 'v) list \<Rightarrow> ('k \<times> 'v) list" where
  "smap_erase k m = filter (\<lambda>e. fst e \<noteq> k) m"

definition smap_wf :: "('k::linorder \<times> 'v) list \<Rightarrow> bool" where
  "smap_wf m \<longleftrightarrow> sorted_wrt (<) (map fst m)"

lemma map_of_smap_put [simp]: "map_of (smap_put k v m) = (map_of m)(k \<mapsto> v)"
  by (induction m) (auto simp: fun_eq_iff)

lemma map_of_smap_emplace:
  "map_of (smap_emplace k v m) = (if map_of m k = None then (map_of m)(k \<mapsto> v) else map_of m)"
  by (simp add: smap_emplace_def)

lemma map_of_filter_fst: "map_of (filter (\<lambda>e. P (fst e)) m) k = (if P k then map_of m k else None)"
  by (induction m) auto

lemma map_of_smap_erase [simp]: "map_of (smap_erase k m) j = (if j = k then None else map_of m j)"
  using map_of_filter_fst [of "\<lambda>x. x \<noteq> k" m j] by (simp add: smap_erase_def)

lemma fst_set_smap_put [simp]: "fst ` set (smap_put k v m) = insert k (fst ` set m)"
  by (induction k v m rule: smap_put.induct) (simp_all add: insert_commute)

lemma smap_count_eq_0 [simp]: "smap_count k m = 0 \<longleftrightarrow> k \<notin> fst ` set m"
  by (simp add: smap_count_def map_of_eq_None_iff)

lemma smap_wf_Nil [simp]: "smap_wf []"
  by (simp add: smap_wf_def)

lemma smap_wf_Cons [simp]:
  "smap_wf ((a, b) # m) \<longleftrightarrow> (\<forall>x \<in> fst ` set m. a < x) \<and> smap_wf m"
  by (simp add: smap_wf_def)

lemma smap_wf_put [simp, intro]: "smap_wf m \<Longrightarrow> smap_wf (smap_put k v m)"
  by (induction k v m rule: smap_put.induct) auto

lemma smap_wf_emplace [simp, intro]: "smap_wf m \<Longrightarrow> smap_wf (smap_emplace k v m)"
  by (simp add: smap_emplace_def)

lemma smap_wf_erase [simp, intro]: "smap_wf m \<Longrightarrow> smap_wf (smap_erase k m)"
  by (induction m) (auto simp: smap_erase_def)

lemma smap_wf_distinct: "smap_wf m \<Longrightarrow> distinct (map fst m)"
  by (simp add: smap_wf_def strict_sorted_iff)

lemma set_smap_put: "smap_wf m \<Longrightarrow> set (smap_put k v m) = insert (k, v) {e \<in> set m. fst e \<noteq> k}"
  by (induction k v m rule: smap_put.induct) auto

section \<open>Unordered maps\<close>

lemma fst_set_delete [simp]: "fst ` set (AList.delete k xs) = fst ` set xs - {k}"
  by (auto simp: AList.delete_eq)

lemma distinct_delete' [simp]:
  "distinct (map fst xs) \<Longrightarrow> distinct (map fst (AList.delete k xs))"
  by (rule AList.distinct_delete)

lemma fst_set_update [simp]: "fst ` set (AList.update k v xs) = insert k (fst ` set xs)"
  by (simp add: dom_update)

lemma distinct_removeAll' [simp]: "distinct xs \<Longrightarrow> distinct (removeAll x xs)"
  by (rule distinct_removeAll)

lemma delete_eq_filter: "AList.delete k xs = filter (\<lambda>e. fst e \<noteq> k) xs"
  by (auto simp: AList.delete_eq split: prod.splits intro!: filter_cong)

lemma length_update:
  "length (AList.update k v xs) = (if k \<in> fst ` set xs then length xs else Suc (length xs))"
  by (induction xs) auto

section \<open>Text\<close>

fun nat_digits :: "nat \<Rightarrow> string" where
  "nat_digits n =
     (if n < 10 then [char_of (n + 48)] else nat_digits (n div 10) @ [char_of (n mod 10 + 48)])"

declare nat_digits.simps [simp del]

definition to_string :: "int \<Rightarrow> string" where
  "to_string i = (if i < 0 then ''-'' @ nat_digits (nat (- i)) else nat_digits (nat i))"

text \<open>\<^verbatim>\<open>std::accumulate(next(begin), end, front, a + sep + b)\<close> over a non-empty vector.\<close>

definition join_with :: "string \<Rightarrow> string list \<Rightarrow> string" where
  "join_with sep xs = (case xs of [] \<Rightarrow> [] | y # ys \<Rightarrow> foldl (\<lambda>a b. a @ sep @ b) y ys)"

definition starts_with :: "string \<Rightarrow> string \<Rightarrow> bool" where
  "starts_with s p \<longleftrightarrow> take (length p) s = p"

fun contains_sub :: "string \<Rightarrow> string \<Rightarrow> bool" where
  "contains_sub [] p \<longleftrightarrow> p = []"
| "contains_sub (c # s) p \<longleftrightarrow> starts_with (c # s) p \<or> contains_sub s p"

lemma foldl_join: "foldl (\<lambda>a b. a @ sep @ b) y ys = y @ concat (map (\<lambda>b. sep @ b) ys)"
  by (induction ys arbitrary: y) auto

lemma join_with_simps [simp]:
  "join_with sep [] = []"
  "join_with sep [x] = x"
  "join_with sep (x # y # zs) = x @ sep @ join_with sep (y # zs)"
  by (simp_all add: join_with_def foldl_join)

lemma starts_with_append [simp]: "starts_with (p @ s) p"
  by (simp add: starts_with_def)

lemma starts_with_iff: "starts_with s p \<longleftrightarrow> (\<exists>t. s = p @ t)"
  by (auto simp: starts_with_def) (metis append_take_drop_id)

text \<open>Formatting with named placeholders: \<^verbatim>\<open>{name}\<close> is replaced by the argument of that name.\<close>

function fmt_named :: "(string \<times> string) list \<Rightarrow> string \<Rightarrow> string" where
  "fmt_named args [] = []"
| "fmt_named args (c # s) =
     (if c = CHR ''{''
      then (case map_of args (takeWhile (\<lambda>x. x \<noteq> CHR ''}'') s) of None \<Rightarrow> [] | Some v \<Rightarrow> v)
           @ fmt_named args (tl (dropWhile (\<lambda>x. x \<noteq> CHR ''}'') s))
      else c # fmt_named args s)"
  by pat_completeness auto
termination
  by (relation "measure (length \<circ> snd)")
    (auto intro: le_imp_less_Suc le_trans [OF diff_le_self length_dropWhile_le])

text \<open>Cutting a text at a separator character, the inverse of joining.\<close>

fun split_on :: "char \<Rightarrow> string \<Rightarrow> string list" where
  "split_on c [] = [[]]"
| "split_on c (x # s) =
     (if x = c then [] # split_on c s
      else case split_on c s of [] \<Rightarrow> [[x]] | w # ws \<Rightarrow> (x # w) # ws)"

lemma split_on_no_sep: "c \<notin> set s \<Longrightarrow> split_on c s = [s]"
  by (induction s) auto

lemma split_on_append_sep: "c \<notin> set s \<Longrightarrow> split_on c (s @ c # t) = s # split_on c t"
  by (induction s) auto

lemma split_on_join:
  "xs \<noteq> [] \<Longrightarrow> \<forall>x \<in> set xs. c \<notin> set x \<Longrightarrow> split_on c (join_with [c] xs) = xs"
proof (induction xs rule: induct_list012)
  case (3 x y zs)
  then show ?case by (simp add: split_on_append_sep)
qed (simp_all add: split_on_no_sep)

text \<open>Decimal printing is injective and only uses digits.\<close>

lemma nat_digits_chars: "c \<in> set (nat_digits n) \<Longrightarrow> c \<in> set ''0123456789''"
proof (induction n rule: nat_digits.induct)
  case (1 n)
  have "list_all (\<lambda>d. (char_of (d + 48) :: char) \<in> set ''0123456789'') [0 ..< 10]"
    by code_simp
  then have digit: "d < 10 \<Longrightarrow> (char_of (d + 48) :: char) \<in> set ''0123456789''" for d :: nat
    unfolding list_all_iff set_upt by (meson atLeastLessThan_iff le0)
  show ?case
  proof (cases "n < 10")
    case True
    with "1.prems" have "c = char_of (n + 48)" by (subst (asm) nat_digits.simps) simp
    then show ?thesis using digit [OF True] by (simp only:)
  next
    case False
    with "1.prems" have "c \<in> set (nat_digits (n div 10)) \<or> c = char_of (n mod 10 + 48)"
      by (subst (asm) nat_digits.simps) auto
    with "1.IH" [OF False] show ?thesis using digit [of "n mod 10"] by auto
  qed
qed

section \<open>Paths\<close>

text \<open>The last component of a path, the rest, and appending a component (POSIX).\<close>

definition path_filename :: "string \<Rightarrow> string" where
  "path_filename p = rev (takeWhile (\<lambda>c. c \<noteq> CHR ''/'') (rev p))"

definition parent_path :: "string \<Rightarrow> string" where
  "parent_path p =
     (case dropWhile (\<lambda>c. c \<noteq> CHR ''/'') (rev p) of
        [] \<Rightarrow> [] | [_] \<Rightarrow> ''/'' | _ # r \<Rightarrow> rev r)"

definition path_append :: "string \<Rightarrow> string \<Rightarrow> string" where
  "path_append p q = (if p = [] \<or> last p = CHR ''/'' then p @ q else p @ ''/'' @ q)"

end
