(* ===== verification/Types.thy ===== *)
theory Types
  imports Prelude
begin

text \<open>
  The enumerations of \<^verbatim>\<open>include/scorbit_sdk/net_types.h\<close> shared by the components, with the
  integer values of \<^verbatim>\<open>net_types_c.h\<close>.
\<close>

datatype Error = Success | Unknown | AuthFailed | NotPaired | ApiError | FileError

datatype AuthStatus =
    NotAuthenticated
  | Authenticating
  | AuthenticatedCheckingPairing
  | AuthenticatedUnpaired
  | AuthenticatedPaired
  | AuthenticationFailed

datatype GameStartOrigin = StartButton | FromLobby

text \<open>
  A C caller can pass any integer where the C++ code takes an enumeration: the last constructor
  stands for a value that names no enumerator.
\<close>

datatype LeaderboardScope = ScopeMachine | ScopeVariant | ScopeGame | ScopeOther int

datatype LeaderboardPeriod =
  AllTime | Days14 | Days30 | Days90 | Days180 | Days365 | PeriodOther int

datatype LeaderboardVpinFilter = VpinAny | VpinOnly | RealOnly | VpinOther int

fun error_code :: "Error \<Rightarrow> int" where
  "error_code Success = 0"
| "error_code Unknown = 1"
| "error_code AuthFailed = 2"
| "error_code NotPaired = 3"
| "error_code ApiError = 4"
| "error_code FileError = 5"

fun auth_status_code :: "AuthStatus \<Rightarrow> int" where
  "auth_status_code NotAuthenticated = 0"
| "auth_status_code Authenticating = 1"
| "auth_status_code AuthenticatedCheckingPairing = 2"
| "auth_status_code AuthenticatedUnpaired = 3"
| "auth_status_code AuthenticatedPaired = 4"
| "auth_status_code AuthenticationFailed = 5"

text \<open>\<^verbatim>\<open>Capability\<close>: bits of \<^verbatim>\<open>sb_capabilities_t\<close>.\<close>

datatype Capability = CapStartGame | CapCreditDrop

fun capability_bit :: "Capability \<Rightarrow> nat" where
  "capability_bit CapStartGame = 0"
| "capability_bit CapCreditDrop = 1"

end
