(* ===== verification/Modes.thy ===== *)
theory Modes
  imports Types
begin

text \<open>
  \<^verbatim>\<open>source/modes.h\<close> and \<^verbatim>\<open>source/modes.cpp\<close>: the list of active game modes, most prominent first,
  and the deadlines of those that expire. The clock reading that the code takes with
  \<^verbatim>\<open>steady_clock::now()\<close> is the argument \<open>now\<close>. A \<^verbatim>\<open>boost::flyweight<std::string>\<close> is its
  string. The deadlines are an \<^verbatim>\<open>unordered_map\<close>: an association list with distinct keys.
\<close>

definition MODE_EXPIRY_DEFAULT_SEC :: u32 where "MODE_EXPIRY_DEFAULT_SEC = 3"
definition MODE_EXPIRY_MAX_SEC :: u32 where "MODE_EXPIRY_MAX_SEC = 10"

definition normalizeModeExpirySeconds :: "u32 \<Rightarrow> u32" where
  "normalizeModeExpirySeconds s =
     (if s = 0 then MODE_EXPIRY_DEFAULT_SEC
      else if s > MODE_EXPIRY_MAX_SEC then MODE_EXPIRY_MAX_SEC
      else s)"

record Modes =
  m_modes :: "string list"
  m_modeExpiryDeadlines :: "(string \<times> time_point) list"

definition Modes_empty :: Modes where
  "Modes_empty = \<lparr>m_modes = [], m_modeExpiryDeadlines = []\<rparr>"

definition Modes_addMode :: "string \<Rightarrow> Modes \<Rightarrow> Modes" where
  "Modes_addMode mode M =
     (if mode \<in> set (m_modes M) then M else M\<lparr>m_modes := m_modes M @ [mode]\<rparr>)"

definition addOrPromoteToFront :: "string \<Rightarrow> Modes \<Rightarrow> Modes" where
  "addOrPromoteToFront mode M = M\<lparr>m_modes := mode # removeAll mode (m_modes M)\<rparr>"

definition Modes_removeMode :: "string \<Rightarrow> Modes \<Rightarrow> Modes" where
  "Modes_removeMode mode M =
     M\<lparr>m_modes := removeAll mode (m_modes M),
       m_modeExpiryDeadlines := AList.delete mode (m_modeExpiryDeadlines M)\<rparr>"

definition Modes_clear :: "Modes \<Rightarrow> Modes" where
  "Modes_clear M = M\<lparr>m_modes := [], m_modeExpiryDeadlines := []\<rparr>"

definition Modes_addModeExpiring :: "string \<Rightarrow> u32 \<Rightarrow> time_point \<Rightarrow> Modes \<Rightarrow> Modes" where
  "Modes_addModeExpiring mode durationSeconds now M =
     (let norm = normalizeModeExpirySeconds durationSeconds;
          deadline = now + seconds (uint norm)
      in addOrPromoteToFront mode
           (M\<lparr>m_modeExpiryDeadlines := AList.update mode deadline (m_modeExpiryDeadlines M)\<rparr>))"

fun erase_due :: "string list \<Rightarrow> Modes \<Rightarrow> Modes" where
  "erase_due [] M = M"
| "erase_due (m # due) M =
     erase_due due
       (M\<lparr>m_modeExpiryDeadlines := AList.delete m (m_modeExpiryDeadlines M),
          m_modes := removeAll m (m_modes M)\<rparr>)"

definition tickExpiries :: "time_point \<Rightarrow> Modes \<Rightarrow> Modes" where
  "tickExpiries now M =
     erase_due (map fst (filter (\<lambda>kv. snd kv \<le> now) (m_modeExpiryDeadlines M))) M"

definition nextExpiryDelay :: "time_point \<Rightarrow> Modes \<Rightarrow> duration option" where
  "nextExpiryDelay now M =
     (if m_modeExpiryDeadlines M = [] then None
      else let minTime = Min (set (map snd (m_modeExpiryDeadlines M)));
               delay = minTime - now
           in Some (if delay < 0 then 0 else delay))"

definition hasExpiryDeadlines :: "Modes \<Rightarrow> bool" where
  "hasExpiryDeadlines M \<longleftrightarrow> m_modeExpiryDeadlines M \<noteq> []"

definition clearExpiries :: "Modes \<Rightarrow> Modes" where
  "clearExpiries M = M\<lparr>m_modeExpiryDeadlines := []\<rparr>"

definition Modes_isEmpty :: "Modes \<Rightarrow> bool" where
  "Modes_isEmpty M \<longleftrightarrow> m_modes M = []"

definition Modes_contains :: "string \<Rightarrow> Modes \<Rightarrow> bool" where
  "Modes_contains mode M \<longleftrightarrow> mode \<in> set (m_modes M)"

definition Modes_str :: "Modes \<Rightarrow> string" where
  "Modes_str M = (if m_modes M = [] then [] else join_with '';'' (m_modes M))"

definition Modes_jsonStr :: "Modes \<Rightarrow> string" where
  "Modes_jsonStr M =
     (if m_modes M = [] then ''[]''
      else ''[\"'' @ join_with ''\",\"'' (m_modes M) @ ''\"]'')"

text \<open>\<^verbatim>\<open>operator==\<close> compares the mode lists only.\<close>

definition Modes_eq :: "Modes \<Rightarrow> Modes \<Rightarrow> bool" where
  "Modes_eq L R \<longleftrightarrow> m_modes L = m_modes R"

section \<open>Invariant\<close>

text \<open>
  No mode is listed twice, no mode has two deadlines, and every mode with a deadline is listed:
  a deadline never outlives its mode.
\<close>

definition Modes_inv :: "Modes \<Rightarrow> bool" where
  "Modes_inv M \<longleftrightarrow>
     distinct (m_modes M) \<and> distinct (map fst (m_modeExpiryDeadlines M)) \<and>
     fst ` set (m_modeExpiryDeadlines M) \<subseteq> set (m_modes M)"

lemma Modes_inv_empty [inv_intros]: "Modes_inv Modes_empty"
  by (simp add: Modes_inv_def Modes_empty_def)

lemma Modes_inv_addMode [inv_intros]: "Modes_inv M \<Longrightarrow> Modes_inv (Modes_addMode mode M)"
  by (auto simp: Modes_inv_def Modes_addMode_def)

lemma Modes_inv_promote:
  assumes "distinct (m_modes M)" "distinct (map fst (m_modeExpiryDeadlines M))"
    and "fst ` set (m_modeExpiryDeadlines M) \<subseteq> insert mode (set (m_modes M))"
  shows "Modes_inv (addOrPromoteToFront mode M)"
  using assms by (auto simp: Modes_inv_def addOrPromoteToFront_def)

lemma Modes_inv_removeMode [inv_intros]: "Modes_inv M \<Longrightarrow> Modes_inv (Modes_removeMode mode M)"
  by (auto simp: Modes_inv_def Modes_removeMode_def)

lemma Modes_inv_clear [inv_intros]: "Modes_inv (Modes_clear M)"
  by (simp add: Modes_inv_def Modes_clear_def)

lemma Modes_inv_addModeExpiring [inv_intros]:
  "Modes_inv M \<Longrightarrow> Modes_inv (Modes_addModeExpiring mode d now M)"
  unfolding Modes_addModeExpiring_def Let_def
  by (rule Modes_inv_promote) (auto simp: Modes_inv_def distinct_update)

lemma Modes_inv_clearExpiries [inv_intros]: "Modes_inv M \<Longrightarrow> Modes_inv (clearExpiries M)"
  by (simp add: Modes_inv_def clearExpiries_def)

lemma Modes_inv_erase_due: "Modes_inv M \<Longrightarrow> Modes_inv (erase_due due M)"
proof (induction due arbitrary: M)
  case (Cons m due)
  have "Modes_inv (M\<lparr>m_modeExpiryDeadlines := AList.delete m (m_modeExpiryDeadlines M),
      m_modes := removeAll m (m_modes M)\<rparr>)"
    using Cons.prems by (auto simp: Modes_inv_def)
  from Cons.IH [OF this] show ?case by simp
qed simp

lemma Modes_inv_tickExpiries [inv_intros]: "Modes_inv M \<Longrightarrow> Modes_inv (tickExpiries now M)"
  by (simp add: tickExpiries_def Modes_inv_erase_due)

section \<open>Expiry\<close>

lemma erase_due_modes: "m_modes (erase_due due M) = filter (\<lambda>m. m \<notin> set due) (m_modes M)"
  by (induction due arbitrary: M)
    (auto simp: removeAll_filter_not_eq intro!: filter_cong)

lemma erase_due_deadlines:
  "m_modeExpiryDeadlines (erase_due due M) =
     filter (\<lambda>e. fst e \<notin> set due) (m_modeExpiryDeadlines M)"
  by (induction due arbitrary: M) (auto simp: delete_eq_filter intro!: filter_cong)

definition is_due :: "time_point \<Rightarrow> Modes \<Rightarrow> string \<Rightarrow> bool" where
  "is_due now M m \<longleftrightarrow>
     (case map_of (m_modeExpiryDeadlines M) m of None \<Rightarrow> False | Some t \<Rightarrow> t \<le> now)"

lemma is_due_iff:
  assumes "distinct (map fst (m_modeExpiryDeadlines M))"
  shows "is_due now M m \<longleftrightarrow> (\<exists>t \<le> now. (m, t) \<in> set (m_modeExpiryDeadlines M))"
  using assms by (auto simp: is_due_def split: option.splits dest: map_of_SomeD eq_key_imp_eq_value)

lemma due_set:
  assumes "distinct (map fst (m_modeExpiryDeadlines M))"
  shows "m \<in> set (map fst (filter (\<lambda>kv. snd kv \<le> now) (m_modeExpiryDeadlines M))) \<longleftrightarrow>
     is_due now M m"
  by (force simp: is_due_iff [OF assms])

lemma tickExpiries_modes:
  assumes "Modes_inv M"
  shows "m_modes (tickExpiries now M) = filter (\<lambda>m. \<not> is_due now M m) (m_modes M)"
  using assms due_set by (auto simp: tickExpiries_def erase_due_modes Modes_inv_def
      simp del: set_map intro!: filter_cong)

lemma tickExpiries_deadlines:
  assumes "Modes_inv M"
  shows "m_modeExpiryDeadlines (tickExpiries now M) =
    filter (\<lambda>e. now < snd e) (m_modeExpiryDeadlines M)"
proof -
  have dist: "distinct (map fst (m_modeExpiryDeadlines M))"
    using assms by (simp add: Modes_inv_def)
  have "e \<in> set (m_modeExpiryDeadlines M) \<Longrightarrow> \<not> is_due now M (fst e) \<longleftrightarrow> now < snd e" for e
    using dist by (cases e) (auto simp: is_due_def)
  then show ?thesis
    using due_set [OF dist]
    by (auto simp: tickExpiries_def erase_due_deadlines simp del: set_map intro!: filter_cong)
qed

text \<open>
  A tick removes exactly the modes whose deadline has passed, keeps the order of the others,
  and keeps exactly the deadlines that lie in the future.
\<close>

theorem tickExpiries_exact:
  assumes "Modes_inv M"
  shows "m_modes (tickExpiries now M) = filter (\<lambda>m. \<not> is_due now M m) (m_modes M) \<and>
    m_modeExpiryDeadlines (tickExpiries now M) =
      filter (\<lambda>e. now < snd e) (m_modeExpiryDeadlines M) \<and>
    Modes_inv (tickExpiries now M)"
  using assms
  by (simp add: tickExpiries_modes tickExpiries_deadlines Modes_inv_tickExpiries)

definition sample_modes :: Modes where
  "sample_modes =
     \<lparr>m_modes = [''MB'', ''Wizard'', ''Frenzy''],
      m_modeExpiryDeadlines = [(''Frenzy'', seconds 9), (''MB'', seconds 4)]\<rparr>"

lemma sample_modes_inv: "Modes_inv sample_modes"
  by (simp add: Modes_inv_def sample_modes_def)

theorem tickExpiries_exact_witness:
  "Modes_inv sample_modes \<and>
   m_modes (tickExpiries (seconds 5) sample_modes) = [''Wizard'', ''Frenzy'']"
  using tickExpiries_exact [OF sample_modes_inv, of "seconds 5"] sample_modes_inv
  by (simp add: sample_modes_def is_due_def seconds_def)

text \<open>
  The delay that the code schedules is exact: nothing is due before it elapses, and at the moment
  it elapses a mode is removed.
\<close>

lemma nextExpiryDelay_Some:
  assumes "nextExpiryDelay now M = Some d"
  obtains m t where "(m, t) \<in> set (m_modeExpiryDeadlines M)" "d = max 0 (t - now)"
    "\<And>e. e \<in> set (m_modeExpiryDeadlines M) \<Longrightarrow> t \<le> snd e"
proof -
  let ?T = "snd ` set (m_modeExpiryDeadlines M)"
  have ne: "m_modeExpiryDeadlines M \<noteq> []" and d: "d = max 0 (Min ?T - now)"
    using assms by (auto simp: nextExpiryDelay_def Let_def split: if_splits)
  then have "Min ?T \<in> ?T" by simp
  then obtain m where "(m, Min ?T) \<in> set (m_modeExpiryDeadlines M)" by auto
  then show ?thesis by (rule that) (simp_all add: d)
qed

text \<open>
  C8. The delay handed to the timer is exact. It is never negative; a tick strictly before it has
  elapsed (counted from the reading it was computed from, when no deadline had passed) removes no
  mode, and a tick once it has elapsed removes at least one. There is a delay exactly when a
  deadline is pending.
\<close>

theorem nextExpiryDelay_exact:
  assumes "Modes_inv M" and "nextExpiryDelay now M = Some d"
  shows "0 \<le> d \<and>
    (\<forall>t. now \<le> t \<and> t < now + d \<longrightarrow> m_modes (tickExpiries t M) = m_modes M) \<and>
    (\<forall>t. now + d \<le> t \<longrightarrow> length (m_modes (tickExpiries t M)) < length (m_modes M)) \<and>
    hasExpiryDeadlines M"
proof -
  obtain m t where mt: "(m, t) \<in> set (m_modeExpiryDeadlines M)" and d: "d = max 0 (t - now)"
    and least: "\<And>e. e \<in> set (m_modeExpiryDeadlines M) \<Longrightarrow> t \<le> snd e"
    using nextExpiryDelay_Some [OF assms(2)] by blast
  have dist: "distinct (map fst (m_modeExpiryDeadlines M))"
    and listed: "m \<in> set (m_modes M)"
    using assms(1) mt by (force simp: Modes_inv_def)+
  have "\<not> is_due s M k" if "now \<le> s" "s < now + d" for s k
    using that least by (fastforce simp: is_due_def d split: option.splits dest: map_of_SomeD)
  then have early: "m_modes (tickExpiries s M) = m_modes M" if "now \<le> s" "s < now + d" for s
    using that by (simp add: tickExpiries_modes [OF assms(1)])
  have "is_due s M m" if "now + d \<le> s" for s
    using that mt dist by (auto simp: is_due_def d)
  then have "length (m_modes (tickExpiries s M)) < length (m_modes M)" if "now + d \<le> s" for s
    using that listed unfolding tickExpiries_modes [OF assms(1)]
    by (metis (mono_tags, lifting) length_filter_less)
  with early mt show ?thesis by (auto simp: d hasExpiryDeadlines_def)
qed

theorem nextExpiryDelay_exact_witness:
  "nextExpiryDelay 0 sample_modes = Some (seconds 4) \<and>
   length (m_modes (tickExpiries (seconds 4) sample_modes)) < length (m_modes sample_modes)"
proof -
  have d: "nextExpiryDelay 0 sample_modes = Some (seconds 4)"
    by (simp add: nextExpiryDelay_def sample_modes_def seconds_def)
  show ?thesis using d nextExpiryDelay_exact [OF sample_modes_inv d] by simp
qed

lemma normalizeModeExpirySeconds_range:
  "1 \<le> uint (normalizeModeExpirySeconds s)" "uint (normalizeModeExpirySeconds s) \<le> 10"
proof -
  have "1 \<le> uint s" if "s \<noteq> 0"
  proof -
    from that have "uint s \<noteq> 0" using uint_0_iff [of s] by blast
    with uint_ge_0 [of s] show ?thesis by linarith
  qed
  then show "1 \<le> uint (normalizeModeExpirySeconds s)" "uint (normalizeModeExpirySeconds s) \<le> 10"
    by (auto simp: normalizeModeExpirySeconds_def MODE_EXPIRY_DEFAULT_SEC_def
        MODE_EXPIRY_MAX_SEC_def word_less_def not_less)
qed

text \<open>
  An expiring mode is always alive for between one and ten seconds: it is listed first when it
  is added, a tick before its normalized duration keeps it, and a tick at or after ten seconds
  removes it.
\<close>

theorem addModeExpiring_lifetime:
  assumes "Modes_inv M"
  shows "hd (m_modes (Modes_addModeExpiring mode d now M)) = mode \<and>
    (\<forall>t < now + seconds 1. mode \<in> set (m_modes (tickExpiries t (Modes_addModeExpiring mode d now M)))) \<and>
    (\<forall>t \<ge> now + seconds 10. mode \<notin> set (m_modes (tickExpiries t (Modes_addModeExpiring mode d now M))))"
proof -
  let ?M = "Modes_addModeExpiring mode d now M"
  let ?n = "normalizeModeExpirySeconds d"
  note norm = normalizeModeExpirySeconds_range [of d]
  have inv: "Modes_inv ?M" by (rule Modes_inv_addModeExpiring [OF assms])
  have first: "m_modes ?M = mode # removeAll mode (m_modes M)"
    by (simp add: Modes_addModeExpiring_def addOrPromoteToFront_def Let_def)
  have dl: "map_of (m_modeExpiryDeadlines ?M) mode = Some (now + seconds (uint ?n))"
    by (simp add: Modes_addModeExpiring_def addOrPromoteToFront_def Let_def update_conv')
  show ?thesis
    using norm dl by (auto simp: first tickExpiries_modes [OF inv] is_due_def seconds_def)
qed

theorem addModeExpiring_lifetime_witness:
  "hd (m_modes (Modes_addModeExpiring ''MB'' 0 0 sample_modes)) = ''MB'' \<and>
   ''MB'' \<notin> set (m_modes (tickExpiries (seconds 10) (Modes_addModeExpiring ''MB'' 0 0 sample_modes)))"
  using addModeExpiring_lifetime [OF sample_modes_inv, of "''MB''" 0 0] by simp

section \<open>Printing\<close>

text \<open>
  The CSV form of the mode list can be read back: cutting it at the semicolons gives the
  modes, provided no mode name holds a semicolon.
\<close>

theorem Modes_str_roundtrip:
  assumes "m_modes M \<noteq> []" and "\<forall>m \<in> set (m_modes M). CHR '';'' \<notin> set m"
  shows "split_on (CHR '';'') (Modes_str M) = m_modes M"
  using assms by (simp add: Modes_str_def split_on_join)

theorem Modes_str_roundtrip_witness:
  "split_on (CHR '';'') (Modes_str sample_modes) = [''MB'', ''Wizard'', ''Frenzy'']"
  using Modes_str_roundtrip [of sample_modes] by (simp add: sample_modes_def)

text \<open>
  \<^verbatim>\<open>jsonStr\<close> does not escape: two different mode lists can print as the same JSON text, one of
  them holding a mode name with quotation marks, so the text that is parsed and published does not
  determine the modes.
\<close>

theorem Modes_jsonStr_ambiguous:
  "\<exists>M N. Modes_inv M \<and> Modes_inv N \<and> \<not> Modes_eq M N \<and> Modes_jsonStr M = Modes_jsonStr N"
proof -
  let ?M = "Modes_addMode ''b'' (Modes_addMode ''a'' Modes_empty)"
  let ?N = "Modes_addMode ''a\",\"b'' Modes_empty"
  have "Modes_inv ?M \<and> Modes_inv ?N" by (simp add: inv_intros)
  moreover have "\<not> Modes_eq ?M ?N \<and> Modes_jsonStr ?M = Modes_jsonStr ?N"
    by (simp add: Modes_addMode_def Modes_empty_def Modes_eq_def Modes_jsonStr_def)
  ultimately show ?thesis by blast
qed

end
