(* ===== verification/Game_Data.thy ===== *)
theory Game_Data
  imports Modes
begin

text \<open>
  \<^verbatim>\<open>source/player_state.{h,cpp}\<close> and \<^verbatim>\<open>source/game_data.h\<close>: the state of one player and of one
  game. The players are a \<^verbatim>\<open>std::map\<close> from the player number.
\<close>

record PlayerState =
  m_score :: sb_score_t
  m_player :: sb_player_t
  m_scoreFeature :: sb_score_feature_t

definition PlayerState_new :: "sb_player_t \<Rightarrow> sb_score_t \<Rightarrow> PlayerState" where
  "PlayerState_new player score = \<lparr>m_score = score, m_player = player, m_scoreFeature = 0\<rparr>"

definition PlayerState_setScore ::
  "sb_score_t \<Rightarrow> sb_score_feature_t \<Rightarrow> PlayerState \<Rightarrow> PlayerState" where
  "PlayerState_setScore score feature p = p\<lparr>m_score := score, m_scoreFeature := feature\<rparr>"

definition PlayerState_less :: "PlayerState \<Rightarrow> PlayerState \<Rightarrow> bool" where
  "PlayerState_less l r \<longleftrightarrow> m_player l < m_player r"

definition PlayerState_eq :: "PlayerState \<Rightarrow> PlayerState \<Rightarrow> bool" where
  "PlayerState_eq l r \<longleftrightarrow>
     m_player l = m_player r \<and> m_score l = m_score r \<and> m_scoreFeature l = m_scoreFeature r"

record GameData =
  gd_id :: int
  isGameActive :: bool
  ball :: sb_ball_t
  activePlayer :: sb_player_t
  players :: "(sb_player_t \<times> PlayerState) list"
  modes :: Modes
  timestamp :: time_point

definition GameData_empty :: GameData where
  "GameData_empty =
     \<lparr>gd_id = 0, isGameActive = False, ball = 0, activePlayer = 0, players = [],
      modes = Modes_empty, timestamp = 0\<rparr>"

text \<open>
  \<^verbatim>\<open>operator==\<close> ignores the session id and the time stamp; \<^verbatim>\<open>std::map\<close> compares keys and players
  pairwise.
\<close>

definition players_eq ::
  "(sb_player_t \<times> PlayerState) list \<Rightarrow> (sb_player_t \<times> PlayerState) list \<Rightarrow> bool" where
  "players_eq = list_all2 (\<lambda>(k, p) (j, q). k = j \<and> PlayerState_eq p q)"

definition GameData_eq :: "GameData \<Rightarrow> GameData \<Rightarrow> bool" where
  "GameData_eq l r \<longleftrightarrow>
     isGameActive l = isGameActive r \<and> ball l = ball r \<and> activePlayer l = activePlayer r \<and>
     Modes_eq (modes l) (modes r) \<and> players_eq (players l) (players r)"

type_synonym GameHistory = "GameData list"

lemma PlayerState_eq_iff [simp]: "PlayerState_eq l r \<longleftrightarrow> l = r"
  by (auto simp: PlayerState_eq_def)

lemma players_eq_iff [simp]: "players_eq l r \<longleftrightarrow> l = r"
proof -
  have "(\<lambda>(k :: sb_player_t, p) (j, q). k = j \<and> PlayerState_eq p q) = (=)"
    by (auto simp: fun_eq_iff)
  then show ?thesis by (simp only: players_eq_def list.rel_eq)
qed

lemma GameData_eq_refl [simp]: "GameData_eq d d"
  by (simp add: GameData_eq_def Modes_eq_def)

lemma GameData_eq_timestamp [simp]:
  "GameData_eq (d\<lparr>timestamp := t\<rparr>) e \<longleftrightarrow> GameData_eq d e"
  "GameData_eq d (e\<lparr>timestamp := t\<rparr>) \<longleftrightarrow> GameData_eq d e"
  by (simp_all add: GameData_eq_def)

end
