(* ===== verification/Flags.thy ===== *)
theory Flags
  imports Types
begin

unbundle bit_operations_syntax

text \<open>
  \<^verbatim>\<open>source/dflags.h\<close>: the bit-set template \<^verbatim>\<open>DFlags\<close>, at the 32-bit underlying type of its
  one instance, \<^verbatim>\<open>SessionFlags\<close> of \<^verbatim>\<open>source/session_flags.h\<close>. Each operation takes the flag as
  \<^verbatim>\<open>static_cast<underlying_t>(flag)\<close>. The locale \<open>flag_set\<close> is what the clients of the template
  (the game state and the session code) rely on; it is interpreted on the session flags.
\<close>

section \<open>The template\<close>

record DFlags = m_value :: u32

definition DFlags_empty :: DFlags where
  "DFlags_empty = \<lparr>m_value = 0\<rparr>"

definition DFlags_of :: "u32 \<Rightarrow> DFlags" where
  "DFlags_of flag = \<lparr>m_value = flag\<rparr>"

definition flags_empty :: "DFlags \<Rightarrow> bool" where
  "flags_empty s \<longleftrightarrow> m_value s = 0"

definition flags_has :: "DFlags \<Rightarrow> u32 \<Rightarrow> bool" where
  "flags_has s f \<longleftrightarrow> m_value s AND f = f"

definition flags_set :: "DFlags \<Rightarrow> u32 \<Rightarrow> DFlags" where
  "flags_set s f = s\<lparr>m_value := m_value s OR f\<rparr>"

definition flags_clear :: "DFlags \<Rightarrow> u32 \<Rightarrow> DFlags" where
  "flags_clear s f = s\<lparr>m_value := m_value s AND NOT f\<rparr>"

definition flags_toggle :: "DFlags \<Rightarrow> u32 \<Rightarrow> DFlags" where
  "flags_toggle s f = s\<lparr>m_value := m_value s XOR f\<rparr>"

definition flags_reset :: "DFlags \<Rightarrow> DFlags" where
  "flags_reset s = s\<lparr>m_value := 0\<rparr>"

definition flags_or :: "DFlags \<Rightarrow> DFlags \<Rightarrow> DFlags" where
  "flags_or s t = \<lparr>m_value = m_value s OR m_value t\<rparr>"

definition flags_or_flag :: "DFlags \<Rightarrow> u32 \<Rightarrow> DFlags" where
  "flags_or_flag s f = \<lparr>m_value = m_value s OR f\<rparr>"

definition flags_and :: "DFlags \<Rightarrow> DFlags \<Rightarrow> DFlags" where
  "flags_and s t = \<lparr>m_value = m_value s AND m_value t\<rparr>"

definition flags_and_flag :: "DFlags \<Rightarrow> u32 \<Rightarrow> DFlags" where
  "flags_and_flag s f = \<lparr>m_value = m_value s AND f\<rparr>"

definition flags_eq :: "DFlags \<Rightarrow> DFlags \<Rightarrow> bool" where
  "flags_eq s t \<longleftrightarrow> m_value s = m_value t"

definition flags_bool :: "DFlags \<Rightarrow> bool" where
  "flags_bool s \<longleftrightarrow> m_value s \<noteq> 0"

section \<open>Session flags\<close>

datatype SessionFlag = UploadHistoryLogs | PlayersAdd | Debounced

fun SessionFlag_bit :: "SessionFlag \<Rightarrow> nat" where
  "SessionFlag_bit UploadHistoryLogs = 0"
| "SessionFlag_bit PlayersAdd = 1"
| "SessionFlag_bit Debounced = 2"

definition SessionFlag_value :: "SessionFlag \<Rightarrow> u32" where
  "SessionFlag_value f = push_bit (SessionFlag_bit f) 1"

type_synonym SessionFlags = DFlags

definition has_flag :: "SessionFlags \<Rightarrow> SessionFlag \<Rightarrow> bool" where
  "has_flag s f = flags_has s (SessionFlag_value f)"

definition set_flag :: "SessionFlag \<Rightarrow> SessionFlags \<Rightarrow> SessionFlags" where
  "set_flag f s = flags_set s (SessionFlag_value f)"

definition clear_flag :: "SessionFlag \<Rightarrow> SessionFlags \<Rightarrow> SessionFlags" where
  "clear_flag f s = flags_clear s (SessionFlag_value f)"

section \<open>Bits\<close>

lemma and_single_bit: "v AND 2 ^ n = (2 ^ n :: u32) \<longleftrightarrow> bit v n" if "n < 32"
proof
  assume "v AND 2 ^ n = (2 ^ n :: u32)"
  then have "bit (v AND 2 ^ n) n = bit (2 ^ n :: u32) n" by simp
  with that show "bit v n" by (simp add: bit_and_iff bit_exp_iff)
next
  assume "bit v n"
  with that show "v AND 2 ^ n = (2 ^ n :: u32)"
    by (intro bit_eqI) (auto simp: bit_and_iff bit_exp_iff)
qed

lemma SessionFlag_bit_less: "SessionFlag_bit f < 32"
  by (cases f) simp_all

lemma SessionFlag_bit_inj [simp]: "SessionFlag_bit f = SessionFlag_bit g \<longleftrightarrow> f = g"
  by (cases f; cases g) simp_all

lemma has_flag_bit: "has_flag s f \<longleftrightarrow> bit (m_value s) (SessionFlag_bit f)"
  by (simp add: has_flag_def flags_has_def SessionFlag_value_def and_single_bit SessionFlag_bit_less)

lemma bit_flag_value: "bit (SessionFlag_value f) n \<longleftrightarrow> n = SessionFlag_bit f"
  using SessionFlag_bit_less [of f]
  by (auto simp: SessionFlag_value_def bit_exp_iff)

section \<open>The contract of a flag set\<close>

locale flag_set =
  fixes none :: 's
    and put :: "'f \<Rightarrow> 's \<Rightarrow> 's"
    and drop_flag :: "'f \<Rightarrow> 's \<Rightarrow> 's"
    and mem :: "'s \<Rightarrow> 'f \<Rightarrow> bool"
  assumes mem_none: "\<not> mem none f"
    and mem_put: "mem (put f s) g \<longleftrightarrow> f = g \<or> mem s g"
    and mem_drop: "mem (drop_flag f s) g \<longleftrightarrow> f \<noteq> g \<and> mem s g"
begin

lemma mem_put_all: "mem (fold put fs s) g \<longleftrightarrow> g \<in> set fs \<or> mem s g"
  by (induction fs arbitrary: s) (auto simp: mem_put)

lemma mem_drop_all: "mem (fold drop_flag fs s) g \<longleftrightarrow> g \<notin> set fs \<and> mem s g"
  by (induction fs arbitrary: s) (auto simp: mem_drop)

end

interpretation session_flags: flag_set DFlags_empty set_flag clear_flag has_flag
proof unfold_locales
  fix f g :: SessionFlag and s :: SessionFlags
  show "\<not> has_flag DFlags_empty f"
    by (simp add: has_flag_bit DFlags_empty_def)
  show "has_flag (set_flag f s) g \<longleftrightarrow> f = g \<or> has_flag s g"
    by (auto simp: has_flag_bit set_flag_def flags_set_def bit_or_iff bit_flag_value)
  show "has_flag (clear_flag f s) g \<longleftrightarrow> f \<noteq> g \<and> has_flag s g"
    using SessionFlag_bit_less [of g]
    by (auto simp: has_flag_bit clear_flag_def flags_clear_def bit_and_iff bit_not_iff
        bit_flag_value)
qed

lemmas session_flag_simps [simp] =
  session_flags.mem_none session_flags.mem_put session_flags.mem_drop

lemma flags_bool_set_flag [simp]: "flags_bool (set_flag f s)"
proof -
  have "bit (m_value (set_flag f s)) (SessionFlag_bit f)"
    by (simp flip: has_flag_bit)
  then show ?thesis by (auto simp: flags_bool_def)
qed

lemma flags_bool_empty [simp]: "\<not> flags_bool DFlags_empty"
  by (simp add: flags_bool_def DFlags_empty_def)

end
