(* ===== verification/Game_State.thy ===== *)
theory Game_State
  imports Game_Data Flags
begin

text \<open>
  \<^verbatim>\<open>source/game_state_impl.{h,cpp}\<close>: the game state behind the public API. It owns the current and
  the last submitted game data and talks to the network layer through \<^verbatim>\<open>NetBase\<close>.

  The virtual functions of \<^verbatim>\<open>NetBase\<close> that it calls are the constructors of \<open>net_call\<close>; the state
  records them in call order in the field \<open>calls\<close>. What the code reads from outside (the
  authentication status and the two clocks) is the record \<open>Env\<close>. The closure that
  \<^verbatim>\<open>startGame\<close> hands to \<^verbatim>\<open>sessionCreate\<close> runs later, on a worker thread: it is the operation
  \<open>OpSessionCreated\<close>, which may come at any time after a start.
\<close>

datatype NfcLedMode = LedIdle | LedGameSession

text \<open>
  A callback of the application is the closure that the C API builds around a C function pointer
  (\<open>None\<close> for a null pointer) and its user data; both are numbers that name them.
\<close>

record reply_bridge =
  br_cb :: "nat option"
  br_user_data :: nat

type_synonym HttpHeaders = "(string \<times> string) list"

datatype net_call =
    CallSetProbesManager
  | CallAuthenticate
  | CallSetNfcLeds NfcLedMode
  | CallSessionCreate GameData GameStartOrigin
  | CallSubmitGameData GameData SessionFlags
  | CallCancelModeExpiryTimer
  | CallScheduleDelayedOnWorker duration
  | CallSetCapabilities u32
  | CallSetCreditsDropped int string bool
  | CallSetCreditsStatus bool int int string
  | CallRequestTopScores LeaderboardScope LeaderboardPeriod string LeaderboardVpinFilter reply_bridge
  | CallRequestPairCode reply_bridge
  | CallRequestUnpair reply_bridge
  | CallRequestPairMachine string string reply_bridge
  | CallDownload bool reply_bridge string string HttpHeaders
  | CallDownloadBuffer bool reply_bridge string nat HttpHeaders
  | CallUploadDiagnostics "string list" "string list" string

record Env =
  net_status :: AuthStatus
  sys_now :: time_point
  steady_now :: time_point

record GameStateImpl =
  m_data :: GameData
  m_prevData :: GameData
  m_sessionId :: int
  m_postModeExpiryToCApi :: bool
  calls :: "net_call list"

definition emit :: "net_call list \<Rightarrow> GameStateImpl \<Rightarrow> GameStateImpl" where
  "emit cs s = s\<lparr>calls := calls s @ cs\<rparr>"

definition upd_data :: "(GameData \<Rightarrow> GameData) \<Rightarrow> GameStateImpl \<Rightarrow> GameStateImpl" where
  "upd_data f s = s\<lparr>m_data := f (m_data s)\<rparr>"

definition GameStateImpl_new :: GameStateImpl where
  "GameStateImpl_new =
     \<lparr>m_data = GameData_empty, m_prevData = GameData_empty, m_sessionId = 0,
      m_postModeExpiryToCApi = False,
      calls = [CallSetNfcLeds LedIdle, CallSetProbesManager, CallAuthenticate]\<rparr>"

definition isPlayerValid :: "sb_player_t \<Rightarrow> bool" where
  "isPlayerValid player \<longleftrightarrow> 1 \<le> player \<and> player \<le> 9"

definition isBallValid :: "sb_ball_t \<Rightarrow> bool" where
  "isBallValid b \<longleftrightarrow> 1 \<le> b \<and> b \<le> 9"

definition isChanged :: "GameStateImpl \<Rightarrow> bool" where
  "isChanged s \<longleftrightarrow> \<not> GameData_eq (m_data s) (m_prevData s)"

section \<open>Submitting\<close>

text \<open>The extra submission for a bonus of the previous active player, if the code makes one.\<close>

definition bonus_submission :: "GameData \<Rightarrow> GameData \<Rightarrow> (GameData \<times> SessionFlags) option" where
  "bonus_submission prev data =
     (if activePlayer prev \<noteq> activePlayer data then
        let prevActivePlayer = activePlayer prev in
        if prevActivePlayer \<noteq> 0 \<and> smap_count prevActivePlayer (players prev) \<noteq> 0
           \<and> smap_count prevActivePlayer (players data) \<noteq> 0 then
          (case (map_of (players prev) prevActivePlayer, map_of (players data) prevActivePlayer) of
             (Some p, Some c) \<Rightarrow>
               if m_score p \<noteq> m_score c then
                 Some (data\<lparr>activePlayer := prevActivePlayer, ball := ball prev\<rparr>,
                       set_flag UploadHistoryLogs DFlags_empty)
               else None
           | _ \<Rightarrow> None)
        else None
      else None)"

definition session_flags_for :: "GameData \<Rightarrow> GameData \<Rightarrow> bool \<Rightarrow> SessionFlags" where
  "session_flags_for prev data bonusScoreSubmitted =
     (let isGameJustStarted = (\<not> isGameActive prev \<and> isGameActive data);
          isGameJustFinished = (isGameActive prev \<and> \<not> isGameActive data);
          isActivePlayerChanged = (activePlayer prev \<noteq> activePlayer data);
          isBallChanged = (ball prev \<noteq> ball data);
          isPlayersNumberChanged = (length (players prev) \<noteq> length (players data));
          hasToUploadSessionLogs =
            (\<not> bonusScoreSubmitted \<and> \<not> isGameJustStarted
             \<and> (isActivePlayerChanged \<or> isBallChanged \<or> isGameJustFinished));
          hasToUpdateSession = (hasToUploadSessionLogs \<or> isPlayersNumberChanged);
          flags = DFlags_empty
      in if hasToUpdateSession then
           let flags = (if hasToUploadSessionLogs then set_flag UploadHistoryLogs flags else flags)
           in if isPlayersNumberChanged then set_flag PlayersAdd flags else flags
         else flags)"

definition submitGameData :: "bool \<Rightarrow> Env \<Rightarrow> GameStateImpl \<Rightarrow> GameStateImpl" where
  "submitGameData forceSending e s =
     (if net_status e = AuthenticationFailed then s
      else if isChanged s \<or> forceSending then
        let s = upd_data (timestamp_update (\<lambda>_. sys_now e)) s;
            bonus = bonus_submission (m_prevData s) (m_data s);
            flags = session_flags_for (m_prevData s) (m_data s) (bonus \<noteq> None);
            s = (case bonus of None \<Rightarrow> s
                 | Some (tempData, tempFlags) \<Rightarrow> emit [CallSubmitGameData tempData tempFlags] s);
            s = emit [CallSubmitGameData (m_data s) flags] s
        in s\<lparr>m_prevData := m_data s\<rparr>
      else s)"

section \<open>Mode expiry timer\<close>

definition rescheduleModeExpiryTimer :: "Env \<Rightarrow> GameStateImpl \<Rightarrow> GameStateImpl" where
  "rescheduleModeExpiryTimer e s =
     (if \<not> m_postModeExpiryToCApi s then s
      else case nextExpiryDelay (steady_now e) (modes (m_data s)) of
             None \<Rightarrow> emit [CallCancelModeExpiryTimer] s
           | Some delay \<Rightarrow> emit [CallScheduleDelayedOnWorker delay] s)"

definition clearModeExpirySchedule :: "GameStateImpl \<Rightarrow> GameStateImpl" where
  "clearModeExpirySchedule s =
     emit [CallCancelModeExpiryTimer] (upd_data (modes_update clearExpiries) s)"

section \<open>Operations\<close>

definition addNewPlayer :: "sb_player_t \<Rightarrow> GameStateImpl \<Rightarrow> GameStateImpl" where
  "addNewPlayer player s =
     (if smap_count player (players (m_data s)) \<noteq> 0 then s
      else upd_data (players_update (smap_emplace player (PlayerState_new player 0))) s)"

definition setCurrentBall :: "sb_ball_t \<Rightarrow> GameStateImpl \<Rightarrow> GameStateImpl" where
  "setCurrentBall b s =
     (if \<not> isGameActive (m_data s) then s
      else if \<not> isBallValid b then s
      else upd_data (ball_update (\<lambda>_. b)) s)"

definition setActivePlayer :: "sb_player_t \<Rightarrow> GameStateImpl \<Rightarrow> GameStateImpl" where
  "setActivePlayer player s =
     (if \<not> isGameActive (m_data s) then s
      else if \<not> isPlayerValid player then s
      else let s = (if smap_count player (players (m_data s)) = 0 then addNewPlayer player s else s)
           in upd_data (activePlayer_update (\<lambda>_. player)) s)"

text \<open>
  \<^verbatim>\<open>players.at(player)\<close> throws for an absent player; the branch \<open>None\<close> is that throw, which the
  insertion before it rules out (lemma \<open>setScore_at\<close>).
\<close>

definition setScore ::
  "sb_player_t \<Rightarrow> sb_score_t \<Rightarrow> sb_score_feature_t \<Rightarrow> GameStateImpl \<Rightarrow> GameStateImpl" where
  "setScore player score feature s =
     (if \<not> isGameActive (m_data s) then s
      else if \<not> isPlayerValid player then s
      else let s = (if smap_count player (players (m_data s)) = 0 then addNewPlayer player s else s)
           in case map_of (players (m_data s)) player of
                None \<Rightarrow> s
              | Some p \<Rightarrow>
                  upd_data (players_update (smap_put player (PlayerState_setScore score feature p))) s)"

definition addMode :: "string \<Rightarrow> GameStateImpl \<Rightarrow> GameStateImpl" where
  "addMode mode s =
     (if \<not> isGameActive (m_data s) then s else upd_data (modes_update (Modes_addMode mode)) s)"

definition setModeExpiryPoster :: "bool \<Rightarrow> GameStateImpl \<Rightarrow> GameStateImpl" where
  "setModeExpiryPoster callable s = s\<lparr>m_postModeExpiryToCApi := callable\<rparr>"

definition addModeExpiring :: "string \<Rightarrow> u32 \<Rightarrow> Env \<Rightarrow> GameStateImpl \<Rightarrow> GameStateImpl" where
  "addModeExpiring mode duration_seconds e s =
     (if \<not> isGameActive (m_data s) then s
      else rescheduleModeExpiryTimer e
             (upd_data (modes_update (Modes_addModeExpiring mode duration_seconds (steady_now e))) s))"

definition tickModeExpiries :: "Env \<Rightarrow> GameStateImpl \<Rightarrow> GameStateImpl" where
  "tickModeExpiries e s =
     (if \<not> isGameActive (m_data s) then clearModeExpirySchedule s
      else rescheduleModeExpiryTimer e (upd_data (modes_update (tickExpiries (steady_now e))) s))"

definition removeMode :: "string \<Rightarrow> Env \<Rightarrow> GameStateImpl \<Rightarrow> GameStateImpl" where
  "removeMode mode e s =
     (if \<not> isGameActive (m_data s) then s
      else let hadExpiry = hasExpiryDeadlines (modes (m_data s));
               s = upd_data (modes_update (Modes_removeMode mode)) s
           in if hadExpiry then rescheduleModeExpiryTimer e s else s)"

definition clearModes :: "GameStateImpl \<Rightarrow> GameStateImpl" where
  "clearModes s =
     (if \<not> isGameActive (m_data s) then s
      else emit [CallCancelModeExpiryTimer] (upd_data (modes_update Modes_clear) s))"

definition commit :: "Env \<Rightarrow> GameStateImpl \<Rightarrow> GameStateImpl" where
  "commit e s = (if isGameActive (m_data s) then submitGameData False e s else s)"

definition setGameFinished :: "Env \<Rightarrow> GameStateImpl \<Rightarrow> GameStateImpl" where
  "setGameFinished e s =
     (if \<not> isGameActive (m_data s) then s
      else let s = clearModeExpirySchedule s;
               s = emit [CallSetNfcLeds LedIdle] s;
               s = upd_data (isGameActive_update (\<lambda>_. False)) s;
               s = submitGameData False e s
           in s\<lparr>m_data := GameData_empty\<rparr>)"

fun add_players :: "nat \<Rightarrow> GameStateImpl \<Rightarrow> GameStateImpl" where
  "add_players 0 s = s"
| "add_players (Suc n) s = addNewPlayer (of_nat (Suc n)) (add_players n s)"

definition startGame :: "nat \<Rightarrow> GameStartOrigin \<Rightarrow> Env \<Rightarrow> GameStateImpl \<Rightarrow> bool \<times> GameStateImpl" where
  "startGame playersCount origin e s =
     (if isGameActive (m_data s) then (False, s)
      else if net_status e = AuthenticationFailed then (False, s)
      else let s = emit [CallSetNfcLeds LedGameSession] s;
               s = clearModeExpirySchedule s;
               s = s\<lparr>m_data := GameData_empty, m_prevData := GameData_empty\<rparr>;
               s = s\<lparr>m_sessionId := m_sessionId s + 1\<rparr>;
               s = upd_data (\<lambda>d. d\<lparr>gd_id := m_sessionId s, isGameActive := True\<rparr>) s;
               s = add_players playersCount s;
               s = setCurrentBall 1 s;
               s = setActivePlayer 1 s;
               s = upd_data (timestamp_update (\<lambda>_. sys_now e)) s
           in (True, emit [CallSessionCreate (m_data s) origin] s))"

definition setGameStarted :: "GameStartOrigin \<Rightarrow> Env \<Rightarrow> GameStateImpl \<Rightarrow> GameStateImpl" where
  "setGameStarted origin e s = snd (startGame 1 origin e s)"

section \<open>Operations of the network layer offered through the game state\<close>

definition gs_setCapabilities :: "u32 \<Rightarrow> GameStateImpl \<Rightarrow> GameStateImpl" where
  "gs_setCapabilities capabilities = emit [CallSetCapabilities capabilities]"

definition gs_setCreditsDropped :: "int \<Rightarrow> string \<Rightarrow> bool \<Rightarrow> GameStateImpl \<Rightarrow> GameStateImpl" where
  "gs_setCreditsDropped credits transaction success = emit [CallSetCreditsDropped credits transaction success]"

definition gs_setCreditsStatus :: "bool \<Rightarrow> int \<Rightarrow> int \<Rightarrow> string \<Rightarrow> GameStateImpl \<Rightarrow> GameStateImpl" where
  "gs_setCreditsStatus freePlay credits maxCredits pricing =
     emit [CallSetCreditsStatus freePlay credits maxCredits pricing]"

definition gs_requestTopScores ::
  "LeaderboardScope \<Rightarrow> LeaderboardPeriod \<Rightarrow> string \<Rightarrow> LeaderboardVpinFilter \<Rightarrow> reply_bridge \<Rightarrow> GameStateImpl \<Rightarrow> GameStateImpl" where
  "gs_requestTopScores scope period since vpinFilter callback =
     emit [CallRequestTopScores scope period since vpinFilter callback]"

definition gs_requestPairCode :: "reply_bridge \<Rightarrow> GameStateImpl \<Rightarrow> GameStateImpl" where
  "gs_requestPairCode callback = emit [CallRequestPairCode callback]"

definition gs_requestUnpair :: "reply_bridge \<Rightarrow> GameStateImpl \<Rightarrow> GameStateImpl" where
  "gs_requestUnpair callback = emit [CallRequestUnpair callback]"

definition gs_requestPairMachine :: "string \<Rightarrow> string \<Rightarrow> reply_bridge \<Rightarrow> GameStateImpl \<Rightarrow> GameStateImpl" where
  "gs_requestPairMachine machineUuid ownerUuid callback = emit [CallRequestPairMachine machineUuid ownerUuid callback]"

definition gs_download :: "reply_bridge \<Rightarrow> string \<Rightarrow> string \<Rightarrow> HttpHeaders \<Rightarrow> GameStateImpl \<Rightarrow> GameStateImpl" where
  "gs_download callback url filename headers = emit [CallDownload True callback url filename headers]"

definition gs_downloadBuffer :: "reply_bridge \<Rightarrow> string \<Rightarrow> nat \<Rightarrow> HttpHeaders \<Rightarrow> GameStateImpl \<Rightarrow> GameStateImpl" where
  "gs_downloadBuffer callback url reserveBufferSize headers =
     emit [CallDownloadBuffer True callback url reserveBufferSize headers]"

definition gs_uploadDiagnostics :: "string list \<Rightarrow> string list \<Rightarrow> string \<Rightarrow> GameStateImpl \<Rightarrow> GameStateImpl" where
  "gs_uploadDiagnostics logPaths recordingPaths logString =
     emit [CallUploadDiagnostics logPaths recordingPaths logString]"

lemmas gs_forward_defs = gs_setCapabilities_def gs_setCreditsDropped_def gs_setCreditsStatus_def
  gs_requestTopScores_def gs_requestPairCode_def gs_requestUnpair_def gs_requestPairMachine_def
  gs_download_def gs_downloadBuffer_def gs_uploadDiagnostics_def

section \<open>Runs\<close>

datatype gs_op =
    OpGameStarted GameStartOrigin
  | OpGameFinished
  | OpCurrentBall sb_ball_t
  | OpActivePlayer sb_player_t
  | OpScore sb_player_t sb_score_t sb_score_feature_t
  | OpAddMode string
  | OpAddModeExpiring string u32
  | OpRemoveMode string
  | OpClearModes
  | OpTickModeExpiries
  | OpSetPoster bool
  | OpCommit
  | OpSessionCreated
  | OpCapabilities u32
  | OpCreditsDropped int string bool
  | OpCreditsStatus bool int int string
  | OpTopScores LeaderboardScope LeaderboardPeriod string LeaderboardVpinFilter reply_bridge
  | OpPairCode reply_bridge
  | OpUnpair reply_bridge
  | OpPairMachine string string reply_bridge
  | OpDownload reply_bridge string string HttpHeaders
  | OpDownloadBuffer reply_bridge string nat HttpHeaders
  | OpUploadDiagnostics "string list" "string list" string

fun gs_step :: "gs_op \<Rightarrow> Env \<Rightarrow> GameStateImpl \<Rightarrow> GameStateImpl" where
  "gs_step (OpGameStarted origin) e s = setGameStarted origin e s"
| "gs_step OpGameFinished e s = setGameFinished e s"
| "gs_step (OpCurrentBall b) e s = setCurrentBall b s"
| "gs_step (OpActivePlayer p) e s = setActivePlayer p s"
| "gs_step (OpScore p sc f) e s = setScore p sc f s"
| "gs_step (OpAddMode m) e s = addMode m s"
| "gs_step (OpAddModeExpiring m d) e s = addModeExpiring m d e s"
| "gs_step (OpRemoveMode m) e s = removeMode m e s"
| "gs_step OpClearModes e s = clearModes s"
| "gs_step OpTickModeExpiries e s = tickModeExpiries e s"
| "gs_step (OpSetPoster b) e s = setModeExpiryPoster b s"
| "gs_step OpCommit e s = commit e s"
| "gs_step OpSessionCreated e s = submitGameData True e s"
| "gs_step (OpCapabilities c) e s = gs_setCapabilities c s"
| "gs_step (OpCreditsDropped c t ok) e s = gs_setCreditsDropped c t ok s"
| "gs_step (OpCreditsStatus fp c mx pr) e s = gs_setCreditsStatus fp c mx pr s"
| "gs_step (OpTopScores sc per since vp cb) e s = gs_requestTopScores sc per since vp cb s"
| "gs_step (OpPairCode cb) e s = gs_requestPairCode cb s"
| "gs_step (OpUnpair cb) e s = gs_requestUnpair cb s"
| "gs_step (OpPairMachine mu ou cb) e s = gs_requestPairMachine mu ou cb s"
| "gs_step (OpDownload cb url f hs) e s = gs_download cb url f hs s"
| "gs_step (OpDownloadBuffer cb url n hs) e s = gs_downloadBuffer cb url n hs s"
| "gs_step (OpUploadDiagnostics ls rs txt) e s = gs_uploadDiagnostics ls rs txt s"

inductive gs_reachable :: "GameStateImpl \<Rightarrow> bool" where
  gs_new: "gs_reachable GameStateImpl_new"
| gs_op: "gs_reachable s \<Longrightarrow> gs_reachable (gs_step op e s)"

fun gs_run :: "(gs_op \<times> Env) list \<Rightarrow> GameStateImpl \<Rightarrow> GameStateImpl" where
  "gs_run [] s = s"
| "gs_run ((op, e) # ops) s = gs_run ops (gs_step op e s)"

end
