(* ===== verification/Game_State_Props.thy ===== *)
theory Game_State_Props
  imports Game_State
begin

text \<open>
  What the game state guarantees to its callers and to the network layer: the invariant of every
  reachable state, what a submission contains, and the order of the calls it makes.
\<close>

section \<open>Frame lemmas\<close>

lemma emit_simps [simp, frame_simps]:
  "m_data (emit cs s) = m_data s"
  "m_prevData (emit cs s) = m_prevData s"
  "m_sessionId (emit cs s) = m_sessionId s"
  "m_postModeExpiryToCApi (emit cs s) = m_postModeExpiryToCApi s"
  "calls (emit cs s) = calls s @ cs"
  by (simp_all add: emit_def)

lemma upd_data_simps [simp, frame_simps]:
  "m_data (upd_data f s) = f (m_data s)"
  "m_prevData (upd_data f s) = m_prevData s"
  "m_sessionId (upd_data f s) = m_sessionId s"
  "m_postModeExpiryToCApi (upd_data f s) = m_postModeExpiryToCApi s"
  "calls (upd_data f s) = calls s"
  by (simp_all add: upd_data_def)

lemma reschedule_frame [simp, frame_simps]:
  "m_data (rescheduleModeExpiryTimer e s) = m_data s"
  "m_prevData (rescheduleModeExpiryTimer e s) = m_prevData s"
  "m_sessionId (rescheduleModeExpiryTimer e s) = m_sessionId s"
  by (simp_all add: rescheduleModeExpiryTimer_def split: option.split)

lemma clearModeExpirySchedule_frame [simp, frame_simps]:
  "m_data (clearModeExpirySchedule s) = modes_update clearExpiries (m_data s)"
  "m_prevData (clearModeExpirySchedule s) = m_prevData s"
  "m_sessionId (clearModeExpirySchedule s) = m_sessionId s"
  "calls (clearModeExpirySchedule s) = calls s @ [CallCancelModeExpiryTimer]"
  by (simp_all add: clearModeExpirySchedule_def)

section \<open>Invariant\<close>

definition players_ok :: "(sb_player_t \<times> PlayerState) list \<Rightarrow> bool" where
  "players_ok ps \<longleftrightarrow> smap_wf ps \<and> (\<forall>(k, p) \<in> set ps. isPlayerValid k \<and> m_player p = k)"

definition data_ok :: "GameData \<Rightarrow> bool" where
  "data_ok d \<longleftrightarrow> Modes_inv (modes d) \<and> players_ok (players d) \<and> isBallValid (ball d) \<and>
     activePlayer d \<in> fst ` set (players d)"

text \<open>
  While a game is on, its data is well formed, carries the current session id, and what was last
  submitted is either data of a running game or nothing yet. Between games the data is blank, up
  to the time stamp.
\<close>

definition gs_inv :: "GameStateImpl \<Rightarrow> bool" where
  "gs_inv s \<longleftrightarrow> 0 \<le> m_sessionId s \<and>
     (if isGameActive (m_data s)
      then data_ok (m_data s) \<and> gd_id (m_data s) = m_sessionId s \<and> 0 < m_sessionId s \<and>
           (isGameActive (m_prevData s) \<or> m_prevData s = GameData_empty)
      else \<exists>t. m_data s = GameData_empty\<lparr>timestamp := t\<rparr>)"

lemma players_ok_emplace:
  "players_ok ps \<Longrightarrow> isPlayerValid k \<Longrightarrow> players_ok (smap_emplace k (PlayerState_new k 0) ps)"
  by (auto simp: players_ok_def smap_emplace_def set_smap_put PlayerState_new_def)

lemma players_ok_put:
  "players_ok ps \<Longrightarrow> isPlayerValid k \<Longrightarrow> m_player p = k \<Longrightarrow> players_ok (smap_put k p ps)"
  by (auto simp: players_ok_def set_smap_put)

lemma players_ok_lookup: "players_ok ps \<Longrightarrow> map_of ps k = Some p \<Longrightarrow> m_player p = k"
  by (auto simp: players_ok_def dest: map_of_SomeD)

lemma fst_set_emplace [simp]:
  "fst ` set (smap_emplace k v ps) = insert k (fst ` set ps)"
  by (auto simp: smap_emplace_def map_of_eq_None_iff)

definition with_player :: "sb_player_t \<Rightarrow> GameStateImpl \<Rightarrow> GameStateImpl" where
  "with_player k s = (if smap_count k (players (m_data s)) = 0 then addNewPlayer k s else s)"

lemma with_player_simps [simp]:
  "m_data (with_player k s) = players_update (smap_emplace k (PlayerState_new k 0)) (m_data s)"
  "m_prevData (with_player k s) = m_prevData s"
  "m_sessionId (with_player k s) = m_sessionId s"
  "calls (with_player k s) = calls s"
  by (simp_all add: with_player_def addNewPlayer_def smap_emplace_def map_of_eq_None_iff)

lemma setScore_at: "\<exists>p. map_of (players (m_data (with_player k s))) k = Some p"
proof -
  have "k \<in> fst ` set (players (m_data (with_player k s)))" by simp
  then show ?thesis by (metis map_of_eq_None_iff not_None_eq)
qed

lemma setActivePlayer_alt:
  "setActivePlayer k s =
     (if isGameActive (m_data s) \<and> isPlayerValid k
      then upd_data (activePlayer_update (\<lambda>_. k)) (with_player k s) else s)"
  by (simp add: setActivePlayer_def with_player_def Let_def)

lemma setScore_alt:
  "setScore k sc f s =
     (if isGameActive (m_data s) \<and> isPlayerValid k
      then upd_data (players_update (smap_put k (PlayerState_setScore sc f
             (the (map_of (players (m_data (with_player k s))) k))))) (with_player k s) else s)"
proof -
  obtain p where "map_of (players (m_data (with_player k s))) k = Some p"
    using setScore_at by blast
  moreover have "setScore k sc f s =
     (if \<not> isGameActive (m_data s) then s else if \<not> isPlayerValid k then s
      else case map_of (players (m_data (with_player k s))) k of
        None \<Rightarrow> with_player k s
      | Some p \<Rightarrow> upd_data (players_update (smap_put k (PlayerState_setScore sc f p)))
          (with_player k s))"
    by (simp only: setScore_def Let_def with_player_def)
  ultimately show ?thesis by (simp del: with_player_simps)
qed

section \<open>Every operation keeps the invariant\<close>

lemma gs_inv_new: "gs_inv GameStateImpl_new"
  by (simp add: gs_inv_def GameStateImpl_new_def GameData_empty_def)

lemma gs_invI_active:
  assumes "isGameActive (m_data s)" "data_ok (m_data s)" "gd_id (m_data s) = m_sessionId s"
    "0 < m_sessionId s" "isGameActive (m_prevData s) \<or> m_prevData s = GameData_empty"
  shows "gs_inv s"
  using assms by (simp add: gs_inv_def)

lemma gs_inv_activeD:
  assumes "gs_inv s" "isGameActive (m_data s)"
  shows "data_ok (m_data s)" "gd_id (m_data s) = m_sessionId s" "0 < m_sessionId s"
    "isGameActive (m_prevData s) \<or> m_prevData s = GameData_empty"
  using assms by (simp_all add: gs_inv_def)

text \<open>An operation that only edits the data of a running game keeps the invariant if the data stays
  well formed.\<close>

lemma gs_inv_edit:
  assumes "gs_inv s" "isGameActive (m_data s)"
    and "m_prevData s' = m_prevData s" "m_sessionId s' = m_sessionId s"
    and "isGameActive (m_data s')" "gd_id (m_data s') = gd_id (m_data s)" "data_ok (m_data s')"
  shows "gs_inv s'"
  using assms gs_inv_activeD [OF assms(1,2)] by (simp add: gs_inv_def)

lemma data_ok_modes: "data_ok d \<Longrightarrow> Modes_inv (f (modes d)) \<Longrightarrow> data_ok (modes_update f d)"
  by (simp add: data_ok_def)

lemma data_okD: "data_ok d \<Longrightarrow> Modes_inv (modes d)" "data_ok d \<Longrightarrow> players_ok (players d)"
  by (simp_all add: data_ok_def)

lemma gs_inv_modes:
  assumes "gs_inv s" "isGameActive (m_data s)"
    and "m_data s' = modes_update f (m_data s)"
    and "m_prevData s' = m_prevData s" "m_sessionId s' = m_sessionId s"
    and "\<And>M. Modes_inv M \<Longrightarrow> Modes_inv (f M)"
  shows "gs_inv s'"
  by (rule gs_inv_edit [OF assms(1,2)])
    (use assms gs_inv_activeD [OF assms(1,2)] in \<open>auto intro!: data_ok_modes dest: data_okD\<close>)

lemma gs_inv_setCurrentBall [inv_intros]:
  assumes "gs_inv s" shows "gs_inv (setCurrentBall b s)"
  using assms gs_inv_activeD [OF assms]
  by (auto simp: setCurrentBall_def data_ok_def intro!: gs_inv_edit [OF assms])

lemma gs_inv_setActivePlayer [inv_intros]:
  assumes "gs_inv s" shows "gs_inv (setActivePlayer k s)"
  using assms gs_inv_activeD [OF assms]
  by (auto simp: setActivePlayer_alt data_ok_def players_ok_emplace intro!: gs_inv_edit [OF assms])

lemma gs_inv_setScore [inv_intros]:
  assumes "gs_inv s" shows "gs_inv (setScore k sc f s)"
proof (cases "isGameActive (m_data s) \<and> isPlayerValid k")
  case True
  let ?ps = "players (m_data (with_player k s))"
  obtain p where p: "map_of ?ps k = Some p" using setScore_at by blast
  have ok: "players_ok ?ps"
    using True gs_inv_activeD [OF assms] by (simp add: data_ok_def players_ok_emplace)
  from players_ok_lookup [OF this p] ok True
  have "players_ok (smap_put k (PlayerState_setScore sc f p) ?ps)"
    by (intro players_ok_put) (simp_all add: PlayerState_setScore_def)
  moreover have "setScore k sc f s =
      upd_data (players_update (smap_put k (PlayerState_setScore sc f p))) (with_player k s)"
    using True p by (simp add: setScore_alt)
  ultimately show ?thesis
    using True gs_inv_activeD [OF assms] by (simp add: gs_inv_edit [OF assms] data_ok_def)
next
  case False
  then have "setScore k sc f s = s" by (auto simp: setScore_alt)
  with assms show ?thesis by simp
qed

lemma gs_inv_addMode [inv_intros]: "gs_inv s \<Longrightarrow> gs_inv (addMode m s)"
  by (auto simp: addMode_def intro: gs_inv_modes Modes_inv_addMode)

lemma gs_inv_addModeExpiring [inv_intros]: "gs_inv s \<Longrightarrow> gs_inv (addModeExpiring m d e s)"
  by (auto simp: addModeExpiring_def intro: gs_inv_modes Modes_inv_addModeExpiring)

lemma gs_inv_removeMode [inv_intros]: "gs_inv s \<Longrightarrow> gs_inv (removeMode m e s)"
  by (auto simp: removeMode_def Let_def intro: gs_inv_modes Modes_inv_removeMode)

lemma gs_inv_clearModes [inv_intros]: "gs_inv s \<Longrightarrow> gs_inv (clearModes s)"
  by (auto simp: clearModes_def intro: gs_inv_modes Modes_inv_clear)

lemma gs_inv_tick [inv_intros]: "gs_inv s \<Longrightarrow> gs_inv (tickModeExpiries e s)"
  by (auto simp: tickModeExpiries_def intro: gs_inv_modes Modes_inv_tickExpiries)
    (auto simp: gs_inv_def GameData_empty_def Modes_empty_def clearExpiries_def)

lemma gs_inv_poster [inv_intros]: "gs_inv s \<Longrightarrow> gs_inv (setModeExpiryPoster b s)"
  by (simp add: gs_inv_def setModeExpiryPoster_def)

lemma submitGameData_frame [simp]:
  "m_sessionId (submitGameData fs e s) = m_sessionId s"
  "isGameActive (m_data (submitGameData fs e s)) = isGameActive (m_data s)"
  "gd_id (m_data (submitGameData fs e s)) = gd_id (m_data s)"
  "data_ok (m_data (submitGameData fs e s)) = data_ok (m_data s)"
  by (auto simp: submitGameData_def Let_def data_ok_def split: option.split)

lemma submitGameData_data:
  "m_data (submitGameData fs e s) = m_data s \<or>
   m_data (submitGameData fs e s) = (m_data s)\<lparr>timestamp := sys_now e\<rparr>"
  by (auto simp: submitGameData_def Let_def split: option.split)

lemma submitGameData_prev:
  "m_prevData (submitGameData fs e s) = m_prevData s \<or>
   m_prevData (submitGameData fs e s) = (m_data s)\<lparr>timestamp := sys_now e\<rparr>"
  by (auto simp: submitGameData_def Let_def split: option.split)

lemma gs_inv_submit [inv_intros]:
  assumes "gs_inv s" shows "gs_inv (submitGameData fs e s)"
proof (cases "isGameActive (m_data s)")
  case True
  with gs_inv_activeD [OF assms True] submitGameData_prev [of fs e s] show ?thesis
    by (intro gs_invI_active) auto
next
  case False
  with assms submitGameData_data [of fs e s] show ?thesis by (auto simp: gs_inv_def)
qed

lemma gs_inv_commit [inv_intros]: "gs_inv s \<Longrightarrow> gs_inv (commit e s)"
  by (simp add: commit_def gs_inv_submit)

lemma gs_inv_finished [inv_intros]: "gs_inv s \<Longrightarrow> gs_inv (setGameFinished e s)"
  by (auto simp: setGameFinished_def gs_inv_def Let_def GameData_empty_def)

text \<open>Starting a game, from blank data: one player, first ball, first player active.\<close>

definition fresh_data :: "int \<Rightarrow> time_point \<Rightarrow> GameData" where
  "fresh_data i t =
     \<lparr>gd_id = i, isGameActive = True, ball = 1, activePlayer = 1,
      players = [(1, PlayerState_new 1 0)], modes = Modes_empty, timestamp = t\<rparr>"

lemma data_ok_fresh: "data_ok (fresh_data i t)"
  by (simp add: data_ok_def fresh_data_def Modes_inv_empty players_ok_def isPlayerValid_def
      isBallValid_def PlayerState_new_def)

lemma setGameStarted_active:
  assumes "\<not> isGameActive (m_data s)" "net_status e \<noteq> AuthenticationFailed"
  shows "setGameStarted origin e s =
    s\<lparr>m_data := fresh_data (m_sessionId s + 1) (sys_now e), m_prevData := GameData_empty,
      m_sessionId := m_sessionId s + 1,
      calls := calls s @ [CallSetNfcLeds LedGameSession, CallCancelModeExpiryTimer,
        CallSessionCreate (fresh_data (m_sessionId s + 1) (sys_now e)) origin]\<rparr>"
  using assms
  by (simp add: setGameStarted_def startGame_def Let_def fresh_data_def GameData_empty_def
      emit_def upd_data_def clearModeExpirySchedule_def addNewPlayer_def setCurrentBall_def
      isBallValid_def setActivePlayer_def isPlayerValid_def smap_emplace_def smap_count_def)

lemma setGameStarted_ignored:
  "isGameActive (m_data s) \<or> net_status e = AuthenticationFailed \<Longrightarrow> setGameStarted origin e s = s"
  by (auto simp: setGameStarted_def startGame_def)

lemma gs_inv_started [inv_intros]:
  assumes "gs_inv s" shows "gs_inv (setGameStarted origin e s)"
proof (cases "isGameActive (m_data s) \<or> net_status e = AuthenticationFailed")
  case True
  with assms show ?thesis by (simp add: setGameStarted_ignored)
next
  case False
  then have "0 \<le> m_sessionId s" using assms by (simp add: gs_inv_def)
  then have "gs_inv (s\<lparr>m_data := fresh_data (m_sessionId s + 1) (sys_now e),
      m_prevData := GameData_empty, m_sessionId := m_sessionId s + 1, calls := cs\<rparr>)" for cs
    by (intro gs_invI_active) (simp_all add: data_ok_fresh, simp_all add: fresh_data_def)
  with False show ?thesis by (simp add: setGameStarted_active)
qed

lemma gs_inv_emit [inv_intros]: "gs_inv s \<Longrightarrow> gs_inv (emit cs s)"
  by (simp add: gs_inv_def)

lemma gs_inv_step: "gs_inv s \<Longrightarrow> gs_inv (gs_step op e s)"
  by (cases op) (simp_all add: inv_intros gs_forward_defs)

lemma reachable_gs_inv: "gs_reachable s \<Longrightarrow> gs_inv s"
  by (induction rule: gs_reachable.induct) (simp_all add: gs_inv_new gs_inv_step)

text \<open>
  C3. Every state the game state can reach is well formed. While a game is on: its mode list is
  free of duplicates, its players are numbered 1 to 9 and stored under their own number, the active
  player exists, the ball is 1 to 9, and the data carries the current session id. Between games the
  data is blank.
\<close>

theorem gs_reachable_inv: "gs_reachable s \<Longrightarrow> gs_inv s"
  by (rule reachable_gs_inv)

lemma gs_run_reachable: "gs_reachable s \<Longrightarrow> gs_reachable (gs_run ops s)"
  by (induction ops s rule: gs_run.induct) (auto intro: gs_op)

definition env_ok :: Env where
  "env_ok = \<lparr>net_status = AuthenticatedPaired, sys_now = 5, steady_now = 0\<rparr>"

definition two_player_game :: GameStateImpl where
  "two_player_game = gs_run [(OpGameStarted StartButton, env_ok), (OpCommit, env_ok),
     (OpScore 1 700 0, env_ok), (OpActivePlayer 2, env_ok)] GameStateImpl_new"

lemmas gs_eval = setGameStarted_active setActivePlayer_def setScore_def addNewPlayer_def commit_def
  submitGameData_def isChanged_def GameData_eq_def Modes_eq_def bonus_submission_def
  session_flags_for_def emit_def upd_data_def isPlayerValid_def isBallValid_def smap_emplace_def
  smap_count_def fresh_data_def GameStateImpl_new_def GameData_empty_def Modes_empty_def env_ok_def
  PlayerState_new_def PlayerState_setScore_def setCurrentBall_def

lemma two_player_game_reachable: "gs_reachable two_player_game"
  unfolding two_player_game_def by (intro gs_run_reachable gs_new)

lemma two_player_game_eval:
  "isGameActive (m_data two_player_game)" "isGameActive (m_prevData two_player_game)"
  "activePlayer (m_data two_player_game) = 2" "activePlayer (m_prevData two_player_game) = 1"
  "map_of (players (m_data two_player_game)) 1 = Some \<lparr>m_score = 700, m_player = 1, m_scoreFeature = 0\<rparr>"
  "map_of (players (m_prevData two_player_game)) 1 = Some \<lparr>m_score = 0, m_player = 1, m_scoreFeature = 0\<rparr>"
  by (simp_all add: two_player_game_def gs_eval)

theorem gs_reachable_inv_witness:
  "gs_inv two_player_game \<and> isGameActive (m_data two_player_game) \<and>
   activePlayer (m_data two_player_game) = 2"
  using gs_reachable_inv [OF two_player_game_reachable] two_player_game_eval by simp

section \<open>Calls are ignored between games\<close>

text \<open>
  As the public header promises, every call that modifies the game is ignored while no game is
  active: the state, and with it every call made to the network layer, is unchanged.
\<close>

theorem ignored_between_games:
  assumes "\<not> isGameActive (m_data s)"
  shows "gs_step OpGameFinished e s = s \<and> gs_step (OpCurrentBall b) e s = s \<and>
    gs_step (OpActivePlayer p) e s = s \<and> gs_step (OpScore p sc f) e s = s \<and>
    gs_step (OpAddMode m) e s = s \<and> gs_step (OpAddModeExpiring m d) e s = s \<and>
    gs_step (OpRemoveMode m) e s = s \<and> gs_step OpClearModes e s = s \<and>
    gs_step OpCommit e s = s"
  using assms
  by (simp add: setGameFinished_def setCurrentBall_def setActivePlayer_def setScore_def addMode_def
      addModeExpiring_def removeMode_def clearModes_def commit_def)

theorem ignored_between_games_witness:
  "\<not> isGameActive (m_data GameStateImpl_new) \<and>
   gs_step (OpScore 1 700 0) env_ok GameStateImpl_new = GameStateImpl_new"
proof -
  have "\<not> isGameActive (m_data GameStateImpl_new)"
    by (simp add: GameStateImpl_new_def GameData_empty_def)
  with ignored_between_games [OF this, of env_ok 1 1 700 0 "[]" 0] show ?thesis by simp
qed

section \<open>Submissions\<close>

definition submissions :: "net_call list \<Rightarrow> (GameData \<times> SessionFlags) list" where
  "submissions cs = List.map_filter
     (\<lambda>c. case c of CallSubmitGameData d f \<Rightarrow> Some (d, f) | _ \<Rightarrow> None) cs"

definition creations :: "net_call list \<Rightarrow> int list" where
  "creations cs = List.map_filter
     (\<lambda>c. case c of CallSessionCreate d _ \<Rightarrow> Some (gd_id d) | _ \<Rightarrow> None) cs"

lemma submissions_simps [simp]:
  "submissions [] = []"
  "submissions (c # cs) = (case c of CallSubmitGameData d f \<Rightarrow> [(d, f)] | _ \<Rightarrow> []) @ submissions cs"
  "submissions (xs @ ys) = submissions xs @ submissions ys"
  by (simp_all add: submissions_def map_filter_def split: net_call.split)

lemma creations_simps [simp]:
  "creations [] = []"
  "creations (c # cs) = (case c of CallSessionCreate d _ \<Rightarrow> [gd_id d] | _ \<Rightarrow> []) @ creations cs"
  "creations (xs @ ys) = creations xs @ creations ys"
  by (simp_all add: creations_def map_filter_def split: net_call.split)

lemma submit_sends:
  assumes "net_status e \<noteq> AuthenticationFailed" "isChanged s \<or> fs"
  shows "\<exists>bonus. submissions (calls (submitGameData fs e s)) = submissions (calls s) @ bonus @
      [((m_data s)\<lparr>timestamp := sys_now e\<rparr>,
        session_flags_for (m_prevData s) ((m_data s)\<lparr>timestamp := sys_now e\<rparr>) (bonus \<noteq> []))] \<and>
    bonus = (case bonus_submission (m_prevData s) ((m_data s)\<lparr>timestamp := sys_now e\<rparr>) of
               None \<Rightarrow> [] | Some x \<Rightarrow> [x])"
  using assms by (auto simp: submitGameData_def Let_def split: option.split)

text \<open>
  C5. A commit transmits the game exactly when it changed. If the game is on, the device is not
  barred and something changed since the last submission, the last thing submitted is the current
  data; afterwards nothing counts as changed, so committing again makes no call at all.
\<close>

theorem commit_once:
  assumes "isGameActive (m_data s)" "net_status e \<noteq> AuthenticationFailed"
  shows "\<not> isChanged (commit e s) \<and> calls (commit e' (commit e s)) = calls (commit e s) \<and>
    (isChanged s \<longrightarrow> GameData_eq (fst (last (submissions (calls (commit e s))))) (m_data s) \<and>
       submissions (calls s) \<noteq> submissions (calls (commit e s))) \<and>
    (\<not> isChanged s \<longrightarrow> calls (commit e s) = calls s)"
proof -
  have unchanged: "\<not> isChanged (commit e s)"
    using assms by (auto simp: commit_def submitGameData_def Let_def isChanged_def split: option.split)
  moreover have "calls (commit e' t) = calls t" if "\<not> isChanged t" for e' t
    using that by (simp add: commit_def submitGameData_def)
  moreover have "GameData_eq (fst (last (submissions (calls (commit e s))))) (m_data s) \<and>
      submissions (calls s) \<noteq> submissions (calls (commit e s))" if "isChanged s"
    using submit_sends [OF assms(2), of s False] that assms(1) by (auto simp: commit_def)
  ultimately show ?thesis by simp
qed

theorem commit_once_witness:
  "isChanged two_player_game \<and> \<not> isChanged (commit env_ok two_player_game)"
proof -
  have "net_status env_ok \<noteq> AuthenticationFailed" by (simp add: env_ok_def)
  with commit_once [OF two_player_game_eval(1) this, of env_ok] show ?thesis
    using two_player_game_eval by (simp add: isChanged_def GameData_eq_def)
qed

text \<open>
  C6. When the active player changes and the score of the player before changed as well (an end of
  ball bonus), the commit makes two submissions: first the bonus, under the previous player and the
  previous ball, with the request to upload the history; then the current data, without that
  request. Both carry all scores of the current data.
\<close>

theorem bonus_two_submissions:
  assumes "isGameActive (m_data s)" "net_status e \<noteq> AuthenticationFailed"
    and "activePlayer (m_prevData s) \<noteq> activePlayer (m_data s)" "activePlayer (m_prevData s) \<noteq> 0"
    and "map_of (players (m_prevData s)) (activePlayer (m_prevData s)) = Some p"
    and "map_of (players (m_data s)) (activePlayer (m_prevData s)) = Some c"
    and "m_score p \<noteq> m_score c"
  shows "\<exists>d1 f1 d2 f2. submissions (calls (commit e s)) = submissions (calls s) @ [(d1, f1), (d2, f2)] \<and>
    activePlayer d1 = activePlayer (m_prevData s) \<and> ball d1 = ball (m_prevData s) \<and>
    players d1 = players (m_data s) \<and> has_flag f1 UploadHistoryLogs \<and>
    GameData_eq d2 (m_data s) \<and> \<not> has_flag f2 UploadHistoryLogs"
proof -
  let ?d = "(m_data s)\<lparr>timestamp := sys_now e\<rparr>"
  have "isChanged s" using assms(3) by (simp add: isChanged_def GameData_eq_def)
  moreover have "bonus_submission (m_prevData s) ?d =
      Some (?d\<lparr>activePlayer := activePlayer (m_prevData s), ball := ball (m_prevData s)\<rparr>,
            set_flag UploadHistoryLogs DFlags_empty)"
    using assms by (simp add: bonus_submission_def smap_count_def Let_def)
  ultimately have "submissions (calls (commit e s)) = submissions (calls s) @
      [(?d\<lparr>activePlayer := activePlayer (m_prevData s), ball := ball (m_prevData s)\<rparr>,
        set_flag UploadHistoryLogs DFlags_empty), (?d, session_flags_for (m_prevData s) ?d True)]"
    using submit_sends [OF assms(2), of s False] assms(1) by (simp add: commit_def)
  moreover have "\<not> has_flag (session_flags_for (m_prevData s) ?d True) UploadHistoryLogs"
    by (simp add: session_flags_for_def Let_def)
  ultimately show ?thesis by force
qed

theorem bonus_two_submissions_witness:
  "\<exists>d1 f1 d2 f2. submissions (calls (commit env_ok two_player_game)) =
      submissions (calls two_player_game) @ [(d1, f1), (d2, f2)] \<and> activePlayer d1 = 1 \<and>
    has_flag f1 UploadHistoryLogs \<and> GameData_eq d2 (m_data two_player_game)"
proof -
  have e: "net_status env_ok \<noteq> AuthenticationFailed" by (simp add: env_ok_def)
  show ?thesis
    using bonus_two_submissions [OF two_player_game_eval(1) e, of
        "\<lparr>m_score = 0, m_player = 1, m_scoreFeature = 0\<rparr>"
        "\<lparr>m_score = 700, m_player = 1, m_scoreFeature = 0\<rparr>"] two_player_game_eval by auto
qed

definition finished_data :: "Env \<Rightarrow> GameStateImpl \<Rightarrow> GameData" where
  "finished_data e s = (m_data s)\<lparr>isGameActive := False, modes := clearExpiries (modes (m_data s)), timestamp := sys_now e\<rparr>"

text \<open>A submission of the session that just ended that asks for the upload of its history.\<close>

definition ends_session :: "int \<Rightarrow> GameData \<times> SessionFlags \<Rightarrow> bool" where
  "ends_session sid = (\<lambda>(d, f). gd_id d = sid \<and> \<not> isGameActive d \<and> has_flag f UploadHistoryLogs)"

lemma finish_submissions:
  assumes "gs_reachable s" "isGameActive (m_data s)" "net_status e \<noteq> AuthenticationFailed"
  shows "\<exists>bonus f. submissions (calls (setGameFinished e s)) = submissions (calls s) @ bonus @ [(finished_data e s, f)] \<and>
    length bonus \<le> 1 \<and> list_all (ends_session (m_sessionId s)) bonus \<and>
    gd_id (finished_data e s) = m_sessionId s \<and> \<not> isGameActive (finished_data e s) \<and>
    (bonus = [] \<longrightarrow> has_flag f UploadHistoryLogs)"
proof -
  note inv = gs_inv_activeD [OF reachable_gs_inv [OF assms(1)] assms(2)]
  define t where "t = upd_data (isGameActive_update (\<lambda>_. False))
    (emit [CallSetNfcLeds LedIdle] (clearModeExpirySchedule s))"
  have t: "m_prevData t = m_prevData s" "gd_id (m_data t) = m_sessionId s"
    "\<not> isGameActive (m_data t)" "ball (m_data t) = ball (m_data s)"
    "submissions (calls t) = submissions (calls s)"
    using inv by (simp_all add: t_def)
  have final: "finished_data e s = (m_data t)\<lparr>timestamp := sys_now e\<rparr>"
    by (simp add: finished_data_def t_def clearModeExpirySchedule_def)
  have differs: "isGameActive (m_prevData t) \<or> ball (m_prevData t) \<noteq> ball (m_data t)"
    using inv by (auto simp: t data_ok_def isBallValid_def GameData_empty_def)
  then have "isChanged t" by (auto simp: isChanged_def GameData_eq_def t)
  then obtain bonus where subs: "submissions (calls (submitGameData False e t)) =
      submissions (calls s) @ bonus @ [(finished_data e s,
        session_flags_for (m_prevData t) (finished_data e s) (bonus \<noteq> []))]"
    and bonus: "bonus = (case bonus_submission (m_prevData t) (finished_data e s) of None \<Rightarrow> [] | Some x \<Rightarrow> [x])"
    using submit_sends [OF assms(3), of t False] by (auto simp: t(5) final)
  have "list_all (ends_session (m_sessionId s)) bonus" "length bonus \<le> 1"
    using t unfolding bonus final
    by (auto simp: ends_session_def bonus_submission_def Let_def split: option.splits if_splits)
  moreover have "has_flag (session_flags_for (m_prevData t) (finished_data e s) False) UploadHistoryLogs"
    using differs t by (auto simp: session_flags_for_def Let_def final)
  moreover have "calls (setGameFinished e s) = calls (submitGameData False e t)"
    using assms(2) by (simp add: setGameFinished_def t_def Let_def)
  ultimately show ?thesis
    using t(2,3) unfolding final by (intro exI [of _ bonus] exI) (auto simp: subs [unfolded final])
qed

text \<open>
  C4. A game that ends is reported with its history, and forgotten in any case. In any reachable state with a game
  on, finishing the game blanks the game data. If the device is barred, nothing is submitted. Otherwise one or
  two submissions are made: the last has the final data of the game, marked as over and without expiring modes; one
  before it, if any, is a bonus of the same session; and one of them asks for the upload of the history.
\<close>

theorem finish_uploads_history:
  assumes "gs_reachable s" "isGameActive (m_data s)"
  shows "m_data (setGameFinished e s) = GameData_empty \<and>
    (if net_status e = AuthenticationFailed then submissions (calls (setGameFinished e s)) = submissions (calls s)
     else \<exists>bonus f. submissions (calls (setGameFinished e s)) = submissions (calls s) @ bonus @ [(finished_data e s, f)] \<and>
       length bonus \<le> 1 \<and> list_all (ends_session (m_sessionId s)) bonus \<and>
       gd_id (finished_data e s) = m_sessionId s \<and> (bonus = [] \<longrightarrow> has_flag f UploadHistoryLogs))"
proof (cases "net_status e = AuthenticationFailed")
  case True
  then show ?thesis using assms(2) by (simp add: setGameFinished_def Let_def submitGameData_def)
next
  case False
  from finish_submissions [OF assms False] False show ?thesis
    using assms(2) by (auto simp: setGameFinished_def Let_def)
qed

theorem finish_uploads_history_witness:
  "\<exists>bonus f. submissions (calls (setGameFinished env_ok two_player_game)) =
      submissions (calls two_player_game) @ bonus @ [(finished_data env_ok two_player_game, f)] \<and>
    gd_id (finished_data env_ok two_player_game) = m_sessionId two_player_game"
proof -
  have e: "net_status env_ok \<noteq> AuthenticationFailed" by (simp add: env_ok_def)
  show ?thesis
    using finish_uploads_history [OF two_player_game_reachable two_player_game_eval(1), of env_ok] e by auto
qed

section \<open>Session ids\<close>

lemma submit_creations [simp]: "creations (calls (submitGameData fs e s)) = creations (calls s)"
  by (auto simp: submitGameData_def Let_def split: option.split)

lemma reschedule_creations [simp]:
  "creations (calls (rescheduleModeExpiryTimer e s)) = creations (calls s)"
  by (auto simp: rescheduleModeExpiryTimer_def split: option.split)

lemma step_creations:
  "creations (calls (gs_step op e s)) = creations (calls s) \<and> m_sessionId (gs_step op e s) = m_sessionId s \<or>
   creations (calls (gs_step op e s)) = creations (calls s) @ [m_sessionId s + 1] \<and>
     m_sessionId (gs_step op e s) = m_sessionId s + 1"
proof (cases op)
  case (OpGameStarted origin)
  then show ?thesis
    by (cases "isGameActive (m_data s) \<or> net_status e = AuthenticationFailed")
      (auto simp: setGameStarted_active setGameStarted_ignored fresh_data_def)
qed (auto simp: setGameFinished_def setCurrentBall_def setActivePlayer_alt setScore_alt addMode_def
      addModeExpiring_def removeMode_def clearModes_def tickModeExpiries_def setModeExpiryPoster_def
      commit_def gs_forward_defs Let_def)

text \<open>
  Sessions are numbered 1, 2, 3, ... in the order in which they are created, whatever the
  callers and the worker do: no session id is skipped or used twice.
\<close>

theorem session_ids_consecutive:
  assumes "gs_reachable s"
  shows "creations (calls s) = [1 .. m_sessionId s]"
  using assms
proof (induction rule: gs_reachable.induct)
  case gs_new
  then show ?case by (simp add: GameStateImpl_new_def)
next
  case (gs_op s op e)
  have "0 \<le> m_sessionId s" using reachable_gs_inv [OF gs_op.hyps] by (simp add: gs_inv_def)
  then have "[1 .. m_sessionId s] @ [m_sessionId s + 1] = [1 .. m_sessionId s + 1]"
    using upto_rec2 [of 1 "m_sessionId s + 1"] by simp
  with step_creations [of op e s] gs_op.IH show ?case by auto
qed

theorem session_ids_consecutive_witness: "creations (calls two_player_game) = [1]"
proof -
  have "m_sessionId two_player_game = 1" by (simp add: two_player_game_def gs_eval)
  with session_ids_consecutive [OF two_player_game_reachable] show ?thesis by simp
qed

section \<open>A reply that comes after the game\<close>

text \<open>
  The closure that reports a created session submits whatever the game data is when it runs.
  If the game has ended by then, it submits the blank data: a submission for session 0, which no
  game has, with the requests to upload a history and to register players.
\<close>

theorem late_reply_submits_session_0:
  assumes "gs_reachable s" "\<not> isGameActive (m_data s)" "net_status e \<noteq> AuthenticationFailed"
    and "ball (m_prevData s) \<noteq> 0" "players (m_prevData s) \<noteq> []"
  shows "\<exists>d f. submissions (calls (gs_step OpSessionCreated e s)) = submissions (calls s) @ [(d, f)] \<and>
    gd_id d = 0 \<and> \<not> isGameActive d \<and> has_flag f UploadHistoryLogs \<and> has_flag f PlayersAdd"
proof -
  obtain t where t: "m_data s = GameData_empty\<lparr>timestamp := t\<rparr>"
    using reachable_gs_inv [OF assms(1)] assms(2) by (auto simp: gs_inv_def)
  have "bonus_submission (m_prevData s) ((m_data s)\<lparr>timestamp := sys_now e\<rparr>) = None"
    by (simp add: bonus_submission_def t GameData_empty_def smap_count_def Let_def)
  with submit_sends [OF assms(3), of s True] assms(4,5) show ?thesis
    by (auto simp: t GameData_empty_def session_flags_for_def Let_def)
qed

definition short_game :: GameStateImpl where
  "short_game = gs_run [(OpGameStarted StartButton, env_ok), (OpGameFinished, env_ok)] GameStateImpl_new"

lemma short_game_reachable: "gs_reachable short_game"
  unfolding short_game_def by (intro gs_run_reachable gs_new)

lemma short_game_eval:
  "\<not> isGameActive (m_data short_game)" "ball (m_prevData short_game) = 1"
  "players (m_prevData short_game) = [(1, PlayerState_new 1 0)]"
  "map fst (submissions (calls short_game)) =
     [(fresh_data 1 5)\<lparr>isGameActive := False\<rparr>]"
  by (simp_all add: short_game_def setGameFinished_def Let_def
      clearModeExpirySchedule_def clearExpiries_def gs_eval)

theorem late_reply_submits_session_0_witness:
  "\<exists>d f. submissions (calls (gs_step OpSessionCreated env_ok short_game)) =
      submissions (calls short_game) @ [(d, f)] \<and> gd_id d = 0 \<and> has_flag f PlayersAdd"
proof -
  have e: "net_status env_ok \<noteq> AuthenticationFailed" by (simp add: env_ok_def)
  show ?thesis
    using late_reply_submits_session_0 [OF short_game_reachable short_game_eval(1) e]
      short_game_eval(2,3) by auto
qed

end
