(* ===== verification/Identifiers.thy ===== *)
theory Identifiers
  imports Prelude
begin

text \<open>
  The constants of \<^verbatim>\<open>source/identifiers.h\<close> that the sources share: JSON keys, URL templates, header
  names and labels, under their names in the source.
\<close>

abbreviation ARG_SCORBITRON_UUID :: string where
  "ARG_SCORBITRON_UUID \<equiv> ''scorbitron_uuid''"

abbreviation ARG_MACHINE_UUID :: string where
  "ARG_MACHINE_UUID \<equiv> ''machine_uuid''"

abbreviation ARG_VARIANT_UUID :: string where
  "ARG_VARIANT_UUID \<equiv> ''variant_uuid''"

abbreviation ARG_GAME_SLUG :: string where
  "ARG_GAME_SLUG \<equiv> ''game_slug''"

abbreviation ARG_SESSION_UUID :: string where
  "ARG_SESSION_UUID \<equiv> ''session_uuid''"

abbreviation ARG_SCORE_ID :: string where
  "ARG_SCORE_ID \<equiv> ''score_id''"

abbreviation NOOP_URL :: string where
  "NOOP_URL \<equiv> ''http://api.scorbit.io/api/noop/''"

abbreviation URL_SCORBITRON_TOKEN :: string where
  "URL_SCORBITRON_TOKEN \<equiv> ''api/v2/scorbitrons/{scorbitron_uuid}/token/''"

abbreviation URL_SCORBITRON_CF_TOKEN :: string where
  "URL_SCORBITRON_CF_TOKEN \<equiv> ''api/v2/scorbitrons/{scorbitron_uuid}/socket/''"

abbreviation URL_SCORBITRON_CONFIG :: string where
  "URL_SCORBITRON_CONFIG \<equiv> ''api/v2/scorbitrons/{scorbitron_uuid}/config/''"

abbreviation URL_SCORBITRON_SESSIONS :: string where
  "URL_SCORBITRON_SESSIONS \<equiv> ''api/v2/scorbitrons/{scorbitron_uuid}/sessions/''"

abbreviation URL_SCORBITRON_SESSION_UPDATE :: string where
  "URL_SCORBITRON_SESSION_UPDATE \<equiv> ''api/v2/scorbitrons/{scorbitron_uuid}/sessions/{session_uuid}/''"

abbreviation URL_SCORBITRON_OBJECT :: string where
  "URL_SCORBITRON_OBJECT \<equiv> ''api/v2/scorbitrons/{scorbitron_uuid}/''"

abbreviation URL_SCORBITRON_NFC_NONCE_CREATE :: string where
  "URL_SCORBITRON_NFC_NONCE_CREATE \<equiv> ''api/v2/scorbitrons/{scorbitron_uuid}/nonce/''"

abbreviation URL_SCORBITRON_CREDIT_DROP_CREATE :: string where
  "URL_SCORBITRON_CREDIT_DROP_CREATE \<equiv> ''api/v2/scorbitrons/{scorbitron_uuid}/credit-drop/''"

abbreviation URL_SCORBITRON_FIRMWARES_LIST :: string where
  "URL_SCORBITRON_FIRMWARES_LIST \<equiv> ''api/v2/scorbitrons/{scorbitron_uuid}/firmwares/''"

abbreviation URL_MACHINE_OBJECT :: string where
  "URL_MACHINE_OBJECT \<equiv> ''api/v2/machines/{machine_uuid}/''"

abbreviation URL_MACHINE_LEADERS :: string where
  "URL_MACHINE_LEADERS \<equiv> ''api/v2/machines/{machine_uuid}/leaders/''"

abbreviation URL_VARIANT_LEADERS :: string where
  "URL_VARIANT_LEADERS \<equiv> ''api/v2/variants/{variant_uuid}/leaders/''"

abbreviation URL_GAME_LEADERS :: string where
  "URL_GAME_LEADERS \<equiv> ''api/v2/games/{game_slug}/leaders/''"

abbreviation URL_SCORBITRON_DIAGNOSTICS :: string where
  "URL_SCORBITRON_DIAGNOSTICS \<equiv> ''api/v2/scorbitrons/{scorbitron_uuid}/diagnostics/''"

abbreviation URL_DIAGNOSTICS_ACK_PATH :: string where
  "URL_DIAGNOSTICS_ACK_PATH \<equiv> ''internal/api/diagnostics/ack/''"

abbreviation URL_V2_PROVISION :: string where
  "URL_V2_PROVISION \<equiv> ''api/v2/provision/''"

abbreviation URL_NFC_TAG :: string where
  "URL_NFC_TAG \<equiv> ''https://scorbit.link/machines/{machine_uuid}?n={nonce}''"

abbreviation URL_CLAIM_DEEPLINK :: string where
  "URL_CLAIM_DEEPLINK \<equiv> ''https://scorbit.link/machines/{machine_uuid}/?score_id={score_id}''"

abbreviation URL_SESSIONS_ID :: string where
  "URL_SESSIONS_ID \<equiv> ''sessions''"

abbreviation URL_CENTRIFUGO :: string where
  "URL_CENTRIFUGO \<equiv> ''connection/websocket''"

abbreviation PRODUCTION_LABEL :: string where
  "PRODUCTION_LABEL \<equiv> ''production''"

abbreviation PRODUCTION_HOSTNAME :: string where
  "PRODUCTION_HOSTNAME \<equiv> ''https://api.scorbit.io''"

abbreviation PRODUCTION_CENTRIFUGO :: string where
  "PRODUCTION_CENTRIFUGO \<equiv> ''wss://sws.scorbit.io''"

abbreviation STAGING_LABEL :: string where
  "STAGING_LABEL \<equiv> ''staging''"

abbreviation STAGING_HOSTNAME :: string where
  "STAGING_HOSTNAME \<equiv> ''https://staging.scorbit.io''"

abbreviation STAGING_CENTRIFUGO :: string where
  "STAGING_CENTRIFUGO \<equiv> ''wss://sws.scorbit.io''"

abbreviation HDR_KEY_AUTHORIZATION :: string where
  "HDR_KEY_AUTHORIZATION \<equiv> ''Authorization''"

abbreviation HDR_VAL_BEARER :: string where
  "HDR_VAL_BEARER \<equiv> ''Bearer ''"

abbreviation HDR_KEY_ACCEPT_CONTENT :: string where
  "HDR_KEY_ACCEPT_CONTENT \<equiv> ''Accept''"

abbreviation HDR_KEY_CONTENT_TYPE :: string where
  "HDR_KEY_CONTENT_TYPE \<equiv> ''Content-Type''"

abbreviation HDR_VAL_CONTENT_JSON :: string where
  "HDR_VAL_CONTENT_JSON \<equiv> ''application/json''"

abbreviation HDR_VAL_CONTENT_MULTIPART :: string where
  "HDR_VAL_CONTENT_MULTIPART \<equiv> ''multipart/form-data''"

abbreviation HDR_VAL_CONTENT_OCTET :: string where
  "HDR_VAL_CONTENT_OCTET \<equiv> ''application/octet-stream''"

abbreviation HDR_KEY_CACHE_CONTROL :: string where
  "HDR_KEY_CACHE_CONTROL \<equiv> ''Cache-Control''"

abbreviation HDR_VAL_NO_CACHE :: string where
  "HDR_VAL_NO_CACHE \<equiv> ''no-cache''"

abbreviation HDR_KEY_FINGERPRINT_HASH :: string where
  "HDR_KEY_FINGERPRINT_HASH \<equiv> ''X-Fingerprint-Hash''"

abbreviation PROVIDER_SCORBITRON :: string where
  "PROVIDER_SCORBITRON \<equiv> ''scorbitron''"

abbreviation PROVIDER_VSCORBITRON :: string where
  "PROVIDER_VSCORBITRON \<equiv> ''vscorbitron''"

abbreviation PROTO_HTTPS :: string where
  "PROTO_HTTPS \<equiv> ''https''"

abbreviation PROTO_HTTP :: string where
  "PROTO_HTTP \<equiv> ''http''"

abbreviation PROTO_WSS :: string where
  "PROTO_WSS \<equiv> ''wss''"

abbreviation PROTO_WS :: string where
  "PROTO_WS \<equiv> ''ws''"

abbreviation REST_GET :: string where
  "REST_GET \<equiv> ''GET''"

abbreviation REST_POST :: string where
  "REST_POST \<equiv> ''POST''"

abbreviation REST_PATCH :: string where
  "REST_PATCH \<equiv> ''PATCH''"

abbreviation REST_PUT :: string where
  "REST_PUT \<equiv> ''PUT''"

abbreviation CF_CHN_MACHINE :: string where
  "CF_CHN_MACHINE \<equiv> ''machine''"

abbreviation CF_CHN_CONTROL_MACHINE :: string where
  "CF_CHN_CONTROL_MACHINE \<equiv> ''control_machine''"

abbreviation CF_CHN_CONTROL_SCORBITRON :: string where
  "CF_CHN_CONTROL_SCORBITRON \<equiv> ''control_scorbitron''"

abbreviation JKEY_SCORBITRON_TOKEN :: string where
  "JKEY_SCORBITRON_TOKEN \<equiv> ''token''"

abbreviation JKEY_CF_TOKEN :: string where
  "JKEY_CF_TOKEN \<equiv> ''token''"

abbreviation JKEY_USERNAME :: string where
  "JKEY_USERNAME \<equiv> ''username''"

abbreviation JKEY_AVATAR :: string where
  "JKEY_AVATAR \<equiv> ''avatar''"

abbreviation JKEY_AUTH_PROVIDER :: string where
  "JKEY_AUTH_PROVIDER \<equiv> ''provider''"

abbreviation JKEY_AUTH_UUID :: string where
  "JKEY_AUTH_UUID \<equiv> ''uuid''"

abbreviation JKEY_AUTH_TIMESTAMP :: string where
  "JKEY_AUTH_TIMESTAMP \<equiv> ''timestamp''"

abbreviation JKEY_AUTH_SIGNATURE :: string where
  "JKEY_AUTH_SIGNATURE \<equiv> ''signature''"

abbreviation JKEY_AUTH_SERIAL_NUMBER :: string where
  "JKEY_AUTH_SERIAL_NUMBER \<equiv> ''serial_number''"

abbreviation JKEY_SCR_POSITION :: string where
  "JKEY_SCR_POSITION \<equiv> ''position''"

abbreviation JKEY_SCR_ID :: string where
  "JKEY_SCR_ID \<equiv> ''id''"

abbreviation JKEY_SCR_IS_NFC_VERIFIED :: string where
  "JKEY_SCR_IS_NFC_VERIFIED \<equiv> ''is_nfc_verified''"

abbreviation JKEY_SCR_TOURNAMENT_UUID :: string where
  "JKEY_SCR_TOURNAMENT_UUID \<equiv> ''tournament_id''"

abbreviation JKEY_SCR_PLAYER :: string where
  "JKEY_SCR_PLAYER \<equiv> ''player''"

abbreviation JKEY_SCR_SCORE :: string where
  "JKEY_SCR_SCORE \<equiv> ''score''"

abbreviation JKEY_SCR_BALL :: string where
  "JKEY_SCR_BALL \<equiv> ''ball''"

abbreviation JKEY_SCR_BALL_IN_PROGRESS :: string where
  "JKEY_SCR_BALL_IN_PROGRESS \<equiv> ''ball_in_progress''"

abbreviation JKEY_SCR_MODES :: string where
  "JKEY_SCR_MODES \<equiv> ''modes''"

abbreviation JKEY_CHN_TYPE :: string where
  "JKEY_CHN_TYPE \<equiv> ''type''"

abbreviation JKEY_CHN_PAYLOAD :: string where
  "JKEY_CHN_PAYLOAD \<equiv> ''payload''"

abbreviation JVAL_CHN_TYPE_START_GAME :: string where
  "JVAL_CHN_TYPE_START_GAME \<equiv> ''start_game''"

abbreviation JVAL_CHN_TYPE_ADD_CREDITS :: string where
  "JVAL_CHN_TYPE_ADD_CREDITS \<equiv> ''add_credits''"

abbreviation JVAL_CHN_TYPE_DIAG_PROBE :: string where
  "JVAL_CHN_TYPE_DIAG_PROBE \<equiv> ''diag_probe''"

abbreviation JKEY_SCR_GAME_IN_PROGRESS :: string where
  "JKEY_SCR_GAME_IN_PROGRESS \<equiv> ''game_in_progress''"

abbreviation JKEY_SCR_SCORES :: string where
  "JKEY_SCR_SCORES \<equiv> ''scores''"

abbreviation JKEY_SCR_FINAL_SCORES :: string where
  "JKEY_SCR_FINAL_SCORES \<equiv> ''final_scores''"

abbreviation JKEY_SCR_METADATA :: string where
  "JKEY_SCR_METADATA \<equiv> ''metadata''"

abbreviation JKEY_SCR_GAME :: string where
  "JKEY_SCR_GAME \<equiv> ''game''"

abbreviation JKEY_SCR_MACHINE :: string where
  "JKEY_SCR_MACHINE \<equiv> ''machine''"

abbreviation JKEY_SCR_VARIANT :: string where
  "JKEY_SCR_VARIANT \<equiv> ''variant''"

abbreviation JKEY_SCR_VENUE :: string where
  "JKEY_SCR_VENUE \<equiv> ''venue''"

abbreviation JKEY_SCR_SEQUENCE :: string where
  "JKEY_SCR_SEQUENCE \<equiv> ''sequence''"

abbreviation JKEY_SCR_CREATED_AT :: string where
  "JKEY_SCR_CREATED_AT \<equiv> ''created_at''"

abbreviation JKEY_SCR_UPDATED_AT :: string where
  "JKEY_SCR_UPDATED_AT \<equiv> ''updated_at''"

abbreviation JVAL_SCR_SCORE_UPDATE :: string where
  "JVAL_SCR_SCORE_UPDATE \<equiv> ''score_update''"

abbreviation JVAL_SCR_GAME_END :: string where
  "JVAL_SCR_GAME_END \<equiv> ''game_end''"

abbreviation JKEY_DIAG_TRACE_ID :: string where
  "JKEY_DIAG_TRACE_ID \<equiv> ''trace_id''"

abbreviation JKEY_DIAG_DEADLINE_SECONDS :: string where
  "JKEY_DIAG_DEADLINE_SECONDS \<equiv> ''deadline_seconds''"

abbreviation JKEY_DIAG_HOP :: string where
  "JKEY_DIAG_HOP \<equiv> ''hop''"

abbreviation JKEY_DIAG_TS :: string where
  "JKEY_DIAG_TS \<equiv> ''ts''"

abbreviation JKEY_DIAG_PAYLOAD :: string where
  "JKEY_DIAG_PAYLOAD \<equiv> ''payload''"

abbreviation JKEY_DIAG_SEQUENCE :: string where
  "JKEY_DIAG_SEQUENCE \<equiv> ''sequence''"

abbreviation JVAL_DIAG_HOP_DEVICE_EGRESS :: string where
  "JVAL_DIAG_HOP_DEVICE_EGRESS \<equiv> ''device_egress''"

abbreviation JKEY_SCFG_MACHINE_ID :: string where
  "JKEY_SCFG_MACHINE_ID \<equiv> ''machine_id''"

abbreviation JKEY_SCFG_VARIANT_ID :: string where
  "JKEY_SCFG_VARIANT_ID \<equiv> ''variant_id''"

abbreviation JKEY_SCFG_VENUE_ID :: string where
  "JKEY_SCFG_VENUE_ID \<equiv> ''venue_id''"

abbreviation JKEY_SCFG_CONFIG :: string where
  "JKEY_SCFG_CONFIG \<equiv> ''config''"

abbreviation JKEY_SCFG_OPDB_ID :: string where
  "JKEY_SCFG_OPDB_ID \<equiv> ''opdb_id''"

abbreviation JKEY_SCFG_SCORBITRON_MACHINE :: string where
  "JKEY_SCFG_SCORBITRON_MACHINE \<equiv> ''machine''"

abbreviation JKEY_SCFG_OWNER :: string where
  "JKEY_SCFG_OWNER \<equiv> ''owner''"

abbreviation JKEY_SCFG_PRICING :: string where
  "JKEY_SCFG_PRICING \<equiv> ''pricing''"

abbreviation JKEY_SCFG_VERSION :: string where
  "JKEY_SCFG_VERSION \<equiv> ''version''"

abbreviation JKEY_SCFG_TYPE :: string where
  "JKEY_SCFG_TYPE \<equiv> ''type''"

abbreviation JKEY_SCFG_INSTALLED :: string where
  "JKEY_SCFG_INSTALLED \<equiv> ''installed''"

abbreviation JKEY_SCFG_LOG :: string where
  "JKEY_SCFG_LOG \<equiv> ''log''"

abbreviation JKEY_SOBJ_SHORTCODE :: string where
  "JKEY_SOBJ_SHORTCODE \<equiv> ''shortcode''"

abbreviation JKEY_SOBJ_MACHINE_OBJ :: string where
  "JKEY_SOBJ_MACHINE_OBJ \<equiv> ''machine''"

abbreviation JKEY_SOBJ_MACHINE_UUID :: string where
  "JKEY_SOBJ_MACHINE_UUID \<equiv> ''id''"

abbreviation JKEY_SOBJ_SDK_VERSION :: string where
  "JKEY_SOBJ_SDK_VERSION \<equiv> ''sdk_version''"

abbreviation JKEY_SOBJ_SCORBITD_VERSION :: string where
  "JKEY_SOBJ_SCORBITD_VERSION \<equiv> ''scorbitd_version''"

abbreviation JKEY_SOBJ_GAME_CODE_VERSION :: string where
  "JKEY_SOBJ_GAME_CODE_VERSION \<equiv> ''game_code_version''"

abbreviation JKEY_SOBJ_START_GAME_CAPABLE :: string where
  "JKEY_SOBJ_START_GAME_CAPABLE \<equiv> ''start_game_capable''"

abbreviation JKEY_SOBJ_NFC_CAPABLE :: string where
  "JKEY_SOBJ_NFC_CAPABLE \<equiv> ''nfc_capable''"

abbreviation JKEY_SOBJ_CREDIT_DROP_CAPABLE :: string where
  "JKEY_SOBJ_CREDIT_DROP_CAPABLE \<equiv> ''credit_drop_capable''"

abbreviation JKEY_SOBJ_DIAG_PROBE_CAPABLE :: string where
  "JKEY_SOBJ_DIAG_PROBE_CAPABLE \<equiv> ''diag_probe_capable''"

abbreviation JKEY_SOBJ_LAN_IP :: string where
  "JKEY_SOBJ_LAN_IP \<equiv> ''lan_ip''"

abbreviation JKEY_SOBJ_RELEASE_TRACK :: string where
  "JKEY_SOBJ_RELEASE_TRACK \<equiv> ''release_track''"

abbreviation JKEY_SOBJ_RELEASE_URL :: string where
  "JKEY_SOBJ_RELEASE_URL \<equiv> ''url''"

abbreviation JKEY_MOBJ_NAME :: string where
  "JKEY_MOBJ_NAME \<equiv> ''name''"

abbreviation JKEY_MOBJ_EDITION :: string where
  "JKEY_MOBJ_EDITION \<equiv> ''edition''"

abbreviation JKEY_MOBJ_GAME :: string where
  "JKEY_MOBJ_GAME \<equiv> ''game''"

abbreviation JKEY_MOBJ_SLUG :: string where
  "JKEY_MOBJ_SLUG \<equiv> ''slug''"

abbreviation JKEY_SESS_UUID :: string where
  "JKEY_SESS_UUID \<equiv> ''id''"

abbreviation JKEY_SESS_PLAYER_COUNT :: string where
  "JKEY_SESS_PLAYER_COUNT \<equiv> ''player_count''"

abbreviation JKEY_SESS_SEQUENCE_NUMBER :: string where
  "JKEY_SESS_SEQUENCE_NUMBER \<equiv> ''sequence_number''"

abbreviation JKEY_SESS_SESSION_TIME :: string where
  "JKEY_SESS_SESSION_TIME \<equiv> ''session_time''"

abbreviation JKEY_SESS_ACTIVE_ON :: string where
  "JKEY_SESS_ACTIVE_ON \<equiv> ''active_on''"

abbreviation JKEY_SESS_SETTLED_ON :: string where
  "JKEY_SESS_SETTLED_ON \<equiv> ''settled_on''"

abbreviation JKEY_SESS_SUCCESSFULLY_COMPLETED :: string where
  "JKEY_SESS_SUCCESSFULLY_COMPLETED \<equiv> ''successfully_completed''"

abbreviation JKEY_SESS_USE_LOBBY :: string where
  "JKEY_SESS_USE_LOBBY \<equiv> ''use_lobby''"

abbreviation JKEY_SESS_LOG_FILE :: string where
  "JKEY_SESS_LOG_FILE \<equiv> ''file''"

abbreviation JKEY_SESS_LOG_UUID :: string where
  "JKEY_SESS_LOG_UUID \<equiv> ''uuid''"

abbreviation JKEY_SESS_LOG_FILE_DEPRECATED :: string where
  "JKEY_SESS_LOG_FILE_DEPRECATED \<equiv> ''log_file''"

abbreviation SESS_LOG_EXTENSION :: string where
  "SESS_LOG_EXTENSION \<equiv> ''csv''"

abbreviation JKEY_PLAYER_ID :: string where
  "JKEY_PLAYER_ID \<equiv> ''id''"

abbreviation JKEY_PLAYER_PREFER_INITIALS :: string where
  "JKEY_PLAYER_PREFER_INITIALS \<equiv> ''prefer_initials''"

abbreviation JKEY_PLAYER_USERNAME :: string where
  "JKEY_PLAYER_USERNAME \<equiv> ''username''"

abbreviation JKEY_PLAYER_DISPLAY_NAME :: string where
  "JKEY_PLAYER_DISPLAY_NAME \<equiv> ''display_name''"

abbreviation JKEY_PLAYER_INITIALS :: string where
  "JKEY_PLAYER_INITIALS \<equiv> ''initials''"

abbreviation JKEY_PLAYER_URL :: string where
  "JKEY_PLAYER_URL \<equiv> ''url''"

abbreviation JKEY_PLAYER_AVATAR :: string where
  "JKEY_PLAYER_AVATAR \<equiv> ''avatar''"

abbreviation JVAL_TYPE_ACTION :: string where
  "JVAL_TYPE_ACTION \<equiv> ''action''"

abbreviation JKEY_METHOD :: string where
  "JKEY_METHOD \<equiv> ''method''"

abbreviation JVAL_METHOD_GET :: string where
  "JVAL_METHOD_GET \<equiv> ''GET''"

abbreviation JVAL_METHOD_MSG :: string where
  "JVAL_METHOD_MSG \<equiv> ''MSG''"

abbreviation JVAL_METHOD_SIGNAL :: string where
  "JVAL_METHOD_SIGNAL \<equiv> ''SIGNAL''"

abbreviation JKEY_URL :: string where
  "JKEY_URL \<equiv> ''url''"

abbreviation JKEY_ACTION_NAME :: string where
  "JKEY_ACTION_NAME \<equiv> ''name''"

abbreviation JVAL_ACITON_GET_SCORBITRON_SESSION :: string where
  "JVAL_ACITON_GET_SCORBITRON_SESSION \<equiv> ''scorbitronSessionRetreive''"

abbreviation JVAL_ACTION_UPLOAD_DIAGNOSTICS :: string where
  "JVAL_ACTION_UPLOAD_DIAGNOSTICS \<equiv> ''scorbitronUploadDiagnostics''"

abbreviation JVAL_ACTION_CONFIG_REFRESH :: string where
  "JVAL_ACTION_CONFIG_REFRESH \<equiv> ''scorbitronConfigRefresh''"

abbreviation JVAL_ACTION_SCORBITRON_PAIRED :: string where
  "JVAL_ACTION_SCORBITRON_PAIRED \<equiv> ''scorbitronPaired''"

abbreviation JVAL_ACTION_SCORBITRON_UNPAIRED :: string where
  "JVAL_ACTION_SCORBITRON_UNPAIRED \<equiv> ''scorbitronUnpaired''"

abbreviation JVAL_NONCES :: string where
  "JVAL_NONCES \<equiv> ''nonces''"

abbreviation JKEY_CREDITS_COUNT :: string where
  "JKEY_CREDITS_COUNT \<equiv> ''credits''"

abbreviation JKEY_CREDITS_DROPPED :: string where
  "JKEY_CREDITS_DROPPED \<equiv> ''successful_credits''"

abbreviation JKEY_CREDITS_TRANSACTION :: string where
  "JKEY_CREDITS_TRANSACTION \<equiv> ''transaction''"

abbreviation JKEY_CREDITS_SUCCESS :: string where
  "JKEY_CREDITS_SUCCESS \<equiv> ''success''"

abbreviation JVAL_CURRENT_MACHINE_STATE :: string where
  "JVAL_CURRENT_MACHINE_STATE \<equiv> ''current_machine_state''"

abbreviation JKEY_CREDITS_STATE :: string where
  "JKEY_CREDITS_STATE \<equiv> ''current_machine_state''"

abbreviation JKEY_CREDITS_FREE_PLAY :: string where
  "JKEY_CREDITS_FREE_PLAY \<equiv> ''free_play''"

abbreviation JKEY_CREDITS_CURRENT :: string where
  "JKEY_CREDITS_CURRENT \<equiv> ''credits''"

abbreviation JKEY_CREDITS_MAX :: string where
  "JKEY_CREDITS_MAX \<equiv> ''max_credits''"

abbreviation JKEY_CREDITS_PRICING :: string where
  "JKEY_CREDITS_PRICING \<equiv> ''pricing''"

end
