(* ===== verification/Net_Util.thy ===== *)
theory Net_Util
  imports Game_Data Identifiers
begin

text \<open>
  \<^verbatim>\<open>source/net_util.cpp\<close> and the text functions at the head of \<^verbatim>\<open>source/net.cpp\<close>: the CSV of a game
  history, time stamps, URLs and host names, and the gate of leaderboard requests.

  The URL parser (\<^verbatim>\<open>boost::urls::parse_uri\<close>) and the UUID reader (\<^verbatim>\<open>boost::uuids\<close>) are parameters:
  functions that return \<open>None\<close> where the library reports an error.
\<close>

section \<open>Text\<close>

definition removeSymbols :: "string \<Rightarrow> string \<Rightarrow> string" where
  "removeSymbols str symbols = foldl (\<lambda>result symbol. removeAll symbol result) str symbols"

definition elideUrl :: "string \<Rightarrow> nat \<Rightarrow> string" where
  "elideUrl url keep =
     (if length url \<le> keep * 2 + 3 then url
      else take keep url @ ''...'' @ drop (length url - keep) url)"

definition parseUuid :: "(string \<Rightarrow> 'u option) \<Rightarrow> ('u \<Rightarrow> string) \<Rightarrow> string \<Rightarrow> string" where
  "parseUuid gen uuid_to_string str = (case gen str of None \<Rightarrow> [] | Some u \<Rightarrow> uuid_to_string u)"

definition uuid_char :: "char \<Rightarrow> bool" where
  "uuid_char c \<longleftrightarrow> c \<in> set ''0123456789abcdefABCDEF-''"

text \<open>
  \<^verbatim>\<open>regex_search\<close> for \<^verbatim>\<open>/key/([0-9a-fA-F-]+)/\<close>: the leftmost match. The group excludes the slash that
  ends it, so the longest run of its characters is the only candidate at a position.
\<close>

definition uuid_match_here :: "string \<Rightarrow> string \<Rightarrow> string option" where
  "uuid_match_here key s =
     (if starts_with s (''/'' @ key @ ''/'') then
        let rest = drop (length key + 2) s;
            group = takeWhile uuid_char rest
        in if group \<noteq> [] \<and> starts_with (drop (length group) rest) ''/'' then Some group else None
      else None)"

fun parseUrlUuid :: "string \<Rightarrow> string \<Rightarrow> string" where
  "parseUrlUuid key [] = []"
| "parseUrlUuid key (c # s) =
     (case uuid_match_here key (c # s) of Some u \<Rightarrow> u | None \<Rightarrow> parseUrlUuid key s)"

section \<open>Time stamps\<close>

text \<open>\<^verbatim>\<open>gmtime\<close> and \<^verbatim>\<open>put_time\<close> for instants from 1970 on; an instant is in nanoseconds.\<close>

definition is_leap :: "nat \<Rightarrow> bool" where
  "is_leap y \<longleftrightarrow> y mod 4 = 0 \<and> (y mod 100 \<noteq> 0 \<or> y mod 400 = 0)"

definition year_days :: "nat \<Rightarrow> nat" where
  "year_days y = (if is_leap y then 366 else 365)"

definition month_days :: "nat \<Rightarrow> nat list" where
  "month_days y = [31, if is_leap y then 29 else 28, 31, 30, 31, 30, 31, 31, 30, 31, 30, 31]"

function find_year :: "nat \<Rightarrow> nat \<Rightarrow> nat \<times> nat" where
  "find_year y d = (if d < year_days y then (y, d) else find_year (y + 1) (d - year_days y))"
  by pat_completeness auto
termination
  by (relation "measure snd") (auto simp: year_days_def split: if_splits)

declare find_year.simps [simp del]

fun find_month :: "nat list \<Rightarrow> nat \<Rightarrow> nat \<Rightarrow> nat \<times> nat" where
  "find_month [] m d = (m, d)"
| "find_month (n # ns) m d = (if d < n then (m, d) else find_month ns (m + 1) (d - n))"

definition pad2 :: "nat \<Rightarrow> string" where
  "pad2 n = (if n < 10 then ''0'' @ nat_digits n else nat_digits n)"

definition to_iso8601 :: "time_point \<Rightarrow> string" where
  "to_iso8601 tp =
     (let t = nat (tp div seconds 1);
          (y, yd) = find_year 1970 (t div 86400);
          (m, d) = find_month (month_days y) 1 yd;
          r = t mod 86400
      in nat_digits y @ ''-'' @ pad2 m @ ''-'' @ pad2 (d + 1) @ ''T''
         @ pad2 (r div 3600) @ '':'' @ pad2 (r div 60 mod 60) @ '':'' @ pad2 (r mod 60) @ ''Z'')"

section \<open>The CSV of a game history\<close>

definition ABSOLUTE_MAX_PLAYERS_NUM :: nat where
  "ABSOLUTE_MAX_PLAYERS_NUM = 6"

abbreviation newline :: string where
  "newline \<equiv> [CHR 0x0A]"

definition csv_player_numbers :: "nat list" where
  "csv_player_numbers = [1 ..< ABSOLUTE_MAX_PLAYERS_NUM + 1]"

definition csv_header :: string where
  "csv_header =
     ''time'' @ concat (map (\<lambda>n. '',p'' @ to_string (int n)) csv_player_numbers)
     @ '',player,ball,game_modes'' @ newline"

definition csv_score :: "GameData \<Rightarrow> nat \<Rightarrow> string" where
  "csv_score data n =
     (case map_of (players data) (of_nat n) of
        Some p \<Rightarrow> if 0 \<le> sint (m_score p) then to_string (sint (m_score p)) else []
      | None \<Rightarrow> [])"

definition csv_modes :: "GameData \<Rightarrow> string" where
  "csv_modes data = (if Modes_isEmpty (modes data) then [] else ''\"'' @ Modes_str (modes data) @ ''\"'')"

text \<open>\<^verbatim>\<open>duration_cast<seconds>\<close> truncates towards zero.\<close>

definition to_seconds :: "duration \<Rightarrow> int" where
  "to_seconds d = (if d < 0 then - ((- d) div seconds 1) else d div seconds 1)"

definition csv_row :: "GameData \<Rightarrow> string" where
  "csv_row data =
     to_string (to_seconds (timestamp data)) @ '',''
     @ concat (map (\<lambda>n. csv_score data n @ '','') csv_player_numbers)
     @ to_string (uint (activePlayer data)) @ '','' @ to_string (uint (ball data)) @ '',''
     @ csv_modes data @ newline"

definition gameHistoryToCsv :: "GameHistory \<Rightarrow> string" where
  "gameHistoryToCsv history = foldl (\<lambda>rv data. rv @ csv_row data) csv_header history"

section \<open>Hosts\<close>

record UrlInfo =
  ui_protocol :: string
  ui_hostname :: string
  ui_port :: string

record url_view =
  u_scheme :: string
  u_host :: string
  u_port :: "string option"

definition UrlInfo_empty :: UrlInfo where
  "UrlInfo_empty = \<lparr>ui_protocol = [], ui_hostname = [], ui_port = []\<rparr>"

definition exctractHostAndPort :: "(string \<Rightarrow> url_view option) \<Rightarrow> string \<Rightarrow> UrlInfo" where
  "exctractHostAndPort parse_uri url =
     (case parse_uri url of
        None \<Rightarrow> UrlInfo_empty
      | Some u \<Rightarrow>
          let result = UrlInfo_empty\<lparr>ui_protocol := u_scheme u, ui_hostname := u_host u\<rparr>
          in case u_port u of
               Some p \<Rightarrow> result\<lparr>ui_port := p\<rparr>
             | None \<Rightarrow>
                 if ui_protocol result = ''https'' \<or> ui_protocol result = ''wss'' then result\<lparr>ui_port := ''443''\<rparr>
                 else if ui_protocol result = ''http'' \<or> ui_protocol result = ''ws'' then result\<lparr>ui_port := ''80''\<rparr>
                 else UrlInfo_empty)"

definition url_of :: "UrlInfo \<Rightarrow> string" where
  "url_of host = ui_protocol host @ ''://'' @ ui_hostname host @ '':'' @ ui_port host"

definition setHostname :: "(string \<Rightarrow> url_view option) \<Rightarrow> string \<Rightarrow> string \<Rightarrow> string \<times> string" where
  "setHostname parse_uri hostname cfHostname =
     (let (hostname, cfHostname) =
            (if hostname = PRODUCTION_LABEL \<or> hostname = [] then
               (PRODUCTION_HOSTNAME, if cfHostname = [] then PRODUCTION_CENTRIFUGO else cfHostname)
             else if hostname = STAGING_LABEL then
               (STAGING_HOSTNAME, if cfHostname = [] then STAGING_CENTRIFUGO else cfHostname)
             else if cfHostname = [] then (hostname, hostname)
             else (hostname, cfHostname));
          m_hostname = url_of (exctractHostAndPort parse_uri hostname);
          host = exctractHostAndPort parse_uri cfHostname;
          host = (if cfHostname = hostname then
                    if ui_protocol host = PROTO_HTTPS then host\<lparr>ui_protocol := PROTO_WSS\<rparr>
                    else if ui_protocol host = PROTO_HTTP then host\<lparr>ui_protocol := PROTO_WS\<rparr>
                    else host
                  else host)
      in (m_hostname, url_of host))"

definition isHostMatching :: "(string \<Rightarrow> url_view option) \<Rightarrow> string \<Rightarrow> string \<Rightarrow> bool" where
  "isHostMatching parse_uri url hostname =
     (case (parse_uri url, parse_uri hostname) of
        (Some u, Some h) \<Rightarrow> u_host u = u_host h
      | _ \<Rightarrow> False)"

definition isInternalDownloadForAuth :: "(string \<Rightarrow> url_view option) \<Rightarrow> string \<Rightarrow> string \<Rightarrow> bool" where
  "isInternalDownloadForAuth parse_uri resolvedUrl apiHostname =
     isHostMatching parse_uri resolvedUrl apiHostname"

section \<open>Leaderboard requests\<close>

definition leaderboardRequestTerminalError :: "AuthStatus \<Rightarrow> Error option" where
  "leaderboardRequestTerminalError status =
     (case status of
        AuthenticationFailed \<Rightarrow> Some AuthFailed
      | AuthenticatedUnpaired \<Rightarrow> Some NotPaired
      | _ \<Rightarrow> None)"

definition isLeaderboardContextReady ::
  "AuthStatus \<Rightarrow> LeaderboardScope \<Rightarrow> string \<Rightarrow> string option \<Rightarrow> string option \<Rightarrow> bool" where
  "isLeaderboardContextReady status scope machineUuid variantUuid gameSlug =
     (if status \<noteq> AuthenticatedPaired then False
      else case scope of
             ScopeMachine \<Rightarrow> machineUuid \<noteq> []
           | ScopeVariant \<Rightarrow> variantUuid \<noteq> None
           | ScopeGame \<Rightarrow> gameSlug \<noteq> None
           | ScopeOther _ \<Rightarrow> False)"

fun leaderboardPeriodParam :: "LeaderboardPeriod \<Rightarrow> string option" where
  "leaderboardPeriodParam AllTime = Some []"
| "leaderboardPeriodParam Days14 = Some ''14d''"
| "leaderboardPeriodParam Days30 = Some ''30d''"
| "leaderboardPeriodParam Days90 = Some ''90d''"
| "leaderboardPeriodParam Days180 = Some ''180d''"
| "leaderboardPeriodParam Days365 = Some ''365d''"
| "leaderboardPeriodParam (PeriodOther _) = None"

section \<open>Properties\<close>

lemma removeSymbols_filter: "removeSymbols str symbols = filter (\<lambda>c. c \<notin> set symbols) str"
  unfolding removeSymbols_def
  by (induction symbols arbitrary: str) (auto simp: removeAll_filter_not_eq intro!: filter_cong)

lemma to_string_chars: "c \<in> set (to_string i) \<Longrightarrow> c \<in> set ''-0123456789''"
  by (auto simp: to_string_def split: if_splits dest!: nat_digits_chars)

lemma to_string_no_sep [simp]:
  "CHR '','' \<notin> set (to_string i)" "CHR 0x0A \<notin> set (to_string i)"
  using to_string_chars [of _ i] by auto

lemma csv_score_no_sep [simp]:
  "CHR '','' \<notin> set (csv_score d n)" "CHR 0x0A \<notin> set (csv_score d n)"
  by (simp_all add: csv_score_def split: option.split)

lemma gameHistoryToCsv_concat: "gameHistoryToCsv h = csv_header @ concat (map csv_row h)"
proof -
  have "foldl (\<lambda>rv data. rv @ csv_row data) rv h = rv @ concat (map csv_row h)" for rv
    by (induction h arbitrary: rv) simp_all
  then show ?thesis by (simp add: gameHistoryToCsv_def)
qed

lemma split_on_lines:
  "\<forall>x \<in> set xs. c \<notin> set x \<Longrightarrow> split_on c (concat (map (\<lambda>x. x @ [c]) xs)) = xs @ [[]]"
  by (induction xs) (simp_all add: split_on_append_sep)

lemma split_on_cells:
  "\<forall>x \<in> set xs. c \<notin> set x \<Longrightarrow>
   split_on c (concat (map (\<lambda>x. x @ [c]) xs) @ rest) = xs @ split_on c rest"
  by (induction xs) (simp_all add: split_on_append_sep)

text \<open>What the cells of a row should be.\<close>

definition csv_cells :: "GameData \<Rightarrow> string list" where
  "csv_cells data =
     [to_string (to_seconds (timestamp data))] @ map (csv_score data) [1, 2, 3, 4, 5, 6]
     @ [to_string (uint (activePlayer data)), to_string (uint (ball data)), csv_modes data]"

lemma csv_player_numbers_eq: "csv_player_numbers = [1, 2, 3, 4, 5, 6]"
  by (simp add: csv_player_numbers_def ABSOLUTE_MAX_PLAYERS_NUM_def upt_rec)

lemma csv_row_cells:
  "csv_row d = concat (map (\<lambda>x. x @ '','') (butlast (csv_cells d))) @ csv_modes d @ newline"
  by (simp add: csv_row_def csv_cells_def csv_player_numbers_eq)

definition plain_modes :: "GameData \<Rightarrow> bool" where
  "plain_modes d \<longleftrightarrow> CHR '','' \<notin> set (Modes_str (modes d)) \<and> CHR 0x0A \<notin> set (Modes_str (modes d))"

lemma csv_modes_no_sep:
  "plain_modes d \<Longrightarrow> CHR '','' \<notin> set (csv_modes d)" "plain_modes d \<Longrightarrow> CHR 0x0A \<notin> set (csv_modes d)"
  by (auto simp: csv_modes_def plain_modes_def)

lemma csv_cells_no_sep:
  assumes "x \<in> set (butlast (csv_cells d))"
  shows "CHR '','' \<notin> set x" "CHR 0x0A \<notin> set x"
  using assms by (auto simp: csv_cells_def)

lemma split_csv_row:
  assumes "plain_modes d"
  shows "split_on (CHR '','') (butlast (csv_row d)) = csv_cells d"
    and "CHR 0x0A \<notin> set (butlast (csv_row d))"
proof -
  have row: "butlast (csv_row d) = concat (map (\<lambda>x. x @ '','') (butlast (csv_cells d))) @ csv_modes d"
    by (simp add: csv_row_cells butlast_append)
  have "split_on (CHR '','') (butlast (csv_row d)) = butlast (csv_cells d) @ [csv_modes d]"
    unfolding row
    by (simp add: split_on_cells csv_cells_no_sep split_on_no_sep csv_modes_no_sep [OF assms])
  also have "\<dots> = csv_cells d" by (simp add: csv_cells_def)
  finally show "split_on (CHR '','') (butlast (csv_row d)) = csv_cells d" .
  show "CHR 0x0A \<notin> set (butlast (csv_row d))"
    unfolding row using csv_modes_no_sep [OF assms] csv_cells_no_sep by auto
qed

lemma csv_row_butlast: "csv_row d = butlast (csv_row d) @ newline"
  by (simp add: csv_row_cells butlast_append)

text \<open>
  Reading back the CSV of a game history: if no mode name holds a comma or a line break, cutting
  the text at line breaks and then at commas gives the header, one row of ten cells per record of the
  history in order (time in seconds, the scores of players 1 to 6 with an empty cell for an absent or
  negative one, active player, ball, modes), and a final empty line.
\<close>

theorem gameHistoryToCsv_fields:
  assumes "\<forall>d \<in> set h. plain_modes d"
  shows "map (split_on (CHR '','')) (split_on (CHR 0x0A) (gameHistoryToCsv h)) =
    [''time'', ''p1'', ''p2'', ''p3'', ''p4'', ''p5'', ''p6'', ''player'', ''ball'', ''game_modes'']
    # map csv_cells h @ [[[]]]"
proof -
  let ?head = "''time,p1,p2,p3,p4,p5,p6,player,ball,game_modes''"
  have head: "csv_header = ?head @ newline" by code_simp
  have "concat (map csv_row h) = concat (map (\<lambda>x. x @ newline) (map (\<lambda>d. butlast (csv_row d)) h))"
    by (simp add: csv_row_butlast [symmetric] o_def)
  then have "split_on (CHR 0x0A) (gameHistoryToCsv h) = split_on (CHR 0x0A)
      (?head @ CHR 0x0A # concat (map (\<lambda>x. x @ newline) (map (\<lambda>d. butlast (csv_row d)) h)))"
    by (simp add: gameHistoryToCsv_concat head)
  also have "\<dots> = ?head # split_on (CHR 0x0A)
      (concat (map (\<lambda>x. x @ newline) (map (\<lambda>d. butlast (csv_row d)) h)))"
    by (rule split_on_append_sep) simp
  also have "\<dots> = ?head # map (\<lambda>d. butlast (csv_row d)) h @ [[]]"
    using assms split_csv_row(2) by (subst split_on_lines) auto
  finally show ?thesis using assms split_csv_row(1) by simp
qed

theorem gameHistoryToCsv_fields_witness:
  "map (split_on (CHR '','')) (split_on (CHR 0x0A)
     (gameHistoryToCsv [GameData_empty\<lparr>modes := \<lparr>m_modes = [''Multiball''], m_modeExpiryDeadlines = []\<rparr>\<rparr>]))
     ! 1 = [''0'', [], [], [], [], [], [], ''0'', ''0'', [CHR 0x22] @ ''Multiball'' @ [CHR 0x22]]"
proof -
  let ?d = "GameData_empty\<lparr>modes := \<lparr>m_modes = [''Multiball''], m_modeExpiryDeadlines = []\<rparr>\<rparr>"
  have "plain_modes ?d" by (simp add: plain_modes_def Modes_str_def)
  then have "\<forall>d \<in> set [?d]. plain_modes d" by simp
  moreover have "csv_cells ?d = [''0'', [], [], [], [], [], [], ''0'', ''0'', [CHR 0x22] @ ''Multiball'' @ [CHR 0x22]]"
    by code_simp
  ultimately show ?thesis using gameHistoryToCsv_fields [of "[?d]"] by simp
qed

text \<open>
  The CSV leaves out players 7, 8 and 9, which the game state accepts: replacing their scores
  does not change the text.
\<close>

theorem csv_ignores_players_above_6:
  assumes "6 < k" "k \<le> (9 :: sb_player_t)"
  shows "gameHistoryToCsv [d\<lparr>players := smap_put k p (players d)\<rparr>] = gameHistoryToCsv [d]"
proof -
  have "csv_score (d\<lparr>players := smap_put k p (players d)\<rparr>) n = csv_score d n"
    if "n \<in> set csv_player_numbers" for n
  proof -
    have "(of_nat n :: sb_player_t) \<noteq> k" using that assms by (auto simp: csv_player_numbers_eq)
    then show ?thesis by (simp add: csv_score_def)
  qed
  then have "csv_row (d\<lparr>players := smap_put k p (players d)\<rparr>) = csv_row d"
    unfolding csv_row_def by (simp add: csv_modes_def cong: map_cong)
  then show ?thesis by (simp add: gameHistoryToCsv_concat)
qed

theorem csv_ignores_players_above_6_witness:
  "gameHistoryToCsv [GameData_empty\<lparr>players := smap_put 7 (PlayerState_new 7 1000) (players GameData_empty)\<rparr>]
   = gameHistoryToCsv [GameData_empty]"
  by (rule csv_ignores_players_above_6) simp_all

text \<open>
  Choosing the hosts. For a host given by the application without a separate real-time host, the
  real-time connection goes to the same host and port over the matching protocol (\<^verbatim>\<open>wss\<close> for
  \<^verbatim>\<open>https\<close>, \<^verbatim>\<open>ws\<close> for \<^verbatim>\<open>http\<close>); the port is the one given or the protocol's default.
\<close>

theorem setHostname_derives:
  assumes "host \<noteq> []" "host \<noteq> ''production''" "host \<noteq> ''staging''"
    and "parse_uri host = Some u" "u_scheme u = s" "s \<in> {''http'', ''https''}"
  shows "setHostname parse_uri host [] =
    (let p = (case u_port u of Some p \<Rightarrow> p | None \<Rightarrow> if s = ''https'' then ''443'' else ''80'')
     in (s @ ''://'' @ u_host u @ '':'' @ p,
         (if s = ''https'' then ''wss'' else ''ws'') @ ''://'' @ u_host u @ '':'' @ p))"
  using assms
  by (auto simp: setHostname_def exctractHostAndPort_def url_of_def UrlInfo_empty_def Let_def
      split: option.split)

theorem setHostname_derives_witness:
  "setHostname (\<lambda>_. Some \<lparr>u_scheme = ''http'', u_host = ''localhost'', u_port = Some ''8080''\<rparr>)
     ''http://localhost:8080'' [] = (''http://localhost:8080'', ''ws://localhost:8080'')"
  using setHostname_derives [of "''http://localhost:8080''"
      "\<lambda>_. Some \<lparr>u_scheme = ''http'', u_host = ''localhost'', u_port = Some ''8080''\<rparr>"
      "\<lparr>u_scheme = ''http'', u_host = ''localhost'', u_port = Some ''8080''\<rparr>" "''http''"]
  by (simp add: Let_def)

lemma uuid_match_here_Some:
  "uuid_match_here key s = Some u \<longleftrightarrow>
     u \<noteq> [] \<and> list_all uuid_char u \<and> (\<exists>post. s = ''/'' @ key @ ''/'' @ u @ ''/'' @ post)"
proof
  assume "uuid_match_here key s = Some u"
  then obtain rest where s: "s = ''/'' @ key @ ''/'' @ rest" and u: "u = takeWhile uuid_char rest" "u \<noteq> []"
    and slash: "starts_with (drop (length u) rest) ''/''"
    by (auto simp: uuid_match_here_def Let_def starts_with_iff split: if_splits)
  have "rest = u @ drop (length u) rest" using u(1) by (metis dropWhile_eq_drop takeWhile_dropWhile_id)
  then obtain post where "rest = u @ ''/'' @ post" using slash by (auto simp: starts_with_iff)
  then show "u \<noteq> [] \<and> list_all uuid_char u \<and> (\<exists>post. s = ''/'' @ key @ ''/'' @ u @ ''/'' @ post)"
    using s u by (auto simp: list_all_iff dest: set_takeWhileD)
next
  assume *: "u \<noteq> [] \<and> list_all uuid_char u \<and> (\<exists>post. s = ''/'' @ key @ ''/'' @ u @ ''/'' @ post)"
  then obtain post where s: "s = ''/'' @ key @ ''/'' @ u @ ''/'' @ post" by blast
  have "takeWhile uuid_char (u @ CHR ''/'' # post) = u"
    using * by (auto simp: takeWhile_append list_all_iff uuid_char_def)
  with * show "uuid_match_here key s = Some u"
    by (simp add: uuid_match_here_def s starts_with_def)
qed

lemma parseUrlUuid_sound:
  "parseUrlUuid key url = u \<Longrightarrow> u \<noteq> [] \<Longrightarrow>
   list_all uuid_char u \<and> (\<exists>pre post. url = pre @ ''/'' @ key @ ''/'' @ u @ ''/'' @ post)"
proof (induction url)
  case (Cons c url)
  show ?case
  proof (cases "uuid_match_here key (c # url)")
    case None
    then have "list_all uuid_char u \<and> (\<exists>pre post. url = pre @ ''/'' @ key @ ''/'' @ u @ ''/'' @ post)"
      using Cons by simp
    then show ?thesis by (metis append_Cons)
  next
    case (Some v)
    then have "v = u" using Cons.prems by simp
    with Some show ?thesis unfolding uuid_match_here_Some by (metis append_Nil)
  qed
qed simp

lemma parseUrlUuid_complete:
  "v \<noteq> [] \<Longrightarrow> list_all uuid_char v \<Longrightarrow> parseUrlUuid key (pre @ ''/'' @ key @ ''/'' @ v @ ''/'' @ post) \<noteq> []"
proof (induction pre)
  case Nil
  then have "uuid_match_here key (''/'' @ key @ ''/'' @ v @ ''/'' @ post) = Some v"
    unfolding uuid_match_here_Some by blast
  with Nil show ?case by simp
next
  case (Cons c pre)
  then show ?case
    using uuid_match_here_Some by (auto split: option.split)
qed

text \<open>
  Finding the identifier in a URL: a non-empty answer is a run of hexadecimal digits and dashes
  that stands in the URL right after \<^verbatim>\<open>/key/\<close> and before a slash, and the answer is empty only if
  the URL has no such run.
\<close>

theorem parseUrlUuid_exact:
  "(parseUrlUuid key url = [] \<longleftrightarrow>
     \<not> (\<exists>pre u post. u \<noteq> [] \<and> list_all uuid_char u \<and> url = pre @ ''/'' @ key @ ''/'' @ u @ ''/'' @ post)) \<and>
   list_all uuid_char (parseUrlUuid key url)"
  using parseUrlUuid_sound [of key url] parseUrlUuid_complete [of _ key]
  by (cases "parseUrlUuid key url = []") auto

end
