(* ===== verification/Worker.thy ===== *)
theory Worker
  imports Prelude
begin

text \<open>
  \<^verbatim>\<open>source/worker.{h,cpp}\<close>: the thread pool, its strands and its nine timers.

  The executor and the timers belong to the I/O library. A timer is a parameter: the record
  \<open>timer_api\<close> has its three member functions over an unspecified type \<open>'t\<close>; the predicate
  \<open>timer_law\<close> states what its documentation promises, in terms of the completion handlers that are
  still waiting: setting the expiry and cancelling drop every pending wait, and starting a wait adds
  one. A dropped handler runs with an error code, on which the code only logs. The handler of a
  timer that has expired has left the timer and can no longer be dropped. What is posted to the
  executor is recorded in the order of the calls.
\<close>

datatype Timer =
    Heartbeat | TokenRefresh | NfcCheckTag | GameDataTimer | SessionUpdate | CentrifugoReconnect
  | NfcBootReason | ModeExpiry | LeaderboardDeferred | TimerCount

fun timer_index :: "Timer \<Rightarrow> nat" where
  "timer_index Heartbeat = 0"
| "timer_index TokenRefresh = 1"
| "timer_index NfcCheckTag = 2"
| "timer_index GameDataTimer = 3"
| "timer_index SessionUpdate = 4"
| "timer_index CentrifugoReconnect = 5"
| "timer_index NfcBootReason = 6"
| "timer_index ModeExpiry = 7"
| "timer_index LeaderboardDeferred = 8"
| "timer_index TimerCount = 9"

fun timer_name :: "Timer \<Rightarrow> string" where
  "timer_name Heartbeat = ''Heartbeat''"
| "timer_name TokenRefresh = ''TokenRefresh''"
| "timer_name NfcCheckTag = ''NfcCheckTag''"
| "timer_name GameDataTimer = ''GameData''"
| "timer_name SessionUpdate = ''SessionUpdate''"
| "timer_name CentrifugoReconnect = ''CentrifugoReconnect''"
| "timer_name NfcBootReason = ''NfcBootReason''"
| "timer_name ModeExpiry = ''ModeExpiry''"
| "timer_name LeaderboardDeferred = ''LeaderboardDeferred''"
| "timer_name TimerCount = ''unknown''"

lemma timer_index_inj [simp]: "timer_index a = timer_index b \<longleftrightarrow> a = b"
  by (cases a; cases b) simp_all

datatype executor =
    Pool | Strand | SessionStrand | HeartbeatStrand | CentrifugoStrand | EventsStrand | CommitStrand

record ('t, 'f) timer_api =
  t_expires_after :: "duration \<Rightarrow> 't \<Rightarrow> 't"
  t_async_wait :: "'f \<Rightarrow> 't \<Rightarrow> 't"
  t_cancel :: "'t \<Rightarrow> 't"

record ('t, 'f) Worker =
  m_running :: bool
  w_threads :: nat
  m_workGuard :: bool
  m_timers :: "'t list"
  w_posted :: "(executor \<times> 'f) list"

definition NUM_OF_THREADS :: nat where
  "NUM_OF_THREADS = 4"

definition Worker_new :: "'t \<Rightarrow> ('t, 'f) Worker" where
  "Worker_new fresh =
     \<lparr>m_running = False, w_threads = 0, m_workGuard = True, m_timers = replicate 9 fresh, w_posted = []\<rparr>"

definition worker_start :: "('t, 'f) Worker \<Rightarrow> ('t, 'f) Worker" where
  "worker_start w =
     (if m_running w then w
      else w\<lparr>m_running := True, w_threads := w_threads w + NUM_OF_THREADS\<rparr>)"

definition worker_post :: "executor \<Rightarrow> 'f \<Rightarrow> ('t, 'f) Worker \<Rightarrow> ('t, 'f) Worker" where
  "worker_post ex func w = w\<lparr>w_posted := w_posted w @ [(ex, func)]\<rparr>"

definition post :: "'f \<Rightarrow> ('t, 'f) Worker \<Rightarrow> ('t, 'f) Worker" where
  "post func w = worker_post Pool func w"

definition postQueue :: "'f \<Rightarrow> ('t, 'f) Worker \<Rightarrow> ('t, 'f) Worker" where
  "postQueue func w = worker_post Strand func w"

definition postSessionQueue :: "'f \<Rightarrow> ('t, 'f) Worker \<Rightarrow> ('t, 'f) Worker" where
  "postSessionQueue func w = worker_post SessionStrand func w"

definition postGameDataQueue :: "'f \<Rightarrow> ('t, 'f) Worker \<Rightarrow> ('t, 'f) Worker" where
  "postGameDataQueue func w = worker_post CentrifugoStrand func w"

definition postHeartbeatQueue :: "'f \<Rightarrow> ('t, 'f) Worker \<Rightarrow> ('t, 'f) Worker" where
  "postHeartbeatQueue func w = worker_post HeartbeatStrand func w"

definition postCommitTask :: "'f \<Rightarrow> ('t, 'f) Worker \<Rightarrow> ('t, 'f) Worker" where
  "postCommitTask func w = worker_post CommitStrand func w"

definition getTimer :: "Timer \<Rightarrow> ('t, 'f) Worker \<Rightarrow> nat option" where
  "getTimer timerType w =
     (let i = timer_index timerType in if i \<ge> length (m_timers w) then None else Some i)"

definition startTimer ::
  "('t, 'f) timer_api \<Rightarrow> Timer \<Rightarrow> duration \<Rightarrow> 'f \<Rightarrow> ('t, 'f) Worker \<Rightarrow> ('t, 'f) Worker" where
  "startTimer A timerType delay func w =
     (case getTimer timerType w of
        None \<Rightarrow> w
      | Some i \<Rightarrow>
          let t = t_expires_after A delay (m_timers w ! i);
              t = t_async_wait A func t
          in w\<lparr>m_timers := (m_timers w)[i := t]\<rparr>)"

definition stopTimer :: "('t, 'f) timer_api \<Rightarrow> Timer \<Rightarrow> ('t, 'f) Worker \<Rightarrow> ('t, 'f) Worker" where
  "stopTimer A timerType w =
     (case getTimer timerType w of
        None \<Rightarrow> w
      | Some i \<Rightarrow> w\<lparr>m_timers := (m_timers w)[i := t_cancel A (m_timers w ! i)]\<rparr>)"

definition stopAllTimers :: "('t, 'f) timer_api \<Rightarrow> ('t, 'f) Worker \<Rightarrow> ('t, 'f) Worker" where
  "stopAllTimers A w = w\<lparr>m_timers := map (t_cancel A) (m_timers w)\<rparr>"

text \<open>\<^verbatim>\<open>stop\<close> returns once the threads have run everything that was posted and joined.\<close>

definition worker_stop :: "('t, 'f) timer_api \<Rightarrow> ('t, 'f) Worker \<Rightarrow> ('t, 'f) Worker" where
  "worker_stop A w =
     (if \<not> m_running w then w
      else let w = stopAllTimers A w;
               w = w\<lparr>m_workGuard := False\<rparr>;
               w = w\<lparr>w_threads := 0\<rparr>
           in w\<lparr>m_running := False\<rparr>)"

section \<open>Properties\<close>

definition timer_law :: "('t, 'f) timer_api \<Rightarrow> ('t \<Rightarrow> 'f list) \<Rightarrow> bool" where
  "timer_law A pending \<longleftrightarrow>
     (\<forall>d t. pending (t_expires_after A d t) = []) \<and> (\<forall>t. pending (t_cancel A t) = []) \<and>
     (\<forall>f t. pending (t_async_wait A f t) = pending t @ [f])"

text \<open>What waits on a timer of the worker.\<close>

definition waiting :: "('t \<Rightarrow> 'f list) \<Rightarrow> Timer \<Rightarrow> ('t, 'f) Worker \<Rightarrow> 'f list" where
  "waiting pending timerType w = pending (m_timers w ! timer_index timerType)"

locale worker_timers =
  fixes start_timer :: "Timer \<Rightarrow> duration \<Rightarrow> 'f \<Rightarrow> 'w \<Rightarrow> 'w"
    and stop_timer :: "Timer \<Rightarrow> 'w \<Rightarrow> 'w"
    and waits :: "Timer \<Rightarrow> 'w \<Rightarrow> 'f list"
    and ok :: "'w \<Rightarrow> bool"
  assumes start_ok: "ok w \<Longrightarrow> ok (start_timer t d f w)"
    and stop_ok: "ok w \<Longrightarrow> ok (stop_timer t w)"
    and start_waits: "ok w \<Longrightarrow> t \<noteq> TimerCount \<Longrightarrow>
      waits u (start_timer t d f w) = (if u = t then [f] else waits u w)"
    and stop_waits: "ok w \<Longrightarrow> t \<noteq> TimerCount \<Longrightarrow> waits u (stop_timer t w) = (if u = t then [] else waits u w)"
begin

text \<open>A later start replaces whatever waited on the timer.\<close>

lemma restart_replaces:
  "ok w \<Longrightarrow> t \<noteq> TimerCount \<Longrightarrow> waits t (start_timer t d2 g (start_timer t d1 f w)) = [g]"
  by (simp add: start_waits start_ok)

lemma stop_then_start:
  "ok w \<Longrightarrow> t \<noteq> TimerCount \<Longrightarrow> waits t (start_timer t d g (stop_timer t w)) = [g]"
  by (simp add: start_waits stop_ok)

end

definition worker_ok :: "('t, 'f) Worker \<Rightarrow> bool" where
  "worker_ok w \<longleftrightarrow> length (m_timers w) = 9"

lemma timer_index_bound: "t \<noteq> TimerCount \<Longrightarrow> timer_index t < 9"
  by (cases t) simp_all

lemma getTimer_ok:
  "worker_ok w \<Longrightarrow> getTimer t w = (if t = TimerCount then None else Some (timer_index t))"
  using timer_index_bound [of t] by (auto simp: getTimer_def worker_ok_def)

lemma worker_timers_laws:
  assumes "timer_law A pending"
  shows "worker_timers (startTimer A) (stopTimer A) (waiting pending) worker_ok"
proof
  fix w :: "('a, 'b) Worker" and t u d f
  assume ok: "worker_ok w"
  show "worker_ok (startTimer A t d f w)" "worker_ok (stopTimer A t w)"
    using ok by (simp_all add: startTimer_def stopTimer_def Let_def worker_ok_def split: option.split)
  assume t: "t \<noteq> TimerCount"
  show "waiting pending u (startTimer A t d f w) = (if u = t then [f] else waiting pending u w)"
    "waiting pending u (stopTimer A t w) = (if u = t then [] else waiting pending u w)"
    using ok t assms timer_index_bound [OF t]
    by (simp_all add: startTimer_def stopTimer_def getTimer_ok waiting_def Let_def timer_law_def
        worker_ok_def nth_list_update)
qed

text \<open>A timer that is the list of its pending handlers.\<close>

definition list_timer :: "('f list, 'f) timer_api" where
  "list_timer = \<lparr>t_expires_after = (\<lambda>d t. []), t_async_wait = (\<lambda>f t. t @ [f]), t_cancel = (\<lambda>t. [])\<rparr>"

lemma list_timer_law: "timer_law list_timer (\<lambda>t. t)"
  by (simp add: timer_law_def list_timer_def)

interpretation list_timers: worker_timers "startTimer list_timer" "stopTimer list_timer" "waiting (\<lambda>t. t)" worker_ok
  by (rule worker_timers_laws [OF list_timer_law])

text \<open>
  Each timer of the worker holds at most the last task started on it: for any timer that behaves
  as documented, starting a timer leaves exactly the new task waiting on it, whatever waited before,
  stopping it leaves nothing, stopping the worker leaves nothing on any timer, and no operation
  touches the other timers.
\<close>

theorem timers_hold_last_task:
  assumes "timer_law A pending" "worker_ok w" "t \<noteq> TimerCount" "u \<noteq> TimerCount" "m_running w"
  shows "waiting pending u (startTimer A t d f w) = (if u = t then [f] else waiting pending u w) \<and>
    waiting pending u (stopTimer A t w) = (if u = t then [] else waiting pending u w) \<and>
    waiting pending u (worker_stop A w) = [] \<and>
    w_posted (startTimer A t d f w) = w_posted w \<and> w_posted (stopTimer A t w) = w_posted w"
proof -
  note laws = worker_timers.start_waits worker_timers.stop_waits
  show ?thesis
    using laws [OF worker_timers_laws [OF assms(1)] assms(2,3)] assms timer_index_bound [OF assms(4)]
    by (simp add: worker_stop_def stopAllTimers_def waiting_def timer_law_def worker_ok_def
        startTimer_def stopTimer_def Let_def split: option.split)
qed

theorem timers_hold_last_task_witness:
  "waiting (\<lambda>t. t) SessionUpdate (startTimer list_timer SessionUpdate 1 ''b''
     (startTimer list_timer SessionUpdate 1 ''a'' (worker_start (Worker_new [])))) = [''b'']"
proof -
  have "worker_ok (worker_start (Worker_new []) :: (string list, string) Worker)"
    "m_running (worker_start (Worker_new []) :: (string list, string) Worker)"
    by (simp_all add: worker_ok_def worker_start_def Worker_new_def)
  then have "worker_ok (startTimer list_timer SessionUpdate 1 ''a'' (worker_start (Worker_new [])))"
    "m_running (startTimer list_timer SessionUpdate 1 ''a'' (worker_start (Worker_new [])))"
    by (simp_all add: list_timers.start_ok)
      (simp add: startTimer_def Let_def split: option.split)
  from timers_hold_last_task [OF list_timer_law this(1) _ _ this(2), of SessionUpdate SessionUpdate 1 "''b''"]
  show ?thesis by simp
qed

end
