(* ===== verification/Lru_Cache.thy ===== *)
theory Lru_Cache
  imports Prelude
begin

text \<open>
  \<^verbatim>\<open>source/utils/lru_cache.hpp\<close>: a cache of bounded size over a \<^verbatim>\<open>std::list\<close> of keys, most recently
  used first, and an \<^verbatim>\<open>unordered_map\<close> from a key to its value and the iterator of its list node.
  A list node is a pair of a node address and the key it holds, an iterator is a node address:
  splicing and erasing go through the address, as in the code. \<^verbatim>\<open>put\<close> reads \<^verbatim>\<open>m_usage.back()\<close>;
  on an empty list that is undefined behaviour, the result \<open>None\<close>.

  The contract of the component, as its client (the picture cache) uses it, is the locale
  \<open>bounded_cache\<close>; the refinement theorem says that the two linked structures behave as one list of
  entries in order of use.
\<close>

record ('k, 'v) LRUCache =
  m_capacity :: nat
  m_usage :: "(nat \<times> 'k) list"
  m_cache :: "('k \<times> ('v \<times> nat)) list"
  next_node :: nat

definition LRUCache_new :: "nat \<Rightarrow> ('k, 'v) LRUCache" where
  "LRUCache_new capacity = \<lparr>m_capacity = capacity, m_usage = [], m_cache = [], next_node = 0\<rparr>"

definition splice_front :: "nat \<Rightarrow> (nat \<times> 'k) list \<Rightarrow> (nat \<times> 'k) list" where
  "splice_front it us = filter (\<lambda>n. fst n = it) us @ filter (\<lambda>n. fst n \<noteq> it) us"

definition lru_has :: "'k \<Rightarrow> ('k, 'v) LRUCache \<Rightarrow> bool" where
  "lru_has key c \<longleftrightarrow> map_of (m_cache c) key \<noteq> None"

definition lru_get :: "'k \<Rightarrow> ('k, 'v) LRUCache \<Rightarrow> 'v option \<times> ('k, 'v) LRUCache" where
  "lru_get key c =
     (case map_of (m_cache c) key of
        None \<Rightarrow> (None, c)
      | Some (v, it) \<Rightarrow> (Some v, c\<lparr>m_usage := splice_front it (m_usage c)\<rparr>))"

definition lru_put :: "'k \<Rightarrow> 'v \<Rightarrow> ('k, 'v) LRUCache \<Rightarrow> ('k, 'v) LRUCache option" where
  "lru_put key value c =
     (case map_of (m_cache c) key of
        Some (v, it) \<Rightarrow>
          Some (c\<lparr>m_cache := AList.update key (value, it) (m_cache c),
                  m_usage := splice_front it (m_usage c)\<rparr>)
      | None \<Rightarrow>
          (let evicted =
             (if length (m_cache c) = m_capacity c then
                if m_usage c = [] then None
                else Some (c\<lparr>m_usage := butlast (m_usage c),
                             m_cache := AList.delete (snd (last (m_usage c))) (m_cache c)\<rparr>)
              else Some c)
           in case evicted of None \<Rightarrow> None
              | Some c \<Rightarrow>
                  Some (c\<lparr>m_usage := (next_node c, key) # m_usage c,
                          m_cache := AList.update key (value, next_node c) (m_cache c),
                          next_node := Suc (next_node c)\<rparr>)))"

definition lru_erase :: "'k \<Rightarrow> ('k, 'v) LRUCache \<Rightarrow> ('k, 'v) LRUCache" where
  "lru_erase key c =
     (case map_of (m_cache c) key of
        None \<Rightarrow> c
      | Some (v, it) \<Rightarrow> c\<lparr>m_usage := filter (\<lambda>n. fst n \<noteq> it) (m_usage c),
                          m_cache := AList.delete key (m_cache c)\<rparr>)"

section \<open>Abstract cache: entries in order of use\<close>

definition drop_key :: "'k \<Rightarrow> ('k \<times> 'v) list \<Rightarrow> ('k \<times> 'v) list" where
  "drop_key k es = filter (\<lambda>e. fst e \<noteq> k) es"

definition abs_get :: "'k \<Rightarrow> ('k \<times> 'v) list \<Rightarrow> 'v option \<times> ('k \<times> 'v) list" where
  "abs_get k es =
     (case map_of es k of None \<Rightarrow> (None, es) | Some v \<Rightarrow> (Some v, (k, v) # drop_key k es))"

definition abs_put :: "nat \<Rightarrow> 'k \<Rightarrow> 'v \<Rightarrow> ('k \<times> 'v) list \<Rightarrow> ('k \<times> 'v) list" where
  "abs_put cap k v es = take cap ((k, v) # drop_key k es)"

definition lru_abs :: "('k, 'v) LRUCache \<Rightarrow> ('k \<times> 'v) list" where
  "lru_abs c = map (\<lambda>(it, k). (k, fst (the (map_of (m_cache c) k)))) (m_usage c)"

section \<open>Invariant: the two structures are linked\<close>

definition lru_inv :: "('k, 'v) LRUCache \<Rightarrow> bool" where
  "lru_inv c \<longleftrightarrow>
     distinct (map fst (m_usage c)) \<and> distinct (map snd (m_usage c)) \<and>
     distinct (map fst (m_cache c)) \<and> fst ` set (m_cache c) = snd ` set (m_usage c) \<and>
     (\<forall>k v it. map_of (m_cache c) k = Some (v, it) \<longrightarrow> (it, k) \<in> set (m_usage c)) \<and>
     (\<forall>n \<in> fst ` set (m_usage c). n < next_node c) \<and> length (m_cache c) \<le> m_capacity c"

lemma lru_inv_new [simp]: "lru_inv (LRUCache_new cap)"
  by (simp add: lru_inv_def LRUCache_new_def)

lemma lru_inv_length: "lru_inv c \<Longrightarrow> length (m_usage c) = length (m_cache c)"
  unfolding lru_inv_def by (metis distinct_card length_map set_map)

text \<open>A node is found by its address or by its key.\<close>

lemma usage_node_key:
  assumes "distinct (map fst us)" "distinct (map snd us)" "(it, k) \<in> set us" "n \<in> set us"
  shows "fst n = it \<longleftrightarrow> snd n = k"
  using assms by (metis distinct_map inj_onD prod.collapse fst_conv snd_conv)

lemma usage_filter_eq:
  assumes "distinct (map fst us)" "distinct (map snd us)" "(it, k) \<in> set us"
  shows "filter (\<lambda>n. fst n = it) us = [(it, k)]"
    and "filter (\<lambda>n. fst n \<noteq> it) us = filter (\<lambda>n. snd n \<noteq> k) us"
proof -
  have "distinct us" using assms(1) by (simp add: distinct_map)
  then have "filter (\<lambda>n. fst n = it) us = filter (\<lambda>n. n = (it, k)) us"
    using usage_node_key [OF assms] assms by (intro filter_cong) (auto simp: prod_eq_iff)
  also have "\<dots> = [(it, k)]"
    using \<open>distinct us\<close> assms(3) by (induction us) (auto simp: filter_empty_conv)
  finally show "filter (\<lambda>n. fst n = it) us = [(it, k)]" .
  show "filter (\<lambda>n. fst n \<noteq> it) us = filter (\<lambda>n. snd n \<noteq> k) us"
    using usage_node_key [OF assms] by (intro filter_cong) auto
qed

lemma lru_cached:
  assumes "lru_inv c" "map_of (m_cache c) k = Some (v, it)"
  shows "filter (\<lambda>n. fst n = it) (m_usage c) = [(it, k)]"
    and "filter (\<lambda>n. fst n \<noteq> it) (m_usage c) = filter (\<lambda>n. snd n \<noteq> k) (m_usage c)"
    and "splice_front it (m_usage c) = (it, k) # filter (\<lambda>n. snd n \<noteq> k) (m_usage c)"
    and "(it, k) \<in> set (m_usage c)"
proof -
  have us: "distinct (map fst (m_usage c))" "distinct (map snd (m_usage c))" "(it, k) \<in> set (m_usage c)"
    using assms by (auto simp: lru_inv_def)
  from usage_filter_eq [OF us] us(3)
  show "filter (\<lambda>n. fst n = it) (m_usage c) = [(it, k)]"
    "filter (\<lambda>n. fst n \<noteq> it) (m_usage c) = filter (\<lambda>n. snd n \<noteq> k) (m_usage c)"
    "splice_front it (m_usage c) = (it, k) # filter (\<lambda>n. snd n \<noteq> k) (m_usage c)"
    "(it, k) \<in> set (m_usage c)"
    by (simp_all add: splice_front_def)
qed

lemma distinct_map_filter: "distinct (map f xs) \<Longrightarrow> distinct (map f (filter P xs))"
  by (induction xs) auto

lemma image_snd_filter: "snd ` set (filter (\<lambda>n. snd n \<noteq> k) us) = snd ` set us - {k}"
  by auto

lemma lru_inv_splice:
  assumes "lru_inv c" "map_of (m_cache c) k = Some (v, it)"
  shows "lru_inv (c\<lparr>m_usage := splice_front it (m_usage c)\<rparr>)"
proof -
  note c = lru_cached [OF assms]
  have "set (splice_front it (m_usage c)) = set (m_usage c)"
    by (auto simp: splice_front_def)
  moreover have "distinct (map fst (splice_front it (m_usage c)))"
    using assms(1) by (auto simp: splice_front_def c(1) lru_inv_def distinct_map_filter)
  moreover have "distinct (map snd (splice_front it (m_usage c)))"
    using assms(1) by (auto simp: c(3) lru_inv_def distinct_map_filter)
  ultimately show ?thesis using assms(1) by (simp add: lru_inv_def)
qed

lemma lru_abs_eq: "lru_abs c = map (\<lambda>k. (k, fst (the (map_of (m_cache c) k)))) (map snd (m_usage c))"
  by (simp add: lru_abs_def case_prod_beta)

lemma map_fst_lru_abs [simp]: "map fst (lru_abs c) = map snd (m_usage c)"
  by (simp add: lru_abs_eq)

lemma fst_set_lru_abs [simp]: "fst ` set (lru_abs c) = snd ` set (m_usage c)"
  by (simp add: lru_abs_def image_image case_prod_beta)

lemma lru_inv_keys: "lru_inv c \<Longrightarrow> snd ` set (m_usage c) = fst ` set (m_cache c)"
  by (simp add: lru_inv_def)

text \<open>The abstract entries and the hash map agree on every key.\<close>

lemma map_of_lru_abs:
  assumes "lru_inv c"
  shows "map_of (lru_abs c) k = map_option fst (map_of (m_cache c) k)"
proof (cases "map_of (m_cache c) k")
  case None
  then have "k \<notin> snd ` set (m_usage c)" using lru_inv_keys [OF assms] by (simp add: map_of_eq_None_iff)
  then have "map_of (lru_abs c) k = None" by (simp add: map_of_eq_None_iff)
  with None show ?thesis by simp
next
  case (Some vit)
  then have "k \<in> set (map snd (m_usage c))"
    using lru_inv_keys [OF assms] by (metis map_of_eq_None_iff option.distinct(1) set_map)
  then have "(k, fst vit) \<in> set (lru_abs c)" by (force simp: lru_abs_eq Some)
  moreover have "distinct (map fst (lru_abs c))" using assms by (simp add: lru_inv_def)
  ultimately show ?thesis by (simp add: Some map_of_eq_Some_iff)
qed

lemma lru_abs_drop_key: "drop_key k (lru_abs c) =
    map (\<lambda>k. (k, fst (the (map_of (m_cache c) k)))) (map snd (filter (\<lambda>n. snd n \<noteq> k) (m_usage c)))"
  by (simp add: drop_key_def lru_abs_eq filter_map o_def)

section \<open>Refinement\<close>

lemma lru_get_refines:
  assumes "lru_inv c"
  shows "lru_inv (snd (lru_get k c))"
    and "fst (lru_get k c) = fst (abs_get k (lru_abs c))"
    and "lru_abs (snd (lru_get k c)) = snd (abs_get k (lru_abs c))"
proof -
  show "lru_inv (snd (lru_get k c))"
    using assms lru_inv_splice [OF assms] by (auto simp: lru_get_def split: option.split)
  show "fst (lru_get k c) = fst (abs_get k (lru_abs c))"
    by (auto simp: lru_get_def abs_get_def map_of_lru_abs [OF assms] split: option.split)
  show "lru_abs (snd (lru_get k c)) = snd (abs_get k (lru_abs c))"
  proof (cases "map_of (m_cache c) k")
    case None
    then show ?thesis by (simp add: lru_get_def abs_get_def map_of_lru_abs [OF assms])
  next
    case (Some vit)
    then obtain v it where vit: "map_of (m_cache c) k = Some (v, it)" by (cases vit) auto
    then show ?thesis
      by (simp add: lru_get_def abs_get_def map_of_lru_abs [OF assms] lru_abs_drop_key
          lru_cached(3) [OF assms vit]) (simp add: lru_abs_eq)
  qed
qed

lemma lru_erase_refines:
  assumes "lru_inv c"
  shows "lru_inv (lru_erase k c)" and "lru_abs (lru_erase k c) = drop_key k (lru_abs c)"
proof -
  have "lru_inv (lru_erase k c) \<and> lru_abs (lru_erase k c) = drop_key k (lru_abs c)"
  proof (cases "map_of (m_cache c) k")
    case None
    then have "k \<notin> snd ` set (m_usage c)"
      using lru_inv_keys [OF assms] by (simp add: map_of_eq_None_iff)
    then have "filter (\<lambda>n. snd n \<noteq> k) (m_usage c) = m_usage c" by (force intro: filter_True)
    with None assms show ?thesis by (simp add: lru_erase_def lru_abs_drop_key) (simp add: lru_abs_eq)
  next
    case (Some vit)
    then obtain v it where vit: "map_of (m_cache c) k = Some (v, it)" by (cases vit) auto
    have "k \<in> fst ` set (m_cache c)" using vit by (metis map_of_eq_None_iff option.distinct(1))
    then have "length (AList.delete k (m_cache c)) \<le> m_capacity c"
      using assms length_delete_le [of k "m_cache c"] by (simp add: lru_inv_def)
    then have "lru_inv (lru_erase k c)"
      using assms
      by (auto simp: lru_erase_def vit lru_inv_def lru_cached(2) [OF assms vit] distinct_map_filter
          image_snd_filter delete_conv' split: if_splits)
    moreover have "lru_abs (lru_erase k c) = drop_key k (lru_abs c)"
      by (simp add: lru_erase_def vit lru_abs_drop_key lru_cached(2) [OF assms vit])
        (simp add: lru_abs_eq delete_conv')
    ultimately show ?thesis by simp
  qed
  then show "lru_inv (lru_erase k c)" "lru_abs (lru_erase k c) = drop_key k (lru_abs c)" by auto
qed

lemma lru_abs_cong:
  assumes "map snd (m_usage c) = ks"
    and "\<And>j. j \<in> set ks \<Longrightarrow> map_option fst (map_of (m_cache c) j) = Some (f j)"
  shows "lru_abs c = map (\<lambda>j. (j, f j)) ks"
proof -
  have "fst (the (map_of (m_cache c) j)) = f j" if "j \<in> set ks" for j
    using assms(2) [OF that] by auto
  then show ?thesis by (simp add: lru_abs_eq assms(1))
qed

text \<open>Overwriting a cached key.\<close>

lemma lru_put_cached:
  assumes "lru_inv c" "map_of (m_cache c) k = Some (v0, it)"
  shows "\<exists>c'. lru_put k v c = Some c' \<and> lru_inv c' \<and> m_capacity c' = m_capacity c \<and>
    lru_abs c' = abs_put (m_capacity c) k v (lru_abs c)"
proof -
  define c1 where "c1 = c\<lparr>m_usage := splice_front it (m_usage c)\<rparr>"
  define c2 where "c2 = c1\<lparr>m_cache := AList.update k (v, it) (m_cache c)\<rparr>"
  have inv1: "lru_inv c1" unfolding c1_def by (rule lru_inv_splice [OF assms])
  have k: "k \<in> fst ` set (m_cache c)" using assms(2) by (metis map_of_eq_None_iff option.distinct(1))
  then have len: "length (AList.update k (v, it) (m_cache c)) = length (m_cache c)"
    by (simp add: length_update)
  have usage: "m_usage c1 = (it, k) # filter (\<lambda>n. snd n \<noteq> k) (m_usage c)"
    using lru_cached(3) [OF assms] by (simp add: c1_def)
  have c1: "m_cache c1 = m_cache c" "(it, k) \<in> set (m_usage c1)"
    using usage by (simp_all add: c1_def)
  have link: "\<forall>j w i. ((map_of (m_cache c))(k \<mapsto> (v, it))) j = Some (w, i) \<longrightarrow> (i, j) \<in> set (m_usage c1)"
    using inv1 c1 by (auto simp: lru_inv_def simp del: map_of_eq_Some_iff)
  have inv2: "lru_inv c2"
    unfolding lru_inv_def
    using inv1 link k len
    by (simp add: c2_def c1(1) lru_inv_def update_conv' distinct_update insert_absorb
        del: fun_upd_apply)
  have "lru_abs c2 = (k, v) # drop_key k (lru_abs c)"
    unfolding lru_abs_eq [of c2] lru_abs_drop_key by (simp add: c2_def usage update_conv')
  moreover have "length ((k, v) # drop_key k (lru_abs c)) \<le> m_capacity c"
    using lru_inv_length [OF inv1] inv1
    by (simp add: lru_abs_drop_key usage) (simp add: lru_inv_def c1_def)
  moreover have "lru_put k v c = Some c2"
    by (simp add: lru_put_def assms(2) c2_def c1_def)
  ultimately show ?thesis using inv2 by (simp add: abs_put_def c2_def c1_def)
qed

text \<open>Inserting a new key when there is room.\<close>

lemma lru_insert_room:
  fixes v :: 'v
  assumes "lru_inv c" "map_of (m_cache c) k = None" "length (m_cache c) < m_capacity c"
  defines "c' \<equiv> c\<lparr>m_usage := (next_node c, k) # m_usage c,
                   m_cache := AList.update k (v, next_node c) (m_cache c),
                   next_node := Suc (next_node c)\<rparr>"
  shows "lru_inv c'" and "lru_abs c' = (k, v) # lru_abs c"
proof -
  have k: "k \<notin> fst ` set (m_cache c)" "k \<notin> snd ` set (m_usage c)"
    using assms(2) lru_inv_keys [OF assms(1)] by (simp_all add: map_of_eq_None_iff)
  then have len: "length (AList.update k (v, next_node c) (m_cache c)) = Suc (length (m_cache c))"
    by (simp add: length_update)
  show "lru_inv c'"
    using assms(1,3) k len
    by (auto simp: lru_inv_def c'_def update_conv' distinct_update split: if_splits)
  show "lru_abs c' = (k, v) # lru_abs c"
    using k(2) by (auto simp: lru_abs_eq c'_def update_conv')
qed

text \<open>Evicting the least recently used key from a full cache.\<close>

lemma lru_evict:
  assumes "lru_inv c" "m_usage c \<noteq> []"
  defines "c' \<equiv> c\<lparr>m_usage := butlast (m_usage c),
                   m_cache := AList.delete (snd (last (m_usage c))) (m_cache c)\<rparr>"
  shows "lru_inv c'" and "lru_abs c' = butlast (lru_abs c)"
    and "length (m_cache c') < length (m_cache c)"
proof -
  obtain us n j where us: "m_usage c = us @ [(n, j)]"
    using assms(2) by (metis append_butlast_last_id surj_pair)
  have j: "j \<in> fst ` set (m_cache c)" "j \<notin> snd ` set us"
    using assms(1) us by (auto simp: lru_inv_def)
  have c': "c' = c\<lparr>m_usage := us, m_cache := AList.delete j (m_cache c)\<rparr>"
    by (simp add: c'_def us)
  have shorter: "length (AList.delete j (m_cache c)) < length (m_cache c)"
    using j(1) unfolding delete_eq_filter by (force intro: length_filter_less)
  then show "length (m_cache c') < length (m_cache c)" by (simp add: c')
  show "lru_inv c'"
    using assms(1) us j shorter
    by (auto simp: lru_inv_def c' delete_conv' split: if_splits) blast+
  have "map_of (AList.delete j (m_cache c)) i = map_of (m_cache c) i" if "i \<in> snd ` set us" for i
    using that j(2) by (auto simp: delete_conv')
  then show "lru_abs c' = butlast (lru_abs c)"
    by (simp add: lru_abs_eq c' us)
qed

lemma lru_put_refines:
  assumes "lru_inv c" "0 < m_capacity c"
  shows "\<exists>c'. lru_put k v c = Some c' \<and> lru_inv c' \<and> m_capacity c' = m_capacity c \<and>
    lru_abs c' = abs_put (m_capacity c) k v (lru_abs c)"
proof (cases "map_of (m_cache c) k")
  case (Some vit)
  then show ?thesis using lru_put_cached [OF assms(1)] by (cases vit) blast
next
  case None
  then have "k \<notin> fst ` set (lru_abs c)"
    using lru_inv_keys [OF assms(1)] by (simp add: map_of_eq_None_iff)
  then have keep: "drop_key k (lru_abs c) = lru_abs c"
    unfolding drop_key_def by (intro filter_True ballI) (metis image_eqI)
  have len: "length (lru_abs c) = length (m_cache c)"
    using lru_inv_length [OF assms(1)] by (simp add: lru_abs_def)
  have room: "\<exists>c''. lru_put k v c = Some c'' \<and> lru_inv c'' \<and> m_capacity c'' = m_capacity c \<and>
      lru_abs c'' = (k, v) # lru_abs c'"
    if "lru_inv c'" "map_of (m_cache c') k = None" "length (m_cache c') < m_capacity c'"
      "m_capacity c' = m_capacity c"
      "lru_put k v c = Some (c'\<lparr>m_usage := (next_node c', k) # m_usage c',
                   m_cache := AList.update k (v, next_node c') (m_cache c'),
                   next_node := Suc (next_node c')\<rparr>)" for c'
    using that lru_insert_room [OF that(1-3)] by simp
  show ?thesis
  proof (cases "length (m_cache c) = m_capacity c")
    case False
    then have "length (m_cache c) < m_capacity c" using assms(1) by (simp add: lru_inv_def)
    then show ?thesis
      using room [OF assms(1) None] None False len by (auto simp: lru_put_def abs_put_def keep)
  next
    case True
    then have ne: "m_usage c \<noteq> []"
      using assms(2) lru_inv_length [OF assms(1)] by auto
    let ?c' = "c\<lparr>m_usage := butlast (m_usage c),
      m_cache := AList.delete (snd (last (m_usage c))) (m_cache c)\<rparr>"
    note ev = lru_evict [OF assms(1) ne]
    have "map_of (m_cache ?c') k = None" using None by (simp add: delete_conv')
    from room [OF ev(1) this] obtain c'' where "lru_put k v c = Some c''" "lru_inv c''"
      "m_capacity c'' = m_capacity c" "lru_abs c'' = (k, v) # butlast (lru_abs c)"
      using ev(2,3) True None ne by (auto simp: lru_put_def Let_def)
    moreover have "take (m_capacity c) ((k, v) # lru_abs c) = (k, v) # butlast (lru_abs c)"
      using assms(2) True len by (cases "m_capacity c") (simp_all add: butlast_conv_take)
    ultimately show ?thesis by (simp add: abs_put_def keep)
  qed
qed

text \<open>
  C7. The cache with its linked list and hash map behaves as one list of entries in order of use.
  From any state in which the two structures are linked and the capacity is not 0: a lookup returns
  the cached value and moves its entry to the front; storing puts the entry at the front and drops
  the least recently used one beyond the capacity (and never reads the back of an empty list);
  erasing removes the entry; and all three keep the structures linked.
\<close>

theorem lru_refines:
  assumes "lru_inv c" "0 < m_capacity c"
  shows "(fst (lru_get k c), lru_abs (snd (lru_get k c))) = abs_get k (lru_abs c) \<and>
    lru_inv (snd (lru_get k c)) \<and>
    (\<exists>c'. lru_put k v c = Some c' \<and> lru_abs c' = abs_put (m_capacity c) k v (lru_abs c) \<and>
       lru_inv c' \<and> m_capacity c' = m_capacity c) \<and>
    lru_abs (lru_erase k c) = drop_key k (lru_abs c) \<and> lru_inv (lru_erase k c)"
  using lru_get_refines [OF assms(1), of k] lru_put_refines [OF assms, of k v]
    lru_erase_refines [OF assms(1), of k] by (simp add: prod_eq_iff) blast

theorem lru_refines_witness:
  "lru_inv (LRUCache_new 8 :: (string, nat) LRUCache) \<and>
   (\<exists>c'. lru_put ''a'' 1 (LRUCache_new 8 :: (string, nat) LRUCache) = Some c' \<and> lru_abs c' = [(''a'', 1)])"
proof -
  let ?c = "LRUCache_new 8 :: (string, nat) LRUCache"
  have "lru_abs ?c = []" "m_capacity ?c = 8" by (simp_all add: LRUCache_new_def lru_abs_def)
  with lru_refines [of ?c "''a''" 1] show ?thesis by (auto simp: abs_put_def drop_key_def)
qed

section \<open>The contract of a bounded cache\<close>

locale bounded_cache =
  fixes put :: "'k \<Rightarrow> 'v \<Rightarrow> 'c \<Rightarrow> 'c option"
    and erase :: "'k \<Rightarrow> 'c \<Rightarrow> 'c"
    and lookup :: "'c \<Rightarrow> 'k \<Rightarrow> 'v option"
    and size_of :: "'c \<Rightarrow> nat"
    and cap :: nat
    and inv :: "'c \<Rightarrow> bool"
  assumes put_total: "inv c \<Longrightarrow> \<exists>c'. put k v c = Some c'"
    and put_inv: "inv c \<Longrightarrow> put k v c = Some c' \<Longrightarrow> inv c'"
    and put_same: "inv c \<Longrightarrow> put k v c = Some c' \<Longrightarrow> lookup c' k = Some v"
    and put_other: "inv c \<Longrightarrow> put k v c = Some c' \<Longrightarrow> j \<noteq> k \<Longrightarrow> lookup c' j \<in> {lookup c j, None}"
    and erase_inv: "inv c \<Longrightarrow> inv (erase k c)"
    and erase_lookup: "inv c \<Longrightarrow> lookup (erase k c) j = (if j = k then None else lookup c j)"
    and bounded: "inv c \<Longrightarrow> size_of c \<le> cap"
begin

fun put_all :: "('k \<times> 'v) list \<Rightarrow> 'c \<Rightarrow> 'c option" where
  "put_all [] c = Some c"
| "put_all ((k, v) # kvs) c = (case put k v c of None \<Rightarrow> None | Some c' \<Rightarrow> put_all kvs c')"

lemma put_all_total: "inv c \<Longrightarrow> \<exists>c'. put_all kvs c = Some c' \<and> inv c' \<and> size_of c' \<le> cap"
proof (induction kvs arbitrary: c)
  case (Cons kv kvs)
  obtain c' where "put (fst kv) (snd kv) c = Some c'" using put_total [OF Cons.prems] by blast
  with Cons.IH [OF put_inv [OF Cons.prems this]] show ?case by (cases kv) simp
qed (auto intro: bounded)

lemma lookup_origin:
  "inv c \<Longrightarrow> put_all kvs c = Some c' \<Longrightarrow> lookup c' k = Some v \<Longrightarrow> (k, v) \<in> set kvs \<or> lookup c k = Some v"
proof (induction kvs arbitrary: c)
  case (Cons kv kvs)
  obtain c1 where c1: "put (fst kv) (snd kv) c = Some c1" "put_all kvs c1 = Some c'"
    using Cons.prems(2) by (cases kv) (auto split: option.splits)
  from Cons.IH [OF put_inv [OF Cons.prems(1) c1(1)] c1(2) Cons.prems(3)] show ?case
    using put_same [OF Cons.prems(1) c1(1)] put_other [OF Cons.prems(1) c1(1), of k]
    by (cases "k = fst kv") (auto simp: prod_eq_iff)
qed simp

end

definition lru_lookup :: "('k, 'v) LRUCache \<Rightarrow> 'k \<Rightarrow> 'v option" where
  "lru_lookup c k = map_of (lru_abs c) k"

definition lru_ok :: "nat \<Rightarrow> ('k, 'v) LRUCache \<Rightarrow> bool" where
  "lru_ok n c \<longleftrightarrow> lru_inv c \<and> m_capacity c = Suc n"

lemma map_of_drop_key: "map_of (drop_key k es) j = (if j = k then None else map_of es j)"
  using map_of_filter_fst [of "\<lambda>x. x \<noteq> k" es j] by (simp add: drop_key_def)

lemma map_of_take: "distinct (map fst es) \<Longrightarrow> map_of (take n es) j \<in> {map_of es j, None}"
proof (induction es arbitrary: n)
  case (Cons e es)
  have "fst e \<notin> set (map fst (take m es))" for m
    using Cons.prems by (auto dest: in_set_takeD)
  then have "map_of (take m es) (fst e) = None" for m by (simp add: map_of_eq_None_iff)
  with Cons show ?case by (cases n; cases e) auto
qed simp

lemma lru_erase_capacity [simp]: "m_capacity (lru_erase k c) = m_capacity c"
  by (simp add: lru_erase_def split: option.split)

lemma lru_put_facts:
  assumes "lru_ok n c" "lru_put k v c = Some c'"
  shows "lru_ok n c'" "lru_lookup c' k = Some v"
    "j \<noteq> k \<Longrightarrow> lru_lookup c' j \<in> {lru_lookup c j, None}"
proof -
  have c: "lru_inv c" "m_capacity c = Suc n" using assms(1) by (simp_all add: lru_ok_def)
  then have c': "lru_inv c'" "m_capacity c' = Suc n"
    "lru_abs c' = abs_put (Suc n) k v (lru_abs c)"
    using lru_put_refines [of c k v] assms(2) by auto
  then show "lru_ok n c'" by (simp add: lru_ok_def)
  show "lru_lookup c' k = Some v" by (simp add: lru_lookup_def c'(3) abs_put_def)
  have "distinct (map fst ((k, v) # drop_key k (lru_abs c)))"
    using c(1) by (auto simp: drop_key_def lru_inv_def intro!: distinct_map_filter)
  from map_of_take [OF this, of "Suc n" j] show "lru_lookup c' j \<in> {lru_lookup c j, None}" if "j \<noteq> k"
    using that by (auto simp: lru_lookup_def c'(3) abs_put_def map_of_drop_key)
qed

interpretation lru: bounded_cache lru_put lru_erase lru_lookup "\<lambda>c. length (m_cache c)" "Suc n" "lru_ok n"
  for n
proof unfold_locales
  fix c c' :: "('a, 'b) LRUCache" and k j :: 'a and v :: 'b
  assume ok: "lru_ok n c"
  then have c: "lru_inv c" "0 < m_capacity c" by (simp_all add: lru_ok_def)
  show "\<exists>c'. lru_put k v c = Some c'" using lru_put_refines [OF c] by blast
  show "lru_put k v c = Some c' \<Longrightarrow> lru_ok n c'" "lru_put k v c = Some c' \<Longrightarrow> lru_lookup c' k = Some v"
    "lru_put k v c = Some c' \<Longrightarrow> j \<noteq> k \<Longrightarrow> lru_lookup c' j \<in> {lru_lookup c j, None}"
    using lru_put_facts [OF ok] by blast+
  show "lru_ok n (lru_erase k c)" "lru_lookup (lru_erase k c) j = (if j = k then None else lru_lookup c j)"
    using ok lru_erase_refines [OF c(1)]
    by (simp_all add: lru_ok_def lru_lookup_def map_of_drop_key)
  show "length (m_cache c) \<le> Suc n" using ok by (simp add: lru_ok_def lru_inv_def)
qed

end
