(* ===== verification/Json.thy ===== *)
theory Json
  imports Prelude
begin

text \<open>
  The JSON library (\<^verbatim>\<open>nlohmann::json\<close>) is not part of the sources: it is a parameter. A definition
  that reads JSON takes a record \<open>'j json_api\<close> whose fields are the member functions the sources
  call, over an unspecified type \<open>'j\<close> of JSON values. A field returns \<open>None\<close> where the member
  function throws a \<^verbatim>\<open>json::exception\<close>, except:

  \<^item> \<open>j_find\<close> returns \<open>None\<close> for \<^verbatim>\<open>end()\<close>;
  \<^item> \<open>j_index\<close> is \<^verbatim>\<open>operator[]\<close> on a \<^verbatim>\<open>const\<close> object, whose behaviour on an absent key is
    undefined: \<open>None\<close> stands for that.

  \<open>res\<close> is the result of code that may throw or run into undefined behaviour.
\<close>

datatype 'a res = Ret 'a | Exn | Undef

fun res_bind :: "'a res \<Rightarrow> ('a \<Rightarrow> 'b res) \<Rightarrow> 'b res" where
  "res_bind (Ret a) f = f a"
| "res_bind Exn f = Exn"
| "res_bind Undef f = Undef"

definition or_exn :: "'a option \<Rightarrow> 'a res" where
  "or_exn o' = (case o' of None \<Rightarrow> Exn | Some a \<Rightarrow> Ret a)"

definition or_undef :: "'a option \<Rightarrow> 'a res" where
  "or_undef o' = (case o' of None \<Rightarrow> Undef | Some a \<Rightarrow> Ret a)"

lemma or_simps [simp]:
  "or_exn None = Exn" "or_exn (Some a) = Ret a" "or_undef None = Undef" "or_undef (Some a) = Ret a"
  by (simp_all add: or_exn_def or_undef_def)

lemma res_bind_Ret: "res_bind r f = Ret b \<longleftrightarrow> (\<exists>a. r = Ret a \<and> f a = Ret b)"
  by (cases r) auto

record 'j json_api =
  j_parse :: "string \<Rightarrow> 'j option"
  j_dump :: "'j \<Rightarrow> string"
  j_is_array :: "'j \<Rightarrow> bool"
  j_is_object :: "'j \<Rightarrow> bool"
  j_is_string :: "'j \<Rightarrow> bool"
  j_is_number :: "'j \<Rightarrow> bool"
  j_is_integer :: "'j \<Rightarrow> bool"
  j_elements :: "'j \<Rightarrow> 'j list"
  j_find :: "'j \<Rightarrow> string \<Rightarrow> 'j option"
  j_at :: "'j \<Rightarrow> string \<Rightarrow> 'j option"
  j_index :: "'j \<Rightarrow> string \<Rightarrow> 'j option"
  j_string :: "'j \<Rightarrow> string option"
  j_bool :: "'j \<Rightarrow> bool option"
  j_int :: "'j \<Rightarrow> int option"
  j_u32 :: "'j \<Rightarrow> u32 option"
  j_u64 :: "'j \<Rightarrow> u64 option"
  j_is_boolean :: "'j \<Rightarrow> bool"
  j_is_null :: "'j \<Rightarrow> bool"
  j_i64 :: "'j \<Rightarrow> i64 option"

text \<open>\<^verbatim>\<open>value(key, default)\<close>: throws unless the value is an object; the default if the key is
  absent; otherwise the converted member, which may throw.\<close>

definition j_value :: "'j json_api \<Rightarrow> ('j \<Rightarrow> 'a option) \<Rightarrow> 'j \<Rightarrow> string \<Rightarrow> 'a \<Rightarrow> 'a res" where
  "j_value J get j k d =
     (if \<not> j_is_object J j then Exn
      else case j_find J j k of None \<Rightarrow> Ret d | Some v \<Rightarrow> or_exn (get v))"

text \<open>\<^verbatim>\<open>find\<close> followed by a test of the kind of value found.\<close>

definition j_find_if :: "'j json_api \<Rightarrow> ('j \<Rightarrow> bool) \<Rightarrow> 'j \<Rightarrow> string \<Rightarrow> 'j option" where
  "j_find_if J P j k = (case j_find J j k of Some v \<Rightarrow> if P v then Some v else None | None \<Rightarrow> None)"

section \<open>A concrete instance\<close>

text \<open>JSON values, for the witnesses only: the instance at which theorems about an arbitrary
  \<open>json_api\<close> are evaluated. Its parser knows no text.\<close>

datatype jval =
    JNull | JBool bool | JInt int | JStr string | JArr "jval list" | JObj "(string \<times> jval) list"

definition jval_get :: "jval \<Rightarrow> string \<Rightarrow> jval option" where
  "jval_get j k = (case j of JObj kvs \<Rightarrow> map_of kvs k | _ \<Rightarrow> None)"

definition jval_api :: "jval json_api" where
  "jval_api =
     \<lparr>j_parse = (\<lambda>_. None),
      j_dump = (\<lambda>_. []),
      j_is_array = (\<lambda>j. case j of JArr _ \<Rightarrow> True | _ \<Rightarrow> False),
      j_is_object = (\<lambda>j. case j of JObj _ \<Rightarrow> True | _ \<Rightarrow> False),
      j_is_string = (\<lambda>j. case j of JStr _ \<Rightarrow> True | _ \<Rightarrow> False),
      j_is_number = (\<lambda>j. case j of JInt _ \<Rightarrow> True | _ \<Rightarrow> False),
      j_is_integer = (\<lambda>j. case j of JInt _ \<Rightarrow> True | _ \<Rightarrow> False),
      j_elements = (\<lambda>j. case j of JArr xs \<Rightarrow> xs | JObj kvs \<Rightarrow> map snd kvs | JNull \<Rightarrow> [] | _ \<Rightarrow> [j]),
      j_find = jval_get,
      j_at = jval_get,
      j_index = jval_get,
      j_string = (\<lambda>j. case j of JStr s \<Rightarrow> Some s | _ \<Rightarrow> None),
      j_bool = (\<lambda>j. case j of JBool b \<Rightarrow> Some b | _ \<Rightarrow> None),
      j_int = (\<lambda>j. case j of JInt i \<Rightarrow> Some i | _ \<Rightarrow> None),
      j_u32 = (\<lambda>j. case j of JInt i \<Rightarrow> Some (word_of_int i) | _ \<Rightarrow> None),
      j_u64 = (\<lambda>j. case j of JInt i \<Rightarrow> Some (word_of_int i) | _ \<Rightarrow> None),
      j_is_boolean = (\<lambda>j. case j of JBool _ \<Rightarrow> True | _ \<Rightarrow> False),
      j_is_null = (\<lambda>j. case j of JNull \<Rightarrow> True | _ \<Rightarrow> False),
      j_i64 = (\<lambda>j. case j of JInt i \<Rightarrow> Some (word_of_int i) | _ \<Rightarrow> None)\<rparr>"

end
