(* ===== verification/Profiles.thy ===== *)
theory Profiles
  imports Lru_Cache Json Identifiers
begin

text \<open>
  \<^verbatim>\<open>source/player_profiles_manager.{h,cpp}\<close>: the profiles of the players at the machine, read from
  the JSON of the session, and the cache of their pictures.

  \<open>setProfiles\<close> reads each entry of the array inside a \<^verbatim>\<open>try\<close>: fields read before an exception stay
  assigned (\<open>then_set\<close>). An entry without a key that the code reads with \<^verbatim>\<open>operator[]\<close> of a
  \<^verbatim>\<open>const\<close> object is undefined behaviour (\<open>Undef\<close>).
\<close>

definition MAX_PICTURES_CACHED :: nat where
  "MAX_PICTURES_CACHED = 8"

record PlayerProfile =
  pp_player :: sb_player_t
  preferInitials :: bool
  pp_id :: string
  username :: string
  pp_name :: string
  initials :: string
  pictureUrl :: string
  pp_url :: string
  claimDeeplink :: string

definition PlayerProfile_empty :: PlayerProfile where
  "PlayerProfile_empty =
     \<lparr>pp_player = 0, preferInitials = False, pp_id = [], username = [], pp_name = [], initials = [],
      pictureUrl = [], pp_url = [], claimDeeplink = []\<rparr>"

definition hasInfo :: "PlayerProfile \<Rightarrow> bool" where
  "hasInfo p \<longleftrightarrow> pp_id p \<noteq> []"

definition PlayerProfile_eq :: "PlayerProfile \<Rightarrow> PlayerProfile \<Rightarrow> bool" where
  "PlayerProfile_eq lhs rhs \<longleftrightarrow>
     pp_player lhs = pp_player rhs \<and> pp_id lhs = pp_id rhs \<and> preferInitials lhs = preferInitials rhs
     \<and> username lhs = username rhs \<and> pp_name lhs = pp_name rhs \<and> initials lhs = initials rhs
     \<and> pictureUrl lhs = pictureUrl rhs \<and> pp_url lhs = pp_url rhs
     \<and> claimDeeplink lhs = claimDeeplink rhs"

type_synonym Picture = "8 word list"

record PlayerProfilesManager =
  m_profiles :: "PlayerProfile list"
  m_storedPicture :: Picture
  m_picturesCache :: "(string, Picture) LRUCache"

definition PlayerProfilesManager_new :: PlayerProfilesManager where
  "PlayerProfilesManager_new =
     \<lparr>m_profiles = [], m_storedPicture = [], m_picturesCache = LRUCache_new MAX_PICTURES_CACHED\<rparr>"

section \<open>Reading the profiles\<close>

text \<open>One assignment of a \<^verbatim>\<open>try\<close> block: skipped once an earlier one has thrown.\<close>

fun then_set :: "'a res \<Rightarrow> ('a \<Rightarrow> 'p \<Rightarrow> 'p) \<Rightarrow> 'p \<times> unit res \<Rightarrow> 'p \<times> unit res" where
  "then_set (Ret a) f (p, Ret u) = (f a p, Ret ())"
| "then_set Exn f (p, Ret u) = (p, Exn)"
| "then_set Undef f (p, Ret u) = (p, Undef)"
| "then_set r f (p, Exn) = (p, Exn)"
| "then_set r f (p, Undef) = (p, Undef)"

definition read_index :: "'j json_api \<Rightarrow> ('j \<Rightarrow> 'a option) \<Rightarrow> 'j \<Rightarrow> string \<Rightarrow> 'a res" where
  "read_index J get j k = res_bind (or_undef (j_index J j k)) (\<lambda>v. or_exn (get v))"

definition read_player :: "'j json_api \<Rightarrow> 'j \<Rightarrow> PlayerProfile \<Rightarrow> PlayerProfile \<times> unit res" where
  "read_player J player p =
     (let s = (p, Ret ());
          s = then_set (read_index J (j_string J) player JKEY_PLAYER_ID) (\<lambda>x. pp_id_update (\<lambda>_. x)) s;
          s = then_set (j_value J (j_bool J) player JKEY_PLAYER_PREFER_INITIALS False)
                (\<lambda>x. preferInitials_update (\<lambda>_. x)) s;
          s = then_set (read_index J (j_string J) player JKEY_PLAYER_USERNAME)
                (\<lambda>x. username_update (\<lambda>_. x)) s;
          s = then_set (read_index J (j_string J) player JKEY_PLAYER_DISPLAY_NAME)
                (\<lambda>x. pp_name_update (\<lambda>_. x)) s;
          s = then_set (read_index J (j_string J) player JKEY_PLAYER_INITIALS)
                (\<lambda>x. initials_update (\<lambda>_. x)) s;
          s = then_set (read_index J (j_string J) player JKEY_PLAYER_URL) (\<lambda>x. pp_url_update (\<lambda>_. x)) s
      in case j_find_if J (j_is_string J) player JKEY_PLAYER_AVATAR of
           None \<Rightarrow> s
         | Some v \<Rightarrow> then_set (or_exn (j_string J v)) (\<lambda>x. pictureUrl_update (\<lambda>_. x)) s)"

definition claim_deeplink :: "string \<Rightarrow> u64 \<Rightarrow> string" where
  "claim_deeplink machineUuid scoreId =
     fmt_named [(ARG_MACHINE_UUID, machineUuid), (ARG_SCORE_ID, to_string (uint scoreId))]
       URL_CLAIM_DEEPLINK"

definition read_profile ::
  "'j json_api \<Rightarrow> string \<Rightarrow> 'j \<Rightarrow> PlayerProfile \<Rightarrow> PlayerProfile \<times> unit res" where
  "read_profile J machineUuid obj p =
     (case j_find_if J (j_is_object J) obj JKEY_SCR_PLAYER of
        Some player \<Rightarrow> read_player J player p
      | None \<Rightarrow>
          then_set (read_index J (j_u64 J) obj JKEY_SCR_ID)
            (\<lambda>scoreId. claimDeeplink_update (\<lambda>_. claim_deeplink machineUuid scoreId)) (p, Ret ()))"

definition resize :: "nat \<Rightarrow> PlayerProfile list \<Rightarrow> PlayerProfile list" where
  "resize n ps = ps @ replicate (n - length ps) PlayerProfile_empty"

definition read_entry ::
  "'j json_api \<Rightarrow> string \<Rightarrow> 'j \<Rightarrow> PlayerProfile list \<Rightarrow> PlayerProfile list res" where
  "read_entry J machineUuid obj profiles =
     (if \<not> j_is_object J obj then Ret profiles
      else case read_index J (j_u32 J) obj JKEY_SCR_POSITION of
             Undef \<Rightarrow> Undef
           | Exn \<Rightarrow> Ret profiles
           | Ret playerNum \<Rightarrow>
               if playerNum = 0 then Ret profiles
               else let profiles = (if unat playerNum > length profiles
                                    then resize (unat playerNum) profiles else profiles);
                        i = unat playerNum - 1
                    in case read_profile J machineUuid obj ((profiles ! i)\<lparr>pp_player := playerNum\<rparr>) of
                         (p, Undef) \<Rightarrow> Undef
                       | (p, r) \<Rightarrow> Ret (profiles[i := p]))"

fun read_entries ::
  "'j json_api \<Rightarrow> string \<Rightarrow> 'j list \<Rightarrow> PlayerProfile list \<Rightarrow> PlayerProfile list res" where
  "read_entries J machineUuid [] profiles = Ret profiles"
| "read_entries J machineUuid (obj # objs) profiles =
     res_bind (read_entry J machineUuid obj profiles) (read_entries J machineUuid objs)"

definition setProfiles ::
  "'j json_api \<Rightarrow> 'j \<Rightarrow> string \<Rightarrow> PlayerProfilesManager
   \<Rightarrow> (PlayerProfile list option \<times> PlayerProfilesManager) res" where
  "setProfiles J val machineUuid s =
     (if \<not> j_is_array J val then Ret (None, s)
      else res_bind (read_entries J machineUuid (j_elements J val) []) (\<lambda>profiles.
        if list_all2 PlayerProfile_eq profiles (m_profiles s) then Ret (None, s)
        else Ret (Some profiles, s\<lparr>m_profiles := profiles\<rparr>)))"

section \<open>Pictures and queries\<close>

definition setPicture ::
  "string \<Rightarrow> Picture \<Rightarrow> PlayerProfilesManager \<Rightarrow> PlayerProfilesManager option" where
  "setPicture avatarUrl pic s =
     map_option (\<lambda>c. s\<lparr>m_picturesCache := c\<rparr>) (lru_put avatarUrl pic (m_picturesCache s))"

definition removePicture :: "string \<Rightarrow> PlayerProfilesManager \<Rightarrow> PlayerProfilesManager" where
  "removePicture avatarUrl s = s\<lparr>m_picturesCache := lru_erase avatarUrl (m_picturesCache s)\<rparr>"

definition profile :: "sb_player_t \<Rightarrow> PlayerProfilesManager \<Rightarrow> PlayerProfile option" where
  "profile player s =
     (if player = 0 \<or> unat player > length (m_profiles s) then None
      else Some (m_profiles s ! (unat player - 1)))"

definition hasPicture :: "string \<Rightarrow> PlayerProfilesManager \<Rightarrow> bool" where
  "hasPicture avatarUrl s = lru_has avatarUrl (m_picturesCache s)"

definition picture :: "string \<Rightarrow> PlayerProfilesManager \<Rightarrow> Picture \<times> PlayerProfilesManager" where
  "picture avatarUrl s =
     (let (found, c) = lru_get avatarUrl (m_picturesCache s);
          stored = (case found of None \<Rightarrow> [] | Some p \<Rightarrow> p)
      in (stored, s\<lparr>m_storedPicture := stored, m_picturesCache := c\<rparr>))"

fun picturesToDownload_loop ::
  "PlayerProfile list \<Rightarrow> (string, Picture) LRUCache \<Rightarrow> (sb_player_t \<times> string) list
   \<Rightarrow> (sb_player_t \<times> string) list" where
  "picturesToDownload_loop [] c result = result"
| "picturesToDownload_loop (p # ps) c result =
     (if pictureUrl p = [] then picturesToDownload_loop ps c result
      else if \<not> lru_has (pictureUrl p) c
      then picturesToDownload_loop ps c (smap_emplace (pp_player p) (pictureUrl p) result)
      else picturesToDownload_loop ps c result)"

definition picturesToDownload :: "PlayerProfilesManager \<Rightarrow> (sb_player_t \<times> string) list" where
  "picturesToDownload s = picturesToDownload_loop (m_profiles s) (m_picturesCache s) []"

section \<open>Slots: a profile is stored under its own number\<close>

definition slots_ok :: "PlayerProfile list \<Rightarrow> bool" where
  "slots_ok ps \<longleftrightarrow> length ps < 2 ^ 32 \<and>
     (\<forall>i < length ps. pp_player (ps ! i) = of_nat (i + 1) \<or> ps ! i = PlayerProfile_empty)"

definition profiles_ok :: "PlayerProfilesManager \<Rightarrow> bool" where
  "profiles_ok s \<longleftrightarrow> slots_ok (m_profiles s) \<and> lru_ok 7 (m_picturesCache s)"

lemma PlayerProfile_eq_iff: "PlayerProfile_eq p q \<longleftrightarrow> p = q"
  by (auto simp: PlayerProfile_eq_def)

lemma list_all2_PlayerProfile_eq [simp]: "list_all2 PlayerProfile_eq ps qs \<longleftrightarrow> ps = qs"
proof -
  have "PlayerProfile_eq = (=)" by (simp add: fun_eq_iff PlayerProfile_eq_iff)
  then show ?thesis by (simp add: list_all2_eq)
qed

lemma then_set_keeps:
  "(\<And>a p. g (f a p) = g p) \<Longrightarrow> g (fst (then_set r f s)) = g (fst s)"
  by (cases "(r, f, s)" rule: then_set.cases) auto

lemma read_profile_player: "pp_player (fst (read_profile J uuid obj p)) = pp_player p"
  by (simp add: read_profile_def read_player_def Let_def then_set_keeps [where g = pp_player]
      split: option.split)

lemma length_resize [simp]: "length (resize n ps) = max n (length ps)"
  by (simp add: resize_def)

lemma slots_ok_Nil [simp]: "slots_ok []"
  by (simp add: slots_ok_def)

lemma slots_ok_resize: "slots_ok ps \<Longrightarrow> n < 2 ^ 32 \<Longrightarrow> slots_ok (resize n ps)"
  by (auto simp: slots_ok_def resize_def nth_append)

lemma slots_ok_update:
  "slots_ok ps \<Longrightarrow> pp_player p = of_nat (i + 1) \<Longrightarrow> slots_ok (ps[i := p])"
  by (simp add: slots_ok_def) (metis nth_list_update_eq nth_list_update_neq)

lemma read_entry_slots:
  assumes "slots_ok ps" "read_entry J uuid obj ps = Ret ps'"
  shows "slots_ok ps'"
proof (cases "\<not> j_is_object J obj")
  case False
  then show ?thesis
  proof (cases "read_index J (j_u32 J) obj JKEY_SCR_POSITION")
    case (Ret n)
    show ?thesis
    proof (cases "n = 0")
      case nonzero: False
      define i qs where "i = unat n - 1"
        and "qs = (if unat n > length ps then resize (unat n) ps else ps)"
      obtain p r where pr: "read_profile J uuid obj ((qs ! i)\<lparr>pp_player := n\<rparr>) = (p, r)" by fastforce
      have "0 < unat n" using nonzero by (simp add: unat_gt_0)
      then have "n = of_nat (i + 1)" by (simp add: i_def)
      moreover have "pp_player p = n"
        using read_profile_player [of J uuid obj "(qs ! i)\<lparr>pp_player := n\<rparr>"] by (simp add: pr)
      ultimately have "pp_player p = of_nat (i + 1)" by (simp only:)
      moreover have "slots_ok qs"
        using assms(1) unat_u32_less [of n] by (auto simp: qs_def slots_ok_resize)
      moreover have "ps' = qs[i := p]"
        using assms(2) False Ret nonzero pr unfolding i_def
        by (auto simp: read_entry_def Let_def qs_def [symmetric] split: res.splits)
      ultimately show ?thesis by (simp add: slots_ok_update)
    qed (use assms Ret False in \<open>simp add: read_entry_def\<close>)
  qed (use assms False in \<open>auto simp: read_entry_def\<close>)
qed (use assms in \<open>simp add: read_entry_def\<close>)

lemma read_entries_slots:
  "slots_ok ps \<Longrightarrow> read_entries J uuid objs ps = Ret ps' \<Longrightarrow> slots_ok ps'"
  by (induction objs arbitrary: ps) (auto simp: res_bind_Ret dest: read_entry_slots)

lemma read_entry_not_Exn: "read_entry J uuid obj ps \<noteq> Exn"
  by (auto simp: read_entry_def Let_def split: res.split prod.split)

lemma profiles_ok_new: "profiles_ok PlayerProfilesManager_new"
  by (simp add: profiles_ok_def PlayerProfilesManager_new_def lru_ok_def MAX_PICTURES_CACHED_def)
    (simp add: LRUCache_new_def)

lemma lru_get_ok: "lru_ok n c \<Longrightarrow> lru_ok n (snd (lru_get k c))"
  using lru_get_refines(1) [of c k] by (auto simp: lru_ok_def lru_get_def split: option.splits)

lemma lru_has_lookup: "lru_inv c \<Longrightarrow> lru_has k c \<longleftrightarrow> lru_lookup c k \<noteq> None"
  by (simp add: lru_has_def lru_lookup_def map_of_lru_abs)

lemma setProfiles_ok:
  "profiles_ok s \<Longrightarrow> setProfiles J val uuid s = Ret (r, s') \<Longrightarrow> profiles_ok s'"
  by (auto simp: setProfiles_def profiles_ok_def res_bind_Ret
      dest: read_entries_slots [OF slots_ok_Nil] split: if_splits)

lemma picture_ok: "profiles_ok s \<Longrightarrow> profiles_ok (snd (picture url s))"
  using lru_get_ok [of 7 "m_picturesCache s" url]
  by (auto simp: profiles_ok_def picture_def Let_def split: prod.split)

lemma removePicture_ok: "profiles_ok s \<Longrightarrow> profiles_ok (removePicture url s)"
  using lru.erase_inv [of 7 "m_picturesCache s" url] by (simp add: profiles_ok_def removePicture_def)

lemma setPicture_ok: "profiles_ok s \<Longrightarrow> setPicture url pic s = Some s' \<Longrightarrow> profiles_ok s'"
  using lru.put_inv [of 7 "m_picturesCache s" url pic] by (auto simp: profiles_ok_def setPicture_def)

section \<open>Properties\<close>

text \<open>
  Reading the profiles of a session. Whenever the call returns, the manager holds exactly what
  the array says; the new profiles are handed back exactly when they differ from the old ones, so
  repeating the call reports nothing; the pictures are untouched; and every stored profile sits in
  the slot of its own player number or is blank.
\<close>

theorem setProfiles_spec:
  assumes "profiles_ok s" "j_is_array J val" "setProfiles J val uuid s = Ret (r, s')"
  shows "read_entries J uuid (j_elements J val) [] = Ret (m_profiles s') \<and>
    r = (if m_profiles s' = m_profiles s then None else Some (m_profiles s')) \<and>
    setProfiles J val uuid s' = Ret (None, s') \<and>
    m_picturesCache s' = m_picturesCache s \<and>
    (\<forall>k p. profile k s' = Some p \<longrightarrow> pp_player p = k \<or> p = PlayerProfile_empty)"
proof -
  obtain ps where ps: "read_entries J uuid (j_elements J val) [] = Ret ps"
    "(r, s') = (if ps = m_profiles s then (None, s) else (Some ps, s\<lparr>m_profiles := ps\<rparr>))"
    using assms(2,3) by (auto simp: setProfiles_def res_bind_Ret split: if_splits)
  have slots: "slots_ok (m_profiles s')"
    using setProfiles_ok [OF assms(1,3)] by (simp add: profiles_ok_def)
  have "pp_player p = k \<or> p = PlayerProfile_empty" if "profile k s' = Some p" for k p
  proof -
    have "0 < unat k" "unat k \<le> length (m_profiles s')" "p = m_profiles s' ! (unat k - 1)"
      using that by (auto simp: profile_def unat_gt_0 split: if_splits)
    moreover have "of_nat (unat k - 1 + 1) = k" using \<open>0 < unat k\<close> by simp
    ultimately show ?thesis using slots unfolding slots_ok_def
      by (metis diff_less less_le_trans zero_less_one)
  qed
  moreover have "setProfiles J val uuid s' = Ret (None, s')"
    using ps assms(2) by (auto simp: setProfiles_def split: if_splits)
  ultimately show ?thesis using ps by (auto split: if_splits)
qed

lemma picturesToDownload_loop_set:
  "smap_wf m \<Longrightarrow>
   (\<forall>p \<in> set ps. \<forall>q \<in> set ps. pictureUrl p \<noteq> [] \<longrightarrow> pictureUrl q \<noteq> [] \<longrightarrow>
      pp_player p = pp_player q \<longrightarrow> pictureUrl p = pictureUrl q) \<Longrightarrow>
   (\<forall>p \<in> set ps. pictureUrl p \<noteq> [] \<longrightarrow> map_of m (pp_player p) \<in> {None, Some (pictureUrl p)}) \<Longrightarrow>
   map_of (picturesToDownload_loop ps c m) k = Some u \<longleftrightarrow>
     map_of m k = Some u \<or>
     (\<exists>p \<in> set ps. pp_player p = k \<and> pictureUrl p = u \<and> u \<noteq> [] \<and> \<not> lru_has u c)"
proof (induction ps arbitrary: m)
  case (Cons p ps)
  show ?case
  proof (cases "pictureUrl p = [] \<or> lru_has (pictureUrl p) c")
    case True
    have "map_of (picturesToDownload_loop ps c m) k = Some u \<longleftrightarrow>
      map_of m k = Some u \<or>
      (\<exists>p \<in> set ps. pp_player p = k \<and> pictureUrl p = u \<and> u \<noteq> [] \<and> \<not> lru_has u c)"
      using Cons.prems by (intro Cons.IH) auto
    with True show ?thesis by auto
  next
    case False
    have "map_of (picturesToDownload_loop ps c (smap_emplace (pp_player p) (pictureUrl p) m)) k = Some u \<longleftrightarrow>
      map_of (smap_emplace (pp_player p) (pictureUrl p) m) k = Some u \<or>
      (\<exists>p \<in> set ps. pp_player p = k \<and> pictureUrl p = u \<and> u \<noteq> [] \<and> \<not> lru_has u c)"
      using Cons.prems False
      by (intro Cons.IH) (auto simp: map_of_smap_emplace)
    with False Cons.prems(3) show ?thesis by (auto simp: map_of_smap_emplace split: if_splits)
  qed
qed simp

lemma slots_player_eq:
  assumes "slots_ok ps" "i < length ps" "j < length ps" "ps ! i \<noteq> PlayerProfile_empty"
    "ps ! j \<noteq> PlayerProfile_empty" "pp_player (ps ! i) = pp_player (ps ! j)"
  shows "i = j"
proof -
  have nat: "unat (of_nat (k + 1) :: u32) = k + 1" if "k < length ps" for k
    using that assms(1) by (intro unat_u32_of_nat) (simp add: slots_ok_def)
  have "(of_nat (i + 1) :: u32) = of_nat (j + 1)" using assms unfolding slots_ok_def by metis
  then have "unat (of_nat (i + 1) :: u32) = unat (of_nat (j + 1) :: u32)" by (rule arg_cong)
  then show ?thesis unfolding nat [OF assms(2)] nat [OF assms(3)] by simp
qed

lemma slots_same_url:
  assumes "slots_ok ps" "p \<in> set ps" "q \<in> set ps" "pictureUrl p \<noteq> []" "pictureUrl q \<noteq> []"
    "pp_player p = pp_player q"
  shows "pictureUrl p = pictureUrl q"
proof -
  have "r \<noteq> PlayerProfile_empty" if "pictureUrl r \<noteq> []" for r
    using that by (auto simp: PlayerProfile_empty_def)
  then show ?thesis using assms slots_player_eq [OF assms(1)] by (metis in_set_conv_nth)
qed

lemma profile_Some_iff:
  assumes "slots_ok (m_profiles s)" "u \<noteq> []"
  shows "(\<exists>p \<in> set (m_profiles s). pp_player p = k \<and> pictureUrl p = u) \<longleftrightarrow>
    (\<exists>p. profile k s = Some p \<and> pictureUrl p = u)"
proof
  assume "\<exists>p \<in> set (m_profiles s). pp_player p = k \<and> pictureUrl p = u"
  then obtain i where i: "i < length (m_profiles s)" "pp_player (m_profiles s ! i) = k"
    "pictureUrl (m_profiles s ! i) = u" by (auto simp: in_set_conv_nth)
  then have "m_profiles s ! i \<noteq> PlayerProfile_empty"
    using assms(2) by (auto simp: PlayerProfile_empty_def)
  then have "k = of_nat (i + 1)" using assms(1) i unfolding slots_ok_def by metis
  moreover have "unat (of_nat (i + 1) :: u32) = i + 1"
    using i(1) assms(1) by (intro unat_u32_of_nat) (simp add: slots_ok_def)
  ultimately have "unat k = i + 1" by (simp only:)
  then have "profile k s = Some (m_profiles s ! i)" using i(1) by (auto simp: profile_def)
  with i(3) show "\<exists>p. profile k s = Some p \<and> pictureUrl p = u" by blast
next
  assume "\<exists>p. profile k s = Some p \<and> pictureUrl p = u"
  then have "0 < unat k" "unat k \<le> length (m_profiles s)"
    "pictureUrl (m_profiles s ! (unat k - 1)) = u"
    by (auto simp: profile_def unat_gt_0 split: if_splits)
  then have *: "0 < unat k" "unat k - 1 < length (m_profiles s)"
    "pictureUrl (m_profiles s ! (unat k - 1)) = u" by linarith+
  then have "m_profiles s ! (unat k - 1) \<noteq> PlayerProfile_empty"
    using assms(2) by (auto simp: PlayerProfile_empty_def)
  then have "pp_player (m_profiles s ! (unat k - 1)) = of_nat (unat k - 1 + 1)"
    using assms(1) *(2) unfolding slots_ok_def by blast
  then have "pp_player (m_profiles s ! (unat k - 1)) = k" using *(1) by simp
  with * show "\<exists>p \<in> set (m_profiles s). pp_player p = k \<and> pictureUrl p = u"
    by (intro bexI [of _ "m_profiles s ! (unat k - 1)"] conjI nth_mem)
qed

lemma picturesToDownload_iff:
  assumes "profiles_ok s"
  shows "map_of (picturesToDownload s) k = Some u \<longleftrightarrow>
    (\<exists>p. profile k s = Some p \<and> pictureUrl p = u \<and> u \<noteq> [] \<and> \<not> hasPicture u s)"
proof -
  have slots: "slots_ok (m_profiles s)" using assms by (simp add: profiles_ok_def)
  have "map_of (picturesToDownload s) k = Some u \<longleftrightarrow>
    (\<exists>p \<in> set (m_profiles s). pp_player p = k \<and> pictureUrl p = u \<and> u \<noteq> [] \<and> \<not> lru_has u (m_picturesCache s))"
    unfolding picturesToDownload_def
    using slots_same_url [OF slots] by (subst picturesToDownload_loop_set) auto
  then show ?thesis using profile_Some_iff [OF slots, of u k] by (auto simp: hasPicture_def)
qed

text \<open>
  The pictures to download are exactly those of the players whose profile names a picture that
  is not in the cache. Once a picture has been stored, it is not asked for again.
\<close>

theorem picturesToDownload_exact:
  assumes "profiles_ok s"
  shows "(map_of (picturesToDownload s) k = Some u \<longleftrightarrow>
      (\<exists>p. profile k s = Some p \<and> pictureUrl p = u \<and> u \<noteq> [] \<and> \<not> hasPicture u s)) \<and>
    (\<exists>s'. setPicture u pic s = Some s' \<and> hasPicture u s' \<and> fst (picture u s') = pic \<and>
      map_of (picturesToDownload s') k \<noteq> Some u)"
proof -
  have ok: "lru_ok 7 (m_picturesCache s)" using assms by (simp add: profiles_ok_def)
  obtain c where c: "lru_put u pic (m_picturesCache s) = Some c" using lru.put_total [OF ok] by blast
  define s' where "s' = s\<lparr>m_picturesCache := c\<rparr>"
  have s': "setPicture u pic s = Some s'" by (simp add: setPicture_def c s'_def)
  then have ok': "profiles_ok s'" by (rule setPicture_ok [OF assms])
  have inv: "lru_inv c" using lru.put_inv [OF ok c] by (simp add: lru_ok_def)
  have "lru_lookup c u = Some pic" by (rule lru.put_same [OF ok c])
  then have "hasPicture u s'" "fst (picture u s') = pic"
    using lru_get_refines(2) [OF inv, of u]
    by (auto simp: hasPicture_def picture_def s'_def lru_has_lookup [OF inv] lru_lookup_def abs_get_def
        split: prod.split)
  with picturesToDownload_iff [OF assms] picturesToDownload_iff [OF ok'] s' show ?thesis by blast
qed

theorem setProfiles_spec_witness:
  "\<exists>r s'. setProfiles jval_api
      (JArr [JObj [(''position'', JInt 2), (''id'', JInt 77)], JNull]) ''m1'' PlayerProfilesManager_new = Ret (r, s')
    \<and> r = Some (m_profiles s') \<and> setProfiles jval_api
      (JArr [JObj [(''position'', JInt 2), (''id'', JInt 77)], JNull]) ''m1'' s' = Ret (None, s')
    \<and> map claimDeeplink (m_profiles s') = [[], ''https://scorbit.link/machines/m1/?score_id=77'']"
proof -
  let ?val = "JArr [JObj [(''position'', JInt 2), (''id'', JInt 77)], JNull]"
  let ?p = "PlayerProfile_empty\<lparr>pp_player := 2,
    claimDeeplink := ''https://scorbit.link/machines/m1/?score_id=77''\<rparr>"
  have api: "j_is_array jval_api ?val"
    by (simp add: jval_api_def)
  have link: "claim_deeplink ''m1'' 77 = ''https://scorbit.link/machines/m1/?score_id=77''"
    by code_simp
  have two: "replicate 2 x = [x, x]" for x :: PlayerProfile by (simp add: numeral_2_eq_2)
  have entries: "read_entries jval_api ''m1'' (j_elements jval_api ?val) [] = Ret [PlayerProfile_empty, ?p]"
    by (simp add: jval_api_def jval_get_def read_entry_def read_index_def read_profile_def j_find_if_def
        resize_def link two)
  have ret: "setProfiles jval_api ?val ''m1'' PlayerProfilesManager_new =
      Ret (Some [PlayerProfile_empty, ?p],
        PlayerProfilesManager_new\<lparr>m_profiles := [PlayerProfile_empty, ?p]\<rparr>)"
    using entries api by (simp add: setProfiles_def PlayerProfilesManager_new_def)
  from setProfiles_spec [OF profiles_ok_new api ret] ret show ?thesis
    by (simp add: PlayerProfile_empty_def)
qed

theorem picturesToDownload_exact_witness:
  "\<exists>s'. setPicture ''u'' [1] (PlayerProfilesManager_new\<lparr>m_profiles := [PlayerProfile_empty\<lparr>pp_player := 1, pictureUrl := ''u''\<rparr>]\<rparr>) = Some s' \<and>
     hasPicture ''u'' s' \<and> fst (picture ''u'' s') = [1] \<and> map_of (picturesToDownload s') 1 \<noteq> Some ''u''"
proof -
  have "profiles_ok (PlayerProfilesManager_new\<lparr>m_profiles := [PlayerProfile_empty\<lparr>pp_player := 1, pictureUrl := ''u''\<rparr>]\<rparr>)"
    using profiles_ok_new by (simp add: profiles_ok_def slots_ok_def)
  from picturesToDownload_exact [OF this, of 1 "''u''" "[1]"] show ?thesis by blast
qed

text \<open>
  The cache holds at most eight pictures while a game has up to nine players: if nine profiles
  name nine different pictures, whatever has been stored, at least one of them is still to be
  downloaded.
\<close>

theorem nine_pictures_never_cached:
  assumes "profiles_ok s" "length (m_profiles s) = 9" "distinct (map pictureUrl (m_profiles s))"
    "[] \<notin> set (map pictureUrl (m_profiles s))"
  shows "picturesToDownload s \<noteq> []"
proof
  assume none: "picturesToDownload s = []"
  have ok: "lru_ok 7 (m_picturesCache s)" and slots: "slots_ok (m_profiles s)"
    using assms(1) by (simp_all add: profiles_ok_def)
  have "u \<in> fst ` set (m_cache (m_picturesCache s))" if u: "u \<in> set (map pictureUrl (m_profiles s))" for u
  proof -
    have "u \<noteq> []" using u assms(4) by metis
    obtain q where "q \<in> set (m_profiles s)" "pictureUrl q = u" using u by auto
    then obtain k p where "profile k s = Some p" "pictureUrl p = u"
      using profile_Some_iff [OF slots \<open>u \<noteq> []\<close>, of "pp_player q"] by blast
    then have "lru_has u (m_picturesCache s)"
      using picturesToDownload_iff [OF assms(1), of k u] \<open>u \<noteq> []\<close> none by (auto simp: hasPicture_def)
    then show ?thesis by (simp add: lru_has_def map_of_eq_None_iff)
  qed
  then have "set (map pictureUrl (m_profiles s)) \<subseteq> fst ` set (m_cache (m_picturesCache s))" by blast
  then have "card (set (map pictureUrl (m_profiles s))) \<le> card (fst ` set (m_cache (m_picturesCache s)))"
    by (intro card_mono) simp_all
  also have "\<dots> \<le> length (m_cache (m_picturesCache s))"
    using card_length [of "map fst (m_cache (m_picturesCache s))"] by simp
  finally have "card (set (map pictureUrl (m_profiles s))) \<le> length (m_cache (m_picturesCache s))" .
  with lru.bounded [OF ok] assms(2) distinct_card [OF assms(3)] show False by simp
qed

theorem nine_pictures_never_cached_witness:
  "picturesToDownload (PlayerProfilesManager_new\<lparr>m_profiles :=
     map (\<lambda>i. PlayerProfile_empty\<lparr>pp_player := of_nat i, pictureUrl := replicate i CHR ''a''\<rparr>) [1..<10]\<rparr>) \<noteq> []"
proof -
  have s: "slots_ok (map (\<lambda>i. PlayerProfile_empty\<lparr>pp_player := of_nat i, pictureUrl := replicate i CHR ''a''\<rparr>) [1..<10])"
    by (auto simp: slots_ok_def)
  show ?thesis
    by (rule nine_pictures_never_cached)
      (use s profiles_ok_new in \<open>auto simp: profiles_ok_def o_def distinct_map inj_on_def\<close>)
qed

end
