(* ===== verification/Events.thy ===== *)
theory Events
  imports Profiles
begin

text \<open>
  \<^verbatim>\<open>source/event_classes.h\<close> and \<^verbatim>\<open>include/scorbit_sdk/event_types.h\<close>: the events the SDK delivers to
  the application. The subclasses of \<^verbatim>\<open>EventBase\<close> are the constructors of \<open>event_body\<close>; the base part
  (type, priority and creation number) is the record \<open>EventBase\<close>. The creation number comes from
  the static counter \<^verbatim>\<open>s_orderCounter\<close>, which construction takes and returns.
\<close>

datatype EventType =
    GameStartRequested | CreditsAddRequested | CreditsStatusRequested | ConfigReceived
  | PlayersUpdated | PlayerPictureReady | DiagnosticsUploadRequested | DiagnosticsUploaded
  | PricingReceived | PairingStatusChanged | EventNone | ScorbitdUpdateReceived | ScorbitdUpdated
  | FirmwaresListReceived

fun event_type_code :: "EventType \<Rightarrow> int" where
  "event_type_code GameStartRequested = 0"
| "event_type_code CreditsAddRequested = 1"
| "event_type_code CreditsStatusRequested = 2"
| "event_type_code ConfigReceived = 3"
| "event_type_code PlayersUpdated = 4"
| "event_type_code PlayerPictureReady = 5"
| "event_type_code DiagnosticsUploadRequested = 6"
| "event_type_code DiagnosticsUploaded = 7"
| "event_type_code PricingReceived = 8"
| "event_type_code PairingStatusChanged = 9"
| "event_type_code EventNone = 1000"
| "event_type_code ScorbitdUpdateReceived = 1001"
| "event_type_code ScorbitdUpdated = 1002"
| "event_type_code FirmwaresListReceived = 1003"

datatype EventPriority = Normal | High | Highest

fun priority_value :: "EventPriority \<Rightarrow> nat" where
  "priority_value Normal = 0"
| "priority_value High = 1"
| "priority_value Highest = 2"

lemma priority_value_inj [simp]: "priority_value p = priority_value q \<longleftrightarrow> p = q"
  by (cases p; cases q) simp_all

instantiation EventPriority :: linorder
begin

definition less_eq_EventPriority :: "EventPriority \<Rightarrow> EventPriority \<Rightarrow> bool" where
  "less_eq_EventPriority p q \<longleftrightarrow> priority_value p \<le> priority_value q"

definition less_EventPriority :: "EventPriority \<Rightarrow> EventPriority \<Rightarrow> bool" where
  "less_EventPriority p q \<longleftrightarrow> priority_value p < priority_value q"

instance
  by standard (auto simp: less_eq_EventPriority_def less_EventPriority_def)

end

section \<open>Pricing\<close>

record Bundle =
  b_credits :: int
  b_price :: string
  b_regularPrice :: string
  b_salePrice :: string

record Pricing =
  m_freePlay :: bool
  m_paymentsEnabled :: bool
  m_creditPrice :: string
  m_creditRegularPrice :: string
  m_creditSalePrice :: string
  m_bundles :: "Bundle list"

definition sale_price :: "'j json_api \<Rightarrow> 'j \<Rightarrow> string res" where
  "sale_price J j =
     (case j_find_if J (j_is_string J) j ''sale_price'' of
        None \<Rightarrow> Ret [] | Some sp \<Rightarrow> or_exn (j_string J sp))"

definition read_credit :: "'j json_api \<Rightarrow> 'j \<Rightarrow> Pricing \<Rightarrow> Pricing res" where
  "read_credit J prices e =
     (case j_find_if J (j_is_object J) prices ''credit'' of
        None \<Rightarrow> Ret e
      | Some credit \<Rightarrow>
          res_bind (j_value J (j_string J) credit ''price'' []) (\<lambda>price.
          res_bind (j_value J (j_string J) credit ''regular_price'' []) (\<lambda>regular.
          res_bind (sale_price J credit) (\<lambda>sale.
          Ret (e\<lparr>m_creditPrice := price, m_creditRegularPrice := regular, m_creditSalePrice := sale\<rparr>)))))"

definition read_bundle :: "'j json_api \<Rightarrow> 'j \<Rightarrow> Bundle res" where
  "read_bundle J b =
     res_bind (j_value J (j_int J) b ''credits'' 0) (\<lambda>credits.
     res_bind (j_value J (j_string J) b ''price'' []) (\<lambda>price.
     res_bind (j_value J (j_string J) b ''regular_price'' []) (\<lambda>regular.
     res_bind (sale_price J b) (\<lambda>sale.
     Ret \<lparr>b_credits = credits, b_price = price, b_regularPrice = regular, b_salePrice = sale\<rparr>))))"

fun read_bundles :: "'j json_api \<Rightarrow> 'j list \<Rightarrow> Bundle list \<Rightarrow> Bundle list res" where
  "read_bundles J [] bs = Ret bs"
| "read_bundles J (b # js) bs =
     (if \<not> j_is_object J b then read_bundles J js bs
      else res_bind (read_bundle J b) (\<lambda>bundle. read_bundles J js (bs @ [bundle])))"

definition PricingReceivedEvent_new :: "'j json_api \<Rightarrow> 'j \<Rightarrow> Pricing res" where
  "PricingReceivedEvent_new J pricingJson =
     res_bind (j_value J (j_bool J) pricingJson ''free_play'' False) (\<lambda>freePlay.
     res_bind (j_value J (j_bool J) pricingJson ''payments_enabled'' False) (\<lambda>paymentsEnabled.
     let e = \<lparr>m_freePlay = freePlay, m_paymentsEnabled = paymentsEnabled, m_creditPrice = [],
              m_creditRegularPrice = [], m_creditSalePrice = [], m_bundles = []\<rparr>
     in case j_find_if J (j_is_object J) pricingJson ''prices'' of
          None \<Rightarrow> Ret e
        | Some prices \<Rightarrow>
            res_bind (read_credit J prices e) (\<lambda>e.
            case j_find_if J (j_is_array J) prices ''bundles'' of
              None \<Rightarrow> Ret e
            | Some bundles \<Rightarrow>
                res_bind (read_bundles J (j_elements J bundles) []) (\<lambda>bs.
                Ret (e\<lparr>m_bundles := bs\<rparr>)))))"

definition hasPrices :: "Pricing \<Rightarrow> bool" where
  "hasPrices e \<longleftrightarrow> m_creditPrice e \<noteq> []"

text \<open>\<^verbatim>\<open>static_cast<int>(size)\<close>\<close>

definition int_of_size :: "nat \<Rightarrow> int" where
  "int_of_size n = sint (of_nat n :: i32)"

definition bundlesCount :: "Pricing \<Rightarrow> int" where
  "bundlesCount e = int_of_size (length (m_bundles e))"

definition bundle_at :: "int \<Rightarrow> Pricing \<Rightarrow> Bundle option" where
  "bundle_at index e =
     (if index < 0 \<or> index \<ge> int_of_size (length (m_bundles e)) then None
      else Some (m_bundles e ! nat index))"

section \<open>Events\<close>

datatype 'j event_body =
    GameStartRequestedEvent int
  | CreditsAddRequestedEvent int string
  | CreditsStatusRequestedEvent
  | ConfigReceivedEvent 'j
  | ScorbitdUpdateReceivedEvent string
  | ScorbitdUpdatedEvent string string
  | FirmwaresListReceivedEvent string
  | PlayersUpdatedEvent "PlayerProfile list"
  | PlayerPictureReadyEvent sb_player_t Picture
  | DiagnosticsUploadRequestedEvent bool
  | DiagnosticsUploadedEvent bool
  | PricingReceivedEvent Pricing
  | PairingStatusChangedEvent bool

fun type_of_body :: "'j event_body \<Rightarrow> EventType" where
  "type_of_body (GameStartRequestedEvent _) = GameStartRequested"
| "type_of_body (CreditsAddRequestedEvent _ _) = CreditsAddRequested"
| "type_of_body CreditsStatusRequestedEvent = CreditsStatusRequested"
| "type_of_body (ConfigReceivedEvent _) = ConfigReceived"
| "type_of_body (ScorbitdUpdateReceivedEvent _) = ScorbitdUpdateReceived"
| "type_of_body (ScorbitdUpdatedEvent _ _) = ScorbitdUpdated"
| "type_of_body (FirmwaresListReceivedEvent _) = FirmwaresListReceived"
| "type_of_body (PlayersUpdatedEvent _) = PlayersUpdated"
| "type_of_body (PlayerPictureReadyEvent _ _) = PlayerPictureReady"
| "type_of_body (DiagnosticsUploadRequestedEvent _) = DiagnosticsUploadRequested"
| "type_of_body (DiagnosticsUploadedEvent _) = DiagnosticsUploaded"
| "type_of_body (PricingReceivedEvent _) = PricingReceived"
| "type_of_body (PairingStatusChangedEvent _) = PairingStatusChanged"

fun priority_of_body :: "'j event_body \<Rightarrow> EventPriority" where
  "priority_of_body (GameStartRequestedEvent _) = Highest"
| "priority_of_body (CreditsAddRequestedEvent _ _) = High"
| "priority_of_body CreditsStatusRequestedEvent = High"
| "priority_of_body (PairingStatusChangedEvent _) = High"
| "priority_of_body _ = Normal"

record 'j EventBase =
  m_type :: EventType
  m_priority :: EventPriority
  m_order :: u64
  ev_body :: "'j event_body"

text \<open>Construction: \<^verbatim>\<open>m_order {++s_orderCounter}\<close>.\<close>

definition make_event :: "'j event_body \<Rightarrow> u64 \<Rightarrow> 'j EventBase \<times> u64" where
  "make_event b s_orderCounter =
     (let c = s_orderCounter + 1
      in (\<lparr>m_type = type_of_body b, m_priority = priority_of_body b, m_order = c, ev_body = b\<rparr>, c))"

text \<open>\<^verbatim>\<open>operator<\<close>: the greater event is delivered first.\<close>

definition event_less :: "'j EventBase \<Rightarrow> 'j EventBase \<Rightarrow> bool" where
  "event_less e other =
     (if m_priority e = m_priority other then m_order e > m_order other
      else m_priority e < m_priority other)"

definition playersCount :: "PlayerProfile list \<Rightarrow> int" where
  "playersCount ps = int_of_size (length ps)"

definition playerByNumber :: "sb_player_t \<Rightarrow> PlayerProfile list \<Rightarrow> PlayerProfile option" where
  "playerByNumber player ps =
     (if player = 0 \<or> unat player > length ps then None else Some (ps ! (unat player - 1)))"

lemma event_less_irrefl: "\<not> event_less e e"
  by (simp add: event_less_def)

lemma event_less_trans: "event_less a b \<Longrightarrow> event_less b c \<Longrightarrow> event_less a c"
  by (auto simp: event_less_def split: if_splits)

lemma event_less_total: "m_order a \<noteq> m_order b \<Longrightarrow> event_less a b \<or> event_less b a"
  by (auto simp: event_less_def)

lemma bundle_at_Some:
  assumes "length (m_bundles e) < 2 ^ 31"
  shows "bundle_at i e = (if 0 \<le> i \<and> nat i < length (m_bundles e) then Some (m_bundles e ! nat i) else None)"
proof -
  have "int_of_size (length (m_bundles e)) = int (length (m_bundles e))"
    using assms by (simp add: int_of_size_def signed_of_nat signed_take_bit_int_eq_self_iff)
  then show ?thesis by (auto simp: bundle_at_def)
qed

end
