(* ===== verification/Event_Queue.thy ===== *)
theory Event_Queue
  imports Events "HOL-Library.Multiset"
begin

text \<open>
  \<^verbatim>\<open>source/event_queue.h\<close> and \<^verbatim>\<open>source/event_manager.h\<close>.

  \<^verbatim>\<open>EventQueue\<close> wraps \<^verbatim>\<open>std::priority_queue\<close> over pointers: a list whose \<open>top\<close> is an element that no
  other exceeds in the event order. Its contract is the locale \<open>max_queue\<close>.

  \<^verbatim>\<open>EventManager\<close> is used from many threads: \<^verbatim>\<open>push\<close> first enqueues, then posts a run of
  \<^verbatim>\<open>processEvents\<close> on a strand, so that at most one run is in progress. Its interleavings are the
  step relation \<open>em_step\<close>, one step per atomic action: the field \<open>posting\<close> counts the threads between
  the two parts of \<^verbatim>\<open>push\<close>, \<open>posted\<close> the runs waiting on the strand, \<open>running\<close> whether one is in its
  loop.
\<close>

section \<open>The queue\<close>

fun top_event :: "'j EventBase \<Rightarrow> 'j EventBase list \<Rightarrow> 'j EventBase" where
  "top_event e [] = e"
| "top_event e (x # q) = (if event_less e x then top_event x q else top_event e q)"

text \<open>\<^verbatim>\<open>enqueue\<close> ignores a null pointer.\<close>

definition enqueue :: "'j EventBase option \<Rightarrow> 'j EventBase list \<Rightarrow> 'j EventBase list" where
  "enqueue event q = (case event of None \<Rightarrow> q | Some e \<Rightarrow> e # q)"

definition dequeue :: "'j EventBase list \<Rightarrow> 'j EventBase option \<times> 'j EventBase list" where
  "dequeue q =
     (case q of [] \<Rightarrow> (None, []) | e # es \<Rightarrow> let t = top_event e es in (Some t, remove1 t q))"

lemma top_event_in: "top_event e q \<in> set (e # q)"
  by (induction q arbitrary: e) auto

lemma top_event_max:
  "\<forall>x \<in> set (e # q). \<not> event_less (top_event e q) x"
proof (induction q arbitrary: e)
  case (Cons x q)
  show ?case
  proof (cases "event_less e x")
    case True
    with Cons [of x] show ?thesis using event_less_trans by fastforce
  next
    case False
    have "\<not> event_less (top_event e q) x"
    proof
      assume *: "event_less (top_event e q) x"
      have "\<not> event_less (top_event e q) e" using Cons [of e] by simp
      with * False show False by (auto simp: event_less_def split: if_splits)
    qed
    with Cons [of e] False show ?thesis by auto
  qed
qed (simp add: event_less_irrefl)

locale max_queue =
  fixes enq :: "'e option \<Rightarrow> 'q \<Rightarrow> 'q"
    and deq :: "'q \<Rightarrow> 'e option \<times> 'q"
    and contents :: "'q \<Rightarrow> 'e multiset"
    and before :: "'e \<Rightarrow> 'e \<Rightarrow> bool"
  assumes enq_null: "contents (enq None q) = contents q"
    and enq_event: "contents (enq (Some e) q) = add_mset e (contents q)"
    and deq_empty: "fst (deq q) = None \<longleftrightarrow> contents q = {#}"
    and deq_none: "fst (deq q) = None \<Longrightarrow> contents (snd (deq q)) = {#}"
    and deq_some: "fst (deq q) = Some e \<Longrightarrow> contents q = add_mset e (contents (snd (deq q)))"
    and deq_max: "fst (deq q) = Some e \<Longrightarrow> x \<in># contents q \<Longrightarrow> \<not> before x e"
begin

lemma deq_smaller: "fst (deq q) = Some e \<Longrightarrow> size (contents (snd (deq q))) < size (contents q)"
  using deq_some [of q e] by simp

fun drain :: "nat \<Rightarrow> 'q \<Rightarrow> 'e list" where
  "drain 0 q = []"
| "drain (Suc n) q =
     (case deq q of (None, q') \<Rightarrow> [] | (Some e, q') \<Rightarrow> e # drain n q')"

lemma drain_mset: "size (contents q) \<le> n \<Longrightarrow> mset (drain n q) = contents q"
proof (induction n arbitrary: q)
  case (Suc n)
  show ?case
  proof (cases "fst (deq q)")
    case None
    then show ?thesis using deq_empty [of q] by (auto split: prod.split)
  next
    case (Some e)
    then have "size (contents (snd (deq q))) \<le> n" using deq_smaller [OF Some] Suc.prems by linarith
    from Suc.IH [OF this] deq_some [OF Some] Some show ?thesis by (auto split: prod.split)
  qed
qed simp

lemma drain_sorted: "size (contents q) \<le> n \<Longrightarrow> sorted_wrt (\<lambda>x y. \<not> before y x) (drain n q)"
proof (induction n arbitrary: q)
  case (Suc n)
  show ?case
  proof (cases "fst (deq q)")
    case None
    then show ?thesis by (auto split: prod.split)
  next
    case (Some e)
    then have le: "size (contents (snd (deq q))) \<le> n" using deq_smaller [OF Some] Suc.prems by linarith
    have "\<forall>y \<in> set (drain n (snd (deq q))). \<not> before y e"
      using drain_mset [OF le] deq_some [OF Some] deq_max [OF Some]
      by (metis insert_iff set_mset_add_mset_insert set_mset_mset)
    with Suc.IH [OF le] Some show ?thesis by (auto split: prod.split)
  qed
qed simp

end

lemma dequeue_Nil [simp]: "dequeue [] = (None, [])"
  by (simp add: dequeue_def)

lemma dequeue_None [simp]: "fst (dequeue q) = None \<longleftrightarrow> q = []"
  by (auto simp: dequeue_def Let_def split: list.split)

lemma dequeue_Some:
  assumes "fst (dequeue q) = Some e"
  shows "e \<in> set q" "snd (dequeue q) = remove1 e q" "\<forall>x \<in> set q. \<not> event_less e x"
proof -
  obtain x es where q: "q = x # es" using assms by (cases q) (auto simp: dequeue_def)
  then have e: "e = top_event x es" using assms by (simp add: dequeue_def Let_def)
  show "e \<in> set q" using top_event_in [of x es] by (simp add: q e)
  show "snd (dequeue q) = remove1 e q" by (simp add: q e dequeue_def Let_def)
  show "\<forall>x \<in> set q. \<not> event_less e x" using top_event_max [of x es] by (simp add: q e)
qed

interpretation events: max_queue enqueue dequeue mset "\<lambda>x e. event_less e x"
proof unfold_locales
  fix q :: "'a EventBase list" and e x :: "'a EventBase"
  show "fst (dequeue q) = Some e \<Longrightarrow> mset q = add_mset e (mset (snd (dequeue q)))"
    by (simp add: dequeue_Some)
  show "fst (dequeue q) = Some e \<Longrightarrow> x \<in># mset q \<Longrightarrow> \<not> event_less e x"
    using dequeue_Some(3) by fastforce
  show "fst (dequeue q) = None \<Longrightarrow> mset (snd (dequeue q)) = {#}"
    by (auto simp: dequeue_def Let_def split: list.splits)
qed (simp_all add: enqueue_def)

section \<open>The manager\<close>

record 'j EventManager =
  m_events :: "'j EventBase list"
  m_stopped :: bool
  m_eventCallback :: bool
  posting :: nat
  posted :: nat
  running :: bool
  delivered :: "'j EventBase list"
  accepted :: "'j EventBase list"

definition EventManager_new :: "bool \<Rightarrow> 'j EventManager" where
  "EventManager_new callback =
     \<lparr>m_events = [], m_stopped = False, m_eventCallback = callback, posting = 0, posted = 0,
      running = False, delivered = [], accepted = []\<rparr>"

definition stop :: "'j EventManager \<Rightarrow> 'j EventManager" where
  "stop s = s\<lparr>m_stopped := True\<rparr>"

text \<open>The first part of \<^verbatim>\<open>push\<close>: the guard and the insertion. \<open>accepted\<close> records what was inserted.\<close>

definition push_event :: "'j EventBase option \<Rightarrow> 'j EventManager \<Rightarrow> 'j EventManager" where
  "push_event event s =
     (case event of
        None \<Rightarrow> s
      | Some e \<Rightarrow>
          if m_stopped s then s
          else s\<lparr>m_events := enqueue (Some e) (m_events s), posting := Suc (posting s),
                  accepted := accepted s @ [e]\<rparr>)"

definition scheduleProcessing :: "'j EventManager \<Rightarrow> 'j EventManager" where
  "scheduleProcessing s = s\<lparr>posting := posting s - 1, posted := Suc (posted s)\<rparr>"

text \<open>The strand starts a posted run; one turn of the loop of \<^verbatim>\<open>processEvents\<close>.\<close>

definition processEvents_enter :: "'j EventManager \<Rightarrow> 'j EventManager" where
  "processEvents_enter s = s\<lparr>posted := posted s - 1, running := True\<rparr>"

definition processEvents_turn :: "'j EventManager \<Rightarrow> 'j EventManager" where
  "processEvents_turn s =
     (if m_stopped s then s\<lparr>running := False\<rparr>
      else case dequeue (m_events s) of
             (None, q) \<Rightarrow> s\<lparr>m_events := q, running := False\<rparr>
           | (Some e, q) \<Rightarrow>
               let s = s\<lparr>m_events := q\<rparr>
               in if m_eventCallback s then s\<lparr>delivered := delivered s @ [e]\<rparr> else s)"

inductive em_step :: "'j EventManager \<Rightarrow> 'j EventManager \<Rightarrow> bool" where
  Push: "em_step s (push_event event s)"
| Post: "0 < posting s \<Longrightarrow> em_step s (scheduleProcessing s)"
| Enter: "0 < posted s \<Longrightarrow> \<not> running s \<Longrightarrow> em_step s (processEvents_enter s)"
| Turn: "running s \<Longrightarrow> em_step s (processEvents_turn s)"
| Stop: "em_step s (stop s)"

inductive em_reachable :: "bool \<Rightarrow> 'j EventManager \<Rightarrow> bool" for callback where
  em_init: "em_reachable callback (EventManager_new callback)"
| em_next: "em_reachable callback s \<Longrightarrow> em_step s s' \<Longrightarrow> em_reachable callback s'"

fun processEvents :: "nat \<Rightarrow> 'j EventManager \<Rightarrow> 'j EventManager option" where
  "processEvents 0 s = None"
| "processEvents (Suc n) s =
     (let s' = processEvents_turn s in if running s' then processEvents n s' else Some s')"

text \<open>
  Work is never forgotten: unless stopped, a queued event has a run in its loop, on the strand, or
  about to be posted; and what was accepted is either delivered or still queued.
\<close>

definition em_inv :: "bool \<Rightarrow> 'j EventManager \<Rightarrow> bool" where
  "em_inv callback s \<longleftrightarrow>
     m_eventCallback s = callback \<and>
     (\<not> m_stopped s \<longrightarrow> m_events s \<noteq> [] \<longrightarrow> running s \<or> 0 < posted s \<or> 0 < posting s) \<and>
     (callback \<longrightarrow> mset (accepted s) = mset (delivered s) + mset (m_events s))"

lemma em_inv_step:
  assumes "em_inv callback s" "em_step s s'"
  shows "em_inv callback s'"
  using assms(2,1)
proof cases
  case (Push event)
  then show ?thesis using assms(1) by (auto simp: em_inv_def push_event_def enqueue_def split: option.split)
next
  case Turn
  show ?thesis
  proof (cases "fst (dequeue (m_events s))")
    case None
    then have "m_events s = []" by simp
    then show ?thesis using assms(1) Turn
      by (auto simp: em_inv_def processEvents_turn_def dequeue_def)
  next
    case (Some e)
    then obtain q where q: "dequeue (m_events s) = (Some e, q)" by (cases "dequeue (m_events s)") auto
    then show ?thesis using assms(1) Turn events.deq_some [OF Some]
      by (auto simp: em_inv_def processEvents_turn_def)
  qed
qed (auto simp: em_inv_def scheduleProcessing_def processEvents_enter_def stop_def)

lemma em_reachable_inv: "em_reachable callback s \<Longrightarrow> em_inv callback s"
proof (induction rule: em_reachable.induct)
  case em_init
  then show ?case by (simp add: em_inv_def EventManager_new_def)
next
  case (em_next s s')
  then show ?case using em_inv_step by blast
qed

text \<open>
  C9. No event is lost, whatever the interleaving of the pushing threads with the run on the strand:
  while the manager is not stopped, as long as an accepted event has not been delivered there is a
  run in its loop, one waiting on the strand, or a thread about to post one. When all of those are
  done, exactly the accepted events have been delivered, each once.
\<close>

theorem no_event_lost:
  assumes "em_reachable True s" "\<not> m_stopped s"
  shows "(mset (delivered s) \<noteq> mset (accepted s) \<longrightarrow> running s \<or> 0 < posted s \<or> 0 < posting s) \<and>
    (\<not> running s \<and> posted s = 0 \<and> posting s = 0 \<longrightarrow> mset (delivered s) = mset (accepted s))"
  using em_reachable_inv [OF assms(1)] assms(2) by (auto simp: em_inv_def)

text \<open>A turn of the loop delivers an event that no queued event precedes.\<close>

lemma turn_delivers:
  assumes "running s" "\<not> m_stopped s" "m_eventCallback s" "m_events s \<noteq> []"
  shows "\<exists>e \<in> set (m_events s). delivered (processEvents_turn s) = delivered s @ [e] \<and>
    (\<forall>x \<in> set (m_events s). \<not> event_less e x)"
proof -
  obtain e where e: "fst (dequeue (m_events s)) = Some e"
    using assms(4) dequeue_None [of "m_events s"] by (metis not_None_eq)
  then show ?thesis using assms dequeue_Some [OF e]
    by (cases "dequeue (m_events s)") (auto simp: processEvents_turn_def)
qed

section \<open>Order of delivery\<close>

text \<open>The event order as a number: the smaller is delivered first.\<close>

definition event_key :: "'j EventBase \<Rightarrow> nat" where
  "event_key e = (2 - priority_value (m_priority e)) * 2 ^ 64 + unat (m_order e)"

lemma unat_u64_less: "unat (n :: u64) < 2 ^ 64"
  using unsigned_less [of n, where ?'a = nat] by simp

lemma event_less_key: "event_less a b \<longleftrightarrow> event_key b < event_key a"
  using unat_u64_less [of "m_order a"] unat_u64_less [of "m_order b"]
  by (cases "m_priority a"; cases "m_priority b")
    (auto simp: event_less_def event_key_def less_EventPriority_def word_less_nat_alt)

lemma event_key_inj: "event_key a = event_key b \<Longrightarrow> m_order a = m_order b"
  using unat_u64_less [of "m_order a"] unat_u64_less [of "m_order b"]
  by (cases "m_priority a"; cases "m_priority b") (auto simp: event_key_def word_unat_eq_iff)

lemma drain_events_sorted:
  fixes q :: "'j EventBase list"
  assumes "distinct (map m_order q)"
  shows "events.drain (length q) q = sort_key event_key q"
proof -
  have mset: "mset (events.drain (length q) q) = mset q" by (simp add: events.drain_mset)
  have inj: "inj_on event_key (set q)"
    using assms by (auto simp: inj_on_def distinct_map dest: event_key_inj)
  moreover have "sorted (map event_key (events.drain (length q) q))"
    using events.drain_sorted [of q "length q"]
    by (simp add: sorted_wrt_map event_less_key not_less)
  ultimately show ?thesis using sort_key_inj_key_eq [of q "events.drain (length q) q" event_key] mset
    by simp
qed

lemma processEvents_drain:
  fixes s :: "'j EventManager"
  assumes "length (m_events s) < n" "running s" "\<not> m_stopped s" "m_eventCallback s"
  shows "processEvents n s = Some (s\<lparr>m_events := [], running := False,
    delivered := delivered s @ events.drain (length (m_events s)) (m_events s)\<rparr>)"
  using assms
proof (induction n arbitrary: s)
  case (Suc n)
  show ?case
  proof (cases "fst (dequeue (m_events s))")
    case None
    then have "m_events s = []" by simp
    then show ?thesis using Suc.prems by (simp add: processEvents_turn_def)
  next
    case (Some e)
    obtain q where q: "dequeue (m_events s) = (Some e, q)" using Some by (cases "dequeue (m_events s)") auto
    have "mset (m_events s) = add_mset e (mset q)" using events.deq_some [OF Some] by (simp add: q)
    then have "length (m_events s) = Suc (length q)" by (metis size_add_mset size_mset)
    then show ?thesis
      using Suc.prems Suc.IH [of "s\<lparr>m_events := q, delivered := delivered s @ [e]\<rparr>"]
      by (simp add: processEvents_turn_def q)
  qed
qed simp

fun make_events :: "'j event_body list \<Rightarrow> u64 \<Rightarrow> 'j EventBase list" where
  "make_events [] c = []"
| "make_events (b # bs) c = (let (e, c') = make_event b c in e # make_events bs c')"

definition push_all :: "'j EventBase list \<Rightarrow> 'j EventManager \<Rightarrow> 'j EventManager" where
  "push_all es s = foldl (\<lambda>s e. scheduleProcessing (push_event (Some e) s)) s es"

lemma push_all_events:
  "\<not> m_stopped s \<Longrightarrow>
   m_events (push_all es s) = rev es @ m_events s \<and> \<not> m_stopped (push_all es s) \<and>
   m_eventCallback (push_all es s) = m_eventCallback s \<and> delivered (push_all es s) = delivered s"
  unfolding push_all_def
  by (induction es arbitrary: s) (simp_all add: push_event_def scheduleProcessing_def enqueue_def)

lemma map_sort_key: "map f (sort_key (\<lambda>x. g (f x)) xs) = sort_key g (map f xs)"
proof -
  have "map f (insort_key (\<lambda>x. g (f x)) x ys) = insort_key g (f x) (map f ys)" for x ys
    by (induction ys) auto
  then show ?thesis by (induction xs) auto
qed

text \<open>Delivery rank of an event: its distance from the highest priority.\<close>

definition rank :: "'j event_body \<Rightarrow> nat" where
  "rank b = 2 - priority_value (priority_of_body b)"

lemma make_events_facts:
  "unat c + length bs < 2 ^ 64 \<Longrightarrow>
   map ev_body (make_events bs c) = bs \<and>
   (\<forall>e \<in> set (make_events bs c). unat c < unat (m_order e) \<and> m_priority e = priority_of_body (ev_body e)) \<and>
   sorted_wrt (<) (map (\<lambda>e. unat (m_order e)) (make_events bs c))"
proof (induction bs arbitrary: c)
  case (Cons b bs)
  then have c: "unat (c + 1) = Suc (unat c)" by (simp add: unat_word_ariths(1))
  then have "unat (c + 1) + length bs < 2 ^ 64" using Cons.prems by simp
  from Cons.IH [OF this] c show ?case by (auto simp: make_event_def Let_def)
qed simp

lemma sort_key_event_key:
  assumes "\<forall>e \<in> set es. m_priority e = priority_of_body (ev_body e)"
    "sorted_wrt (<) (map (\<lambda>e. unat (m_order e)) es)"
  shows "sort_key event_key es = sort_key (\<lambda>e. rank (ev_body e)) es"
  using assms
proof (induction es)
  case (Cons e es)
  have key: "event_key e \<le> event_key x \<longleftrightarrow> rank (ev_body e) \<le> rank (ev_body x)" if "x \<in> set es" for x
  proof -
    have "unat (m_order e) < unat (m_order x)" using that Cons.prems(2) by auto
    moreover have "m_priority e = priority_of_body (ev_body e)" "m_priority x = priority_of_body (ev_body x)"
      using that Cons.prems(1) by auto
    ultimately show ?thesis
      using unat_u64_less [of "m_order e"] unat_u64_less [of "m_order x"]
      by (cases "priority_of_body (ev_body e)"; cases "priority_of_body (ev_body x)")
        (auto simp: event_key_def rank_def)
  qed
  have "set ys \<subseteq> set es \<Longrightarrow> insort_key event_key e ys = insort_key (\<lambda>e. rank (ev_body e)) e ys" for ys
    by (induction ys) (auto simp: key)
  then have "insort_key event_key e (sort_key event_key es)
      = insort_key (\<lambda>e. rank (ev_body e)) e (sort_key event_key es)" by simp
  with Cons show ?case by simp
qed simp

text \<open>
  C10. A batch of events pushed one after the other and then processed is delivered completely, in
  order of priority, and events of the same priority in the order in which they were created: the
  delivery order is the stable sort of the batch by priority. (The creation counter must not wrap.)
\<close>

theorem burst_delivery_order:
  assumes "unat c + length bs < 2 ^ 64"
  shows "\<exists>s'. processEvents (Suc (length bs))
        (processEvents_enter (push_all (make_events bs c) (EventManager_new True))) = Some s' \<and>
      map ev_body (delivered s') = sort_key rank bs \<and> m_events s' = []"
proof -
  let ?es = "make_events bs c"
  let ?s = "processEvents_enter (push_all ?es (EventManager_new True))"
  note es = make_events_facts [OF assms]
  have s: "m_events ?s = rev ?es" "running ?s" "\<not> m_stopped ?s" "m_eventCallback ?s" "delivered ?s = []"
    using push_all_events [of "EventManager_new True" ?es]
    by (auto simp: processEvents_enter_def EventManager_new_def)
  have len: "length ?es = length bs" using es by (metis length_map)
  have ord: "sorted_wrt (<) (map (\<lambda>e. unat (m_order e)) ?es)" using es by blast
  then have "distinct (map (\<lambda>e. unat (m_order e)) ?es)" by (simp add: strict_sorted_iff)
  then have dist: "distinct (map m_order ?es)" by (auto simp: distinct_map inj_on_def)
  have inj: "inj_on event_key (set ?es)"
    using dist by (auto simp: inj_on_def distinct_map dest: event_key_inj)
  have "events.drain (length (rev ?es)) (rev ?es) = sort_key event_key (rev ?es)"
    using drain_events_sorted [of "rev ?es"] dist by (simp add: rev_map [symmetric])
  also have "\<dots> = sort_key event_key ?es"
    by (rule sort_key_inj_key_eq) (use inj in simp_all)
  also have "\<dots> = sort_key (\<lambda>e. rank (ev_body e)) ?es"
    by (rule sort_key_event_key) (use es in auto)
  finally have "map ev_body (events.drain (length (rev ?es)) (rev ?es)) = sort_key rank bs"
    using es by (simp add: map_sort_key)
  with processEvents_drain [of ?s "Suc (length bs)"] s len show ?thesis by simp
qed

theorem burst_delivery_order_witness:
  "\<exists>s'. processEvents 4 (processEvents_enter (push_all (make_events
       [DiagnosticsUploadedEvent True, CreditsStatusRequestedEvent, GameStartRequestedEvent 2] 0)
       (EventManager_new True :: jval EventManager))) = Some s' \<and>
     map ev_body (delivered s') =
       [GameStartRequestedEvent 2, CreditsStatusRequestedEvent, DiagnosticsUploadedEvent True]"
proof -
  let ?bs = "[DiagnosticsUploadedEvent True, CreditsStatusRequestedEvent, GameStartRequestedEvent 2]
    :: jval event_body list"
  have len: "Suc (length ?bs) = 4" by simp
  have c: "unat (0 :: u64) + length ?bs < 2 ^ 64" by simp
  have sort: "sort_key rank ?bs =
      [GameStartRequestedEvent 2, CreditsStatusRequestedEvent, DiagnosticsUploadedEvent True]"
    by (simp add: rank_def)
  obtain s' where "processEvents 4 (processEvents_enter (push_all (make_events ?bs 0) (EventManager_new True)))
      = Some s'" "map ev_body (delivered s') = sort_key rank ?bs"
    using burst_delivery_order [OF c] unfolding len by (elim exE conjE)
  then show ?thesis unfolding sort by (intro exI [of _ s'] conjI)
qed

theorem no_event_lost_witness:
  "mset (accepted (EventManager_new True :: jval EventManager)) = mset (delivered (EventManager_new True :: jval EventManager))
   \<and> (\<exists>s :: jval EventManager. s = scheduleProcessing (push_event (Some (fst (make_event CreditsStatusRequestedEvent 0))) (EventManager_new True))
        \<and> (running s \<or> 0 < posted s \<or> 0 < posting s))"
proof -
  let ?e = "fst (make_event CreditsStatusRequestedEvent 0) :: jval EventBase"
  let ?s0 = "EventManager_new True :: jval EventManager"
  let ?s1 = "push_event (Some ?e) ?s0"
  let ?s2 = "scheduleProcessing ?s1"
  have r0: "em_reachable True ?s0" by (rule em_init)
  have r1: "em_reachable True ?s1" using r0 Push by (rule em_next)
  have r2: "em_reachable True ?s2"
    by (rule em_next [OF r1 Post]) (simp add: push_event_def EventManager_new_def)
  have "\<not> m_stopped ?s0" "\<not> m_stopped ?s2" "mset (delivered ?s2) \<noteq> mset (accepted ?s2)"
    by (simp_all add: push_event_def scheduleProcessing_def EventManager_new_def)
  with no_event_lost [OF r0] no_event_lost [OF r2] show ?thesis
    by (auto simp: EventManager_new_def)
qed

end
