(* ===== verification/Net_State.thy ===== *)
theory Net_State
  imports Net_Util Worker Event_Queue Flags
begin

text \<open>
  The state of \<^verbatim>\<open>source/net.{h,cpp}\<close> (class \<^verbatim>\<open>Net\<close>) shared by the theories that model its operations,
  and \<^verbatim>\<open>source/device_info.h\<close>.

  \<^item> A closure that the code posts to the worker or starts on a timer is a constructor of
    \<open>net_task\<close>; running it is a function of its own. What \<^verbatim>\<open>Net\<close> asks of the worker, of the
    real-time client and of the application is recorded in call order in the field \<open>outs\<close>.
  \<^item> Events pushed to the event manager are recorded in order in \<open>pushed\<close>.
  \<^item> A JSON document the code builds is a \<open>doc\<close>; \<open>DJson\<close> embeds a parsed value.
  \<^item> The callback an application passes is a number that names it.
\<close>

datatype 'j doc =
    DNull | DBool bool | DInt int | DStr string | DArr "'j doc list"
  | DObj "(string \<times> 'j doc) list" | DJson 'j

text \<open>\<^verbatim>\<open>std::optional\<close> in a JSON document: null if absent.\<close>

definition doc_opt :: "string option \<Rightarrow> 'j doc" where
  "doc_opt o' = (case o' of None \<Rightarrow> DNull | Some s \<Rightarrow> DStr s)"

type_synonym callback_id = nat

section \<open>Requests\<close>

datatype endpoint = Endpoint string "(string \<times> string) list" | ReleaseTrackUrl

datatype form_part = FormText string string | FormFile string string string | FormDisk string string string

datatype 'j http_body =
    Parameters "(string \<times> string) list" | Body "'j doc" | EmptyBody | ScorbitronObject
  | Multipart "form_part list"

datatype http_callback =
    CbLog
  | CbSessionCreated int bool
  | CbSessionUpdated int
  | CbSessionData string
  | CbConfig
  | CbScorbitronObject
  | CbPatched http_callback
  | CbUnpair callback_id
  | CbPairMachine "callback_id option"
  | CbReleaseTrack
  | CbMachineObject
  | CbNonces
  | CbFirmwares
  | CbDiagnostics string
  | CbTopScores callback_id

record 'j http_task =
  ht_method :: string
  ht_multipart :: bool
  ht_endpoint :: endpoint
  ht_body :: "'j http_body"
  ht_allowed :: "AuthStatus list"
  ht_fingerprint :: bool
  ht_callback :: http_callback

record top_scores_request =
  ts_scope :: LeaderboardScope
  ts_period :: LeaderboardPeriod
  ts_since :: string
  ts_vpin :: LeaderboardVpinFilter
  ts_callback :: callback_id

datatype 'j net_task =
    TNoop
  | TAuthenticate
  | THttp "'j http_task"
  | TSubmitGameData GameData SessionFlags
  | TSessionUpdate int SessionFlags
  | TSendLatest int
  | TSendLatestAgain int
  | THeartbeatTimer
  | TTokenRefresh
  | TTopScores top_scores_request nat
  | TTopScoresRetry top_scores_request nat
  | TPairCode callback_id
  | TCreditsStatus bool int int
  | TDiagnosticPacket string u64 string
  | TUploadDiagnostics "string list" "string list" string
  | TDownloadPicture sb_player_t string
  | TDownloadFile callback_id string string "(string \<times> string) list"
  | TDownloadBuffer callback_id string nat "(string \<times> string) list"
  | TRebuildCentrifugo
  | TResetCentrifugo nat
  | TNfcCheckTag
  | TNfcBootReason
  | TModeExpiry callback_id

type_synonym header = "(string \<times> string) list"

record sent_request =
  sr_method :: string
  sr_url :: string
  sr_header :: header
  sr_status :: AuthStatus

datatype 'j net_out =
    OPost executor "'j net_task"
  | OStartTimer Timer duration "'j net_task"
  | OStopTimer Timer
  | OPublish string "'j doc"
  | ODisconnect nat
  | OConnect nat
  | ODestroyClient nat
  | OCallback callback_id Error string
  | OOnCreated int
  | ONotifyAuth
  | ONotifyShortCode
  | ODiscovery u64 string string string
  | OSend sent_request
  | OStopEvents
  | OStartWorker
  | OJoinWorker

section \<open>Data\<close>

record DeviceInfo =
  provider :: string
  machineId :: int
  gameCodeVersion :: string
  di_hostname :: string
  di_cfHostname :: string
  di_uuid :: string
  serialNumber :: u64
  autoDownloadPlayerPics :: bool
  scoreFeatures :: "string list"
  scoreFeaturesVersion :: int
  threadsNice :: int
  encryptedKey :: string
  signerCallback :: bool
  scorbitdVersion :: string
  scorbitdPlatformId :: string
  machineTitle :: string
  extraFingerprint :: string
  saveKeyCallback :: bool
  loadKeyCallback :: bool

definition hasAuthentication :: "DeviceInfo \<Rightarrow> bool" where
  "hasAuthentication di \<longleftrightarrow> encryptedKey di \<noteq> [] \<or> signerCallback di"

definition usesEncryptedKey :: "DeviceInfo \<Rightarrow> bool" where
  "usesEncryptedKey di \<longleftrightarrow> encryptedKey di \<noteq> []"

definition hasAuthenticationCallback :: "DeviceInfo \<Rightarrow> bool" where
  "hasAuthenticationCallback di \<longleftrightarrow> signerCallback di"

definition hasSoftKeyProvisioning :: "DeviceInfo \<Rightarrow> bool" where
  "hasSoftKeyProvisioning di \<longleftrightarrow> encryptedKey di \<noteq> [] \<and> saveKeyCallback di \<and> loadKeyCallback di"

definition validateDeviceInfo :: "DeviceInfo \<Rightarrow> bool" where
  "validateDeviceInfo di =
     (if provider di = [] then False
      else if provider di \<noteq> PROVIDER_SCORBITRON \<and> provider di \<noteq> PROVIDER_VSCORBITRON
           \<and> machineId di = 0
      then False else True)"

record ScoreMetadata =
  sm_id :: u64
  isNfcVerified :: bool
  tournamentUuid :: "string option"

definition ScoreMetadata_empty :: ScoreMetadata where
  "ScoreMetadata_empty = \<lparr>sm_id = 0, isNfcVerified = False, tournamentUuid = None\<rparr>"

record GameSession =
  sessionCounter :: int
  sessionUuid :: string
  gs_gameData :: GameData
  startedTime :: time_point
  startedSystemTime :: time_point
  history :: GameHistory
  scoresMetadata :: "(sb_player_t \<times> ScoreMetadata) list"

record MachineInfo =
  opdbId :: string
  machineUuid :: string
  variantUuid :: "string option"
  gameSlug :: "string option"
  venueUuid :: "string option"
  mi_title :: string

datatype ConnectionState = Disconnected | Connecting | Connected

record cf_client =
  cf_id :: nat
  cf_state :: ConnectionState

record 'j Net =
  m_status :: AuthStatus
  m_stop :: bool
  m_isRefreshingToken :: bool
  m_hostname :: string
  m_cfHostname :: string
  m_stoken :: string
  m_cachedShortCode :: string
  m_machineChannel :: string
  m_releaseTrackUrl :: string
  m_fingerprintHash :: string
  m_deviceInfo :: DeviceInfo
  m_machineInfo :: MachineInfo
  m_gameSessions :: "(int \<times> GameSession) list"
  m_numberOfPlayersRequested :: int
  m_isNfcCapable :: bool
  m_nonces :: "string list"
  m_scorbitronObject :: "(string \<times> 'j doc) list"
  m_diagProbeSequence :: u64
  m_seenDiagTraceIds :: "string list"
  m_playersManager :: PlayerProfilesManager
  m_centrifugo :: "cf_client option"
  clients_made :: nat
  m_retiredCentrifugoClients :: "(time_point \<times> cf_client) list"
  m_restartCentrifugoPending :: bool
  m_lastEmittedPairingState :: "bool option"
  pushed :: "'j event_body list"
  outs :: "'j net_out list"

text \<open>The two clocks, read by an operation.\<close>

record Clock =
  c_system :: time_point
  c_steady :: time_point

definition out :: "'j net_out list \<Rightarrow> 'j Net \<Rightarrow> 'j Net" where
  "out os n = n\<lparr>outs := outs n @ os\<rparr>"

definition push_ev :: "'j event_body \<Rightarrow> 'j Net \<Rightarrow> 'j Net" where
  "push_ev e n = n\<lparr>pushed := pushed n @ [e]\<rparr>"

definition isAuthenticated :: "'j Net \<Rightarrow> bool" where
  "isAuthenticated n \<longleftrightarrow> m_status n = AuthenticatedPaired \<or> m_status n = AuthenticatedUnpaired"

definition checkAllowedStatuses :: "AuthStatus list \<Rightarrow> 'j Net \<Rightarrow> bool" where
  "checkAllowedStatuses allowed n \<longleftrightarrow> m_status n \<in> set allowed"

text \<open>\<^verbatim>\<open>Net::url\<close>: the endpoint template with its arguments, under the host unless it is absolute.\<close>

definition net_url :: "'j Net \<Rightarrow> string \<Rightarrow> (string \<times> string) list \<Rightarrow> string" where
  "net_url n endpoint args =
     (let formatted = fmt_named ([(ARG_SCORBITRON_UUID, di_uuid (m_deviceInfo n)),
                                  (ARG_MACHINE_UUID, machineUuid (m_machineInfo n))] @ args) endpoint
      in if starts_with formatted ''http://'' \<or> starts_with formatted ''https://'' then formatted
         else m_hostname n @ ''/'' @ formatted)"

definition endpoint_url :: "'j Net \<Rightarrow> endpoint \<Rightarrow> string" where
  "endpoint_url n e =
     (case e of Endpoint t args \<Rightarrow> net_url n t args | ReleaseTrackUrl \<Rightarrow> m_releaseTrackUrl n)"

section \<open>Request tasks\<close>

definition createGetRequestTask ::
  "http_callback \<Rightarrow> endpoint \<Rightarrow> (string \<times> string) list \<Rightarrow> AuthStatus list \<Rightarrow> 'j http_task" where
  "createGetRequestTask cb e params allowed =
     \<lparr>ht_method = REST_GET, ht_multipart = False, ht_endpoint = e, ht_body = Parameters params,
      ht_allowed = allowed, ht_fingerprint = False, ht_callback = cb\<rparr>"

definition createPostRequestTask ::
  "http_callback \<Rightarrow> endpoint \<Rightarrow> 'j http_body \<Rightarrow> AuthStatus list \<Rightarrow> bool \<Rightarrow> 'j http_task" where
  "createPostRequestTask cb e body allowed fp =
     \<lparr>ht_method = REST_POST, ht_multipart = False, ht_endpoint = e, ht_body = body,
      ht_allowed = allowed, ht_fingerprint = fp, ht_callback = cb\<rparr>"

definition createPostMultipartRequestTask ::
  "http_callback \<Rightarrow> endpoint \<Rightarrow> form_part list \<Rightarrow> AuthStatus list \<Rightarrow> 'j http_task" where
  "createPostMultipartRequestTask cb e parts allowed =
     \<lparr>ht_method = REST_POST, ht_multipart = True, ht_endpoint = e, ht_body = Multipart parts,
      ht_allowed = allowed, ht_fingerprint = False, ht_callback = cb\<rparr>"

definition createPatchRequestTask ::
  "http_callback \<Rightarrow> endpoint \<Rightarrow> 'j http_body \<Rightarrow> AuthStatus list \<Rightarrow> 'j http_task" where
  "createPatchRequestTask cb e body allowed =
     \<lparr>ht_method = REST_PATCH, ht_multipart = False, ht_endpoint = e, ht_body = body,
      ht_allowed = allowed, ht_fingerprint = False, ht_callback = cb\<rparr>"

definition createPatchMultipartRequestTask ::
  "http_callback \<Rightarrow> endpoint \<Rightarrow> form_part list \<Rightarrow> AuthStatus list \<Rightarrow> bool \<Rightarrow> 'j http_task" where
  "createPatchMultipartRequestTask cb e parts allowed fp =
     \<lparr>ht_method = REST_PATCH, ht_multipart = True, ht_endpoint = e, ht_body = Multipart parts,
      ht_allowed = allowed, ht_fingerprint = fp, ht_callback = cb\<rparr>"

section \<open>What waits on the timers\<close>

text \<open>
  The tasks waiting on a timer after a sequence of outputs, as the worker leaves them
  (theorem on the worker's timers): a start replaces, a stop removes.
\<close>

fun armed_after :: "Timer \<Rightarrow> 'j net_out list \<Rightarrow> 'j net_task option \<Rightarrow> 'j net_task option" where
  "armed_after t [] w = w"
| "armed_after t (OStartTimer u d f # os) w = armed_after t os (if u = t then Some f else w)"
| "armed_after t (OStopTimer u # os) w = armed_after t os (if u = t then None else w)"
| "armed_after t (_ # os) w = armed_after t os w"

definition armed :: "Timer \<Rightarrow> 'j Net \<Rightarrow> 'j net_task option" where
  "armed t n = armed_after t (outs n) None"

lemma armed_after_append: "armed_after t (xs @ ys) w = armed_after t ys (armed_after t xs w)"
  by (induction t xs w rule: armed_after.induct) simp_all

lemma armed_out: "armed t (out os n) = armed_after t os (armed t n)"
  by (simp add: armed_def out_def armed_after_append)

lemma armed_push_ev [simp]: "armed t (push_ev e n) = armed t n"
  by (simp add: armed_def push_ev_def)

fun apply_out :: "('t, 'j net_task) timer_api \<Rightarrow> 'j net_out \<Rightarrow> ('t, 'j net_task) Worker \<Rightarrow> ('t, 'j net_task) Worker" where
  "apply_out A (OPost ex f) w = worker_post ex f w"
| "apply_out A (OStartTimer t d f) w = startTimer A t d f w"
| "apply_out A (OStopTimer t) w = stopTimer A t w"
| "apply_out A OStartWorker w = worker_start w"
| "apply_out A OJoinWorker w = w\<lparr>m_workGuard := False, w_threads := 0, m_running := False\<rparr>"
| "apply_out A _ w = w"

definition worker_after :: "('t, 'j net_task) timer_api \<Rightarrow> 'j net_out list \<Rightarrow> ('t, 'j net_task) Worker \<Rightarrow> ('t, 'j net_task) Worker" where
  "worker_after A os w = foldl (\<lambda>w o'. apply_out A o' w) w os"

lemma timer_count_noop:
  "worker_ok w \<Longrightarrow> startTimer A TimerCount d f w = w" "worker_ok w \<Longrightarrow> stopTimer A TimerCount w = w"
  by (simp_all add: startTimer_def stopTimer_def getTimer_ok)

lemma apply_out_waiting:
  assumes law: "timer_law A pending" and ok: "worker_ok w" and t: "t \<noteq> TimerCount"
    and w: "waiting pending t w = (case a of None \<Rightarrow> [] | Some f \<Rightarrow> [f])"
  shows "worker_ok (apply_out A o' w) \<and> waiting pending t (apply_out A o' w) =
    (case armed_after t [o'] a of None \<Rightarrow> [] | Some f \<Rightarrow> [f])"
proof -
  note L = worker_timers_laws [OF law]
  show ?thesis
  proof (cases o')
    case (OPost ex f)
    then show ?thesis using ok w by (simp add: worker_post_def worker_ok_def waiting_def)
  next
    case (OStartTimer u d f)
    then show ?thesis
      using ok w t worker_timers.start_waits [OF L ok, of u t d f] worker_timers.start_ok [OF L ok, of u d f]
        timer_count_noop(1) [OF ok, of A d f]
      by (cases "u = TimerCount") auto
  next
    case (OStopTimer u)
    then show ?thesis
      using ok w t worker_timers.stop_waits [OF L ok, of u t] worker_timers.stop_ok [OF L ok, of u]
        timer_count_noop(2) [OF ok, of A]
      by (cases "u = TimerCount") auto
  next
    case OStartWorker
    then show ?thesis using ok w by (simp add: worker_start_def worker_ok_def waiting_def)
  next
    case OJoinWorker
    then show ?thesis using ok w by (simp add: worker_ok_def waiting_def)
  qed (use ok w in simp_all)
qed

text \<open>
  C12. The tasks that the network layer has waiting on its timers are those of the worker: replaying
  its calls on a worker whose timers behave as documented leaves on each timer exactly the task that
  \<open>armed\<close> computes from the calls, or none.
\<close>

theorem armed_refines_worker:
  assumes "timer_law A pending" "pending fresh = []" "t \<noteq> TimerCount"
  shows "waiting pending t (worker_after A (outs n) (Worker_new fresh)) =
    (case armed t n of None \<Rightarrow> [] | Some f \<Rightarrow> [f])"
proof -
  have "worker_ok w \<Longrightarrow> waiting pending t w = (case a of None \<Rightarrow> [] | Some f \<Rightarrow> [f]) \<Longrightarrow>
    waiting pending t (worker_after A os w) = (case armed_after t os a of None \<Rightarrow> [] | Some f \<Rightarrow> [f])"
    for os w a
  proof (induction os arbitrary: w a)
    case (Cons o' os)
    have "armed_after t (o' # os) a = armed_after t os (armed_after t [o'] a)"
      using armed_after_append [of t "[o']" os a] by simp
    with Cons.IH apply_out_waiting [OF assms(1) Cons.prems(1) assms(3) Cons.prems(2), of o']
    show ?case by (simp add: worker_after_def)
  qed (simp add: worker_after_def)
  from this [of "Worker_new fresh" None "outs n"] show ?thesis
    using assms(2) timer_index_bound [OF assms(3)]
    by (simp add: armed_def worker_ok_def waiting_def Worker_new_def)
qed

end
