(* ===== verification/Net_Session.thy ===== *)
theory Net_Session
  imports Net_State
begin

text \<open>
  The game sessions of \<^verbatim>\<open>source/net.cpp\<close>: creating a session, submitting game data, updating the
  session on the server and publishing the latest data on the machine's channel.

  The closure of \<^verbatim>\<open>sendLatestGameData\<close> takes the sessions' lock twice; other tasks may run in between.
  It is modelled as two steps, \<open>sendLatest_read\<close> and \<open>sendLatest_publish\<close>, with the snapshot taken by
  the first. An exception that leaves a task (\<open>Exn\<close>) ends the worker thread.
\<close>

definition GAME_DATA_UPDATE_INTERVAL :: duration where
  "GAME_DATA_UPDATE_INTERVAL = milliseconds 2000"
definition SESSION_UPDATE_ADD_PLAYER_DEBOUNCE :: duration where
  "SESSION_UPDATE_ADD_PLAYER_DEBOUNCE = milliseconds 300"
definition SESSION_UPDATE_NO_UUID_RETRY :: duration where
  "SESSION_UPDATE_NO_UUID_RETRY = milliseconds 1000"

definition GameSession_new :: "Clock \<Rightarrow> GameSession" where
  "GameSession_new c =
     \<lparr>sessionCounter = 0, sessionUuid = [], gs_gameData = GameData_empty, startedTime = c_steady c,
      startedSystemTime = c_system c, history = [], scoresMetadata = []\<rparr>"

text \<open>\<^verbatim>\<open>m_gameSessions[id]\<close>: the session, created if absent.\<close>

definition session_at :: "Clock \<Rightarrow> int \<Rightarrow> 'j Net \<Rightarrow> GameSession" where
  "session_at c sid n =
     (case map_of (m_gameSessions n) sid of Some g \<Rightarrow> g | None \<Rightarrow> GameSession_new c)"

definition put_session :: "int \<Rightarrow> GameSession \<Rightarrow> 'j Net \<Rightarrow> 'j Net" where
  "put_session sid g n = n\<lparr>m_gameSessions := smap_put sid g (m_gameSessions n)\<rparr>"

definition erase_session :: "int \<Rightarrow> 'j Net \<Rightarrow> 'j Net" where
  "erase_session sid n = n\<lparr>m_gameSessions := smap_erase sid (m_gameSessions n)\<rparr>"

definition record_data :: "GameData \<Rightarrow> GameSession \<Rightarrow> GameSession" where
  "record_data data g = g\<lparr>gs_gameData := data, history := history g @ [data]\<rparr>"

definition elapsed_ms :: "Clock \<Rightarrow> GameSession \<Rightarrow> int" where
  "elapsed_ms c g = (c_steady c - startedTime g) div milliseconds 1"

section \<open>Creating a session\<close>

definition createSessionCreateTask ::
  "Clock \<Rightarrow> int \<Rightarrow> GameStartOrigin \<Rightarrow> bool \<Rightarrow> 'j Net \<Rightarrow> 'j net_task \<times> 'j Net" where
  "createSessionCreateTask c sid origin onCreated n =
     (case map_of (m_gameSessions n) sid of
        None \<Rightarrow> (TNoop, n)
      | Some g \<Rightarrow>
          let counter = sessionCounter g + 1;
              n = put_session sid (g\<lparr>sessionCounter := counter\<rparr>) n;
              isUseLobby = (origin = FromLobby);
              count = (if isUseLobby
                       then uint (word_of_int (m_numberOfPlayersRequested n) :: u64)
                       else int (length (players (gs_gameData g))));
              body = DObj [(JKEY_SESS_PLAYER_COUNT, DInt count),
                           (JKEY_SESS_SEQUENCE_NUMBER, DInt counter),
                           (JKEY_SESS_SESSION_TIME, DInt (elapsed_ms c g)),
                           (JKEY_SESS_ACTIVE_ON, DStr (to_iso8601 (c_system c))),
                           (JKEY_SESS_USE_LOBBY, DBool isUseLobby)]
          in (THttp (createPostRequestTask (CbSessionCreated sid onCreated)
                (Endpoint URL_SCORBITRON_SESSIONS []) (Body body) [AuthenticatedPaired] True), n))"

definition sessionCreate ::
  "Clock \<Rightarrow> GameData \<Rightarrow> GameStartOrigin \<Rightarrow> bool \<Rightarrow> 'j Net \<Rightarrow> 'j Net" where
  "sessionCreate c data origin onCreated n =
     (let n = put_session (gd_id data) (record_data data (session_at c (gd_id data) n)) n;
          (t, n) = createSessionCreateTask c (gd_id data) origin onCreated n
      in out [OPost SessionStrand t] n)"

section \<open>Scores and profiles in a reply\<close>

text \<open>One entry of the scores: a metadata entry is created before its fields are read.\<close>

definition read_metadata :: "'j json_api \<Rightarrow> 'j \<Rightarrow> ScoreMetadata \<Rightarrow> ScoreMetadata \<times> unit res" where
  "read_metadata J obj m =
     (let s = (m, Ret ());
          s = then_set (res_bind (or_exn (j_at J obj JKEY_SCR_ID)) (\<lambda>v. or_exn (j_u64 J v)))
                (\<lambda>x. sm_id_update (\<lambda>_. x)) s;
          s = then_set (res_bind (or_exn (j_at J obj JKEY_SCR_IS_NFC_VERIFIED)) (\<lambda>v. or_exn (j_bool J v)))
                (\<lambda>x. isNfcVerified_update (\<lambda>_. x)) s
      in case j_find_if J (j_is_string J) obj JKEY_SCR_TOURNAMENT_UUID of
           None \<Rightarrow> s
         | Some v \<Rightarrow> then_set (or_exn (j_string J v)) (\<lambda>x. tournamentUuid_update (\<lambda>_. Some x)) s)"

text \<open>An exception ends the loop; what was read so far stays.\<close>

fun read_scores ::
  "'j json_api \<Rightarrow> 'j list \<Rightarrow> (sb_player_t \<times> ScoreMetadata) list \<Rightarrow> (sb_player_t \<times> ScoreMetadata) list" where
  "read_scores J [] md = md"
| "read_scores J (obj # objs) md =
     (case res_bind (or_exn (j_at J obj JKEY_SCR_POSITION)) (\<lambda>v. or_exn (j_u32 J v)) of
        Ret playerNum \<Rightarrow>
          let entry = (case map_of md playerNum of Some m \<Rightarrow> m | None \<Rightarrow> ScoreMetadata_empty);
              (entry, r) = read_metadata J obj entry;
              md = AList.update playerNum entry md
          in (case r of Ret _ \<Rightarrow> read_scores J objs md | _ \<Rightarrow> md)
      | _ \<Rightarrow> md)"

fun post_downloads :: "(sb_player_t \<times> string) list \<Rightarrow> 'j Net \<Rightarrow> 'j Net res" where
  "post_downloads [] n = Ret n"
| "post_downloads ((playerNum, url) # todo) n =
     (case setPicture url [] (m_playersManager n) of
        None \<Rightarrow> Undef
      | Some pm \<Rightarrow>
          post_downloads todo
            (out [OPost Strand (TDownloadPicture playerNum url)] (n\<lparr>m_playersManager := pm\<rparr>)))"

definition with_scores :: "'j json_api \<Rightarrow> 'j \<Rightarrow> int \<Rightarrow> 'j Net \<Rightarrow> 'j Net" where
  "with_scores J val sid n =
     (case map_of (m_gameSessions n) sid of
        None \<Rightarrow> n
      | Some g \<Rightarrow>
          put_session sid
            (g\<lparr>scoresMetadata := read_scores J (j_elements J val) (scoresMetadata g)\<rparr>) n)"

definition processScoresAndPlayersProfiles ::
  "'j json_api \<Rightarrow> 'j \<Rightarrow> int \<Rightarrow> 'j Net \<Rightarrow> 'j Net res" where
  "processScoresAndPlayersProfiles J val sid n =
     (let n = with_scores J val sid n
      in res_bind (setProfiles J val (machineUuid (m_machineInfo n)) (m_playersManager n))
           (\<lambda>(changedProfiles, pm).
              let n = n\<lparr>m_playersManager := pm\<rparr>;
                  n = (case changedProfiles of
                         None \<Rightarrow> n | Some ps \<Rightarrow> push_ev (PlayersUpdatedEvent ps) n)
              in if autoDownloadPlayerPics (m_deviceInfo n)
                 then post_downloads (picturesToDownload (m_playersManager n)) n
                 else Ret n))"

text \<open>The callback of a picture download.\<close>

definition picture_downloaded ::
  "sb_player_t \<Rightarrow> string \<Rightarrow> Error \<Rightarrow> Picture \<Rightarrow> 'j Net \<Rightarrow> 'j Net res" where
  "picture_downloaded playerNum url error data n =
     (if error = Success then
        (case setPicture url data (m_playersManager n) of
           None \<Rightarrow> Undef
         | Some pm \<Rightarrow> Ret (push_ev (PlayerPictureReadyEvent playerNum data) (n\<lparr>m_playersManager := pm\<rparr>)))
      else Ret (n\<lparr>m_playersManager := removePicture url (m_playersManager n)\<rparr>))"

text \<open>The reply to creating a session. Exceptions are caught and end the callback.\<close>

definition created_uuid :: "'j json_api \<Rightarrow> string \<Rightarrow> ('j \<times> string) option" where
  "created_uuid J reply =
     (case j_parse J reply of
        None \<Rightarrow> None
      | Some json \<Rightarrow>
          (case j_find_if J (j_is_string J) json JKEY_SESS_UUID of
             None \<Rightarrow> None
           | Some v \<Rightarrow> map_option (Pair json) (j_string J v)))"

definition session_created ::
  "'j json_api \<Rightarrow> int \<Rightarrow> bool \<Rightarrow> Error \<Rightarrow> string \<Rightarrow> 'j Net \<Rightarrow> 'j Net res" where
  "session_created J sid onCreated error reply n =
     (if error \<noteq> Success then Ret n
      else case created_uuid J reply of
             None \<Rightarrow> Ret n
           | Some (json, newUuid) \<Rightarrow>
               (case map_of (m_gameSessions n) sid of
                  None \<Rightarrow> Ret n
                | Some g \<Rightarrow>
                    let n = put_session sid (g\<lparr>sessionUuid := newUuid\<rparr>) n;
                        r = (case j_find_if J (j_is_array J) json JKEY_SCR_SCORES of
                               Some scores \<Rightarrow> processScoresAndPlayersProfiles J scores sid n
                             | None \<Rightarrow> Ret n)
                    in res_bind r (\<lambda>n.
                         if onCreated \<and> \<not> m_stop n then Ret (out [OOnCreated sid] n) else Ret n)))"

section \<open>Updating a session\<close>

definition update_form :: "Clock \<Rightarrow> GameSession \<Rightarrow> SessionFlags \<Rightarrow> form_part list" where
  "update_form c g flags =
     [FormText JKEY_SESS_PLAYER_COUNT (to_string (int (length (players (gs_gameData g))))),
      FormText JKEY_SESS_SEQUENCE_NUMBER (to_string (sessionCounter g)),
      FormText JKEY_SESS_SESSION_TIME (to_string (elapsed_ms c g)),
      FormText (if isGameActive (gs_gameData g) then JKEY_SESS_ACTIVE_ON else JKEY_SESS_SETTLED_ON)
        (to_iso8601 (c_system c))]
     @ (if isGameActive (gs_gameData g) then []
        else [FormText JKEY_SESS_SUCCESSFULLY_COMPLETED ''True''])
     @ (if has_flag flags UploadHistoryLogs
        then [FormFile JKEY_SESS_LOG_FILE (gameHistoryToCsv (history g))
                (sessionUuid g @ ''.'' @ SESS_LOG_EXTENSION)]
        else [])"

definition createSessionUpdateTask ::
  "Clock \<Rightarrow> int \<Rightarrow> SessionFlags \<Rightarrow> 'j Net \<Rightarrow> 'j net_task \<times> 'j Net" where
  "createSessionUpdateTask c sid flags n =
     (case map_of (m_gameSessions n) sid of
        None \<Rightarrow> (TNoop, n)
      | Some g \<Rightarrow>
          if sessionUuid g = [] then
            (TNoop, out [OStartTimer SessionUpdate SESSION_UPDATE_NO_UUID_RETRY (TSessionUpdate sid flags)] n)
          else
            (THttp (createPatchMultipartRequestTask (CbSessionUpdated sid)
               (Endpoint (net_url n URL_SCORBITRON_SESSION_UPDATE [(ARG_SESSION_UUID, sessionUuid g)]) [])
               (update_form c g flags) [AuthenticatedPaired] True), n))"

definition sessionUpdate :: "Clock \<Rightarrow> int \<Rightarrow> SessionFlags \<Rightarrow> 'j Net \<Rightarrow> 'j Net" where
  "sessionUpdate c sid flags n =
     (if m_stop n then n
      else let n = out [OStopTimer SessionUpdate] n
           in if \<not> has_flag flags UploadHistoryLogs \<and> \<not> has_flag flags Debounced
                 \<and> has_flag flags PlayersAdd then
                let flags = set_flag Debounced flags
                in out [OStartTimer SessionUpdate SESSION_UPDATE_ADD_PLAYER_DEBOUNCE
                          (TSessionUpdate sid flags)] n
              else let (t, n) = createSessionUpdateTask c sid flags n
                   in out [OPost SessionStrand t] n)"

text \<open>
  The reply to an update. \<^verbatim>\<open>m_gameSessions[sessionId]\<close> would create an absent session, with no
  active game, which is erased at once.
\<close>

definition session_updated ::
  "'j json_api \<Rightarrow> int \<Rightarrow> Error \<Rightarrow> string \<Rightarrow> 'j Net \<Rightarrow> 'j Net res" where
  "session_updated J sid error reply n =
     (if error \<noteq> Success then Ret n
      else case map_of (m_gameSessions n) sid of
             None \<Rightarrow> Ret n
           | Some g \<Rightarrow>
               if \<not> isGameActive (gs_gameData g) then Ret (erase_session sid n)
               else case j_parse J reply of
                      None \<Rightarrow> Ret n
                    | Some json \<Rightarrow>
                        (case j_find_if J (j_is_array J) json JKEY_SCR_SCORES of
                           Some scores \<Rightarrow> processScoresAndPlayersProfiles J scores sid n
                         | None \<Rightarrow> Ret n))"

definition requestSessionData :: "string \<Rightarrow> 'j Net \<Rightarrow> 'j Net" where
  "requestSessionData uuid n =
     out [OPost SessionStrand (THttp (createGetRequestTask (CbSessionData uuid)
            (Endpoint URL_SCORBITRON_SESSION_UPDATE [(ARG_SESSION_UUID, uuid)]) []
            [AuthenticatedPaired]))] n"

text \<open>The reply is parsed outside any \<^verbatim>\<open>try\<close>.\<close>

definition session_data_received ::
  "'j json_api \<Rightarrow> string \<Rightarrow> Error \<Rightarrow> string \<Rightarrow> 'j Net \<Rightarrow> 'j Net res" where
  "session_data_received J uuid error reply n =
     (if error \<noteq> Success then Ret n
      else case find (\<lambda>(sid, g). sessionUuid g = uuid) (m_gameSessions n) of
             None \<Rightarrow> Ret n
           | Some (sid, g) \<Rightarrow>
               if sid < 0 then Ret n
               else case j_parse J reply of
                      None \<Rightarrow> Exn
                    | Some j \<Rightarrow>
                        (case j_find_if J (j_is_array J) j JKEY_SCR_SCORES of
                           Some scores \<Rightarrow> processScoresAndPlayersProfiles J scores sid n
                         | None \<Rightarrow> Ret n))"

section \<open>Publishing the latest data\<close>

definition sendLatestGameData :: "int \<Rightarrow> 'j Net \<Rightarrow> 'j Net" where
  "sendLatestGameData sid n = out [OPost CommitStrand (TSendLatest sid)] n"

record snapshot =
  sn_session :: int
  sn_data :: GameData
  sn_uuid :: string
  sn_started :: time_point
  sn_metadata :: "(sb_player_t \<times> ScoreMetadata) list"

definition sendLatest_read :: "int \<Rightarrow> 'j Net \<Rightarrow> snapshot option \<times> 'j Net" where
  "sendLatest_read sid n =
     (let n = out [OStopTimer GameDataTimer] n
      in if m_stop n \<or> m_centrifugo n = None then (None, n)
         else case map_of (m_gameSessions n) sid of
                None \<Rightarrow> (None, n)
              | Some g \<Rightarrow>
                  (Some \<lparr>sn_session = sid, sn_data = gs_gameData g, sn_uuid = sessionUuid g,
                         sn_started = startedSystemTime g, sn_metadata = scoresMetadata g\<rparr>, n))"

definition profile_doc :: "PlayerProfile option \<Rightarrow> 'j doc" where
  "profile_doc p =
     (case p of
        Some p \<Rightarrow>
          if hasInfo p then
            DObj [(JKEY_PLAYER_ID, DStr (pp_id p)), (JKEY_PLAYER_PREFER_INITIALS, DBool (preferInitials p)),
                  (JKEY_USERNAME, DStr (username p)), (JKEY_PLAYER_DISPLAY_NAME, DStr (pp_name p)),
                  (JKEY_PLAYER_INITIALS, DStr (initials p)), (JKEY_AVATAR, DStr (pictureUrl p))]
          else DNull
      | None \<Rightarrow> DNull)"

definition score_doc ::
  "PlayerProfilesManager \<Rightarrow> snapshot \<Rightarrow> 'j \<Rightarrow> sb_player_t \<times> PlayerState \<Rightarrow> 'j doc" where
  "score_doc pm sn modes_json = (\<lambda>(playerNum, playerState).
     let data = sn_data sn;
         meta = (case map_of (sn_metadata sn) playerNum of Some m \<Rightarrow> m | None \<Rightarrow> ScoreMetadata_empty)
     in DObj [(JKEY_SCR_POSITION, DInt (uint playerNum)), (JKEY_SCR_ID, DInt (uint (sm_id meta))),
              (JKEY_SCR_IS_NFC_VERIFIED, DBool (isNfcVerified meta)),
              (JKEY_SCR_TOURNAMENT_UUID, doc_opt (tournamentUuid meta)),
              (JKEY_SCR_PLAYER, profile_doc (profile playerNum pm)),
              (JKEY_SCR_SCORE, DInt (sint (m_score playerState))),
              (JKEY_SCR_BALL, DInt (uint (ball data))),
              (JKEY_SCR_BALL_IN_PROGRESS, DBool (isGameActive data \<and> activePlayer data = playerNum)),
              (JKEY_SCR_MODES, DJson modes_json)])"

definition game_data_doc ::
  "Clock \<Rightarrow> MachineInfo \<Rightarrow> PlayerProfilesManager \<Rightarrow> snapshot \<Rightarrow> 'j \<Rightarrow> int \<Rightarrow> 'j doc" where
  "game_data_doc c mi pm sn modes_json counter =
     (let data = sn_data sn;
          scores = DArr (map (score_doc pm sn modes_json) (players data));
          valType = (if isGameActive data then JVAL_SCR_SCORE_UPDATE else JVAL_SCR_GAME_END);
          keyScores = (if isGameActive data then JKEY_SCR_SCORES else JKEY_SCR_FINAL_SCORES)
      in DObj [(JKEY_CHN_TYPE, DStr valType),
               (JKEY_CHN_PAYLOAD,
                DObj [(JKEY_SCR_GAME_IN_PROGRESS, DBool (isGameActive data)), (keyScores, scores)]),
               (JKEY_SCR_METADATA,
                DObj [(JKEY_SCR_GAME, DStr (sn_uuid sn)), (JKEY_SCR_MACHINE, DStr (machineUuid mi)),
                      (JKEY_SCR_VARIANT, doc_opt (variantUuid mi)), (JKEY_SCR_VENUE, doc_opt (venueUuid mi)),
                      (JKEY_SCR_SEQUENCE, DInt counter),
                      (JKEY_SCR_CREATED_AT, DStr (to_iso8601 (sn_started sn))),
                      (JKEY_SCR_UPDATED_AT, DStr (to_iso8601 (c_system c)))])])"

text \<open>The end of the task: the next transmission, or the request for the credits status.\<close>

definition sendLatest_finish :: "snapshot \<Rightarrow> 'j Net \<Rightarrow> 'j Net" where
  "sendLatest_finish sn n =
     (if isGameActive (sn_data sn)
      then out [OStartTimer GameDataTimer GAME_DATA_UPDATE_INTERVAL (TSendLatestAgain (sn_session sn))] n
      else push_ev CreditsStatusRequestedEvent n)"

definition sendLatest_publish ::
  "'j json_api \<Rightarrow> Clock \<Rightarrow> snapshot \<Rightarrow> 'j Net \<Rightarrow> 'j Net res" where
  "sendLatest_publish J c sn n =
     (if sn_uuid sn = [] then Ret (sendLatest_finish sn n)
      else case m_centrifugo n of
             None \<Rightarrow> Undef
           | Some client \<Rightarrow>
               if cf_state client \<noteq> Connected then Ret (sendLatest_finish sn n)
               else case map_of (m_gameSessions n) (sn_session sn) of
                      None \<Rightarrow> Ret n
                    | Some g \<Rightarrow>
                        let counter = sessionCounter g + 1;
                            n = put_session (sn_session sn) (g\<lparr>sessionCounter := counter\<rparr>) n
                        in case j_parse J (Modes_jsonStr (modes (sn_data sn))) of
                             None \<Rightarrow> Exn
                           | Some modes_json \<Rightarrow>
                               Ret (sendLatest_finish sn
                                 (out [OPublish (m_machineChannel n)
                                        (game_data_doc c (m_machineInfo n) (m_playersManager n) sn
                                           modes_json counter)] n)))"

section \<open>Submitting game data\<close>

definition net_submitGameData :: "GameData \<Rightarrow> SessionFlags \<Rightarrow> 'j Net \<Rightarrow> 'j Net" where
  "net_submitGameData data flags n = out [OPost Pool (TSubmitGameData data flags)] n"

definition submit_task :: "Clock \<Rightarrow> GameData \<Rightarrow> SessionFlags \<Rightarrow> 'j Net \<Rightarrow> 'j Net" where
  "submit_task c data flags n =
     (let sid = gd_id data;
          g = record_data data (session_at c sid n);
          n = put_session sid g n;
          n = (if \<not> isGameActive data \<or> sessionCounter g = 1 then sendLatestGameData sid n else n)
      in if flags_bool flags then sessionUpdate c sid flags n else n)"

end
