(* ===== verification/Net_Session_Props.thy ===== *)
theory Net_Session_Props
  imports Net_Session
begin

text \<open>
  What the session operations of the network layer guarantee: the order of the published data, the
  content of session updates, and the limits of the single retry timer.
\<close>

section \<open>What the operations leave alone\<close>

lemma out_simps [simp]:
  "m_gameSessions (out os n) = m_gameSessions n" "outs (out os n) = outs n @ os"
  "m_stop (out os n) = m_stop n" "m_centrifugo (out os n) = m_centrifugo n"
  "pushed (out os n) = pushed n" "m_status (out os n) = m_status n"
  "m_restartCentrifugoPending (out os n) = m_restartCentrifugoPending n"
  "m_machineInfo (out os n) = m_machineInfo n" "m_deviceInfo (out os n) = m_deviceInfo n"
  "m_nonces (out os n) = m_nonces n" "m_isNfcCapable (out os n) = m_isNfcCapable n"
  "m_lastEmittedPairingState (out os n) = m_lastEmittedPairingState n"
  "m_machineChannel (out os n) = m_machineChannel n"
  by (simp_all add: out_def)

lemma push_ev_simps [simp]:
  "m_gameSessions (push_ev e n) = m_gameSessions n" "outs (push_ev e n) = outs n"
  "m_stop (push_ev e n) = m_stop n" "pushed (push_ev e n) = pushed n @ [e]"
  "m_status (push_ev e n) = m_status n" "m_centrifugo (push_ev e n) = m_centrifugo n"
  "m_lastEmittedPairingState (push_ev e n) = m_lastEmittedPairingState n"
  by (simp_all add: push_ev_def)

lemma put_session_simps [simp]:
  "m_gameSessions (put_session sid g n) = smap_put sid g (m_gameSessions n)"
  "outs (put_session sid g n) = outs n" "m_stop (put_session sid g n) = m_stop n"
  "m_centrifugo (put_session sid g n) = m_centrifugo n" "pushed (put_session sid g n) = pushed n"
  "m_machineChannel (put_session sid g n) = m_machineChannel n"
  by (simp_all add: put_session_def)

lemma record_data_simps [simp]:
  "sessionCounter (record_data d g) = sessionCounter g" "sessionUuid (record_data d g) = sessionUuid g"
  "gs_gameData (record_data d g) = d" "history (record_data d g) = history g @ [d]"
  by (simp_all add: record_data_def)

lemma post_downloads_sessions:
  "post_downloads todo n = Ret n' \<Longrightarrow> m_gameSessions n' = m_gameSessions n"
  by (induction todo n rule: post_downloads.induct) (auto split: option.splits)

lemma sendLatest_finish_simps [simp]:
  "m_gameSessions (sendLatest_finish sn n) = m_gameSessions n"
  by (simp add: sendLatest_finish_def)

lemma sessionUpdate_sessions [simp]: "m_gameSessions (sessionUpdate c sid flags n) = m_gameSessions n"
  by (auto simp: sessionUpdate_def createSessionUpdateTask_def Let_def split: option.split prod.split)

section \<open>Counters never go back\<close>

definition counter_of :: "'j Net \<Rightarrow> int \<Rightarrow> int option" where
  "counter_of n sid = map_option sessionCounter (map_of (m_gameSessions n) sid)"

definition counters_grow :: "'j Net \<Rightarrow> 'j Net \<Rightarrow> bool" where
  "counters_grow n n' \<longleftrightarrow>
     (\<forall>sid k. counter_of n sid = Some k \<longrightarrow> (\<exists>k'. counter_of n' sid = Some k' \<and> k \<le> k'))"

lemma counters_grow_refl: "m_gameSessions n' = m_gameSessions n \<Longrightarrow> counters_grow n n'"
  by (auto simp: counters_grow_def counter_of_def)

lemma counters_grow_trans: "counters_grow a b \<Longrightarrow> counters_grow b c \<Longrightarrow> counters_grow a c"
  unfolding counters_grow_def by (meson order_trans)

lemma counters_grow_put:
  "(\<And>h. map_of (m_gameSessions n) sid = Some h \<Longrightarrow> sessionCounter h \<le> sessionCounter g) \<Longrightarrow>
   counters_grow n (put_session sid g n)"
  by (auto simp: counters_grow_def counter_of_def)

lemma sessionCreate_grow: "counters_grow n (sessionCreate c data origin b n)"
proof -
  let ?n1 = "put_session (gd_id data) (record_data data (session_at c (gd_id data) n)) n"
  have "counters_grow n ?n1" by (rule counters_grow_put) (simp add: session_at_def)
  moreover have "counters_grow ?n1 (sessionCreate c data origin b n)"
    by (auto simp: sessionCreate_def createSessionCreateTask_def Let_def counters_grow_def counter_of_def)
  ultimately show ?thesis by (rule counters_grow_trans)
qed

lemma submit_task_sessions:
  "m_gameSessions (submit_task c data flags n) =
   smap_put (gd_id data) (record_data data (session_at c (gd_id data) n)) (m_gameSessions n)"
  by (simp add: submit_task_def Let_def sendLatestGameData_def)

lemma submit_task_grow: "counters_grow n (submit_task c data flags n)"
  by (auto simp: counters_grow_def counter_of_def submit_task_sessions session_at_def)

lemma with_scores_grow: "counters_grow n (with_scores J val sid n)"
  by (auto simp: with_scores_def counters_grow_def counter_of_def split: option.split)

lemma process_sessions:
  assumes "processScoresAndPlayersProfiles J val sid n = Ret n'"
  shows "m_gameSessions n' = m_gameSessions (with_scores J val sid n)"
proof -
  let ?n = "with_scores J val sid n"
  obtain ch pm where "setProfiles J val (machineUuid (m_machineInfo ?n)) (m_playersManager ?n) = Ret (ch, pm)"
    using assms by (auto simp: processScoresAndPlayersProfiles_def Let_def res_bind_Ret)
  with assms show ?thesis
    by (cases ch) (auto simp: processScoresAndPlayersProfiles_def Let_def
        dest!: post_downloads_sessions split: if_splits)
qed

lemma process_grow: "processScoresAndPlayersProfiles J val sid n = Ret n' \<Longrightarrow> counters_grow n n'"
  using with_scores_grow [of n J val sid] process_sessions [of J val sid n n']
  by (simp add: counters_grow_def counter_of_def)

lemma session_created_grow:
  assumes r: "session_created J sid b err reply n = Ret n'"
  shows "counters_grow n n'"
proof (cases "err = Success \<and> created_uuid J reply \<noteq> None \<and> map_of (m_gameSessions n) sid \<noteq> None")
  case True
  then obtain json uuid g where *: "err = Success" "created_uuid J reply = Some (json, uuid)"
    "map_of (m_gameSessions n) sid = Some g" by auto
  let ?n = "put_session sid (g\<lparr>sessionUuid := uuid\<rparr>) n"
  have n: "counters_grow n ?n" by (rule counters_grow_put) (simp add: *)
  obtain n1 where n1: "(case j_find_if J (j_is_array J) json JKEY_SCR_SCORES of
      Some scores \<Rightarrow> processScoresAndPlayersProfiles J scores sid ?n | None \<Rightarrow> Ret ?n) = Ret n1"
    and n': "n' = n1 \<or> n' = out [OOnCreated sid] n1"
    using r * by (auto simp: session_created_def Let_def res_bind_Ret split: if_splits)
  have "counters_grow n n1"
    using n1 n counters_grow_trans [OF n process_grow] by (auto split: option.splits)
  with n' show ?thesis by (auto simp: counters_grow_def counter_of_def)
next
  case False
  then have "n' = n" using r by (auto simp: session_created_def split: if_splits option.splits)
  then show ?thesis by (simp add: counters_grow_refl)
qed

lemma session_data_grow: "session_data_received J uuid err reply n = Ret n' \<Longrightarrow> counters_grow n n'"
  by (auto simp: session_data_received_def counters_grow_refl split: if_splits option.splits
      dest: process_grow)

lemma session_updated_cases:
  assumes "session_updated J sid err reply n = Ret n'"
  shows "counters_grow n n' \<or>
    (n' = erase_session sid n \<and> (\<exists>g. map_of (m_gameSessions n) sid = Some g \<and> \<not> isGameActive (gs_gameData g)))"
  using assms by (auto simp: session_updated_def counters_grow_refl split: if_splits option.splits
      dest: process_grow)

lemma picture_downloaded_grow: "picture_downloaded p url err d n = Ret n' \<Longrightarrow> counters_grow n n'"
  by (auto simp: picture_downloaded_def intro!: counters_grow_refl split: if_splits option.splits)

section \<open>The order of publications\<close>

definition doc_member :: "string \<Rightarrow> 'j doc \<Rightarrow> 'j doc option" where
  "doc_member k d = (case d of DObj kvs \<Rightarrow> map_of kvs k | _ \<Rightarrow> None)"

definition doc_sequence :: "'j doc \<Rightarrow> int option" where
  "doc_sequence d =
     (case Option.bind (doc_member JKEY_SCR_METADATA d) (doc_member JKEY_SCR_SEQUENCE) of
        Some (DInt i) \<Rightarrow> Some i | _ \<Rightarrow> None)"

fun sequences :: "'j net_out list \<Rightarrow> int list" where
  "sequences [] = []"
| "sequences (OPublish ch d # os) =
     (case doc_sequence d of Some i \<Rightarrow> i # sequences os | None \<Rightarrow> sequences os)"
| "sequences (_ # os) = sequences os"

lemma doc_sequence_game_data [simp]: "doc_sequence (game_data_doc c mi pm sn m k) = Some k"
  by (simp add: doc_sequence_def doc_member_def game_data_doc_def Let_def)

text \<open>
  The sessions under the worker: every operation may run at any time, the task that publishes data in
  its two steps, one such task at a time (it runs on its own strand). \<open>sent\<close> records the sequence
  numbers published, with their session; \<open>closed\<close> the sessions that were removed. The step \<open>Other\<close>
  stands for all operations of the network layer that do not touch the sessions.
\<close>

record 'j sess_sys =
  sys_net :: "'j Net"
  in_flight :: "snapshot option"
  sent :: "(int \<times> int) list"
  closed :: "int set"

inductive sess_step :: "'j json_api \<Rightarrow> 'j sess_sys \<Rightarrow> 'j sess_sys \<Rightarrow> bool" for J where
  Create: "sess_step J s (s\<lparr>sys_net := sessionCreate c data origin b (sys_net s)\<rparr>)"
| Submit: "sess_step J s (s\<lparr>sys_net := submit_task c data flags (sys_net s)\<rparr>)"
| Update: "sess_step J s (s\<lparr>sys_net := sessionUpdate c sid flags (sys_net s)\<rparr>)"
| Created: "session_created J sid b err reply (sys_net s) = Ret n' \<Longrightarrow> sess_step J s (s\<lparr>sys_net := n'\<rparr>)"
| Updated: "session_updated J sid err reply (sys_net s) = Ret n' \<Longrightarrow>
    sess_step J s (s\<lparr>sys_net := n',
      closed := (if map_of (m_gameSessions n') sid = None then insert sid (closed s) else closed s)\<rparr>)"
| Data: "session_data_received J uuid err reply (sys_net s) = Ret n' \<Longrightarrow> sess_step J s (s\<lparr>sys_net := n'\<rparr>)"
| Picture: "picture_downloaded p url err pic (sys_net s) = Ret n' \<Longrightarrow> sess_step J s (s\<lparr>sys_net := n'\<rparr>)"
| Read: "in_flight s = None \<Longrightarrow> sendLatest_read sid (sys_net s) = (sn, n') \<Longrightarrow>
    sess_step J s (s\<lparr>sys_net := n', in_flight := sn\<rparr>)"
| Publish: "in_flight s = Some sn \<Longrightarrow> sendLatest_publish J c sn (sys_net s) = Ret n' \<Longrightarrow>
    sess_step J s (s\<lparr>sys_net := n', in_flight := None,
      sent := sent s @ map (Pair (sn_session sn)) (sequences (drop (length (outs (sys_net s))) (outs n')))\<rparr>)"
| Other: "m_gameSessions n' = m_gameSessions (sys_net s) \<Longrightarrow> sess_step J s (s\<lparr>sys_net := n'\<rparr>)"

inductive sess_reachable :: "'j json_api \<Rightarrow> 'j sess_sys \<Rightarrow> bool" for J where
  sess_init: "m_gameSessions n = [] \<Longrightarrow>
    sess_reachable J \<lparr>sys_net = n, in_flight = None, sent = [], closed = {}\<rparr>"
| sess_next: "sess_reachable J s \<Longrightarrow> sess_step J s s' \<Longrightarrow> sess_reachable J s'"

definition sent_of :: "int \<Rightarrow> 'j sess_sys \<Rightarrow> int list" where
  "sent_of sid s = map snd (filter (\<lambda>e. fst e = sid) (sent s))"

definition sess_inv :: "'j sess_sys \<Rightarrow> bool" where
  "sess_inv s \<longleftrightarrow>
     (\<forall>sid. sid \<notin> closed s \<longrightarrow>
        sorted_wrt (<) (sent_of sid s) \<and>
        (sent_of sid s \<noteq> [] \<longrightarrow>
           (\<exists>k. counter_of (sys_net s) sid = Some k \<and> (\<forall>i \<in> set (sent_of sid s). i \<le> k))))"

lemma sess_inv_grow:
  assumes "sess_inv s" "counters_grow (sys_net s) n'"
    "sent s' = sent s" "closed s' = closed s" "sys_net s' = n'"
  shows "sess_inv s'"
  unfolding sess_inv_def
proof (intro allI impI conjI)
  fix sid assume "sid \<notin> closed s'"
  with assms(1,4) have *: "sorted_wrt (<) (sent_of sid s)"
    "sent_of sid s \<noteq> [] \<longrightarrow> (\<exists>k. counter_of (sys_net s) sid = Some k \<and> (\<forall>i \<in> set (sent_of sid s). i \<le> k))"
    by (auto simp: sess_inv_def)
  have same: "sent_of sid s' = sent_of sid s" using assms(3) by (simp add: sent_of_def)
  show "sorted_wrt (<) (sent_of sid s')" using *(1) same by simp
  assume "sent_of sid s' \<noteq> []"
  then obtain k where k: "counter_of (sys_net s) sid = Some k" "\<forall>i \<in> set (sent_of sid s). i \<le> k"
    using *(2) same by auto
  then obtain k' where "counter_of n' sid = Some k'" "k \<le> k'" using assms(2) unfolding counters_grow_def by blast
  with k same assms(5) show "\<exists>k. counter_of (sys_net s') sid = Some k \<and> (\<forall>i \<in> set (sent_of sid s'). i \<le> k)"
    by fastforce
qed

text \<open>What publishing does: nothing, or the next number of the session.\<close>

lemma sendLatest_publish_cases:
  assumes "sendLatest_publish J c sn n = Ret n'"
  shows "(m_gameSessions n' = m_gameSessions n \<and> sequences (drop (length (outs n)) (outs n')) = []) \<or>
    (\<exists>k. counter_of n (sn_session sn) = Some k \<and> counter_of n' (sn_session sn) = Some (k + 1) \<and>
      (\<forall>sid. sid \<noteq> sn_session sn \<longrightarrow> counter_of n' sid = counter_of n sid) \<and>
      sequences (drop (length (outs n)) (outs n')) = [k + 1])"
  using assms
  by (auto simp: sendLatest_publish_def Let_def counter_of_def sendLatest_finish_def
      split: if_splits option.splits)

lemma sess_inv_publish:
  assumes inv: "sess_inv s" and pub: "sendLatest_publish J c sn (sys_net s) = Ret n'"
  shows "sess_inv (s\<lparr>sys_net := n', in_flight := None,
      sent := sent s @ map (Pair (sn_session sn)) (sequences (drop (length (outs (sys_net s))) (outs n')))\<rparr>)"
    (is "sess_inv ?s'")
  using sendLatest_publish_cases [OF pub]
proof
  assume "m_gameSessions n' = m_gameSessions (sys_net s) \<and>
    sequences (drop (length (outs (sys_net s))) (outs n')) = []"
  then show ?thesis by (intro sess_inv_grow [OF inv]) (auto intro: counters_grow_refl)
next
  assume "\<exists>k. counter_of (sys_net s) (sn_session sn) = Some k \<and> counter_of n' (sn_session sn) = Some (k + 1) \<and>
      (\<forall>sid. sid \<noteq> sn_session sn \<longrightarrow> counter_of n' sid = counter_of (sys_net s) sid) \<and>
      sequences (drop (length (outs (sys_net s))) (outs n')) = [k + 1]"
  then obtain k where k: "counter_of (sys_net s) (sn_session sn) = Some k"
    "counter_of n' (sn_session sn) = Some (k + 1)"
    "\<And>sid. sid \<noteq> sn_session sn \<Longrightarrow> counter_of n' sid = counter_of (sys_net s) sid"
    "sequences (drop (length (outs (sys_net s))) (outs n')) = [k + 1]" by blast
  have sent: "sent_of sid ?s' = sent_of sid s @ (if sid = sn_session sn then [k + 1] else [])" for sid
    by (simp add: sent_of_def k(4))
  show ?thesis unfolding sess_inv_def
  proof (intro allI impI)
    fix sid assume "sid \<notin> closed ?s'"
    then have *: "sorted_wrt (<) (sent_of sid s)" "sent_of sid s \<noteq> [] \<longrightarrow>
      (\<exists>k. counter_of (sys_net s) sid = Some k \<and> (\<forall>i \<in> set (sent_of sid s). i \<le> k))"
      using inv by (auto simp: sess_inv_def)
    show "sorted_wrt (<) (sent_of sid ?s') \<and> (sent_of sid ?s' \<noteq> [] \<longrightarrow>
      (\<exists>k. counter_of (sys_net ?s') sid = Some k \<and> (\<forall>i \<in> set (sent_of sid ?s'). i \<le> k)))"
    proof (cases "sid = sn_session sn")
      case True
      then have "\<forall>i \<in> set (sent_of sid s). i \<le> k" using * k(1) by (cases "sent_of sid s = []") auto
      with True * k(2) sent show ?thesis by (force simp: sorted_wrt_append)
    next
      case False
      with * k(3) sent show ?thesis by simp
    qed
  qed
qed

lemma sess_inv_step:
  assumes "sess_inv s" "sess_step J s s'"
  shows "sess_inv s'"
  using assms(2,1)
proof cases
  case (Create c data origin b)
  then show ?thesis by (intro sess_inv_grow [OF assms(1) sessionCreate_grow]) auto
next
  case (Submit c data flags)
  then show ?thesis by (intro sess_inv_grow [OF assms(1) submit_task_grow]) auto
next
  case (Update c sid flags)
  then show ?thesis
    by (intro sess_inv_grow [OF assms(1) counters_grow_refl [OF sessionUpdate_sessions]]) auto
next
  case (Created sid b err reply n')
  then show ?thesis by (intro sess_inv_grow [OF assms(1) session_created_grow]) auto
next
  case (Data uuid err reply n')
  then show ?thesis by (intro sess_inv_grow [OF assms(1) session_data_grow]) auto
next
  case (Picture p url err pic n')
  then show ?thesis by (intro sess_inv_grow [OF assms(1) picture_downloaded_grow]) auto
next
  case (Read sid sn n')
  then have "m_gameSessions n' = m_gameSessions (sys_net s)"
    by (auto simp: sendLatest_read_def Let_def split: if_splits option.splits)
  with Read show ?thesis by (intro sess_inv_grow [OF assms(1) counters_grow_refl]) auto
next
  case (Publish sn c n')
  then show ?thesis using sess_inv_publish [OF assms(1)] by simp
next
  case (Other n')
  then show ?thesis by (intro sess_inv_grow [OF assms(1) counters_grow_refl]) auto
next
  case (Updated sid err reply n')
  have "sess_inv (s\<lparr>sys_net := n', closed := insert sid (closed s)\<rparr>)"
    using session_updated_cases [OF Updated(2)]
  proof
    assume "counters_grow (sys_net s) n'"
    then have "sess_inv (s\<lparr>sys_net := n'\<rparr>)" by (intro sess_inv_grow [OF assms(1)]) auto
    then show ?thesis by (auto simp: sess_inv_def sent_of_def)
  next
    assume e: "n' = erase_session sid (sys_net s) \<and>
      (\<exists>g. map_of (m_gameSessions (sys_net s)) sid = Some g \<and> \<not> isGameActive (gs_gameData g))"
    have "counter_of n' j = counter_of (sys_net s) j" if "j \<noteq> sid" for j
      using that e by (simp add: counter_of_def erase_session_def)
    with assms(1) show ?thesis by (auto simp: sess_inv_def sent_of_def)
  qed
  moreover have "sess_inv (s\<lparr>sys_net := n'\<rparr>)" if "map_of (m_gameSessions n') sid \<noteq> None"
    using session_updated_cases [OF Updated(2)] that
    by (auto simp: erase_session_def intro!: sess_inv_grow [OF assms(1)])
  ultimately show ?thesis using Updated(1) by auto
qed

lemma sess_reachable_inv: "sess_reachable J s \<Longrightarrow> sess_inv s"
proof (induction rule: sess_reachable.induct)
  case (sess_init n)
  then show ?case by (simp add: sess_inv_def sent_of_def)
next
  case (sess_next s s')
  then show ?case using sess_inv_step by blast
qed

text \<open>
  C13. The data published for a session carry strictly increasing sequence numbers, under every
  interleaving of submissions, replies, session updates and publishing tasks, as long as the session
  has not been removed after its end.
\<close>

theorem publications_in_sequence:
  assumes "sess_reachable J s" "sid \<notin> closed s"
  shows "sorted_wrt (<) (sent_of sid s)"
  using sess_reachable_inv [OF assms(1)] assms(2) by (simp add: sess_inv_def)

text \<open>A concrete network layer with a connected client, and a parser that knows two texts.\<close>

definition sample_device :: DeviceInfo where
  "sample_device =
     \<lparr>provider = ''acme'', machineId = 7, gameCodeVersion = [], di_hostname = [], di_cfHostname = [],
      di_uuid = ''dev'', serialNumber = 0, autoDownloadPlayerPics = False, scoreFeatures = [],
      scoreFeaturesVersion = 0, threadsNice = 0, encryptedKey = [], signerCallback = True,
      scorbitdVersion = [], scorbitdPlatformId = [], machineTitle = [], extraFingerprint = [],
      saveKeyCallback = False, loadKeyCallback = False\<rparr>"

definition sample_net :: "jval Net" where
  "sample_net =
     \<lparr>m_status = AuthenticatedPaired, m_stop = False, m_isRefreshingToken = False, m_hostname = ''https://h:443'',
      m_cfHostname = [], m_stoken = ''tok'', m_cachedShortCode = [], m_machineChannel = ''machine:m'',
      m_releaseTrackUrl = [], m_fingerprintHash = [], m_deviceInfo = sample_device,
      m_machineInfo = \<lparr>opdbId = [], machineUuid = ''m'', variantUuid = None, gameSlug = None,
                       venueUuid = None, mi_title = []\<rparr>,
      m_gameSessions = [], m_numberOfPlayersRequested = 0, m_isNfcCapable = False, m_nonces = [],
      m_scorbitronObject = [], m_diagProbeSequence = 0, m_seenDiagTraceIds = [],
      m_playersManager = PlayerProfilesManager_new,
      m_centrifugo = Some \<lparr>cf_id = 0, cf_state = Connected\<rparr>, clients_made = 1, m_retiredCentrifugoClients = [],
      m_restartCentrifugoPending = False, m_lastEmittedPairingState = None, pushed = [], outs = []\<rparr>"

definition sample_json :: "jval json_api" where
  "sample_json = jval_api\<lparr>j_parse := (\<lambda>s. if s = ''[]'' then Some (JArr [])
     else if s = ''reply'' then Some (JObj [(''id'', JStr ''uuid'')]) else None)\<rparr>"

definition sample_clock :: Clock where
  "sample_clock = \<lparr>c_system = 0, c_steady = 0\<rparr>"

definition sample_game :: GameData where
  "sample_game = GameData_empty\<lparr>gd_id := 1, isGameActive := True\<rparr>"

definition sample_session :: GameSession where
  "sample_session = (GameSession_new sample_clock)\<lparr>sessionCounter := 1, sessionUuid := ''uuid'',
     gs_gameData := sample_game, history := [sample_game]\<rparr>"

lemma sample_created:
  "\<exists>n. session_created sample_json 1 False Success ''reply''
     (sessionCreate sample_clock sample_game StartButton False sample_net) = Ret n \<and>
   m_gameSessions n = [(1, sample_session)] \<and> m_centrifugo n = m_centrifugo sample_net \<and> \<not> m_stop n"
  by (simp add: session_created_def created_uuid_def sample_json_def jval_api_def jval_get_def j_find_if_def
      sessionCreate_def createSessionCreateTask_def sample_game_def sample_net_def session_at_def
      sample_session_def record_data_def put_session_def out_def Let_def GameSession_new_def)

lemma sample_publish:
  assumes "m_gameSessions n = [(1, sample_session)]" "m_centrifugo n = m_centrifugo sample_net" "\<not> m_stop n"
  shows "\<exists>sn n1 n2. sendLatest_read 1 n = (Some sn, n1) \<and> sn_session sn = 1 \<and>
    sendLatest_publish sample_json sample_clock sn n1 = Ret n2 \<and>
    sequences (drop (length (outs n1)) (outs n2)) = [2]"
proof -
  have "Modes_jsonStr (modes sample_game) = ''[]''" by code_simp
  then show ?thesis
    using assms
    by (simp add: sendLatest_read_def sendLatest_publish_def sample_net_def sample_session_def
        sample_json_def Let_def sendLatest_finish_def)
qed

theorem publications_in_sequence_witness:
  "\<exists>s. sess_reachable sample_json s \<and> sent_of 1 s = [2] \<and> sorted_wrt (<) (sent_of 1 s)"
proof -
  let ?s0 = "\<lparr>sys_net = sample_net, in_flight = None, sent = [], closed = {}\<rparr> :: jval sess_sys"
  obtain n where n: "session_created sample_json 1 False Success ''reply''
      (sessionCreate sample_clock sample_game StartButton False sample_net) = Ret n"
    "m_gameSessions n = [(1, sample_session)]" "m_centrifugo n = m_centrifugo sample_net" "\<not> m_stop n"
    using sample_created by blast
  obtain sn n1 n2 where p: "sendLatest_read 1 n = (Some sn, n1)" "sn_session sn = 1"
    "sendLatest_publish sample_json sample_clock sn n1 = Ret n2"
    "sequences (drop (length (outs n1)) (outs n2)) = [2]"
    using sample_publish [OF n(2-4)] by blast
  have r0: "sess_reachable sample_json ?s0" by (rule sess_init) (simp add: sample_net_def)
  note r1 = sess_next [OF r0 Create [of sample_json ?s0 sample_clock sample_game StartButton False]]
  note r2 = sess_next [OF r1 Created [of sample_json 1 False Success "''reply''" _ n]]
  note r3 = sess_next [OF r2 Read [of _ 1 "Some sn" n1 sample_json]]
  note r4 = sess_next [OF r3 Publish [of _ sn sample_json sample_clock n2]]
  have r: "sess_reachable sample_json (?s0\<lparr>sys_net := n2, in_flight := None, sent := [(1, 2)]\<rparr>)"
    using r4 n(1) p by simp
  have "1 \<notin> closed (?s0\<lparr>sys_net := n2, in_flight := None, sent := [(1, 2)]\<rparr>)" by simp
  from publications_in_sequence [OF r this] r show ?thesis
    by (intro exI [of _ "?s0\<lparr>sys_net := n2, in_flight := None, sent := [(1, 2)]\<rparr>"] conjI)
      (simp_all add: sent_of_def)
qed

section \<open>Session updates\<close>

text \<open>The update requests for a session among some outputs.\<close>

definition update_requests :: "int \<Rightarrow> 'j net_out list \<Rightarrow> 'j http_task list" where
  "update_requests sid os =
     concat (map (\<lambda>o'. case o' of OPost _ (THttp t) \<Rightarrow> if ht_callback t = CbSessionUpdated sid then [t] else []
                             | _ \<Rightarrow> []) os)"

lemma update_requests_simps [simp]:
  "update_requests sid [] = []"
  "update_requests sid (OStartTimer u d f # os) = update_requests sid os"
  "update_requests sid (OStopTimer u # os) = update_requests sid os"
  "update_requests sid (OPost ex TNoop # os) = update_requests sid os"
  "update_requests sid (OPost ex (TSendLatest i) # os) = update_requests sid os"
  "update_requests sid (OPost ex (THttp t) # os) =
     (if ht_callback t = CbSessionUpdated sid then t # update_requests sid os else update_requests sid os)"
  "update_requests sid (xs @ ys) = update_requests sid xs @ update_requests sid ys"
  by (simp_all add: update_requests_def)

abbreviation new_outs :: "'j Net \<Rightarrow> 'j Net \<Rightarrow> 'j net_out list" where
  "new_outs n n' \<equiv> drop (length (outs n)) (outs n')"

definition debounces :: "SessionFlags \<Rightarrow> bool" where
  "debounces flags \<longleftrightarrow>
     \<not> has_flag flags UploadHistoryLogs \<and> \<not> has_flag flags Debounced \<and> has_flag flags PlayersAdd"

definition update_outs :: "Clock \<Rightarrow> int \<Rightarrow> SessionFlags \<Rightarrow> 'j Net \<Rightarrow> 'j net_out list" where
  "update_outs c sid flags n =
     (if m_stop n then []
      else OStopTimer SessionUpdate #
        (if debounces flags then
           [OStartTimer SessionUpdate SESSION_UPDATE_ADD_PLAYER_DEBOUNCE (TSessionUpdate sid (set_flag Debounced flags))]
         else case map_of (m_gameSessions n) sid of
                None \<Rightarrow> [OPost SessionStrand TNoop]
              | Some g \<Rightarrow>
                  if sessionUuid g = [] then
                    [OStartTimer SessionUpdate SESSION_UPDATE_NO_UUID_RETRY (TSessionUpdate sid flags),
                     OPost SessionStrand TNoop]
                  else [OPost SessionStrand (THttp (createPatchMultipartRequestTask (CbSessionUpdated sid)
                     (Endpoint (net_url n URL_SCORBITRON_SESSION_UPDATE [(ARG_SESSION_UUID, sessionUuid g)]) [])
                     (update_form c g flags) [AuthenticatedPaired] True))]))"

lemma net_url_out [simp]: "net_url (out os n) = net_url n"
  by (simp add: net_url_def out_def fun_eq_iff Let_def)

lemma sessionUpdate_outs: "sessionUpdate c sid flags n = out (update_outs c sid flags n) n"
proof -
  have "out a (out b n) = out (b @ a) n" for a b and n :: "'a Net" by (simp add: out_def)
  then show ?thesis
    by (simp add: sessionUpdate_def update_outs_def debounces_def createSessionUpdateTask_def Let_def
        out_def [of "[]"] split: option.split)
qed

text \<open>
  C14. Updating a session. An update that uploads the history is sent at once if the server has named
  the session, with the CSV of the whole history and, for a finished game, the mark of completion and
  the settling time; otherwise it is tried again after a second with the same flags. An update that
  only adds players waits 300 ms, in which a later call replaces it, and is then sent.
\<close>

theorem sessionUpdate_sends_or_retries:
  assumes "\<not> m_stop n" "map_of (m_gameSessions n) sid = Some g"
  shows "(if debounces flags then
       armed SessionUpdate (sessionUpdate c sid flags n) = Some (TSessionUpdate sid (set_flag Debounced flags)) \<and>
       \<not> debounces (set_flag Debounced flags) \<and> update_requests sid (new_outs n (sessionUpdate c sid flags n)) = []
     else if sessionUuid g = [] then
       armed SessionUpdate (sessionUpdate c sid flags n) = Some (TSessionUpdate sid flags) \<and>
       update_requests sid (new_outs n (sessionUpdate c sid flags n)) = []
     else
       armed SessionUpdate (sessionUpdate c sid flags n) = None \<and>
       (\<exists>t parts. update_requests sid (new_outs n (sessionUpdate c sid flags n)) = [t] \<and>
          ht_body t = Multipart parts \<and> ht_method t = ''PATCH'' \<and>
          (has_flag flags UploadHistoryLogs \<longrightarrow>
             FormFile ''file'' (gameHistoryToCsv (history g)) (sessionUuid g @ ''.csv'') \<in> set parts) \<and>
          (\<not> isGameActive (gs_gameData g) \<longrightarrow>
             FormText ''successfully_completed'' ''True'' \<in> set parts \<and>
             FormText ''settled_on'' (to_iso8601 (c_system c)) \<in> set parts)))"
  using assms
  by (simp add: sessionUpdate_outs update_outs_def armed_out debounces_def
      createPatchMultipartRequestTask_def update_form_def)

theorem sessionUpdate_sends_or_retries_witness:
  "\<exists>t. update_requests 1 (new_outs (put_session 1 sample_session sample_net)
     (sessionUpdate sample_clock 1 (set_flag UploadHistoryLogs DFlags_empty) (put_session 1 sample_session sample_net))) = [t]"
proof -
  have "\<not> m_stop (put_session 1 sample_session sample_net)"
    "map_of (m_gameSessions (put_session 1 sample_session sample_net)) 1 = Some sample_session"
    "\<not> debounces (set_flag UploadHistoryLogs DFlags_empty)" "sessionUuid sample_session \<noteq> []"
    by (simp_all add: sample_net_def debounces_def sample_session_def)
  with sessionUpdate_sends_or_retries [OF this(1,2), of "set_flag UploadHistoryLogs DFlags_empty" sample_clock]
  show ?thesis by auto
qed

text \<open>
  C15. There is one retry timer for all sessions. If the update of one session waits for the server to
  name the session, any update of another session takes its place: the first update is no longer
  scheduled and no request for it has been made.
\<close>

theorem newer_update_drops_retry:
  assumes "\<not> m_stop n" "map_of (m_gameSessions n) a = Some g" "sessionUuid g = []"
    "has_flag flags UploadHistoryLogs" "a \<noteq> b"
  shows "armed SessionUpdate (sessionUpdate c a flags n) = Some (TSessionUpdate a flags) \<and>
    (\<forall>fl. armed SessionUpdate (sessionUpdate c' b flags' (sessionUpdate c a flags n)) \<noteq> Some (TSessionUpdate a fl)) \<and>
    update_requests a (new_outs n (sessionUpdate c' b flags' (sessionUpdate c a flags n))) = []"
  using assms
  by (simp add: sessionUpdate_outs update_outs_def armed_out debounces_def
      createPatchMultipartRequestTask_def split: option.split)

theorem newer_update_drops_retry_witness:
  "armed SessionUpdate (sessionUpdate sample_clock 2 (set_flag UploadHistoryLogs DFlags_empty)
     (sessionUpdate sample_clock 1 (set_flag UploadHistoryLogs DFlags_empty)
       (put_session 1 (sample_session\<lparr>sessionUuid := []\<rparr>) sample_net)))
   \<noteq> Some (TSessionUpdate 1 (set_flag UploadHistoryLogs DFlags_empty))"
  using newer_update_drops_retry [of "put_session 1 (sample_session\<lparr>sessionUuid := []\<rparr>) sample_net" 1
      "sample_session\<lparr>sessionUuid := []\<rparr>" "set_flag UploadHistoryLogs DFlags_empty" 2 sample_clock
      sample_clock "set_flag UploadHistoryLogs DFlags_empty"]
  by (simp add: sample_net_def)

text \<open>
  C16. A session is forgotten exactly when the server has confirmed an update after the game ended:
  not on an error and not while its game is on; and no other session is touched.
\<close>

theorem session_removed_iff_over:
  assumes "session_updated J sid err reply n = Ret n'" "map_of (m_gameSessions n) sid = Some g"
  shows "(map_of (m_gameSessions n') sid = None \<longleftrightarrow> err = Success \<and> \<not> isGameActive (gs_gameData g)) \<and>
    (\<forall>j. j \<noteq> sid \<longrightarrow> map_of (m_gameSessions n') j = map_of (m_gameSessions n) j)"
proof -
  have proc: "processScoresAndPlayersProfiles J v sid n = Ret n' \<Longrightarrow>
    map_of (m_gameSessions n') sid \<noteq> None \<and> (\<forall>j. j \<noteq> sid \<longrightarrow> map_of (m_gameSessions n') j = map_of (m_gameSessions n) j)"
    for v using assms(2) by (auto simp: process_sessions with_scores_def)
  show ?thesis using assms proc
    by (auto simp: session_updated_def erase_session_def split: if_splits option.splits)
qed

theorem session_removed_iff_over_witness:
  "\<exists>n'. session_updated sample_json 1 Success [] (put_session 1
       (sample_session\<lparr>gs_gameData := GameData_empty\<rparr>) sample_net) = Ret n' \<and>
     map_of (m_gameSessions n') 1 = None"
proof -
  let ?g = "sample_session\<lparr>gs_gameData := GameData_empty\<rparr>"
  let ?n = "put_session 1 ?g sample_net"
  have g: "map_of (m_gameSessions ?n) 1 = Some ?g" by simp
  have inactive: "\<not> isGameActive (gs_gameData ?g)" by (simp add: GameData_empty_def)
  have "session_updated sample_json 1 Success [] ?n = Ret (erase_session 1 ?n)"
    using g inactive by (simp add: session_updated_def)
  from session_removed_iff_over [OF this g] this inactive show ?thesis by blast
qed

text \<open>
  A mode whose name holds a quotation mark ends the program: the text of the modes is then not
  JSON, the publishing task parses it outside any exception handler, and the exception leaves the
  task. (A JSON parser rejects the text \<^verbatim>\<open>["a"b"]\<close>.)
\<close>

theorem quoted_mode_ends_task:
  assumes "j_parse J ([CHR ''['', CHR 0x22] @ ''a'' @ [CHR 0x22] @ ''b'' @ [CHR 0x22, CHR '']'']) = None"
    and "m_modes (modes (sn_data sn)) = [''a'' @ [CHR 0x22] @ ''b'']" "sn_uuid sn \<noteq> []"
    and "m_centrifugo n = Some client" "cf_state client = Connected"
    and "map_of (m_gameSessions n) (sn_session sn) = Some g"
  shows "sendLatest_publish J c sn n = Exn"
  using assms by (simp add: sendLatest_publish_def Modes_jsonStr_def)

theorem quoted_mode_ends_task_witness:
  "sendLatest_publish sample_json sample_clock
     \<lparr>sn_session = 1, sn_data = sample_game\<lparr>modes := \<lparr>m_modes = [''a'' @ [CHR 0x22] @ ''b''], m_modeExpiryDeadlines = []\<rparr>\<rparr>,
      sn_uuid = ''uuid'', sn_started = 0, sn_metadata = []\<rparr>
     (put_session 1 sample_session sample_net) = Exn"
  by (rule quoted_mode_ends_task [where client = "\<lparr>cf_id = 0, cf_state = Connected\<rparr>" and g = sample_session])
    (simp_all add: sample_json_def sample_net_def)

theorem armed_refines_worker_witness:
  "waiting (\<lambda>t. t) SessionUpdate (worker_after list_timer
     (outs (out [OStartTimer SessionUpdate 1 (TSessionUpdate 1 DFlags_empty)] sample_net)) (Worker_new []))
   = [TSessionUpdate 1 DFlags_empty]"
  using armed_refines_worker [OF list_timer_law refl, of SessionUpdate
      "out [OStartTimer SessionUpdate 1 (TSessionUpdate 1 DFlags_empty)] sample_net"]
  by (simp add: armed_def sample_net_def)

end
