(* ===== verification/Net_Http.thy ===== *)
theory Net_Http
  imports Net_Session_Props
begin

text \<open>
  The request loop of \<^verbatim>\<open>source/net.cpp\<close> (\<^verbatim>\<open>createHttpRequestTask\<close>), the two download tasks and the
  headers.

  A task talks to the server and to other threads. Both are inputs: each turn of its loop gets an
  \<open>http_turn\<close> with what the other threads did to the state while the task waited (\<open>wake\<close>), the
  server's response, and the effect of the authentication it may run (\<open>reauth\<close>, the task of
  \<open>Net_Auth\<close>). The result \<open>None\<close> means that the task is still waiting. A request that is sent is
  recorded with its headers and the status under which it was sent. Pauses between attempts have no
  effect on the state.
\<close>

definition NUM_RETRIES :: nat where
  "NUM_RETRIES = 3"
definition MAX_BUFFER_DOWNLOAD_SIZE :: nat where
  "MAX_BUFFER_DOWNLOAD_SIZE = 10 * 1024 * 1024"

definition net_header :: header where
  "net_header = [(HDR_KEY_CACHE_CONTROL, HDR_VAL_NO_CACHE)]"

definition authHeader :: "'j Net \<Rightarrow> header" where
  "authHeader n =
     AList.update HDR_KEY_CONTENT_TYPE HDR_VAL_CONTENT_JSON
       (AList.update HDR_KEY_AUTHORIZATION (HDR_VAL_BEARER @ m_stoken n) net_header)"

definition stopTokenRefreshTimer :: "'j Net \<Rightarrow> 'j Net" where
  "stopTokenRefreshTimer n = (out [OStopTimer TokenRefresh] n)\<lparr>m_isRefreshingToken := False\<rparr>"

section \<open>Requests\<close>

record 'j http_turn =
  wake :: "'j Net \<Rightarrow> 'j Net"
  response_code :: int
  response_text :: string
  reauth :: "'j Net \<Rightarrow> 'j Net"

text \<open>The condition on which the task stops waiting.\<close>

definition may_proceed :: "AuthStatus list \<Rightarrow> 'j Net \<Rightarrow> bool" where
  "may_proceed allowed n \<longleftrightarrow>
     isAuthenticated n \<or> m_status n = AuthenticationFailed \<or> m_stop n \<or> checkAllowedStatuses allowed n"

definition request_header :: "'j http_task \<Rightarrow> 'j Net \<Rightarrow> header" where
  "request_header t n =
     (let h = authHeader n;
          h = (if ht_fingerprint t \<and> m_fingerprintHash n \<noteq> []
               then AList.update HDR_KEY_FINGERPRINT_HASH (m_fingerprintHash n) h else h)
      in if ht_multipart t then AList.update HDR_KEY_CONTENT_TYPE HDR_VAL_CONTENT_MULTIPART h else h)"

definition send_request :: "'j http_task \<Rightarrow> 'j Net \<Rightarrow> 'j Net" where
  "send_request t n =
     out [OSend \<lparr>sr_method = ht_method t, sr_url = endpoint_url n (ht_endpoint t),
                 sr_header = request_header t n, sr_status = m_status n\<rparr>] n"

fun http_loop ::
  "nat \<Rightarrow> 'j http_task \<Rightarrow> 'j http_turn list \<Rightarrow> string \<Rightarrow> 'j Net \<Rightarrow> (Error \<times> string \<times> 'j Net) option" where
  "http_loop 0 t turns reply n = Some (ApiError, reply, n)"
| "http_loop (Suc k) t [] reply n = None"
| "http_loop (Suc k) t (turn # turns) reply n =
     (let n = wake turn n
      in if \<not> may_proceed (ht_allowed t) n then None
         else if \<not> checkAllowedStatuses (ht_allowed t) n then
           Some (if m_status n = AuthenticationFailed then AuthFailed else NotPaired, reply, n)
         else
           let n = send_request t n;
               code = response_code turn;
               reply = response_text turn
           in if 200 \<le> code \<and> code < 300 then Some (Success, reply, n)
              else if code = 0 then http_loop k t turns reply n
              else if code \<noteq> 401 then Some (ApiError, reply, n)
              else if m_status n = NotAuthenticated \<or> m_status n = Authenticating
                      \<or> m_status n = AuthenticationFailed then http_loop k t turns reply n
              else http_loop k t turns reply
                     (reauth turn (stopTokenRefreshTimer (n\<lparr>m_status := NotAuthenticated\<rparr>))))"

definition createHttpRequestTask ::
  "'j http_task \<Rightarrow> 'j http_turn list \<Rightarrow> 'j Net \<Rightarrow> (Error \<times> string \<times> 'j Net) option" where
  "createHttpRequestTask t turns n = http_loop NUM_RETRIES t turns [] n"

section \<open>Downloads\<close>

record transfer =
  tr_code :: int
  tr_bytes :: "8 word list"

definition download_header ::
  "(string \<Rightarrow> url_view option) \<Rightarrow> string \<Rightarrow> header \<Rightarrow> 'j Net \<Rightarrow> header" where
  "download_header parse_uri fullUrl extraHeaders n =
     foldl (\<lambda>h (k, v). AList.update k v h)
       (if isInternalDownloadForAuth parse_uri fullUrl (m_hostname n) then authHeader n else [])
       extraHeaders"

definition send_download ::
  "(string \<Rightarrow> url_view option) \<Rightarrow> string \<Rightarrow> header \<Rightarrow> 'j Net \<Rightarrow> 'j Net" where
  "send_download parse_uri fullUrl extraHeaders n =
     out [OSend \<lparr>sr_method = REST_GET, sr_url = fullUrl,
                 sr_header = download_header parse_uri fullUrl extraHeaders n, sr_status = m_status n\<rparr>] n"

text \<open>The bytes of every attempt go to the same open file.\<close>

fun download_file_loop ::
  "(string \<Rightarrow> url_view option) \<Rightarrow> nat \<Rightarrow> string \<Rightarrow> header \<Rightarrow> transfer list \<Rightarrow> 8 word list \<Rightarrow> int \<Rightarrow> 'j Net
   \<Rightarrow> (Error \<times> int \<times> 8 word list \<times> 'j Net) option" where
  "download_file_loop P 0 url hs trs content code n = Some (ApiError, code, content, n)"
| "download_file_loop P (Suc k) url hs [] content code n = None"
| "download_file_loop P (Suc k) url hs (tr # trs) content code n =
     (let n = send_download P url hs n;
          content = content @ tr_bytes tr;
          code = tr_code tr
      in if code = 200 then Some (Success, code, content, n)
         else if code \<ge> 400 then Some (ApiError, code, content, n)
         else download_file_loop P k url hs trs content code n)"

definition createDownloadFileTask ::
  "(string \<Rightarrow> url_view option) \<Rightarrow> string \<Rightarrow> header \<Rightarrow> bool \<Rightarrow> transfer list \<Rightarrow> 'j Net
   \<Rightarrow> (Error \<times> int \<times> 8 word list \<times> 'j Net) option" where
  "createDownloadFileTask parse_uri url extraHeaders is_open trs n =
     (if \<not> is_open then Some (FileError, 0, [], n)
      else download_file_loop parse_uri NUM_RETRIES (net_url n url []) extraHeaders trs [] 0 n)"

fun download_buffer_loop ::
  "(string \<Rightarrow> url_view option) \<Rightarrow> nat \<Rightarrow> string \<Rightarrow> header \<Rightarrow> transfer list \<Rightarrow> 'j Net
   \<Rightarrow> (Error \<times> 8 word list \<times> 'j Net) option" where
  "download_buffer_loop P 0 url hs trs n = Some (ApiError, [], n)"
| "download_buffer_loop P (Suc k) url hs [] n = None"
| "download_buffer_loop P (Suc k) url hs (tr # trs) n =
     (let n = send_download P url hs n
      in if tr_code tr = 200 then
           if length (tr_bytes tr) > MAX_BUFFER_DOWNLOAD_SIZE then Some (ApiError, [], n)
           else Some (Success, tr_bytes tr, n)
         else if tr_code tr \<ge> 400 then Some (ApiError, [], n)
         else download_buffer_loop P k url hs trs n)"

definition createDownloadBufferTask ::
  "(string \<Rightarrow> url_view option) \<Rightarrow> string \<Rightarrow> header \<Rightarrow> transfer list \<Rightarrow> 'j Net
   \<Rightarrow> (Error \<times> 8 word list \<times> 'j Net) option" where
  "createDownloadBufferTask parse_uri url extraHeaders trs n =
     download_buffer_loop parse_uri NUM_RETRIES (net_url n url []) extraHeaders trs n"

section \<open>Properties of requests\<close>

fun sends :: "'j net_out list \<Rightarrow> sent_request list" where
  "sends [] = []"
| "sends (OSend r # os) = r # sends os"
| "sends (_ # os) = sends os"

lemma sends_append [simp]: "sends (xs @ ys) = sends xs @ sends ys"
  by (induction xs rule: sends.induct) simp_all

text \<open>What other threads and the authentication do adds no request of this task to the record.\<close>

definition quiet :: "('j Net \<Rightarrow> 'j Net) \<Rightarrow> bool" where
  "quiet f \<longleftrightarrow> (\<forall>n. sends (outs (f n)) = sends (outs n))"

definition quiet_turn :: "'j http_turn \<Rightarrow> bool" where
  "quiet_turn turn \<longleftrightarrow> quiet (wake turn) \<and> quiet (reauth turn)"

lemma out_sends [simp]: "sends (outs (out os n)) = sends (outs n) @ sends os"
  by (simp add: out_def)

lemma send_request_sends:
  "\<exists>r. sends (outs (send_request t n)) = sends (outs n) @ [r] \<and> sr_status r = m_status n"
  by (auto simp: send_request_def)

lemma stopTokenRefreshTimer_outs [simp]: "sends (outs (stopTokenRefreshTimer n)) = sends (outs n)"
  by (simp add: stopTokenRefreshTimer_def out_def)

abbreviation after_reauth :: "'j http_task \<Rightarrow> 'j http_turn \<Rightarrow> 'j Net \<Rightarrow> 'j Net" where
  "after_reauth t turn n \<equiv> reauth turn (stopTokenRefreshTimer ((send_request t n)\<lparr>m_status := NotAuthenticated\<rparr>))"

text \<open>One turn: the request is refused, or it is sent and is the last, or the loop goes on.\<close>

lemma http_loop_turn:
  assumes "http_loop (Suc k) t (turn # turns) reply n = Some (err, reply', n')"
  shows "\<not> checkAllowedStatuses (ht_allowed t) (wake turn n) \<and> n' = wake turn n \<and> err \<in> {AuthFailed, NotPaired} \<or>
    checkAllowedStatuses (ht_allowed t) (wake turn n) \<and>
      (n' = send_request t (wake turn n) \<and> reply' = response_text turn \<and>
         err = (if 200 \<le> response_code turn \<and> response_code turn < 300 then Success else ApiError) \<or>
       (\<exists>m \<in> {send_request t (wake turn n), after_reauth t turn (wake turn n)}.
          http_loop k t turns (response_text turn) m = Some (err, reply', n')))"
  using assms by (auto simp: Let_def split: if_splits)

lemma http_loop_sends:
  "http_loop k t turns reply n = Some (err, reply', n') \<Longrightarrow> \<forall>u \<in> set turns. quiet_turn u \<Longrightarrow>
   \<exists>rs. sends (outs n') = sends (outs n) @ rs \<and> length rs \<le> k \<and>
     (\<forall>r \<in> set rs. sr_status r \<in> set (ht_allowed t)) \<and> (err = Success \<longrightarrow> rs \<noteq> [])"
proof (induction k arbitrary: turns reply n)
  case (Suc k)
  from Suc.prems(1) obtain turn us where turns: "turns = turn # us" by (cases turns) auto
  let ?n = "wake turn n"
  have w: "sends (outs ?n) = sends (outs n)" and ra: "\<And>m. sends (outs (reauth turn m)) = sends (outs m)"
    using Suc.prems(2) by (auto simp: turns quiet_turn_def quiet_def)
  obtain r where r: "sends (outs (send_request t ?n)) = sends (outs n) @ [r]" "sr_status r = m_status ?n"
    using send_request_sends [of t ?n] w by auto
  have r2: "sends (outs (after_reauth t turn ?n)) = sends (outs n) @ [r]" using ra r(1) by simp
  from http_loop_turn [OF Suc.prems(1) [unfolded turns]] consider
      "n' = ?n" "err \<noteq> Success"
    | "checkAllowedStatuses (ht_allowed t) ?n" "n' = send_request t ?n"
    | m where "checkAllowedStatuses (ht_allowed t) ?n" "sends (outs m) = sends (outs n) @ [r]"
        "http_loop k t us (response_text turn) m = Some (err, reply', n')"
    using r(1) r2 by fastforce
  then show ?case
  proof cases
    case 1
    then show ?thesis using w by auto
  next
    case 2
    then show ?thesis using r by (auto simp: checkAllowedStatuses_def)
  next
    case (3 m)
    from Suc.IH [OF 3(3)] Suc.prems(2) turns obtain rs where
      "sends (outs n') = sends (outs m) @ rs" "length rs \<le> k" "\<forall>r \<in> set rs. sr_status r \<in> set (ht_allowed t)"
      by auto
    then show ?thesis using 3 r(2) by (auto simp: checkAllowedStatuses_def intro!: exI [of _ "r # rs"])
  qed
qed simp

lemma http_loop_returns:
  "length turns \<ge> k \<Longrightarrow> (\<And>u m. u \<in> set turns \<Longrightarrow> may_proceed (ht_allowed t) (wake u m)) \<Longrightarrow>
   http_loop k t turns reply n \<noteq> None"
proof (induction k arbitrary: turns reply n)
  case (Suc k)
  then obtain turn us where turns: "turns = turn # us" by (cases turns) auto
  have "http_loop k t us reply m \<noteq> None" for reply m using Suc turns by auto
  moreover have "may_proceed (ht_allowed t) (wake turn n)" using Suc.prems(2) turns by simp
  ultimately show ?case by (simp add: turns Let_def)
qed simp

text \<open>
  C17. A request task. It makes at most three requests, each of them while the status of the device is
  one that the request allows, and reports success only after a request. If it never has to wait for
  good, it returns, whatever the server answers.
\<close>

theorem request_task_bounded:
  assumes "\<forall>u \<in> set turns. quiet_turn u"
  shows "(createHttpRequestTask t turns n = Some (err, reply, n') \<longrightarrow>
      (\<exists>rs. sends (outs n') = sends (outs n) @ rs \<and> length rs \<le> 3 \<and>
         (\<forall>r \<in> set rs. sr_status r \<in> set (ht_allowed t)) \<and> (err = Success \<longrightarrow> rs \<noteq> []))) \<and>
    (3 \<le> length turns \<and> (\<forall>u \<in> set turns. \<forall>m. may_proceed (ht_allowed t) (wake u m)) \<longrightarrow>
      createHttpRequestTask t turns n \<noteq> None)"
  using http_loop_sends [of 3 t turns "[]" n err reply n'] http_loop_returns [of 3 turns t "[]" n] assms
  by (auto simp: createHttpRequestTask_def NUM_RETRIES_def)

theorem request_task_bounded_witness:
  "\<exists>err reply n'. createHttpRequestTask (createGetRequestTask CbLog (Endpoint ''e'' []) [] [AuthenticatedPaired])
     (replicate 3 \<lparr>wake = id, response_code = 0, response_text = [], reauth = id\<rparr>) sample_net = Some (err, reply, n')
   \<and> (\<exists>rs. sends (outs n') = sends (outs sample_net) @ rs \<and> length rs \<le> 3)"
proof -
  let ?turn = "\<lparr>wake = id, response_code = 0, response_text = [], reauth = id\<rparr> :: jval http_turn"
  let ?t = "createGetRequestTask CbLog (Endpoint ''e'' []) [] [AuthenticatedPaired] :: jval http_task"
  have q: "\<forall>u \<in> set (replicate 3 ?turn). quiet_turn u" by (simp add: quiet_turn_def quiet_def)
  obtain err reply n' where "createHttpRequestTask ?t (replicate 3 ?turn) sample_net = Some (err, reply, n')"
    by (simp add: createHttpRequestTask_def NUM_RETRIES_def eval_nat_numeral Let_def may_proceed_def
        checkAllowedStatuses_def createGetRequestTask_def sample_net_def send_request_def)
  with request_task_bounded [OF q, of ?t sample_net err reply n'] show ?thesis by blast
qed

section \<open>Properties of downloads\<close>

lemma download_header_auth:
  assumes "HDR_KEY_AUTHORIZATION \<notin> fst ` set hs" "HDR_KEY_AUTHORIZATION \<in> fst ` set (download_header P url hs n)"
  shows "isInternalDownloadForAuth P url (m_hostname n)"
proof (rule ccontr)
  assume ext: "\<not> isInternalDownloadForAuth P url (m_hostname n)"
  have "fst ` set (foldl (\<lambda>h (k, v). AList.update k v h) h hs) = fst ` set h \<union> fst ` set hs" for h :: header
    by (induction hs arbitrary: h) (simp_all add: case_prod_beta)
  with assms ext show False by (simp add: download_header_def)
qed

text \<open>
  C18. The access token leaves the device only for the API host: a download request carries the
  authorization header only if the host of its URL is the host of the API (unless the caller asked
  for such a header itself).
\<close>

theorem token_only_to_api_host:
  assumes "HDR_KEY_AUTHORIZATION \<notin> fst ` set hs"
    and "sends (outs (send_download P url hs n)) = sends (outs n) @ [r]"
    and "HDR_KEY_AUTHORIZATION \<in> fst ` set (sr_header r)"
  shows "\<exists>u h. P url = Some u \<and> P (m_hostname n) = Some h \<and> u_host u = u_host h \<and> sr_url r = url"
proof -
  have "r = \<lparr>sr_method = REST_GET, sr_url = url, sr_header = download_header P url hs n, sr_status = m_status n\<rparr>"
    using assms(2) by (simp add: send_download_def)
  moreover from this have "isInternalDownloadForAuth P url (m_hostname n)"
    using download_header_auth [OF assms(1), of P url n] assms(3) by simp
  ultimately show ?thesis
    by (auto simp: isInternalDownloadForAuth_def isHostMatching_def split: option.splits)
qed

theorem token_only_to_api_host_witness:
  "\<exists>u h. (\<lambda>_ :: string. Some \<lparr>u_scheme = ''https'', u_host = ''h'', u_port = None\<rparr>) ''x'' = Some u \<and>
     (\<lambda>_ :: string. Some \<lparr>u_scheme = ''https'', u_host = ''h'', u_port = None\<rparr>) (m_hostname sample_net) = Some h \<and>
     u_host u = u_host h \<and>
     sends (outs (send_download (\<lambda>_. Some \<lparr>u_scheme = ''https'', u_host = ''h'', u_port = None\<rparr>) ''x'' [] sample_net)) \<noteq> []"
proof -
  let ?P = "\<lambda>_ :: string. Some \<lparr>u_scheme = ''https'', u_host = ''h'', u_port = None\<rparr>"
  let ?r = "\<lparr>sr_method = REST_GET, sr_url = ''x'', sr_header = download_header ?P ''x'' [] sample_net,
    sr_status = m_status sample_net\<rparr>"
  have 1: "HDR_KEY_AUTHORIZATION \<notin> fst ` set ([] :: header)" by simp
  have 2: "sends (outs (send_download ?P ''x'' [] sample_net)) = sends (outs sample_net) @ [?r]"
    by (simp add: send_download_def)
  have 3: "HDR_KEY_AUTHORIZATION \<in> fst ` set (sr_header ?r)"
    by (simp add: download_header_def isInternalDownloadForAuth_def isHostMatching_def authHeader_def)
  from token_only_to_api_host [OF 1 2 3] 2 show ?thesis by auto
qed

text \<open>
  A download to a file that needs a second attempt is corrupt: if the first attempt delivered
  some bytes and ended without an error status, and the second succeeds, the task reports success
  and the file holds the bytes of both.
\<close>

theorem retried_download_corrupt:
  assumes "tr_code a < 400" "tr_code a \<noteq> 200" "tr_code b = 200"
  shows "\<exists>n'. createDownloadFileTask P url hs True [a, b] n =
    Some (Success, 200, tr_bytes a @ tr_bytes b, n')"
  using assms by (simp add: createDownloadFileTask_def NUM_RETRIES_def Let_def eval_nat_numeral)

theorem retried_download_corrupt_witness:
  "\<exists>n'. createDownloadFileTask (\<lambda>_. None) [] [] True
     [\<lparr>tr_code = 0, tr_bytes = [1]\<rparr>, \<lparr>tr_code = 200, tr_bytes = [1, 2]\<rparr>] sample_net =
     Some (Success, 200, [1, 1, 2], n')"
  using retried_download_corrupt [of "\<lparr>tr_code = 0, tr_bytes = [1]\<rparr>" "\<lparr>tr_code = 200, tr_bytes = [1, 2]\<rparr>"
      "\<lambda>_. None" "[]" "[]" sample_net] by simp

end
