(* ===== verification/Net_Centrifugo.thy ===== *)
theory Net_Centrifugo
  imports Net_Http
begin

text \<open>
  The life of the real-time client in \<^verbatim>\<open>source/net.cpp\<close>: setting it up, restarting it, retiring it and
  reacting to its connection events.

  A client object is a number; creating one takes the next. The client library itself is outside: its
  connection state is a field that changes by events, connecting and disconnecting are outputs, and
  the destruction of a client object is the output \<open>ODestroyClient\<close>.
\<close>

definition CF_RETIRED_CLIENT_GRACE_PERIOD :: duration where
  "CF_RETIRED_CLIENT_GRACE_PERIOD = seconds 30"
definition RECONNECT_DELAY :: duration where
  "RECONNECT_DELAY = seconds 10"
definition RESTART_DELAY :: duration where
  "RESTART_DELAY = milliseconds 100"

definition isActiveCentrifugoClient :: "nat \<Rightarrow> 'j Net \<Rightarrow> bool" where
  "isActiveCentrifugoClient client n \<longleftrightarrow> map_option cf_id (m_centrifugo n) = Some client"

definition expired_clients :: "time_point \<Rightarrow> 'j Net \<Rightarrow> (time_point \<times> cf_client) list" where
  "expired_clients now n =
     takeWhile (\<lambda>(retiredAt, _). retiredAt \<le> now - CF_RETIRED_CLIENT_GRACE_PERIOD)
       (m_retiredCentrifugoClients n)"

definition pruneRetiredCentrifugoClients :: "time_point \<Rightarrow> 'j Net \<Rightarrow> 'j Net" where
  "pruneRetiredCentrifugoClients now n =
     (out (map (\<lambda>(_, c). ODestroyClient (cf_id c)) (expired_clients now n)) n)
       \<lparr>m_retiredCentrifugoClients := drop (length (expired_clients now n)) (m_retiredCentrifugoClients n)\<rparr>"

definition retireCentrifugoClient :: "time_point \<Rightarrow> 'j Net \<Rightarrow> 'j Net" where
  "retireCentrifugoClient now n =
     (case m_centrifugo n of
        None \<Rightarrow> n
      | Some client \<Rightarrow>
          let n = pruneRetiredCentrifugoClients now n
          in n\<lparr>m_retiredCentrifugoClients := m_retiredCentrifugoClients n @ [(now, client)],
               m_centrifugo := None\<rparr>)"

text \<open>\<^verbatim>\<open>getJwtToken\<close>: one request for a token of the real-time service; its answer goes to the client.\<close>

definition request_cf_token :: "'j Net \<Rightarrow> 'j Net" where
  "request_cf_token n =
     out [OSend \<lparr>sr_method = REST_GET, sr_url = net_url n URL_SCORBITRON_CF_TOKEN [],
                 sr_header = [(HDR_KEY_AUTHORIZATION, HDR_VAL_BEARER @ m_stoken n)], sr_status = m_status n\<rparr>] n"

definition getJwtToken :: "'j json_api \<Rightarrow> int \<Rightarrow> string \<Rightarrow> string" where
  "getJwtToken J code text =
     (if code \<noteq> 200 then []
      else case j_parse J text of
             None \<Rightarrow> []
           | Some json \<Rightarrow>
               (case j_find_if J (j_is_string J) json JKEY_CF_TOKEN of
                  None \<Rightarrow> []
                | Some v \<Rightarrow> (case j_string J v of None \<Rightarrow> [] | Some token \<Rightarrow> token)))"

definition centrifugoSetup :: "bool \<Rightarrow> 'j Net \<Rightarrow> 'j Net" where
  "centrifugoSetup fetchFreshToken n =
     (let n = (if fetchFreshToken \<and> m_stoken n \<noteq> [] then request_cf_token n else n);
          old = m_centrifugo n;
          n = n\<lparr>m_centrifugo := Some \<lparr>cf_id = clients_made n, cf_state = Disconnected\<rparr>,
                clients_made := Suc (clients_made n)\<rparr>
      in case old of None \<Rightarrow> n | Some c \<Rightarrow> out [ODestroyClient (cf_id c)] n)"

definition centrifugoConnect :: "'j Net \<Rightarrow> 'j Net" where
  "centrifugoConnect n =
     (if m_stop n then n
      else case m_centrifugo n of
             None \<Rightarrow> n
           | Some client \<Rightarrow>
               if cf_state client \<noteq> Disconnected then n else out [OConnect (cf_id client)] n)"

definition setupAndConnectCentrifugo :: "time_point \<Rightarrow> bool \<Rightarrow> 'j Net \<Rightarrow> 'j Net" where
  "setupAndConnectCentrifugo now fetchFreshToken n =
     centrifugoConnect (centrifugoSetup fetchFreshToken (pruneRetiredCentrifugoClients now n))"

definition restartCentrifugo :: "time_point \<Rightarrow> 'j Net \<Rightarrow> 'j Net" where
  "restartCentrifugo now n =
     (let n = out [OStopTimer CentrifugoReconnect] n
      in case m_centrifugo n of
           None \<Rightarrow> setupAndConnectCentrifugo now True (n\<lparr>m_restartCentrifugoPending := False\<rparr>)
         | Some client \<Rightarrow>
             if cf_state client = Disconnected then
               setupAndConnectCentrifugo now True
                 (retireCentrifugoClient now (n\<lparr>m_restartCentrifugoPending := False\<rparr>))
             else out [ODisconnect (cf_id client)] (n\<lparr>m_restartCentrifugoPending := True\<rparr>))"

definition requestCreditsStatusEvent :: "'j Net \<Rightarrow> 'j Net" where
  "requestCreditsStatusEvent n = push_ev CreditsStatusRequestedEvent n"

definition requestCreditsStatusIfReady :: "'j Net \<Rightarrow> 'j Net" where
  "requestCreditsStatusIfReady n =
     (if m_stop n \<or> m_centrifugo n = None \<or> m_machineChannel n = [] then n
      else if map_option cf_state (m_centrifugo n) \<noteq> Some Connected then n
      else requestCreditsStatusEvent n)"

section \<open>Connection events\<close>

definition on_connected :: "time_point \<Rightarrow> nat \<Rightarrow> 'j Net \<Rightarrow> 'j Net" where
  "on_connected now client n =
     (if \<not> isActiveCentrifugoClient client n then n
      else if m_stop n then n
      else requestCreditsStatusIfReady (pruneRetiredCentrifugoClients now n))"

definition on_disconnected :: "time_point \<Rightarrow> nat \<Rightarrow> int \<Rightarrow> 'j Net \<Rightarrow> 'j Net" where
  "on_disconnected now client code n =
     (if \<not> isActiveCentrifugoClient client n then n
      else if m_stop n then n
      else if m_restartCentrifugoPending n then
        out [OStartTimer CentrifugoReconnect RESTART_DELAY TRebuildCentrifugo]
          (retireCentrifugoClient now (n\<lparr>m_restartCentrifugoPending := False\<rparr>))
      else if code = 3500 \<or> code = 3501 \<or> code = 3502 then
        out [OStartTimer CentrifugoReconnect RECONNECT_DELAY (TResetCentrifugo client)] n
      else n)"

text \<open>The two tasks of the reconnect timer.\<close>

definition rebuild_centrifugo :: "time_point \<Rightarrow> 'j Net \<Rightarrow> 'j Net" where
  "rebuild_centrifugo now n =
     (if m_stop n \<or> m_centrifugo n \<noteq> None then n else setupAndConnectCentrifugo now True n)"

definition reset_centrifugo :: "time_point \<Rightarrow> nat \<Rightarrow> 'j Net \<Rightarrow> 'j Net" where
  "reset_centrifugo now client n =
     (if \<not> isActiveCentrifugoClient client n then n else setupAndConnectCentrifugo now True n)"

section \<open>A restart is never lost\<close>

text \<open>
  The client under the worker: \<open>cs_wait\<close> is the task waiting on the reconnect timer, \<open>cs_ready\<close> the
  tasks of that timer that have expired and wait for a thread.
\<close>

record 'j cf_sys =
  cs_net :: "'j Net"
  cs_wait :: "'j net_task option"
  cs_ready :: "'j net_task list"

definition cf_apply :: "('j Net \<Rightarrow> 'j Net) \<Rightarrow> 'j cf_sys \<Rightarrow> 'j cf_sys" where
  "cf_apply f s =
     s\<lparr>cs_net := f (cs_net s),
       cs_wait := armed_after CentrifugoReconnect
         (drop (length (outs (cs_net s))) (outs (f (cs_net s)))) (cs_wait s)\<rparr>"

definition set_cf_state :: "ConnectionState \<Rightarrow> 'j Net \<Rightarrow> 'j Net" where
  "set_cf_state st n = n\<lparr>m_centrifugo := map_option (\<lambda>c. c\<lparr>cf_state := st\<rparr>) (m_centrifugo n)\<rparr>"

fun run_cf_task :: "time_point \<Rightarrow> 'j net_task \<Rightarrow> 'j Net \<Rightarrow> 'j Net" where
  "run_cf_task now TRebuildCentrifugo n = rebuild_centrifugo now n"
| "run_cf_task now (TResetCentrifugo client) n = reset_centrifugo now client n"
| "run_cf_task now _ n = n"

inductive cf_step :: "'j cf_sys \<Rightarrow> 'j cf_sys \<Rightarrow> bool" where
  Restart: "cf_step s (cf_apply (restartCentrifugo now) s)"
| Disconnect: "cf_step s (cf_apply (on_disconnected now client code) s)"
| Connect: "cf_step s (cf_apply (on_connected now client) s)"
| State: "cf_step s (cf_apply (set_cf_state st) s)"
| Fire: "cs_wait s = Some f \<Longrightarrow> cf_step s (s\<lparr>cs_wait := None, cs_ready := f # cs_ready s\<rparr>)"
| Run: "f \<in> set (cs_ready s) \<Longrightarrow>
    cf_step s (cf_apply (run_cf_task now f) (s\<lparr>cs_ready := remove1 f (cs_ready s)\<rparr>))"
| Net: "m_centrifugo n' = m_centrifugo (cs_net s) \<Longrightarrow>
    m_restartCentrifugoPending n' = m_restartCentrifugoPending (cs_net s) \<Longrightarrow>
    (m_stop (cs_net s) \<Longrightarrow> m_stop n') \<Longrightarrow> cf_step s (s\<lparr>cs_net := n'\<rparr>)"

inductive cf_reachable :: "'j cf_sys \<Rightarrow> bool" where
  cf_init: "m_centrifugo n \<noteq> None \<Longrightarrow> \<not> m_restartCentrifugoPending n \<Longrightarrow>
    cf_reachable \<lparr>cs_net = n, cs_wait = None, cs_ready = []\<rparr>"
| cf_next: "cf_reachable s \<Longrightarrow> cf_step s s' \<Longrightarrow> cf_reachable s'"

definition cf_inv :: "'j cf_sys \<Rightarrow> bool" where
  "cf_inv s \<longleftrightarrow>
     (m_restartCentrifugoPending (cs_net s) \<longrightarrow> m_centrifugo (cs_net s) \<noteq> None) \<and>
     (\<not> m_stop (cs_net s) \<longrightarrow> m_centrifugo (cs_net s) = None \<longrightarrow>
        cs_wait s = Some TRebuildCentrifugo \<or> TRebuildCentrifugo \<in> set (cs_ready s))"

lemma armed_after_destroys [simp]: "armed_after t (map (\<lambda>(x, c). ODestroyClient (f c)) cs) w = w"
  by (induction cs) auto

lemma prune_simps [simp]:
  "m_centrifugo (pruneRetiredCentrifugoClients now n) = m_centrifugo n"
  "m_restartCentrifugoPending (pruneRetiredCentrifugoClients now n) = m_restartCentrifugoPending n"
  "m_stop (pruneRetiredCentrifugoClients now n) = m_stop n"
  by (simp_all add: pruneRetiredCentrifugoClients_def out_def)

lemma prune_outs:
  "\<exists>cs :: (time_point \<times> cf_client) list. outs (pruneRetiredCentrifugoClients now n) = outs n @ map (\<lambda>(x, c). ODestroyClient (cf_id c)) cs"
  by (intro exI [of _ "expired_clients now n"]) (simp add: pruneRetiredCentrifugoClients_def out_def)

lemma retire_simps [simp]:
  "m_centrifugo (retireCentrifugoClient now n) = None"
  "m_restartCentrifugoPending (retireCentrifugoClient now n) = m_restartCentrifugoPending n"
  "m_stop (retireCentrifugoClient now n) = m_stop n"
  by (simp_all add: retireCentrifugoClient_def Let_def split: option.split)

lemma retire_outs:
  "\<exists>cs :: (time_point \<times> cf_client) list. outs (retireCentrifugoClient now n) = outs n @ map (\<lambda>(x, c). ODestroyClient (cf_id c)) cs"
  using prune_outs [of now n]
  by (auto simp: retireCentrifugoClient_def Let_def split: option.split)

lemma setup_simps [simp]:
  "\<exists>c. m_centrifugo (setupAndConnectCentrifugo now b n) = Some c"
  "m_restartCentrifugoPending (setupAndConnectCentrifugo now b n) = m_restartCentrifugoPending n"
  "m_stop (setupAndConnectCentrifugo now b n) = m_stop n"
  by (auto simp: setupAndConnectCentrifugo_def centrifugoConnect_def centrifugoSetup_def
      request_cf_token_def Let_def out_def split: option.split)

lemma restart_simps [simp]:
  "\<exists>c. m_centrifugo (restartCentrifugo now n) = Some c" "m_stop (restartCentrifugo now n) = m_stop n"
  by (auto simp: restartCentrifugo_def Let_def out_def split: option.split)

lemma cf_inv_present: "m_centrifugo (cs_net s) \<noteq> None \<Longrightarrow> cf_inv s"
  by (auto simp: cf_inv_def)

lemma cf_inv_same: "cf_inv s \<Longrightarrow> f (cs_net s) = cs_net s \<Longrightarrow> cf_inv (cf_apply f s)"
  by (simp add: cf_inv_def cf_apply_def)

lemma cf_inv_disconnected:
  assumes "cf_inv s"
  shows "cf_inv (cf_apply (on_disconnected now client code) s)"
proof (cases "isActiveCentrifugoClient client (cs_net s) \<and> \<not> m_stop (cs_net s)")
  case False
  then show ?thesis using cf_inv_same [OF assms] by (auto simp: on_disconnected_def)
next
  case True
  then have some: "m_centrifugo (cs_net s) \<noteq> None" by (auto simp: isActiveCentrifugoClient_def)
  show ?thesis
  proof (cases "m_restartCentrifugoPending (cs_net s)")
    case pending: True
    let ?n = "(cs_net s)\<lparr>m_restartCentrifugoPending := False\<rparr>"
    obtain cs :: "(time_point \<times> cf_client) list" where cs: "outs (retireCentrifugoClient now ?n) =
      outs (cs_net s) @ map (\<lambda>(x, c). ODestroyClient (cf_id c)) cs"
      using retire_outs [of now ?n] by auto
    have "on_disconnected now client code (cs_net s) =
      out [OStartTimer CentrifugoReconnect RESTART_DELAY TRebuildCentrifugo] (retireCentrifugoClient now ?n)"
      using True pending by (simp add: on_disconnected_def)
    then show ?thesis
      by (auto simp: cf_inv_def cf_apply_def cs armed_after_append)
  next
    case False
    then show ?thesis using True some
      by (intro cf_inv_present) (simp add: cf_apply_def on_disconnected_def)
  qed
qed

lemma cf_inv_connected:
  assumes "cf_inv s"
  shows "cf_inv (cf_apply (on_connected now client) s)"
proof (cases "isActiveCentrifugoClient client (cs_net s)")
  case True
  then have "m_centrifugo (cs_net s) \<noteq> None" by (auto simp: isActiveCentrifugoClient_def)
  then show ?thesis
    by (intro cf_inv_present) (simp add: cf_apply_def on_connected_def requestCreditsStatusIfReady_def
        requestCreditsStatusEvent_def push_ev_def)
qed (use cf_inv_same [OF assms] in \<open>simp add: on_connected_def\<close>)

lemma run_cf_task_cases:
  "run_cf_task now f n = n \<and> f \<noteq> TRebuildCentrifugo \<or>
   run_cf_task now f n = n \<and> (m_stop n \<or> m_centrifugo n \<noteq> None) \<or>
   run_cf_task now f n = setupAndConnectCentrifugo now True n"
  by (cases f) (simp_all add: rebuild_centrifugo_def reset_centrifugo_def)

lemma cf_inv_run:
  assumes "cf_inv s" "f \<in> set (cs_ready s)"
  shows "cf_inv (cf_apply (run_cf_task now f) (s\<lparr>cs_ready := remove1 f (cs_ready s)\<rparr>))"
  using run_cf_task_cases [of now f "cs_net s"]
proof (elim disjE conjE)
  assume "run_cf_task now f (cs_net s) = setupAndConnectCentrifugo now True (cs_net s)"
  then show ?thesis by (intro cf_inv_present) (simp add: cf_apply_def)
qed (use assms in \<open>auto simp: cf_inv_def cf_apply_def\<close>)

lemma cf_inv_step:
  assumes "cf_inv s" "cf_step s s'"
  shows "cf_inv s'"
  using assms(2,1)
proof cases
  case (Restart now)
  then show ?thesis by (intro cf_inv_present) (simp add: cf_apply_def)
next
  case (Disconnect now client code)
  then show ?thesis using cf_inv_disconnected [OF assms(1)] by simp
next
  case (Connect now client)
  then show ?thesis using cf_inv_connected [OF assms(1)] by simp
next
  case (State st)
  then show ?thesis using assms(1) by (auto simp: cf_inv_def cf_apply_def set_cf_state_def)
next
  case (Fire f)
  then show ?thesis using assms(1) by (auto simp: cf_inv_def)
next
  case (Run f now)
  then show ?thesis using cf_inv_run [OF assms(1)] by simp
next
  case (Net n')
  then show ?thesis using assms(1) by (auto simp: cf_inv_def)
qed

lemma cf_reachable_inv: "cf_reachable s \<Longrightarrow> cf_inv s"
proof (induction rule: cf_reachable.induct)
  case (cf_init n)
  then show ?case by (intro cf_inv_present) simp
next
  case (cf_next s s')
  then show ?case using cf_inv_step by blast
qed

text \<open>
  C19. The device is never left without a real-time client: in every reachable state of a running
  network layer, under all interleavings of restarts, connection events and timer expiries, either
  there is a client object, or the task that builds the next one is waiting on its timer or for a
  thread. A restart that waits for the old client to disconnect always has that client.
\<close>

theorem client_always_rebuilt:
  assumes "cf_reachable s" "\<not> m_stop (cs_net s)"
  shows "(m_centrifugo (cs_net s) = None \<longrightarrow>
      cs_wait s = Some TRebuildCentrifugo \<or> TRebuildCentrifugo \<in> set (cs_ready s)) \<and>
    (m_restartCentrifugoPending (cs_net s) \<longrightarrow> m_centrifugo (cs_net s) \<noteq> None) \<and>
    m_centrifugo (rebuild_centrifugo now (cs_net s)) \<noteq> None"
  using cf_reachable_inv [OF assms(1)] assms(2) by (auto simp: cf_inv_def rebuild_centrifugo_def)

theorem client_always_rebuilt_witness:
  "\<exists>s :: jval cf_sys. cf_reachable s \<and> m_centrifugo (cs_net s) = None \<and> cs_wait s = Some TRebuildCentrifugo"
proof -
  let ?s0 = "\<lparr>cs_net = sample_net, cs_wait = None, cs_ready = []\<rparr> :: jval cf_sys"
  let ?s1 = "cf_apply (restartCentrifugo 0) ?s0"
  let ?s2 = "cf_apply (on_disconnected 0 0 0) ?s1"
  have r0: "cf_reachable ?s0" by (rule cf_init) (simp_all add: sample_net_def)
  have r2: "cf_reachable ?s2" by (rule cf_next [OF cf_next [OF r0 Restart] Disconnect])
  have none: "m_centrifugo (cs_net ?s2) = None" "\<not> m_stop (cs_net ?s2)" "cs_ready ?s2 = []"
    by (simp_all add: cf_apply_def restartCentrifugo_def sample_net_def on_disconnected_def
        isActiveCentrifugoClient_def out_def)
  with client_always_rebuilt [OF r2 none(2)] r2 show ?thesis by (intro exI [of _ ?s2]) simp
qed

text \<open>
  Retired clients are kept for the grace period: clearing them destroys only clients that retired
  at least 30 seconds before. The reset after the server closed the connection (codes 3500 to 3502)
  does not respect it: it replaces the active client, whose object is destroyed at once.
\<close>

theorem grace_period_respected_except_reset:
  "(\<forall>(retiredAt, c) \<in> set (expired_clients now n). retiredAt \<le> now - seconds 30) \<and>
   (m_centrifugo n = Some client \<longrightarrow>
      ODestroyClient (cf_id client) \<in> set (outs (reset_centrifugo now (cf_id client) n)))"
proof
  show "\<forall>(retiredAt, c) \<in> set (expired_clients now n). retiredAt \<le> now - seconds 30"
    by (auto simp: expired_clients_def CF_RETIRED_CLIENT_GRACE_PERIOD_def dest: set_takeWhileD)
  have "ODestroyClient (cf_id client) \<in> set (outs (centrifugoSetup True m))" if "m_centrifugo m = Some client" for m :: "'a Net"
    using that by (simp add: centrifugoSetup_def Let_def request_cf_token_def)
  then show "m_centrifugo n = Some client \<longrightarrow>
      ODestroyClient (cf_id client) \<in> set (outs (reset_centrifugo now (cf_id client) n))"
    by (auto simp: reset_centrifugo_def isActiveCentrifugoClient_def setupAndConnectCentrifugo_def
        centrifugoConnect_def split: option.split)
qed

theorem grace_period_respected_except_reset_witness:
  "ODestroyClient 0 \<in> set (outs (reset_centrifugo 0 0 sample_net))"
  using grace_period_respected_except_reset [of 0 sample_net "\<lparr>cf_id = 0, cf_state = Connected\<rparr>"]
  by (simp add: sample_net_def)

end
