(* ===== verification/Net_Pairing.thy ===== *)
theory Net_Pairing
  imports Net_Centrifugo
begin

text \<open>
  The device's own state in \<^verbatim>\<open>source/net.cpp\<close>: the object it reports to the server, its pairing with a
  machine, the configuration, the nonces of its NFC tag, and the commands that arrive on its control
  channels.

  The set of seen trace ids is an \<^verbatim>\<open>unordered_set\<close>: a list of distinct elements in the order of
  iteration. That order is the library's choice: \<open>place\<close>, a parameter, puts a new element into it.
  The probes of the NFC library are not modelled: whether one is present is the field
  \<open>m_isNfcCapable\<close>, and the discovery description is an output. A JSON value that is a text or an
  object converts to one: the branches for a failing conversion after such a test are not taken by
  the library.
\<close>

section \<open>Reporting to the server\<close>

definition set_member :: "string \<Rightarrow> 'j doc \<Rightarrow> 'j Net \<Rightarrow> 'j Net" where
  "set_member k v n = n\<lparr>m_scorbitronObject := AList.update k v (m_scorbitronObject n)\<rparr>"

definition initScorbitronObject :: "string \<Rightarrow> string \<Rightarrow> 'j Net \<Rightarrow> 'j Net" where
  "initScorbitronObject sdk_version lanIp n =
     (let n = n\<lparr>m_scorbitronObject := []\<rparr>;
          n = set_member JKEY_SOBJ_SDK_VERSION (DStr sdk_version) n;
          n = set_member JKEY_SOBJ_SCORBITD_VERSION (DStr (scorbitdVersion (m_deviceInfo n))) n;
          n = set_member JKEY_SOBJ_GAME_CODE_VERSION (DStr (gameCodeVersion (m_deviceInfo n))) n;
          n = set_member JKEY_SOBJ_NFC_CAPABLE (DBool (m_isNfcCapable n)) n;
          n = set_member JKEY_SOBJ_START_GAME_CAPABLE (DBool False) n;
          n = set_member JKEY_SOBJ_CREDIT_DROP_CAPABLE (DBool False) n;
          n = set_member JKEY_SOBJ_DIAG_PROBE_CAPABLE (DBool True) n
      in if lanIp \<noteq> [] then set_member JKEY_SOBJ_LAN_IP (DStr lanIp) n else n)"

abbreviation anyAuthenticated :: "AuthStatus list" where
  "anyAuthenticated \<equiv> [AuthenticatedUnpaired, AuthenticatedPaired]"

definition sendScorbitronObject :: "'j Net \<Rightarrow> 'j Net" where
  "sendScorbitronObject n =
     out [OPost Pool (THttp (createPatchRequestTask CbScorbitronObject (Endpoint URL_SCORBITRON_OBJECT [])
            ScorbitronObject (AuthenticatedCheckingPairing # anyAuthenticated)))] n"

definition requestReleaseTrackInfo :: "'j Net \<Rightarrow> 'j Net" where
  "requestReleaseTrackInfo n =
     out [OPost Pool (THttp (createGetRequestTask CbReleaseTrack ReleaseTrackUrl [] anyAuthenticated))] n"

definition requestMachineObject :: "'j Net \<Rightarrow> 'j Net" where
  "requestMachineObject n =
     out [OPost Pool (THttp (createGetRequestTask CbMachineObject (Endpoint URL_MACHINE_OBJECT []) []
            [AuthenticatedPaired]))] n"

definition getConfig :: "'j Net \<Rightarrow> 'j Net" where
  "getConfig n =
     out [OPost Pool (THttp (createGetRequestTask CbConfig (Endpoint URL_SCORBITRON_CONFIG []) []
            anyAuthenticated))] n"

definition requestFirmwaresList :: "'j Net \<Rightarrow> 'j Net" where
  "requestFirmwaresList n =
     (if provider (m_deviceInfo n) \<noteq> PROVIDER_SCORBITRON \<and> provider (m_deviceInfo n) \<noteq> PROVIDER_VSCORBITRON
      then n
      else out [OPost Strand (THttp (createGetRequestTask CbFirmwares
             (Endpoint URL_SCORBITRON_FIRMWARES_LIST []) [(''per_page'', ''100'')] [AuthenticatedPaired]))] n)"

definition HEARTBEAT_TIME :: duration where
  "HEARTBEAT_TIME = seconds 10"

definition startHeartbeatTimer :: "'j Net \<Rightarrow> 'j Net" where
  "startHeartbeatTimer n = out [OStartTimer Heartbeat HEARTBEAT_TIME THeartbeatTimer] n"

definition stopHeartbeatTimer :: "'j Net \<Rightarrow> 'j Net" where
  "stopHeartbeatTimer n = out [OStopTimer Heartbeat] n"

text \<open>The heartbeat is switched off: the function returns at once.\<close>

definition sendHeartbeat :: "'j Net \<Rightarrow> 'j Net" where
  "sendHeartbeat n = n"

definition patchScorbitron :: "'j doc \<Rightarrow> http_callback \<Rightarrow> AuthStatus list \<Rightarrow> 'j Net \<Rightarrow> 'j Net" where
  "patchScorbitron body cb allowed n =
     out [OPost Pool (THttp (createPatchRequestTask (CbPatched cb) (Endpoint URL_SCORBITRON_OBJECT [])
            (Body body) allowed))] n"

definition requestUnpair :: "callback_id \<Rightarrow> 'j Net \<Rightarrow> 'j Net" where
  "requestUnpair cb n =
     patchScorbitron (DObj [(JKEY_SCFG_SCORBITRON_MACHINE, DNull)]) (CbUnpair cb) [AuthenticatedPaired] n"

definition requestPairMachine :: "string \<Rightarrow> string \<Rightarrow> callback_id option \<Rightarrow> 'j Net \<Rightarrow> 'j Net" where
  "requestPairMachine machine owner cb n =
     patchScorbitron (DObj [(JKEY_SCFG_SCORBITRON_MACHINE, DStr machine), (JKEY_SCFG_OWNER, DStr owner)])
       (CbPairMachine cb) anyAuthenticated n"

definition has_capability :: "u32 \<Rightarrow> Capability \<Rightarrow> bool" where
  "has_capability capabilities c \<longleftrightarrow> bit capabilities (capability_bit c)"

definition setCapabilities :: "u32 \<Rightarrow> 'j Net \<Rightarrow> 'j Net" where
  "setCapabilities capabilities n =
     (let startGame = has_capability capabilities CapStartGame;
          creditDrop = has_capability capabilities CapCreditDrop;
          n = set_member JKEY_SOBJ_START_GAME_CAPABLE (DBool startGame) n;
          n = set_member JKEY_SOBJ_CREDIT_DROP_CAPABLE (DBool creditDrop) n
      in if \<not> isAuthenticated n then n
         else patchScorbitron (DObj [(JKEY_SOBJ_START_GAME_CAPABLE, DBool startGame),
                                     (JKEY_SOBJ_CREDIT_DROP_CAPABLE, DBool creditDrop)])
                CbLog anyAuthenticated n)"

definition setCreditsDropped :: "int \<Rightarrow> string \<Rightarrow> bool \<Rightarrow> 'j Net \<Rightarrow> 'j Net" where
  "setCreditsDropped credits transaction success n =
     out [OPost Pool (THttp (createPostRequestTask CbLog (Endpoint URL_SCORBITRON_CREDIT_DROP_CREATE [])
            (Body (DObj [(JKEY_CREDITS_DROPPED, DInt credits), (JKEY_CREDITS_TRANSACTION, DStr transaction),
                         (JKEY_CREDITS_SUCCESS, DBool success)])) [AuthenticatedPaired] False))] n"

definition setCreditsStatus :: "bool \<Rightarrow> int \<Rightarrow> int \<Rightarrow> 'j Net \<Rightarrow> 'j Net" where
  "setCreditsStatus freePlay credits maxCredits n =
     out [OPost Pool (TCreditsStatus freePlay credits maxCredits)] n"

definition machine_metadata :: "MachineInfo \<Rightarrow> string \<Rightarrow> (string \<times> 'j doc) list" where
  "machine_metadata mi createdAt =
     [(JKEY_SCR_MACHINE, DStr (machineUuid mi)), (JKEY_SCR_VARIANT, doc_opt (variantUuid mi)),
      (JKEY_SCR_VENUE, doc_opt (venueUuid mi)), (JKEY_SCR_CREATED_AT, DStr createdAt),
      (JKEY_SCR_UPDATED_AT, DStr createdAt)]"

definition credits_status_task :: "Clock \<Rightarrow> bool \<Rightarrow> int \<Rightarrow> int \<Rightarrow> 'j Net \<Rightarrow> 'j Net" where
  "credits_status_task c freePlay credits maxCredits n =
     (if m_stop n \<or> m_centrifugo n = None then n
      else let payload = [(JKEY_CREDITS_FREE_PLAY, DBool freePlay)];
               payload = (if \<not> freePlay then
                            let payload = payload @ [(JKEY_CREDITS_CURRENT, DInt credits)]
                            in if maxCredits > 0 then payload @ [(JKEY_CREDITS_MAX, DInt maxCredits)]
                               else payload
                          else payload)
           in out [OPublish (m_machineChannel n)
                     (DObj [(JKEY_CHN_TYPE, DStr JVAL_CURRENT_MACHINE_STATE),
                            (JKEY_CHN_PAYLOAD, DObj payload),
                            (JKEY_SCR_METADATA,
                             DObj (machine_metadata (m_machineInfo n) (to_iso8601 (c_system c))))])] n)"

section \<open>NFC nonces\<close>

definition createNfcNonces :: "'j Net \<Rightarrow> 'j Net" where
  "createNfcNonces n =
     (if \<not> m_isNfcCapable n then n
      else out [OPost Pool (THttp (createPostRequestTask CbNonces (Endpoint URL_SCORBITRON_NFC_NONCE_CREATE [])
             EmptyBody anyAuthenticated False))] n)"

definition consumeNonce :: "'j Net \<Rightarrow> string \<times> 'j Net" where
  "consumeNonce n =
     (if m_nonces n = [] then ([], createNfcNonces n)
      else let n = (if length (m_nonces n) = 10 \<or> length (m_nonces n) \<le> 5 then createNfcNonces n else n)
           in (last (m_nonces n), n\<lparr>m_nonces := butlast (m_nonces n)\<rparr>))"

definition setNfcTag :: "'j Net \<Rightarrow> string \<times> 'j Net" where
  "setNfcTag n =
     (let (nonce, n') = consumeNonce n
      in (fmt_named [(''machine_uuid'', machineUuid (m_machineInfo n)), (''nonce'', nonce)] URL_NFC_TAG, n'))"

text \<open>The reply with a batch of nonces. \<open>get_strings\<close> reads an array of texts.\<close>

fun get_strings :: "'j json_api \<Rightarrow> 'j list \<Rightarrow> string list option" where
  "get_strings J [] = Some []"
| "get_strings J (j # js) =
     (case (j_string J j, get_strings J js) of (Some s, Some ss) \<Rightarrow> Some (s # ss) | _ \<Rightarrow> None)"

definition nonces_received :: "'j json_api \<Rightarrow> Error \<Rightarrow> string \<Rightarrow> 'j Net \<Rightarrow> 'j Net" where
  "nonces_received J error reply n =
     (if error \<noteq> Success then n
      else case j_parse J reply of
             None \<Rightarrow> n
           | Some j \<Rightarrow>
               (case j_find_if J (j_is_array J) j JVAL_NONCES of
                  None \<Rightarrow> n
                | Some v \<Rightarrow>
                    (case get_strings J (j_elements J v) of
                       None \<Rightarrow> n
                     | Some nonces \<Rightarrow> snd (setNfcTag (n\<lparr>m_nonces := nonces\<rparr>)))))"

section \<open>Pairing\<close>

definition discovery_provider :: "DeviceInfo \<Rightarrow> string" where
  "discovery_provider di =
     (if provider di = PROVIDER_SCORBITRON \<or> provider di = PROVIDER_VSCORBITRON
      then ''scorbitd '' @ scorbitdVersion di else provider di @ '' '' @ gameCodeVersion di)"

definition updateDiscoveryDescription :: "'j Net \<Rightarrow> 'j Net" where
  "updateDiscoveryDescription n =
     out [ODiscovery (serialNumber (m_deviceInfo n)) (mi_title (m_machineInfo n))
            (discovery_provider (m_deviceInfo n)) (machineTitle (m_deviceInfo n))] n"

definition clearPairedMachineContext :: "'j Net \<Rightarrow> 'j Net" where
  "clearPairedMachineContext n =
     updateDiscoveryDescription
       (n\<lparr>m_machineInfo := \<lparr>opdbId = [], machineUuid = [], variantUuid = None, gameSlug = None,
                            venueUuid = None, mi_title = ''not paired''\<rparr>,
          m_machineChannel := []\<rparr>)"

definition emitPairingStatusEventIfChanged :: "bool \<Rightarrow> 'j Net \<Rightarrow> 'j Net" where
  "emitPairingStatusEventIfChanged isPaired n =
     (if m_lastEmittedPairingState n = Some isPaired then n
      else push_ev (PairingStatusChangedEvent isPaired) (n\<lparr>m_lastEmittedPairingState := Some isPaired\<rparr>))"

definition onPaired :: "time_point \<Rightarrow> 'j Net \<Rightarrow> 'j Net" where
  "onPaired now n =
     (let n = n\<lparr>m_status := AuthenticatedPaired\<rparr>;
          n = sendScorbitronObject n;
          n = requestReleaseTrackInfo n;
          n = getConfig n;
          n = requestFirmwaresList n;
          n = sendHeartbeat n;
          n = startHeartbeatTimer n;
          n = createNfcNonces n;
          n = restartCentrifugo now n
      in emitPairingStatusEventIfChanged True n)"

definition onUnpaired :: "time_point \<Rightarrow> 'j Net \<Rightarrow> 'j Net" where
  "onUnpaired now n =
     (let n = n\<lparr>m_status := AuthenticatedUnpaired\<rparr>;
          n = clearPairedMachineContext n;
          n = out [ONotifyAuth] n;
          n = emitPairingStatusEventIfChanged False n
      in restartCentrifugo now n)"

definition initializeConnectionState :: "time_point \<Rightarrow> 'j Net \<Rightarrow> 'j Net" where
  "initializeConnectionState now n =
     createNfcNonces (restartCentrifugo now (startHeartbeatTimer (sendHeartbeat
       (requestFirmwaresList (getConfig (requestReleaseTrackInfo (sendScorbitronObject n)))))))"

text \<open>The short code of the reply, and the machine it names.\<close>

definition read_shortcode :: "'j json_api \<Rightarrow> 'j \<Rightarrow> 'j Net \<Rightarrow> 'j Net" where
  "read_shortcode J json n =
     (case j_find_if J (j_is_string J) json JKEY_SOBJ_SHORTCODE of
        None \<Rightarrow> n
      | Some v \<Rightarrow>
          (case j_string J v of
             None \<Rightarrow> n
           | Some s \<Rightarrow> out [ONotifyShortCode] (n\<lparr>m_cachedShortCode := s\<rparr>)))"

definition is_paired_reply :: "'j json_api \<Rightarrow> 'j \<Rightarrow> bool" where
  "is_paired_reply J json \<longleftrightarrow>
     (case j_find J json JKEY_SOBJ_MACHINE_OBJ of None \<Rightarrow> False | Some m \<Rightarrow> j_is_object J m)"

definition read_machine :: "'j json_api \<Rightarrow> 'j \<Rightarrow> 'j Net \<Rightarrow> 'j Net" where
  "read_machine J json n =
     (case j_find_if J (j_is_object J) json JKEY_SOBJ_MACHINE_OBJ of
        None \<Rightarrow> n
      | Some m \<Rightarrow>
          (case Option.bind (j_find_if J (j_is_string J) m JKEY_SOBJ_MACHINE_UUID) (j_string J) of
             None \<Rightarrow> n
           | Some uuid \<Rightarrow>
               requestCreditsStatusIfReady
                 (n\<lparr>m_machineInfo := (m_machineInfo n)\<lparr>machineUuid := uuid\<rparr>,
                    m_machineChannel := ''machine:'' @ uuid\<rparr>)))"

definition read_release_track :: "'j json_api \<Rightarrow> 'j \<Rightarrow> 'j Net \<Rightarrow> 'j Net" where
  "read_release_track J json n =
     (case j_find_if J (j_is_object J) json JKEY_SOBJ_RELEASE_TRACK of
        None \<Rightarrow> n
      | Some t \<Rightarrow>
          (case Option.bind (j_find_if J (j_is_string J) t JKEY_SOBJ_RELEASE_URL) (j_string J) of
             None \<Rightarrow> n | Some url \<Rightarrow> n\<lparr>m_releaseTrackUrl := url\<rparr>))"

definition parseScorbitronObject :: "'j json_api \<Rightarrow> Error \<Rightarrow> string \<Rightarrow> 'j Net \<Rightarrow> 'j Net" where
  "parseScorbitronObject J error reply n =
     (if error \<noteq> Success then n
      else case j_parse J reply of
             None \<Rightarrow> n
           | Some json \<Rightarrow>
               let n = read_shortcode J json n;
                   isPaired = is_paired_reply J json;
                   n = read_machine J json n;
                   status = (if isPaired then AuthenticatedPaired else AuthenticatedUnpaired);
                   n = (if isPaired then requestMachineObject n else clearPairedMachineContext n);
                   n = read_release_track J json n;
                   n = push_ev (ConfigReceivedEvent json) n
               in if m_status n \<noteq> status then
                    emitPairingStatusEventIfChanged isPaired (out [ONotifyAuth] (n\<lparr>m_status := status\<rparr>))
                  else n)"

section \<open>Configuration and machine\<close>

definition read_config_ids :: "'j json_api \<Rightarrow> 'j \<Rightarrow> 'j Net \<Rightarrow> 'j Net" where
  "read_config_ids J json n =
     (let str = (\<lambda>j k. Option.bind (j_find_if J (j_is_string J) j k) (j_string J));
          mi = m_machineInfo n;
          mi = (case str json JKEY_SCFG_VARIANT_ID of None \<Rightarrow> mi | Some v \<Rightarrow> mi\<lparr>variantUuid := Some v\<rparr>);
          mi = (case str json JKEY_SCFG_VENUE_ID of None \<Rightarrow> mi | Some v \<Rightarrow> mi\<lparr>venueUuid := Some v\<rparr>);
          cfg = j_find_if J (j_is_object J) json JKEY_SCFG_CONFIG;
          mi = (case Option.bind cfg (\<lambda>c. str c JKEY_SCFG_OPDB_ID) of None \<Rightarrow> mi | Some v \<Rightarrow> mi\<lparr>opdbId := v\<rparr>);
          di = m_deviceInfo n;
          di = (case Option.bind cfg (\<lambda>c. Option.bind (j_find_if J (j_is_integer J) c JKEY_SCFG_MACHINE_ID) (j_int J))
                of None \<Rightarrow> di | Some v \<Rightarrow> di\<lparr>machineId := v\<rparr>)
      in n\<lparr>m_machineInfo := mi, m_deviceInfo := di\<rparr>)"

definition config_received :: "'j json_api \<Rightarrow> Error \<Rightarrow> string \<Rightarrow> 'j Net \<Rightarrow> 'j Net" where
  "config_received J error reply n =
     (if error \<noteq> Success then n
      else case j_parse J reply of
             None \<Rightarrow> n
           | Some json \<Rightarrow>
               let n = push_ev (ConfigReceivedEvent json) (read_config_ids J json n)
               in case j_find_if J (j_is_object J) json JKEY_SCFG_PRICING of
                    None \<Rightarrow> n
                  | Some pricing \<Rightarrow>
                      (case PricingReceivedEvent_new J pricing of
                         Ret p \<Rightarrow> push_ev (PricingReceivedEvent p) n
                       | _ \<Rightarrow> n))"

definition machine_object_received :: "'j json_api \<Rightarrow> Error \<Rightarrow> string \<Rightarrow> 'j Net \<Rightarrow> 'j Net" where
  "machine_object_received J error reply n =
     (if error \<noteq> Success then n
      else case j_parse J reply of
             None \<Rightarrow> n
           | Some j \<Rightarrow>
               (case (j_value J (j_string J) j JKEY_MOBJ_NAME [], j_value J (j_string J) j JKEY_MOBJ_EDITION []) of
                  (Ret name, Ret edition) \<Rightarrow>
                    let slug = Option.bind (j_find_if J (j_is_object J) j JKEY_MOBJ_GAME)
                                 (\<lambda>g. Option.bind (j_find_if J (j_is_string J) g JKEY_MOBJ_SLUG) (j_string J))
                    in updateDiscoveryDescription
                         (n\<lparr>m_machineInfo := (m_machineInfo n)\<lparr>gameSlug := slug,
                              mi_title := name @ '' ('' @ edition @ '')''\<rparr>\<rparr>)
                | _ \<Rightarrow> n))"

definition firmwares_received :: "Error \<Rightarrow> string \<Rightarrow> 'j Net \<Rightarrow> 'j Net" where
  "firmwares_received error reply n =
     (if error = Success then push_ev (FirmwaresListReceivedEvent reply) n else n)"

text \<open>The replies to the application's own requests.\<close>

definition unpair_replied :: "callback_id \<Rightarrow> Error \<Rightarrow> string \<Rightarrow> 'j Net \<Rightarrow> 'j Net" where
  "unpair_replied cb error reply n =
     (if error = Success \<or> error = NotPaired
      then out [OCallback cb Success reply] (n\<lparr>m_status := AuthenticatedUnpaired\<rparr>)
      else out [OCallback cb error reply] n)"

definition pair_machine_replied ::
  "time_point \<Rightarrow> callback_id option \<Rightarrow> Error \<Rightarrow> string \<Rightarrow> 'j Net \<Rightarrow> 'j Net" where
  "pair_machine_replied now cb error reply n =
     (let n = (if error = Success then initializeConnectionState now n else n)
      in case cb of None \<Rightarrow> n | Some c \<Rightarrow> out [OCallback c error reply] n)"

definition requestPairCode :: "callback_id \<Rightarrow> 'j Net \<Rightarrow> 'j Net" where
  "requestPairCode cb n =
     (if m_cachedShortCode n \<noteq> [] then out [OCallback cb Success (m_cachedShortCode n)] n
      else out [OPost Strand (TPairCode cb)] n)"

text \<open>The waiting task, run once its condition holds; before that it has no result.\<close>

definition pair_code_task :: "callback_id \<Rightarrow> 'j Net \<Rightarrow> 'j Net option" where
  "pair_code_task cb n =
     (if \<not> (m_cachedShortCode n \<noteq> [] \<or> m_stop n) then None
      else if m_stop n then Some (out [OCallback cb ApiError []] n)
      else if m_cachedShortCode n \<noteq> [] then Some (out [OCallback cb Success (m_cachedShortCode n)] n)
      else Some (out [OCallback cb ApiError []] n))"

section \<open>Diagnostic probes\<close>

definition publishDiagnosticPacket :: "string \<Rightarrow> u64 \<Rightarrow> string \<Rightarrow> 'j Net \<Rightarrow> 'j Net" where
  "publishDiagnosticPacket traceId sequence createdAt n =
     out [OPost Pool (TDiagnosticPacket traceId sequence createdAt)] n"

definition diagnostic_packet_task :: "string \<Rightarrow> u64 \<Rightarrow> string \<Rightarrow> 'j Net \<Rightarrow> 'j Net" where
  "diagnostic_packet_task traceId sequence createdAt n =
     (if m_stop n \<or> m_centrifugo n = None then n
      else if m_machineChannel n = [] then n
      else out [OPublish (m_machineChannel n)
             (DObj [(JKEY_CHN_TYPE, DStr JVAL_CHN_TYPE_DIAG_PROBE),
                    (JKEY_CHN_PAYLOAD, DObj [(JKEY_DIAG_TRACE_ID, DStr traceId)]),
                    (JKEY_SCR_METADATA,
                     DObj [(JKEY_SCR_MACHINE, DStr (machineUuid (m_machineInfo n))),
                           (JKEY_SCR_VARIANT, doc_opt (variantUuid (m_machineInfo n))),
                           (JKEY_SCR_VENUE, doc_opt (venueUuid (m_machineInfo n))),
                           (JKEY_SCR_SEQUENCE, DInt (uint sequence)),
                           (JKEY_SCR_CREATED_AT, DStr createdAt), (JKEY_SCR_UPDATED_AT, DStr createdAt)])])] n)"

definition postDiagnosticAck :: "string \<Rightarrow> u64 \<Rightarrow> string \<Rightarrow> 'j Net \<Rightarrow> 'j Net" where
  "postDiagnosticAck traceId sequence createdAt n =
     out [OPost Pool (THttp (createPostRequestTask CbLog (Endpoint URL_DIAGNOSTICS_ACK_PATH [])
            (Body (DObj [(JKEY_DIAG_TRACE_ID, DStr traceId), (JKEY_DIAG_HOP, DStr JVAL_DIAG_HOP_DEVICE_EGRESS),
                         (JKEY_DIAG_TS, DStr createdAt),
                         (JKEY_DIAG_PAYLOAD, DObj [(JKEY_DIAG_SEQUENCE, DInt (uint sequence))])]))
            [AuthenticatedPaired] False))] n"

definition remember_trace :: "(string \<Rightarrow> string list \<Rightarrow> string list) \<Rightarrow> string \<Rightarrow> string list \<Rightarrow> string list" where
  "remember_trace place traceId seen =
     (let seen = place traceId seen
      in if length seen > 10 then drop (length seen div 2) seen else seen)"

definition handleDiagnosticProbe ::
  "'j json_api \<Rightarrow> (string \<Rightarrow> string list \<Rightarrow> string list) \<Rightarrow> Clock \<Rightarrow> 'j \<Rightarrow> 'j Net \<Rightarrow> 'j Net" where
  "handleDiagnosticProbe J place c payload n =
     (case j_value J (j_string J) payload JKEY_DIAG_TRACE_ID [] of
        Ret traceId \<Rightarrow>
          if traceId = [] then n
          else if traceId \<in> set (m_seenDiagTraceIds n) then n
          else let n = n\<lparr>m_seenDiagTraceIds := remember_trace place traceId (m_seenDiagTraceIds n)\<rparr>;
                   sequence = m_diagProbeSequence n;
                   n = n\<lparr>m_diagProbeSequence := sequence + 1\<rparr>;
                   createdAt = to_iso8601 (c_system c)
               in postDiagnosticAck traceId sequence createdAt
                    (publishDiagnosticPacket traceId sequence createdAt n)
      | _ \<Rightarrow> n)"

section \<open>Commands on the control channels\<close>

definition machine_action :: "'j json_api \<Rightarrow> 'j \<Rightarrow> 'j Net \<Rightarrow> 'j Net" where
  "machine_action J payload n =
     (case (j_value J (j_string J) payload JKEY_METHOD [], j_value J (j_string J) payload JKEY_ACTION_NAME []) of
        (Ret meth, Ret name) \<Rightarrow>
          if meth = JVAL_METHOD_GET then
            if name = JVAL_ACITON_GET_SCORBITRON_SESSION then
              (case j_value J (j_string J) payload JKEY_URL [] of
                 Ret url \<Rightarrow> requestSessionData (parseUrlUuid URL_SESSIONS_ID url) n
               | _ \<Rightarrow> n)
            else n
          else if meth = JVAL_METHOD_MSG then requestCreditsStatusEvent n
          else n
      | _ \<Rightarrow> n)"

definition control_machine ::
  "'j json_api \<Rightarrow> (string \<Rightarrow> string list \<Rightarrow> string list) \<Rightarrow> Clock \<Rightarrow> string \<Rightarrow> 'j \<Rightarrow> 'j Net \<Rightarrow> 'j Net" where
  "control_machine J place c type payload n =
     (if type = JVAL_CHN_TYPE_START_GAME then
        (case j_value J (j_int J) payload JKEY_SESS_PLAYER_COUNT 1 of
           Ret playerCount \<Rightarrow>
             push_ev (GameStartRequestedEvent playerCount) (n\<lparr>m_numberOfPlayersRequested := playerCount\<rparr>)
         | _ \<Rightarrow> n)
      else if type = JVAL_TYPE_ACTION then machine_action J payload n
      else if type = JVAL_CHN_TYPE_ADD_CREDITS then
        (case (j_value J (j_int J) payload JKEY_CREDITS_COUNT 1,
               j_value J (j_string J) payload JKEY_CREDITS_TRANSACTION []) of
           (Ret credits, Ret transaction) \<Rightarrow> push_ev (CreditsAddRequestedEvent credits transaction) n
         | _ \<Rightarrow> n)
      else if type = JVAL_CHN_TYPE_DIAG_PROBE then handleDiagnosticProbe J place c payload n
      else n)"

definition control_scorbitron :: "'j json_api \<Rightarrow> Clock \<Rightarrow> string \<Rightarrow> 'j \<Rightarrow> 'j Net \<Rightarrow> 'j Net" where
  "control_scorbitron J c type payload n =
     (if type = JVAL_TYPE_ACTION then
        (case (j_value J (j_string J) payload JKEY_METHOD [], j_value J (j_string J) payload JKEY_ACTION_NAME []) of
           (Ret meth, Ret name) \<Rightarrow>
             if meth = JVAL_METHOD_SIGNAL \<and> name = JVAL_ACTION_UPLOAD_DIAGNOSTICS
             then push_ev (DiagnosticsUploadRequestedEvent False) n
             else if meth = JVAL_METHOD_SIGNAL \<and> name = JVAL_ACTION_SCORBITRON_PAIRED
             then onPaired (c_steady c) n
             else if meth = JVAL_METHOD_SIGNAL \<and> name = JVAL_ACTION_SCORBITRON_UNPAIRED
             then onUnpaired (c_steady c) n
             else if meth = JVAL_METHOD_GET \<and> name = JVAL_ACTION_CONFIG_REFRESH
             then getConfig n
             else n
         | _ \<Rightarrow> n)
      else n)"

definition onPublication ::
  "'j json_api \<Rightarrow> (string \<Rightarrow> string list \<Rightarrow> string list) \<Rightarrow> Clock \<Rightarrow> nat \<Rightarrow> string \<Rightarrow> 'j \<Rightarrow> 'j Net \<Rightarrow> 'j Net" where
  "onPublication J place c client channel j n =
     (if \<not> isActiveCentrifugoClient client n then n
      else if m_stop n then n
      else if starts_with channel CF_CHN_CONTROL_MACHINE then
        (case j_find_if J (j_is_object J) j JKEY_CHN_PAYLOAD of
           None \<Rightarrow> n
         | Some payload \<Rightarrow>
             (case j_value J (j_string J) j JKEY_CHN_TYPE [] of
                Ret type \<Rightarrow> control_machine J place c type payload n
              | _ \<Rightarrow> n))
      else if starts_with channel CF_CHN_CONTROL_SCORBITRON then
        (case j_find_if J (j_is_object J) j JKEY_CHN_PAYLOAD of
           None \<Rightarrow> n
         | Some payload \<Rightarrow>
             (case j_value J (j_string J) j JKEY_CHN_TYPE [] of
                Ret type \<Rightarrow> control_scorbitron J c type payload n
              | _ \<Rightarrow> n))
      else n)"

end
