(* ===== verification/Net_Pairing_Props.thy ===== *)
theory Net_Pairing_Props
  imports Net_Pairing
begin

text \<open>
  What the network layer guarantees about pairing, about the nonces of the NFC tag and about
  duplicate diagnostic probes.
\<close>

section \<open>Pairing events\<close>

fun pairing_log :: "'j event_body list \<Rightarrow> bool list" where
  "pairing_log [] = []"
| "pairing_log (PairingStatusChangedEvent b # es) = b # pairing_log es"
| "pairing_log (_ # es) = pairing_log es"

lemma pairing_log_append [simp]: "pairing_log (xs @ ys) = pairing_log xs @ pairing_log ys"
  by (induction xs rule: pairing_log.induct) simp_all

text \<open>What an operation that says nothing about pairing leaves alone.\<close>

definition pairing_frame :: "'j Net \<Rightarrow> 'j Net \<Rightarrow> bool" where
  "pairing_frame n n' \<longleftrightarrow>
     pairing_log (pushed n') = pairing_log (pushed n) \<and>
     m_lastEmittedPairingState n' = m_lastEmittedPairingState n"

lemma pairing_frame_refl [simp]: "pairing_frame n n"
  by (simp add: pairing_frame_def)

lemma pairing_frame_trans: "pairing_frame a b \<Longrightarrow> pairing_frame b c \<Longrightarrow> pairing_frame a c"
  by (simp add: pairing_frame_def)

lemma pairing_frame_out [simp]: "pairing_frame n (out os m) \<longleftrightarrow> pairing_frame n m"
  by (simp add: pairing_frame_def)

lemma pairing_frame_push [simp]:
  "pairing_log [e] = [] \<Longrightarrow> pairing_frame n (push_ev e m) \<longleftrightarrow> pairing_frame n m"
  by (simp add: pairing_frame_def)

lemma frame_requests [simp]:
  "pairing_frame n (sendScorbitronObject m) = pairing_frame n m"
  "pairing_frame n (requestReleaseTrackInfo m) = pairing_frame n m"
  "pairing_frame n (requestMachineObject m) = pairing_frame n m"
  "pairing_frame n (getConfig m) = pairing_frame n m"
  "pairing_frame n (requestFirmwaresList m) = pairing_frame n m"
  "pairing_frame n (startHeartbeatTimer m) = pairing_frame n m"
  "pairing_frame n (sendHeartbeat m) = pairing_frame n m"
  "pairing_frame n (createNfcNonces m) = pairing_frame n m"
  by (simp_all add: sendScorbitronObject_def requestReleaseTrackInfo_def requestMachineObject_def getConfig_def
      requestFirmwaresList_def startHeartbeatTimer_def sendHeartbeat_def createNfcNonces_def)

lemma frame_client [simp]:
  "pairing_frame n (pruneRetiredCentrifugoClients now m) = pairing_frame n m"
  "pairing_frame n (retireCentrifugoClient now m) = pairing_frame n m"
  "pairing_frame n (setupAndConnectCentrifugo now b m) = pairing_frame n m"
  by (simp_all add: pairing_frame_def pruneRetiredCentrifugoClients_def retireCentrifugoClient_def
      setupAndConnectCentrifugo_def centrifugoConnect_def centrifugoSetup_def request_cf_token_def
      Let_def out_def split: option.split)

lemma frame_restart [simp]: "pairing_frame n (restartCentrifugo now m) = pairing_frame n m"
  by (simp add: restartCentrifugo_def Let_def split: option.split)
    (simp add: pairing_frame_def out_def)

lemma frame_reading [simp]:
  "pairing_frame n (read_shortcode J json m) = pairing_frame n m"
  "pairing_frame n (read_machine J json m) = pairing_frame n m"
  "pairing_frame n (read_release_track J json m) = pairing_frame n m"
  "pairing_frame n (clearPairedMachineContext m) = pairing_frame n m"
  by (simp_all add: read_shortcode_def read_machine_def read_release_track_def clearPairedMachineContext_def
      updateDiscoveryDescription_def requestCreditsStatusIfReady_def requestCreditsStatusEvent_def
      split: option.split)
    (simp_all add: pairing_frame_def)

lemma frame_status [simp]: "pairing_frame n (m\<lparr>m_status := st\<rparr>) = pairing_frame n m"
  by (simp add: pairing_frame_def)

definition pairing_inv :: "'j Net \<Rightarrow> bool" where
  "pairing_inv n \<longleftrightarrow>
     (\<forall>i. Suc i < length (pairing_log (pushed n)) \<longrightarrow>
        pairing_log (pushed n) ! i \<noteq> pairing_log (pushed n) ! Suc i) \<and>
     (pairing_log (pushed n) \<noteq> [] \<longrightarrow> m_lastEmittedPairingState n = Some (last (pairing_log (pushed n))))"

lemma pairing_inv_frame: "pairing_inv n \<Longrightarrow> pairing_frame n n' \<Longrightarrow> pairing_inv n'"
  by (simp add: pairing_inv_def pairing_frame_def)

lemma pairing_inv_emit:
  assumes "pairing_inv n"
  shows "pairing_inv (emitPairingStatusEventIfChanged b n)"
proof (cases "m_lastEmittedPairingState n = Some b")
  case False
  let ?l = "pairing_log (pushed n)"
  have last: "?l \<noteq> [] \<Longrightarrow> last ?l \<noteq> b" using assms False by (auto simp: pairing_inv_def)
  have alt: "\<And>i. Suc i < length ?l \<Longrightarrow> ?l ! i \<noteq> ?l ! Suc i" using assms by (simp add: pairing_inv_def)
  have "(?l @ [b]) ! i \<noteq> (?l @ [b]) ! Suc i" if "Suc i < length (?l @ [b])" for i
  proof (cases "Suc i < length ?l")
    case True
    with alt [OF True] show ?thesis by (simp add: nth_append)
  next
    case False
    with that have i: "Suc i = length ?l" by simp
    then have ne: "?l \<noteq> []" and "i = length ?l - 1" by auto
    then have "?l ! i = last ?l" by (simp add: last_conv_nth)
    with last [OF ne] i show ?thesis by (simp add: nth_append)
  qed
  then show ?thesis using False
    by (simp add: pairing_inv_def emitPairingStatusEventIfChanged_def push_ev_def)
qed (use assms in \<open>simp add: emitPairingStatusEventIfChanged_def\<close>)

lemma pairing_inv_emit_frame:
  "pairing_inv n \<Longrightarrow> pairing_frame n m \<Longrightarrow> pairing_inv (emitPairingStatusEventIfChanged b m)"
  by (rule pairing_inv_emit) (rule pairing_inv_frame)

lemma pairing_inv_parse:
  assumes "pairing_inv n"
  shows "pairing_inv (parseScorbitronObject J err reply n)"
proof (cases "err = Success")
  case True
  show ?thesis
  proof (cases "j_parse J reply")
    case (Some json)
    let ?p = "is_paired_reply J json"
    let ?m = "push_ev (ConfigReceivedEvent json) (read_release_track J json
      (if ?p then requestMachineObject (read_machine J json (read_shortcode J json n))
       else clearPairedMachineContext (read_machine J json (read_shortcode J json n))))"
    have f: "pairing_frame n ?m" by simp
    have "pairing_inv (emitPairingStatusEventIfChanged ?p (out [ONotifyAuth] (?m\<lparr>m_status := st\<rparr>)))" for st
      using assms by (rule pairing_inv_emit_frame) simp
    with pairing_inv_frame [OF assms f] True Some show ?thesis
      by (simp add: parseScorbitronObject_def Let_def)
  qed (use assms True in \<open>simp add: parseScorbitronObject_def\<close>)
qed (use assms in \<open>simp add: parseScorbitronObject_def\<close>)

lemma pairing_inv_onPaired: "pairing_inv n \<Longrightarrow> pairing_inv (onPaired now n)"
  unfolding onPaired_def Let_def by (erule pairing_inv_emit_frame) simp

lemma pairing_inv_onUnpaired:
  assumes "pairing_inv n"
  shows "pairing_inv (onUnpaired now n)"
proof -
  let ?m = "out [ONotifyAuth] (clearPairedMachineContext (n\<lparr>m_status := AuthenticatedUnpaired\<rparr>))"
  have "pairing_inv (emitPairingStatusEventIfChanged False ?m)"
    using assms by (rule pairing_inv_emit_frame) simp
  then show ?thesis unfolding onUnpaired_def Let_def by (rule pairing_inv_frame) simp
qed

lemma frame_session_request [simp]:
  "pairing_frame n (requestSessionData u m) = pairing_frame n m"
  by (simp add: requestSessionData_def Let_def)

lemma frame_commands [simp]:
  "pairing_frame n (machine_action J payload n)"
  "pairing_frame n (control_machine J place c type payload n)"
proof -
  show a: "pairing_frame n (machine_action J payload n)"
    by (auto simp: machine_action_def requestCreditsStatusEvent_def split: res.splits)
  show "pairing_frame n (control_machine J place c type payload n)"
    using a by (auto simp: control_machine_def handleDiagnosticProbe_def postDiagnosticAck_def
        publishDiagnosticPacket_def Let_def pairing_frame_def split: res.splits)
qed

lemma pairing_inv_publication:
  assumes "pairing_inv n"
  shows "pairing_inv (onPublication J place c client channel j n)"
proof -
  have "pairing_inv (control_machine J place c ty p n)" for ty p
    using assms by (rule pairing_inv_frame) simp
  moreover have "pairing_inv (push_ev (DiagnosticsUploadRequestedEvent False) n)"
    using assms by (rule pairing_inv_frame) simp
  moreover have "pairing_inv (getConfig n)"
    using assms by (rule pairing_inv_frame) simp
  ultimately have "pairing_inv (control_machine J place c ty p n)" "pairing_inv (control_scorbitron J c ty p n)"
    for ty p
    using assms by (simp_all add: control_scorbitron_def pairing_inv_onPaired pairing_inv_onUnpaired
        split: res.split)
  then show ?thesis
    using assms by (simp add: onPublication_def split: option.split res.split)
qed

lemma frame_ids [simp]: "pairing_frame n (read_config_ids J json m) = pairing_frame n m"
  by (simp add: read_config_ids_def Let_def pairing_frame_def)

lemma frame_info [simp]: "pairing_frame n (m\<lparr>m_machineInfo := mi\<rparr>) = pairing_frame n m"
  by (simp add: pairing_frame_def)

lemma frame_initialize [simp]: "pairing_frame n (initializeConnectionState now m) = pairing_frame n m"
  by (simp add: initializeConnectionState_def)

lemma frame_replies [simp]:
  shows frame_config: "pairing_frame n (config_received J err reply n)"
    and frame_machine: "pairing_frame n (machine_object_received J err reply n)"
    and frame_unpair: "pairing_frame n (unpair_replied cb err reply n)"
    and frame_pair: "pairing_frame n (pair_machine_replied now mcb err reply n)"
proof -
  show "pairing_frame n (config_received J err reply n)"
    by (simp add: config_received_def Let_def split: option.split res.split)
  show "pairing_frame n (machine_object_received J err reply n)"
    by (simp add: machine_object_received_def updateDiscoveryDescription_def Let_def
        split: option.split res.split)
  show "pairing_frame n (unpair_replied cb err reply n)" by (simp add: unpair_replied_def)
  show "pairing_frame n (pair_machine_replied now mcb err reply n)"
    by (simp add: pair_machine_replied_def Let_def split: option.split)
qed

lemma frame_nonces [simp]: "pairing_frame n (nonces_received J err reply n)"
  by (auto simp: nonces_received_def setNfcTag_def consumeNonce_def Let_def split: option.split)
    (auto simp: pairing_frame_def createNfcNonces_def)

text \<open>A run between two authentications: messages of the control channels and replies, in any order.\<close>

inductive pairing_run ::
  "'j json_api \<Rightarrow> (string \<Rightarrow> string list \<Rightarrow> string list) \<Rightarrow> 'j Net \<Rightarrow> bool" for J place where
  pr_init: "pushed n = [] \<Longrightarrow> pairing_run J place n"
| pr_publication: "pairing_run J place n \<Longrightarrow>
    pairing_run J place (onPublication J place c client channel j n)"
| pr_scorbitron: "pairing_run J place n \<Longrightarrow> pairing_run J place (parseScorbitronObject J err reply n)"
| pr_config: "pairing_run J place n \<Longrightarrow> pairing_run J place (config_received J err reply n)"
| pr_machine: "pairing_run J place n \<Longrightarrow> pairing_run J place (machine_object_received J err reply n)"
| pr_nonces: "pairing_run J place n \<Longrightarrow> pairing_run J place (nonces_received J err reply n)"
| pr_unpair: "pairing_run J place n \<Longrightarrow> pairing_run J place (unpair_replied cb err reply n)"
| pr_pair: "pairing_run J place n \<Longrightarrow> pairing_run J place (pair_machine_replied now mcb err reply n)"

lemma pairing_run_inv: "pairing_run J place n \<Longrightarrow> pairing_inv n"
proof (induction rule: pairing_run.induct)
  case (pr_init n)
  then show ?case by (simp add: pairing_inv_def)
qed (simp_all add: pairing_inv_parse pairing_inv_publication pairing_inv_frame [OF _ frame_nonces]
    pairing_inv_frame [OF _ frame_config] pairing_inv_frame [OF _ frame_machine]
    pairing_inv_frame [OF _ frame_unpair] pairing_inv_frame [OF _ frame_pair])

text \<open>
  C20. The application hears of pairing only when it changes: in any run of control messages and
  server replies between two authentications, two consecutive pairing events never say the same.
\<close>

theorem pairing_events_alternate:
  assumes "pairing_run J place n" "Suc i < length (pairing_log (pushed n))"
  shows "pairing_log (pushed n) ! i \<noteq> pairing_log (pushed n) ! Suc i"
  using pairing_run_inv [OF assms(1)] assms(2) by (simp add: pairing_inv_def)

definition paired_message :: jval where
  "paired_message = JObj [(JKEY_CHN_TYPE, JStr JVAL_TYPE_ACTION),
     (JKEY_CHN_PAYLOAD, JObj [(JKEY_METHOD, JStr JVAL_METHOD_SIGNAL),
                              (JKEY_ACTION_NAME, JStr JVAL_ACTION_SCORBITRON_PAIRED)])]"

lemma sample_parse:
  "pairing_log (pushed (parseScorbitronObject sample_json Success ''reply'' sample_net)) = [False]"
  "m_lastEmittedPairingState (parseScorbitronObject sample_json Success ''reply'' sample_net) = Some False"
  "m_centrifugo (parseScorbitronObject sample_json Success ''reply'' sample_net) = m_centrifugo sample_net"
  "\<not> m_stop (parseScorbitronObject sample_json Success ''reply'' sample_net)"
  by code_simp+

lemma paired_message_handled:
  assumes "isActiveCentrifugoClient 0 n" "\<not> m_stop n"
  shows "onPublication sample_json (#) sample_clock 0 CF_CHN_CONTROL_SCORBITRON paired_message n = onPaired 0 n"
  using assms by (simp add: onPublication_def paired_message_def starts_with_def j_find_if_def j_value_def
      sample_json_def jval_api_def jval_get_def control_scorbitron_def sample_clock_def)

theorem pairing_events_alternate_witness:
  "\<exists>n. pairing_run sample_json (#) n \<and> pairing_log (pushed n) = [False, True] \<and>
     pairing_log (pushed n) ! 0 \<noteq> pairing_log (pushed n) ! Suc 0"
proof -
  let ?n1 = "parseScorbitronObject sample_json Success ''reply'' sample_net"
  let ?n2 = "onPublication sample_json (#) sample_clock 0 CF_CHN_CONTROL_SCORBITRON paired_message ?n1"
  have "pairing_run sample_json (#) sample_net" by (rule pr_init) (simp add: sample_net_def)
  then have r: "pairing_run sample_json (#) ?n2" by (intro pr_publication pr_scorbitron)
  have "isActiveCentrifugoClient 0 ?n1"
    by (simp add: isActiveCentrifugoClient_def sample_parse(3)) (simp add: sample_net_def)
  then have n2: "?n2 = onPaired 0 ?n1" using paired_message_handled sample_parse(4) by blast
  have "pairing_frame ?n1 (restartCentrifugo 0 (createNfcNonces (startHeartbeatTimer (sendHeartbeat
      (requestFirmwaresList (getConfig (requestReleaseTrackInfo (sendScorbitronObject
        (?n1\<lparr>m_status := AuthenticatedPaired\<rparr>)))))))))" by simp
  then have l: "pairing_log (pushed ?n2) = [False, True]"
    unfolding n2 using sample_parse(1,2)
    by (simp add: onPaired_def Let_def emitPairingStatusEventIfChanged_def push_ev_def pairing_frame_def)
  with pairing_events_alternate [OF r, of 0] r show ?thesis by (intro exI [of _ ?n2]) simp
qed

section \<open>What a reply about the device means\<close>

definition machine_uuid_of :: "'j json_api \<Rightarrow> 'j \<Rightarrow> string option" where
  "machine_uuid_of J json =
     Option.bind (j_find_if J (j_is_object J) json JKEY_SOBJ_MACHINE_OBJ)
       (\<lambda>m. Option.bind (j_find_if J (j_is_string J) m JKEY_SOBJ_MACHINE_UUID) (j_string J))"

text \<open>
  The server's object for the device decides its pairing: after a reply that parses, the device is
  paired exactly if the reply has a machine object; a machine's identifier becomes the current one and
  names its channel; without a machine the old machine's identity and channel are forgotten. A
  pairing event is pushed exactly if the status changes and the last event did not already say so.
\<close>

theorem parse_sets_pairing:
  assumes "j_parse J reply = Some json"
  shows "let n' = parseScorbitronObject J Success reply n; p = is_paired_reply J json;
             st = (if p then AuthenticatedPaired else AuthenticatedUnpaired)
         in m_status n' = st \<and>
            (case machine_uuid_of J json of
               Some u \<Rightarrow> p \<and> machineUuid (m_machineInfo n') = u \<and> m_machineChannel n' = ''machine:'' @ u
             | None \<Rightarrow> (if p then machineUuid (m_machineInfo n') = machineUuid (m_machineInfo n) \<and>
                                m_machineChannel n' = m_machineChannel n
                       else machineUuid (m_machineInfo n') = [] \<and> m_machineChannel n' = [])) \<and>
            pairing_log (pushed n') = pairing_log (pushed n) @
              (if m_status n \<noteq> st \<and> m_lastEmittedPairingState n \<noteq> Some p then [p] else [])"
proof -
  let ?p = "is_paired_reply J json"
  let ?s = "read_shortcode J json n"
  let ?r = "read_machine J json ?s"
  let ?c = "if ?p then requestMachineObject ?r else clearPairedMachineContext ?r"
  let ?t = "push_ev (ConfigReceivedEvent json) (read_release_track J json ?c)"
  have f: "pairing_frame n ?t" by simp
  have s: "m_machineInfo ?s = m_machineInfo n" "m_machineChannel ?s = m_machineChannel n" "m_status ?s = m_status n"
    by (simp_all add: read_shortcode_def split: option.split)
  have r: "machineUuid (m_machineInfo ?r) = (case machine_uuid_of J json of Some u \<Rightarrow> u
        | None \<Rightarrow> machineUuid (m_machineInfo n))"
    "m_machineChannel ?r = (case machine_uuid_of J json of Some u \<Rightarrow> ''machine:'' @ u
        | None \<Rightarrow> m_machineChannel n)"
    "m_status ?r = m_status n"
    by (simp_all add: read_machine_def machine_uuid_of_def s requestCreditsStatusIfReady_def
        requestCreditsStatusEvent_def push_ev_def split: option.split)
  have t: "m_machineInfo ?t = m_machineInfo ?c" "m_machineChannel ?t = m_machineChannel ?c" "m_status ?t = m_status ?c"
    by (simp_all add: read_release_track_def push_ev_def split: option.split)
  have c: "m_status ?c = m_status n"
    "machineUuid (m_machineInfo ?c) = (if ?p then machineUuid (m_machineInfo ?r) else [])"
    "m_machineChannel ?c = (if ?p then m_machineChannel ?r else [])"
    by (simp_all add: push_ev_def r(3) requestMachineObject_def clearPairedMachineContext_def updateDiscoveryDescription_def)
  have p: "machine_uuid_of J json = Some u \<Longrightarrow> ?p" for u
    by (auto simp: machine_uuid_of_def is_paired_reply_def j_find_if_def bind_eq_Some_conv
        split: option.splits if_splits)
  define u where "u = ?t"
  have eq: "parseScorbitronObject J Success reply n =
      (let st = (if ?p then AuthenticatedPaired else AuthenticatedUnpaired)
       in if m_status u \<noteq> st then emitPairingStatusEventIfChanged ?p (out [ONotifyAuth] (u\<lparr>m_status := st\<rparr>)) else u)"
    using assms by (simp add: parseScorbitronObject_def Let_def u_def)
  have u: "m_status u = m_status n"
    "machineUuid (m_machineInfo u) = (if ?p then machineUuid (m_machineInfo ?r) else [])"
    "m_machineChannel u = (if ?p then m_machineChannel ?r else [])"
    using t c unfolding u_def by simp_all
  note fu = f [folded u_def, unfolded pairing_frame_def]
  show ?thesis
    unfolding eq using fu p
    by (simp add: emitPairingStatusEventIfChanged_def Let_def push_ev_def u r split: option.split)
qed

theorem parse_sets_pairing_witness:
  "j_parse sample_json ''reply'' = Some (JObj [(''id'', JStr ''uuid'')]) \<and>
   m_status (parseScorbitronObject sample_json Success ''reply'' sample_net) = AuthenticatedUnpaired"
proof -
  have a: "j_parse sample_json ''reply'' = Some (JObj [(''id'', JStr ''uuid'')])" by code_simp
  have "\<not> is_paired_reply sample_json (JObj [(''id'', JStr ''uuid'')])" by code_simp
  with parse_sets_pairing [OF a, of sample_net] a show ?thesis by (simp add: Let_def)
qed

section \<open>NFC nonces\<close>

text \<open>
  What a batch of nonces leads to: the last nonce of the batch goes into the tag and the others
  are kept, and another batch is requested at once exactly if the tag is present and the batch has
  ten nonces or at most five. A server that answers with batches of ten is therefore asked again on
  every answer, without a tag ever being read.
\<close>

theorem nonces_requested_again:
  assumes "j_parse J reply = Some j" "j_find_if J (j_is_array J) j JVAL_NONCES = Some v"
    "get_strings J (j_elements J v) = Some batch"
  shows "let n' = nonces_received J Success reply n
         in m_nonces n' = butlast batch \<and>
            outs n' = outs n @
              (if m_isNfcCapable n \<and> (length batch = 10 \<or> length batch \<le> 5)
               then [OPost Pool (THttp (createPostRequestTask CbNonces
                       (Endpoint URL_SCORBITRON_NFC_NONCE_CREATE []) EmptyBody anyAuthenticated False))]
               else [])"
  using assms
  by (simp add: nonces_received_def setNfcTag_def consumeNonce_def createNfcNonces_def out_def Let_def)

definition nonce_json :: "jval json_api" where
  "nonce_json = jval_api\<lparr>j_parse := (\<lambda>_. Some (JObj [(JVAL_NONCES, JArr (replicate 10 (JStr ''n'')))]))\<rparr>"

theorem nonces_requested_again_witness:
  "length (outs (nonces_received nonce_json Success [] (sample_net\<lparr>m_isNfcCapable := True\<rparr>))) = 1"
proof -
  have a: "j_parse nonce_json [] = Some (JObj [(JVAL_NONCES, JArr (replicate 10 (JStr ''n'')))])" by code_simp
  have b: "j_find_if nonce_json (j_is_array nonce_json) (JObj [(JVAL_NONCES, JArr (replicate 10 (JStr ''n'')))]) JVAL_NONCES
      = Some (JArr (replicate 10 (JStr ''n'')))" by code_simp
  have c: "get_strings nonce_json (j_elements nonce_json (JArr (replicate 10 (JStr ''n'')))) = Some (replicate 10 ''n'')"
    by code_simp
  from nonces_requested_again [OF a b c, of "sample_net\<lparr>m_isNfcCapable := True\<rparr>"]
  show ?thesis by (simp add: Let_def) (simp add: sample_net_def)
qed

section \<open>Diagnostic probes\<close>

text \<open>What the library's set promises of an insertion: the new element is added, somewhere.\<close>

definition set_insertion :: "(string \<Rightarrow> string list \<Rightarrow> string list) \<Rightarrow> bool" where
  "set_insertion place \<longleftrightarrow> (\<forall>x xs. mset (place x xs) = add_mset x (mset xs))"

lemma set_insertion_length: "set_insertion place \<Longrightarrow> length (place x xs) = Suc (length xs)"
  by (metis set_insertion_def size_add_mset size_mset)

lemma remember_trace_bound:
  "set_insertion place \<Longrightarrow> length seen \<le> 10 \<Longrightarrow> length (remember_trace place t seen) \<le> 10"
  by (auto simp: remember_trace_def Let_def set_insertion_length)

text \<open>
  A probe is answered once while its trace identifier is remembered: a known identifier changes
  nothing; a new one is answered with one packet and one acknowledgement under the next sequence
  number, and the memory stays within ten identifiers.
\<close>

theorem diag_probe_answered:
  assumes "set_insertion place" "length (m_seenDiagTraceIds n) \<le> 10"
    "j_value J (j_string J) payload JKEY_DIAG_TRACE_ID [] = Ret t" "t \<noteq> []"
  shows "let n' = handleDiagnosticProbe J place c payload n; at = to_iso8601 (c_system c)
         in if t \<in> set (m_seenDiagTraceIds n) then n' = n
            else n' = postDiagnosticAck t (m_diagProbeSequence n) at
                        (publishDiagnosticPacket t (m_diagProbeSequence n) at
                          (n\<lparr>m_seenDiagTraceIds := m_seenDiagTraceIds n', m_diagProbeSequence := m_diagProbeSequence n + 1\<rparr>)) \<and>
                 length (m_seenDiagTraceIds n') \<le> 10 \<and>
                 (length (m_seenDiagTraceIds n) < 10 \<longrightarrow> set (m_seenDiagTraceIds n') = insert t (set (m_seenDiagTraceIds n)))"
proof -
  have "set (place t (m_seenDiagTraceIds n)) = insert t (set (m_seenDiagTraceIds n))"
    using assms(1) by (metis set_insertion_def set_mset_add_mset_insert set_mset_mset)
  with assms remember_trace_bound [OF assms(1,2), of t] show ?thesis
    by (simp add: handleDiagnosticProbe_def postDiagnosticAck_def publishDiagnosticPacket_def Let_def out_def
        remember_trace_def set_insertion_length)
qed

text \<open>
  The memory can forget the very identifier it was given: with ten identifiers remembered, a set
  that keeps its newest element first erases it with the first half, and the same probe, delivered
  again, is answered a second time.
\<close>

theorem diag_duplicate_answered:
  assumes "length (m_seenDiagTraceIds n) = 10" "t \<notin> set (m_seenDiagTraceIds n)"
    "j_value J (j_string J) payload JKEY_DIAG_TRACE_ID [] = Ret t" "t \<noteq> []"
  shows "let probe = handleDiagnosticProbe J (#) c payload
         in m_diagProbeSequence (probe (probe n)) = m_diagProbeSequence n + 2 \<and>
            length (outs (probe (probe n))) = length (outs n) + 4"
proof -
  have "remember_trace (#) t (m_seenDiagTraceIds n) = drop 4 (m_seenDiagTraceIds n)"
    using assms(1) by (simp add: remember_trace_def drop_Cons')
  moreover have "t \<notin> set (drop 4 (m_seenDiagTraceIds n))" using assms(2) by (meson in_set_dropD)
  ultimately show ?thesis
    using assms by (simp add: handleDiagnosticProbe_def postDiagnosticAck_def publishDiagnosticPacket_def
        Let_def out_def)
qed

definition sample_probe :: jval where
  "sample_probe = JObj [(JKEY_DIAG_TRACE_ID, JStr ''new'')]"

lemma sample_probe_id: "j_value jval_api (j_string jval_api) sample_probe JKEY_DIAG_TRACE_ID [] = Ret ''new''"
  by (simp add: sample_probe_def j_value_def jval_api_def jval_get_def)

theorem diag_probe_answered_witness:
  "set_insertion (#) \<and>
   length (m_seenDiagTraceIds (handleDiagnosticProbe jval_api (#) sample_clock sample_probe sample_net)) \<le> 10"
proof -
  have a: "set_insertion (#)" by (simp add: set_insertion_def)
  have b: "m_seenDiagTraceIds sample_net = []" by (simp add: sample_net_def)
  from diag_probe_answered [OF a _ sample_probe_id, of sample_net sample_clock] a b show ?thesis
    by (simp add: Let_def)
qed

theorem diag_duplicate_answered_witness:
  "length (outs (handleDiagnosticProbe jval_api (#) sample_clock sample_probe
     (handleDiagnosticProbe jval_api (#) sample_clock sample_probe
       (sample_net\<lparr>m_seenDiagTraceIds := replicate 10 ''old''\<rparr>)))) = 4"
  using diag_duplicate_answered [OF _ _ sample_probe_id, of "sample_net\<lparr>m_seenDiagTraceIds := replicate 10 ''old''\<rparr>" sample_clock]
  by (simp add: Let_def) (simp add: sample_net_def)

end
