(* ===== verification/Leaderboard.thy ===== *)
theory Leaderboard
  imports Net_Pairing_Props
begin

text \<open>
  Leaderboards: \<^verbatim>\<open>source/leaderboard_internal.h\<close> and \<^verbatim>\<open>source/leaderboard_c.cpp\<close> (the data, its JSON and the
  functions that read it from C), and the request for the top scores in \<^verbatim>\<open>source/net.cpp\<close>.

  A C function that writes through a pointer and returns whether it did is a function into an option;
  its boolean argument says whether the pointer is not null. A null leaderboard is \<open>None\<close>.
\<close>

section \<open>Data\<close>

record LeaderboardPlayerData =
  lp_id :: string
  lp_username :: string
  lp_displayName :: string
  lp_initials :: string
  lp_avatar :: string
  lp_followerCount :: int
  lp_followingCount :: int
  lp_lastLogin :: string

record LeaderboardEntryData =
  le_id :: u64
  le_rank :: int
  le_player :: LeaderboardPlayerData
  le_highScore :: sb_score_t
  le_image :: string
  le_reactionCount :: int
  le_scoreCount :: int
  le_isNfcVerified :: bool
  le_isVerified :: bool
  le_isVpin :: bool
  le_created :: string

type_synonym sb_leaderboard_t = "LeaderboardEntryData list"

definition LeaderboardPlayerData_new :: LeaderboardPlayerData where
  "LeaderboardPlayerData_new =
     \<lparr>lp_id = [], lp_username = [], lp_displayName = [], lp_initials = [], lp_avatar = [],
      lp_followerCount = 0, lp_followingCount = 0, lp_lastLogin = []\<rparr>"

definition LeaderboardEntryData_new :: LeaderboardEntryData where
  "LeaderboardEntryData_new =
     \<lparr>le_id = 0, le_rank = 0, le_player = LeaderboardPlayerData_new, le_highScore = 0, le_image = [],
      le_reactionCount = 0, le_scoreCount = 0, le_isNfcVerified = False, le_isVerified = False,
      le_isVpin = False, le_created = []\<rparr>"

section \<open>Reading JSON\<close>

text \<open>The value assigned to a field whose present value is \<open>old\<close>: unchanged unless the member is there
  and of the right kind.\<close>

definition assignScalar ::
  "'j json_api \<Rightarrow> ('j \<Rightarrow> bool) \<Rightarrow> ('j \<Rightarrow> 'a option) \<Rightarrow> 'j \<Rightarrow> string \<Rightarrow> 'a \<Rightarrow> 'a res" where
  "assignScalar J kind get obj key old =
     (case j_find J obj key of
        None \<Rightarrow> Ret old
      | Some v \<Rightarrow> if j_is_null J v then Ret old else if \<not> kind v then Ret old else or_exn (get v))"

definition assignString :: "'j json_api \<Rightarrow> 'j \<Rightarrow> string \<Rightarrow> string \<Rightarrow> string res" where
  "assignString J obj key old =
     (case j_find J obj key of
        None \<Rightarrow> Ret old
      | Some v \<Rightarrow> if j_is_null J v \<or> \<not> j_is_string J v then Ret old else or_exn (j_string J v))"

abbreviation assignBool :: "'j json_api \<Rightarrow> 'j \<Rightarrow> string \<Rightarrow> bool \<Rightarrow> bool res" where
  "assignBool J \<equiv> assignScalar J (j_is_boolean J) (j_bool J)"
abbreviation assignInt :: "'j json_api \<Rightarrow> 'j \<Rightarrow> string \<Rightarrow> int \<Rightarrow> int res" where
  "assignInt J \<equiv> assignScalar J (j_is_number J) (j_int J)"

definition read_leaderboard_player :: "'j json_api \<Rightarrow> 'j \<Rightarrow> LeaderboardPlayerData \<Rightarrow> LeaderboardPlayerData res" where
  "read_leaderboard_player J player p =
     res_bind (assignString J player ''id'' (lp_id p)) (\<lambda>i.
     res_bind (assignString J player ''username'' (lp_username p)) (\<lambda>un.
     res_bind (assignString J player ''display_name'' (lp_displayName p)) (\<lambda>dn.
     res_bind (assignString J player ''initials'' (lp_initials p)) (\<lambda>ini.
     res_bind (assignString J player ''avatar'' (lp_avatar p)) (\<lambda>av.
     res_bind (assignInt J player ''follower_count'' (lp_followerCount p)) (\<lambda>fr.
     res_bind (assignInt J player ''following_count'' (lp_followingCount p)) (\<lambda>fg.
     res_bind (assignString J player ''last_login'' (lp_lastLogin p)) (\<lambda>ll.
       Ret \<lparr>lp_id = i, lp_username = un, lp_displayName = dn, lp_initials = ini, lp_avatar = av,
            lp_followerCount = fr, lp_followingCount = fg, lp_lastLogin = ll\<rparr>))))))))"

text \<open>The members of an entry apart from its player.\<close>

definition read_fields :: "'j json_api \<Rightarrow> 'j \<Rightarrow> LeaderboardEntryData \<Rightarrow> LeaderboardEntryData res" where
  "read_fields J obj e =
     res_bind (assignScalar J (j_is_number J) (j_u64 J) obj ''id'' (le_id e)) (\<lambda>i.
     res_bind (assignInt J obj ''rank'' (le_rank e)) (\<lambda>rk.
     res_bind (assignScalar J (j_is_number J) (j_i64 J) obj ''high_score'' (le_highScore e)) (\<lambda>hs.
     res_bind (assignString J obj ''image'' (le_image e)) (\<lambda>im.
     res_bind (assignInt J obj ''reaction_count'' (le_reactionCount e)) (\<lambda>rc.
     res_bind (assignInt J obj ''score_count'' (le_scoreCount e)) (\<lambda>sc.
     res_bind (assignBool J obj ''is_nfc_verified'' (le_isNfcVerified e)) (\<lambda>nf.
     res_bind (assignBool J obj ''is_verified'' (le_isVerified e)) (\<lambda>vf.
     res_bind (assignBool J obj ''is_vpin'' (le_isVpin e)) (\<lambda>vp.
     res_bind (assignString J obj ''created'' (le_created e)) (\<lambda>cr.
       Ret \<lparr>le_id = i, le_rank = rk, le_player = le_player e, le_highScore = hs, le_image = im,
            le_reactionCount = rc, le_scoreCount = sc, le_isNfcVerified = nf, le_isVerified = vf,
            le_isVpin = vp, le_created = cr\<rparr>))))))))))"

text \<open>One entry: \<open>None\<close> where the function gives up and returns null.\<close>

definition leaderboard_entry :: "'j json_api \<Rightarrow> 'j \<Rightarrow> LeaderboardEntryData option res" where
  "leaderboard_entry J obj =
     (if \<not> j_is_object J obj then Ret None
      else res_bind (read_fields J obj LeaderboardEntryData_new) (\<lambda>e.
        case j_find J obj ''player'' of
          None \<Rightarrow> Ret (Some e)
        | Some player \<Rightarrow>
            if j_is_null J player then Ret (Some e)
            else if \<not> j_is_object J player then Ret None
            else res_bind (read_leaderboard_player J player (le_player e)) (\<lambda>p. Ret (Some (e\<lparr>le_player := p\<rparr>)))))"

fun leaderboard_entries :: "'j json_api \<Rightarrow> 'j list \<Rightarrow> sb_leaderboard_t option res" where
  "leaderboard_entries J [] = Ret (Some [])"
| "leaderboard_entries J (obj # objs) =
     res_bind (leaderboard_entry J obj) (\<lambda>e.
       case e of
         None \<Rightarrow> Ret None
       | Some e \<Rightarrow> res_bind (leaderboard_entries J objs) (\<lambda>es. Ret (map_option (\<lambda>es. e # es) es)))"

definition parseLeaderboardJson :: "'j json_api \<Rightarrow> string \<Rightarrow> sb_leaderboard_t option res" where
  "parseLeaderboardJson J reply =
     (case j_parse J reply of
        None \<Rightarrow> Exn
      | Some parsed \<Rightarrow>
          if \<not> j_is_array J parsed then Ret None else leaderboard_entries J (j_elements J parsed))"

section \<open>Reading from C\<close>

definition getEntry :: "sb_leaderboard_t option \<Rightarrow> nat \<Rightarrow> LeaderboardEntryData option" where
  "getEntry leaderboard index =
     (case leaderboard of None \<Rightarrow> None | Some es \<Rightarrow> if index \<ge> length es then None else Some (es ! index))"

definition sb_leaderboard_entries_count :: "sb_leaderboard_t option \<Rightarrow> nat" where
  "sb_leaderboard_entries_count leaderboard = (case leaderboard of None \<Rightarrow> 0 | Some es \<Rightarrow> length es)"

definition sb_leaderboard_entry_id :: "sb_leaderboard_t option \<Rightarrow> nat \<Rightarrow> bool \<Rightarrow> u64 option" where
  "sb_leaderboard_entry_id lb i ptr =
     (case getEntry lb i of None \<Rightarrow> None | Some e \<Rightarrow> if \<not> ptr then None else Some (le_id e))"
definition sb_leaderboard_entry_rank :: "sb_leaderboard_t option \<Rightarrow> nat \<Rightarrow> bool \<Rightarrow> int option" where
  "sb_leaderboard_entry_rank lb i ptr =
     (case getEntry lb i of None \<Rightarrow> None | Some e \<Rightarrow> if \<not> ptr then None else Some (le_rank e))"
definition sb_leaderboard_entry_high_score :: "sb_leaderboard_t option \<Rightarrow> nat \<Rightarrow> bool \<Rightarrow> sb_score_t option" where
  "sb_leaderboard_entry_high_score lb i ptr =
     (case getEntry lb i of None \<Rightarrow> None | Some e \<Rightarrow> if \<not> ptr then None else Some (le_highScore e))"
definition sb_leaderboard_entry_image :: "sb_leaderboard_t option \<Rightarrow> nat \<Rightarrow> bool \<Rightarrow> string option" where
  "sb_leaderboard_entry_image lb i ptr =
     (case getEntry lb i of None \<Rightarrow> None | Some e \<Rightarrow> if \<not> ptr \<or> le_image e = [] then None else Some (le_image e))"
definition sb_leaderboard_entry_reaction_count :: "sb_leaderboard_t option \<Rightarrow> nat \<Rightarrow> bool \<Rightarrow> int option" where
  "sb_leaderboard_entry_reaction_count lb i ptr =
     (case getEntry lb i of None \<Rightarrow> None | Some e \<Rightarrow> if \<not> ptr then None else Some (le_reactionCount e))"
definition sb_leaderboard_entry_score_count :: "sb_leaderboard_t option \<Rightarrow> nat \<Rightarrow> bool \<Rightarrow> int option" where
  "sb_leaderboard_entry_score_count lb i ptr =
     (case getEntry lb i of None \<Rightarrow> None | Some e \<Rightarrow> if \<not> ptr then None else Some (le_scoreCount e))"
definition sb_leaderboard_entry_is_nfc_verified :: "sb_leaderboard_t option \<Rightarrow> nat \<Rightarrow> bool \<Rightarrow> bool option" where
  "sb_leaderboard_entry_is_nfc_verified lb i ptr =
     (case getEntry lb i of None \<Rightarrow> None | Some e \<Rightarrow> if \<not> ptr then None else Some (le_isNfcVerified e))"
definition sb_leaderboard_entry_is_verified :: "sb_leaderboard_t option \<Rightarrow> nat \<Rightarrow> bool \<Rightarrow> bool option" where
  "sb_leaderboard_entry_is_verified lb i ptr =
     (case getEntry lb i of None \<Rightarrow> None | Some e \<Rightarrow> if \<not> ptr then None else Some (le_isVerified e))"
definition sb_leaderboard_entry_is_vpin :: "sb_leaderboard_t option \<Rightarrow> nat \<Rightarrow> bool \<Rightarrow> bool option" where
  "sb_leaderboard_entry_is_vpin lb i ptr =
     (case getEntry lb i of None \<Rightarrow> None | Some e \<Rightarrow> if \<not> ptr then None else Some (le_isVpin e))"
definition sb_leaderboard_entry_created :: "sb_leaderboard_t option \<Rightarrow> nat \<Rightarrow> bool \<Rightarrow> string option" where
  "sb_leaderboard_entry_created lb i ptr =
     (case getEntry lb i of None \<Rightarrow> None | Some e \<Rightarrow> if \<not> ptr \<or> le_created e = [] then None else Some (le_created e))"

text \<open>The six functions that hand out a text of the player, and the two counts.\<close>

definition player_text ::
  "(LeaderboardPlayerData \<Rightarrow> string) \<Rightarrow> sb_leaderboard_t option \<Rightarrow> nat \<Rightarrow> bool \<Rightarrow> string option" where
  "player_text field lb i ptr =
     (case getEntry lb i of
        None \<Rightarrow> None
      | Some e \<Rightarrow> if \<not> ptr \<or> field (le_player e) = [] then None else Some (field (le_player e)))"

definition sb_leaderboard_entry_player_id :: "sb_leaderboard_t option \<Rightarrow> nat \<Rightarrow> bool \<Rightarrow> string option" where
  "sb_leaderboard_entry_player_id = player_text lp_id"
definition sb_leaderboard_entry_player_username :: "sb_leaderboard_t option \<Rightarrow> nat \<Rightarrow> bool \<Rightarrow> string option" where
  "sb_leaderboard_entry_player_username = player_text lp_username"
definition sb_leaderboard_entry_player_display_name :: "sb_leaderboard_t option \<Rightarrow> nat \<Rightarrow> bool \<Rightarrow> string option" where
  "sb_leaderboard_entry_player_display_name = player_text lp_displayName"
definition sb_leaderboard_entry_player_initials :: "sb_leaderboard_t option \<Rightarrow> nat \<Rightarrow> bool \<Rightarrow> string option" where
  "sb_leaderboard_entry_player_initials = player_text lp_initials"
definition sb_leaderboard_entry_player_avatar :: "sb_leaderboard_t option \<Rightarrow> nat \<Rightarrow> bool \<Rightarrow> string option" where
  "sb_leaderboard_entry_player_avatar = player_text lp_avatar"
definition sb_leaderboard_entry_player_last_login :: "sb_leaderboard_t option \<Rightarrow> nat \<Rightarrow> bool \<Rightarrow> string option" where
  "sb_leaderboard_entry_player_last_login = player_text lp_lastLogin"
definition sb_leaderboard_entry_player_follower_count :: "sb_leaderboard_t option \<Rightarrow> nat \<Rightarrow> bool \<Rightarrow> int option" where
  "sb_leaderboard_entry_player_follower_count lb i ptr =
     (case getEntry lb i of None \<Rightarrow> None | Some e \<Rightarrow> if \<not> ptr then None else Some (lp_followerCount (le_player e)))"
definition sb_leaderboard_entry_player_following_count :: "sb_leaderboard_t option \<Rightarrow> nat \<Rightarrow> bool \<Rightarrow> int option" where
  "sb_leaderboard_entry_player_following_count lb i ptr =
     (case getEntry lb i of None \<Rightarrow> None | Some e \<Rightarrow> if \<not> ptr then None else Some (lp_followingCount (le_player e)))"

section \<open>Requesting the top scores\<close>

definition TOP_SCORES_DEFER_RETRY :: duration where
  "TOP_SCORES_DEFER_RETRY = milliseconds 1000"
definition TOP_SCORES_DEFER_MAX_ATTEMPTS :: nat where
  "TOP_SCORES_DEFER_MAX_ATTEMPTS = 30"

definition requestTopScoresImpl :: "top_scores_request \<Rightarrow> nat \<Rightarrow> 'j Net \<Rightarrow> 'j Net" where
  "requestTopScoresImpl req deferAttempt n = out [OPost Strand (TTopScores req deferAttempt)] n"

definition requestTopScores :: "top_scores_request \<Rightarrow> 'j Net \<Rightarrow> 'j Net" where
  "requestTopScores req n = requestTopScoresImpl req 0 n"

definition context_ready :: "LeaderboardScope \<Rightarrow> 'j Net \<Rightarrow> bool" where
  "context_ready scope n =
     isLeaderboardContextReady (m_status n) scope (machineUuid (m_machineInfo n))
       (variantUuid (m_machineInfo n)) (gameSlug (m_machineInfo n))"

definition valid_request :: "top_scores_request \<Rightarrow> bool" where
  "valid_request req \<longleftrightarrow>
     (case ts_scope req of ScopeOther _ \<Rightarrow> False | _ \<Rightarrow> True) \<and>
     (ts_since req = [] \<longrightarrow> leaderboardPeriodParam (ts_period req) \<noteq> None) \<and>
     (case ts_vpin req of VpinOther _ \<Rightarrow> False | _ \<Rightarrow> True)"

text \<open>The posted task; the second result says that it goes on to send its request.\<close>

definition top_scores_task :: "top_scores_request \<Rightarrow> nat \<Rightarrow> 'j Net \<Rightarrow> 'j Net \<times> bool" where
  "top_scores_task req deferAttempt n =
     (if \<not> valid_request req then (out [OCallback (ts_callback req) ApiError []] n, False)
      else case leaderboardRequestTerminalError (m_status n) of
             Some e \<Rightarrow> (out [OCallback (ts_callback req) e []] n, False)
           | None \<Rightarrow>
               if \<not> context_ready (ts_scope req) n then
                 if deferAttempt \<ge> TOP_SCORES_DEFER_MAX_ATTEMPTS
                 then (out [OCallback (ts_callback req) ApiError []] n, False)
                 else (out [OStartTimer LeaderboardDeferred TOP_SCORES_DEFER_RETRY
                              (TTopScoresRetry req deferAttempt)] n, False)
               else (n, True))"

definition top_scores_retry :: "top_scores_request \<Rightarrow> nat \<Rightarrow> 'j Net \<Rightarrow> 'j Net" where
  "top_scores_retry req deferAttempt n = requestTopScoresImpl req (deferAttempt + 1) n"

definition leaders_params :: "top_scores_request \<Rightarrow> (string \<times> string) list" where
  "leaders_params req =
     (let period = (case leaderboardPeriodParam (ts_period req) of None \<Rightarrow> [] | Some p \<Rightarrow> p)
      in (if ts_since req \<noteq> [] then [(''since'', ts_since req)]
          else if period \<noteq> [] then [(''period'', period)] else [])
         @ (case ts_vpin req of VpinOnly \<Rightarrow> [(''vpin'', ''true'')] | RealOnly \<Rightarrow> [(''vpin'', ''false'')] | _ \<Rightarrow> []))"

text \<open>The deferred setup, evaluated when the request is about to be sent; reading an empty
  \<^verbatim>\<open>std::optional\<close> is undefined.\<close>

definition leaders_setup :: "top_scores_request \<Rightarrow> 'j Net \<Rightarrow> 'j http_task res" where
  "leaders_setup req n =
     (let task = (\<lambda>e. createGetRequestTask (CbTopScores (ts_callback req)) e (leaders_params req) [AuthenticatedPaired])
      in case ts_scope req of
           ScopeVariant \<Rightarrow>
             res_bind (or_undef (variantUuid (m_machineInfo n)))
               (\<lambda>u. Ret (task (Endpoint URL_VARIANT_LEADERS [(ARG_VARIANT_UUID, u)])))
         | ScopeGame \<Rightarrow>
             res_bind (or_undef (gameSlug (m_machineInfo n)))
               (\<lambda>g. Ret (task (Endpoint URL_GAME_LEADERS [(ARG_GAME_SLUG, g)])))
         | _ \<Rightarrow> Ret (task (Endpoint URL_MACHINE_LEADERS [])))"

text \<open>What the application's callback gets from a reply.\<close>

definition top_scores_replied :: "'j json_api \<Rightarrow> Error \<Rightarrow> string \<Rightarrow> Error \<times> sb_leaderboard_t option" where
  "top_scores_replied J error reply =
     (if error \<noteq> Success then (error, None)
      else case parseLeaderboardJson J reply of
             Ret (Some lb) \<Rightarrow> (Success, Some lb)
           | _ \<Rightarrow> (ApiError, None))"

section \<open>Properties\<close>

lemma leaderboard_entries_Some:
  "leaderboard_entries J objs = Ret (Some es) \<Longrightarrow>
   length es = length objs \<and> (\<forall>i < length es. leaderboard_entry J (objs ! i) = Ret (Some (es ! i)))"
proof (induction objs arbitrary: es)
  case (Cons obj objs)
  then obtain e es' where e: "leaderboard_entry J obj = Ret (Some e)"
    "leaderboard_entries J objs = Ret (Some es')" "es = e # es'"
    by (auto simp: res_bind_Ret split: option.splits)
  with Cons.IH [of es'] show ?case by (auto simp: nth_Cons split: nat.splits)
qed simp

text \<open>
  A leaderboard is exactly its JSON: a reply that parses has one entry per element of the array,
  in order, each read from its element; from C the count is the number of elements, an index reads
  its own entry, and every index beyond is refused.
\<close>

theorem leaderboard_exact:
  assumes "parseLeaderboardJson J reply = Ret (Some lb)"
  shows "\<exists>parsed. j_parse J reply = Some parsed \<and> j_is_array J parsed \<and>
    sb_leaderboard_entries_count (Some lb) = length (j_elements J parsed) \<and>
    (\<forall>i. if i < sb_leaderboard_entries_count (Some lb)
         then leaderboard_entry J (j_elements J parsed ! i) = Ret (Some (lb ! i)) \<and>
              sb_leaderboard_entry_id (Some lb) i True = Some (le_id (lb ! i)) \<and>
              sb_leaderboard_entry_high_score (Some lb) i True = Some (le_highScore (lb ! i)) \<and>
              sb_leaderboard_entry_player_username (Some lb) i True =
                (if lp_username (le_player (lb ! i)) = [] then None else Some (lp_username (le_player (lb ! i))))
         else sb_leaderboard_entry_id (Some lb) i True = None \<and>
              sb_leaderboard_entry_high_score (Some lb) i True = None \<and>
              sb_leaderboard_entry_player_username (Some lb) i True = None)"
proof -
  obtain parsed where p: "j_parse J reply = Some parsed" "j_is_array J parsed"
    "leaderboard_entries J (j_elements J parsed) = Ret (Some lb)"
    using assms by (auto simp: parseLeaderboardJson_def split: option.splits if_splits)
  from leaderboard_entries_Some [OF p(3)] p(1,2) show ?thesis
    by (simp add: sb_leaderboard_entries_count_def sb_leaderboard_entry_id_def sb_leaderboard_entry_high_score_def
        sb_leaderboard_entry_player_username_def player_text_def getEntry_def)
qed

lemma out_inject [simp]: "out xs n = out ys n \<longleftrightarrow> xs = ys"
  by (auto simp: out_def dest: arg_cong [of _ _ outs])

definition defers :: "top_scores_request \<Rightarrow> nat \<Rightarrow> 'j Net \<Rightarrow> bool" where
  "defers req k n \<longleftrightarrow>
     top_scores_task req k n =
       (out [OStartTimer LeaderboardDeferred TOP_SCORES_DEFER_RETRY (TTopScoresRetry req k)] n, False)"

lemma not_defers:
  assumes "\<not> defers req k n"
  shows "top_scores_task req k n = (n, True) \<and> context_ready (ts_scope req) n \<or>
    (\<exists>e. e \<noteq> Success \<and> top_scores_task req k n = (out [OCallback (ts_callback req) e []] n, False))"
  using assms
  by (cases "m_status n") (auto simp: defers_def top_scores_task_def leaderboardRequestTerminalError_def)

text \<open>
  A request for the top scores is settled within thirty-one runs, whatever the state of the device
  at each: it is deferred, then either sent, which only happens when the machine is known, or
  answered with an error; after thirty deferrals it is answered.
\<close>

theorem top_scores_settled:
  assumes "30 < length ns"
  shows "\<exists>k \<le> 30. (\<forall>j < k. defers req j (ns ! j)) \<and>
    (top_scores_task req k (ns ! k) = (ns ! k, True) \<and> context_ready (ts_scope req) (ns ! k) \<or>
     (\<exists>e. e \<noteq> Success \<and> top_scores_task req k (ns ! k) = (out [OCallback (ts_callback req) e []] (ns ! k), False)))"
proof -
  have "\<not> defers req 30 (ns ! 30)"
    by (cases "m_status (ns ! 30)")
      (auto simp: defers_def top_scores_task_def TOP_SCORES_DEFER_MAX_ATTEMPTS_def leaderboardRequestTerminalError_def)
  then obtain k where k: "\<not> defers req k (ns ! k)" "\<forall>j < k. defers req j (ns ! j)" "k \<le> 30"
    using exists_least_iff [of "\<lambda>k. \<not> defers req k (ns ! k)"] by (metis linorder_not_less)
  with not_defers [OF k(1)] show ?thesis by blast
qed

text \<open>
  Only one deferred request survives: when two requests wait for the machine, the timer holds the
  second alone, so the first is neither retried nor answered.
\<close>

theorem second_deferral_drops_first:
  assumes "defers req k n" "defers req' k' (fst (top_scores_task req k n))"
  shows "armed LeaderboardDeferred (fst (top_scores_task req' k' (fst (top_scores_task req k n)))) =
    Some (TTopScoresRetry req' k')"
  using assms by (simp add: defers_def armed_out)

text \<open>
  A request whose machine disappears while it waits reads nothing: once the pairing context is
  cleared, setting up a request for a variant or a game is undefined behaviour.
\<close>

theorem leaders_setup_after_unpair:
  "ts_scope req = ScopeVariant \<or> ts_scope req = ScopeGame \<Longrightarrow>
   leaders_setup req (clearPairedMachineContext n) = Undef"
  by (auto simp: leaders_setup_def clearPairedMachineContext_def updateDiscoveryDescription_def Let_def)

section \<open>Instances\<close>

definition sample_request :: top_scores_request where
  "sample_request = \<lparr>ts_scope = ScopeGame, ts_period = AllTime, ts_since = [], ts_vpin = VpinAny, ts_callback = 1\<rparr>"

lemma sample_defers: "k < 30 \<Longrightarrow> gameSlug (m_machineInfo n) = None \<Longrightarrow> m_status n = AuthenticatedPaired \<Longrightarrow>
  defers sample_request k n"
  by (simp add: defers_def top_scores_task_def sample_request_def valid_request_def context_ready_def
      isLeaderboardContextReady_def leaderboardRequestTerminalError_def TOP_SCORES_DEFER_MAX_ATTEMPTS_def)

theorem leaderboard_exact_witness:
  "parseLeaderboardJson sample_json ''[]'' = Ret (Some []) \<and> sb_leaderboard_entries_count (Some []) = 0"
proof -
  have "parseLeaderboardJson sample_json ''[]'' = Ret (Some [])" by code_simp
  from leaderboard_exact [OF this] this show ?thesis by (simp add: sb_leaderboard_entries_count_def)
qed

theorem top_scores_settled_witness:
  "\<exists>k \<le> 30. \<not> defers sample_request k (replicate 31 sample_net ! k)"
proof -
  from top_scores_settled [of "replicate 31 sample_net" sample_request] obtain k where "k \<le> 30"
    "top_scores_task sample_request k (replicate 31 sample_net ! k) = (replicate 31 sample_net ! k, True) \<or>
     (\<exists>e. top_scores_task sample_request k (replicate 31 sample_net ! k) =
        (out [OCallback (ts_callback sample_request) e []] (replicate 31 sample_net ! k), False))"
    by (fastforce simp del: nth_replicate)
  then show ?thesis by (intro exI [of _ k]) (auto simp: defers_def)
qed

theorem second_deferral_drops_first_witness:
  "armed LeaderboardDeferred (fst (top_scores_task sample_request 5 (fst (top_scores_task sample_request 0 sample_net)))) =
    Some (TTopScoresRetry sample_request 5)"
proof -
  have a: "defers sample_request 0 sample_net" by (rule sample_defers) (simp_all add: sample_net_def)
  have "defers sample_request 5 (fst (top_scores_task sample_request 0 sample_net))"
    using a by (intro sample_defers) (simp_all add: defers_def sample_net_def)
  from second_deferral_drops_first [OF a this] show ?thesis .
qed

theorem leaders_setup_after_unpair_witness:
  "leaders_setup sample_request (clearPairedMachineContext sample_net) = Undef"
  by (rule leaders_setup_after_unpair) (simp add: sample_request_def)

end
