(* ===== verification/Bytes.thy ===== *)
theory Bytes
  imports Prelude
begin

unbundle bit_operations_syntax

text \<open>
  \<^verbatim>\<open>libs/utils/source/bytearray.cpp\<close>: byte arrays, their hexadecimal text and the reader of such texts.
  Exceptions of \<^verbatim>\<open>std::stoi\<close> are caught where they arise, so that every function is total.
\<close>

type_synonym ByteArray = "8 word list"

definition isspace :: "char \<Rightarrow> bool" where
  "isspace c \<longleftrightarrow> c \<in> {CHR 0x20, CHR 0x09, CHR 0x0A, CHR 0x0B, CHR 0x0C, CHR 0x0D}"

definition hex_chars :: "bool \<Rightarrow> string" where
  "hex_chars upper = (if upper then ''0123456789ABCDEF'' else ''0123456789abcdef'')"

text \<open>The value of a hexadecimal digit, of either case.\<close>

definition hex_val :: "char \<Rightarrow> nat option" where
  "hex_val c = map_of (zip ''0123456789abcdefABCDEF'' ([0 ..< 16] @ [10 ..< 16])) c"

definition hex_number :: "string \<Rightarrow> int" where
  "hex_number s = foldl (\<lambda>v c. v * 16 + (case hex_val c of None \<Rightarrow> 0 | Some d \<Rightarrow> int d)) 0 s"

text \<open>
  \<^verbatim>\<open>std::stoi(s, nullptr, 16)\<close> of a text of two characters without white space: an optional sign, then
  the longest run of digits, and an exception if there is none. A prefix \<^verbatim>\<open>0x\<close> has no digit after it
  here and reads as the digit zero.
\<close>

definition stoi16 :: "string \<Rightarrow> int option" where
  "stoi16 s =
     (let neg = (s \<noteq> [] \<and> hd s = CHR ''-'');
          s = (if s \<noteq> [] \<and> (hd s = CHR ''-'' \<or> hd s = CHR ''+'') then tl s else s);
          digits = takeWhile (\<lambda>c. hex_val c \<noteq> None) s
      in if digits = [] then None else Some (if neg then - hex_number digits else hex_number digits))"

fun hex_pairs :: "string \<Rightarrow> ByteArray option" where
  "hex_pairs (a # b # s) =
     (case stoi16 [a, b] of
        None \<Rightarrow> None
      | Some i \<Rightarrow> map_option (\<lambda>bs. word_of_int i # bs) (hex_pairs s))"
| "hex_pairs s = Some []"

definition ByteArray_of_hex :: "string \<Rightarrow> ByteArray" where
  "ByteArray_of_hex hexArray =
     (let hexArray = filter (\<lambda>c. \<not> isspace c) hexArray
      in if length hexArray mod 2 = 1 then []
         else case hex_pairs hexArray of None \<Rightarrow> [] | Some bs \<Rightarrow> bs)"

definition ByteArray_of_chars :: "string \<Rightarrow> ByteArray" where
  "ByteArray_of_chars s = map of_char s"

definition byte_hex :: "bool \<Rightarrow> 8 word \<Rightarrow> string" where
  "byte_hex upper b = [hex_chars upper ! (unat b div 16), hex_chars upper ! (unat b mod 16)]"

definition hex :: "bool \<Rightarrow> string \<Rightarrow> string \<Rightarrow> ByteArray \<Rightarrow> string" where
  "hex upper separator prefix bs =
     (case bs of
        [] \<Rightarrow> []
      | b # bs \<Rightarrow>
          foldl (\<lambda>result b. result @ separator @ prefix @ byte_hex upper b) (prefix @ byte_hex upper b) bs)"

definition ByteArray_string :: "ByteArray \<Rightarrow> string" where
  "ByteArray_string bs = map (\<lambda>b. char_of (unat b)) bs"

text \<open>The key is applied cyclically.\<close>

fun initialize_loop :: "ByteArray \<Rightarrow> ByteArray \<Rightarrow> ByteArray \<Rightarrow> ByteArray" where
  "initialize_loop key it [] = []"
| "initialize_loop key it (a # as) =
     (case (if it = [] then key else it) of
        [] \<Rightarrow> a # as
      | k # it \<Rightarrow> (a XOR k) # initialize_loop key it as)"

definition initialize :: "ByteArray \<Rightarrow> ByteArray \<Rightarrow> ByteArray" where
  "initialize initArray bs = (if initArray = [] then bs else initialize_loop initArray initArray bs)"

section \<open>Characters as bytes\<close>

lemma unat_of_char: "unat (of_char c :: 8 word) = of_char c"
proof -
  have "(of_char c :: 8 word) = word_of_nat (of_char c)" by (simp add: of_char_def)
  then show ?thesis by (simp add: unat_of_nat)
qed

lemma of_char_word_zero: "(of_char c :: 8 word) = 0 \<longleftrightarrow> c = CHR 0x00"
proof -
  have "of_char (CHR 0x00) = (0 :: nat)" by simp
  then show ?thesis using unat_of_char [of c] by (metis of_char_eq_iff unat_eq_zero)
qed

lemma string_of_chars: "ByteArray_string (ByteArray_of_chars s) = s"
  by (simp add: ByteArray_string_def ByteArray_of_chars_def comp_def unat_of_char)

section \<open>Hexadecimal text\<close>

lemma hex_val_chars: "d < 16 \<Longrightarrow> hex_val (hex_chars upper ! d) = Some d"
proof -
  have "list_all (\<lambda>d. hex_val (hex_chars True ! d) = Some d \<and> hex_val (hex_chars False ! d) = Some d) [0 ..< 16]"
    by code_simp
  then show "d < 16 \<Longrightarrow> hex_val (hex_chars upper ! d) = Some d" by (cases upper) (auto simp: list_all_iff)
qed

lemma hex_val_plain: "hex_val c = Some d \<Longrightarrow> c \<noteq> CHR ''-'' \<and> c \<noteq> CHR ''+'' \<and> \<not> isspace c \<and> d < 16"
proof -
  have "list_all (\<lambda>(c, d). c \<noteq> CHR ''-'' \<and> c \<noteq> CHR ''+'' \<and> \<not> isspace c \<and> d < 16)
    (zip ''0123456789abcdefABCDEF'' ([0 ..< 16] @ [10 ..< 16]))"
    by code_simp
  then show "hex_val c = Some d \<Longrightarrow> c \<noteq> CHR ''-'' \<and> c \<noteq> CHR ''+'' \<and> \<not> isspace c \<and> d < 16"
    unfolding hex_val_def list_all_iff using map_of_SomeD by fastforce
qed

lemma stoi16_pair:
  assumes "hex_val a = Some x" "hex_val b = Some y"
  shows "stoi16 [a, b] = Some (int (x * 16 + y))"
  using assms hex_val_plain [OF assms(1)] by (simp add: stoi16_def hex_number_def)

lemma byte_hex_read: "stoi16 (byte_hex upper b) = Some (uint b)"
proof -
  have "unat b < 256" using unsigned_less [of b, where ?'a = nat] by simp
  then have "stoi16 (byte_hex upper b) = Some (int (unat b div 16 * 16 + unat b mod 16))"
    unfolding byte_hex_def by (intro stoi16_pair hex_val_chars) auto
  then show ?thesis by simp
qed

lemma hex_plain: "hex upper [] [] bs = concat (map (byte_hex upper) bs)"
proof -
  have "foldl (\<lambda>r b. r @ byte_hex upper b) s bs = s @ concat (map (byte_hex upper) bs)" for s bs
    by (induction bs arbitrary: s) auto
  then show ?thesis by (simp add: hex_def split: list.split)
qed

lemma byte_hex_plain: "c \<in> set (byte_hex upper b) \<Longrightarrow> \<not> isspace c"
proof -
  assume c: "c \<in> set (byte_hex upper b)"
  have "unat b < 256" using unsigned_less [of b, where ?'a = nat] by simp
  then have "unat b div 16 < 16" "unat b mod 16 < 16" by auto
  with c hex_val_chars have "\<exists>d. hex_val c = Some d" by (auto simp: byte_hex_def)
  then show "\<not> isspace c" using hex_val_plain by blast
qed

lemma hex_pairs_bytes: "hex_pairs (concat (map (byte_hex upper) bs)) = Some bs"
proof (induction bs)
  case (Cons b bs)
  obtain x y where "byte_hex upper b = [x, y]" by (simp add: byte_hex_def)
  with Cons byte_hex_read [of upper b] show ?case by simp
qed simp

lemma length_hex: "length (concat (map (byte_hex upper) bs)) = 2 * length bs"
  by (induction bs) (simp_all add: byte_hex_def)

lemma of_hex_hex [simp]: "ByteArray_of_hex (hex upper [] [] bs) = bs"
proof -
  let ?s = "concat (map (byte_hex upper) bs)"
  have "filter (\<lambda>c. \<not> isspace c) ?s = ?s"
    using byte_hex_plain by (intro filter_True) auto
  then show ?thesis
    by (simp add: ByteArray_of_hex_def hex_plain hex_pairs_bytes length_hex Let_def)
qed

text \<open>
  Hexadecimal texts are exact: what \<^verbatim>\<open>hex\<close> prints, in either case of the digits, the constructor
  from a text reads back, whatever the bytes; different byte arrays have different texts.
\<close>

theorem hex_roundtrip:
  "ByteArray_of_hex (hex upper [] [] bs) = bs \<and> (hex upper [] [] bs = hex upper [] [] cs \<longleftrightarrow> bs = cs)"
  by (metis of_hex_hex)

lemma initialize_loop_length: "length (initialize_loop key it as) = length as"
  by (induction key it as rule: initialize_loop.induct) (auto split: list.split)

lemma xor_cancel: "(a XOR k) XOR k = (a :: 8 word)"
  by (simp add: xor.assoc)

lemma initialize_loop_twice: "initialize_loop key it (initialize_loop key it as) = as"
  by (induction key it as rule: initialize_loop.induct) (auto simp: xor_cancel split: list.split)

text \<open>Applying a key twice gives the bytes back.\<close>

lemma initialize_involution: "initialize key (initialize key as) = as"
  by (simp add: initialize_def initialize_loop_twice)

end
