(* ===== verification/Crypto.thy ===== *)
theory Crypto
  imports Bytes Json
begin

text \<open>
  The sources' own use of the cryptographic library: \<^verbatim>\<open>source/utils/decrypt.cpp\<close> (secrets encrypted under
  a password), the signing functions of \<^verbatim>\<open>libs/tpm/source/crypto_helpers.cpp\<close> and the hash of
  \<^verbatim>\<open>source/utils/machine_fingerprint.cpp\<close>.

  The library itself is the parameter \<open>crypto_api\<close>: base64 (\<open>bio_decode\<close> is \<open>None\<close> where \<^verbatim>\<open>BIO_read\<close> returns
  a negative number), PBKDF2, AES-GCM (\<open>gcm_open\<close> is \<open>None\<close> where the tag does not match), HMAC, SHA-256
  and ECDSA. Its documented laws are \<open>crypto_law\<close>. Random bytes are arguments; an ECDSA signature is randomised,
  and the first argument of \<open>ec_sign\<close> is the draw that the library makes for it.
\<close>

record crypto_api =
  bio_decode :: "string \<Rightarrow> ByteArray option"
  bio_encode :: "ByteArray \<Rightarrow> string"
  pbkdf2 :: "string \<Rightarrow> ByteArray \<Rightarrow> nat \<Rightarrow> ByteArray"
  gcm_open :: "ByteArray \<Rightarrow> ByteArray \<Rightarrow> ByteArray \<Rightarrow> ByteArray \<Rightarrow> ByteArray option"
  gcm_seal :: "ByteArray \<Rightarrow> ByteArray \<Rightarrow> ByteArray \<Rightarrow> ByteArray \<times> ByteArray"
  hmac_sha256 :: "string \<Rightarrow> string \<Rightarrow> ByteArray"
  sha256 :: "ByteArray \<Rightarrow> ByteArray"
  ec_sign :: "nat \<Rightarrow> ByteArray \<Rightarrow> ByteArray \<Rightarrow> ByteArray option"

definition AES_KEY_SIZE :: nat where
  "AES_KEY_SIZE = 32"
definition AES_IV_SIZE :: nat where
  "AES_IV_SIZE = 12"
definition TAG_SIZE :: nat where
  "TAG_SIZE = 16"
definition SALT_SIZE :: nat where
  "SALT_SIZE = 16"
definition PBKDF2_ITERATIONS :: nat where
  "PBKDF2_ITERATIONS = 10000"

text \<open>Resizing the buffer to a negative length throws.\<close>

definition secret_base64Decode :: "crypto_api \<Rightarrow> string \<Rightarrow> ByteArray res" where
  "secret_base64Decode C encoded = or_exn (bio_decode C encoded)"

definition decryptSecret :: "crypto_api \<Rightarrow> string \<Rightarrow> string \<Rightarrow> ByteArray res" where
  "decryptSecret C encryptedData password =
     res_bind (secret_base64Decode C encryptedData) (\<lambda>data.
       if length data < SALT_SIZE + AES_IV_SIZE + TAG_SIZE then Ret []
       else let salt = take SALT_SIZE data;
                iv = take AES_IV_SIZE (drop SALT_SIZE data);
                tag = drop (length data - TAG_SIZE) data;
                ciphertext = take (length data - TAG_SIZE - (SALT_SIZE + AES_IV_SIZE))
                               (drop (SALT_SIZE + AES_IV_SIZE) data);
                key = pbkdf2 C password salt PBKDF2_ITERATIONS
            in case gcm_open C key iv ciphertext tag of None \<Rightarrow> Ret [] | Some result \<Rightarrow> Ret result)"

definition encryptSecret :: "crypto_api \<Rightarrow> ByteArray \<Rightarrow> ByteArray \<Rightarrow> ByteArray \<Rightarrow> string \<Rightarrow> string" where
  "encryptSecret C salt iv data password =
     (let key = pbkdf2 C password salt PBKDF2_ITERATIONS;
          (ciphertext, tag) = gcm_seal C key iv data
      in bio_encode C (salt @ iv @ ciphertext @ tag))"

definition computeHmac :: "crypto_api \<Rightarrow> string \<Rightarrow> string \<Rightarrow> string" where
  "computeHmac C message key = concat (map (byte_hex False) (hmac_sha256 C key message))"

section \<open>Signatures\<close>

definition kP256KeySize :: nat where
  "kP256KeySize = 32"
definition kSHA256Size :: nat where
  "kSHA256Size = 32"

definition validateEcdsaInputs :: "ByteArray \<Rightarrow> ByteArray \<Rightarrow> nat \<Rightarrow> nat \<Rightarrow> bool" where
  "validateEcdsaInputs key hash expectedKeySize expectedHashSize =
     (if length key \<noteq> expectedKeySize then False
      else if length hash \<noteq> expectedHashSize then False
      else True)"

definition ecdsaSign :: "crypto_api \<Rightarrow> nat \<Rightarrow> ByteArray \<Rightarrow> ByteArray \<Rightarrow> ByteArray option" where
  "ecdsaSign C draw privateKey hash =
     (if \<not> validateEcdsaInputs privateKey hash kP256KeySize kSHA256Size then None
      else ec_sign C draw privateKey hash)"

section \<open>The machine's fingerprint\<close>

record MachineFingerprint =
  macAddressPrimary :: string
  boardSerial :: string
  cpuSerial :: string
  platformType :: string

definition hasAny :: "MachineFingerprint \<Rightarrow> bool" where
  "hasAny fp \<longleftrightarrow>
     macAddressPrimary fp \<noteq> [] \<or> boardSerial fp \<noteq> [] \<or> cpuSerial fp \<noteq> [] \<or> platformType fp \<noteq> []"

definition collectFingerprints :: "string \<Rightarrow> string \<Rightarrow> string \<Rightarrow> string \<Rightarrow> string \<Rightarrow> MachineFingerprint" where
  "collectFingerprints mac board cpu platformId extraFingerprint =
     \<lparr>macAddressPrimary = mac, boardSerial = board, cpuSerial = cpu,
      platformType = (if extraFingerprint \<noteq> [] then platformId @ '', '' @ extraFingerprint else platformId)\<rparr>"

definition tolower :: "char \<Rightarrow> char" where
  "tolower c =
     (let n = of_char c :: nat in if 65 \<le> n \<and> n \<le> 90 then char_of (n + 32) else c)"

definition normalize :: "string \<Rightarrow> string" where
  "normalize s = map tolower (filter (\<lambda>c. c \<notin> {CHR 0x20, CHR 0x09, CHR 0x0A, CHR 0x0D}) s)"

definition fingerprint_text :: "MachineFingerprint \<Rightarrow> string" where
  "fingerprint_text fp =
     normalize (macAddressPrimary fp) @ ''|'' @ ''|'' @ normalize (boardSerial fp) @ ''|''
     @ normalize (cpuSerial fp) @ ''|'' @ normalize (platformType fp)"

definition computeHash :: "crypto_api \<Rightarrow> MachineFingerprint \<Rightarrow> string" where
  "computeHash C fp =
     (if \<not> hasAny fp then []
      else hex False [] [] (sha256 C (ByteArray_of_chars (fingerprint_text fp))))"

section \<open>Secrets survive encryption\<close>

definition crypto_law :: "crypto_api \<Rightarrow> bool" where
  "crypto_law C \<longleftrightarrow>
     (\<forall>d. d \<noteq> [] \<longrightarrow> bio_decode C (bio_encode C d) = Some d) \<and>
     (\<forall>k iv p. let (c, t) = gcm_seal C k iv p
                in length c = length p \<and> length t = TAG_SIZE \<and> gcm_open C k iv c t = Some p)"

lemmas secret_sizes = SALT_SIZE_def AES_IV_SIZE_def TAG_SIZE_def

lemma decrypt_parts:
  assumes "length salt = SALT_SIZE" "length iv = AES_IV_SIZE" "length tag = TAG_SIZE"
  shows "let data = salt @ iv @ c @ tag
         in take SALT_SIZE data = salt \<and> take AES_IV_SIZE (drop SALT_SIZE data) = iv \<and>
            drop (length data - TAG_SIZE) data = tag \<and>
            take (length data - TAG_SIZE - (SALT_SIZE + AES_IV_SIZE)) (drop (SALT_SIZE + AES_IV_SIZE) data) = c"
  using assms by (simp add: Let_def secret_sizes)

lemma decrypt_encrypt:
  assumes "crypto_law C" "length salt = SALT_SIZE" "length iv = AES_IV_SIZE"
  shows "decryptSecret C (encryptSecret C salt iv data password) password = Ret data"
proof -
  let ?key = "pbkdf2 C password salt PBKDF2_ITERATIONS"
  obtain c t where ct: "gcm_seal C ?key iv data = (c, t)" by fastforce
  with assms(1) have t: "length t = TAG_SIZE" and o: "gcm_open C ?key iv c t = Some data"
    by (auto simp: crypto_law_def Let_def split: prod.splits)
  have "salt @ iv @ c @ t \<noteq> []" using assms(2) by (auto simp: SALT_SIZE_def)
  then have "bio_decode C (bio_encode C (salt @ iv @ c @ t)) = Some (salt @ iv @ c @ t)"
    using assms(1) by (simp add: crypto_law_def)
  then show ?thesis
    using decrypt_parts [OF assms(2,3) t, of c] o ct assms(2,3) t
    by (simp add: decryptSecret_def encryptSecret_def secret_base64Decode_def Let_def)
qed

end
