(* ===== verification/Key_Resolver.thy ===== *)
theory Key_Resolver
  imports Crypto Net_State
begin

text \<open>
  How a device gets the key it authenticates with: \<^verbatim>\<open>source/signer_key_resolver.h\<close>,
  \<^verbatim>\<open>source/nfc_tpm_key_resolver.cpp\<close>, \<^verbatim>\<open>source/soft_key_resolver.cpp\<close> and
  \<^verbatim>\<open>source/provisioning_client.cpp\<close>.

  A signer maps a digest to a signature, empty on failure; its first argument numbers its calls, as
  two signatures of one digest need not agree. The application's key store is the text
  that its load callback returns; saving replaces it. The hardware is the argument \<open>tpm\<close>: its
  identifier, serial number and signer, or nothing. The key pair that the library generates, the
  server's two replies and random bytes are inputs, and the requests sent are returned. Erasing key
  material from memory has no effect on the values here.
\<close>

type_synonym signer = "nat \<Rightarrow> ByteArray \<Rightarrow> ByteArray"

section \<open>Whole numbers from text\<close>

text \<open>\<^verbatim>\<open>std::stoull\<close>: leading white space and a sign, then digits; \<open>None\<close> where it throws.\<close>

definition is_digit :: "char \<Rightarrow> bool" where
  "is_digit c \<longleftrightarrow> c \<in> set ''0123456789''"

definition dec_number :: "string \<Rightarrow> int" where
  "dec_number s = foldl (\<lambda>v c. v * 10 + (of_char c - 48)) 0 s"

definition stoull :: "string \<Rightarrow> u64 option" where
  "stoull s =
     (let s = dropWhile isspace s;
          neg = (s \<noteq> [] \<and> hd s = CHR ''-'');
          s = (if s \<noteq> [] \<and> (hd s = CHR ''-'' \<or> hd s = CHR ''+'') then tl s else s);
          digits = takeWhile is_digit s
      in if digits = [] then None
         else if dec_number digits \<ge> 2 ^ 64 then None
         else Some (word_of_int (if neg then - dec_number digits else dec_number digits)))"

section \<open>Provisioning client\<close>

record ProvisionResult =
  pr_uuid :: string
  pr_serialNumber :: u64

record 'j prov_request =
  pq_method :: string
  pq_url :: string
  pq_header :: header
  pq_body :: "'j doc option"

definition buildProviderAuthHeaders ::
  "crypto_api \<Rightarrow> nat \<Rightarrow> string \<Rightarrow> ByteArray \<Rightarrow> string \<Rightarrow> string \<Rightarrow> header" where
  "buildProviderAuthHeaders C draw providerId providerKey serverTimestamp body =
     (let bodyHash = sha256 C (ByteArray_of_chars body);
          message = providerId @ serverTimestamp @ hex False [] [] bodyHash;
          digest = sha256 C (ByteArray_of_chars message)
      in case ecdsaSign C draw providerKey digest of
           None \<Rightarrow> []
         | Some signature \<Rightarrow>
             [(''X-Provider-ID'', providerId), (''X-Provider-Timestamp'', serverTimestamp),
              (''X-Provider-Signature'', hex False [] [] signature)])"

text \<open>A reply with an identifier and a serial number.\<close>

definition read_provision :: "'j json_api \<Rightarrow> string \<Rightarrow> ProvisionResult option" where
  "read_provision J text =
     (case j_parse J text of
        None \<Rightarrow> None
      | Some j \<Rightarrow>
          (case (Option.bind (j_at J j ''uuid'') (j_string J), Option.bind (j_at J j ''serial_number'') (j_u64 J)) of
             (Some u, Some s) \<Rightarrow> Some \<lparr>pr_uuid = u, pr_serialNumber = s\<rparr>
           | _ \<Rightarrow> None))"

definition provisioning_initiate ::
  "'j json_api \<Rightarrow> crypto_api \<Rightarrow> nat \<Rightarrow> string \<Rightarrow> string \<Rightarrow> ByteArray \<Rightarrow> string \<Rightarrow> int \<times> string
   \<Rightarrow> ProvisionResult option \<times> 'j prov_request" where
  "provisioning_initiate J C draw hostname providerId providerKey serverTimestamp response =
     (let headers = AList.update HDR_KEY_CACHE_CONTROL HDR_VAL_NO_CACHE
                      (buildProviderAuthHeaders C draw providerId providerKey serverTimestamp []);
          request = \<lparr>pq_method = REST_GET, pq_url = hostname @ ''/'' @ URL_V2_PROVISION,
                     pq_header = headers, pq_body = None\<rparr>
      in (if fst response \<noteq> 200 then None else read_provision J (snd response), request))"

text \<open>The reply's status is only read to be logged, but a status that is no text throws.\<close>

definition read_confirmation :: "'j json_api \<Rightarrow> string \<Rightarrow> ProvisionResult option" where
  "read_confirmation J text =
     (case read_provision J text of
        None \<Rightarrow> None
      | Some r \<Rightarrow>
          (case Option.bind (j_parse J text) (\<lambda>j.
             case j_value J (j_string J) j ''status'' [] of Ret s \<Rightarrow> Some s | _ \<Rightarrow> None) of
             None \<Rightarrow> None | Some _ \<Rightarrow> Some r))"

definition provisioning_confirm ::
  "'j json_api \<Rightarrow> ('j doc \<Rightarrow> string) \<Rightarrow> crypto_api \<Rightarrow> nat \<Rightarrow> string \<Rightarrow> ProvisionResult \<Rightarrow> string \<Rightarrow> string \<Rightarrow> string
   \<Rightarrow> string \<Rightarrow> ByteArray \<Rightarrow> string \<Rightarrow> int \<times> string \<Rightarrow> (ProvisionResult option \<times> 'j prov_request) res" where
  "provisioning_confirm J dump C draw hostname initiated publicKeyHex deviceSignatureHex ts providerId
     providerKey fingerprintHash response =
     res_bind (or_exn (stoull ts)) (\<lambda>stamp.
       let body = DObj [(''uuid'', DStr (pr_uuid initiated)), (''public_key'', DStr publicKeyHex),
                        (''timestamp'', DInt (uint stamp)), (''signature'', DStr deviceSignatureHex),
                        (''key_source'', DStr ''soft_key'')];
           headers = buildProviderAuthHeaders C draw providerId providerKey ts (dump body);
           headers = AList.update HDR_KEY_CONTENT_TYPE HDR_VAL_CONTENT_JSON headers;
           headers = AList.update HDR_KEY_CACHE_CONTROL HDR_VAL_NO_CACHE headers;
           headers = (if fingerprintHash \<noteq> []
                      then AList.update HDR_KEY_FINGERPRINT_HASH fingerprintHash headers else headers);
           request = \<lparr>pq_method = REST_POST, pq_url = hostname @ ''/'' @ URL_V2_PROVISION,
                      pq_header = headers, pq_body = Some body\<rparr>
       in Ret (if fst response \<noteq> 200 \<and> fst response \<noteq> 201 then None
               else read_confirmation J (snd response), request))"

section \<open>Keys in software\<close>

record SoftKeyResolver =
  m_encryptedDeviceKey :: string
  m_deviceKeyPassword :: string

definition SoftKeyResolver_new :: SoftKeyResolver where
  "SoftKeyResolver_new = \<lparr>m_encryptedDeviceKey = [], m_deviceKeyPassword = []\<rparr>"

definition ECDSA_P256_KEY_SIZE :: nat where
  "ECDSA_P256_KEY_SIZE = 32"

definition buildHmacMessage :: "string \<Rightarrow> string \<Rightarrow> u64 \<Rightarrow> string \<Rightarrow> string" where
  "buildHmacMessage provider' uuid serial encryptedKey' =
     provider' @ uuid @ to_string (uint serial) @ encryptedKey'"

definition soft_createSigner :: "crypto_api \<Rightarrow> SoftKeyResolver \<Rightarrow> nat \<Rightarrow> ByteArray \<Rightarrow> ByteArray res" where
  "soft_createSigner C r n digest =
     res_bind (decryptSecret C (m_encryptedDeviceKey r) (m_deviceKeyPassword r)) (\<lambda>decrypted.
       if decrypted = [] then Ret []
       else case ecdsaSign C n decrypted digest of None \<Rightarrow> Ret [] | Some sig \<Rightarrow> Ret sig)"

record stored_key =
  sk_encrypted :: string
  sk_uuid :: string
  sk_serial :: u64
  sk_provider :: string
  sk_hmac :: string

definition read_stored_key :: "'j json_api \<Rightarrow> string \<Rightarrow> stored_key option" where
  "read_stored_key J keyData =
     (case j_parse J keyData of
        None \<Rightarrow> None
      | Some j \<Rightarrow>
          let str = (\<lambda>k. Option.bind (j_at J j k) (j_string J)) in
          (case (str ''encrypted_key'', str ''uuid'', Option.bind (j_at J j ''serial_number'') (j_u64 J),
                 str ''provider'', str ''hmac'') of
             (Some e, Some u, Some s, Some p, Some h) \<Rightarrow>
               Some \<lparr>sk_encrypted = e, sk_uuid = u, sk_serial = s, sk_provider = p, sk_hmac = h\<rparr>
           | _ \<Rightarrow> None))"

text \<open>The result with the updated resolver and device.\<close>

definition tryLoadKey ::
  "'j json_api \<Rightarrow> crypto_api \<Rightarrow> string \<Rightarrow> SoftKeyResolver \<Rightarrow> DeviceInfo \<Rightarrow> bool \<times> SoftKeyResolver \<times> DeviceInfo" where
  "tryLoadKey J C keyData r info =
     (if \<not> loadKeyCallback info then (False, r, info)
      else if keyData = [] then (False, r, info)
      else case read_stored_key J keyData of
             None \<Rightarrow> (False, r, info)
           | Some k \<Rightarrow>
               if sk_provider k \<noteq> provider info then (False, r, info)
               else
                 let expectedHmac = computeHmac C (buildHmacMessage (sk_provider k) (sk_uuid k) (sk_serial k)
                                      (sk_encrypted k)) (m_deviceKeyPassword r)
                 in if sk_hmac k \<noteq> expectedHmac then (False, r, info)
                    else case decryptSecret C (sk_encrypted k) (m_deviceKeyPassword r) of
                           Ret decrypted \<Rightarrow>
                             if decrypted = [] then (False, r, info)
                             else if length decrypted \<noteq> ECDSA_P256_KEY_SIZE then (False, r, info)
                             else (True, r\<lparr>m_encryptedDeviceKey := sk_encrypted k\<rparr>,
                                   info\<lparr>di_uuid := sk_uuid k, serialNumber := sk_serial k\<rparr>)
                         | _ \<Rightarrow> (False, r, info))"

text \<open>What provisioning draws from outside: the new key pair, salt and nonce, the two replies and the
  fingerprint hash.\<close>

record provision_io =
  io_keyPair :: "(ByteArray \<times> ByteArray) option"
  io_salt :: ByteArray
  io_draw :: "nat \<Rightarrow> nat"
  io_iv :: ByteArray
  io_initiate :: "int \<times> string"
  io_confirm :: "int \<times> string"
  io_fingerprint :: string

definition stored_key_doc :: "stored_key \<Rightarrow> 'j doc" where
  "stored_key_doc k =
     DObj [(''encrypted_key'', DStr (sk_encrypted k)), (''uuid'', DStr (sk_uuid k)),
           (''serial_number'', DInt (uint (sk_serial k))), (''provider'', DStr (sk_provider k)),
           (''hmac'', DStr (sk_hmac k))]"

record 'j resolve_result =
  rr_ok :: bool
  rr_resolver :: SoftKeyResolver
  rr_info :: DeviceInfo
  rr_saved :: "string option"
  rr_requests :: "'j prov_request list"

text \<open>The confirmation of a new device: signing its identifier and sending its public key.\<close>

definition provisioning_message :: "string \<Rightarrow> string \<Rightarrow> ByteArray" where
  "provisioning_message uuid serverTimestamp =
     ByteArray_of_hex (removeSymbols uuid ''-{}'') @ ByteArray_of_chars serverTimestamp"

definition save_new_key ::
  "('j doc \<Rightarrow> string) \<Rightarrow> crypto_api \<Rightarrow> provision_io \<Rightarrow> ByteArray \<Rightarrow> ProvisionResult \<Rightarrow> 'j prov_request list
   \<Rightarrow> SoftKeyResolver \<Rightarrow> DeviceInfo \<Rightarrow> 'j resolve_result" where
  "save_new_key dump C io privateKey confirmed reqs r info =
     (let encDevKey = encryptSecret C (io_salt io) (io_iv io) privateKey (m_deviceKeyPassword r);
          info = info\<lparr>di_uuid := pr_uuid confirmed, serialNumber := pr_serialNumber confirmed\<rparr>;
          r = r\<lparr>m_encryptedDeviceKey := encDevKey\<rparr>;
          hmac = computeHmac C (buildHmacMessage (provider info) (pr_uuid confirmed)
                   (pr_serialNumber confirmed) encDevKey) (m_deviceKeyPassword r);
          k = \<lparr>sk_encrypted = encDevKey, sk_uuid = pr_uuid confirmed, sk_serial = pr_serialNumber confirmed,
               sk_provider = provider info, sk_hmac = hmac\<rparr>
      in \<lparr>rr_ok = True, rr_resolver = r, rr_info = info,
          rr_saved = (if saveKeyCallback info then Some (dump (stored_key_doc k)) else None),
          rr_requests = reqs\<rparr>)"

definition provisionNewKey ::
  "'j json_api \<Rightarrow> ('j doc \<Rightarrow> string) \<Rightarrow> crypto_api \<Rightarrow> provision_io \<Rightarrow> ByteArray \<Rightarrow> string
   \<Rightarrow> SoftKeyResolver \<Rightarrow> DeviceInfo \<Rightarrow> 'j resolve_result res" where
  "provisionNewKey J dump C io providerKey serverTimestamp r info =
     (let failed = (\<lambda>reqs. Ret \<lparr>rr_ok = False, rr_resolver = r, rr_info = info, rr_saved = None,
                                  rr_requests = reqs\<rparr>)
      in case io_keyPair io of
           None \<Rightarrow> failed []
         | Some (publicKey, privateKey) \<Rightarrow>
             let (result, q1) = provisioning_initiate J C (io_draw io 0) (di_hostname info) (provider info) providerKey
                                  serverTimestamp (io_initiate io)
             in case result of
                  None \<Rightarrow> failed [q1]
                | Some res \<Rightarrow>
                    (case ecdsaSign C (io_draw io 1) privateKey
                            (sha256 C (provisioning_message (pr_uuid res) serverTimestamp)) of
                       None \<Rightarrow> failed [q1]
                     | Some deviceSignature \<Rightarrow>
                         res_bind (provisioning_confirm J dump C (io_draw io 2) (di_hostname info) res
                             (hex False [] [] (tl publicKey)) (hex False [] [] deviceSignature)
                             serverTimestamp (provider info) providerKey (io_fingerprint io) (io_confirm io))
                           (\<lambda>(confirmed, q2).
                              case confirmed of
                                None \<Rightarrow> failed [q1, q2]
                              | Some c \<Rightarrow> Ret (save_new_key dump C io privateKey c [q1, q2] r info))))"

definition soft_tryResolve ::
  "'j json_api \<Rightarrow> ('j doc \<Rightarrow> string) \<Rightarrow> crypto_api \<Rightarrow> string \<Rightarrow> provision_io \<Rightarrow> string \<Rightarrow> string
   \<Rightarrow> SoftKeyResolver \<Rightarrow> DeviceInfo \<Rightarrow> 'j resolve_result res" where
  "soft_tryResolve J dump C secret io keyData serverTimestamp r info =
     (if \<not> hasSoftKeyProvisioning info
      then Ret \<lparr>rr_ok = False, rr_resolver = r, rr_info = info, rr_saved = None, rr_requests = []\<rparr>
      else res_bind (decryptSecret C (encryptedKey info) (provider info @ secret)) (\<lambda>providerKey.
        if providerKey = []
        then Ret \<lparr>rr_ok = False, rr_resolver = r, rr_info = info, rr_saved = None, rr_requests = []\<rparr>
        else let r = r\<lparr>m_deviceKeyPassword := hex False [] [] providerKey\<rparr>;
                 (loaded, r1, info1) = tryLoadKey J C keyData r info
             in if loaded
                then Ret \<lparr>rr_ok = True, rr_resolver = r1, rr_info = info1, rr_saved = None, rr_requests = []\<rparr>
                else res_bind (provisionNewKey J dump C io providerKey serverTimestamp r1 info1) (\<lambda>rr.
                  Ret (if rr_ok rr then rr
                       else rr\<lparr>rr_resolver := (rr_resolver rr)\<lparr>m_deviceKeyPassword := []\<rparr>\<rparr>))))"

section \<open>Other keys\<close>

definition signer_tryResolve :: "(string \<Rightarrow> string) \<Rightarrow> signer option \<Rightarrow> DeviceInfo \<Rightarrow> bool \<times> DeviceInfo" where
  "signer_tryResolve parse_uuid m_signer info =
     (if m_signer = None then (False, info)
      else if di_uuid info = [] then (False, info)
      else let info = info\<lparr>di_uuid := parse_uuid (di_uuid info)\<rparr>
           in (di_uuid info \<noteq> [], info))"

definition nfc_tryResolve :: "(string \<times> u64 \<times> signer) option \<Rightarrow> DeviceInfo \<Rightarrow> bool \<times> DeviceInfo" where
  "nfc_tryResolve tpm info =
     (case tpm of
        None \<Rightarrow> (False, info)
      | Some (uuid, serial, _) \<Rightarrow> (True, info\<lparr>di_uuid := uuid, serialNumber := serial\<rparr>))"

end
