(* ===== verification/Jwt.thy ===== *)
theory Jwt
  imports Json
begin

text \<open>
  \<^verbatim>\<open>source/utils/jwt_parser.cpp\<close>: the expiration time inside an access token.

  The base64 decoder of the TLS library is a parameter \<open>b64\<close>, the bytes it can decode from a text;
  \<^verbatim>\<open>BIO_read\<close> hands over at most the size of the buffer. System time counts nanoseconds in 64 bits
  with sign: a conversion that overflows is undefined behaviour (\<open>Undef\<close>).
\<close>

text \<open>\<^verbatim>\<open>std::getline(stream, s, '.')\<close> fails if no character is left.\<close>

definition getline :: "string \<Rightarrow> (string \<times> string) option" where
  "getline s =
     (if s = [] then None
      else Some (takeWhile (\<lambda>c. c \<noteq> CHR ''.'') s, tl (dropWhile (\<lambda>c. c \<noteq> CHR ''.'') s)))"

definition jwt_payload :: "string \<Rightarrow> string option" where
  "jwt_payload jwtToken =
     (case getline jwtToken of
        None \<Rightarrow> None
      | Some (header, rest) \<Rightarrow>
          (case getline rest of
             None \<Rightarrow> None
           | Some (payload, rest) \<Rightarrow>
               (case getline rest of None \<Rightarrow> None | Some (signature, _) \<Rightarrow> Some payload)))"

function pad_payload :: "string \<Rightarrow> string" where
  "pad_payload payload = (if length payload mod 4 \<noteq> 0 then pad_payload (payload @ ''='') else payload)"
  by pat_completeness auto
termination
proof (relation "measure (\<lambda>s. (4 - length s mod 4) mod 4)")
  fix payload :: string
  assume "length payload mod 4 \<noteq> 0"
  then have "length payload mod 4 = 1 \<or> length payload mod 4 = 2 \<or> length payload mod 4 = 3"
    by (auto simp: mod_less_divisor)
  then show "(payload @ ''='', payload) \<in> measure (\<lambda>s. (4 - length s mod 4) mod 4)"
    by (auto simp: mod_Suc)
qed simp

declare pad_payload.simps [simp del]

definition base64_alphabet :: "string \<Rightarrow> string" where
  "base64_alphabet payload =
     map (\<lambda>c. if c = CHR ''_'' then CHR ''/'' else c) (map (\<lambda>c. if c = CHR ''-'' then CHR ''+'' else c) payload)"

definition BUFFER_SIZE :: nat where
  "BUFFER_SIZE = 1024"

definition base64Decode :: "(string \<Rightarrow> string) \<Rightarrow> string \<Rightarrow> string" where
  "base64Decode b64 input = take BUFFER_SIZE (b64 input)"

definition from_time_t :: "i64 \<Rightarrow> time_point res" where
  "from_time_t t =
     (let ns = seconds (sint t) in if - (2 ^ 63) \<le> ns \<and> ns < 2 ^ 63 then Ret ns else Undef)"

definition parseJwtExpiration ::
  "'j json_api \<Rightarrow> (string \<Rightarrow> string) \<Rightarrow> string \<Rightarrow> time_point option res" where
  "parseJwtExpiration J b64 jwtToken =
     (case jwt_payload jwtToken of
        None \<Rightarrow> Ret None
      | Some payload \<Rightarrow>
          let decodedPayload = base64Decode b64 (base64_alphabet (pad_payload payload))
          in if decodedPayload = [] then Ret None
             else case j_parse J decodedPayload of
                    None \<Rightarrow> Ret None
                  | Some json \<Rightarrow>
                      (case j_find_if J (j_is_number J) json ''exp'' of
                         None \<Rightarrow> Ret None
                       | Some e \<Rightarrow>
                           (case j_i64 J e of
                              None \<Rightarrow> Ret None
                            | Some expTimestamp \<Rightarrow>
                                res_bind (from_time_t expTimestamp) (\<lambda>t. Ret (Some t)))))"

definition isJwtTokenExpired ::
  "'j json_api \<Rightarrow> (string \<Rightarrow> string) \<Rightarrow> time_point \<Rightarrow> string \<Rightarrow> bool res" where
  "isJwtTokenExpired J b64 now jwtToken =
     res_bind (parseJwtExpiration J b64 jwtToken)
       (\<lambda>expiration. Ret (case expiration of None \<Rightarrow> True | Some t \<Rightarrow> now \<ge> t))"

text \<open>The duration is in whole seconds.\<close>

definition getJwtTokenTimeUntilExpiration ::
  "'j json_api \<Rightarrow> (string \<Rightarrow> string) \<Rightarrow> time_point \<Rightarrow> string \<Rightarrow> int option res" where
  "getJwtTokenTimeUntilExpiration J b64 now jwtToken =
     res_bind (parseJwtExpiration J b64 jwtToken)
       (\<lambda>expiration. Ret (case expiration of
          None \<Rightarrow> None
        | Some t \<Rightarrow> if now \<ge> t then Some 0 else Some ((t - now) div seconds 1)))"

section \<open>Properties\<close>

lemma pad_payload_length: "length (pad_payload s) mod 4 = 0"
  by (induction s rule: pad_payload.induct) (subst pad_payload.simps, simp)

lemma pad_payload_append: "\<exists>k < 4. pad_payload s = s @ replicate k CHR ''=''"
proof -
  have "\<exists>k. k = (4 - length s mod 4) mod 4 \<and> pad_payload s = s @ replicate k CHR ''=''"
  proof (induction s rule: pad_payload.induct)
    case (1 s)
    show ?case
    proof (cases "length s mod 4 = 0")
      case True
      then show ?thesis by (subst pad_payload.simps) simp
    next
      case False
      then have "Suc ((4 - length (s @ ''='') mod 4) mod 4) = (4 - length s mod 4) mod 4"
        using mod_less_divisor [of 4 "length s"] by (auto simp: mod_Suc)
      with 1 [OF False] False show ?thesis
        by (subst pad_payload.simps) (metis append.assoc append_Cons append_Nil replicate_Suc)
    qed
  qed
  then show ?thesis by (metis mod_less_divisor zero_less_numeral)
qed

lemma seconds_div: "seconds (x div seconds 1) \<le> x \<and> x < seconds (x div seconds 1 + 1)"
proof -
  have "x = x div 1000000000 * 1000000000 + x mod 1000000000" by simp
  moreover have "0 \<le> x mod 1000000000" "x mod 1000000000 < 1000000000" by simp_all
  ultimately show ?thesis unfolding seconds_def by (simp add: distrib_right del: div_mult_mod_eq) linarith
qed

lemma getline_part: "CHR ''.'' \<notin> set h \<Longrightarrow> getline (h @ CHR ''.'' # r) = Some (h, r)"
proof -
  assume "CHR ''.'' \<notin> set h"
  then have "takeWhile (\<lambda>c. c \<noteq> CHR ''.'') (h @ CHR ''.'' # r) = h"
    "dropWhile (\<lambda>c. c \<noteq> CHR ''.'') (h @ CHR ''.'' # r) = CHR ''.'' # r"
    by (induction h) auto
  then show ?thesis by (simp add: getline_def)
qed

lemma jwt_payload_parts:
  assumes "CHR ''.'' \<notin> set h" "CHR ''.'' \<notin> set p" "s \<noteq> []"
  shows "jwt_payload (h @ CHR ''.'' # p @ CHR ''.'' # s) = Some p"
  using assms by (simp add: jwt_payload_def getline_part) (simp add: getline_def)

text \<open>
  The expiration of a token is read exactly: for a token of three parts whose padded payload
  decodes to JSON with a number \<^verbatim>\<open>exp\<close>, within the buffer and the range of the clock, the result is that
  second; the token counts as expired exactly from then on; and the time left is zero once expired
  and at most the true difference before.
\<close>

theorem jwt_expiration_exact:
  assumes "CHR ''.'' \<notin> set h" "CHR ''.'' \<notin> set p" "s \<noteq> []"
    "b64 (base64_alphabet (pad_payload p)) = d" "d \<noteq> []" "length d \<le> 1024"
    "j_parse J d = Some json" "j_find_if J (j_is_number J) json ''exp'' = Some e" "j_i64 J e = Some t"
    "\<bar>sint t\<bar> \<le> 9000000000"
  shows "let token = h @ CHR ''.'' # p @ CHR ''.'' # s; at = seconds (sint t)
         in parseJwtExpiration J b64 token = Ret (Some at) \<and>
            isJwtTokenExpired J b64 now token = Ret (at \<le> now) \<and>
            (\<exists>left. getJwtTokenTimeUntilExpiration J b64 now token = Ret (Some left) \<and> 0 \<le> left \<and>
               (if at \<le> now then left = 0 else seconds left \<le> at - now \<and> at - now < seconds (left + 1)))"
proof -
  let ?token = "h @ CHR ''.'' # p @ CHR ''.'' # s"
  have "base64Decode b64 (base64_alphabet (pad_payload p)) = d"
    using assms(4,6) by (simp add: base64Decode_def BUFFER_SIZE_def)
  moreover have "from_time_t t = Ret (seconds (sint t))"
    using assms(10) by (simp add: from_time_t_def seconds_def Let_def abs_le_iff)
  ultimately have e: "parseJwtExpiration J b64 ?token = Ret (Some (seconds (sint t)))"
    using assms by (simp add: parseJwtExpiration_def jwt_payload_parts)
  let ?q = "(seconds (sint t) - now) div seconds 1"
  have "seconds ?q \<le> seconds (sint t) - now \<and> seconds (sint t) - now < seconds (?q + 1)"
    by (rule seconds_div)
  moreover have "now < seconds (sint t) \<Longrightarrow> 0 \<le> ?q" by (simp add: seconds_def pos_imp_zdiv_nonneg_iff)
  ultimately show ?thesis
    using e by (auto simp: Let_def isJwtTokenExpired_def getJwtTokenTimeUntilExpiration_def)
qed

text \<open>
  A token whose payload decodes to more than 1024 bytes has no readable expiration: only the first
  1024 bytes reach the JSON parser, which rejects a text that breaks off.
\<close>

theorem long_token_unreadable:
  assumes "jwt_payload token = Some p" "length (b64 (base64_alphabet (pad_payload p))) > 1024"
    "j_parse J (take 1024 (b64 (base64_alphabet (pad_payload p)))) = None"
  shows "parseJwtExpiration J b64 token = Ret None \<and> isJwtTokenExpired J b64 now token = Ret True \<and>
    getJwtTokenTimeUntilExpiration J b64 now token = Ret None"
  using assms by (simp add: parseJwtExpiration_def isJwtTokenExpired_def getJwtTokenTimeUntilExpiration_def
      base64Decode_def BUFFER_SIZE_def Let_def)

section \<open>An instance\<close>

definition exp_json :: "jval json_api" where
  "exp_json = jval_api\<lparr>j_parse := (\<lambda>s. if s = ''exp'' then Some (JObj [(''exp'', JInt 60)]) else None)\<rparr>"

theorem jwt_expiration_exact_witness:
  "parseJwtExpiration exp_json (\<lambda>_. ''exp'') ''h.p.s'' = Ret (Some (seconds 60)) \<and>
   isJwtTokenExpired exp_json (\<lambda>_. ''exp'') 0 ''h.p.s'' = Ret False"
proof -
  have p: "j_parse exp_json ''exp'' = Some (JObj [(''exp'', JInt 60)])" by (simp add: exp_json_def)
  have f: "j_find_if exp_json (j_is_number exp_json) (JObj [(''exp'', JInt 60)]) ''exp'' = Some (JInt 60)"
    by (simp add: exp_json_def j_find_if_def jval_api_def jval_get_def)
  have t: "j_i64 exp_json (JInt 60) = Some 60" by (simp add: exp_json_def jval_api_def)
  show ?thesis
    using jwt_expiration_exact [of "''h''" "''p''" "''s''" "\<lambda>_. ''exp''" "''exp''", OF _ _ _ refl _ _ p f t, of 0]
    by (simp add: Let_def seconds_def)
qed

theorem long_token_unreadable_witness:
  "parseJwtExpiration exp_json (\<lambda>_. replicate 2000 CHR ''a'') ''h.p.s'' = Ret None"
proof -
  have "jwt_payload ''h.p.s'' = Some ''p''" by (simp add: jwt_payload_def getline_def)
  moreover have "take 1024 (replicate 2000 CHR ''a'') \<noteq> ''exp''" by (simp add: list_eq_iff_nth_eq)
  then have "j_parse exp_json (take 1024 (replicate 2000 CHR ''a'')) = None" by (simp add: exp_json_def)
  ultimately show ?thesis
    using long_token_unreadable [of "''h.p.s''" "''p''" "\<lambda>_. replicate 2000 CHR ''a''" exp_json] by simp
qed

end
