(* ===== verification/Net_Auth.thy ===== *)
theory Net_Auth
  imports Key_Resolver Jwt Net_Pairing
begin

text \<open>
  Authentication in \<^verbatim>\<open>source/net.cpp\<close>: resolving the key, the task that gets an access token, and the timer
  that renews it.

  The task runs for as long as the network fails, so its world is a list of turns: what the server
  answers to each attempt and whether the device was told to stop meanwhile. \<open>None\<close> means that the task
  is still running when the turns are used up. \<open>auth_env\<close> collects what lies outside: the JSON and
  cryptographic libraries, the readers of identifiers and of HTTP dates, the hardware key and the
  build's secret. The application's key store is the field \<open>key_store\<close>. Pauses between attempts have no
  effect on the state.
\<close>

type_synonym net_signer = "nat \<Rightarrow> ByteArray \<Rightarrow> ByteArray res"

datatype key_resolver = RSigner signer | RNfcTpm | RSoftKey SoftKeyResolver

record 'j AuthNet =
  au_net :: "'j Net"
  m_signer :: "net_signer option"
  m_keyResolvers :: "key_resolver list"
  m_fingerprint :: MachineFingerprint
  key_store :: string
  time_checked :: bool
  time_sets :: "int list"
  token_requests :: "'j doc list"
  prov_requests :: "'j prov_request list"

record 'j auth_env =
  ae_json :: "'j json_api"
  ae_dump :: "'j doc \<Rightarrow> string"
  ae_crypto :: crypto_api
  ae_b64 :: "string \<Rightarrow> string"
  ae_secret :: string
  ae_parse_uuid :: "string \<Rightarrow> string"
  ae_parse_date :: "string \<Rightarrow> int"
  ae_tpm :: "(string \<times> u64 \<times> signer) option"

record noop_turn =
  nt_stop :: bool
  nt_date :: string
  nt_clock :: Clock

record auth_turn =
  at_stop :: bool
  at_code :: int
  at_text :: string
  at_date :: string
  at_clock :: Clock
  at_io :: provision_io

definition on_net :: "('j Net \<Rightarrow> 'j Net) \<Rightarrow> 'j AuthNet \<Rightarrow> 'j AuthNet" where
  "on_net f a = a\<lparr>au_net := f (au_net a)\<rparr>"

definition set_status :: "AuthStatus \<Rightarrow> 'j Net \<Rightarrow> 'j Net" where
  "set_status st n = n\<lparr>m_status := st\<rparr>"

section \<open>Signing\<close>

definition auth_message :: "string \<Rightarrow> string \<Rightarrow> ByteArray" where
  "auth_message uuid ts = ByteArray_of_hex (removeSymbols uuid ''-{}'') @ ByteArray_of_chars ts"

text \<open>Calling an empty \<^verbatim>\<open>std::function\<close> throws.\<close>

definition getSignature :: "crypto_api \<Rightarrow> net_signer option \<Rightarrow> nat \<Rightarrow> string \<Rightarrow> string \<Rightarrow> string res" where
  "getSignature C sg n uuid ts =
     (let digest = sha256 C (auth_message uuid ts)
      in case sg of
           None \<Rightarrow> Exn
         | Some f \<Rightarrow> res_bind (f n digest) (\<lambda>signature. Ret (hex False [] [] signature)))"

section \<open>Resolving the key\<close>

definition apply_resolved :: "'j resolve_result \<Rightarrow> 'j AuthNet \<Rightarrow> 'j AuthNet" where
  "apply_resolved rr a =
     a\<lparr>au_net := (au_net a)\<lparr>m_deviceInfo := rr_info rr\<rparr>,
       key_store := (case rr_saved rr of None \<Rightarrow> key_store a | Some text \<Rightarrow> text),
       prov_requests := prov_requests a @ rr_requests rr\<rparr>"

definition set_info :: "DeviceInfo \<Rightarrow> 'j AuthNet \<Rightarrow> 'j AuthNet" where
  "set_info info a = on_net (\<lambda>n. n\<lparr>m_deviceInfo := info\<rparr>) a"

text \<open>\<^verbatim>\<open>tryResolve\<close> of one resolver, with the signer it would create.\<close>

fun tryResolve ::
  "'j auth_env \<Rightarrow> provision_io \<Rightarrow> string \<Rightarrow> key_resolver \<Rightarrow> 'j AuthNet \<Rightarrow> (net_signer option \<times> 'j AuthNet) res" where
  "tryResolve E io ts (RSigner f) a =
     (let (ok, info) = signer_tryResolve (ae_parse_uuid E) (Some f) (m_deviceInfo (au_net a))
      in Ret (if ok then Some (\<lambda>n d. Ret (f n d)) else None, set_info info a))"
| "tryResolve E io ts RNfcTpm a =
     (let (ok, info) = nfc_tryResolve (ae_tpm E) (m_deviceInfo (au_net a))
      in Ret (case ae_tpm E of None \<Rightarrow> None | Some (_, _, f) \<Rightarrow> Some (\<lambda>n d. Ret (f n d)), set_info info a))"
| "tryResolve E io ts (RSoftKey r) a =
     res_bind (soft_tryResolve (ae_json E) (ae_dump E) (ae_crypto E) (ae_secret E) io (key_store a) ts r
         (m_deviceInfo (au_net a)))
       (\<lambda>rr. Ret (if rr_ok rr then Some (soft_createSigner (ae_crypto E) (rr_resolver rr)) else None,
                  apply_resolved rr a))"

definition normalise_uuid :: "'j auth_env \<Rightarrow> 'j AuthNet \<Rightarrow> bool \<times> 'j AuthNet" where
  "normalise_uuid E a =
     (let info = m_deviceInfo (au_net a)
      in if di_uuid info \<noteq> []
         then let info = info\<lparr>di_uuid := ae_parse_uuid E (di_uuid info)\<rparr>
              in (di_uuid info \<noteq> [], set_info info a)
         else (True, a))"

fun resolve_loop ::
  "'j auth_env \<Rightarrow> provision_io \<Rightarrow> string \<Rightarrow> key_resolver list \<Rightarrow> 'j AuthNet \<Rightarrow> (bool \<times> 'j AuthNet) res" where
  "resolve_loop E io ts [] a = Ret (False, a\<lparr>m_keyResolvers := []\<rparr>)"
| "resolve_loop E io ts (r # rs) a =
     res_bind (tryResolve E io ts r a) (\<lambda>(sg, a).
       case sg of
         None \<Rightarrow> resolve_loop E io ts rs a
       | Some f \<Rightarrow> Ret (normalise_uuid E (a\<lparr>m_signer := Some f, m_keyResolvers := []\<rparr>)))"

definition use_hostname :: "'j Net \<Rightarrow> 'j Net" where
  "use_hostname n = n\<lparr>m_deviceInfo := (m_deviceInfo n)\<lparr>di_hostname := m_hostname n\<rparr>\<rparr>"

definition resolveKeys ::
  "'j auth_env \<Rightarrow> provision_io \<Rightarrow> string \<Rightarrow> 'j AuthNet \<Rightarrow> (bool \<times> 'j AuthNet) res" where
  "resolveKeys E io ts a =
     (let a = on_net use_hostname a in resolve_loop E io ts (m_keyResolvers a) a)"

definition reprovisionSoftKey ::
  "'j auth_env \<Rightarrow> provision_io \<Rightarrow> string \<Rightarrow> 'j AuthNet \<Rightarrow> (bool \<times> 'j AuthNet) res" where
  "reprovisionSoftKey E io ts a =
     (if \<not> hasSoftKeyProvisioning (m_deviceInfo (au_net a)) then Ret (False, a)
      else let a = (on_net use_hostname a)\<lparr>key_store := [], m_signer := None\<rparr>
           in res_bind (tryResolve E io ts (RSoftKey SoftKeyResolver_new) a) (\<lambda>(sg, a).
                case sg of
                  None \<Rightarrow> Ret (False, a)
                | Some f \<Rightarrow>
                    (case normalise_uuid E a of
                       (False, a) \<Rightarrow> Ret (False, a)
                     | (True, a) \<Rightarrow> Ret (True, a\<lparr>m_signer := Some f\<rparr>))))"

section \<open>Time\<close>

definition MAX_SYSTEM_TIME_DRIFT_SECONDS :: int where
  "MAX_SYSTEM_TIME_DRIFT_SECONDS = 20"
definition VIABLE_TIMESTAMP :: int where
  "VIABLE_TIMESTAMP = 1770153380"

definition checkSystemTimeAccuracy :: "Clock \<Rightarrow> int \<Rightarrow> 'j AuthNet \<Rightarrow> 'j AuthNet" where
  "checkSystemTimeAccuracy c ts a =
     (if time_checked a then a
      else let a = a\<lparr>time_checked := True\<rparr>;
               systemTime = c_system c div seconds 1;
               delta = \<bar>systemTime - ts\<bar>
           in if delta > MAX_SYSTEM_TIME_DRIFT_SECONDS then a\<lparr>time_sets := time_sets a @ [ts]\<rparr> else a)"

definition stopping :: "bool \<Rightarrow> 'j AuthNet \<Rightarrow> 'j AuthNet" where
  "stopping b a = on_net (\<lambda>n. n\<lparr>m_stop := m_stop n \<or> b\<rparr>) a"

text \<open>The server's time: at most ten requests.\<close>

fun server_time ::
  "'j auth_env \<Rightarrow> nat \<Rightarrow> noop_turn list \<Rightarrow> 'j AuthNet \<Rightarrow> (string \<times> 'j AuthNet) option" where
  "server_time E 0 turns a = Some ([], a)"
| "server_time E (Suc k) [] a = (if m_stop (au_net a) then Some ([], a) else None)"
| "server_time E (Suc k) (t # turns) a =
     (let a = stopping (nt_stop t) a
      in if m_stop (au_net a) then Some ([], a)
         else let timestampUtc = ae_parse_date E (nt_date t)
              in if timestampUtc > VIABLE_TIMESTAMP
                 then Some (to_string timestampUtc, checkSystemTimeAccuracy (nt_clock t) timestampUtc a)
                 else server_time E k turns a)"

section \<open>Renewing the token\<close>

definition REFRESH_TOKEN_BEFORE_EXPIRY :: int where
  "REFRESH_TOKEN_BEFORE_EXPIRY = 5 * 60"

definition startTokenRefreshTimer :: "'j auth_env \<Rightarrow> Clock \<Rightarrow> 'j Net \<Rightarrow> 'j Net res" where
  "startTokenRefreshTimer E c n =
     res_bind (getJwtTokenTimeUntilExpiration (ae_json E) (ae_b64 E) (c_system c) (m_stoken n))
       (\<lambda>timeUntilExpiration.
          case timeUntilExpiration of
            None \<Rightarrow> Ret n
          | Some left \<Rightarrow>
              Ret (if left > REFRESH_TOKEN_BEFORE_EXPIRY
                   then out [OStartTimer TokenRefresh (seconds (left - REFRESH_TOKEN_BEFORE_EXPIRY)) TTokenRefresh] n
                   else n))"

definition authenticate :: "'j Net \<Rightarrow> 'j Net" where
  "authenticate n = out [OPost Pool TAuthenticate] n"

definition token_refresh_task :: "'j Net \<Rightarrow> 'j Net" where
  "token_refresh_task n = authenticate (n\<lparr>m_isRefreshingToken := True\<rparr>)"

section \<open>The authentication task\<close>

definition fingerprint_doc :: "MachineFingerprint \<Rightarrow> 'j doc" where
  "fingerprint_doc fp =
     DObj (concat [if macAddressPrimary fp = [] then [] else [(''mac_address_primary'', DStr (macAddressPrimary fp))],
                   if boardSerial fp = [] then [] else [(''board_serial'', DStr (boardSerial fp))],
                   if cpuSerial fp = [] then [] else [(''cpu_serial'', DStr (cpuSerial fp))],
                   if platformType fp = [] then [] else [(''platform_type'', DStr (platformType fp))]])"

definition token_request :: "string \<Rightarrow> string \<Rightarrow> 'j AuthNet \<Rightarrow> 'j doc" where
  "token_request ts signature a =
     (let di = m_deviceInfo (au_net a)
      in DObj ([(JKEY_AUTH_PROVIDER, DStr (provider di)), (JKEY_AUTH_UUID, DStr (di_uuid di)),
                (JKEY_AUTH_TIMESTAMP, DStr ts), (JKEY_AUTH_SIGNATURE, DStr signature),
                (JKEY_AUTH_SERIAL_NUMBER, DInt 0)]
               @ (if hasAny (m_fingerprint a) then [(''fingerprint'', fingerprint_doc (m_fingerprint a))] else [])))"

definition send_token_request :: "string \<Rightarrow> string \<Rightarrow> 'j AuthNet \<Rightarrow> 'j AuthNet" where
  "send_token_request ts signature a =
     (let n = au_net a;
          hdr = [(HDR_KEY_CONTENT_TYPE, HDR_VAL_CONTENT_JSON)];
          hdr = (if m_fingerprintHash n \<noteq> [] then AList.update HDR_KEY_FINGERPRINT_HASH (m_fingerprintHash n) hdr else hdr)
      in a\<lparr>au_net := out [OSend \<lparr>sr_method = REST_POST, sr_url = net_url n URL_SCORBITRON_TOKEN [],
                                 sr_header = hdr, sr_status = m_status n\<rparr>] n,
           token_requests := token_requests a @ [token_request ts signature a]\<rparr>)"

definition fail_auth :: "'j AuthNet \<Rightarrow> 'j AuthNet" where
  "fail_auth a =
     on_net (\<lambda>n. out [ONotifyAuth] (stopTokenRefreshTimer (set_status AuthenticationFailed n))) a"

text \<open>The token of a reply; \<open>Exn\<close> where the library throws, \<open>Undef\<close> for an object without it.\<close>

definition read_token :: "'j json_api \<Rightarrow> string \<Rightarrow> string res" where
  "read_token J text =
     (case j_parse J text of
        None \<Rightarrow> Exn
      | Some json \<Rightarrow>
          if \<not> j_is_object J json then Exn
          else res_bind (or_undef (j_index J json JKEY_SCORBITRON_TOKEN)) (\<lambda>v. or_exn (j_string J v)))"

definition token_received ::
  "'j auth_env \<Rightarrow> Clock \<Rightarrow> bool \<Rightarrow> string \<Rightarrow> 'j AuthNet \<Rightarrow> 'j AuthNet res" where
  "token_received E c normalAuthentication text a =
     (case read_token (ae_json E) text of
        Exn \<Rightarrow> Ret (fail_auth a)
      | Undef \<Rightarrow> Undef
      | Ret token \<Rightarrow>
          res_bind (startTokenRefreshTimer E c ((au_net a)\<lparr>m_stoken := token\<rparr>)) (\<lambda>n.
            let n = out [ONotifyAuth] n
            in Ret (a\<lparr>au_net := (if normalAuthentication
                 then initializeConnectionState (c_steady c) (set_status AuthenticatedCheckingPairing n)
                 else requestReleaseTrackInfo n)\<rparr>)))"

definition stop_auth :: "'j AuthNet \<Rightarrow> 'j AuthNet" where
  "stop_auth a =
     on_net (\<lambda>n. out [ONotifyAuth] ((set_status AuthenticationFailed n)\<lparr>m_isRefreshingToken := False\<rparr>)) a"

fun auth_loop ::
  "'j auth_env \<Rightarrow> bool \<Rightarrow> nat \<Rightarrow> auth_turn list \<Rightarrow> string \<Rightarrow> 'j AuthNet \<Rightarrow> 'j AuthNet res option" where
  "auth_loop E normal i turns ts a =
     (case getSignature (ae_crypto E) (m_signer a) (length (token_requests a)) (di_uuid (m_deviceInfo (au_net a))) ts of
        Exn \<Rightarrow> Some Exn
      | Undef \<Rightarrow> Some Undef
      | Ret signature \<Rightarrow>
          if signature = [] then Some (Ret (fail_auth a))
          else case turns of
                 [] \<Rightarrow> None
               | t # turns \<Rightarrow>
                   let a = stopping (at_stop t) (send_token_request ts signature a);
                       parsed = ae_parse_date E (at_date t);
                       ts = (if parsed > 0 then to_string parsed else ts)
                   in if m_stop (au_net a) then Some (Ret (stop_auth a))
                      else if at_code t = 200 then
                        Some (token_received E (at_clock t) normal (at_text t) a)
                      else if at_code t = 400 then
                        if i < 10 then auth_loop E normal (Suc i) turns ts a else Some (Ret (fail_auth a))
                      else if at_code t = 404 then
                        (case reprovisionSoftKey E (at_io t) ts a of
                           Exn \<Rightarrow> Some Exn
                         | Undef \<Rightarrow> Some Undef
                         | Ret (ok, a) \<Rightarrow>
                             if ok \<and> i < 10 then auth_loop E normal (Suc i) turns ts a
                             else Some (Ret (fail_auth a)))
                      else if at_code t = 0 then auth_loop E normal (Suc i) turns ts a
                      else Some (Ret (fail_auth a)))"

declare auth_loop.simps [simp del]

definition start_auth :: "'j Net \<Rightarrow> 'j Net" where
  "start_auth n = n\<lparr>m_status := Authenticating, m_lastEmittedPairingState := None\<rparr>"

definition refreshing :: "'j AuthNet \<Rightarrow> 'j AuthNet" where
  "refreshing a = on_net (\<lambda>n. n\<lparr>m_isRefreshingToken := True\<rparr>) a"

text \<open>After the server's time: local time if it was not found, then the key, then the token.\<close>

definition auth_with_time ::
  "'j auth_env \<Rightarrow> bool \<Rightarrow> provision_io \<Rightarrow> auth_turn list \<Rightarrow> string \<Rightarrow> 'j AuthNet \<Rightarrow> 'j AuthNet res option" where
  "auth_with_time E normal io turns ts a =
     (if m_signer a = None \<and> m_keyResolvers a \<noteq> [] then
        (case resolveKeys E io ts a of
           Exn \<Rightarrow> Some Exn
         | Undef \<Rightarrow> Some Undef
         | Ret (ok, a) \<Rightarrow>
             if \<not> ok then Some (Ret (on_net (\<lambda>n. out [ONotifyAuth] (set_status AuthenticationFailed n)) a))
             else auth_loop E normal 0 turns ts a)
      else auth_loop E normal 0 turns ts a)"

definition createAuthenticateTask ::
  "'j auth_env \<Rightarrow> noop_turn list \<Rightarrow> Clock \<Rightarrow> provision_io \<Rightarrow> auth_turn list \<Rightarrow> 'j AuthNet \<Rightarrow> 'j AuthNet res option" where
  "createAuthenticateTask E noops local io turns a =
     (let normal = (\<not> m_isRefreshingToken (au_net a))
      in if normal \<and> m_status (au_net a) \<noteq> NotAuthenticated then Some (Ret a)
         else let a = refreshing (if normal then on_net start_auth a else a)
              in case server_time E 10 noops a of
                   None \<Rightarrow> None
                 | Some (ts, a) \<Rightarrow>
                     auth_with_time E normal io turns
                       (if ts = [] then to_string (c_system local div seconds 1) else ts) a)"

definition updateConfigTask :: "string \<Rightarrow> string \<Rightarrow> bool \<Rightarrow> string option \<Rightarrow> 'j http_task" where
  "updateConfigTask type version installed log =
     createPatchRequestTask CbLog (Endpoint URL_SCORBITRON_CONFIG [])
       (Body (DObj ([(JKEY_SCFG_VERSION, DStr version), (JKEY_SCFG_TYPE, DStr type),
                     (JKEY_SCFG_INSTALLED, DBool installed)]
                    @ (case log of None \<Rightarrow> [] | Some l \<Rightarrow> [(JKEY_SCFG_LOG, DStr l)])))) anyAuthenticated"

definition updateConfig :: "string \<Rightarrow> string \<Rightarrow> bool \<Rightarrow> string option \<Rightarrow> 'j Net \<Rightarrow> 'j Net" where
  "updateConfig type version installed log n =
     out [OPost Strand (THttp (updateConfigTask type version installed log))] n"

end
