(* ===== verification/Probes.thy ===== *)
theory Probes
  imports Json
begin

text \<open>
  \<^verbatim>\<open>libs/nfc/source/probes_manager.cpp\<close>: finding the NFC probe among the USB devices, its tag, its LEDs,
  and the description that the device announces on the local network.

  A probe object is the name of its device. What the probes answer (\<open>probe_env\<close>) and what is done to them
  (\<open>pm_calls\<close>) stand for the command channel of \<^verbatim>\<open>nfc/Probe.h\<close>: the boolean of a command tells whether it
  was acknowledged. The discovery service is an object that exists once the probes were enumerated.
\<close>

datatype ProbeType = ProbeNone | ProbeNfc | ProbeOther u32

fun probe_code :: "ProbeType \<Rightarrow> u32" where
  "probe_code ProbeNone = 0"
| "probe_code ProbeNfc = 4"
| "probe_code (ProbeOther w) = w"

definition NFC_PROBE_ID :: string where
  "NFC_PROBE_ID = ''NFC''"

record ProbeInformations =
  pi_Id :: string
  pi_BootReason :: int
  pi_WatchdogCount :: nat
  pi_TpmScorbitSerial :: u64

record NfcInformations =
  ni_tag :: bool
  ni_LastId :: u32

record probe_env =
  pe_devices :: "string list"
  pe_initialize :: "string \<Rightarrow> bool"
  pe_informations :: "string \<Rightarrow> ProbeInformations option"
  pe_nfc_informations :: "string \<Rightarrow> NfcInformations option"
  pe_command :: "string \<Rightarrow> bool"
  pe_discovery :: bool

record DiscoveryInfo =
  ProviderSerial :: u64
  GameName :: string
  ProviderInfo :: string
  ExtraInfo :: string

datatype probe_call =
    PInitialize string
  | PClearFactoryMode string
  | PSetTypeTag string
  | PSetUri string string
  | PSetLedsBrightness string int
  | PDisplay string
  | PDiscovery DiscoveryInfo

record ProbesManager =
  pm_nfc :: "string option"
  pm_discovery :: bool
  pm_discoveryInfo :: DiscoveryInfo
  pm_calls :: "probe_call list"

definition DiscoveryInfo_empty :: DiscoveryInfo where
  "DiscoveryInfo_empty = \<lparr>ProviderSerial = 0, GameName = [], ProviderInfo = [], ExtraInfo = []\<rparr>"

definition ProbesManager_new :: ProbesManager where
  "ProbesManager_new = \<lparr>pm_nfc = None, pm_discovery = False, pm_discoveryInfo = DiscoveryInfo_empty, pm_calls = []\<rparr>"

definition pm_call :: "probe_call list \<Rightarrow> ProbesManager \<Rightarrow> ProbesManager" where
  "pm_call cs m = m\<lparr>pm_calls := pm_calls m @ cs\<rparr>"

section \<open>Operations\<close>

definition probe_has_flag :: "u32 \<Rightarrow> ProbeType \<Rightarrow> bool" where
  "probe_has_flag probesSet flag \<longleftrightarrow> and probesSet (probe_code flag) \<noteq> 0"

function serial_sum :: "nat \<Rightarrow> nat \<Rightarrow> nat" where
  "serial_sum n acc = (if n = 0 then acc else serial_sum (n div 10) (acc + n mod 10))"
  by pat_completeness auto
termination
  by (relation "measure fst") auto

declare serial_sum.simps [simp del]

definition isValidScorbitSerial :: "u64 \<Rightarrow> bool" where
  "isValidScorbitSerial serialNumber =
     (if unat serialNumber < 15004 then False else serial_sum (unat serialNumber) 0 mod 10 = 0)"

text \<open>The probe's information, if it answers and has a name.\<close>

definition probe_informations :: "probe_env \<Rightarrow> string \<Rightarrow> ProbeInformations option" where
  "probe_informations E device =
     (case pe_informations E device of
        None \<Rightarrow> None
      | Some info \<Rightarrow> if pi_Id info \<noteq> [] then Some info else None)"

definition enumerate_device :: "probe_env \<Rightarrow> u32 \<Rightarrow> bool \<Rightarrow> string \<Rightarrow> ProbesManager \<Rightarrow> ProbesManager" where
  "enumerate_device E probesSet callback device m =
     (case (if pe_initialize E device then probe_informations E device else None) of
        None \<Rightarrow> m
      | Some info \<Rightarrow>
          if probe_has_flag probesSet ProbeNfc \<and> pi_Id info = NFC_PROBE_ID then
            let m = pm_call [PInitialize device] (m\<lparr>pm_nfc := Some device\<rparr>);
                m = (if isValidScorbitSerial (pi_TpmScorbitSerial info)
                     then pm_call [PClearFactoryMode device] m else m)
            in if callback then pm_call [PDisplay device] m else m
          else m)"

definition set_tag_mode :: "probe_env \<Rightarrow> ProbesManager \<Rightarrow> ProbesManager" where
  "set_tag_mode E m =
     (case pm_nfc m of
        None \<Rightarrow> m
      | Some device \<Rightarrow>
          (case pe_nfc_informations E device of
             Some info \<Rightarrow> if \<not> ni_tag info then pm_call [PSetTypeTag device] m else m
           | None \<Rightarrow> m))"

definition probes_enumerate :: "probe_env \<Rightarrow> u32 \<Rightarrow> bool \<Rightarrow> ProbesManager \<Rightarrow> ProbesManager" where
  "probes_enumerate E probesSet callback m =
     (set_tag_mode E (fold (enumerate_device E probesSet callback) (pe_devices E) m))\<lparr>pm_discovery := True\<rparr>"

definition isNfcTagRead :: "probe_env \<Rightarrow> ProbesManager \<Rightarrow> bool" where
  "isNfcTagRead E m =
     (case pm_nfc m of
        None \<Rightarrow> False
      | Some device \<Rightarrow>
          (case pe_nfc_informations E device of Some info \<Rightarrow> ni_LastId info \<noteq> 0 | None \<Rightarrow> False))"

definition probe_setNfcTag :: "probe_env \<Rightarrow> string \<Rightarrow> ProbesManager \<Rightarrow> bool \<times> ProbesManager" where
  "probe_setNfcTag E tag m =
     (case pm_nfc m of
        None \<Rightarrow> (False, m)
      | Some device \<Rightarrow> (pe_command E device, pm_call [PSetUri device tag] m))"

definition NFC_SESSION_BRIGHTNESS :: int where
  "NFC_SESSION_BRIGHTNESS = 0"
definition NFC_IDLE_BRIGHTNESS :: int where
  "NFC_IDLE_BRIGHTNESS = 30"

datatype ProbeLedMode = ProbeLedIdle | ProbeLedGameSession

definition setNfcLeds :: "probe_env \<Rightarrow> ProbeLedMode \<Rightarrow> ProbesManager \<Rightarrow> bool \<times> ProbesManager" where
  "setNfcLeds E mode m =
     (case pm_nfc m of
        None \<Rightarrow> (False, m)
      | Some device \<Rightarrow>
          (case mode of
             ProbeLedIdle \<Rightarrow> (pe_command E device, pm_call [PSetLedsBrightness device NFC_IDLE_BRIGHTNESS] m)
           | ProbeLedGameSession \<Rightarrow>
               (pe_command E device, pm_call [PSetLedsBrightness device NFC_SESSION_BRIGHTNESS] m)))"

text \<open>\<open>Undef\<close>: the discovery service is used through a null pointer.\<close>

definition setDiscoveryDescription ::
  "probe_env \<Rightarrow> u64 \<Rightarrow> string \<Rightarrow> string \<Rightarrow> string \<Rightarrow> ProbesManager \<Rightarrow> (bool \<times> ProbesManager) res" where
  "setDiscoveryDescription E providerSerial gameName providerInfo extraInfo m =
     (let info = \<lparr>ProviderSerial = providerSerial, GameName = gameName, ProviderInfo = providerInfo,
                  ExtraInfo = extraInfo\<rparr>
      in if GameName (pm_discoveryInfo m) = GameName info
            \<and> ProviderInfo (pm_discoveryInfo m) = ProviderInfo info
            \<and> ExtraInfo (pm_discoveryInfo m) = ExtraInfo info
            \<and> ProviderSerial (pm_discoveryInfo m) = ProviderSerial info
         then Ret (True, m)
         else let m = m\<lparr>pm_discoveryInfo := info\<rparr>
              in if pm_discovery m then Ret (pe_discovery E, pm_call [PDiscovery info] m) else Undef)"

definition boot_reason_name :: "int \<Rightarrow> string" where
  "boot_reason_name r =
     (if r = 0 then ''Unknown'' else if r = 1 then ''PowerOnReset'' else if r = 2 then ''BootloaderRestart''
      else if r = 3 then ''SoftRestart'' else if r = 4 then ''WatchdogTimer''
      else if r = 5 then ''WatchdogTimerAcknoledged'' else ''unknown'')"

definition boot_message :: "string \<Rightarrow> ProbeInformations \<Rightarrow> string" where
  "boot_message probeName info =
     probeName @ '' probe boot reason: '' @ boot_reason_name (pi_BootReason info) @ '', watchdog count: ''
     @ to_string (int (pi_WatchdogCount info))"

definition no_info_message :: "string \<Rightarrow> string" where
  "no_info_message probeName = probeName @ '' coudn't get probe info!''"

definition unsupported_message :: "u32 \<Rightarrow> string" where
  "unsupported_message w = ''Unsupported probe type: '' @ to_string (uint w)"

definition probesBootReason :: "probe_env \<Rightarrow> ProbeType \<Rightarrow> ProbesManager \<Rightarrow> string option \<times> ProbesManager" where
  "probesBootReason E probeType m =
     (if probeType \<noteq> ProbeNfc then (Some (unsupported_message (probe_code probeType)), m)
      else case pm_nfc m of
             None \<Rightarrow> (None, m)
           | Some device \<Rightarrow>
               (case probe_informations E device of
                  Some info \<Rightarrow> (Some (boot_message NFC_PROBE_ID info), m)
                | None \<Rightarrow> (Some (no_info_message NFC_PROBE_ID), probes_enumerate E (probe_code ProbeNfc) False m)))"

section \<open>Properties\<close>

lemma serial_sum_acc: "serial_sum n acc = acc + serial_sum n 0"
proof (induction n arbitrary: acc rule: less_induct)
  case (less n)
  show ?case
  proof (cases "n = 0")
    case True
    then show ?thesis by (simp add: serial_sum.simps)
  next
    case False
    then have "serial_sum n a = a + n mod 10 + serial_sum (n div 10) 0" for a
      using less [of "n div 10" "a + n mod 10"] by (subst serial_sum.simps) simp
    then show ?thesis by simp
  qed
qed

text \<open>The loop computes the sum of the decimal digits as they are printed.\<close>

lemma digit_value: "k < 10 \<Longrightarrow> (of_char (char_of (k + 48) :: char) :: nat) - 48 = k"
  by simp

theorem serial_sum_digits:
  "serial_sum n 0 = sum_list (map (\<lambda>c. of_char c - 48) (nat_digits n))"
proof (induction n rule: nat_digits.induct)
  case (1 n)
  show ?case
  proof (cases "n < 10")
    case True
    then show ?thesis
      by (subst nat_digits.simps, subst serial_sum.simps)
        (cases "n = 0"; simp add: serial_sum.simps [of 0] serial_sum_acc [of _ n])
  next
    case False
    then have "serial_sum n 0 = n mod 10 + serial_sum (n div 10) 0"
      by (subst serial_sum.simps) (simp add: serial_sum_acc [of _ "n mod 10"])
    with False 1 show ?thesis
      by (subst nat_digits.simps) simp
  qed
qed

definition is_nfc_probe :: "probe_env \<Rightarrow> string \<Rightarrow> bool" where
  "is_nfc_probe E d \<longleftrightarrow>
     pe_initialize E d \<and> (case probe_informations E d of None \<Rightarrow> False | Some i \<Rightarrow> pi_Id i = NFC_PROBE_ID)"

lemma enumerate_device_nfc:
  "pm_nfc (enumerate_device E ps cb device m) =
     (if probe_has_flag ps ProbeNfc \<and> is_nfc_probe E device then Some device else pm_nfc m)"
  by (auto simp: enumerate_device_def is_nfc_probe_def pm_call_def Let_def split: option.splits)

lemma fold_nfc:
  "probe_has_flag ps ProbeNfc \<Longrightarrow> pm_nfc (fold (enumerate_device E ps cb) ds m) =
     (case find (is_nfc_probe E) (rev ds) of None \<Rightarrow> pm_nfc m | Some d \<Rightarrow> Some d)"
  by (induction ds rule: rev_induct) (simp_all add: enumerate_device_nfc)

lemma set_tag_mode_frame [simp]:
  "pm_nfc (set_tag_mode E m) = pm_nfc m" "pm_discovery (set_tag_mode E m) = pm_discovery m"
  by (simp_all add: set_tag_mode_def pm_call_def split: option.splits)

text \<open>After looking for probes the NFC probe is the last device that answers as one; with none, the one
  known before is kept.\<close>

theorem enumerate_finds_last:
  "pm_nfc (probes_enumerate E 4 cb m) =
     (case find (is_nfc_probe E) (rev (pe_devices E)) of None \<Rightarrow> pm_nfc m | Some d \<Rightarrow> Some d)"
  by (simp add: probes_enumerate_def fold_nfc probe_has_flag_def)

text \<open>A probe that does not answer to the question for its boot reason, and is gone, stays the NFC probe.\<close>

lemma lost_probe_is_kept:
  "pm_nfc m = Some d \<Longrightarrow> pe_informations E d = None \<Longrightarrow> pe_devices E = [] \<Longrightarrow>
   pm_nfc (snd (probesBootReason E ProbeNfc m)) = Some d"
  by (simp add: probesBootReason_def probe_informations_def enumerate_finds_last)

text \<open>
  The description is announced once: the same description again is answered with success, and nothing
  is sent, even if announcing it failed the first time.
\<close>

theorem failed_announcement_not_repeated:
  assumes "setDiscoveryDescription E s g p x m = Ret (ok, m')"
  shows "setDiscoveryDescription E2 s g p x m' = Ret (True, m')"
  using assms by (auto simp: setDiscoveryDescription_def Let_def pm_call_def split: if_splits)

text \<open>Once the probes were enumerated, announcing is defined.\<close>

lemma announce_defined:
  "pm_discovery m \<Longrightarrow> setDiscoveryDescription E s g p x m \<noteq> Undef"
  by (simp add: setDiscoveryDescription_def Let_def)

lemma announce_without_enumeration:
  "g \<noteq> [] \<Longrightarrow> setDiscoveryDescription E s g p x ProbesManager_new = Undef"
  by (simp add: setDiscoveryDescription_def Let_def ProbesManager_new_def DiscoveryInfo_empty_def)

end
