(* ===== verification/Archiver.thy ===== *)
theory Archiver
  imports Json
begin

text \<open>
  \<^verbatim>\<open>source/utils/archiver.cpp\<close>: unpacking an archive into a directory and writing a compressed one.

  The archive library and the disk are outside. Reading an archive yields its entries, each with its
  declared size, its data blocks (offset and bytes) and the code that ends them, and the code that ends
  the archive. The codes with which the library answers each call of the writer are inputs
  (\<open>write_codes\<close>, \<open>entry_codes\<close>). A call that fails writes nothing. A source file is seen through
  \<open>file_view\<close>: what the file system says of it, where \<open>Exn\<close> is a \<^verbatim>\<open>filesystem_error\<close>.
  The library that joins a directory and a path is the parameter \<open>join\<close>.
\<close>

type_synonym bytes = "8 word list"

definition ARCHIVE_OK :: int where "ARCHIVE_OK = 0"
definition ARCHIVE_EOF :: int where "ARCHIVE_EOF = 1"

section \<open>Unpacking\<close>

record archive_entry =
  en_path :: string
  en_size :: int
  en_blocks :: "(nat \<times> bytes) list"
  en_end :: int

record write_codes =
  wc_header :: int
  wc_blocks :: "int list"
  wc_finish :: int

record archive_reader =
  rd_opens :: bool
  rd_entries :: "(archive_entry \<times> write_codes) list"
  rd_end :: int

type_synonym disk = "string \<rightharpoonup> bytes"

text \<open>Bytes written at an offset; a gap before them is zero.\<close>

definition write_at :: "nat \<Rightarrow> bytes \<Rightarrow> bytes \<Rightarrow> bytes" where
  "write_at off bs content =
     take off (content @ replicate (off - length content) 0) @ bs @ drop (off + length bs) content"

definition disk_write :: "string \<Rightarrow> nat \<Rightarrow> bytes \<Rightarrow> disk \<Rightarrow> disk" where
  "disk_write p off bs d = d(p \<mapsto> write_at off bs (case d p of None \<Rightarrow> [] | Some c \<Rightarrow> c))"

fun copy_data :: "string \<Rightarrow> (nat \<times> bytes) list \<Rightarrow> int \<Rightarrow> int list \<Rightarrow> disk \<Rightarrow> int \<times> disk" where
  "copy_data p [] end_code codes d = (if end_code = ARCHIVE_EOF then ARCHIVE_OK else end_code, d)"
| "copy_data p ((off, bs) # blocks) end_code codes d =
     (let r = (case codes of [] \<Rightarrow> ARCHIVE_OK | c # _ \<Rightarrow> c)
      in if r < ARCHIVE_OK then (r, d)
         else copy_data p blocks end_code (tl codes) (disk_write p off bs d))"

definition extract_entry :: "string \<Rightarrow> archive_entry \<Rightarrow> write_codes \<Rightarrow> disk \<Rightarrow> int \<times> disk" where
  "extract_entry p e wc d =
     (let d = (if wc_header wc < ARCHIVE_OK then d
               else let d = d(p \<mapsto> [])
                    in if en_size e > 0 then snd (copy_data p (en_blocks e) (en_end e) (wc_blocks wc) d)
                       else d)
      in (wc_finish wc, d))"

fun extract_loop ::
  "(string \<Rightarrow> string \<Rightarrow> string) \<Rightarrow> string \<Rightarrow> (archive_entry \<times> write_codes) list \<Rightarrow> int \<Rightarrow> disk \<Rightarrow> int \<times> disk" where
  "extract_loop join out_dir [] end_code d = (end_code, d)"
| "extract_loop join out_dir ((e, wc) # es) end_code d =
     (let (r, d) = extract_entry (join out_dir (en_path e)) e wc d
      in if r < ARCHIVE_OK then (r, d) else extract_loop join out_dir es end_code d)"

text \<open>\<open>dir_ok\<close>: the output directory exists or could be created.\<close>

definition archive_extract ::
  "(string \<Rightarrow> string \<Rightarrow> string) \<Rightarrow> bool \<Rightarrow> bool \<Rightarrow> string \<Rightarrow> archive_reader \<Rightarrow> disk \<Rightarrow> bool \<times> disk" where
  "archive_extract join dir_ok allocated out_dir rd d =
     (if \<not> dir_ok then (False, d)
      else if \<not> allocated then (False, d)
      else if \<not> rd_opens rd then (False, d)
      else let (r, d) = extract_loop join out_dir (rd_entries rd) (rd_end rd) d
           in (r = ARCHIVE_EOF, d))"

section \<open>Writing\<close>

record ArchiveFileEntry =
  af_archivePath :: string
  af_sourcePath :: string

record ArchiveMemoryEntry =
  am_archivePath :: string
  am_data :: bytes

record file_view =
  fv_exists :: "bool res"
  fv_size :: "nat res"
  fv_opens :: bool
  fv_bytes :: bytes

text \<open>The codes of one \<^verbatim>\<open>writeEntry\<close>: its allocation, its header, and how many bytes are accepted.\<close>

record entry_codes =
  ec_alloc :: bool
  ec_header :: int
  ec_written :: "nat \<Rightarrow> nat"

type_synonym tar = "(string \<times> bytes) list"

definition writeEntry :: "entry_codes \<Rightarrow> string \<Rightarrow> bytes \<Rightarrow> tar \<Rightarrow> bool \<times> tar" where
  "writeEntry c path data w =
     (if \<not> ec_alloc c then (False, w)
      else if ec_header c \<noteq> ARCHIVE_OK then (False, w)
      else if length data > 0 then
        if ec_written c (length data) < length data then (False, w @ [(path, take (ec_written c (length data)) data)])
        else (True, w @ [(path, data)])
      else (True, w @ [(path, [])]))"

text \<open>\<^verbatim>\<open>read\<close> into a buffer of the size told before: what the file no longer has stays zero.\<close>

definition read_file :: "nat \<Rightarrow> bytes \<Rightarrow> bytes" where
  "read_file n bs = take n bs @ replicate (n - length bs) 0"

text \<open>The data of a file that can be archived; the others are skipped.\<close>

definition file_data :: "file_view \<Rightarrow> bytes option" where
  "file_data v =
     (case fv_exists v of
        Ret e \<Rightarrow> if \<not> e then None
                else (case fv_size v of Ret n \<Rightarrow> if fv_opens v then Some (read_file n (fv_bytes v)) else None | _ \<Rightarrow> None)
      | _ \<Rightarrow> None)"

fun write_files ::
  "(string \<Rightarrow> file_view) \<Rightarrow> (string \<Rightarrow> entry_codes) \<Rightarrow> ArchiveFileEntry list \<Rightarrow> tar \<Rightarrow> bool \<times> tar" where
  "write_files fs codes [] w = (True, w)"
| "write_files fs codes (f # files) w =
     (case file_data (fs (af_sourcePath f)) of
        None \<Rightarrow> write_files fs codes files w
      | Some data \<Rightarrow>
          (let (ok, w) = writeEntry (codes (af_archivePath f)) (af_archivePath f) data w
           in if \<not> ok then (False, w) else write_files fs codes files w))"

fun write_memory :: "(string \<Rightarrow> entry_codes) \<Rightarrow> ArchiveMemoryEntry list \<Rightarrow> tar \<Rightarrow> bool \<times> tar" where
  "write_memory codes [] w = (True, w)"
| "write_memory codes (m # mems) w =
     (let (ok, w) = writeEntry (codes (am_archivePath m)) (am_archivePath m) (am_data m) w
      in if \<not> ok then (False, w) else write_memory codes mems w)"

text \<open>\<open>None\<close>: no archive file was written.\<close>

definition createTarGz ::
  "bool \<Rightarrow> bool \<Rightarrow> (string \<Rightarrow> file_view) \<Rightarrow> (string \<Rightarrow> entry_codes) \<Rightarrow> ArchiveFileEntry list
   \<Rightarrow> ArchiveMemoryEntry list \<Rightarrow> bool \<times> tar option" where
  "createTarGz allocated opens fs codes files memoryEntries =
     (if files = [] \<and> memoryEntries = [] then (False, None)
      else if \<not> allocated then (False, None)
      else if \<not> opens then (False, None)
      else let (ok, w) = write_files fs codes files []
           in if \<not> ok then (False, Some w)
              else let (ok, w) = write_memory codes memoryEntries w in (ok, Some w))"

section \<open>What an archive holds\<close>

definition archived_files :: "(string \<Rightarrow> file_view) \<Rightarrow> ArchiveFileEntry list \<Rightarrow> tar" where
  "archived_files fs files =
     List.map_filter (\<lambda>f. map_option (Pair (af_archivePath f)) (file_data (fs (af_sourcePath f)))) files"

definition archived_memory :: "ArchiveMemoryEntry list \<Rightarrow> tar" where
  "archived_memory mems = map (\<lambda>m. (am_archivePath m, am_data m)) mems"

lemma writeEntry_True: "writeEntry c p data w = (True, w') \<Longrightarrow> w' = w @ [(p, data)]"
  by (auto simp: writeEntry_def split: if_splits)

lemma write_files_True:
  "write_files fs codes files w = (True, w') \<Longrightarrow> w' = w @ archived_files fs files"
proof (induction files arbitrary: w)
  case (Cons f files)
  then show ?case
    by (auto simp: archived_files_def map_filter_simps dest!: writeEntry_True Cons.IH split: option.splits prod.splits if_splits)
qed (simp add: archived_files_def map_filter_simps)

lemma write_memory_True:
  "write_memory codes mems w = (True, w') \<Longrightarrow> w' = w @ archived_memory mems"
proof (induction mems arbitrary: w)
  case (Cons m mems)
  then show ?case by (auto simp: archived_memory_def dest!: writeEntry_True Cons.IH split: prod.splits if_splits)
qed (simp add: archived_memory_def)

text \<open>A successful archive holds exactly the files that could be read, in order, then the texts given.\<close>

lemma createTarGz_True:
  assumes "createTarGz al op fs codes files mems = (True, r)"
  shows "r = Some (archived_files fs files @ archived_memory mems)"
  using assms
  by (auto simp: createTarGz_def Let_def split: if_splits prod.splits dest!: write_files_True write_memory_True)

definition no_entry_fault :: entry_codes where
  "no_entry_fault = \<lparr>ec_alloc = True, ec_header = 0, ec_written = id\<rparr>"

lemma writeEntry_no_fault: "writeEntry no_entry_fault p data w = (True, w @ [(p, data)])"
  by (simp add: writeEntry_def no_entry_fault_def ARCHIVE_OK_def)

lemma write_files_no_fault: "fst (write_files fs (\<lambda>_. no_entry_fault) files w)"
  by (induction files arbitrary: w) (simp_all add: writeEntry_no_fault split: option.split)

lemma write_memory_no_fault: "fst (write_memory (\<lambda>_. no_entry_fault) mems w)"
  by (induction mems arbitrary: w) (simp_all add: writeEntry_no_fault)

lemma createTarGz_no_fault:
  "files \<noteq> [] \<or> mems \<noteq> [] \<Longrightarrow>
   createTarGz True True fs (\<lambda>_. no_entry_fault) files mems =
     (True, Some (archived_files fs files @ archived_memory mems))"
proof -
  assume "files \<noteq> [] \<or> mems \<noteq> []"
  moreover obtain w where w: "write_files fs (\<lambda>_. no_entry_fault) files [] = (True, w)"
    using write_files_no_fault [of fs files "[]"] by (cases "write_files fs (\<lambda>_. no_entry_fault) files []") auto
  moreover obtain w2 where "write_memory (\<lambda>_. no_entry_fault) mems w = (True, w2)"
    using write_memory_no_fault [of mems w] by (cases "write_memory (\<lambda>_. no_entry_fault) mems w") auto
  ultimately have "createTarGz True True fs (\<lambda>_. no_entry_fault) files mems = (True, Some w2)"
    by (auto simp: createTarGz_def)
  with createTarGz_True [OF this] show ?thesis by simp
qed

section \<open>What unpacking leaves\<close>

lemma write_at_end: "write_at (length c) bs c = c @ bs"
  by (simp add: write_at_def)

text \<open>An entry as the library reads back what was archived: blocks in order, without gaps.\<close>

fun chunks_of :: "nat \<Rightarrow> (nat \<times> bytes) list \<Rightarrow> bytes \<Rightarrow> bool" where
  "chunks_of off [] data \<longleftrightarrow> data = []"
| "chunks_of off ((o', bs) # blocks) data \<longleftrightarrow>
     o' = off \<and> take (length bs) data = bs \<and> chunks_of (off + length bs) blocks (drop (length bs) data)"

definition entry_reads :: "string \<times> bytes \<Rightarrow> archive_entry \<Rightarrow> bool" where
  "entry_reads f e \<longleftrightarrow> en_path e = fst f \<and> en_size e = int (length (snd f)) \<and>
     chunks_of 0 (en_blocks e) (snd f) \<and> en_end e = ARCHIVE_EOF"

definition writes_ok :: "write_codes \<Rightarrow> bool" where
  "writes_ok wc \<longleftrightarrow> 0 \<le> wc_header wc \<and> (\<forall>c \<in> set (wc_blocks wc). 0 \<le> c) \<and> 0 \<le> wc_finish wc"

lemma copy_data_chunks:
  assumes "d p = Some c" "chunks_of (length c) blocks data" "\<forall>c \<in> set codes. 0 \<le> c"
  shows "copy_data p blocks ARCHIVE_EOF codes d = (ARCHIVE_OK, d(p \<mapsto> c @ data))"
  using assms
proof (induction blocks arbitrary: c data codes d)
  case Nil
  then show ?case by (auto simp: fun_upd_idem)
next
  case (Cons b blocks)
  obtain off bs where b: "b = (off, bs)" by (cases b)
  have off: "off = length c" and data: "data = bs @ drop (length bs) data"
    and rest: "chunks_of (length (c @ bs)) blocks (drop (length bs) data)"
    using Cons.prems(2) by (auto simp: b) (metis append_take_drop_id)
  have codes: "\<forall>c \<in> set (tl codes). 0 \<le> c" using Cons.prems(3) by (cases codes) auto
  have "disk_write p off bs d = d(p \<mapsto> c @ bs)"
    by (simp add: disk_write_def off Cons.prems(1) write_at_end)
  moreover have "0 \<le> (case codes of [] \<Rightarrow> ARCHIVE_OK | c # _ \<Rightarrow> c)"
    using Cons.prems(3) by (auto simp: ARCHIVE_OK_def split: list.split)
  ultimately show ?case
    using Cons.IH [OF _ rest codes, of "d(p \<mapsto> c @ bs)"] data
    by (simp add: b ARCHIVE_OK_def Let_def del: fun_upd_apply) (metis append_assoc fun_upd_same fun_upd_upd)
qed

lemma extract_entry_reads:
  assumes "entry_reads f e" "writes_ok wc"
  shows "extract_entry p e wc d = (wc_finish wc, d(p \<mapsto> snd f))"
proof (cases "snd f = []")
  case True
  with assms show ?thesis by (simp add: extract_entry_def entry_reads_def writes_ok_def ARCHIVE_OK_def Let_def)
next
  case False
  with assms copy_data_chunks [of "d(p \<mapsto> [])" p "[]" "en_blocks e" "snd f" "wc_blocks wc"] show ?thesis
    by (simp add: extract_entry_def entry_reads_def writes_ok_def ARCHIVE_OK_def Let_def)
qed

lemma extract_loop_reads:
  assumes "list_all2 (\<lambda>f (e, wc). entry_reads f e \<and> writes_ok wc) fs es"
  shows "extract_loop join dir es end_code d =
    (end_code, d ++ map_of (rev (map (\<lambda>(p, c). (join dir p, c)) fs)))"
  using assms
proof (induction arbitrary: d rule: list_all2_induct)
  case (Cons f fs ew es)
  obtain e wc where ew: "ew = (e, wc)" by (cases ew)
  obtain p c where f: "f = (p, c)" by (cases f)
  have p: "en_path e = p" using Cons by (simp add: ew f entry_reads_def)
  have "extract_entry (join dir p) e wc d = (wc_finish wc, d(join dir p \<mapsto> c))"
    using extract_entry_reads [of f e wc "join dir p" d] Cons by (simp add: ew f)
  moreover have "\<not> wc_finish wc < ARCHIVE_OK" using Cons by (simp add: ew writes_ok_def ARCHIVE_OK_def)
  ultimately show ?case using Cons.IH by (simp add: ew f p map_add_def fun_eq_iff split: option.split)
qed simp

text \<open>
  C32. Packing and unpacking gives the files back: what a successful \<open>createTarGz\<close> put into an archive, read
  back in whatever blocks and unpacked without a fault, is in the output directory: every file that could be
  read and every text given, the last of several with the same name, and nothing else is touched.
\<close>

theorem tar_roundtrip:
  assumes "createTarGz al op fs codes files mems = (True, Some w)"
    and "list_all2 (\<lambda>f (e, wc). entry_reads f e \<and> writes_ok wc) w (rd_entries rd)"
    and "rd_opens rd" "rd_end rd = ARCHIVE_EOF"
  shows "archive_extract join True True dir rd d =
    (True, d ++ map_of (rev (map (\<lambda>(p, c). (join dir p, c)) (archived_files fs files @ archived_memory mems))))"
proof -
  have "w = archived_files fs files @ archived_memory mems" using createTarGz_True [OF assms(1)] by simp
  with extract_loop_reads [OF assms(2), of join dir "rd_end rd" d] assms(3,4) show ?thesis
    by (simp add: archive_extract_def)
qed

definition sample_rd :: archive_reader where
  "sample_rd = \<lparr>rd_opens = True, rd_entries =
     [(\<lparr>en_path = ''a'', en_size = 2, en_blocks = [(0, [1]), (1, [2])], en_end = 1\<rparr>,
       \<lparr>wc_header = 0, wc_blocks = [], wc_finish = 0\<rparr>)], rd_end = 1\<rparr>"

theorem tar_roundtrip_witness:
  "archive_extract (\<lambda>d p. d @ ''/'' @ p) True True ''out'' sample_rd Map.empty = (True, [''out/a'' \<mapsto> [1, 2]])"
proof -
  let ?fs = "\<lambda>_ :: string. \<lparr>fv_exists = Ret True, fv_size = Ret 2, fv_opens = True, fv_bytes = [1, 2]\<rparr>"
  let ?files = "[\<lparr>af_archivePath = ''a'', af_sourcePath = ''/x/a''\<rparr>]"
  have a: "archived_files ?fs ?files = [(''a'', [1, 2])]"
    by (simp add: archived_files_def map_filter_simps file_data_def read_file_def)
  have c: "createTarGz True True ?fs (\<lambda>_. no_entry_fault) ?files [] = (True, Some [(''a'', [1, 2])])"
    using createTarGz_no_fault [of ?files "[]" ?fs] by (simp add: a archived_memory_def)
  have l: "list_all2 (\<lambda>f (e, wc). entry_reads f e \<and> writes_ok wc) [(''a'', [1, 2])] (rd_entries sample_rd)"
    by (simp add: sample_rd_def entry_reads_def writes_ok_def ARCHIVE_EOF_def)
  have "rd_opens sample_rd" "rd_end sample_rd = ARCHIVE_EOF" by (simp_all add: sample_rd_def ARCHIVE_EOF_def)
  from tar_roundtrip [OF c l this, of "\<lambda>d p. d @ ''/'' @ p" "''out''" Map.empty] show ?thesis
    by (simp add: a archived_memory_def)
qed

text \<open>
  A failed copy is not noticed: the code of \<^verbatim>\<open>copy_data\<close> is overwritten by that of finishing the entry, so
  an archive whose entries lack their data still unpacks with success.
\<close>

theorem failed_copy_reports_success:
  assumes "wc_header wc = 0" "wc_blocks wc = [c]" "c < 0" "wc_finish wc = 0" "en_size e > 0"
    "en_blocks e = [(0, bs)]"
  shows "archive_extract join True True dir \<lparr>rd_opens = True, rd_entries = [(e, wc)], rd_end = ARCHIVE_EOF\<rparr> d =
    (True, d(join dir (en_path e) \<mapsto> []))"
  using assms by (simp add: archive_extract_def extract_entry_def ARCHIVE_OK_def Let_def)

text \<open>Paths are not checked: an entry is written wherever its path leads.\<close>

lemma path_not_checked:
  "entry_reads (p, c) e \<Longrightarrow> writes_ok wc \<Longrightarrow>
   snd (archive_extract join True True dir \<lparr>rd_opens = True, rd_entries = [(e, wc)], rd_end = ARCHIVE_EOF\<rparr> d)
     (join dir p) = Some c"
  using extract_loop_reads [of "[(p, c)]" "[(e, wc)]" join dir ARCHIVE_EOF d]
  by (simp add: archive_extract_def)

end
