(* ===== verification/Net_Device.thy ===== *)
theory Net_Device
  imports Net_Auth Probes Archiver
begin

text \<open>
  The life of the network layer in \<^verbatim>\<open>source/net.cpp\<close>: its constructor and destructor, the downloads and the
  delayed call that the application asks for, the NFC probe, and the upload of diagnostics.

  The machine's fingerprint parts, the network address and the version of the build are inputs. A task
  that is invoked in place is returned as a value. The object that holds the probes and the text of the
  last boot reason extend the state: \<open>NfcNet\<close>. Messages that are only logged are not modelled.
\<close>

section \<open>Construction\<close>

record host_parts =
  hp_mac :: string
  hp_board :: string
  hp_cpu :: string
  hp_platform :: string
  hp_lanIp :: string
  hp_sdkVersion :: string

definition MachineFingerprint_empty :: MachineFingerprint where
  "MachineFingerprint_empty =
     \<lparr>macAddressPrimary = [], boardSerial = [], cpuSerial = [], platformType = []\<rparr>"

definition MachineInfo_empty :: MachineInfo where
  "MachineInfo_empty =
     \<lparr>opdbId = [], machineUuid = [], variantUuid = None, gameSlug = None, venueUuid = None, mi_title = []\<rparr>"

definition Net_blank :: "DeviceInfo \<Rightarrow> 'j Net" where
  "Net_blank info =
     \<lparr>m_status = NotAuthenticated, m_stop = False, m_isRefreshingToken = False, m_hostname = [],
      m_cfHostname = [], m_stoken = [], m_cachedShortCode = [], m_machineChannel = [],
      m_releaseTrackUrl = [], m_fingerprintHash = [], m_deviceInfo = info,
      m_machineInfo = MachineInfo_empty, m_gameSessions = [], m_numberOfPlayersRequested = 0,
      m_isNfcCapable = False, m_nonces = [], m_scorbitronObject = [], m_diagProbeSequence = 0,
      m_seenDiagTraceIds = [], m_playersManager = PlayerProfilesManager_new, m_centrifugo = None,
      clients_made = 0, m_retiredCentrifugoClients = [], m_restartCentrifugoPending = False,
      m_lastEmittedPairingState = None, pushed = [], outs = []\<rparr>"

definition use_hosts :: "(string \<Rightarrow> url_view option) \<Rightarrow> 'j Net \<Rightarrow> 'j Net" where
  "use_hosts P n =
     (let (host, cf) = setHostname P (di_hostname (m_deviceInfo n)) (di_cfHostname (m_deviceInfo n))
      in n\<lparr>m_hostname := host, m_cfHostname := cf\<rparr>)"

definition Net_new ::
  "(string \<Rightarrow> url_view option) \<Rightarrow> crypto_api \<Rightarrow> host_parts \<Rightarrow> string \<Rightarrow> DeviceInfo \<Rightarrow> key_resolver list
   \<Rightarrow> 'j AuthNet" where
  "Net_new P C hp stored info resolvers =
     (let n = use_hosts P (Net_blank info);
          a = \<lparr>au_net = n, m_signer = None, m_keyResolvers = resolvers, m_fingerprint = MachineFingerprint_empty,
               key_store = stored, time_checked = False, time_sets = [], token_requests = [], prov_requests = []\<rparr>
      in if \<not> validateDeviceInfo info then a
         else let fp = collectFingerprints (hp_mac hp) (hp_board hp) (hp_cpu hp) (hp_platform hp)
                         (extraFingerprint info);
                  n = n\<lparr>m_fingerprintHash := computeHash C fp\<rparr>;
                  n = initScorbitronObject (hp_sdkVersion hp) (hp_lanIp hp) n;
                  n = centrifugoSetup False n;
                  n = out [OStartWorker] n
              in a\<lparr>au_net := n, m_fingerprint := fp\<rparr>)"

section \<open>Destruction\<close>

definition all_timers :: "Timer list" where
  "all_timers = [Heartbeat, TokenRefresh, NfcCheckTag, GameDataTimer, SessionUpdate, CentrifugoReconnect,
                 NfcBootReason, ModeExpiry, LeaderboardDeferred]"

definition net_stop :: "'j Net \<Rightarrow> 'j Net" where
  "net_stop n =
     (if m_stop n then n
      else let n = stopHeartbeatTimer (n\<lparr>m_stop := True\<rparr>);
               n = stopTokenRefreshTimer n
           in out [OStopEvents, ONotifyAuth, ONotifyShortCode] n)"

text \<open>\<open>runs\<close>: the worker is running. Its \<^verbatim>\<open>stop\<close> cancels the nine timers and joins its threads; the destructor
  waits for the disconnection, so that it comes first.\<close>

definition worker_stop_outs :: "'j net_out list" where
  "worker_stop_outs = map OStopTimer all_timers @ [OJoinWorker]"

definition Net_destroy :: "bool \<Rightarrow> 'j Net \<Rightarrow> 'j Net" where
  "Net_destroy runs n =
     (let n = net_stop n;
          n = (if runs then (case m_centrifugo n of None \<Rightarrow> n | Some c \<Rightarrow> out [ODisconnect (cf_id c)] n) else n)
      in if runs then out worker_stop_outs n else n)"

section \<open>What the application asks for\<close>

definition PAIRING_DEEPLINK :: string where
  "PAIRING_DEEPLINK = ''https://scorbit.link/qrcode?$deeplink_path={manufacturer_prefix}'' @
     ''&machineid={scorbit_machine_id}&uuid={scorbitron_uuid}''"

definition getPairDeeplink :: "'j Net \<Rightarrow> string" where
  "getPairDeeplink n =
     fmt_named [(''manufacturer_prefix'', provider (m_deviceInfo n)),
                (''scorbit_machine_id'', to_string (machineId (m_deviceInfo n))),
                (''scorbitron_uuid'', di_uuid (m_deviceInfo n))] PAIRING_DEEPLINK"

definition getMachineUuid :: "'j Net \<Rightarrow> string" where
  "getMachineUuid n = di_uuid (m_deviceInfo n)"

definition getMachineSerial :: "'j Net \<Rightarrow> u64" where
  "getMachineSerial n = serialNumber (m_deviceInfo n)"

definition net_download ::
  "bool \<Rightarrow> callback_id \<Rightarrow> string \<Rightarrow> string \<Rightarrow> header \<Rightarrow> 'j Net \<Rightarrow> 'j net_task option \<times> 'j Net" where
  "net_download isAsync callback url filename headers n =
     (let task = TDownloadFile callback url filename headers
      in if isAsync then (None, out [OPost Strand task] n) else (Some task, n))"

definition downloadBuffer ::
  "bool \<Rightarrow> callback_id \<Rightarrow> string \<Rightarrow> nat \<Rightarrow> header \<Rightarrow> 'j Net \<Rightarrow> 'j net_task option \<times> 'j Net" where
  "downloadBuffer isAsync callback url reserve headers n =
     (let task = TDownloadBuffer callback url reserve headers
      in if isAsync then (None, out [OPost Strand task] n) else (Some task, n))"

definition scheduleDelayedOnWorker :: "duration \<Rightarrow> callback_id \<Rightarrow> 'j Net \<Rightarrow> 'j Net" where
  "scheduleDelayedOnWorker delay f n =
     out [OStopTimer ModeExpiry, OStartTimer ModeExpiry delay (TModeExpiry f)] n"

definition cancelModeExpiryTimer :: "'j Net \<Rightarrow> 'j Net" where
  "cancelModeExpiryTimer n = out [OStopTimer ModeExpiry] n"

definition createHeartbeatTask :: "'j net_task" where
  "createHeartbeatTask = TNoop"

text \<open>The task of the heartbeat timer.\<close>

definition heartbeat_tick :: "'j Net \<Rightarrow> 'j Net" where
  "heartbeat_tick n = sendHeartbeat (startHeartbeatTimer n)"

definition SESSION_CSV_URL :: string where
  "SESSION_CSV_URL = ''session_log/''"

definition createUploadTask :: "string \<Rightarrow> form_part list \<Rightarrow> 'j net_task" where
  "createUploadTask endpoint multipart =
     THttp (createPostMultipartRequestTask CbLog (Endpoint endpoint []) multipart [AuthenticatedPaired])"

definition createUploadHistoryTask :: "GameHistory \<Rightarrow> string \<Rightarrow> 'j net_task" where
  "createUploadHistoryTask h uuid =
     (let filename = uuid @ ''.'' @ SESS_LOG_EXTENSION;
          csv = gameHistoryToCsv h
      in createUploadTask SESSION_CSV_URL
           [FormText JKEY_SESS_LOG_UUID uuid, FormFile JKEY_SESS_LOG_FILE_DEPRECATED csv filename])"

definition postUploadHistoryTask :: "GameHistory \<Rightarrow> string \<Rightarrow> 'j Net \<Rightarrow> 'j Net" where
  "postUploadHistoryTask h uuid n = out [OPost Strand (createUploadHistoryTask h uuid)] n"

section \<open>The NFC probe\<close>

definition NFC_CHECK_TIME :: duration where
  "NFC_CHECK_TIME = milliseconds 2000"
definition NFC_BOOT_REASON_DELAY :: duration where
  "NFC_BOOT_REASON_DELAY = seconds 5"

record 'j NfcNet =
  nf_net :: "'j Net"
  m_probesManager :: "ProbesManager option"
  m_lastNfcBootReason :: string

definition on_nf :: "('j Net \<Rightarrow> 'j Net) \<Rightarrow> 'j NfcNet \<Rightarrow> 'j NfcNet" where
  "on_nf f s = s\<lparr>nf_net := f (nf_net s)\<rparr>"

definition startNfcCheckTimer :: "'j NfcNet \<Rightarrow> 'j NfcNet" where
  "startNfcCheckTimer s = on_nf (out [OStartTimer NfcCheckTag NFC_CHECK_TIME TNfcCheckTag]) s"

text \<open>\<^verbatim>\<open>setNfcTag\<close>: the tag's text is written to the probe; \<open>Undef\<close> without the probes' object.\<close>

definition nfc_set_tag :: "probe_env \<Rightarrow> 'j NfcNet \<Rightarrow> 'j NfcNet res" where
  "nfc_set_tag E s =
     (let (tag, n) = setNfcTag (nf_net s)
      in case m_probesManager s of
           None \<Rightarrow> Undef
         | Some pm \<Rightarrow> Ret (s\<lparr>nf_net := n, m_probesManager := Some (snd (probe_setNfcTag E tag pm))\<rparr>))"

definition nfc_check_task :: "probe_env \<Rightarrow> 'j NfcNet \<Rightarrow> 'j NfcNet res" where
  "nfc_check_task E s =
     (let s = startNfcCheckTimer s
      in case m_probesManager s of
           None \<Rightarrow> Ret s
         | Some pm \<Rightarrow> if isNfcTagRead E pm then nfc_set_tag E s else Ret s)"

definition checkNfcBootReason :: "probe_env \<Rightarrow> 'j NfcNet \<Rightarrow> 'j NfcNet" where
  "checkNfcBootReason E s =
     (case m_probesManager s of
        None \<Rightarrow> s
      | Some pm \<Rightarrow>
          if \<not> m_isNfcCapable (nf_net s) then s
          else let s = on_nf (out [OStopTimer NfcBootReason]) s;
                   (bootReason, pm) = probesBootReason E ProbeNfc pm;
                   s = s\<lparr>m_probesManager := Some pm\<rparr>;
                   s = (case bootReason of
                          Some r \<Rightarrow> if r \<noteq> m_lastNfcBootReason s then s\<lparr>m_lastNfcBootReason := r\<rparr> else s
                        | None \<Rightarrow> s)
               in on_nf (out [OStartTimer NfcBootReason NFC_BOOT_REASON_DELAY TNfcBootReason]) s)"

text \<open>\<^verbatim>\<open>updateDiscoveryDescription\<close>: the description reaches the probes' object.\<close>

definition announce_device :: "probe_env \<Rightarrow> 'j NfcNet \<Rightarrow> 'j NfcNet res" where
  "announce_device E s =
     (let s = on_nf updateDiscoveryDescription s; di = m_deviceInfo (nf_net s)
      in case m_probesManager s of
           None \<Rightarrow> Undef
         | Some pm \<Rightarrow>
             res_bind (setDiscoveryDescription E (serialNumber di) (mi_title (m_machineInfo (nf_net s)))
                 (discovery_provider di) (machineTitle di) pm)
               (\<lambda>(ok, pm). Ret (s\<lparr>m_probesManager := Some pm\<rparr>)))"

definition setProbesManager :: "probe_env \<Rightarrow> ProbesManager option \<Rightarrow> 'j NfcNet \<Rightarrow> 'j NfcNet res" where
  "setProbesManager E manager s =
     (let capable = (case manager of None \<Rightarrow> False | Some pm \<Rightarrow> pm_nfc pm \<noteq> None);
          s = s\<lparr>m_probesManager := manager\<rparr>;
          s = on_nf (\<lambda>n. set_member JKEY_SOBJ_NFC_CAPABLE (DBool capable) (n\<lparr>m_isNfcCapable := capable\<rparr>)) s;
          s = (if capable then startNfcCheckTimer s else s)
      in announce_device E (checkNfcBootReason E s))"

section \<open>Diagnostics\<close>

definition DIAG_MAX_LOGS :: nat where "DIAG_MAX_LOGS = 5"
definition DIAG_MAX_RECORDINGS :: nat where "DIAG_MAX_RECORDINGS = 2"
definition DIAG_MAX_LOG_SIZE :: nat where "DIAG_MAX_LOG_SIZE = 10 * 1024 * 1024 + 100"
definition DIAG_MAX_RECORDING_SIZE :: nat where "DIAG_MAX_RECORDING_SIZE = 20 * 1024 * 1024 + 100"
definition DIAG_MAX_LOG_STRING_SIZE :: nat where "DIAG_MAX_LOG_STRING_SIZE = 10 * 1024 * 1024 + 100"

text \<open>What the task sees: the files, the temporary directory, how writing the archive goes, and whether
  the archive's file is there afterwards.\<close>

record diag_env =
  dg_files :: "string \<Rightarrow> file_view"
  dg_tempDir :: "string res"
  dg_allocated :: bool
  dg_opens :: bool
  dg_codes :: "string \<Rightarrow> entry_codes"
  dg_archiveExists :: "bool res"
  dg_remove :: "unit res"
  dg_clock :: Clock

text \<open>The test of \<^verbatim>\<open>erase_if\<close>: a file system error counts as a reason to skip.\<close>

definition keeps_path :: "(string \<Rightarrow> file_view) \<Rightarrow> nat \<Rightarrow> string \<Rightarrow> bool" where
  "keeps_path fs maxSize path =
     (case fv_exists (fs path) of
        Ret e \<Rightarrow> if \<not> e then False
                else (case fv_size (fs path) of Ret n \<Rightarrow> if n > maxSize then False else True | _ \<Rightarrow> False)
      | _ \<Rightarrow> False)"

definition filterPaths :: "(string \<Rightarrow> file_view) \<Rightarrow> string list \<Rightarrow> nat \<Rightarrow> nat \<Rightarrow> string list" where
  "filterPaths fs paths maxCount maxSize =
     (let paths = (if length paths > maxCount then take maxCount paths else paths)
      in filter (keeps_path fs maxSize) paths)"

definition archive_entries :: "string \<Rightarrow> string list \<Rightarrow> ArchiveFileEntry list" where
  "archive_entries dir paths =
     map (\<lambda>p. \<lparr>af_archivePath = dir @ path_filename p, af_sourcePath = p\<rparr>) paths"

definition extra_log :: "string \<Rightarrow> ArchiveMemoryEntry list" where
  "extra_log logString =
     (if logString \<noteq> [] then
        let logString = (if length logString > DIAG_MAX_LOG_STRING_SIZE
                         then take DIAG_MAX_LOG_STRING_SIZE logString else logString)
        in [\<lparr>am_archivePath = ''logs/extra.log'', am_data = ByteArray_of_chars logString\<rparr>]
      else [])"

definition diag_archive_path :: "string \<Rightarrow> Clock \<Rightarrow> string" where
  "diag_archive_path tempDir c =
     path_append tempDir (''diagnostics_'' @ to_string (c_system c div seconds 1) @ ''.tar.gz'')"

definition uploadDiagnostics :: "string list \<Rightarrow> string list \<Rightarrow> string \<Rightarrow> 'j Net \<Rightarrow> 'j Net" where
  "uploadDiagnostics logPaths recordingPaths logString n =
     out [OPost Pool (TUploadDiagnostics logPaths recordingPaths logString)] n"

text \<open>
  The task up to its request: an answer at once, or the archive that was written and the request.
\<close>

datatype 'j diag_result = DiagFailed "'j Net" | DiagUpload string tar "'j http_task"

definition diag_answer :: "bool \<Rightarrow> 'j Net \<Rightarrow> 'j Net" where
  "diag_answer ok n = push_ev (DiagnosticsUploadedEvent ok) n"

definition upload_diagnostics_task ::
  "diag_env \<Rightarrow> string list \<Rightarrow> string list \<Rightarrow> string \<Rightarrow> 'j Net \<Rightarrow> 'j diag_result res" where
  "upload_diagnostics_task E logPaths recordingPaths logString n =
     (let logPaths = filterPaths (dg_files E) logPaths DIAG_MAX_LOGS DIAG_MAX_LOG_SIZE;
          recordingPaths = filterPaths (dg_files E) recordingPaths DIAG_MAX_RECORDINGS DIAG_MAX_RECORDING_SIZE;
          archiveFiles = archive_entries ''logs/'' logPaths @ archive_entries ''recordings/'' recordingPaths;
          archiveMemory = extra_log logString
      in if archiveFiles = [] \<and> archiveMemory = [] then Ret (DiagFailed (diag_answer False n))
         else res_bind (dg_tempDir E) (\<lambda>tempDir.
           let archivePath = diag_archive_path tempDir (dg_clock E);
               (ok, archive) = createTarGz (dg_allocated E) (dg_opens E) (dg_files E) (dg_codes E)
                                 archiveFiles archiveMemory
           in if \<not> ok then Ret (DiagFailed (diag_answer False n))
              else res_bind (dg_archiveExists E) (\<lambda>present.
                if \<not> present then Ret (DiagFailed (diag_answer False n))
                else Ret (DiagUpload archivePath (case archive of None \<Rightarrow> [] | Some w \<Rightarrow> w)
                  (createPostMultipartRequestTask (CbDiagnostics archivePath)
                     (Endpoint URL_SCORBITRON_DIAGNOSTICS [])
                     [FormDisk ''file'' archivePath ''diagnostics.tar.gz''] [AuthenticatedPaired])))))"

text \<open>The callback: the archive is removed, which may throw, and the application is told.\<close>

definition diagnostics_uploaded :: "diag_env \<Rightarrow> Error \<Rightarrow> 'j Net \<Rightarrow> 'j Net res" where
  "diagnostics_uploaded E error n =
     res_bind (dg_remove E) (\<lambda>_. Ret (diag_answer (error = Success) n))"

text \<open>The whole task with its request, run in place. \<open>None\<close>: it still waits for the server.\<close>

definition run_diagnostics ::
  "diag_env \<Rightarrow> string list \<Rightarrow> string list \<Rightarrow> string \<Rightarrow> 'j http_turn list \<Rightarrow> 'j Net \<Rightarrow> 'j Net res option" where
  "run_diagnostics E logPaths recordingPaths logString turns n =
     (case upload_diagnostics_task E logPaths recordingPaths logString n of
        Exn \<Rightarrow> Some Exn
      | Undef \<Rightarrow> Some Undef
      | Ret (DiagFailed n) \<Rightarrow> Some (Ret n)
      | Ret (DiagUpload path archive task) \<Rightarrow>
          (case createHttpRequestTask task turns n of
             None \<Rightarrow> None
           | Some (error, reply, n) \<Rightarrow> Some (diagnostics_uploaded E error n)))"

end
