(* ===== verification/Net_Device_Props.thy ===== *)
theory Net_Device_Props
  imports Net_Device
begin

text \<open>
  What holds of the life of the network layer (\<open>Net_Device\<close>): construction leaves nothing running but the
  worker, destruction leaves nothing on the timers, what stops when the device is told to stop, what a
  timer that is already due does to the shutdown, the use of the nonces, and the diagnostics.
\<close>

section \<open>Construction\<close>

lemma centrifugoSetup_first:
  "m_centrifugo n = None \<Longrightarrow>
   centrifugoSetup False n = n\<lparr>m_centrifugo := Some \<lparr>cf_id = clients_made n, cf_state = Disconnected\<rparr>,
     clients_made := Suc (clients_made n)\<rparr>"
  by (simp add: centrifugoSetup_def Let_def)

lemma set_member_frame [frame_simps]:
  "outs (set_member k v n) = outs n" "m_centrifugo (set_member k v n) = m_centrifugo n"
  "m_status (set_member k v n) = m_status n" "m_stop (set_member k v n) = m_stop n"
  "clients_made (set_member k v n) = clients_made n" "pushed (set_member k v n) = pushed n"
  by (simp_all add: set_member_def)

lemma initScorbitronObject_frame [frame_simps]:
  "outs (initScorbitronObject v ip n) = outs n" "m_centrifugo (initScorbitronObject v ip n) = m_centrifugo n"
  "m_status (initScorbitronObject v ip n) = m_status n"
  by (simp_all add: initScorbitronObject_def frame_simps Let_def)

text \<open>A new network layer with valid device data has started its worker and made one client; with invalid
  data it never starts the worker, so that nothing posted to it is ever run.\<close>

theorem Net_new_starts:
  "outs (au_net (Net_new P C hp stored info resolvers)) = (if validateDeviceInfo info then [OStartWorker] else []) \<and>
   m_status (au_net (Net_new P C hp stored info resolvers)) = NotAuthenticated \<and>
   (m_centrifugo (au_net (Net_new P C hp stored info resolvers)) \<noteq> None \<longleftrightarrow> validateDeviceInfo info)"
  by (simp add: Net_new_def Let_def use_hosts_def Net_blank_def frame_simps centrifugoSetup_first out_def
      split: prod.split)

section \<open>Destruction\<close>

lemma armed_after_stops: "armed_after t (map OStopTimer ts @ os) w = armed_after t os (if t \<in> set ts then None else w)"
  by (induction ts arbitrary: w) auto

lemma all_timers_complete: "t \<noteq> TimerCount \<Longrightarrow> t \<in> set all_timers"
  by (cases t) (simp_all add: all_timers_def)

lemma destroy_disarms: "t \<noteq> TimerCount \<Longrightarrow> armed t (Net_destroy True n) = None"
  by (simp add: Net_destroy_def Let_def armed_out worker_stop_outs_def armed_after_stops all_timers_complete)

lemma net_stop_stops [simp]: "m_stop (net_stop n)"
  by (simp add: net_stop_def Let_def out_def stopTokenRefreshTimer_def stopHeartbeatTimer_def)

lemma destroy_stops: "m_stop (Net_destroy runs n)"
  by (simp add: Net_destroy_def Let_def out_def split: option.split)

text \<open>The outputs of the destructor are the worker's \<^verbatim>\<open>stop\<close>.\<close>

lemma stopTimer_nth:
  "worker_ok w \<Longrightarrow> t \<noteq> TimerCount \<Longrightarrow>
   stopTimer A t w = w\<lparr>m_timers := (m_timers w)[timer_index t := t_cancel A (m_timers w ! timer_index t)]\<rparr>"
  by (simp add: stopTimer_def getTimer_ok)

lemma worker_ok_stop: "worker_ok w \<Longrightarrow> t \<noteq> TimerCount \<Longrightarrow> worker_ok (stopTimer A t w)"
  by (simp add: stopTimer_nth worker_ok_def)

lemma nine_timers:
  assumes "length ts = 9"
  shows "map f ts = ts[0 := f (ts ! 0), 1 := f (ts ! 1), 2 := f (ts ! 2), 3 := f (ts ! 3), 4 := f (ts ! 4),
    5 := f (ts ! 5), 6 := f (ts ! 6), 7 := f (ts ! 7), 8 := f (ts ! 8)]"
  using assms by (auto simp: eval_nat_numeral length_Suc_conv)

theorem destroy_refines_worker_stop:
  assumes "worker_ok w" "m_running w"
  shows "worker_after A worker_stop_outs w = worker_stop A w"
  using assms nine_timers [of "m_timers w" "t_cancel A"]
  by (simp add: worker_after_def worker_stop_outs_def all_timers_def stopTimer_def getTimer_def worker_ok_def
      worker_stop_def stopAllTimers_def Let_def)

section \<open>What stops\<close>

text \<open>Once the device is told to stop, no connection event, message or delayed task changes it; only
  waiting publications stop their timer.\<close>

theorem stopped_ignores_events:
  assumes "m_stop n"
  shows "on_connected now cl n = n" "on_disconnected now cl code n = n"
    "onPublication J place c cl channel j n = n" "sessionUpdate c sid flags n = n"
    "credits_status_task c fp cr mx n = n" "rebuild_centrifugo now n = n" "centrifugoConnect n = n"
    "sendLatest_read sid n = (None, out [OStopTimer GameDataTimer] n)"
  using assms
  by (simp_all add: on_connected_def on_disconnected_def onPublication_def sessionUpdate_def
      credits_status_task_def rebuild_centrifugo_def centrifugoConnect_def sendLatest_read_def Let_def out_def)

section \<open>A timer that is due\<close>

text \<open>
  The worker while its threads are joined: \<open>dr_waits\<close> is what waits on the timers, \<open>dr_due\<close> the tasks
  that have left a timer or were posted. Joining ends when there is neither.
\<close>

record 'j drain =
  dr_net :: "'j Net"
  dr_waits :: "Timer \<Rightarrow> 'j net_task option"
  dr_due :: "'j net_task list"

definition drain_new :: "'j Net \<Rightarrow> 'j net_task list \<Rightarrow> 'j drain" where
  "drain_new n due =
     \<lparr>dr_net = n, dr_waits = (\<lambda>t. if t = TimerCount then None else armed t n), dr_due = due\<rparr>"

definition joined :: "'j drain \<Rightarrow> bool" where
  "joined s \<longleftrightarrow> dr_due s = [] \<and> dr_waits s = (\<lambda>_. None)"

inductive drain_step :: "'j drain \<Rightarrow> 'j drain \<Rightarrow> bool" where
  expire: "dr_waits s t = Some f \<Longrightarrow>
    drain_step s (s\<lparr>dr_waits := (dr_waits s)(t := None), dr_due := dr_due s @ [f]\<rparr>)"
| tick: "dr_due s = THeartbeatTimer # rest \<Longrightarrow> n = heartbeat_tick (dr_net s) \<Longrightarrow>
    drain_step s (s\<lparr>dr_net := n, dr_due := rest,
      dr_waits := (\<lambda>t. armed_after t (drop (length (outs (dr_net s))) (outs n)) (dr_waits s t))\<rparr>)"

inductive_cases drain_stepE: "drain_step s s'"

lemma heartbeat_tick_outs:
  "drop (length (outs n)) (outs (heartbeat_tick n)) = [OStartTimer Heartbeat HEARTBEAT_TIME THeartbeatTimer]"
  by (simp add: heartbeat_tick_def sendHeartbeat_def startHeartbeatTimer_def out_def)

definition beating :: "'j drain \<Rightarrow> bool" where
  "beating s \<longleftrightarrow>
     dr_due s = [THeartbeatTimer] \<and> dr_waits s = (\<lambda>_. None) \<or>
     dr_due s = [] \<and> dr_waits s = (\<lambda>_. None)(Heartbeat := Some THeartbeatTimer)"

lemma beating_cases:
  assumes "beating s"
  obtains (due) "dr_due s = [THeartbeatTimer]" "dr_waits s = (\<lambda>_. None)"
  | (waits) "dr_due s = []" "dr_waits s = (\<lambda>_. None)(Heartbeat := Some THeartbeatTimer)"
  using assms unfolding beating_def by blast

lemma beating_step:
  assumes "drain_step s s'" "beating s"
  shows "beating s'"
  using assms(1)
proof cases
  case (expire t f)
  from assms(2) show ?thesis
  proof (cases rule: beating_cases)
    case waits
    with expire have "t = Heartbeat" "f = THeartbeatTimer" by (simp_all split: if_splits)
    with expire waits show ?thesis by (simp add: beating_def)
  qed (use expire in simp)
next
  case (tick rest n)
  from assms(2) show ?thesis
  proof (cases rule: beating_cases)
    case due
    then have "(\<lambda>t. armed_after t (drop (length (outs (dr_net s))) (outs n)) (dr_waits s t))
      = (\<lambda>_. None)(Heartbeat := Some THeartbeatTimer)"
      by (auto simp: tick(3) heartbeat_tick_outs)
    with tick due show ?thesis by (simp add: beating_def)
  qed (use tick in simp)
qed

lemma beating_steps: "drain_step\<^sup>*\<^sup>* s s' \<Longrightarrow> beating s \<Longrightarrow> beating s'"
  by (induction rule: rtranclp_induct) (auto intro: beating_step)

lemma beating_goes_on: "beating s \<Longrightarrow> \<not> joined s \<and> (\<exists>s'. drain_step s s')"
proof (erule beating_cases)
  assume "dr_due s = [THeartbeatTimer]"
  then show ?thesis using drain_step.tick [of s "[]"] by (auto simp: joined_def)
next
  assume w: "dr_waits s = (\<lambda>_. None)(Heartbeat := Some THeartbeatTimer)"
  then have "dr_waits s Heartbeat = Some THeartbeatTimer" by simp
  with drain_step.expire [OF this] show ?thesis by (auto simp: joined_def)
qed

lemma drain_new_destroyed: "dr_waits (drain_new (Net_destroy True n) due) = (\<lambda>_. None)"
  by (auto simp: drain_new_def destroy_disarms)

text \<open>
  C30. Shutting down. With nothing left to run, the destructor's cancelling of the timers lets the worker
  be joined. But if the heartbeat was already due at that moment, its task starts the timer again, and
  again, without looking at the flag that was set: the worker is never without work, and the destructor
  does not return.
\<close>

theorem due_heartbeat_blocks_shutdown:
  "joined (drain_new (Net_destroy True n) []) \<and>
   (drain_step\<^sup>*\<^sup>* (drain_new (Net_destroy True n) [THeartbeatTimer]) s \<longrightarrow>
      \<not> joined s \<and> (\<exists>s'. drain_step s s'))"
proof -
  have "joined (drain_new (Net_destroy True n) [])"
    by (simp add: joined_def drain_new_destroyed) (simp add: drain_new_def)
  moreover have "beating (drain_new (Net_destroy True n) [THeartbeatTimer])"
    by (simp add: beating_def drain_new_destroyed) (simp add: drain_new_def)
  ultimately show ?thesis using beating_steps beating_goes_on by blast
qed

theorem due_heartbeat_blocks_shutdown_witness:
  "\<exists>s'. \<not> joined (drain_new (Net_destroy True sample_net) [THeartbeatTimer]) \<and>
     drain_step (drain_new (Net_destroy True sample_net) [THeartbeatTimer]) s'"
  using due_heartbeat_blocks_shutdown [of sample_net "drain_new (Net_destroy True sample_net) [THeartbeatTimer]"]
  by blast

section \<open>Nonces\<close>

fun consume_nonces :: "nat \<Rightarrow> 'j Net \<Rightarrow> string list \<times> 'j Net" where
  "consume_nonces 0 n = ([], n)"
| "consume_nonces (Suc k) n =
     (let (x, n) = consumeNonce n; (xs, n) = consume_nonces k n in (x # xs, n))"

lemma createNfcNonces_nonces [simp]: "m_nonces (createNfcNonces n) = m_nonces n"
  by (simp add: createNfcNonces_def out_def)

lemma consumeNonce_takes:
  "m_nonces n \<noteq> [] \<Longrightarrow>
   fst (consumeNonce n) = last (m_nonces n) \<and> m_nonces (snd (consumeNonce n)) = butlast (m_nonces n)"
  by (simp add: consumeNonce_def Let_def)

text \<open>Of one batch every nonce is used once, the last first.\<close>

theorem nonces_used_once:
  "k \<le> length (m_nonces n) \<Longrightarrow>
   fst (consume_nonces k n) = take k (rev (m_nonces n)) \<and>
   m_nonces (snd (consume_nonces k n)) = take (length (m_nonces n) - k) (m_nonces n)"
proof (induction k arbitrary: n)
  case (Suc k)
  obtain xs x where ns: "m_nonces n = xs @ [x]" using Suc.prems by (cases "m_nonces n" rule: rev_cases) auto
  obtain n1 where c: "consumeNonce n = (x, n1)" "m_nonces n1 = xs"
    using consumeNonce_takes [of n] ns by (cases "consumeNonce n") auto
  obtain ys n2 where "consume_nonces k n1 = (ys, n2)" by fastforce
  with c Suc.IH [of n1] Suc.prems ns show ?case by simp
qed simp

text \<open>A probe that has an NFC tag keeps being watched.\<close>

theorem setProbesManager_watches:
  assumes "setProbesManager E (Some pm) s = Ret s'" "pm_nfc pm \<noteq> None"
  shows "armed NfcCheckTag (nf_net s') = Some TNfcCheckTag \<and> armed NfcBootReason (nf_net s') = Some TNfcBootReason \<and>
    m_isNfcCapable (nf_net s')"
  using assms
  by (auto simp: setProbesManager_def announce_device_def checkNfcBootReason_def startNfcCheckTimer_def Let_def
      on_nf_def updateDiscoveryDescription_def armed_def armed_after_append out_def set_member_def res_bind_Ret
      split: option.splits prod.splits)

section \<open>Diagnostics\<close>

text \<open>What the waits of a request and a new authentication may not do.\<close>

definition no_events :: "('j Net \<Rightarrow> 'j Net) \<Rightarrow> bool" where
  "no_events f \<longleftrightarrow> (\<forall>n. pushed (f n) = pushed n)"

lemma http_loop_pushed:
  "http_loop k t turns reply n = Some (err, reply', n') \<Longrightarrow>
   \<forall>u \<in> set turns. no_events (wake u) \<and> no_events (reauth u) \<Longrightarrow> pushed n' = pushed n"
proof (induction k arbitrary: turns reply n)
  case (Suc k)
  from Suc.prems(1) obtain turn us where turns: "turns = turn # us" by (cases turns) auto
  have w: "pushed (wake turn n) = pushed n" and ra: "\<And>m. pushed (reauth turn m) = pushed m"
    using Suc.prems(2) by (auto simp: turns no_events_def)
  have s: "pushed (send_request t m) = pushed m" for m by (simp add: send_request_def out_def)
  have a: "pushed (after_reauth t turn m) = pushed m" for m
    by (simp add: ra stopTokenRefreshTimer_def out_def s)
  from http_loop_turn [OF Suc.prems(1) [unfolded turns]] Suc.IH Suc.prems(2) turns w s a show ?case
    by fastforce
qed simp

lemma archived_names:
  "e \<in> set (archived_files fs (archive_entries dir ps)) \<Longrightarrow>
   \<exists>p \<in> set ps. fst e = dir @ path_filename p \<and> file_data (fs p) = Some (snd e)"
  by (auto simp: archived_files_def archive_entries_def map_filter_def)

lemma archived_length: "length (archived_files fs files) \<le> length files"
  by (simp add: archived_files_def map_filter_def)

lemma filterPaths_length: "length (filterPaths fs ps m s) \<le> m"
  by (auto simp: filterPaths_def Let_def intro: le_trans [OF length_filter_le])

lemma kept_size: "p \<in> set (filterPaths fs ps m s) \<Longrightarrow> file_data (fs p) = Some d \<Longrightarrow> length d \<le> s"
  by (auto simp: filterPaths_def keeps_path_def file_data_def read_file_def Let_def
      split: res.splits if_splits dest: in_set_takeD)

lemma extra_log_length: "length (extra_log s) \<le> 1"
  by (simp add: extra_log_def Let_def)

lemma extra_log_size: "m \<in> set (extra_log s) \<Longrightarrow> length (am_data m) \<le> DIAG_MAX_LOG_STRING_SIZE"
  by (auto simp: extra_log_def ByteArray_of_chars_def Let_def split: if_splits)

lemma upload_task_archive:
  assumes "upload_diagnostics_task E logs recs extra n = Ret (DiagUpload path ar task)"
  shows "length ar \<le> 8 \<and> (\<forall>e \<in> set ar. length (snd e) \<le> DIAG_MAX_RECORDING_SIZE)"
proof -
  let ?l = "filterPaths (dg_files E) logs DIAG_MAX_LOGS DIAG_MAX_LOG_SIZE"
  let ?r = "filterPaths (dg_files E) recs DIAG_MAX_RECORDINGS DIAG_MAX_RECORDING_SIZE"
  let ?files = "archive_entries ''logs/'' ?l @ archive_entries ''recordings/'' ?r"
  let ?fs = "archived_files (dg_files E)"
  obtain ok r where c: "createTarGz (dg_allocated E) (dg_opens E) (dg_files E) (dg_codes E) ?files (extra_log extra) = (ok, r)"
    by fastforce
  then have "ok" "ar = (case r of None \<Rightarrow> [] | Some w \<Rightarrow> w)"
    using assms by (auto simp: upload_diagnostics_task_def Let_def res_bind_Ret split: if_splits)
  with c have "createTarGz (dg_allocated E) (dg_opens E) (dg_files E) (dg_codes E) ?files (extra_log extra) = (True, r)"
    by simp
  from createTarGz_True [OF this] \<open>ar = _\<close>
  have ar: "ar = ?fs (archive_entries ''logs/'' ?l) @ ?fs (archive_entries ''recordings/'' ?r)
      @ archived_memory (extra_log extra)"
    by (simp add: archived_files_def map_filter_def)
  have "length (?fs (archive_entries ''logs/'' ?l)) \<le> 5" "length (?fs (archive_entries ''recordings/'' ?r)) \<le> 2"
    using archived_length [of "dg_files E" "archive_entries ''logs/'' ?l"]
      archived_length [of "dg_files E" "archive_entries ''recordings/'' ?r"]
      filterPaths_length [of "dg_files E" logs DIAG_MAX_LOGS DIAG_MAX_LOG_SIZE]
      filterPaths_length [of "dg_files E" recs DIAG_MAX_RECORDINGS DIAG_MAX_RECORDING_SIZE]
    by (auto simp: archive_entries_def DIAG_MAX_LOGS_def DIAG_MAX_RECORDINGS_def)
  then have len: "length ar \<le> 8"
    using extra_log_length [of extra] by (simp add: ar archived_memory_def)
  have sz: "DIAG_MAX_LOG_SIZE \<le> DIAG_MAX_RECORDING_SIZE" "DIAG_MAX_LOG_STRING_SIZE \<le> DIAG_MAX_RECORDING_SIZE"
    by (simp_all add: DIAG_MAX_LOG_SIZE_def DIAG_MAX_LOG_STRING_SIZE_def DIAG_MAX_RECORDING_SIZE_def)
  have "length (snd e) \<le> DIAG_MAX_RECORDING_SIZE" if "e \<in> set ar" for e
    using that sz extra_log_size [of _ extra]
    by (fastforce simp: ar archived_memory_def dest!: archived_names dest: kept_size)
  with len show ?thesis by blast
qed

text \<open>
  C31. Every request for diagnostics that ends is answered by one event. It reports success only if the
  request with the archive succeeded, and the archive then holds at most five logs, two recordings and the
  extra log, each within the limit of a recording.
\<close>

theorem diagnostics_answered:
  assumes "run_diagnostics E logs recs extra turns n = Some (Ret n')"
    and "\<forall>u \<in> set turns. no_events (wake u) \<and> no_events (reauth u)"
  shows "\<exists>ok. pushed n' = pushed n @ [DiagnosticsUploadedEvent ok] \<and>
    (ok \<longrightarrow> (\<exists>path ar task reply m. upload_diagnostics_task E logs recs extra n = Ret (DiagUpload path ar task) \<and>
       createHttpRequestTask task turns n = Some (Success, reply, m) \<and>
       length ar \<le> 8 \<and> (\<forall>e \<in> set ar. length (snd e) \<le> DIAG_MAX_RECORDING_SIZE)))"
proof -
  consider (failed) "upload_diagnostics_task E logs recs extra n = Ret (DiagFailed n')"
    | (sent) path ar task err reply m where "upload_diagnostics_task E logs recs extra n = Ret (DiagUpload path ar task)"
        "createHttpRequestTask task turns n = Some (err, reply, m)" "diagnostics_uploaded E err m = Ret n'"
    using assms(1) by (auto simp: run_diagnostics_def split: res.splits diag_result.splits option.splits)
  then show ?thesis
  proof cases
    case failed
    then have "n' = diag_answer False n"
      by (auto simp: upload_diagnostics_task_def Let_def res_bind_Ret case_prod_beta split: if_splits)
    then show ?thesis by (auto simp: diag_answer_def push_ev_def)
  next
    case sent
    then have "pushed m = pushed n"
      using http_loop_pushed assms(2) by (fastforce simp: createHttpRequestTask_def)
    moreover have "n' = diag_answer (err = Success) m"
      using sent(3) by (auto simp: diagnostics_uploaded_def res_bind_Ret)
    ultimately show ?thesis using sent upload_task_archive [OF sent(1)]
      by (intro exI [of _ "err = Success"]) (auto simp: diag_answer_def push_ev_def)
  qed
qed

definition sample_diag :: diag_env where
  "sample_diag = \<lparr>dg_files = (\<lambda>_. \<lparr>fv_exists = Ret True, fv_size = Ret 1, fv_opens = True, fv_bytes = [7]\<rparr>),
     dg_tempDir = Ret ''/tmp'', dg_allocated = True, dg_opens = True, dg_codes = (\<lambda>_. no_entry_fault),
     dg_archiveExists = Ret True, dg_remove = Ret (), dg_clock = sample_clock\<rparr>"

lemma sample_diag_upload:
  "\<exists>path ar task. upload_diagnostics_task sample_diag [''/a/b''] [] [] (sample_net :: jval Net) = Ret (DiagUpload path ar task) \<and>
     ht_allowed task = [AuthenticatedPaired]"
proof -
  have f: "filterPaths (dg_files sample_diag) [''/a/b''] DIAG_MAX_LOGS DIAG_MAX_LOG_SIZE = [''/a/b'']"
    by (simp add: filterPaths_def keeps_path_def sample_diag_def DIAG_MAX_LOGS_def DIAG_MAX_LOG_SIZE_def)
  have g: "filterPaths fs [] m s = []" for fs m s by (simp add: filterPaths_def)
  show ?thesis
    by (simp add: upload_diagnostics_task_def f g archive_entries_def extra_log_def Let_def)
      (simp add: sample_diag_def createTarGz_no_fault createPostMultipartRequestTask_def)
qed

theorem diagnostics_answered_witness:
  "\<exists>n' ok. run_diagnostics sample_diag [''/a/b''] [] []
       [\<lparr>wake = id, response_code = 200, response_text = [], reauth = id\<rparr>] (sample_net :: jval Net) = Some (Ret n') \<and>
     pushed n' = [DiagnosticsUploadedEvent ok]"
proof -
  let ?turns = "[\<lparr>wake = id, response_code = 200, response_text = [], reauth = id\<rparr>] :: jval http_turn list"
  obtain path ar task where u: "upload_diagnostics_task sample_diag [''/a/b''] [] [] (sample_net :: jval Net)
      = Ret (DiagUpload path ar task)" "ht_allowed task = [AuthenticatedPaired]"
    using sample_diag_upload by blast
  have "m_status sample_net = AuthenticatedPaired" by (simp add: sample_net_def)
  then have "\<exists>n'. run_diagnostics sample_diag [''/a/b''] [] [] ?turns sample_net = Some (Ret n')"
    by (simp add: run_diagnostics_def u createHttpRequestTask_def NUM_RETRIES_def eval_nat_numeral Let_def
        may_proceed_def checkAllowedStatuses_def diagnostics_uploaded_def)
      (simp add: sample_diag_def)
  then obtain n' where r: "run_diagnostics sample_diag [''/a/b''] [] [] ?turns sample_net = Some (Ret n')" by blast
  have "\<forall>u \<in> set ?turns. no_events (wake u) \<and> no_events (reauth u)" by (simp add: no_events_def)
  with diagnostics_answered [OF r] obtain ok where "pushed n' = pushed sample_net @ [DiagnosticsUploadedEvent ok]"
    by blast
  with r show ?thesis by (auto simp: sample_net_def)
qed

text \<open>Files of different directories with the same name get the same name in the archive.\<close>

lemma diag_names_collide:
  "map af_archivePath (archive_entries ''logs/'' [''/a/x.log'', ''/b/x.log'']) = [''logs/x.log'', ''logs/x.log'']"
  by (simp add: archive_entries_def path_filename_def)

text \<open>The limit on the number of files is applied before those that are missing are left out.\<close>

lemma diag_counts_missing:
  "(\<And>i. i < 5 \<Longrightarrow> fv_exists (fs (ps ! i)) = Ret False) \<Longrightarrow> length ps = 6 \<Longrightarrow>
   filterPaths fs ps DIAG_MAX_LOGS DIAG_MAX_LOG_SIZE = []"
  by (auto simp: filterPaths_def DIAG_MAX_LOGS_def keeps_path_def Let_def filter_empty_conv in_set_conv_nth)

end
