(* ===== verification/System.thy ===== *)
theory System
  imports Game_State_Props Leaderboard Net_Device_Props "HOL-Library.Multiset"
begin

text \<open>
  The game state on top of the network layer (\<^verbatim>\<open>source/game_state_impl.cpp\<close> with \<^verbatim>\<open>source/net.cpp\<close>): every
  call that the game state makes (\<open>net_call\<close>) is performed by the operation of the network layer that
  implements it, and the worker runs the tasks that were posted, in any order and between any two calls.

  \<open>sy_pending\<close> holds the submissions that were posted and not run yet; the pool may take any of them.
  \<open>sy_closed\<close> holds the sessions that the network layer has removed. A step \<open>Other\<close> stands for the
  operations of the network layer that do not touch the sessions.
\<close>

section \<open>Performing the calls of the game state\<close>

text \<open>A callback of the application is known to the network layer by a number.\<close>

record sys_env =
  se_probes :: probe_env
  se_callback :: "reply_bridge \<Rightarrow> callback_id"

definition led_mode :: "NfcLedMode \<Rightarrow> ProbeLedMode" where
  "led_mode m = (case m of LedIdle \<Rightarrow> ProbeLedIdle | LedGameSession \<Rightarrow> ProbeLedGameSession)"

definition set_leds :: "probe_env \<Rightarrow> NfcLedMode \<Rightarrow> 'j NfcNet \<Rightarrow> 'j NfcNet" where
  "set_leds E m s =
     s\<lparr>m_probesManager := map_option (\<lambda>pm. snd (setNfcLeds E (led_mode m) pm)) (m_probesManager s)\<rparr>"

text \<open>The closure that the mode timer runs posts the tick to the C API.\<close>

definition mode_tick :: callback_id where
  "mode_tick = 0"

fun perform :: "sys_env \<Rightarrow> Clock \<Rightarrow> net_call \<Rightarrow> 'j NfcNet \<Rightarrow> 'j NfcNet res" where
  "perform E c CallSetProbesManager s = setProbesManager (se_probes E) (m_probesManager s) s"
| "perform E c CallAuthenticate s = Ret (on_nf authenticate s)"
| "perform E c (CallSetNfcLeds m) s = Ret (set_leds (se_probes E) m s)"
| "perform E c (CallSessionCreate d origin) s = Ret (on_nf (sessionCreate c d origin True) s)"
| "perform E c (CallSubmitGameData d f) s = Ret (on_nf (net_submitGameData d f) s)"
| "perform E c CallCancelModeExpiryTimer s = Ret (on_nf cancelModeExpiryTimer s)"
| "perform E c (CallScheduleDelayedOnWorker d) s = Ret (on_nf (scheduleDelayedOnWorker d mode_tick) s)"
| "perform E c (CallSetCapabilities w) s = Ret (on_nf (setCapabilities w) s)"
| "perform E c (CallSetCreditsDropped k t ok) s = Ret (on_nf (setCreditsDropped k t ok) s)"
| "perform E c (CallSetCreditsStatus fp k mx pr) s = Ret (on_nf (setCreditsStatus fp k mx) s)"
| "perform E c (CallRequestTopScores sc p since v b) s =
     Ret (on_nf (requestTopScores \<lparr>ts_scope = sc, ts_period = p, ts_since = since, ts_vpin = v,
                                   ts_callback = se_callback E b\<rparr>) s)"
| "perform E c (CallRequestPairCode b) s = Ret (on_nf (requestPairCode (se_callback E b)) s)"
| "perform E c (CallRequestUnpair b) s = Ret (on_nf (requestUnpair (se_callback E b)) s)"
| "perform E c (CallRequestPairMachine m o' b) s =
     Ret (on_nf (requestPairMachine m o' (Some (se_callback E b))) s)"
| "perform E c (CallDownload async b url file hs) s =
     Ret (on_nf (snd \<circ> net_download async (se_callback E b) url file hs) s)"
| "perform E c (CallDownloadBuffer async b url n hs) s =
     Ret (on_nf (snd \<circ> downloadBuffer async (se_callback E b) url n hs) s)"
| "perform E c (CallUploadDiagnostics ls rs t) s = Ret (on_nf (uploadDiagnostics ls rs t) s)"

fun perform_all :: "sys_env \<Rightarrow> Clock \<Rightarrow> net_call list \<Rightarrow> 'j NfcNet \<Rightarrow> 'j NfcNet res" where
  "perform_all E c [] s = Ret s"
| "perform_all E c (call # cs) s = res_bind (perform E c call s) (perform_all E c cs)"

section \<open>The system\<close>

record 'j System =
  sy_game :: GameStateImpl
  sy_nf :: "'j NfcNet"
  sy_pending :: "(GameData \<times> SessionFlags) list"
  sy_closed :: "int set"

abbreviation sy_net :: "'j System \<Rightarrow> 'j Net" where
  "sy_net s \<equiv> nf_net (sy_nf s)"

fun submit_posts :: "'j net_out list \<Rightarrow> (GameData \<times> SessionFlags) list" where
  "submit_posts [] = []"
| "submit_posts (OPost Pool (TSubmitGameData d f) # os) = (d, f) # submit_posts os"
| "submit_posts (_ # os) = submit_posts os"

text \<open>The constructor of the game state: it looks for the probes, then makes its first calls.\<close>

definition System_new ::
  "(string \<Rightarrow> url_view option) \<Rightarrow> crypto_api \<Rightarrow> host_parts \<Rightarrow> string \<Rightarrow> DeviceInfo \<Rightarrow> key_resolver list
   \<Rightarrow> sys_env \<Rightarrow> Clock \<Rightarrow> 'j System res" where
  "System_new P C hp stored info resolvers E c =
     (let s = \<lparr>nf_net = au_net (Net_new P C hp stored info resolvers),
               m_probesManager = Some (probes_enumerate (se_probes E) (probe_code ProbeNfc) True ProbesManager_new),
               m_lastNfcBootReason = []\<rparr>
      in res_bind (perform_all E c (calls GameStateImpl_new) s)
           (\<lambda>s. Ret \<lparr>sy_game = GameStateImpl_new, sy_nf = s, sy_pending = [], sy_closed = {}\<rparr>))"

text \<open>One call of the application: the game state's operation, then its calls to the network layer.\<close>

definition app_call :: "sys_env \<Rightarrow> Clock \<Rightarrow> gs_op \<Rightarrow> Env \<Rightarrow> 'j System \<Rightarrow> 'j System res" where
  "app_call E c op e s =
     (let g = gs_step op e (sy_game s);
          new = drop (length (calls (sy_game s))) (calls g)
      in res_bind (perform_all E c new (sy_nf s)) (\<lambda>nf.
           Ret (s\<lparr>sy_game := g, sy_nf := nf,
                  sy_pending := sy_pending s @ submit_posts (drop (length (outs (sy_net s))) (outs (nf_net nf)))\<rparr>)))"

text \<open>The pool takes the submission at place \<open>i\<close>.\<close>

definition run_submit :: "Clock \<Rightarrow> nat \<Rightarrow> 'j System \<Rightarrow> 'j System" where
  "run_submit c i s =
     (if i < length (sy_pending s) then
        let (d, f) = sy_pending s ! i
        in s\<lparr>sy_nf := on_nf (submit_task c d f) (sy_nf s),
             sy_pending := take i (sy_pending s) @ drop (Suc i) (sy_pending s)\<rparr>
      else s)"

definition with_net :: "'j Net \<Rightarrow> 'j System \<Rightarrow> 'j System" where
  "with_net n s = s\<lparr>sy_nf := (sy_nf s)\<lparr>nf_net := n\<rparr>\<rparr>"

inductive sys_step :: "'j json_api \<Rightarrow> 'j System \<Rightarrow> 'j System \<Rightarrow> bool" for J where
  AppCall: "app_call E c op e s = Ret s' \<Longrightarrow> sys_step J s s'"
| Submitted: "sys_step J s (run_submit c i s)"
| Updating: "sys_step J s (with_net (sessionUpdate c sid flags (sy_net s)) s)"
| Created: "session_created J sid b err reply (sy_net s) = Ret n \<Longrightarrow> sys_step J s (with_net n s)"
| Updated: "session_updated J sid err reply (sy_net s) = Ret n \<Longrightarrow>
    sys_step J s ((with_net n s)\<lparr>sy_closed :=
      (if map_of (m_gameSessions n) sid = None then insert sid (sy_closed s) else sy_closed s)\<rparr>)"
| Data: "session_data_received J uuid err reply (sy_net s) = Ret n \<Longrightarrow> sys_step J s (with_net n s)"
| Picture: "picture_downloaded p url err pic (sy_net s) = Ret n \<Longrightarrow> sys_step J s (with_net n s)"
| Reading: "sendLatest_read sid (sy_net s) = (sn, n) \<Longrightarrow> sys_step J s (with_net n s)"
| Publishing: "sendLatest_publish J c sn (sy_net s) = Ret n \<Longrightarrow> sys_step J s (with_net n s)"
| Other: "m_gameSessions n = m_gameSessions (sy_net s) \<Longrightarrow> sys_step J s (with_net n s)"

inductive sys_reachable :: "'j json_api \<Rightarrow> 'j System \<Rightarrow> bool" for J where
  sys_new: "System_new P C hp stored info resolvers E c = Ret s \<Longrightarrow> sys_reachable J s"
| sys_next: "sys_reachable J s \<Longrightarrow> sys_step J s s' \<Longrightarrow> sys_reachable J s'"

section \<open>The data of a session\<close>

definition history_of :: "int \<Rightarrow> 'j Net \<Rightarrow> GameHistory" where
  "history_of sid n = (case map_of (m_gameSessions n) sid of None \<Rightarrow> [] | Some g \<Rightarrow> history g)"

definition data_sent :: "int \<Rightarrow> net_call \<Rightarrow> GameData list" where
  "data_sent sid call =
     (case call of
        CallSessionCreate d _ \<Rightarrow> if gd_id d = sid then [d] else []
      | CallSubmitGameData d _ \<Rightarrow> if gd_id d = sid then [d] else []
      | _ \<Rightarrow> [])"

definition pending_of :: "int \<Rightarrow> 'j System \<Rightarrow> GameData list" where
  "pending_of sid s = filter (\<lambda>d. gd_id d = sid) (map fst (sy_pending s))"

definition same_histories :: "'j Net \<Rightarrow> 'j Net \<Rightarrow> bool" where
  "same_histories n n' \<longleftrightarrow> (\<forall>sid. history_of sid n' = history_of sid n)"

lemma same_histories_refl: "m_gameSessions n' = m_gameSessions n \<Longrightarrow> same_histories n n'"
  by (simp add: same_histories_def history_of_def)

lemma same_histories_trans: "same_histories a b \<Longrightarrow> same_histories b c \<Longrightarrow> same_histories a c"
  by (simp add: same_histories_def)

lemma same_histories_put:
  "map_of (m_gameSessions n) sid = Some h \<Longrightarrow> history g = history h \<Longrightarrow> same_histories n (put_session sid g n)"
  by (auto simp: same_histories_def history_of_def)

lemma with_scores_histories: "same_histories n (with_scores J val sid n)"
  by (auto simp: with_scores_def intro: same_histories_put same_histories_refl split: option.split)

lemma process_histories: "processScoresAndPlayersProfiles J val sid n = Ret n' \<Longrightarrow> same_histories n n'"
  using with_scores_histories [of n J val sid] process_sessions [of J val sid n n']
  by (simp add: same_histories_def history_of_def)

lemma session_created_histories:
  assumes r: "session_created J sid b err reply n = Ret n'"
  shows "same_histories n n'"
proof (cases "err = Success \<and> created_uuid J reply \<noteq> None \<and> map_of (m_gameSessions n) sid \<noteq> None")
  case True
  then obtain json uuid g where *: "err = Success" "created_uuid J reply = Some (json, uuid)"
    "map_of (m_gameSessions n) sid = Some g" by auto
  let ?n = "put_session sid (g\<lparr>sessionUuid := uuid\<rparr>) n"
  have n: "same_histories n ?n" by (rule same_histories_put [OF *(3)]) simp
  obtain n1 where n1: "(case j_find_if J (j_is_array J) json JKEY_SCR_SCORES of
      Some scores \<Rightarrow> processScoresAndPlayersProfiles J scores sid ?n | None \<Rightarrow> Ret ?n) = Ret n1"
    and n': "n' = n1 \<or> n' = out [OOnCreated sid] n1"
    using r * by (auto simp: session_created_def Let_def res_bind_Ret split: if_splits)
  have "same_histories n n1"
    using n1 n same_histories_trans [OF n process_histories] by (auto split: option.splits)
  with n' show ?thesis by (auto simp: same_histories_def history_of_def)
next
  case False
  then have "n' = n" using r by (auto simp: session_created_def split: if_splits option.splits)
  then show ?thesis by (simp add: same_histories_refl)
qed

lemma session_data_histories: "session_data_received J uuid err reply n = Ret n' \<Longrightarrow> same_histories n n'"
  by (auto simp: session_data_received_def same_histories_refl split: if_splits option.splits
      dest: process_histories)

lemma session_updated_histories:
  "session_updated J sid err reply n = Ret n' \<Longrightarrow> same_histories n n' \<or> n' = erase_session sid n"
  by (auto simp: session_updated_def same_histories_refl split: if_splits option.splits dest: process_histories)

lemma picture_histories: "picture_downloaded p url err d n = Ret n' \<Longrightarrow> same_histories n n'"
  by (auto simp: picture_downloaded_def intro!: same_histories_refl split: if_splits option.splits)

lemma read_histories: "sendLatest_read sid n = (sn, n') \<Longrightarrow> same_histories n n'"
  by (auto simp: sendLatest_read_def Let_def intro!: same_histories_refl split: if_splits option.splits)

lemma publish_histories: "sendLatest_publish J c sn n = Ret n' \<Longrightarrow> same_histories n n'"
  by (auto simp: sendLatest_publish_def Let_def sendLatest_finish_def same_histories_def history_of_def
      split: if_splits option.splits)

lemma update_histories: "same_histories n (sessionUpdate c sid flags n)"
  by (simp add: same_histories_refl)

lemma submit_history:
  "history_of sid (submit_task c d f n) = history_of sid n @ (if gd_id d = sid then [d] else [])"
  by (simp add: history_of_def submit_task_sessions session_at_def GameSession_new_def split: option.split)

lemma create_history:
  "history_of sid (sessionCreate c d origin b n) = history_of sid n @ (if gd_id d = sid then [d] else [])"
  by (simp add: sessionCreate_def createSessionCreateTask_def Let_def history_of_def session_at_def
      GameSession_new_def split: option.split)

section \<open>What a call of the application does\<close>

text \<open>The game state only adds calls.\<close>

definition adds_calls :: "GameStateImpl \<Rightarrow> GameStateImpl \<Rightarrow> bool" where
  "adds_calls s s' \<longleftrightarrow> take (length (calls s)) (calls s') = calls s"

lemma adds_calls_append: "calls s' = calls s @ cs \<Longrightarrow> adds_calls s s'"
  by (simp add: adds_calls_def)

lemma adds_calls_same: "calls s' = calls s \<Longrightarrow> adds_calls s s'"
  by (simp add: adds_calls_def)

lemma adds_calls_split: "adds_calls s s' \<Longrightarrow> calls s' = calls s @ drop (length (calls s)) (calls s')"
  by (metis adds_calls_def append_take_drop_id)

lemma adds_calls_submit: "adds_calls s (submitGameData fs e s)"
  by (auto simp: submitGameData_def Let_def adds_calls_def split: option.split)

lemma adds_calls_reschedule: "calls t = calls s \<Longrightarrow> adds_calls s (rescheduleModeExpiryTimer e t)"
  by (auto simp: rescheduleModeExpiryTimer_def adds_calls_def split: option.split)

lemma adds_calls_finished: "adds_calls s (setGameFinished e s)"
proof (cases "isGameActive (m_data s)")
  case True
  define t where "t = upd_data (isGameActive_update (\<lambda>_. False)) (emit [CallSetNfcLeds LedIdle] (clearModeExpirySchedule s))"
  have "calls (setGameFinished e s) = calls (submitGameData False e t)"
    using True by (simp add: setGameFinished_def t_def Let_def)
  also have "\<dots> = calls t @ drop (length (calls t)) (calls (submitGameData False e t))"
    by (rule adds_calls_split [OF adds_calls_submit])
  finally show ?thesis by (simp add: adds_calls_def t_def)
qed (simp add: setGameFinished_def adds_calls_def)

lemma adds_calls_step: "adds_calls s (gs_step op e s)"
proof (cases op)
  case (OpGameStarted origin)
  then show ?thesis
    by (cases "isGameActive (m_data s) \<or> net_status e = AuthenticationFailed")
      (auto simp: setGameStarted_active setGameStarted_ignored adds_calls_def)
next
  case OpGameFinished
  then show ?thesis by (simp add: adds_calls_finished)
next
  case (OpAddModeExpiring m d)
  then show ?thesis
    by (auto simp: addModeExpiring_def intro: adds_calls_same adds_calls_reschedule)
next
  case OpTickModeExpiries
  then show ?thesis
    by (auto simp: tickModeExpiries_def intro: adds_calls_append adds_calls_reschedule)
next
  case (OpRemoveMode m)
  then show ?thesis
    by (auto simp: removeMode_def Let_def intro: adds_calls_same adds_calls_reschedule)
next
  case OpCommit
  then show ?thesis by (simp add: commit_def adds_calls_submit adds_calls_same)
next
  case OpSessionCreated
  then show ?thesis by (simp add: adds_calls_submit)
qed (auto simp: setCurrentBall_def setActivePlayer_alt setScore_alt addMode_def clearModes_def
      setModeExpiryPoster_def gs_forward_defs intro: adds_calls_same adds_calls_append)

text \<open>What performing one call adds to the outputs, and to the histories.\<close>

definition effect :: "net_call list \<Rightarrow> 'j Net \<Rightarrow> 'j Net \<Rightarrow> bool" where
  "effect cs n n' \<longleftrightarrow>
     (\<exists>os. outs n' = outs n @ os \<and>
        submit_posts os = List.map_filter (\<lambda>c. case c of CallSubmitGameData d f \<Rightarrow> Some (d, f) | _ \<Rightarrow> None) cs) \<and>
     (\<forall>sid. history_of sid n' = history_of sid n @
        concat (map (\<lambda>c. case c of CallSessionCreate d _ \<Rightarrow> if gd_id d = sid then [d] else [] | _ \<Rightarrow> []) cs))"

lemma submit_posts_append [simp]: "submit_posts (xs @ ys) = submit_posts xs @ submit_posts ys"
  by (induction xs rule: submit_posts.induct) simp_all

lemma effect_Nil: "effect [] n n"
  by (simp add: effect_def map_filter_simps)

lemma effect_trans: "effect [c] a b \<Longrightarrow> effect cs b d \<Longrightarrow> effect (c # cs) a d"
  by (auto simp: effect_def map_filter_def)

text \<open>An operation that only adds outputs, none of them a submission.\<close>

definition plain_ext :: "'j Net \<Rightarrow> 'j Net \<Rightarrow> bool" where
  "plain_ext n n' \<longleftrightarrow> m_gameSessions n' = m_gameSessions n \<and> (\<exists>os. outs n' = outs n @ os \<and> submit_posts os = [])"

lemma plain_ext_out [simp]: "plain_ext n (out os n) \<longleftrightarrow> submit_posts os = []"
  by (simp add: plain_ext_def)

lemma plain_ext_refl [intro]: "m_gameSessions n' = m_gameSessions n \<Longrightarrow> outs n' = outs n \<Longrightarrow> plain_ext n n'"
  by (auto simp: plain_ext_def)

lemma plain_ext_trans: "plain_ext a b \<Longrightarrow> plain_ext b c \<Longrightarrow> plain_ext a c"
  by (auto simp: plain_ext_def)

lemma plain_ext_effect:
  "plain_ext n n' \<Longrightarrow> (case c of CallSubmitGameData d f \<Rightarrow> False | CallSessionCreate d r \<Rightarrow> False | _ \<Rightarrow> True) \<Longrightarrow>
   effect [c] n n'"
  by (cases c) (auto simp: plain_ext_def effect_def history_of_def map_filter_simps)

lemma setCapabilities_plain: "plain_ext n (setCapabilities w n)"
  by (auto simp: setCapabilities_def Let_def plain_ext_def set_member_def patchScorbitron_def)

lemma on_nf_net [simp]: "nf_net (on_nf f s) = f (nf_net s)"
  by (simp add: on_nf_def)

lemma checkNfcBootReason_plain: "plain_ext (nf_net s) (nf_net (checkNfcBootReason E s))"
  by (auto simp: checkNfcBootReason_def Let_def plain_ext_def split: option.split prod.split)

lemma announce_plain: "announce_device E s = Ret s' \<Longrightarrow> plain_ext (nf_net s) (nf_net s')"
  by (auto simp: announce_device_def Let_def res_bind_Ret updateDiscoveryDescription_def split: option.splits)

lemma setProbesManager_plain:
  assumes "setProbesManager E m s = Ret s'"
  shows "plain_ext (nf_net s) (nf_net s')"
proof -
  let ?s = "\<lambda>c. on_nf (\<lambda>n. set_member JKEY_SOBJ_NFC_CAPABLE (DBool c) (n\<lparr>m_isNfcCapable := c\<rparr>)) (s\<lparr>m_probesManager := m\<rparr>)"
  obtain c where *: "announce_device E (checkNfcBootReason E (if c then startNfcCheckTimer (?s c) else ?s c)) = Ret s'"
    using assms by (auto simp: setProbesManager_def Let_def)
  have "plain_ext (nf_net s) (nf_net (?s c))" by (auto simp: set_member_def)
  moreover have "plain_ext (nf_net (?s c)) (nf_net (if c then startNfcCheckTimer (?s c) else ?s c))"
    by (auto simp: startNfcCheckTimer_def)
  ultimately show ?thesis
    using announce_plain [OF *] checkNfcBootReason_plain plain_ext_trans by blast
qed

lemmas plain_defs = authenticate_def cancelModeExpiryTimer_def scheduleDelayedOnWorker_def
  setCreditsDropped_def setCreditsStatus_def requestTopScores_def requestTopScoresImpl_def
  requestPairCode_def requestUnpair_def requestPairMachine_def patchScorbitron_def net_download_def
  downloadBuffer_def uploadDiagnostics_def Let_def

lemma create_plain:
  "\<exists>os. outs (sessionCreate c d origin b n) = outs n @ os \<and> submit_posts os = []"
  by (simp add: sessionCreate_def createSessionCreateTask_def Let_def split: option.split)

lemma perform_effect: "perform E c call s = Ret s' \<Longrightarrow> effect [call] (nf_net s) (nf_net s')"
proof (cases call)
  case (CallSessionCreate d origin)
  assume "perform E c call s = Ret s'"
  then show ?thesis
    using create_plain [of c d origin True "nf_net s"]
    by (auto simp: CallSessionCreate effect_def create_history map_filter_simps)
next
  case (CallSubmitGameData d f)
  assume "perform E c call s = Ret s'"
  then show ?thesis
    by (auto simp: CallSubmitGameData effect_def net_submitGameData_def history_of_def map_filter_simps)
qed (auto intro!: plain_ext_effect setCapabilities_plain dest: setProbesManager_plain
      simp: set_leds_def plain_defs split: if_splits)

lemma perform_all_effect: "perform_all E c cs s = Ret s' \<Longrightarrow> effect cs (nf_net s) (nf_net s')"
proof (induction cs arbitrary: s)
  case (Cons call cs)
  then obtain t where "perform E c call s = Ret t" "perform_all E c cs t = Ret s'"
    by (auto simp: res_bind_Ret)
  with Cons.IH effect_trans [OF perform_effect] show ?case by blast
qed (simp add: effect_Nil)

section \<open>No submission is lost or recorded twice\<close>

definition all_data :: "int \<Rightarrow> GameStateImpl \<Rightarrow> GameData list" where
  "all_data sid g = concat (map (data_sent sid) (calls g))"

definition recorded :: "int \<Rightarrow> 'j System \<Rightarrow> bool" where
  "recorded sid s \<longleftrightarrow>
     mset (history_of sid (sy_net s)) + mset (pending_of sid s) = mset (all_data sid (sy_game s))"

lemma data_sent_split:
  "mset (concat (map (data_sent sid) cs)) =
     mset (concat (map (\<lambda>c. case c of CallSessionCreate d _ \<Rightarrow> if gd_id d = sid then [d] else [] | _ \<Rightarrow> []) cs)) +
     mset (filter (\<lambda>d. gd_id d = sid)
       (map fst (List.map_filter (\<lambda>c. case c of CallSubmitGameData d f \<Rightarrow> Some (d, f) | _ \<Rightarrow> None) cs)))"
  by (induction cs) (auto simp: data_sent_def map_filter_simps split: net_call.split)

lemma app_call_recorded:
  assumes "app_call E c op e s = Ret s'" "recorded sid s"
  shows "recorded sid s'"
proof -
  let ?g = "gs_step op e (sy_game s)"
  let ?new = "drop (length (calls (sy_game s))) (calls ?g)"
  have calls: "calls ?g = calls (sy_game s) @ ?new" by (rule adds_calls_split [OF adds_calls_step])
  obtain nf where p: "perform_all E c ?new (sy_nf s) = Ret nf"
    and s': "s' = s\<lparr>sy_game := ?g, sy_nf := nf,
      sy_pending := sy_pending s @ submit_posts (drop (length (outs (sy_net s))) (outs (nf_net nf)))\<rparr>"
    using assms(1) by (auto simp: app_call_def Let_def res_bind_Ret)
  have all: "mset (all_data sid ?g) = mset (all_data sid (sy_game s)) + mset (concat (map (data_sent sid) ?new))"
    unfolding all_data_def by (subst calls) simp
  from perform_all_effect [OF p] assms(2) show ?thesis
    unfolding recorded_def effect_def
    by (auto simp: s' pending_of_def all data_sent_split)
qed

lemma run_submit_recorded:
  assumes "recorded sid s"
  shows "recorded sid (run_submit c i s)"
proof (cases "i < length (sy_pending s)")
  case True
  obtain d f where df: "sy_pending s ! i = (d, f)" by (cases "sy_pending s ! i")
  let ?xs = "take i (sy_pending s)" and ?ys = "drop (Suc i) (sy_pending s)"
  let ?P = "\<lambda>d. gd_id d = sid"
  have xs: "sy_pending s = ?xs @ (d, f) # ?ys" using id_take_nth_drop [OF True] df by simp
  have "pending_of sid s = filter ?P (map fst (?xs @ (d, f) # ?ys))" unfolding pending_of_def by (subst xs) (rule refl)
  moreover have "pending_of sid (run_submit c i s) = filter ?P (map fst (?xs @ ?ys))"
    using True df by (simp add: pending_of_def run_submit_def)
  ultimately have "mset (pending_of sid s) =
      mset (pending_of sid (run_submit c i s)) + mset (if gd_id d = sid then [d] else [])"
    by simp
  with assms True df show ?thesis
    by (simp add: recorded_def run_submit_def submit_history split: if_splits)
qed (simp add: assms run_submit_def)

lemma with_net_recorded: "same_histories (sy_net s) n \<Longrightarrow> recorded sid s \<Longrightarrow> recorded sid (with_net n s)"
  by (simp add: recorded_def with_net_def same_histories_def pending_of_def)

lemma recorded_closed [simp]: "recorded sid (s\<lparr>sy_closed := A\<rparr>) \<longleftrightarrow> recorded sid s"
  by (simp add: recorded_def pending_of_def)

lemma with_net_simps [simp]: "sy_closed (with_net n s) = sy_closed s" "sy_net (with_net n s) = n"
  by (simp_all add: with_net_def)

lemma closed_app_call: "app_call E c op e s = Ret s' \<Longrightarrow> sy_closed s' = sy_closed s"
  by (auto simp: app_call_def Let_def res_bind_Ret)

lemma closed_run_submit [simp]: "sy_closed (run_submit c i s) = sy_closed s"
  by (simp add: run_submit_def split: prod.split)

lemma step_recorded:
  assumes "sys_step J s s'" "sid \<notin> sy_closed s'" "sid \<notin> sy_closed s \<Longrightarrow> recorded sid s"
  shows "recorded sid s'"
  using assms
proof cases
  case (AppCall E c op e)
  with assms show ?thesis by (auto intro: app_call_recorded simp: closed_app_call)
next
  case (Updated i err reply n)
  show ?thesis
  proof (cases "same_histories (sy_net s) n")
    case True
    with Updated assms show ?thesis by (auto intro: with_net_recorded split: if_splits)
  next
    case False
    then have n: "n = erase_session i (sy_net s)" using session_updated_histories [OF Updated(2)] by blast
    then have "sid \<noteq> i" "sid \<notin> sy_closed s" using Updated assms(2) by (auto simp: erase_session_def split: if_splits)
    then have "history_of sid n = history_of sid (sy_net s)" by (simp add: n history_of_def erase_session_def)
    with assms(3) \<open>sid \<notin> sy_closed s\<close> Updated(1) show ?thesis
      by (simp add: recorded_def pending_of_def with_net_def)
  qed
qed (auto intro: with_net_recorded run_submit_recorded same_histories_refl session_created_histories
      update_histories session_data_histories picture_histories read_histories publish_histories)

lemma Net_new_sessions: "m_gameSessions (au_net (Net_new P C hp stored info resolvers)) = []"
  by (simp add: Net_new_def Let_def use_hosts_def Net_blank_def initScorbitronObject_def set_member_def
      centrifugoSetup_first split: prod.split)

lemma System_new_recorded:
  assumes "System_new P C hp stored info resolvers E c = Ret s"
  shows "recorded sid s"
proof -
  obtain nf0 nf where p: "perform_all E c (calls GameStateImpl_new) nf0 = Ret nf" "m_gameSessions (nf_net nf0) = []"
    and s: "s = \<lparr>sy_game = GameStateImpl_new, sy_nf = nf, sy_pending = [], sy_closed = {}\<rparr>"
    using assms Net_new_sessions by (fastforce simp: System_new_def Let_def res_bind_Ret)
  from perform_all_effect [OF p(1)] p(2) show ?thesis
    by (simp add: recorded_def s effect_def history_of_def pending_of_def all_data_def GameStateImpl_new_def data_sent_def)
qed

lemma reachable_recorded: "sys_reachable J s \<Longrightarrow> sid \<notin> sy_closed s \<Longrightarrow> recorded sid s"
proof (induction rule: sys_reachable.induct)
  case (sys_next s s')
  then show ?case using step_recorded by blast
qed (rule System_new_recorded)

lemma reachable_game: "sys_reachable J s \<Longrightarrow> gs_reachable (sy_game s)"
proof (induction rule: sys_reachable.induct)
  case (sys_new P C hp stored info resolvers E c s)
  then show ?case by (auto simp: System_new_def Let_def res_bind_Ret gs_new)
next
  case (sys_next s s')
  from sys_next(2,3) show ?case
    by cases (auto simp: app_call_def Let_def res_bind_Ret with_net_def run_submit_def gs_reachable.gs_op
        split: prod.splits)
qed

end
