(* ===== verification/System_Props.thy ===== *)
theory System_Props
  imports System
begin

text \<open>
  The end of a game through both layers: which calls finishing a game makes, what the tasks they post
  leave in the network layer when the worker takes them, in whatever order, and the request that reports the
  game.
\<close>

section \<open>Calls that create no session\<close>

lemma setCapabilities_keeps [simp]:
  "m_stop (setCapabilities w n) = m_stop n" "m_gameSessions (setCapabilities w n) = m_gameSessions n"
  by (simp_all add: setCapabilities_def Let_def set_member_def patchScorbitron_def)

lemma setProbesManager_keeps:
  assumes "setProbesManager E m s = Ret s'"
  shows "m_stop (nf_net s') = m_stop (nf_net s) \<and> m_gameSessions (nf_net s') = m_gameSessions (nf_net s)"
proof -
  have boot: "m_stop (nf_net (checkNfcBootReason E s)) = m_stop (nf_net s)" for s :: "'a NfcNet"
    by (simp add: checkNfcBootReason_def Let_def split: option.split prod.split)
  have announce: "announce_device E s = Ret s' \<Longrightarrow> m_stop (nf_net s') = m_stop (nf_net s)" for s :: "'a NfcNet"
    by (auto simp: announce_device_def Let_def res_bind_Ret updateDiscoveryDescription_def split: option.splits)
  let ?s = "\<lambda>c. on_nf (\<lambda>n. set_member JKEY_SOBJ_NFC_CAPABLE (DBool c) (n\<lparr>m_isNfcCapable := c\<rparr>)) (s\<lparr>m_probesManager := m\<rparr>)"
  obtain c where *: "announce_device E (checkNfcBootReason E (if c then startNfcCheckTimer (?s c) else ?s c)) = Ret s'"
    using assms by (auto simp: setProbesManager_def Let_def)
  have "m_stop (nf_net (if c then startNfcCheckTimer (?s c) else ?s c)) = m_stop (nf_net s)"
    by (simp add: startNfcCheckTimer_def set_member_def)
  then have "m_stop (nf_net s') = m_stop (nf_net s)" by (simp only: announce [OF *] boot)
  with setProbesManager_plain [OF assms] show ?thesis by (simp add: plain_ext_def)
qed

lemma sessionCreate_stop [simp]: "m_stop (sessionCreate c d origin b n) = m_stop n"
  by (simp add: sessionCreate_def createSessionCreateTask_def Let_def split: option.split)

lemma perform_keeps:
  "perform E c call s = Ret s' \<Longrightarrow>
   m_stop (nf_net s') = m_stop (nf_net s) \<and>
   (creations [call] = [] \<longrightarrow> m_gameSessions (nf_net s') = m_gameSessions (nf_net s))"
  by (cases call) (auto simp: set_leds_def plain_defs net_submitGameData_def if_distrib [of snd]
      dest: setProbesManager_keeps split: if_splits)

lemma perform_all_keeps:
  "perform_all E c cs s = Ret s' \<Longrightarrow>
   m_stop (nf_net s') = m_stop (nf_net s) \<and>
   (creations cs = [] \<longrightarrow> m_gameSessions (nf_net s') = m_gameSessions (nf_net s))"
proof (induction cs arbitrary: s)
  case (Cons call cs)
  then obtain t where t: "perform E c call s = Ret t" "perform_all E c cs t = Ret s'" by (auto simp: res_bind_Ret)
  from perform_keeps [OF t(1)] Cons.IH [OF t(2)] show ?case by (cases call) auto
qed simp

lemma app_call_adds:
  assumes "app_call E c op e s = Ret s'"
    "submissions (calls (gs_step op e (sy_game s))) = submissions (calls (sy_game s)) @ subs"
    "creations (calls (gs_step op e (sy_game s))) = creations (calls (sy_game s))"
  shows "sy_game s' = gs_step op e (sy_game s) \<and> sy_pending s' = sy_pending s @ subs \<and>
    m_stop (sy_net s') = m_stop (sy_net s) \<and> m_gameSessions (sy_net s') = m_gameSessions (sy_net s) \<and>
    (\<exists>os. outs (sy_net s') = outs (sy_net s) @ os)"
proof -
  let ?g = "gs_step op e (sy_game s)"
  let ?new = "drop (length (calls (sy_game s))) (calls ?g)"
  have calls: "calls ?g = calls (sy_game s) @ ?new" by (rule adds_calls_split [OF adds_calls_step])
  have "submissions ?new = subs" "creations ?new = []"
    using assms(2,3) by (subst (asm) (1 2) calls, simp)+
  moreover obtain nf where p: "perform_all E c ?new (sy_nf s) = Ret nf"
    and s': "s' = s\<lparr>sy_game := ?g, sy_nf := nf,
      sy_pending := sy_pending s @ submit_posts (drop (length (outs (sy_net s))) (outs (nf_net nf)))\<rparr>"
    using assms(1) by (auto simp: app_call_def Let_def res_bind_Ret)
  ultimately show ?thesis
    using perform_all_keeps [OF p] perform_all_effect [OF p]
    by (auto simp: s' effect_def submissions_def)
qed

lemma finish_creations: "creations (calls (setGameFinished e s)) = creations (calls s)"
  by (simp add: setGameFinished_def Let_def)

section \<open>Running the posted submissions\<close>

text \<open>
  The pool has four threads and takes the waiting submissions in any order: \<open>ts\<close> says which one each time, and
  what the clocks show then. Other tasks run between them in \<open>sys_step\<close>.
\<close>

definition run_pool :: "(Clock \<times> nat) list \<Rightarrow> 'j System \<Rightarrow> 'j System" where
  "run_pool ts s = fold (\<lambda>(c, i). run_submit c i) ts s"

definition run_list :: "(Clock \<times> GameData \<times> SessionFlags) list \<Rightarrow> 'j Net \<Rightarrow> 'j Net" where
  "run_list ds n = fold (\<lambda>(c, d, f). submit_task c d f) ds n"

text \<open>Whatever the order, the network layer has run some of the submissions one after the other and the rest still waits;
  in the order of posting these are the first ones.\<close>

lemma run_pool_order:
  "\<exists>ds. sy_net (run_pool ts s) = run_list ds (sy_net s) \<and>
     mset (map snd ds) + mset (sy_pending (run_pool ts s)) = mset (sy_pending s) \<and>
     (snd ` set ts \<subseteq> {0} \<longrightarrow> map snd ds @ sy_pending (run_pool ts s) = sy_pending s)"
proof (induction ts arbitrary: s)
  case Nil
  then show ?case by (intro exI [of _ "[]"]) (simp add: run_pool_def run_list_def)
next
  case (Cons t ts)
  obtain c i where t: "t = (c, i)" by (cases t)
  let ?s = "run_submit c i s"
  have run: "run_pool (t # ts) s = run_pool ts ?s" by (simp add: run_pool_def t)
  obtain ds where ds: "sy_net (run_pool ts ?s) = run_list ds (sy_net ?s)"
    "mset (map snd ds) + mset (sy_pending (run_pool ts ?s)) = mset (sy_pending ?s)"
    "snd ` set ts \<subseteq> {0} \<longrightarrow> map snd ds @ sy_pending (run_pool ts ?s) = sy_pending ?s"
    using Cons [of ?s] by (elim exE conjE)
  show ?case
  proof (cases "i < length (sy_pending s)")
    case True
    obtain d f where df: "sy_pending s ! i = (d, f)" by (cases "sy_pending s ! i")
    have split: "sy_pending s = take i (sy_pending s) @ (d, f) # drop (Suc i) (sy_pending s)"
      using id_take_nth_drop [OF True] df by simp
    have s: "?s = s\<lparr>sy_nf := on_nf (submit_task c d f) (sy_nf s),
        sy_pending := take i (sy_pending s) @ drop (Suc i) (sy_pending s)\<rparr>"
      using True df by (simp add: run_submit_def)
    have "mset (sy_pending s) = add_mset (d, f) (mset (sy_pending ?s))"
    proof -
      have "mset (sy_pending s) = mset (take i (sy_pending s) @ (d, f) # drop (Suc i) (sy_pending s))"
        using split by (rule arg_cong)
      then show ?thesis by (simp add: s)
    qed
    moreover have "i = 0 \<Longrightarrow> sy_pending s = (d, f) # sy_pending ?s" using split s by simp
    moreover have net: "sy_net ?s = submit_task c d f (sy_net s)" by (simp add: s)
    ultimately show ?thesis
      using ds unfolding run by (intro exI [of _ "(c, d, f) # ds"]) (auto simp: run_list_def net t)
  next
    case False
    then have "?s = s" by (simp add: run_submit_def)
    with ds show ?thesis unfolding run by (intro exI [of _ ds]) (auto simp: t)
  qed
qed

text \<open>The submissions can all be run in the order of posting.\<close>

lemma run_pool_all: "\<exists>ts. snd ` set ts \<subseteq> {0} \<and> sy_pending (run_pool ts s) = []"
proof (induction "length (sy_pending s)" arbitrary: s)
  case 0
  then show ?case by (intro exI [of _ "[]"]) (simp add: run_pool_def)
next
  case (Suc k)
  obtain d f rest where "sy_pending s = (d, f) # rest" using Suc.hyps(2) by (cases "sy_pending s") auto
  then have "k = length (sy_pending (run_submit undefined 0 s))" using Suc.hyps(2) by (simp add: run_submit_def)
  from Suc.hyps(1) [OF this] obtain ts where
    "snd ` set ts \<subseteq> {0}" "sy_pending (run_pool ts (run_submit undefined 0 s)) = []" by blast
  then show ?case by (intro exI [of _ "(undefined, 0) # ts"]) (simp add: run_pool_def)
qed

text \<open>A session that the server has named, on a device that was not told to stop.\<close>

definition named :: "int \<Rightarrow> 'j Net \<Rightarrow> bool" where
  "named sid n \<longleftrightarrow> \<not> m_stop n \<and> (\<exists>g. map_of (m_gameSessions n) sid = Some g \<and> sessionUuid g \<noteq> [])"

lemma submit_task_stop [simp]: "m_stop (submit_task c d f n) = m_stop n"
  by (simp add: submit_task_def Let_def sendLatestGameData_def sessionUpdate_outs)

lemma submit_task_outs: "\<exists>os. outs (submit_task c d f n) = outs n @ os"
  by (simp add: submit_task_def Let_def sendLatestGameData_def sessionUpdate_outs)

lemma submit_task_named: "named sid n \<Longrightarrow> named sid (submit_task c d f n)"
  by (auto simp: named_def submit_task_sessions session_at_def)

lemma run_list_outs: "\<exists>os. outs (run_list ds n) = outs n @ os"
proof (induction ds arbitrary: n)
  case (Cons x ds)
  obtain c d f where x: "x = (c, d, f)" by (cases x)
  from submit_task_outs [of c d f n] Cons [of "submit_task c d f n"] show ?case
    by (auto simp: run_list_def x)
qed (simp add: run_list_def)

lemma run_list_named: "named sid n \<Longrightarrow> named sid (run_list ds n)"
  by (induction ds arbitrary: n) (auto simp: run_list_def submit_task_named split: prod.splits)

lemma run_list_append: "run_list (xs @ ys) n = run_list ys (run_list xs n)"
  by (simp add: run_list_def)

text \<open>A request that reports the end of a session with its history.\<close>

definition final_report :: "int \<Rightarrow> GameHistory \<Rightarrow> 'j net_out \<Rightarrow> bool" where
  "final_report sid h out' \<longleftrightarrow>
     (\<exists>t parts file. out' = OPost SessionStrand (THttp t) \<and> ht_callback t = CbSessionUpdated sid \<and>
        ht_body t = Multipart parts \<and> FormFile JKEY_SESS_LOG_FILE (gameHistoryToCsv h) file \<in> set parts \<and>
        FormText JKEY_SESS_SUCCESSFULLY_COMPLETED ''True'' \<in> set parts)"

lemma has_upload_bool: "has_flag f UploadHistoryLogs \<Longrightarrow> flags_bool f"
  by (auto simp: flags_bool_def has_flag_bit)

lemma submit_task_reports:
  assumes "named (gd_id d) n" "\<not> isGameActive d" "has_flag f UploadHistoryLogs"
  shows "\<exists>out' \<in> set (drop (length (outs n)) (outs (submit_task c d f n))).
    final_report (gd_id d) (history_of (gd_id d) n @ [d]) out'"
proof -
  obtain g where g: "map_of (m_gameSessions n) (gd_id d) = Some g" "sessionUuid g \<noteq> []" "\<not> m_stop n"
    using assms(1) by (auto simp: named_def)
  then show ?thesis
    using assms(2,3) has_upload_bool [OF assms(3)]
    by (auto simp: submit_task_def Let_def sessionUpdate_outs update_outs_def debounces_def session_at_def
        sendLatestGameData_def final_report_def createPatchMultipartRequestTask_def update_form_def history_of_def)
qed

lemma run_list_history:
  "history_of sid (run_list ds n) = history_of sid n @ filter (\<lambda>d. gd_id d = sid) (map (fst \<circ> snd) ds)"
proof (induction ds arbitrary: n)
  case (Cons x ds)
  obtain c d f where x: "x = (c, d, f)" by (cases x)
  from Cons [of "submit_task c d f n"] show ?case by (auto simp: run_list_def x submit_history)
qed (simp add: run_list_def)

text \<open>The history that is reported is what the session's history starts with; it ends with the data of the
  finished game.\<close>

lemma run_list_reports:
  assumes "named sid n" "(d, f) \<in> snd ` set ds" "gd_id d = sid" "\<not> isGameActive d" "has_flag f UploadHistoryLogs"
  shows "\<exists>out' \<in> set (drop (length (outs n)) (outs (run_list ds n))). \<exists>h rest.
    final_report sid (h @ [d]) out' \<and> history_of sid (run_list ds n) = h @ d # rest"
proof -
  obtain c where "(c, d, f) \<in> set ds" using assms(2) by force
  from split_list [OF this] obtain xs ys where ds: "ds = xs @ (c, d, f) # ys" by blast
  let ?m = "run_list xs n" and ?m2 = "submit_task c d f (run_list xs n)"
  have eq: "run_list ds n = run_list ys ?m2" by (simp add: ds run_list_append) (simp add: run_list_def)
  moreover obtain os1 where "outs ?m = outs n @ os1" using run_list_outs by blast
  moreover obtain os2 where os2: "outs ?m2 = outs ?m @ os2" using submit_task_outs by blast
  moreover obtain os3 where "outs (run_list ys ?m2) = outs ?m2 @ os3" using run_list_outs by blast
  moreover from os2 obtain out' where "out' \<in> set os2" "final_report sid (history_of sid ?m @ [d]) out'"
    using submit_task_reports [of d ?m f c] run_list_named [OF assms(1)] assms(3-5) by auto
  moreover have "\<exists>rest. history_of sid (run_list ys ?m2) = history_of sid ?m @ d # rest"
    using assms(3) by (simp add: run_list_history submit_history)
  ultimately show ?thesis by auto
qed

text \<open>The latest data of a session is the last of its history once a submission was run.\<close>

lemma run_list_last:
  assumes "\<exists>x \<in> set ds. gd_id (fst (snd x)) = sid"
  shows "\<exists>g. map_of (m_gameSessions (run_list ds n)) sid = Some g \<and> history g \<noteq> [] \<and> gs_gameData g = last (history g)"
  using assms
proof (induction ds rule: rev_induct)
  case (snoc x ds)
  obtain c d f where x: "x = (c, d, f)" by (cases x)
  have run: "run_list (ds @ [x]) n = submit_task c d f (run_list ds n)" by (simp add: run_list_def x)
  show ?case
  proof (cases "gd_id d = sid")
    case True
    then show ?thesis by (simp add: run submit_task_sessions)
  next
    case False
    with snoc.prems x have "\<exists>x \<in> set ds. gd_id (fst (snd x)) = sid" by auto
    from snoc.IH [OF this] False show ?thesis by (simp add: run submit_task_sessions)
  qed
qed simp

text \<open>What a confirmed update does after that.\<close>

lemma confirmed_update:
  assumes "\<exists>x \<in> set ds. gd_id (fst (snd x)) = sid" "\<not> isGameActive (last (history_of sid (run_list ds n)))"
  shows "session_updated J sid Success reply (run_list ds n) = Ret (erase_session sid (run_list ds n))"
  using run_list_last [OF assms(1), of n] assms(2) by (auto simp: session_updated_def history_of_def)

text \<open>A submission of the running game that the pool takes after the last one keeps the session for ever.\<close>

lemma late_submission_keeps_session:
  assumes "\<exists>x \<in> set ds. gd_id (fst (snd x)) = sid" "isGameActive (last (history_of sid (run_list ds n)))"
    "session_updated J sid Success reply (run_list ds n) = Ret n'"
  shows "map_of (m_gameSessions n') sid \<noteq> None"
proof -
  obtain g where g: "map_of (m_gameSessions (run_list ds n)) sid = Some g" "isGameActive (gs_gameData g)"
    using run_list_last [OF assms(1), of n] assms(2) by (auto simp: history_of_def)
  with assms(3) show ?thesis
    by (auto simp: session_updated_def with_scores_def dest!: process_sessions split: option.splits)
qed

text \<open>The pool may take two submissions in either order: the history then holds them the other way round.\<close>

lemma history_out_of_order:
  assumes "sy_pending s = [(a, fa), (b, fb)]" "gd_id a = sid" "gd_id b = sid"
  shows "history_of sid (sy_net (run_submit c 0 (run_submit c 1 s))) = history_of sid (sy_net s) @ [b, a]"
  using assms by (simp add: run_submit_def submit_history)

section \<open>A running system\<close>

definition sample_hosts :: host_parts where
  "sample_hosts = \<lparr>hp_mac = [], hp_board = [], hp_cpu = [], hp_platform = [], hp_lanIp = [], hp_sdkVersion = []\<rparr>"

definition no_probes :: probe_env where
  "no_probes = \<lparr>pe_devices = [], pe_initialize = (\<lambda>_. False), pe_informations = (\<lambda>_. None),
     pe_nfc_informations = (\<lambda>_. None), pe_command = (\<lambda>_. False), pe_discovery = True\<rparr>"

definition sample_sys_env :: sys_env where
  "sample_sys_env = \<lparr>se_probes = no_probes, se_callback = br_user_data\<rparr>"

text \<open>A system exists for every device.\<close>

definition has_discovery :: "'j NfcNet \<Rightarrow> bool" where
  "has_discovery s \<longleftrightarrow> (case m_probesManager s of None \<Rightarrow> False | Some pm \<Rightarrow> pm_discovery pm)"

lemma boot_keeps_discovery: "pm_discovery pm \<Longrightarrow> pm_discovery (snd (probesBootReason E ty pm))"
  by (simp add: probesBootReason_def probes_enumerate_def split: option.split)

lemma check_keeps_discovery: "has_discovery s \<Longrightarrow> has_discovery (checkNfcBootReason E s)"
  using boot_keeps_discovery [of _ E ProbeNfc]
  by (auto simp: checkNfcBootReason_def has_discovery_def on_nf_def Let_def case_prod_beta split: option.splits)

lemma announce_defined_nf: "has_discovery s \<Longrightarrow> \<exists>s'. announce_device E s = Ret s'"
  by (auto simp: has_discovery_def announce_device_def on_nf_def setDiscoveryDescription_def Let_def
      split: option.splits)

lemma setProbesManager_defined: "pm_discovery pm \<Longrightarrow> \<exists>s'. setProbesManager E (Some pm) s = Ret s'"
proof -
  let ?s = "\<lambda>c. on_nf (\<lambda>n. set_member JKEY_SOBJ_NFC_CAPABLE (DBool c) (n\<lparr>m_isNfcCapable := c\<rparr>)) (s\<lparr>m_probesManager := Some pm\<rparr>)"
  assume "pm_discovery pm"
  then have "has_discovery (if c then startNfcCheckTimer (?s c) else ?s c)" for c
    by (simp add: has_discovery_def on_nf_def startNfcCheckTimer_def)
  then have "\<exists>s'. announce_device E (checkNfcBootReason E (if c then startNfcCheckTimer (?s c) else ?s c)) = Ret s'" for c
    using announce_defined_nf check_keeps_discovery by blast
  then show ?thesis by (simp add: setProbesManager_def Let_def)
qed

lemma leds_keep_discovery: "pm_discovery (snd (setNfcLeds E m pm)) = pm_discovery pm"
  by (simp add: setNfcLeds_def pm_call_def split: option.split ProbeLedMode.split)

lemma system_exists:
  "\<exists>s :: 'j System. System_new P C hp stored info resolvers E c = Ret s \<and> sy_game s = GameStateImpl_new"
proof -
  let ?pm = "probes_enumerate (se_probes E) (probe_code ProbeNfc) True ProbesManager_new"
  let ?s = "\<lparr>nf_net = au_net (Net_new P C hp stored info resolvers), m_probesManager = Some ?pm,
    m_lastNfcBootReason = []\<rparr> :: 'j NfcNet"
  let ?t = "set_leds (se_probes E) LedIdle ?s"
  have t: "m_probesManager ?t = Some (snd (setNfcLeds (se_probes E) (led_mode LedIdle) ?pm))"
    by (simp add: set_leds_def)
  have "pm_discovery ?pm" by (simp add: probes_enumerate_def)
  then obtain u where "setProbesManager (se_probes E) (m_probesManager ?t) ?t = Ret u"
    using setProbesManager_defined leds_keep_discovery t by metis
  then have "perform_all E c (calls GameStateImpl_new) ?s = Ret (on_nf authenticate u)"
    by (simp add: GameStateImpl_new_def)
  then show ?thesis by (simp add: System_new_def)
qed

text \<open>The calls of the application that need no probes are always performed.\<close>

lemma perform_defined: "call \<noteq> CallSetProbesManager \<Longrightarrow> \<exists>s'. perform E c call s = Ret s'"
  by (cases call) simp_all

lemma perform_all_defined: "CallSetProbesManager \<notin> set cs \<Longrightarrow> \<exists>s'. perform_all E c cs s = Ret s'"
proof (induction cs arbitrary: s)
  case (Cons call cs)
  then obtain t where t: "perform E c call s = Ret t" using perform_defined [of call E c s] by auto
  from Cons.IH [of t] Cons.prems obtain u where "perform_all E c cs t = Ret u" by auto
  with t show ?case by simp
qed simp

text \<open>A game that was started and that the server has named.\<close>

definition sample_gs_env :: Env where
  "sample_gs_env = \<lparr>net_status = AuthenticatedPaired, sys_now = 0, steady_now = 0\<rparr>"

lemma app_call_defined:
  assumes "calls (gs_step op e (sy_game s)) = calls (sy_game s) @ cs" "CallSetProbesManager \<notin> set cs"
  shows "\<exists>s'. app_call E c op e s = Ret s'"
  using perform_all_defined [OF assms(2), of E c "sy_nf s"] assms(1) by (auto simp: app_call_def Let_def)

lemma reachable_started:
  "\<exists>s :: jval System. sys_reachable sample_json s \<and> isGameActive (m_data (sy_game s)) \<and>
     named (m_sessionId (sy_game s)) (sy_net s) \<and> m_sessionId (sy_game s) = 1 \<and> sy_closed s = {} \<and>
     all_data 1 (sy_game s) = [fresh_data 1 0]"
proof -
  obtain s0 :: "jval System" where s0: "System_new (\<lambda>_. None) C sample_hosts [] sample_device [] E sample_clock = Ret s0"
    "sy_game s0 = GameStateImpl_new"
    using system_exists by blast
  have stop: "\<not> m_stop (sy_net s0)"
  proof -
    have "\<not> m_stop (au_net (Net_new (\<lambda>_. None) C sample_hosts [] sample_device [] :: jval AuthNet))"
      by (simp add: Net_new_def Let_def use_hosts_def Net_blank_def initScorbitronObject_def set_member_def
          centrifugoSetup_first split: prod.split)
    with s0 show ?thesis by (auto simp: System_new_def Let_def res_bind_Ret dest: perform_all_keeps)
  qed
  let ?op = "OpGameStarted StartButton"
  let ?g = "gs_step ?op sample_gs_env (sy_game s0)"
  let ?d = "fresh_data 1 0"
  have inactive: "\<not> isGameActive (m_data GameStateImpl_new)" "m_sessionId GameStateImpl_new = 0"
    by (simp_all add: GameStateImpl_new_def GameData_empty_def)
  have closed: "sy_closed s0 = {}" using s0(1) by (auto simp: System_new_def Let_def res_bind_Ret)
  have g: "calls ?g = calls (sy_game s0) @ [CallSetNfcLeds LedGameSession, CallCancelModeExpiryTimer,
      CallSessionCreate ?d StartButton]" "isGameActive (m_data ?g)" "m_sessionId ?g = 1"
    using inactive by (simp_all add: s0(2) setGameStarted_active sample_gs_env_def) (simp add: fresh_data_def)
  obtain s1 where s1: "app_call E sample_clock ?op sample_gs_env s0 = Ret s1"
    using app_call_defined [OF g(1)] by auto
  have net1: "sy_game s1 = ?g" "\<not> m_stop (sy_net s1)" "\<exists>h. map_of (m_gameSessions (sy_net s1)) 1 = Some h"
    using s1 g(1) stop
    by (auto simp: app_call_def Let_def set_leds_def sessionCreate_def createSessionCreateTask_def
        cancelModeExpiryTimer_def fresh_data_def split: option.splits)
  then obtain h where h: "map_of (m_gameSessions (sy_net s1)) 1 = Some h" by blast
  let ?n = "put_session 1 (h\<lparr>sessionUuid := ''uuid''\<rparr>) (sy_net s1)"
  have c: "session_created sample_json 1 True Success ''reply'' (sy_net s1) = Ret (out [OOnCreated 1] ?n)"
    using h net1(2) by (simp add: session_created_def created_uuid_def sample_json_def jval_api_def j_find_if_def
        jval_get_def Let_def)
  have r1: "sys_reachable sample_json s1"
    using sys_reachable.sys_next [OF sys_reachable.sys_new [OF s0(1)] sys_step.AppCall [OF s1]] .
  have "sys_reachable sample_json (with_net (out [OOnCreated 1] ?n) s1)"
    using sys_reachable.sys_next [OF r1 sys_step.Created [OF c]] .
  moreover have "named 1 (out [OOnCreated 1] ?n)" using net1(2) by (simp add: named_def)
  moreover have "all_data 1 ?g = [fresh_data 1 0]"
    unfolding all_data_def g(1) by (simp add: s0(2) GameStateImpl_new_def data_sent_def fresh_data_def)
  ultimately show ?thesis
    using g net1(1) closed closed_app_call [OF s1]
    by (intro exI [of _ "with_net (out [OOnCreated 1] ?n) s1"]) (simp add: with_net_def)
qed

end
