(* ===== verification/Event_Helpers.thy ===== *)
theory Event_Helpers
  imports Event_Queue
begin

text \<open>
  \<^verbatim>\<open>source/event_helpers_c.cpp\<close>: the C functions that read an event. An event pointer is an
  \<open>option\<close>; an output pointer is a \<^typ>\<open>bool\<close>, whether it is not null. The result \<open>None\<close> is the return
  value \<^verbatim>\<open>false\<close>, with nothing written; \<open>Some\<close> holds what is written. A text is handed out by
  \<^verbatim>\<open>c_str()\<close>: the C caller reads it up to the first null character.
\<close>

definition c_str :: "string \<Rightarrow> string" where
  "c_str s = takeWhile (\<lambda>c. c \<noteq> CHR 0x00) s"

text \<open>No null check here: reading through a null pointer is undefined.\<close>

definition sb_event_type :: "'j EventBase option \<Rightarrow> int res" where
  "sb_event_type event = (case event of None \<Rightarrow> Undef | Some e \<Rightarrow> Ret (event_type_code (m_type e)))"

definition sb_event_game_start_requested :: "'j EventBase option \<Rightarrow> bool \<Rightarrow> int option" where
  "sb_event_game_start_requested event players_count =
     (if event = None \<or> \<not> players_count then None
      else case ev_body (the event) of GameStartRequestedEvent n \<Rightarrow> Some n | _ \<Rightarrow> None)"

definition sb_event_credits_add_requested :: "'j EventBase option \<Rightarrow> bool \<Rightarrow> bool \<Rightarrow> (int \<times> string) option" where
  "sb_event_credits_add_requested event credits transaction =
     (if event = None \<or> \<not> credits \<or> \<not> transaction then None
      else case ev_body (the event) of CreditsAddRequestedEvent n t \<Rightarrow> Some (n, c_str t) | _ \<Rightarrow> None)"

definition sb_event_diagnostics_upload_requested :: "'j EventBase option \<Rightarrow> bool \<Rightarrow> bool option" where
  "sb_event_diagnostics_upload_requested event include_recordings =
     (if event = None \<or> \<not> include_recordings then None
      else case ev_body (the event) of DiagnosticsUploadRequestedEvent b \<Rightarrow> Some b | _ \<Rightarrow> None)"

definition sb_event_diagnostics_uploaded :: "'j EventBase option \<Rightarrow> bool \<Rightarrow> bool option" where
  "sb_event_diagnostics_uploaded event success =
     (if event = None \<or> \<not> success then None
      else case ev_body (the event) of DiagnosticsUploadedEvent b \<Rightarrow> Some b | _ \<Rightarrow> None)"

definition sb_event_config_received :: "'j json_api \<Rightarrow> 'j EventBase option \<Rightarrow> bool \<Rightarrow> string option" where
  "sb_event_config_received J event config_json =
     (if event = None \<or> \<not> config_json then None
      else case ev_body (the event) of ConfigReceivedEvent j \<Rightarrow> Some (c_str (j_dump J j)) | _ \<Rightarrow> None)"

definition sb_event_scorbitd_update_received :: "'j EventBase option \<Rightarrow> bool \<Rightarrow> string option" where
  "sb_event_scorbitd_update_received event update_json =
     (if event = None \<or> \<not> update_json then None
      else case ev_body (the event) of ScorbitdUpdateReceivedEvent t \<Rightarrow> Some (c_str t) | _ \<Rightarrow> None)"

definition sb_event_scorbitd_updated :: "'j EventBase option \<Rightarrow> bool \<Rightarrow> bool \<Rightarrow> (string \<times> string) option" where
  "sb_event_scorbitd_updated event version executable_path =
     (if event = None \<or> \<not> version \<or> \<not> executable_path then None
      else case ev_body (the event) of ScorbitdUpdatedEvent v x \<Rightarrow> Some (c_str v, c_str x) | _ \<Rightarrow> None)"

definition sb_event_firmwares_list_received :: "'j EventBase option \<Rightarrow> bool \<Rightarrow> string option" where
  "sb_event_firmwares_list_received event firmwares_list =
     (if event = None \<or> \<not> firmwares_list then None
      else case ev_body (the event) of FirmwaresListReceivedEvent t \<Rightarrow> Some (c_str t) | _ \<Rightarrow> None)"

definition toPlayerProfile :: "'j EventBase option \<Rightarrow> sb_player_t \<Rightarrow> PlayerProfile option" where
  "toPlayerProfile event player =
     (case event of
        None \<Rightarrow> None
      | Some e \<Rightarrow>
          (case ev_body e of PlayersUpdatedEvent ps \<Rightarrow> playerByNumber player ps | _ \<Rightarrow> None))"

definition sb_event_players_updated :: "'j EventBase option \<Rightarrow> bool \<Rightarrow> int option" where
  "sb_event_players_updated event count_out =
     (if event = None \<or> \<not> count_out then None
      else case ev_body (the event) of PlayersUpdatedEvent ps \<Rightarrow> Some (playersCount ps) | _ \<Rightarrow> None)"

definition sb_event_player_has_info ::
  "'j EventBase option \<Rightarrow> sb_player_t \<Rightarrow> bool \<Rightarrow> bool option" where
  "sb_event_player_has_info event player has_info =
     (if \<not> has_info then None else map_option (\<lambda>p. hasInfo p) (toPlayerProfile event player))"

definition sb_event_player_id ::
  "'j EventBase option \<Rightarrow> sb_player_t \<Rightarrow> bool \<Rightarrow> string option" where
  "sb_event_player_id event player id_out =
     (if \<not> id_out then None else map_option (\<lambda>p. c_str (pp_id p)) (toPlayerProfile event player))"

definition sb_event_player_preferred_name ::
  "'j EventBase option \<Rightarrow> sb_player_t \<Rightarrow> bool \<Rightarrow> string option" where
  "sb_event_player_preferred_name event player name =
     (if \<not> name then None else map_option (\<lambda>p. if preferInitials p then c_str (initials p) else c_str (pp_name p)) (toPlayerProfile event player))"

definition sb_event_player_name ::
  "'j EventBase option \<Rightarrow> sb_player_t \<Rightarrow> bool \<Rightarrow> string option" where
  "sb_event_player_name event player name =
     (if \<not> name then None else map_option (\<lambda>p. c_str (pp_name p)) (toPlayerProfile event player))"

definition sb_event_player_initials ::
  "'j EventBase option \<Rightarrow> sb_player_t \<Rightarrow> bool \<Rightarrow> string option" where
  "sb_event_player_initials event player initials_out =
     (if \<not> initials_out then None else map_option (\<lambda>p. c_str (initials p)) (toPlayerProfile event player))"

definition sb_event_player_picture_url ::
  "'j EventBase option \<Rightarrow> sb_player_t \<Rightarrow> bool \<Rightarrow> string option" where
  "sb_event_player_picture_url event player url =
     (if \<not> url then None else map_option (\<lambda>p. c_str (pictureUrl p)) (toPlayerProfile event player))"

definition sb_event_player_claim_deeplink ::
  "'j EventBase option \<Rightarrow> sb_player_t \<Rightarrow> bool \<Rightarrow> string option" where
  "sb_event_player_claim_deeplink event player url =
     (if \<not> url then None else map_option (\<lambda>p. c_str (claimDeeplink p)) (toPlayerProfile event player))"

definition sb_event_player_picture_ready :: "'j EventBase option \<Rightarrow> bool \<Rightarrow> bool \<Rightarrow> bool \<Rightarrow> (sb_player_t \<times> Picture \<times> nat) option" where
  "sb_event_player_picture_ready event player data size_out =
     (if event = None \<or> \<not> player \<or> \<not> data \<or> \<not> size_out then None
      else case ev_body (the event) of PlayerPictureReadyEvent n pic \<Rightarrow> Some (n, pic, length pic) | _ \<Rightarrow> None)"

definition toPricingEvent :: "'j EventBase option \<Rightarrow> Pricing option" where
  "toPricingEvent event =
     (case event of
        None \<Rightarrow> None
      | Some e \<Rightarrow> (case ev_body e of PricingReceivedEvent p \<Rightarrow> Some p | _ \<Rightarrow> None))"

definition sb_event_pricing_free_play :: "'j EventBase option \<Rightarrow> bool \<Rightarrow> bool option" where
  "sb_event_pricing_free_play event free_play =
     (if \<not> free_play then None else map_option (\<lambda>p. m_freePlay p) (toPricingEvent event))"

definition sb_event_pricing_payments_enabled :: "'j EventBase option \<Rightarrow> bool \<Rightarrow> bool option" where
  "sb_event_pricing_payments_enabled event payments_enabled =
     (if \<not> payments_enabled then None else map_option (\<lambda>p. m_paymentsEnabled p) (toPricingEvent event))"

definition sb_event_pricing_bundles_count :: "'j EventBase option \<Rightarrow> bool \<Rightarrow> int option" where
  "sb_event_pricing_bundles_count event count_out =
     (if \<not> count_out then None else map_option (\<lambda>p. bundlesCount p) (toPricingEvent event))"

definition sb_event_pricing_credit_price :: "'j EventBase option \<Rightarrow> bool \<Rightarrow> string option" where
  "sb_event_pricing_credit_price event price =
     (if \<not> price then None
      else case toPricingEvent event of
             None \<Rightarrow> None
           | Some p \<Rightarrow> if \<not> hasPrices p then None else Some (c_str (m_creditPrice p)))"

definition sb_event_pricing_credit_regular_price :: "'j EventBase option \<Rightarrow> bool \<Rightarrow> string option" where
  "sb_event_pricing_credit_regular_price event price =
     (if \<not> price then None
      else case toPricingEvent event of
             None \<Rightarrow> None
           | Some p \<Rightarrow> if \<not> hasPrices p then None else Some (c_str (m_creditRegularPrice p)))"

definition sb_event_pricing_credit_sale_price :: "'j EventBase option \<Rightarrow> bool \<Rightarrow> string option" where
  "sb_event_pricing_credit_sale_price event price =
     (if \<not> price then None
      else case toPricingEvent event of
             None \<Rightarrow> None
           | Some p \<Rightarrow>
               if \<not> hasPrices p then None
               else if m_creditSalePrice p = [] then None
               else Some (c_str (m_creditSalePrice p)))"

definition sb_event_pricing_bundle_credits :: "'j EventBase option \<Rightarrow> int \<Rightarrow> bool \<Rightarrow> int option" where
  "sb_event_pricing_bundle_credits event index credits =
     (if \<not> credits then None
      else case toPricingEvent event of
             None \<Rightarrow> None
           | Some p \<Rightarrow> map_option (\<lambda>b. b_credits b) (bundle_at index p))"

definition sb_event_pricing_bundle_price :: "'j EventBase option \<Rightarrow> int \<Rightarrow> bool \<Rightarrow> string option" where
  "sb_event_pricing_bundle_price event index price =
     (if \<not> price then None
      else case toPricingEvent event of
             None \<Rightarrow> None
           | Some p \<Rightarrow> map_option (\<lambda>b. c_str (b_price b)) (bundle_at index p))"

definition sb_event_pricing_bundle_regular_price :: "'j EventBase option \<Rightarrow> int \<Rightarrow> bool \<Rightarrow> string option" where
  "sb_event_pricing_bundle_regular_price event index price =
     (if \<not> price then None
      else case toPricingEvent event of
             None \<Rightarrow> None
           | Some p \<Rightarrow> map_option (\<lambda>b. c_str (b_regularPrice b)) (bundle_at index p))"

definition sb_event_pricing_bundle_sale_price :: "'j EventBase option \<Rightarrow> int \<Rightarrow> bool \<Rightarrow> string option" where
  "sb_event_pricing_bundle_sale_price event index price =
     (if \<not> price then None
      else case toPricingEvent event of
             None \<Rightarrow> None
           | Some p \<Rightarrow>
               (case bundle_at index p of
                  None \<Rightarrow> None
                | Some b \<Rightarrow> if b_salePrice b = [] then None else Some (c_str (b_salePrice b))))"

definition sb_event_pairing_status_changed :: "'j EventBase option \<Rightarrow> bool \<Rightarrow> bool option" where
  "sb_event_pairing_status_changed event is_paired =
     (if event = None \<or> \<not> is_paired then None
      else case ev_body (the event) of PairingStatusChangedEvent b \<Rightarrow> Some b | _ \<Rightarrow> None)"

section \<open>Properties\<close>

text \<open>
  C11. The type code of an event tells which helper reads it: for an event built by the SDK and
  non-null output pointers, each of the reading functions succeeds exactly on the events of its
  type.
\<close>

theorem helpers_follow_type:
  assumes "e = fst (make_event b c)"
  shows "(sb_event_game_start_requested (Some e) True \<noteq> None \<longleftrightarrow> sb_event_type (Some e) = Ret 0) \<and>
    (sb_event_credits_add_requested (Some e) True True \<noteq> None \<longleftrightarrow> sb_event_type (Some e) = Ret 1) \<and>
    (sb_event_config_received J (Some e) True \<noteq> None \<longleftrightarrow> sb_event_type (Some e) = Ret 3) \<and>
    (sb_event_players_updated (Some e) True \<noteq> None \<longleftrightarrow> sb_event_type (Some e) = Ret 4) \<and>
    (sb_event_player_picture_ready (Some e) True True True \<noteq> None \<longleftrightarrow> sb_event_type (Some e) = Ret 5) \<and>
    (sb_event_diagnostics_upload_requested (Some e) True \<noteq> None \<longleftrightarrow> sb_event_type (Some e) = Ret 6) \<and>
    (sb_event_diagnostics_uploaded (Some e) True \<noteq> None \<longleftrightarrow> sb_event_type (Some e) = Ret 7) \<and>
    (sb_event_pricing_free_play (Some e) True \<noteq> None \<longleftrightarrow> sb_event_type (Some e) = Ret 8) \<and>
    (sb_event_pairing_status_changed (Some e) True \<noteq> None \<longleftrightarrow> sb_event_type (Some e) = Ret 9) \<and>
    (sb_event_scorbitd_update_received (Some e) True \<noteq> None \<longleftrightarrow> sb_event_type (Some e) = Ret 1001) \<and>
    (sb_event_scorbitd_updated (Some e) True True \<noteq> None \<longleftrightarrow> sb_event_type (Some e) = Ret 1002) \<and>
    (sb_event_firmwares_list_received (Some e) True \<noteq> None \<longleftrightarrow> sb_event_type (Some e) = Ret 1003)"
  using assms
  by (cases b)
    (simp_all add: make_event_def Let_def sb_event_type_def sb_event_game_start_requested_def
      sb_event_credits_add_requested_def sb_event_config_received_def sb_event_players_updated_def
      sb_event_player_picture_ready_def sb_event_diagnostics_upload_requested_def
      sb_event_diagnostics_uploaded_def sb_event_pricing_free_play_def toPricingEvent_def
      sb_event_pairing_status_changed_def sb_event_scorbitd_update_received_def
      sb_event_scorbitd_updated_def sb_event_firmwares_list_received_def)

theorem helpers_follow_type_witness:
  "sb_event_type (Some (fst (make_event (GameStartRequestedEvent 3) 0) :: jval EventBase)) = Ret 0 \<and>
   sb_event_game_start_requested (Some (fst (make_event (GameStartRequestedEvent 3) 0) :: jval EventBase)) True = Some 3"
  using helpers_follow_type [OF refl, of "GameStartRequestedEvent 3 :: jval event_body" 0 jval_api]
  by (simp add: make_event_def sb_event_game_start_requested_def sb_event_type_def)

end
