(* ===== verification/Key_Resolver_Props.thy ===== *)
theory Key_Resolver_Props
  imports Key_Resolver
begin

text \<open>
  What the key resolvers guarantee: a provisioned key that was saved is loaded again, and only an
  authentic key is loaded.
\<close>

text \<open>The JSON library reads the members of a saved key back from its text.\<close>

definition json_reads :: "'j json_api \<Rightarrow> string \<Rightarrow> stored_key \<Rightarrow> bool" where
  "json_reads J text k \<longleftrightarrow>
     (\<exists>j. j_parse J text = Some j \<and>
        Option.bind (j_at J j ''encrypted_key'') (j_string J) = Some (sk_encrypted k) \<and>
        Option.bind (j_at J j ''uuid'') (j_string J) = Some (sk_uuid k) \<and>
        Option.bind (j_at J j ''serial_number'') (j_u64 J) = Some (sk_serial k) \<and>
        Option.bind (j_at J j ''provider'') (j_string J) = Some (sk_provider k) \<and>
        Option.bind (j_at J j ''hmac'') (j_string J) = Some (sk_hmac k))"

lemma read_stored_key_reads: "json_reads J text k \<Longrightarrow> read_stored_key J text = Some k"
  by (auto simp: json_reads_def read_stored_key_def Let_def)

lemma provisionNewKey_saved:
  assumes "provisionNewKey J dump C io pk ts r info = Ret rr" "rr_ok rr"
  obtains pub priv confirmed reqs where "io_keyPair io = Some (pub, priv)"
    "rr = save_new_key dump C io priv confirmed reqs r info"
proof -
  obtain pub priv where kp: "io_keyPair io = Some (pub, priv)"
    using assms by (cases "io_keyPair io") (auto simp: provisionNewKey_def Let_def)
  have "\<exists>confirmed reqs. rr = save_new_key dump C io priv confirmed reqs r info"
    using assms kp
    by (auto simp: provisionNewKey_def Let_def res_bind_Ret split: prod.splits option.splits)
  then show thesis using that kp by blast
qed

text \<open>
  C23. A provisioned device keeps its identity: if provisioning succeeded and the application saved the
  text, then loading that text, under the same provider key and for the same provider, succeeds and
  gives back the same identifier, serial number and signing key. This rests on the documented laws of
  the cryptographic library and on the JSON library reading back the members of the saved text.
\<close>

theorem saved_key_loads:
  assumes law: "crypto_law C" and sizes: "length (io_salt io) = SALT_SIZE" "length (io_iv io) = AES_IV_SIZE"
    and keys: "\<forall>pub priv. io_keyPair io = Some (pub, priv) \<longrightarrow> length priv = ECDSA_P256_KEY_SIZE"
    and prov: "provisionNewKey J dump C io pk ts r info = Ret rr" "rr_ok rr" "rr_saved rr = Some text"
    and json: "text \<noteq> []" "\<forall>k. dump (stored_key_doc k) = text \<longrightarrow> json_reads J text k"
    and dev: "loadKeyCallback info'" "provider info' = provider info"
      "m_deviceKeyPassword r' = m_deviceKeyPassword r"
  shows "\<exists>r2 info2. tryLoadKey J C text r' info' = (True, r2, info2) \<and>
    di_uuid info2 = di_uuid (rr_info rr) \<and> serialNumber info2 = serialNumber (rr_info rr) \<and>
    soft_createSigner C r2 = soft_createSigner C (rr_resolver rr)"
proof -
  obtain pub priv confirmed reqs where kp: "io_keyPair io = Some (pub, priv)"
    and rr: "rr = save_new_key dump C io priv confirmed reqs r info"
    using provisionNewKey_saved [OF prov(1,2)] .
  let ?pw = "m_deviceKeyPassword r"
  let ?enc = "encryptSecret C (io_salt io) (io_iv io) priv ?pw"
  let ?k = "\<lparr>sk_encrypted = ?enc, sk_uuid = pr_uuid confirmed, sk_serial = pr_serialNumber confirmed,
    sk_provider = provider info, sk_hmac = computeHmac C (buildHmacMessage (provider info) (pr_uuid confirmed)
      (pr_serialNumber confirmed) ?enc) ?pw\<rparr>"
  have len: "length priv = ECDSA_P256_KEY_SIZE" using keys kp by blast
  have dec: "decryptSecret C ?enc ?pw = Ret priv" by (rule decrypt_encrypt [OF law sizes])
  have "dump (stored_key_doc ?k) = text"
    using prov(3) rr by (simp add: save_new_key_def Let_def split: if_splits)
  then have "read_stored_key J text = Some ?k" using json read_stored_key_reads by blast
  moreover have "priv \<noteq> []" using len by (auto simp: ECDSA_P256_KEY_SIZE_def)
  ultimately show ?thesis
    using dev json(1) dec len rr
    by (simp add: tryLoadKey_def save_new_key_def Let_def soft_createSigner_def fun_eq_iff)
qed

text \<open>
  C24. Only an authentic key is loaded: a successful load means that the stored provider is the
  device's, that the stored code is the HMAC of the four stored fields under the provider key, and
  that the key decrypts to 32 bytes; the device then has the stored identity. A load that fails
  changes nothing.
\<close>

theorem loaded_key_authentic:
  "tryLoadKey J C text r info = (ok, r2, info2) \<Longrightarrow>
   if ok then \<exists>k d. read_stored_key J text = Some k \<and> sk_provider k = provider info \<and>
       sk_hmac k = computeHmac C (buildHmacMessage (sk_provider k) (sk_uuid k) (sk_serial k) (sk_encrypted k))
         (m_deviceKeyPassword r) \<and>
       decryptSecret C (sk_encrypted k) (m_deviceKeyPassword r) = Ret d \<and> length d = 32 \<and>
       r2 = r\<lparr>m_encryptedDeviceKey := sk_encrypted k\<rparr> \<and>
       info2 = info\<lparr>di_uuid := sk_uuid k, serialNumber := sk_serial k\<rparr>
   else r2 = r \<and> info2 = info"
  by (auto simp: tryLoadKey_def Let_def ECDSA_P256_KEY_SIZE_def split: if_splits option.splits res.splits)

text \<open>The message under the HMAC does not separate its fields.\<close>

lemma hmac_message_ambiguous:
  "\<exists>s s' k k'. (s, k) \<noteq> (s', k') \<and> buildHmacMessage p u s k = buildHmacMessage p u s' k'"
proof -
  have "to_string (uint (1 :: u64)) @ ''2k'' = to_string (uint (12 :: u64)) @ ''k''" by code_simp
  then have "((1 :: u64), ''2k'') \<noteq> (12, ''k'') \<and> buildHmacMessage p u 1 ''2k'' = buildHmacMessage p u 12 ''k''"
    by (simp add: buildHmacMessage_def)
  then show ?thesis by blast
qed

text \<open>An encrypted key that is not base64 makes the resolver throw.\<close>

lemma bad_key_throws:
  "hasSoftKeyProvisioning info \<Longrightarrow> bio_decode C (encryptedKey info) = None \<Longrightarrow>
   soft_tryResolve J dump C secret io keyData ts r info = Exn"
  by (simp add: soft_tryResolve_def decryptSecret_def secret_base64Decode_def)

section \<open>Instances\<close>

definition sample_crypto :: crypto_api where
  "sample_crypto =
     \<lparr>bio_decode = (\<lambda>s. Some (ByteArray_of_hex s)), bio_encode = hex False [] [],
      pbkdf2 = (\<lambda>_ _ _. []), gcm_open = (\<lambda>_ _ c _. Some c), gcm_seal = (\<lambda>_ _ p. (p, replicate 16 0)),
      hmac_sha256 = (\<lambda>_ _. []), sha256 = (\<lambda>_. replicate 32 0), ec_sign = (\<lambda>_ _ _. Some [1])\<rparr>"

definition key_device :: DeviceInfo where
  "key_device =
     \<lparr>provider = ''p'', machineId = 1, gameCodeVersion = [], di_hostname = ''h'', di_cfHostname = [],
      di_uuid = [], serialNumber = 0, autoDownloadPlayerPics = False, scoreFeatures = [],
      scoreFeaturesVersion = 0, threadsNice = 0, encryptedKey = ''k'', signerCallback = False,
      scorbitdVersion = [], scorbitdPlatformId = [], machineTitle = [], extraFingerprint = [],
      saveKeyCallback = True, loadKeyCallback = True\<rparr>"

definition key_io :: provision_io where
  "key_io = \<lparr>io_keyPair = Some (replicate 65 4, replicate 32 7), io_salt = replicate 16 0, io_draw = id,
     io_iv = replicate 12 0, io_initiate = (200, ''reply''), io_confirm = (200, ''reply''), io_fingerprint = []\<rparr>"

definition sample_key :: stored_key where
  "sample_key = \<lparr>sk_encrypted = encryptSecret sample_crypto (replicate 16 0) (replicate 12 0) (replicate 32 7) [],
     sk_uuid = ''u'', sk_serial = 5, sk_provider = ''p'', sk_hmac = []\<rparr>"

definition key_json :: "jval json_api" where
  "key_json = jval_api\<lparr>j_parse := (\<lambda>s.
     if s = ''reply'' then Some (JObj [(''uuid'', JStr ''u''), (''serial_number'', JInt 5)])
     else if s = ''doc'' then Some (JObj [(''encrypted_key'', JStr (sk_encrypted sample_key)), (''uuid'', JStr ''u''),
            (''serial_number'', JInt 5), (''provider'', JStr ''p''), (''hmac'', JStr [])])
     else None)\<rparr>"

definition key_dump :: "jval doc \<Rightarrow> string" where
  "key_dump d = (if d = stored_key_doc sample_key then ''doc'' else ''other'')"

lemma stored_key_doc_inject: "stored_key_doc k = stored_key_doc k' \<longleftrightarrow> k = k'"
  by (cases k, cases k') (auto simp: stored_key_doc_def simp flip: word_uint_eq_iff)

lemma sample_crypto_law: "crypto_law sample_crypto"
  by (simp add: crypto_law_def sample_crypto_def TAG_SIZE_def)

lemma sample_provision:
  "\<exists>reqs. provisionNewKey key_json key_dump sample_crypto key_io [] ''7'' SoftKeyResolver_new key_device =
   Ret (save_new_key key_dump sample_crypto key_io (replicate 32 7) \<lparr>pr_uuid = ''u'', pr_serialNumber = 5\<rparr>
     reqs SoftKeyResolver_new key_device)"
proof -
  let ?c = "\<lparr>pr_uuid = ''u'', pr_serialNumber = 5\<rparr> :: ProvisionResult"
  have read: "read_provision key_json ''reply'' = Some ?c" "read_confirmation key_json ''reply'' = Some ?c"
    by (simp_all add: read_provision_def read_confirmation_def key_json_def jval_api_def jval_get_def j_value_def)
  have "\<exists>q. provisioning_initiate key_json sample_crypto 0 ''h'' ''p'' [] ''7'' (200, ''reply'') = (Some ?c, q)"
    using read(1) by (simp add: provisioning_initiate_def Let_def)
  then obtain q1 where q1: "provisioning_initiate key_json sample_crypto 0 ''h'' ''p'' [] ''7'' (200, ''reply'') = (Some ?c, q1)"
    by blast
  have "stoull ''7'' = Some 7" by code_simp
  then have "\<exists>q. provisioning_confirm key_json key_dump sample_crypto 2 ''h'' ?c ph sh ''7'' ''p'' [] [] (200, ''reply'') =
      Ret (Some ?c, q)" for ph sh
    using read(2) by (simp add: provisioning_confirm_def Let_def)
  then obtain q2 where q2: "provisioning_confirm key_json key_dump sample_crypto 2 ''h'' ?c ph sh ''7'' ''p'' [] [] (200, ''reply'') =
      Ret (Some ?c, q2 ph sh)" for ph sh by metis
  have "ecdsaSign sample_crypto n (replicate 32 7) (sha256 sample_crypto m) = Some [1]" for m n
    by (simp add: ecdsaSign_def validateEcdsaInputs_def kP256KeySize_def kSHA256Size_def sample_crypto_def)
  with q1 q2 show ?thesis
    by (simp add: provisionNewKey_def key_io_def key_device_def Let_def) blast
qed

theorem saved_key_loads_witness:
  "\<exists>rr r2 info2.
     provisionNewKey key_json key_dump sample_crypto key_io [] ''7'' SoftKeyResolver_new key_device = Ret rr \<and>
     tryLoadKey key_json sample_crypto ''doc'' SoftKeyResolver_new key_device = (True, r2, info2) \<and>
     di_uuid info2 = di_uuid (rr_info rr)"
proof -
  obtain rr where rr: "provisionNewKey key_json key_dump sample_crypto key_io [] ''7'' SoftKeyResolver_new key_device
      = Ret rr" "rr_ok rr" "rr_saved rr = Some (key_dump (stored_key_doc sample_key))"
    using sample_provision
    by (auto simp: save_new_key_def Let_def key_device_def sample_key_def key_io_def SoftKeyResolver_new_def
        computeHmac_def sample_crypto_def)
  have doc: "rr_saved rr = Some ''doc''" using rr(3) by (simp add: key_dump_def)
  have r: "json_reads key_json ''doc'' sample_key"
    by (simp add: json_reads_def key_json_def jval_api_def jval_get_def sample_key_def)
  have j: "\<forall>k. key_dump (stored_key_doc k) = ''doc'' \<longrightarrow> json_reads key_json ''doc'' k"
    using r by (auto simp: key_dump_def stored_key_doc_inject split: if_splits)
  show ?thesis
    using saved_key_loads [OF sample_crypto_law _ _ _ rr(1,2) doc _ j, of key_device SoftKeyResolver_new] rr(1)
    by (auto simp: key_io_def SALT_SIZE_def AES_IV_SIZE_def ECDSA_P256_KEY_SIZE_def key_device_def)
qed

theorem loaded_key_authentic_witness:
  "\<exists>k. read_stored_key key_json ''doc'' = Some k \<and> sk_provider k = provider key_device"
proof -
  have "json_reads key_json ''doc'' sample_key"
    by (simp add: json_reads_def key_json_def jval_api_def jval_get_def sample_key_def)
  then have k: "read_stored_key key_json ''doc'' = Some sample_key" by (rule read_stored_key_reads)
  have "decryptSecret sample_crypto (sk_encrypted sample_key) [] = Ret (replicate 32 7)"
    unfolding sample_key_def using decrypt_encrypt [OF sample_crypto_law] by (simp add: SALT_SIZE_def AES_IV_SIZE_def)
  then have "\<exists>r2 info2. tryLoadKey key_json sample_crypto ''doc'' SoftKeyResolver_new key_device = (True, r2, info2)"
    using k by (simp add: tryLoadKey_def SoftKeyResolver_new_def key_device_def ECDSA_P256_KEY_SIZE_def Let_def)
      (simp add: sample_key_def computeHmac_def sample_crypto_def)
  then show ?thesis using loaded_key_authentic by fastforce
qed

end
