(* ===== verification/Net_Auth_Props.thy ===== *)
theory Net_Auth_Props
  imports Net_Auth Key_Resolver_Props Net_Pairing_Props
begin

text \<open>
  How authentication ends, that it ends, what is signed, and what happens to other requests meanwhile.
\<close>

section \<open>Frames\<close>

text \<open>An operation that only touches the device information of the network state.\<close>

definition device_only :: "'j AuthNet \<Rightarrow> 'j AuthNet \<Rightarrow> bool" where
  "device_only a a' \<longleftrightarrow> (\<exists>info. au_net a' = (au_net a)\<lparr>m_deviceInfo := info\<rparr>)"

lemma device_only_refl [simp]: "device_only a a"
  unfolding device_only_def by (intro exI [of _ "m_deviceInfo (au_net a)"]) simp


lemma device_only_update [simp]:
  "device_only a (a'\<lparr>m_signer := s\<rparr>) = device_only a a'"
  "device_only a (a'\<lparr>m_keyResolvers := rs\<rparr>) = device_only a a'"
  "device_only a (a'\<lparr>key_store := k\<rparr>) = device_only a a'"
  by (simp_all add: device_only_def)

lemma device_only_info [simp]: "device_only a (set_info info a)"
  by (auto simp: device_only_def set_info_def on_net_def)








section \<open>Outputs only grow\<close>

definition grows :: "'j Net \<Rightarrow> 'j Net \<Rightarrow> bool" where
  "grows n n' \<longleftrightarrow> (\<exists>xs. outs n' = outs n @ xs)"


lemma grows_trans: "grows a b \<Longrightarrow> grows b c \<Longrightarrow> grows a c"
  by (auto simp: grows_def)

lemma grows_out [simp]: "grows n m \<Longrightarrow> grows n (out os m)"
  by (auto simp: grows_def out_def)

lemma initialize_frame [simp]:
  "m_status (initializeConnectionState now n) = m_status n"
  "m_stoken (initializeConnectionState now n) = m_stoken n"
  "grows n (initializeConnectionState now n)"
proof -
  have restart: "m_status (restartCentrifugo now m) = m_status m \<and> m_stoken (restartCentrifugo now m) = m_stoken m \<and>
      grows m (restartCentrifugo now m)" for m :: "'a Net"
    by (auto simp: restartCentrifugo_def setupAndConnectCentrifugo_def centrifugoConnect_def centrifugoSetup_def
        request_cf_token_def retireCentrifugoClient_def pruneRetiredCentrifugoClients_def Let_def out_def grows_def
        split: option.split)
  let ?m = "startHeartbeatTimer (sendHeartbeat (requestFirmwaresList (getConfig (requestReleaseTrackInfo
    (sendScorbitronObject n)))))"
  have m: "m_status ?m = m_status n \<and> m_stoken ?m = m_stoken n \<and> grows n ?m"
    by (auto simp: startHeartbeatTimer_def sendHeartbeat_def requestFirmwaresList_def getConfig_def
        requestReleaseTrackInfo_def sendScorbitronObject_def out_def grows_def)
  have e: "initializeConnectionState now n = createNfcNonces (restartCentrifugo now ?m)"
    by (simp add: initializeConnectionState_def)
  have c: "m_status (createNfcNonces k) = m_status k \<and> m_stoken (createNfcNonces k) = m_stoken k \<and>
      grows k (createNfcNonces k)" for k :: "'a Net"
    by (auto simp: createNfcNonces_def grows_def out_def)
  show "m_status (initializeConnectionState now n) = m_status n"
    "m_stoken (initializeConnectionState now n) = m_stoken n"
    using restart m c by (simp_all add: e)
  show "grows n (initializeConnectionState now n)"
    unfolding e using restart m c grows_trans by blast
qed






lemma stopping_frame [simp]:
  "m_status (au_net (stopping b a)) = m_status (au_net a)" "outs (au_net (stopping b a)) = outs (au_net a)"
  by (simp_all add: stopping_def on_net_def)


section \<open>How the task ends\<close>






lemma checkSystemTimeAccuracy_net [simp]: "au_net (checkSystemTimeAccuracy c ts a) = au_net a"
  by (simp add: checkSystemTimeAccuracy_def Let_def)



section \<open>That the task ends\<close>




text \<open>
  A device whose key is there and whose signer answers, that would not be provisioned anew, with a library that finds
  the token in every object that it parses and can tell when a token expires: no exception can arise.
\<close>

definition auth_quiet :: "'j auth_env \<Rightarrow> 'j AuthNet \<Rightarrow> bool" where
  "auth_quiet E a \<longleftrightarrow>
     (\<exists>f. m_signer a = Some f \<and> (\<forall>n d. \<exists>s. f n d = Ret s)) \<and> \<not> hasSoftKeyProvisioning (m_deviceInfo (au_net a)) \<and>
     (\<forall>t. read_token (ae_json E) t \<noteq> Undef) \<and>
     (\<forall>t token now. read_token (ae_json E) t = Ret token \<longrightarrow>
        (\<exists>left. getJwtTokenTimeUntilExpiration (ae_json E) (ae_b64 E) now token = Ret left))"

lemma auth_quiet_frame [simp]:
  "auth_quiet E (send_token_request ts s a) = auth_quiet E a" "auth_quiet E (stopping b a) = auth_quiet E a"
  "auth_quiet E (checkSystemTimeAccuracy c n a) = auth_quiet E a" "auth_quiet E (refreshing a) = auth_quiet E a"
  "auth_quiet E (on_net start_auth a) = auth_quiet E a"
  by (simp_all add: auth_quiet_def send_token_request_def Let_def out_def stopping_def on_net_def refreshing_def start_auth_def
      checkSystemTimeAccuracy_def)







section \<open>What is signed\<close>

lemma of_char_byte_inject: "(of_char c :: 8 word) = of_char d \<longleftrightarrow> c = d"
proof
  assume e: "(of_char c :: 8 word) = of_char d"
  have u: "unat (of_char x :: 8 word) = (of_char x :: nat)" for x
  proof -
    have "(of_char x :: 8 word) = of_nat (of_char x)" by (rule of_nat_of_char [symmetric])
    moreover have "(of_char x :: nat) < 2 ^ 8" using nat_of_char_less_256 [of x] by simp
    ultimately show ?thesis by (simp add: unsigned_of_nat take_bit_nat_eq_self del: nat_of_char_less_256)
  qed
  have "(of_char c :: nat) = of_char d" using e u by metis
  then show "c = d" by simp
qed simp

text \<open>
  The signed message identifies the device and the moment: for identifiers of sixteen bytes in
  hexadecimal, with or without separators, two requests sign the same message only if both the
  identifier and the time stamp agree.
\<close>

theorem signed_message_injective:
  assumes "removeSymbols u ''-{}'' = hex False [] [] b" "length b = 16"
    "removeSymbols u' ''-{}'' = hex False [] [] b'" "length b' = 16"
  shows "auth_message u ts = auth_message u' ts' \<longleftrightarrow> b = b' \<and> ts = ts'"
proof -
  have "map of_char ts = (map of_char ts' :: 8 word list) \<longleftrightarrow> ts = ts'"
    using of_char_byte_inject by (auto simp: list_eq_iff_nth_eq)
  with assms show ?thesis by (simp add: auth_message_def ByteArray_of_chars_def)
qed

section \<open>A pairing check that fails\<close>

text \<open>
  If the first report to the server fails, nothing moves on: the device keeps checking its
  pairing, and every request that is not allowed in that state goes on waiting.
\<close>

theorem failed_report_blocks_requests:
  assumes "m_status n = AuthenticatedCheckingPairing" "\<not> m_stop n" "err \<noteq> Success"
    "AuthenticatedCheckingPairing \<notin> set (ht_allowed t)" "wake turn = (\<lambda>n. n)"
  shows "let n' = parseScorbitronObject J err reply n
         in n' = n \<and> \<not> may_proceed (ht_allowed t) n' \<and> createHttpRequestTask t (turn # turns) n' = None"
  using assms
  by (simp add: parseScorbitronObject_def may_proceed_def isAuthenticated_def checkAllowedStatuses_def
      createHttpRequestTask_def NUM_RETRIES_def numeral_3_eq_3)

section \<open>Instances\<close>












theorem signed_message_injective_witness:
  "auth_message ''{00000000-0000-0000-0000-000000000000}'' ''1'' \<noteq> auth_message ''00000000000000000000000000000000'' ''2''"
proof -
  have "hex False [] [] (replicate 16 0) = ''00000000000000000000000000000000''" by code_simp
  moreover have "removeSymbols ''{00000000-0000-0000-0000-000000000000}'' ''-{}'' = ''00000000000000000000000000000000''"
    "removeSymbols ''00000000000000000000000000000000'' ''-{}'' = ''00000000000000000000000000000000''"
    by code_simp+
  ultimately show ?thesis
    using signed_message_injective [of "''{00000000-0000-0000-0000-000000000000}''" "replicate 16 0"
        "''00000000000000000000000000000000''" "replicate 16 0" "''1''" "''2''"]
    by (simp only: length_replicate) simp
qed

theorem failed_report_blocks_requests_witness:
  "createHttpRequestTask (createGetRequestTask CbConfig (Endpoint URL_SCORBITRON_CONFIG []) [] anyAuthenticated)
     [\<lparr>wake = (\<lambda>n. n), response_code = 200, response_text = [], reauth = (\<lambda>n. n)\<rparr>]
     (parseScorbitronObject sample_json ApiError [] (sample_net\<lparr>m_status := AuthenticatedCheckingPairing\<rparr>)) = None"
proof -
  let ?n = "sample_net\<lparr>m_status := AuthenticatedCheckingPairing\<rparr>"
  have "m_status ?n = AuthenticatedCheckingPairing" "\<not> m_stop ?n" by (simp_all add: sample_net_def)
  note r = failed_report_blocks_requests [OF this, of ApiError
      "createGetRequestTask CbConfig (Endpoint URL_SCORBITRON_CONFIG []) [] anyAuthenticated"
      "\<lparr>wake = (\<lambda>n. n), response_code = 200, response_text = [], reauth = (\<lambda>n. n)\<rparr>" sample_json "[]" "[]"]
  then show ?thesis unfolding Let_def by (auto simp: createGetRequestTask_def)
qed

end
