(* ===== verification/Config_C.thy ===== *)
theory Config_C
  imports Game_State Net_State
begin

text \<open>
  \<^verbatim>\<open>source/config_c.cpp\<close>: the configuration handle of the C API. A \<^verbatim>\<open>sb_config_t\<close> is a pointer, null
  for \<open>None\<close>, to the device information; a \<^verbatim>\<open>const char *\<close> argument is \<open>None\<close> when it is null. The fields
  of \<open>DeviceInfo\<close> say of each callback whether it is set; the functions and user data behind them are
  the fields added here. The three closures that the setters store are the functions at the end.
\<close>

record sb_config_s = DeviceInfo +
  signer_bridge :: reply_bridge
  event_bridge :: "reply_bridge option"
  save_key_bridge :: reply_bridge
  load_key_bridge :: reply_bridge

type_synonym sb_config_t = "sb_config_s option"

definition null_bridge :: reply_bridge where
  "null_bridge = \<lparr>br_cb = None, br_user_data = 0\<rparr>"

definition str_or_empty :: "string option \<Rightarrow> string" where
  "str_or_empty p = (case p of None \<Rightarrow> [] | Some s \<Rightarrow> s)"

section \<open>The handle and its setters\<close>

definition sb_config_create :: sb_config_t where
  "sb_config_create =
     Some \<lparr>provider = [], machineId = 0, gameCodeVersion = [], di_hostname = [], di_cfHostname = [],
           di_uuid = [], serialNumber = 0, autoDownloadPlayerPics = False, scoreFeatures = [],
           scoreFeaturesVersion = 0, threadsNice = 0, encryptedKey = [], signerCallback = False,
           scorbitdVersion = [], scorbitdPlatformId = [], machineTitle = [], extraFingerprint = [],
           saveKeyCallback = False, loadKeyCallback = False, signer_bridge = null_bridge,
           event_bridge = None, save_key_bridge = null_bridge, load_key_bridge = null_bridge\<rparr>"

definition sb_config_set_provider :: "string option \<Rightarrow> sb_config_t \<Rightarrow> sb_config_t" where
  "sb_config_set_provider p config =
     (case p of None \<Rightarrow> config | Some s \<Rightarrow> map_option (\<lambda>c. c\<lparr>provider := s\<rparr>) config)"

definition sb_config_set_machine_id :: "int \<Rightarrow> sb_config_t \<Rightarrow> sb_config_t" where
  "sb_config_set_machine_id machine_id = map_option (\<lambda>c. c\<lparr>machineId := machine_id\<rparr>)"

definition sb_config_set_game_code_version :: "string option \<Rightarrow> sb_config_t \<Rightarrow> sb_config_t" where
  "sb_config_set_game_code_version version config =
     (case version of None \<Rightarrow> config | Some v \<Rightarrow> map_option (\<lambda>c. c\<lparr>gameCodeVersion := v\<rparr>) config)"

definition sb_config_set_hostname :: "string option \<Rightarrow> sb_config_t \<Rightarrow> sb_config_t" where
  "sb_config_set_hostname h = map_option (\<lambda>c. c\<lparr>di_hostname := str_or_empty h\<rparr>)"

definition sb_config_set_cf_hostname :: "string option \<Rightarrow> sb_config_t \<Rightarrow> sb_config_t" where
  "sb_config_set_cf_hostname h = map_option (\<lambda>c. c\<lparr>di_cfHostname := str_or_empty h\<rparr>)"

definition sb_config_set_uuid :: "string option \<Rightarrow> sb_config_t \<Rightarrow> sb_config_t" where
  "sb_config_set_uuid u = map_option (\<lambda>c. c\<lparr>di_uuid := str_or_empty u\<rparr>)"

definition sb_config_set_serial_number :: "u64 \<Rightarrow> sb_config_t \<Rightarrow> sb_config_t" where
  "sb_config_set_serial_number n = map_option (\<lambda>c. c\<lparr>serialNumber := n\<rparr>)"

definition sb_config_set_auto_download_player_pics :: "bool \<Rightarrow> sb_config_t \<Rightarrow> sb_config_t" where
  "sb_config_set_auto_download_player_pics enable = map_option (\<lambda>c. c\<lparr>autoDownloadPlayerPics := enable\<rparr>)"

definition sb_config_set_threads_priority :: "int \<Rightarrow> sb_config_t \<Rightarrow> sb_config_t" where
  "sb_config_set_threads_priority priority = map_option (\<lambda>c. c\<lparr>threadsNice := priority\<rparr>)"

text \<open>Reading more names than the caller's array has is undefined.\<close>

definition sb_config_set_score_features ::
  "string option list option \<Rightarrow> nat \<Rightarrow> int \<Rightarrow> sb_config_t \<Rightarrow> sb_config_t res" where
  "sb_config_set_score_features features num version config =
     (case config of
        None \<Rightarrow> Ret None
      | Some c \<Rightarrow>
          res_bind
            (case features of
               None \<Rightarrow> Ret []
             | Some fs \<Rightarrow> if num = 0 then Ret []
                        else if length fs < num then Undef else Ret (map str_or_empty (take num fs)))
            (\<lambda>names. Ret (Some (c\<lparr>scoreFeatures := names, scoreFeaturesVersion := version\<rparr>))))"

definition sb_config_set_encrypted_key :: "string option \<Rightarrow> sb_config_t \<Rightarrow> sb_config_t" where
  "sb_config_set_encrypted_key encrypted_key =
     map_option (\<lambda>c.
       let c = c\<lparr>encryptedKey := str_or_empty encrypted_key\<rparr>
       in if encryptedKey c \<noteq> [] then c\<lparr>signerCallback := False, signer_bridge := null_bridge\<rparr> else c)"

definition sb_config_set_signer :: "reply_bridge \<Rightarrow> sb_config_t \<Rightarrow> sb_config_t" where
  "sb_config_set_signer signer =
     map_option (\<lambda>c.
       let c = c\<lparr>signerCallback := (br_cb signer \<noteq> None), signer_bridge := signer\<rparr>
       in if br_cb signer \<noteq> None then c\<lparr>encryptedKey := []\<rparr> else c)"

definition sb_config_set_scorbitd_version :: "string option \<Rightarrow> sb_config_t \<Rightarrow> sb_config_t" where
  "sb_config_set_scorbitd_version v = map_option (\<lambda>c. c\<lparr>scorbitdVersion := str_or_empty v\<rparr>)"

definition sb_config_set_scorbitd_platform_id :: "string option \<Rightarrow> sb_config_t \<Rightarrow> sb_config_t" where
  "sb_config_set_scorbitd_platform_id p = map_option (\<lambda>c. c\<lparr>scorbitdPlatformId := str_or_empty p\<rparr>)"

definition sb_config_set_machine_title :: "string option \<Rightarrow> sb_config_t \<Rightarrow> sb_config_t" where
  "sb_config_set_machine_title t = map_option (\<lambda>c. c\<lparr>machineTitle := str_or_empty t\<rparr>)"

definition sb_config_set_extra_fingerprint :: "string option \<Rightarrow> sb_config_t \<Rightarrow> sb_config_t" where
  "sb_config_set_extra_fingerprint x = map_option (\<lambda>c. c\<lparr>extraFingerprint := str_or_empty x\<rparr>)"

definition sb_config_set_event_callback :: "reply_bridge \<Rightarrow> sb_config_t \<Rightarrow> sb_config_t" where
  "sb_config_set_event_callback b = map_option (\<lambda>c. c\<lparr>event_bridge := Some b\<rparr>)"

definition sb_config_set_save_key_callback :: "reply_bridge \<Rightarrow> sb_config_t \<Rightarrow> sb_config_t" where
  "sb_config_set_save_key_callback b = map_option (\<lambda>c. c\<lparr>saveKeyCallback := True, save_key_bridge := b\<rparr>)"

definition sb_config_set_load_key_callback :: "reply_bridge \<Rightarrow> sb_config_t \<Rightarrow> sb_config_t" where
  "sb_config_set_load_key_callback b = map_option (\<lambda>c. c\<lparr>loadKeyCallback := True, load_key_bridge := b\<rparr>)"

section \<open>The stored closures\<close>

text \<open>
  The C functions are numbers; \<open>call\<close> says what a function does: the loader, given the size of the
  buffer and its user data, returns a code and the buffer's contents.
\<close>

definition save_key :: "(nat \<Rightarrow> string \<Rightarrow> nat \<Rightarrow> string) \<Rightarrow> reply_bridge \<Rightarrow> string \<Rightarrow> string \<Rightarrow> string" where
  "save_key call b key stored =
     (case br_cb b of None \<Rightarrow> stored | Some f \<Rightarrow> call f key (br_user_data b))"

definition FIRST_BUFFER :: nat where "FIRST_BUFFER = 1024"
definition LARGE_BUFFER :: nat where "LARGE_BUFFER = 16 * 1024"

definition load_key :: "(nat \<Rightarrow> nat \<Rightarrow> nat \<Rightarrow> int \<times> string) \<Rightarrow> reply_bridge \<Rightarrow> string" where
  "load_key call b =
     (case br_cb b of
        None \<Rightarrow> []
      | Some f \<Rightarrow>
          let (result, buffer) = call f FIRST_BUFFER (br_user_data b);
              (result, buffer, sz) =
                (if result = -1
                 then let (result, buffer) = call f LARGE_BUFFER (br_user_data b) in (result, buffer, LARGE_BUFFER)
                 else (result, buffer, FIRST_BUFFER))
          in if result > 0 \<and> nat result < sz then take (nat result) buffer else [])"

section \<open>Configurations that a caller can build\<close>

datatype config_op =
    SetProvider "string option" | SetMachineId int | SetGameCodeVersion "string option"
  | SetHostname "string option" | SetCfHostname "string option" | SetUuid "string option"
  | SetSerialNumber u64 | SetAutoDownload bool | SetThreadsPriority int
  | SetScoreFeatures "string option list option" nat int | SetEncryptedKey "string option"
  | SetSigner reply_bridge | SetScorbitdVersion "string option" | SetScorbitdPlatformId "string option"
  | SetMachineTitle "string option" | SetExtraFingerprint "string option"
  | SetEventCallback reply_bridge | SetSaveKey reply_bridge | SetLoadKey reply_bridge

fun config_step :: "config_op \<Rightarrow> sb_config_t \<Rightarrow> sb_config_t res" where
  "config_step (SetProvider s) c = Ret (sb_config_set_provider s c)"
| "config_step (SetMachineId i) c = Ret (sb_config_set_machine_id i c)"
| "config_step (SetGameCodeVersion s) c = Ret (sb_config_set_game_code_version s c)"
| "config_step (SetHostname s) c = Ret (sb_config_set_hostname s c)"
| "config_step (SetCfHostname s) c = Ret (sb_config_set_cf_hostname s c)"
| "config_step (SetUuid s) c = Ret (sb_config_set_uuid s c)"
| "config_step (SetSerialNumber n) c = Ret (sb_config_set_serial_number n c)"
| "config_step (SetAutoDownload b) c = Ret (sb_config_set_auto_download_player_pics b c)"
| "config_step (SetThreadsPriority i) c = Ret (sb_config_set_threads_priority i c)"
| "config_step (SetScoreFeatures fs k v) c = sb_config_set_score_features fs k v c"
| "config_step (SetEncryptedKey s) c = Ret (sb_config_set_encrypted_key s c)"
| "config_step (SetSigner b) c = Ret (sb_config_set_signer b c)"
| "config_step (SetScorbitdVersion s) c = Ret (sb_config_set_scorbitd_version s c)"
| "config_step (SetScorbitdPlatformId s) c = Ret (sb_config_set_scorbitd_platform_id s c)"
| "config_step (SetMachineTitle s) c = Ret (sb_config_set_machine_title s c)"
| "config_step (SetExtraFingerprint s) c = Ret (sb_config_set_extra_fingerprint s c)"
| "config_step (SetEventCallback b) c = Ret (sb_config_set_event_callback b c)"
| "config_step (SetSaveKey b) c = Ret (sb_config_set_save_key_callback b c)"
| "config_step (SetLoadKey b) c = Ret (sb_config_set_load_key_callback b c)"

inductive config_reachable :: "sb_config_t \<Rightarrow> bool" where
  config_new: "config_reachable sb_config_create"
| config_set: "config_reachable c \<Longrightarrow> config_step op c = Ret c' \<Longrightarrow> config_reachable c'"

lemmas config_setters = sb_config_set_provider_def sb_config_set_machine_id_def
  sb_config_set_game_code_version_def sb_config_set_hostname_def sb_config_set_cf_hostname_def
  sb_config_set_uuid_def sb_config_set_serial_number_def sb_config_set_auto_download_player_pics_def
  sb_config_set_threads_priority_def sb_config_set_encrypted_key_def sb_config_set_signer_def
  sb_config_set_scorbitd_version_def sb_config_set_scorbitd_platform_id_def
  sb_config_set_machine_title_def sb_config_set_extra_fingerprint_def sb_config_set_event_callback_def
  sb_config_set_save_key_callback_def sb_config_set_load_key_callback_def

definition one_authentication :: "sb_config_t \<Rightarrow> bool" where
  "one_authentication config \<longleftrightarrow>
     (case config of
        None \<Rightarrow> True
      | Some c \<Rightarrow> signerCallback c \<longrightarrow> encryptedKey c = [] \<and> br_cb (signer_bridge c) \<noteq> None)"

lemma one_authentication_step:
  assumes "one_authentication c" "config_step op c = Ret c'"
  shows "one_authentication c'"
  using assms
  by (cases op; cases c)
    (auto simp: config_setters sb_config_set_score_features_def one_authentication_def Let_def
      split: option.splits if_splits)

text \<open>
  A configuration never holds two ways to authenticate: whatever setters a caller uses, in whatever
  order, a signer excludes an encrypted key, and a signer that is set is a function that can be called.
\<close>

theorem config_one_authentication: "config_reachable c \<Longrightarrow> one_authentication c"
proof (induction rule: config_reachable.induct)
  case config_new
  show ?case by (simp add: sb_config_create_def one_authentication_def)
next
  case (config_set c op c')
  then show ?case by (blast intro: one_authentication_step)
qed

definition sample_bridge :: reply_bridge where
  "sample_bridge = \<lparr>br_cb = Some 1, br_user_data = 7\<rparr>"

definition sample_config :: sb_config_t where
  "sample_config = sb_config_set_signer sample_bridge (sb_config_set_encrypted_key (Some ''k'') sb_config_create)"

theorem config_one_authentication_witness:
  "one_authentication sample_config \<and>
   map_option signerCallback sample_config = Some True \<and> map_option encryptedKey sample_config = Some []"
proof -
  have "config_reachable (sb_config_set_encrypted_key (Some ''k'') sb_config_create)"
    by (rule config_set [OF config_new, where op = "SetEncryptedKey (Some ''k'')"]) simp
  then have "config_reachable sample_config"
    by (rule config_set [where op = "SetSigner sample_bridge"]) (simp add: sample_config_def)
  from config_one_authentication [OF this] show ?thesis
    by (simp add: sample_config_def sb_config_create_def config_setters sample_bridge_def Let_def)
qed

text \<open>A loader that does what the documentation asks: it copies a key that fits and returns its
  length, and returns \<open>-1\<close> when the buffer is too small.\<close>

definition documented_loader :: "string \<Rightarrow> nat \<Rightarrow> nat \<Rightarrow> nat \<Rightarrow> int \<times> string" where
  "documented_loader key f sz user =
     (if length key \<le> sz then (int (length key), key @ replicate (sz - length key) CHR 0x00)
      else (-1, replicate sz CHR 0x00))"

text \<open>
  Which saved keys come back: from a loader that works as documented the SDK reads exactly the
  saved key, except a key of exactly 1024 bytes, which fills the first buffer, and keys of 16384 bytes
  or more; those read as no key.
\<close>

theorem load_key_exact:
  assumes "br_cb b \<noteq> None"
  shows "load_key (documented_loader key) b =
    (if length key \<noteq> 1024 \<and> length key < 16384 then key else [])"
  using assms
  by (auto simp: load_key_def documented_loader_def FIRST_BUFFER_def LARGE_BUFFER_def)

theorem load_key_exact_witness: "load_key (documented_loader ''key'') sample_bridge = ''key''"
  using load_key_exact [of sample_bridge "''key''"] by (simp add: sample_bridge_def)

text \<open>
  Disabling key storage with null callbacks does not disable provisioning: the configuration still
  counts as able to store a key, while nothing is saved and nothing is read back.
\<close>

theorem null_storage_still_provisions:
  assumes "sb_config_set_load_key_callback null_bridge
     (sb_config_set_save_key_callback null_bridge (sb_config_set_encrypted_key (Some k) (Some c))) = Some c'" "k \<noteq> []"
  shows "hasSoftKeyProvisioning (DeviceInfo.truncate c') \<and>
    save_key call (save_key_bridge c') text stored = stored \<and> load_key call' (load_key_bridge c') = []"
  using assms
  by (auto simp: config_setters str_or_empty_def Let_def hasSoftKeyProvisioning_def DeviceInfo.truncate_def
      save_key_def load_key_def null_bridge_def)

theorem null_storage_still_provisions_witness:
  "\<exists>c'. sb_config_set_load_key_callback null_bridge
     (sb_config_set_save_key_callback null_bridge (sb_config_set_encrypted_key (Some ''k'') sb_config_create)) = Some c' \<and>
     hasSoftKeyProvisioning (DeviceInfo.truncate c')"
proof -
  obtain c0 where c0: "sb_config_create = Some c0" by (simp add: sb_config_create_def)
  obtain c' where c': "sb_config_set_load_key_callback null_bridge
     (sb_config_set_save_key_callback null_bridge (sb_config_set_encrypted_key (Some ''k'') (Some c0))) = Some c'"
    by (simp add: config_setters)
  from null_storage_still_provisions [OF c'] c' c0 show ?thesis by auto
qed

end
