(* ===== verification/Producer_Queue.thy ===== *)
theory Producer_Queue
  imports Prelude
begin

text \<open>
  The concurrent queue of a library that two components use (\<^verbatim>\<open>moodycamel::BlockingConcurrentQueue\<close>): what one thread
  enqueued comes out in its order, and nothing is promised between threads. A queue is the list of the
  items with the threads that enqueued them, in the order of enqueueing; which thread is served next is an
  input of the step that takes.
\<close>

fun take_from :: "nat \<Rightarrow> (nat \<times> 'a) list \<Rightarrow> ('a \<times> (nat \<times> 'a) list) option" where
  "take_from p [] = None"
| "take_from p ((q, x) # xs) =
     (if q = p then Some (x, xs)
      else case take_from p xs of None \<Rightarrow> None | Some (y, ys) \<Rightarrow> Some (y, (q, x) # ys))"

definition of_thread :: "nat \<Rightarrow> (nat \<times> 'a) list \<Rightarrow> 'a list" where
  "of_thread t q = map snd (filter (\<lambda>x. fst x = t) q)"

lemma of_thread_simps [simp]:
  "of_thread t [] = []"
  "of_thread t (x # xs) = (if fst x = t then snd x # of_thread t xs else of_thread t xs)"
  "of_thread t (xs @ ys) = of_thread t xs @ of_thread t ys"
  by (simp_all add: of_thread_def)

lemma set_of_thread: "x \<in> set (of_thread t q) \<longleftrightarrow> (t, x) \<in> set q"
  by (force simp: of_thread_def)

lemma length_of_thread: "length (of_thread t q) \<le> length q"
  by (simp add: of_thread_def)

lemma take_from_thread:
  "take_from p q = Some (x, rest) \<Longrightarrow>
   of_thread t q = (if t = p then x # of_thread t rest else of_thread t rest)"
  by (induction q arbitrary: rest) (auto split: if_splits option.splits)

lemma take_from_length: "take_from p q = Some (x, rest) \<Longrightarrow> length q = Suc (length rest)"
  by (induction q arbitrary: rest) (auto split: if_splits option.splits)

lemma take_from_set: "take_from p q = Some (x, rest) \<Longrightarrow> set q = insert (p, x) (set rest)"
  by (induction q arbitrary: rest) (auto split: if_splits option.splits)

lemma take_from_None: "take_from p q = None \<longleftrightarrow> of_thread p q = []"
  by (induction q) (auto split: option.splits)

lemma take_from_nonempty: "q \<noteq> [] \<Longrightarrow> \<exists>p x rest. take_from p q = Some (x, rest)"
  by (cases q) (auto intro!: exI)

lemma take_from_filter:
  "take_from p q = Some (x, rest) \<Longrightarrow>
   length (filter P q) = (if P (p, x) then 1 else 0) + length (filter P rest)"
  by (induction q arbitrary: rest) (auto split: if_splits option.splits)

end
