(* ===== verification/Game_State_C.thy ===== *)
theory Game_State_C
  imports Config_C Game_State_Props Net_Auth Leaderboard Producer_Queue
begin

text \<open>
  \<^verbatim>\<open>source/game_state_c.cpp\<close>: the C API of the game state. A call of the API only puts a job into a
  queue; one thread, the dispatcher, takes the jobs and performs them on the game state.

  \<^item> \<^verbatim>\<open>JobX {handle, ...}\<close> always carries the handle it is posted to, so the jobs here leave it out.
  \<^item> The queue keeps the jobs of one producing thread in order and promises no order between threads
    (\<open>Producer_Queue\<close>); which producer is served next is an input of the dispatcher's step.
  \<^item> The clocks and the authentication status that a job reads are the \<open>Env\<close> of its step.
  \<^item> Steps of different threads interleave in any order (\<open>c_event\<close>): calls of the API, turns of the
    dispatcher, the worker's mode timer, which reads the flag and then posts, the worker's report that
    a session was created, and the stages of destroying the handle. Touching the queue after it was
    destroyed is \<open>Undef\<close>.
\<close>

section \<open>Copying C arguments\<close>

definition copyCStr :: "string option \<Rightarrow> string" where
  "copyCStr p = (case p of None \<Rightarrow> [] | Some s \<Rightarrow> s)"

definition copyHeaders :: "(string option \<times> string option) list option \<Rightarrow> nat \<Rightarrow> HttpHeaders res" where
  "copyHeaders headers num =
     (case headers of
        None \<Rightarrow> Ret []
      | Some hs \<Rightarrow>
          if num > 0 then
            if length hs < num then Undef
            else Ret (map (\<lambda>(name, value). (copyCStr name, copyCStr value)) (take num hs))
          else Ret [])"

text \<open>The loops of \<^verbatim>\<open>sb_upload_diagnostics\<close>, which skip null entries.\<close>

definition copy_paths :: "string option list option \<Rightarrow> nat \<Rightarrow> string list res" where
  "copy_paths paths num =
     (case paths of
        None \<Rightarrow> Ret []
      | Some ps \<Rightarrow> if length ps < num then Undef else Ret (List.map_filter id (take num ps)))"

section \<open>Jobs\<close>

datatype ApiQueueItem =
    Poison
  | JobSetGameStarted GameStartOrigin
  | JobSetGameFinished
  | JobSetCurrentBall sb_ball_t
  | JobSetActivePlayer sb_player_t
  | JobSetScore sb_player_t sb_score_t sb_score_feature_t
  | JobAddMode string
  | JobAddModeExpiring string u32
  | JobTickModeExpiries
  | JobRemoveMode string
  | JobClearModes
  | JobCommit
  | JobRequestTopScores LeaderboardScope LeaderboardPeriod string LeaderboardVpinFilter "nat option" nat
  | JobRequestPairCode "nat option" nat
  | JobRequestUnpair "nat option" nat
  | JobSetCapabilities u32
  | JobPairMachine string string "nat option" nat
  | JobCreditsDropped int string bool
  | JobCreditsStatus bool int int string
  | JobDownload string string HttpHeaders "nat option" nat
  | JobDownloadBuffer string nat HttpHeaders "nat option" nat
  | JobUploadDiagnostics "string list" "string list" string

definition bridge :: "nat option \<Rightarrow> nat \<Rightarrow> reply_bridge" where
  "bridge cb user_data = \<lparr>br_cb = cb, br_user_data = user_data\<rparr>"

text \<open>What the bridges do with a reply: the calls of the C function, and the leaderboard's release.\<close>

datatype bridge_act =
    CallC nat int string nat
  | CallCBuffer nat int ByteArray nat
  | CallCLeaderboard nat int "sb_leaderboard_t option" nat
  | DestroyLeaderboard sb_leaderboard_t

definition makeCStringReplyBridge :: "reply_bridge \<Rightarrow> Error \<Rightarrow> string \<Rightarrow> bridge_act list" where
  "makeCStringReplyBridge b error reply =
     (case br_cb b of None \<Rightarrow> [] | Some cb \<Rightarrow> [CallC cb (error_code error) reply (br_user_data b)])"

definition makeBufferReplyBridge :: "reply_bridge \<Rightarrow> Error \<Rightarrow> ByteArray \<Rightarrow> bridge_act list" where
  "makeBufferReplyBridge b error data =
     (case br_cb b of None \<Rightarrow> [] | Some cb \<Rightarrow> [CallCBuffer cb (error_code error) data (br_user_data b)])"

definition makeLeaderboardReplyBridge :: "reply_bridge \<Rightarrow> Error \<Rightarrow> sb_leaderboard_t option \<Rightarrow> bridge_act list" where
  "makeLeaderboardReplyBridge b error leaderboard =
     (case br_cb b of None \<Rightarrow> [] | Some cb \<Rightarrow> [CallCLeaderboard cb (error_code error) leaderboard (br_user_data b)])
     @ (case leaderboard of None \<Rightarrow> [] | Some lb \<Rightarrow> [DestroyLeaderboard lb])"

fun dispatchApiJob :: "ApiQueueItem \<Rightarrow> Env \<Rightarrow> GameStateImpl \<Rightarrow> GameStateImpl" where
  "dispatchApiJob Poison e s = s"
| "dispatchApiJob (JobSetGameStarted origin) e s = setGameStarted origin e s"
| "dispatchApiJob JobSetGameFinished e s = setGameFinished e s"
| "dispatchApiJob (JobSetCurrentBall b) e s = setCurrentBall b s"
| "dispatchApiJob (JobSetActivePlayer player) e s = setActivePlayer player s"
| "dispatchApiJob (JobSetScore player score feature) e s = setScore player score feature s"
| "dispatchApiJob (JobAddMode mode) e s = addMode mode s"
| "dispatchApiJob (JobAddModeExpiring mode duration_seconds) e s = addModeExpiring mode duration_seconds e s"
| "dispatchApiJob JobTickModeExpiries e s = tickModeExpiries e s"
| "dispatchApiJob (JobRemoveMode mode) e s = removeMode mode e s"
| "dispatchApiJob JobClearModes e s = clearModes s"
| "dispatchApiJob JobCommit e s = commit e s"
| "dispatchApiJob (JobRequestTopScores scope period since vpin cb user_data) e s =
     gs_requestTopScores scope period since vpin (bridge cb user_data) s"
| "dispatchApiJob (JobRequestPairCode cb user_data) e s = gs_requestPairCode (bridge cb user_data) s"
| "dispatchApiJob (JobRequestUnpair cb user_data) e s = gs_requestUnpair (bridge cb user_data) s"
| "dispatchApiJob (JobSetCapabilities capabilities) e s = gs_setCapabilities capabilities s"
| "dispatchApiJob (JobPairMachine machine owner cb user_data) e s =
     gs_requestPairMachine machine owner (bridge cb user_data) s"
| "dispatchApiJob (JobCreditsDropped credits transaction success) e s =
     gs_setCreditsDropped credits transaction success s"
| "dispatchApiJob (JobCreditsStatus free_play credits max_credits pricing) e s =
     gs_setCreditsStatus free_play credits max_credits pricing s"
| "dispatchApiJob (JobDownload url filename headers cb user_data) e s =
     gs_download (bridge cb user_data) url filename headers s"
| "dispatchApiJob (JobDownloadBuffer url reserve headers cb user_data) e s =
     gs_downloadBuffer (bridge cb user_data) url reserve headers s"
| "dispatchApiJob (JobUploadDiagnostics logPaths recordingPaths logString) e s =
     gs_uploadDiagnostics logPaths recordingPaths logString s"

section \<open>The handle\<close>

datatype dispatcher_thread = DispRunning | DispEnded | DispJoined

record sb_game_state_struct =
  gameState :: GameStateImpl
  cApiQueue :: "(nat \<times> ApiQueueItem) list"
  cApiAccepting :: bool
  cApiDispatcher :: dispatcher_thread
  ticking :: "nat list"
  shutdown_by :: "nat option"
  queue_freed :: bool

definition sb_game_state_struct_new :: sb_game_state_struct where
  "sb_game_state_struct_new =
     \<lparr>gameState = setModeExpiryPoster True GameStateImpl_new, cApiQueue = [], cApiAccepting = True,
      cApiDispatcher = DispRunning, ticking = [], shutdown_by = None, queue_freed = False\<rparr>"

definition postApiJob :: "nat \<Rightarrow> ApiQueueItem \<Rightarrow> sb_game_state_struct \<Rightarrow> sb_game_state_struct" where
  "postApiJob thread job h = h\<lparr>cApiQueue := cApiQueue h @ [(thread, job)]\<rparr>"

text \<open>One turn of the dispatcher, which waits while the queue is empty.\<close>

definition cApiDispatcherLoop_turn :: "nat \<Rightarrow> Env \<Rightarrow> sb_game_state_struct \<Rightarrow> sb_game_state_struct option" where
  "cApiDispatcherLoop_turn p e h =
     (if cApiDispatcher h \<noteq> DispRunning then None
      else case take_from p (cApiQueue h) of
             None \<Rightarrow> None
           | Some (item, rest) \<Rightarrow>
               let h = h\<lparr>cApiQueue := rest\<rparr>
               in if item = Poison then Some (h\<lparr>cApiDispatcher := DispEnded\<rparr>)
                  else Some (h\<lparr>gameState := dispatchApiJob item e (gameState h)\<rparr>))"

text \<open>The mode timer's closure: the test of the flag, and the post.\<close>

definition expiry_poster_check :: "nat \<Rightarrow> sb_game_state_struct \<Rightarrow> sb_game_state_struct" where
  "expiry_poster_check thread h =
     (if \<not> cApiAccepting h then h else h\<lparr>ticking := thread # ticking h\<rparr>)"

definition expiry_poster_post :: "nat \<Rightarrow> sb_game_state_struct \<Rightarrow> sb_game_state_struct res" where
  "expiry_poster_post thread h =
     (if queue_freed h then Undef
      else Ret (postApiJob thread JobTickModeExpiries (h\<lparr>ticking := remove1 thread (ticking h)\<rparr>)))"

definition shutdown_begin :: "nat \<Rightarrow> sb_game_state_struct \<Rightarrow> sb_game_state_struct" where
  "shutdown_begin thread h =
     (if cApiDispatcher h = DispJoined then h
      else postApiJob thread Poison (h\<lparr>cApiAccepting := False, shutdown_by := Some thread\<rparr>))"

definition shutdown_join :: "sb_game_state_struct \<Rightarrow> sb_game_state_struct option" where
  "shutdown_join h =
     (if cApiDispatcher h = DispEnded then Some (h\<lparr>cApiDispatcher := DispJoined\<rparr>) else None)"

text \<open>\<^verbatim>\<open>delete handle\<close>: the members go in reverse order, so the queue goes before the game state, whose
  network layer stops the worker.\<close>

definition delete_queue :: "sb_game_state_struct \<Rightarrow> sb_game_state_struct option" where
  "delete_queue h =
     (if cApiDispatcher h = DispJoined \<and> \<not> queue_freed h then Some (h\<lparr>queue_freed := True\<rparr>) else None)"

section \<open>The API\<close>

text \<open>The first argument is the calling thread.\<close>

definition sb_set_game_started where "sb_set_game_started t origin = postApiJob t (JobSetGameStarted origin)"
definition sb_set_game_finished where "sb_set_game_finished t = postApiJob t JobSetGameFinished"
definition sb_set_current_ball where "sb_set_current_ball t b = postApiJob t (JobSetCurrentBall b)"
definition sb_set_active_player where "sb_set_active_player t player = postApiJob t (JobSetActivePlayer player)"
definition sb_set_score where
  "sb_set_score t player score feature = postApiJob t (JobSetScore player score feature)"
definition sb_add_mode where "sb_add_mode t mode = postApiJob t (JobAddMode (copyCStr mode))"
definition sb_add_mode_expiring where
  "sb_add_mode_expiring t mode duration_seconds = postApiJob t (JobAddModeExpiring (copyCStr mode) duration_seconds)"
definition sb_remove_mode where "sb_remove_mode t mode = postApiJob t (JobRemoveMode (copyCStr mode))"
definition sb_clear_modes where "sb_clear_modes t = postApiJob t JobClearModes"
definition sb_commit where "sb_commit t = postApiJob t JobCommit"
definition sb_request_top_scores where
  "sb_request_top_scores t scope period since vpin_filter cb user_data =
     postApiJob t (JobRequestTopScores scope period (copyCStr since) vpin_filter cb user_data)"
definition sb_request_pair_code where
  "sb_request_pair_code t cb user_data = postApiJob t (JobRequestPairCode cb user_data)"
definition sb_request_unpair where
  "sb_request_unpair t cb user_data = postApiJob t (JobRequestUnpair cb user_data)"
definition sb_set_capabilities where "sb_set_capabilities t capabilities = postApiJob t (JobSetCapabilities capabilities)"
definition sb_game_request_pair_machine where
  "sb_game_request_pair_machine t machine owner cb user_data =
     postApiJob t (JobPairMachine (copyCStr machine) (copyCStr owner) cb user_data)"
definition sb_set_credits_dropped where
  "sb_set_credits_dropped t credits transaction success =
     postApiJob t (JobCreditsDropped credits (copyCStr transaction) success)"
definition sb_set_credits_status where
  "sb_set_credits_status t free_play credits max_credits pricing =
     postApiJob t (JobCreditsStatus free_play credits max_credits (copyCStr pricing))"
definition sb_download where
  "sb_download t url filename headers num cb user_data h =
     res_bind (copyHeaders headers num)
       (\<lambda>hs. Ret (postApiJob t (JobDownload (copyCStr url) (copyCStr filename) hs cb user_data) h))"
definition sb_download_buffer where
  "sb_download_buffer t url reserve headers num cb user_data h =
     res_bind (copyHeaders headers num)
       (\<lambda>hs. Ret (postApiJob t (JobDownloadBuffer (copyCStr url) reserve hs cb user_data) h))"
definition sb_upload_diagnostics where
  "sb_upload_diagnostics t log_paths log_count recording_paths recording_count log_string h =
     res_bind (copy_paths log_paths log_count) (\<lambda>logs.
     res_bind (copy_paths recording_paths recording_count) (\<lambda>recordings.
       Ret (postApiJob t (JobUploadDiagnostics logs recordings (copyCStr log_string)) h)))"

definition sb_get_status :: "'j Net \<Rightarrow> int" where
  "sb_get_status n = auth_status_code (m_status n)"
definition sb_get_machine_uuid :: "'j Net \<Rightarrow> string" where
  "sb_get_machine_uuid n = di_uuid (m_deviceInfo n)"
definition sb_get_machine_serial :: "'j Net \<Rightarrow> u64" where
  "sb_get_machine_serial n = serialNumber (m_deviceInfo n)"

text \<open>Creating a handle: the resolvers that the network layer gets, or no handle. The application's
  signer fills a buffer and says how many bytes it wrote.\<close>

definition SIGNATURE_MAX_LENGTH :: nat where "SIGNATURE_MAX_LENGTH = 72"

definition resize_bytes :: "nat \<Rightarrow> ByteArray \<Rightarrow> ByteArray" where
  "resize_bytes n bs = take n bs @ replicate (n - length bs) 0"

definition c_signer :: "(nat \<Rightarrow> nat \<Rightarrow> ByteArray \<Rightarrow> nat \<Rightarrow> int \<times> nat \<times> ByteArray) \<Rightarrow> reply_bridge \<Rightarrow> nat \<Rightarrow> ByteArray \<Rightarrow> ByteArray" where
  "c_signer call b n digest =
     (case br_cb b of
        None \<Rightarrow> []
      | Some f \<Rightarrow>
          let (rc, signatureLength, signature) = call n f digest (br_user_data b)
          in if rc = 0 then resize_bytes signatureLength (resize_bytes SIGNATURE_MAX_LENGTH signature) else [])"

definition sb_create_game_state ::
  "(nat \<Rightarrow> nat \<Rightarrow> ByteArray \<Rightarrow> nat \<Rightarrow> int \<times> nat \<times> ByteArray) \<Rightarrow> sb_config_t
   \<Rightarrow> (DeviceInfo \<times> key_resolver list \<times> sb_game_state_struct) option" where
  "sb_create_game_state call config =
     (case config of
        None \<Rightarrow> None
      | Some c \<Rightarrow>
          let di = DeviceInfo.truncate c in
          if \<not> hasAuthentication di then None
          else Some (di,
                     if hasAuthenticationCallback di then [RSigner (c_signer call (signer_bridge c))]
                     else [RNfcTpm, RSoftKey SoftKeyResolver_new],
                     sb_game_state_struct_new))"

section \<open>Interleavings\<close>

definition is_api_job :: "ApiQueueItem \<Rightarrow> bool" where
  "is_api_job j \<longleftrightarrow> j \<noteq> Poison \<and> j \<noteq> JobTickModeExpiries"

datatype c_event =
    Call nat ApiQueueItem
  | Turn nat Env
  | TickCheck nat
  | TickPost nat
  | SessionReported Env
  | ShutdownBegin nat
  | ShutdownJoin
  | Delete

text \<open>\<open>None\<close>: the step is not possible in this state. A thread that is inside
  \<^verbatim>\<open>sb_destroy_game_state\<close> makes no other call.\<close>

fun c_step :: "c_event \<Rightarrow> sb_game_state_struct \<Rightarrow> sb_game_state_struct res option" where
  "c_step (Call t j) h =
     (if \<not> is_api_job j \<or> shutdown_by h = Some t then None
      else if queue_freed h then Some Undef else Some (Ret (postApiJob t j h)))"
| "c_step (Turn p e) h = map_option Ret (cApiDispatcherLoop_turn p e h)"
| "c_step (TickCheck t) h = Some (Ret (expiry_poster_check t h))"
| "c_step (TickPost t) h = (if t \<in> set (ticking h) then Some (expiry_poster_post t h) else None)"
| "c_step (SessionReported e) h = Some (Ret (h\<lparr>gameState := submitGameData True e (gameState h)\<rparr>))"
| "c_step (ShutdownBegin t) h = (if shutdown_by h = None then Some (Ret (shutdown_begin t h)) else None)"
| "c_step ShutdownJoin h = map_option Ret (shutdown_join h)"
| "c_step Delete h = map_option Ret (delete_queue h)"

fun c_run :: "c_event list \<Rightarrow> sb_game_state_struct \<Rightarrow> sb_game_state_struct res option" where
  "c_run [] h = Some (Ret h)"
| "c_run (ev # evs) h =
     (case c_step ev h of
        None \<Rightarrow> None
      | Some (Ret h) \<Rightarrow> c_run evs h
      | Some r \<Rightarrow> Some r)"

end
