(* ===== verification/Game_State_C_Props.thy ===== *)
theory Game_State_C_Props
  imports Game_State_C
begin

text \<open>
  The C API against the game state it stands for: whatever the interleaving, what the dispatcher does is
  a run of the game state; the jobs of one thread are performed in the order of its calls, and all of
  them before the handle is gone; what is not promised between threads, and what goes wrong there.
\<close>

section \<open>Jobs are operations of the game state\<close>

fun job_op :: "ApiQueueItem \<Rightarrow> gs_op option" where
  "job_op Poison = None"
| "job_op (JobSetGameStarted origin) = Some (OpGameStarted origin)"
| "job_op JobSetGameFinished = Some OpGameFinished"
| "job_op (JobSetCurrentBall b) = Some (OpCurrentBall b)"
| "job_op (JobSetActivePlayer p) = Some (OpActivePlayer p)"
| "job_op (JobSetScore p sc f) = Some (OpScore p sc f)"
| "job_op (JobAddMode m) = Some (OpAddMode m)"
| "job_op (JobAddModeExpiring m d) = Some (OpAddModeExpiring m d)"
| "job_op JobTickModeExpiries = Some OpTickModeExpiries"
| "job_op (JobRemoveMode m) = Some (OpRemoveMode m)"
| "job_op JobClearModes = Some OpClearModes"
| "job_op JobCommit = Some OpCommit"
| "job_op (JobRequestTopScores sc per since vp cb u) = Some (OpTopScores sc per since vp (bridge cb u))"
| "job_op (JobRequestPairCode cb u) = Some (OpPairCode (bridge cb u))"
| "job_op (JobRequestUnpair cb u) = Some (OpUnpair (bridge cb u))"
| "job_op (JobSetCapabilities c) = Some (OpCapabilities c)"
| "job_op (JobPairMachine mu ou cb u) = Some (OpPairMachine mu ou (bridge cb u))"
| "job_op (JobCreditsDropped c t ok) = Some (OpCreditsDropped c t ok)"
| "job_op (JobCreditsStatus fp c mx pr) = Some (OpCreditsStatus fp c mx pr)"
| "job_op (JobDownload url f hs cb u) = Some (OpDownload (bridge cb u) url f hs)"
| "job_op (JobDownloadBuffer url n hs cb u) = Some (OpDownloadBuffer (bridge cb u) url n hs)"
| "job_op (JobUploadDiagnostics ls rs txt) = Some (OpUploadDiagnostics ls rs txt)"

lemma dispatch_job_op:
  "dispatchApiJob j e s = (case job_op j of None \<Rightarrow> s | Some op \<Rightarrow> gs_step op e s)"
  by (cases j) simp_all

lemma job_op_Some: "j \<noteq> Poison \<Longrightarrow> \<exists>op. job_op j = Some op"
  by (cases j) auto

text \<open>The operations that only the worker causes.\<close>

definition worker_op :: "gs_op \<Rightarrow> bool" where
  "worker_op op \<longleftrightarrow> op = OpTickModeExpiries \<or> op = OpSessionCreated"

lemma api_job_op: "is_api_job j \<Longrightarrow> \<exists>op. job_op j = Some op \<and> \<not> worker_op op"
  by (cases j) (auto simp: is_api_job_def worker_op_def)

section \<open>What a run performs\<close>

text \<open>The operations performed by a step, with the clocks they read, and the job a turn takes.\<close>

definition taken :: "c_event \<Rightarrow> sb_game_state_struct \<Rightarrow> (nat \<times> ApiQueueItem) list" where
  "taken ev h =
     (case ev of
        Turn p e \<Rightarrow> (case take_from p (cApiQueue h) of None \<Rightarrow> [] | Some (x, _) \<Rightarrow> [(p, x)])
      | _ \<Rightarrow> [])"

definition performed :: "c_event \<Rightarrow> sb_game_state_struct \<Rightarrow> (gs_op \<times> Env) list" where
  "performed ev h =
     (case ev of
        Turn p e \<Rightarrow> List.map_filter (\<lambda>x. map_option (\<lambda>op. (op, e)) (job_op (snd x))) (taken ev h)
      | SessionReported e \<Rightarrow> [(OpSessionCreated, e)]
      | _ \<Rightarrow> [])"

definition enqueued :: "c_event \<Rightarrow> (nat \<times> ApiQueueItem) list" where
  "enqueued ev =
     (case ev of
        Call t j \<Rightarrow> [(t, j)] | TickPost t \<Rightarrow> [(t, JobTickModeExpiries)] | ShutdownBegin t \<Rightarrow> [(t, Poison)] | _ \<Rightarrow> [])"

lemma enqueued_simps [simp]:
  "enqueued (Call t j) = [(t, j)]" "enqueued (TickPost t) = [(t, JobTickModeExpiries)]"
  "enqueued (ShutdownBegin t) = [(t, Poison)]" "enqueued (Turn p e) = []" "enqueued (TickCheck t) = []"
  "enqueued (SessionReported e) = []" "enqueued ShutdownJoin = []" "enqueued Delete = []"
  by (simp_all add: enqueued_def)

fun along :: "(c_event \<Rightarrow> sb_game_state_struct \<Rightarrow> 'a list) \<Rightarrow> c_event list \<Rightarrow> sb_game_state_struct \<Rightarrow> 'a list" where
  "along f [] h = []"
| "along f (ev # evs) h =
     f ev h @ (case c_step ev h of Some (Ret h) \<Rightarrow> along f evs h | _ \<Rightarrow> [])"

definition calls_made :: "c_event list \<Rightarrow> ApiQueueItem list" where
  "calls_made evs = List.map_filter (\<lambda>ev. case ev of Call t j \<Rightarrow> Some j | _ \<Rightarrow> None) evs"

lemma calls_made_simps [simp]:
  "calls_made [] = []"
  "calls_made (ev # evs) = (case ev of Call t j \<Rightarrow> j # calls_made evs | _ \<Rightarrow> calls_made evs)"
  by (simp_all add: calls_made_def map_filter_simps split: c_event.split)

lemma c_run_induct [consumes 1, case_names Nil Cons]:
  assumes "c_run evs h = Some (Ret h')"
    and "\<And>h. P [] h h"
    and "\<And>ev evs h h1 h'. c_step ev h = Some (Ret h1) \<Longrightarrow> c_run evs h1 = Some (Ret h') \<Longrightarrow> P evs h1 h' \<Longrightarrow> P (ev # evs) h h'"
  shows "P evs h h'"
  using assms(1) by (induction evs arbitrary: h) (auto intro: assms(2,3) split: option.splits res.splits)

lemma gs_run_append: "gs_run (xs @ ys) s = gs_run ys (gs_run xs s)"
  by (induction xs s rule: gs_run.induct) simp_all

lemma turn_Some:
  "cApiDispatcherLoop_turn p e h = Some h' \<longleftrightarrow>
   cApiDispatcher h = DispRunning \<and>
   (\<exists>x rest. take_from p (cApiQueue h) = Some (x, rest) \<and>
      h' = (if x = Poison then h\<lparr>cApiQueue := rest, cApiDispatcher := DispEnded\<rparr>
            else h\<lparr>cApiQueue := rest, gameState := dispatchApiJob x e (gameState h)\<rparr>))"
  by (auto simp: cApiDispatcherLoop_turn_def Let_def split: option.splits)

lemmas c_step_defs = turn_Some expiry_poster_check_def expiry_poster_post_def shutdown_begin_def
  shutdown_join_def delete_queue_def postApiJob_def

lemma step_game_state:
  assumes "c_step ev h = Some (Ret h')"
  shows "gameState h' = gs_run (performed ev h) (gameState h)"
  using assms
  by (cases ev)
    (auto simp: c_step_defs performed_def taken_def dispatch_job_op map_filter_simps
      split: if_splits option.splits dest: job_op_Some)

lemma run_game_state:
  "c_run evs h = Some (Ret h') \<Longrightarrow> gameState h' = gs_run (along performed evs h) (gameState h)"
  by (induction rule: c_run_induct) (simp_all add: gs_run_append step_game_state)

lemma step_gs_inv: "c_step ev h = Some (Ret h') \<Longrightarrow> gs_inv (gameState h) \<Longrightarrow> gs_inv (gameState h')"
  by (cases ev)
    (auto simp: c_step_defs dispatch_job_op gs_inv_step inv_intros split: if_splits option.splits)

lemma run_gs_inv: "c_run evs h = Some (Ret h') \<Longrightarrow> gs_inv (gameState h) \<Longrightarrow> gs_inv (gameState h')"
  by (induction rule: c_run_induct) (auto dest: step_gs_inv)

section \<open>The jobs of a thread\<close>

lemma step_fifo:
  assumes "c_step ev h = Some (Ret h')" "cApiDispatcher h \<noteq> DispJoined \<or> shutdown_by h \<noteq> None"
  shows "of_thread t (cApiQueue h) @ of_thread t (enqueued ev) =
    of_thread t (taken ev h) @ of_thread t (cApiQueue h')"
proof (cases ev)
  case (Turn p e)
  with assms(1) obtain x rest where x: "take_from p (cApiQueue h) = Some (x, rest)" "cApiQueue h' = rest"
    by (auto simp: turn_Some)
  with Turn show ?thesis by (simp add: taken_def take_from_thread [OF x(1)])
qed (use assms in \<open>auto simp: c_step_defs taken_def split: if_splits\<close>)

text \<open>
  What holds in every state of a handle: nobody joins before a shutdown, a queued end marker belongs to
  the shutdown, and the dispatcher ends only by it.
\<close>

definition c_inv :: "sb_game_state_struct \<Rightarrow> bool" where
  "c_inv h \<longleftrightarrow>
     (cApiDispatcher h \<noteq> DispRunning \<longrightarrow> shutdown_by h \<noteq> None) \<and>
     (\<forall>t. (t, Poison) \<in> set (cApiQueue h) \<longrightarrow> shutdown_by h = Some t) \<and>
     (cApiDispatcher h = DispRunning \<longrightarrow>
        (case shutdown_by h of None \<Rightarrow> True | Some t \<Rightarrow> (t, Poison) \<in> set (cApiQueue h))) \<and>
     (cApiAccepting h \<longleftrightarrow> shutdown_by h = None) \<and>
     (queue_freed h \<longrightarrow> cApiDispatcher h = DispJoined)"

lemma c_invD: "c_inv h \<Longrightarrow> cApiDispatcher h = DispJoined \<Longrightarrow> shutdown_by h \<noteq> None"
  by (simp add: c_inv_def)

lemma c_inv_new: "c_inv sb_game_state_struct_new"
  by (simp add: c_inv_def sb_game_state_struct_new_def)

lemma c_inv_frame:
  assumes "c_inv h" "\<And>t. (t, Poison) \<in> set (cApiQueue h') \<longleftrightarrow> (t, Poison) \<in> set (cApiQueue h)"
    "shutdown_by h' = shutdown_by h" "cApiAccepting h' = cApiAccepting h" "cApiDispatcher h' = cApiDispatcher h"
    "queue_freed h' \<longrightarrow> queue_freed h \<or> cApiDispatcher h = DispJoined"
  shows "c_inv h'"
  unfolding c_inv_def assms(2-5) using assms(1,6) unfolding c_inv_def by blast

lemma c_inv_step:
  assumes "c_step ev h = Some (Ret h')" "c_inv h"
  shows "c_inv h'"
proof (cases ev)
  case (Turn p e)
  with assms(1) obtain x rest where x: "take_from p (cApiQueue h) = Some (x, rest)"
    "cApiDispatcher h = DispRunning"
    "h' = (if x = Poison then h\<lparr>cApiQueue := rest, cApiDispatcher := DispEnded\<rparr>
            else h\<lparr>cApiQueue := rest, gameState := dispatchApiJob x e (gameState h)\<rparr>)"
    by (auto simp: turn_Some)
  show ?thesis
  proof (cases "x = Poison")
    case True
    have m: "(p, Poison) \<in> set (cApiQueue h)" "set rest \<subseteq> set (cApiQueue h)"
      using True take_from_set [OF x(1)] by auto
    have own: "\<And>t. (t, Poison) \<in> set (cApiQueue h) \<Longrightarrow> shutdown_by h = Some t"
      using assms(2) by (simp add: c_inv_def)
    have sd: "shutdown_by h = Some p" by (rule own [OF m(1)])
    have acc: "\<not> cApiAccepting h" "\<not> queue_freed h"
      using assms(2) sd x(2) by (auto simp: c_inv_def)
    have "(t, Poison) \<in> set rest \<Longrightarrow> shutdown_by h = Some t" for t
      using m(2) by (blast intro: own)
    with True x(3) sd acc show ?thesis by (simp add: c_inv_def)
  next
    case False
    with x show ?thesis
      by (intro c_inv_frame [OF assms(2)]) (simp_all add: take_from_set [OF x(1)])
  qed
next
  case (Call t j)
  with assms show ?thesis
    by (intro c_inv_frame [OF assms(2)]) (auto simp: postApiJob_def is_api_job_def split: if_splits)
next
  case (TickCheck t)
  with assms show ?thesis
    by (intro c_inv_frame [OF assms(2)]) (auto simp: expiry_poster_check_def split: if_splits)
next
  case (TickPost t)
  with assms show ?thesis
    by (intro c_inv_frame [OF assms(2)]) (auto simp: expiry_poster_post_def postApiJob_def split: if_splits)
next
  case (SessionReported e)
  with assms show ?thesis by (intro c_inv_frame [OF assms(2)]) auto
next
  case (ShutdownBegin t)
  with assms(1) have sd: "shutdown_by h = None" by (auto split: if_splits)
  with assms(2) have "cApiDispatcher h = DispRunning" "\<not> queue_freed h" "\<And>t. (t, Poison) \<notin> set (cApiQueue h)"
    by (auto simp: c_inv_def)
  with ShutdownBegin assms(1) sd show ?thesis by (auto simp: c_inv_def shutdown_begin_def postApiJob_def)
next
  case ShutdownJoin
  with assms(1) have "h' = h\<lparr>cApiDispatcher := DispJoined\<rparr>" "cApiDispatcher h = DispEnded"
    by (auto simp: shutdown_join_def split: if_splits)
  with assms(2) show ?thesis unfolding c_inv_def by simp
next
  case Delete
  with assms show ?thesis
    by (intro c_inv_frame [OF assms(2)]) (auto simp: delete_queue_def split: if_splits)
qed

lemma c_inv_run: "c_run evs h = Some (Ret h') \<Longrightarrow> c_inv h \<Longrightarrow> c_inv h'"
  by (induction rule: c_run_induct) (auto dest: c_inv_step)

lemma run_fifo:
  "c_run evs h = Some (Ret h') \<Longrightarrow> c_inv h \<Longrightarrow>
   of_thread t (cApiQueue h) @ of_thread t (concat (map enqueued evs)) =
   of_thread t (along taken evs h) @ of_thread t (cApiQueue h')"
proof (induction rule: c_run_induct)
  case (Cons ev evs h h1 h')
  from Cons.hyps(1) Cons.prems have "c_inv h1" by (rule c_inv_step)
  with Cons.IH have IH: "of_thread t (cApiQueue h1) @ of_thread t (concat (map enqueued evs)) =
    of_thread t (along taken evs h1) @ of_thread t (cApiQueue h')" by blast
  from Cons.prems have "cApiDispatcher h \<noteq> DispJoined \<or> shutdown_by h \<noteq> None"
    by (auto simp: c_inv_def)
  note fifo = step_fifo [OF Cons.hyps(1) this, of t]
  have "of_thread t (cApiQueue h) @ of_thread t (concat (map enqueued (ev # evs))) =
      (of_thread t (cApiQueue h) @ of_thread t (enqueued ev)) @ of_thread t (concat (map enqueued evs))" by simp
  also have "\<dots> = of_thread t (taken ev h) @ of_thread t (cApiQueue h1) @ of_thread t (concat (map enqueued evs))"
    unfolding fifo by simp
  finally show ?case by (simp add: IH Cons.hyps(1))
qed simp

lemma step_queue:
  assumes "c_step ev h = Some (Ret h')" "c_inv h" "\<And>p e. ev \<noteq> Turn p e"
  shows "cApiQueue h' = cApiQueue h @ enqueued ev"
  using assms by (cases ev) (auto simp: c_step_defs split: if_splits dest: c_invD)

lemma step_turn:
  assumes "c_step (Turn p e) h = Some (Ret h')"
  obtains x where "take_from p (cApiQueue h) = Some (x, cApiQueue h')" "cApiDispatcher h = DispRunning"
    "cApiDispatcher h' = (if x = Poison then DispEnded else DispRunning)"
proof -
  from assms obtain x rest where "take_from p (cApiQueue h) = Some (x, rest)" "cApiDispatcher h = DispRunning"
    "h' = (if x = Poison then h\<lparr>cApiQueue := rest, cApiDispatcher := DispEnded\<rparr>
            else h\<lparr>cApiQueue := rest, gameState := dispatchApiJob x e (gameState h)\<rparr>)"
    by (auto simp: turn_Some)
  then show thesis by (intro that [of x]) simp_all
qed

lemma step_shutdown_by:
  assumes "c_step ev h = Some (Ret h')" "c_inv h"
  shows "shutdown_by h' = (case ev of ShutdownBegin t \<Rightarrow> Some t | _ \<Rightarrow> shutdown_by h)"
  using assms by (cases ev) (auto simp: c_step_defs split: if_splits dest: c_invD)

lemma step_dispatcher:
  assumes "c_step ev h = Some (Ret h')" "cApiDispatcher h = DispRunning" "\<And>p e. ev \<noteq> Turn p e"
  shows "cApiDispatcher h' = DispRunning"
  using assms by (cases ev) (auto simp: c_step_defs split: if_splits)

lemma step_enabled:
  "c_step (Call t j) h = Some (Ret h') \<Longrightarrow> is_api_job j \<and> shutdown_by h \<noteq> Some t"
  "c_step (ShutdownBegin t) h = Some (Ret h') \<Longrightarrow> shutdown_by h = None"
  by (auto split: if_splits)

section \<open>One application thread\<close>

definition single_thread :: "nat \<Rightarrow> c_event \<Rightarrow> bool" where
  "single_thread t ev =
     (case ev of Call u j \<Rightarrow> u = t | ShutdownBegin u \<Rightarrow> u = t | TickPost u \<Rightarrow> u \<noteq> t | _ \<Rightarrow> True)"

lemma calls_until_shutdown:
  "c_run evs h = Some (Ret h') \<Longrightarrow> \<forall>ev \<in> set evs. single_thread t ev \<Longrightarrow> c_inv h \<Longrightarrow>
   shutdown_by h = None \<or> shutdown_by h = Some t \<Longrightarrow>
   (shutdown_by h' = None \<or> shutdown_by h' = Some t) \<and>
   of_thread t (concat (map enqueued evs)) =
     calls_made evs @ (if shutdown_by h = None \<and> shutdown_by h' \<noteq> None then [Poison] else []) \<and>
   (shutdown_by h \<noteq> None \<longrightarrow> calls_made evs = [] \<and> shutdown_by h' = shutdown_by h)"
proof (induction rule: c_run_induct)
  case (Cons ev evs h h1 h')
  have inv: "c_inv h1" by (rule c_inv_step [OF Cons.hyps(1) Cons.prems(2)])
  have st: "single_thread t ev" using Cons.prems(1) by simp
  note sd = step_shutdown_by [OF Cons.hyps(1) Cons.prems(2)]
  have h1: "shutdown_by h1 = None \<or> shutdown_by h1 = Some t"
    using sd st Cons.prems(3) by (auto simp: single_thread_def split: c_event.splits)
  have IH: "(shutdown_by h' = None \<or> shutdown_by h' = Some t) \<and>
     of_thread t (concat (map enqueued evs)) =
       calls_made evs @ (if shutdown_by h1 = None \<and> shutdown_by h' \<noteq> None then [Poison] else []) \<and>
     (shutdown_by h1 \<noteq> None \<longrightarrow> calls_made evs = [] \<and> shutdown_by h' = shutdown_by h1)"
    using Cons.IH inv h1 Cons.prems(1) by simp
  show ?case
  proof (cases ev)
    case (Call u j)
    with st Cons.hyps(1) have "u = t" "shutdown_by h \<noteq> Some t"
      by (auto simp: single_thread_def simp del: c_step.simps dest: step_enabled)
    with Call sd IH Cons.prems(3) show ?thesis by simp
  next
    case (ShutdownBegin u)
    with st Cons.hyps(1) have "u = t" "shutdown_by h = None"
      by (auto simp: single_thread_def simp del: c_step.simps dest: step_enabled)
    with ShutdownBegin sd IH show ?thesis by simp
  qed (use sd st IH in \<open>simp_all add: single_thread_def\<close>)
qed auto

text \<open>With one application thread, the other threads post ticks only.\<close>

definition split_queue :: "nat \<Rightarrow> sb_game_state_struct \<Rightarrow> bool" where
  "split_queue t h \<longleftrightarrow>
     (\<forall>(u, x) \<in> set (cApiQueue h). if u = t then is_api_job x \<or> x = Poison else x = JobTickModeExpiries)"

lemma split_queue_step:
  assumes "c_step ev h = Some (Ret h')" "single_thread t ev" "split_queue t h" "c_inv h"
  shows "split_queue t h'"
proof (cases "\<exists>p e. ev = Turn p e")
  case True
  with assms(1) obtain p e x where "ev = Turn p e" and x: "take_from p (cApiQueue h) = Some (x, cApiQueue h')"
    by (auto elim: step_turn)
  with assms(3) show ?thesis by (simp add: split_queue_def take_from_set [OF x])
next
  case False
  then have "cApiQueue h' = cApiQueue h @ enqueued ev" using assms(1,4) by (intro step_queue) auto
  with assms show ?thesis
    by (cases ev) (simp_all add: split_queue_def single_thread_def step_enabled ball_Un del: c_step.simps)
qed

lemma step_performs_calls:
  assumes "c_step ev h = Some (Ret h')" "split_queue t h"
  shows "filter (\<lambda>op. \<not> worker_op op) (map fst (performed ev h)) =
    List.map_filter job_op (of_thread t (taken ev h))"
proof (cases ev)
  case (Turn p e)
  with assms(1) obtain x rest where x: "take_from p (cApiQueue h) = Some (x, rest)"
    by (auto simp: turn_Some)
  with assms(2) have "if p = t then is_api_job x \<or> x = Poison else x = JobTickModeExpiries"
    by (auto simp: split_queue_def take_from_set [OF x])
  with Turn x show ?thesis
    by (auto simp: performed_def taken_def map_filter_simps worker_op_def
        dest: api_job_op split: if_splits option.splits)
qed (use assms in \<open>simp_all add: performed_def taken_def map_filter_simps worker_op_def\<close>)

lemma map_filter_append [simp]: "List.map_filter f (xs @ ys) = List.map_filter f xs @ List.map_filter f ys"
  by (simp add: List.map_filter_def)

lemma run_performs_calls:
  "c_run evs h = Some (Ret h') \<Longrightarrow> \<forall>ev \<in> set evs. single_thread t ev \<Longrightarrow> split_queue t h \<Longrightarrow> c_inv h \<Longrightarrow>
   filter (\<lambda>op. \<not> worker_op op) (map fst (along performed evs h)) =
   List.map_filter job_op (of_thread t (along taken evs h))"
proof (induction rule: c_run_induct)
  case (Cons ev evs h h1 h')
  have "split_queue t h1" using Cons.prems by (intro split_queue_step [OF Cons.hyps(1)]) simp_all
  with Cons.IH c_inv_step [OF Cons.hyps(1) Cons.prems(3)] Cons.prems Cons.hyps(1) step_performs_calls [OF Cons.hyps(1) Cons.prems(2)]
  show ?case by simp
qed (simp add: map_filter_simps)

lemma run_shutdown_by:
  "c_run evs h = Some (Ret h') \<Longrightarrow> shutdown_by h = Some u \<Longrightarrow> c_inv h \<Longrightarrow> shutdown_by h' = Some u"
proof (induction rule: c_run_induct)
  case (Cons ev evs h h1 h')
  have "shutdown_by h1 = Some u"
    using step_shutdown_by [OF Cons.hyps(1) Cons.prems(2)] Cons.hyps(1) Cons.prems(1)
    by (cases ev) (auto simp del: c_step.simps dest: step_enabled)
  with Cons.IH c_inv_step [OF Cons.hyps(1) Cons.prems(2)] show ?case by blast
qed simp

lemma ended_took_poison:
  "c_run evs h = Some (Ret h') \<Longrightarrow> cApiDispatcher h = DispRunning \<Longrightarrow> cApiDispatcher h' \<noteq> DispRunning \<Longrightarrow> c_inv h \<Longrightarrow>
   \<exists>u. (u, Poison) \<in> set (along taken evs h) \<and> shutdown_by h' = Some u"
proof (induction rule: c_run_induct)
  case (Cons ev evs h h1 h')
  show ?case
  proof (cases "cApiDispatcher h1 = DispRunning")
    case True
    with Cons.IH Cons.prems(2) c_inv_step [OF Cons.hyps(1) Cons.prems(3)] obtain u
      where "(u, Poison) \<in> set (along taken evs h1)" "shutdown_by h' = Some u" by blast
    with Cons.hyps(1) show ?thesis by (intro exI [of _ u]) simp
  next
    case False
    with step_dispatcher [OF Cons.hyps(1) Cons.prems(1)] obtain p e where ev: "ev = Turn p e" by blast
    with Cons.hyps(1) False obtain "take_from p (cApiQueue h) = Some (Poison, cApiQueue h1)"
      by (metis step_turn)
    with ev have "(p, Poison) \<in> set (taken ev h)" "(p, Poison) \<in> set (cApiQueue h)"
      by (simp_all add: taken_def take_from_set)
    then have "shutdown_by h = Some p" using Cons.prems(3) by (auto simp: c_inv_def)
    with step_shutdown_by [OF Cons.hyps(1) Cons.prems(3)] ev have "shutdown_by h1 = Some p" by simp
    with run_shutdown_by [OF Cons.hyps(2) this c_inv_step [OF Cons.hyps(1) Cons.prems(3)]] \<open>(p, Poison) \<in> set (taken ev h)\<close>
    show ?thesis by auto
  qed
qed simp


definition worker_event :: "c_event \<Rightarrow> bool" where
  "worker_event ev = (case ev of TickPost _ \<Rightarrow> True | SessionReported _ \<Rightarrow> True | _ \<Rightarrow> False)"

definition queued_ticks :: "sb_game_state_struct \<Rightarrow> nat" where
  "queued_ticks h = length (filter (\<lambda>x. snd x = JobTickModeExpiries) (cApiQueue h))"

lemma step_worker_ops:
  assumes "c_step ev h = Some (Ret h')" "c_inv h"
  shows "length (filter worker_op (map fst (performed ev h))) + queued_ticks h' \<le>
    queued_ticks h + (if worker_event ev then 1 else 0)"
proof (cases "\<exists>p e. ev = Turn p e")
  case True
  with assms(1) obtain p e x where ev: "ev = Turn p e" and x: "take_from p (cApiQueue h) = Some (x, cApiQueue h')"
    by (auto elim: step_turn)
  have "worker_op op \<Longrightarrow> job_op x = Some op \<Longrightarrow> x = JobTickModeExpiries" for op
    by (cases x) (auto simp: worker_op_def)
  with ev x show ?thesis
    by (cases "job_op x")
      (auto simp: performed_def taken_def queued_ticks_def take_from_filter [OF x] map_filter_simps worker_event_def)
next
  case False
  then have "cApiQueue h' = cApiQueue h @ enqueued ev" using assms by (intro step_queue) auto
  with assms(1) False show ?thesis
    by (cases ev) (auto simp: performed_def queued_ticks_def worker_event_def is_api_job_def split: if_splits)
qed

lemma run_worker_ops:
  "c_run evs h = Some (Ret h') \<Longrightarrow> c_inv h \<Longrightarrow>
   length (filter worker_op (map fst (along performed evs h))) + queued_ticks h' \<le>
   queued_ticks h + length (filter worker_event evs)"
proof (induction rule: c_run_induct)
  case (Cons ev evs h h1 h')
  from step_worker_ops [OF Cons.hyps(1) Cons.prems]
    Cons.IH [OF c_inv_step [OF Cons.hyps(1) Cons.prems]] Cons.hyps(1)
  show ?case by (simp split: if_splits)
qed simp

lemma run_calls_api: "c_run evs h = Some (Ret h') \<Longrightarrow> \<forall>j \<in> set (calls_made evs). is_api_job j"
proof (induction rule: c_run_induct)
  case (Cons ev evs h h1 h')
  then show ?case by (cases ev) (auto dest: step_enabled simp del: c_step.simps)
qed simp

lemma prefix_with_end:
  assumes "xs @ [a] = ys @ zs" "a \<in> set ys" "a \<notin> set xs"
  shows "ys = xs @ [a] \<and> zs = []"
  using assms by (cases zs rule: rev_cases) auto

lemma shutdown_performs_all:
  assumes run: "c_run evs sb_game_state_struct_new = Some (Ret h)"
    and ended: "cApiDispatcher h \<noteq> DispRunning" and st: "\<forall>ev \<in> set evs. single_thread t ev"
  shows "of_thread t (along taken evs sb_game_state_struct_new) = calls_made evs @ [Poison]"
proof -
  let ?h0 = "sb_game_state_struct_new"
  have h0: "shutdown_by ?h0 = None" "cApiQueue ?h0 = []" "cApiDispatcher ?h0 = DispRunning"
    by (simp_all add: sb_game_state_struct_new_def)
  from ended_took_poison [OF run h0(3) ended c_inv_new] obtain u where
    u: "(u, Poison) \<in> set (along taken evs ?h0)" "shutdown_by h = Some u" by blast
  from calls_until_shutdown [OF run st c_inv_new] h0(1) u(2) have
    c: "u = t" "of_thread t (concat (map enqueued evs)) = calls_made evs @ [Poison]" by auto
  from u(1) c(1) have "Poison \<in> set (of_thread t (along taken evs ?h0))"
    by (force simp: of_thread_def)
  moreover from run_calls_api [OF run] have "Poison \<notin> set (calls_made evs)"
    by (auto simp: is_api_job_def)
  ultimately show ?thesis
    using run_fifo [OF run c_inv_new, of t] c(2) h0(2) by (auto dest: prefix_with_end)
qed

text \<open>
  C25. The asynchronous C API means what the calls mean: when one thread of the application made the calls
  and destroyed the handle, and the dispatcher has ended, the game state is the result of performing
  directly, one after the other, exactly the calls that the thread made, in its order; between them are
  only ticks of the mode timer and reports of created sessions, at most one for each such event.
\<close>

theorem c_api_equals_direct_calls:
  assumes "c_run evs sb_game_state_struct_new = Some (Ret h)" "cApiDispatcher h \<noteq> DispRunning"
    and "\<forall>ev \<in> set evs. single_thread t ev"
  shows "\<exists>ops. gameState h = gs_run ops (gameState sb_game_state_struct_new) \<and>
    filter (\<lambda>op. \<not> worker_op op) (map fst ops) = List.map_filter job_op (calls_made evs) \<and>
    length (filter worker_op (map fst ops)) \<le> length (filter worker_event evs)"
proof -
  let ?h0 = "sb_game_state_struct_new"
  have sq: "split_queue t ?h0" by (simp add: split_queue_def sb_game_state_struct_new_def)
  have "queued_ticks ?h0 = 0" by (simp add: queued_ticks_def sb_game_state_struct_new_def)
  with run_worker_ops [OF assms(1) c_inv_new] run_game_state [OF assms(1)]
    run_performs_calls [OF assms(1,3) sq c_inv_new] shutdown_performs_all [OF assms]
  show ?thesis
    by (intro exI [of _ "along performed evs ?h0"]) (simp add: map_filter_simps)
qed

section \<open>Shutting down\<close>

lemma shutdown_turn_possible:
  assumes "c_inv h" "shutdown_by h = Some t" "cApiDispatcher h = DispRunning"
  shows "c_step (Turn t e) h \<noteq> None"
proof -
  from assms have "(t, Poison) \<in> set (cApiQueue h)" by (simp add: c_inv_def)
  then have "of_thread t (cApiQueue h) \<noteq> []" by (force simp: of_thread_def filter_empty_conv)
  then obtain x rest where "take_from t (cApiQueue h) = Some (x, rest)"
    using take_from_None by fastforce
  with assms(3) show ?thesis by (auto simp: cApiDispatcherLoop_turn_def Let_def)
qed

text \<open>The place of the end marker among the jobs of the thread that posted it.\<close>

definition jobs_before_end :: "nat \<Rightarrow> sb_game_state_struct \<Rightarrow> nat" where
  "jobs_before_end t h = length (takeWhile (\<lambda>j. j \<noteq> Poison) (of_thread t (cApiQueue h)))"

definition is_turn :: "c_event \<Rightarrow> bool" where
  "is_turn ev = (case ev of Turn p e \<Rightarrow> True | _ \<Rightarrow> False)"

definition turn_for :: "nat \<Rightarrow> c_event \<Rightarrow> bool" where
  "turn_for t ev = (case ev of Turn p e \<Rightarrow> p = t | _ \<Rightarrow> False)"

lemma no_turn_after_end:
  "c_run evs h = Some (Ret h') \<Longrightarrow> cApiDispatcher h \<noteq> DispRunning \<Longrightarrow> cApiDispatcher h' \<noteq> DispRunning \<and> list_all (\<lambda>ev. \<not> is_turn ev) evs"
proof (induction rule: c_run_induct)
  case (Cons ev evs h h1 h')
  have "cApiDispatcher h1 \<noteq> DispRunning \<and> \<not> is_turn ev"
    using Cons.hyps(1) Cons.prems by (cases ev) (auto simp: c_step_defs is_turn_def split: if_splits)
  with Cons.IH show ?case by simp
qed simp

lemma turns_for_step:
  assumes "c_step ev h = Some (Ret h1)" "c_inv h" "shutdown_by h = Some t" "cApiDispatcher h = DispRunning"
    and "cApiDispatcher h1 = DispRunning"
  shows "(if turn_for t ev then 1 else 0) + jobs_before_end t h1 = jobs_before_end t h"
proof (cases "\<exists>p e. ev = Turn p e")
  case True
  then obtain p e where ev: "ev = Turn p e" by blast
  from step_turn [OF assms(1) [unfolded ev]] assms(5) obtain x where
    x: "take_from p (cApiQueue h) = Some (x, cApiQueue h1)" "x \<noteq> Poison" by (metis dispatcher_thread.distinct(1))
  from take_from_thread [OF x(1), of t] x(2) show ?thesis by (simp add: jobs_before_end_def turn_for_def ev)
next
  case False
  then have q: "cApiQueue h1 = cApiQueue h @ enqueued ev" using step_queue [OF assms(1,2)] by blast
  have "Poison \<in> set (of_thread t (cApiQueue h))"
    using assms(2-4) by (simp add: set_of_thread c_inv_def)
  then have "jobs_before_end t h1 = jobs_before_end t h" by (simp add: jobs_before_end_def q)
  with False show ?thesis by (auto simp: turn_for_def split: c_event.splits)
qed

lemma turns_for_bounded:
  "c_run evs h = Some (Ret h') \<Longrightarrow> c_inv h \<Longrightarrow> shutdown_by h = Some t \<Longrightarrow> cApiDispatcher h = DispRunning \<Longrightarrow>
   length (filter (turn_for t) evs) + (if cApiDispatcher h' = DispRunning then Suc (jobs_before_end t h') else 0) \<le>
   Suc (jobs_before_end t h)"
proof (induction rule: c_run_induct)
  case (Cons ev evs h h1 h')
  note inv = c_inv_step [OF Cons.hyps(1) Cons.prems(1)]
  have sd: "shutdown_by h1 = Some t"
    using run_shutdown_by [of "[ev]" h h1 t] Cons.hyps(1) Cons.prems(1,2) by simp
  show ?case
  proof (cases "cApiDispatcher h1 = DispRunning")
    case True
    from Cons.IH [OF inv sd True] turns_for_step [OF Cons.hyps(1) Cons.prems True] show ?thesis
      by (simp split: if_splits)
  next
    case False
    from no_turn_after_end [OF Cons.hyps(2) False] have "cApiDispatcher h' \<noteq> DispRunning" "filter (turn_for t) evs = []"
      by (auto simp: filter_empty_conv list_all_iff is_turn_def turn_for_def split: c_event.splits)
    then show ?thesis by simp
  qed
qed simp

lemma turns_all_bounded:
  "c_run evs h = Some (Ret h') \<Longrightarrow> c_inv h \<Longrightarrow>
   length (filter is_turn evs) + length (cApiQueue h') = length (cApiQueue h) + length (concat (map enqueued evs))"
proof (induction rule: c_run_induct)
  case (Cons ev evs h h1 h')
  have "(if is_turn ev then 1 else 0) + length (cApiQueue h1) = length (cApiQueue h) + length (enqueued ev)"
  proof (cases "\<exists>p e. ev = Turn p e")
    case True
    then obtain p e where ev: "ev = Turn p e" by blast
    from step_turn [OF Cons.hyps(1) [unfolded ev]] obtain x where "take_from p (cApiQueue h) = Some (x, cApiQueue h1)" by blast
    from take_from_length [OF this] show ?thesis by (simp add: ev is_turn_def)
  next
    case False
    then have "cApiQueue h1 = cApiQueue h @ enqueued ev" using step_queue [OF Cons.hyps(1) Cons.prems] by blast
    with False show ?thesis by (auto simp: is_turn_def split: c_event.splits)
  qed
  with Cons.IH [OF c_inv_step [OF Cons.hyps(1) Cons.prems]] show ?case by (simp split: if_splits)
qed simp

text \<open>
  C26. The shutdown of the dispatcher ends. From the moment a thread began it, and whatever other threads still
  call, post and report: at most as many turns serve that thread as it has jobs in the queue, and all turns
  together are at most the jobs queued then or posted since. At any time the dispatcher can make a turn for that thread, or
  it has ended and can be joined, or it was joined, and then the queue can be freed or is freed. (What follows
  in the destructor, the end of the network layer, is not part of this.)
\<close>

theorem shutdown_returns:
  assumes "c_run evs sb_game_state_struct_new = Some (Ret h)" "shutdown_by h = Some t" "c_run evs' h = Some (Ret h')"
  shows "length (filter (turn_for t) evs') \<le> length (of_thread t (cApiQueue h)) \<and>
    length (filter is_turn evs') \<le> length (cApiQueue h) + length (concat (map enqueued evs')) \<and>
    (case cApiDispatcher h' of
       DispRunning \<Rightarrow> \<forall>e. c_step (Turn t e) h' \<noteq> None
     | DispEnded \<Rightarrow> \<exists>h2. c_step ShutdownJoin h' = Some (Ret h2) \<and> cApiDispatcher h2 = DispJoined
     | DispJoined \<Rightarrow> queue_freed h' \<or> (\<exists>h2. c_step Delete h' = Some (Ret h2) \<and> queue_freed h2))"
proof -
  have inv: "c_inv h" by (rule c_inv_run [OF assms(1) c_inv_new])
  have inv': "c_inv h'" and sd': "shutdown_by h' = Some t"
    using c_inv_run [OF assms(3) inv] run_shutdown_by [OF assms(3,2) inv] by simp_all
  have "length (filter (turn_for t) evs') \<le> length (of_thread t (cApiQueue h))"
  proof (cases "cApiDispatcher h = DispRunning")
    case True
    have "Poison \<in> set (of_thread t (cApiQueue h))" using inv assms(2) True by (simp add: set_of_thread c_inv_def)
    then obtain js rest where js: "of_thread t (cApiQueue h) = js @ Poison # rest" "Poison \<notin> set js"
      using split_list_first by fastforce
    have "\<forall>j \<in> set js. j \<noteq> Poison" using js(2) by blast
    then have "jobs_before_end t h = length js"
      by (simp add: jobs_before_end_def js(1) takeWhile_append2)
    with js turns_for_bounded [OF assms(3) inv assms(2) True] show ?thesis by simp
  next
    case False
    from no_turn_after_end [OF assms(3) False] have "filter (turn_for t) evs' = []"
      by (auto simp: filter_empty_conv list_all_iff is_turn_def turn_for_def split: c_event.splits)
    then show ?thesis by simp
  qed
  moreover have "length (filter is_turn evs') \<le> length (cApiQueue h) + length (concat (map enqueued evs'))"
    using turns_all_bounded [OF assms(3) inv] by simp
  moreover have "case cApiDispatcher h' of
       DispRunning \<Rightarrow> \<forall>e. c_step (Turn t e) h' \<noteq> None
     | DispEnded \<Rightarrow> \<exists>h2. c_step ShutdownJoin h' = Some (Ret h2) \<and> cApiDispatcher h2 = DispJoined
     | DispJoined \<Rightarrow> queue_freed h' \<or> (\<exists>h2. c_step Delete h' = Some (Ret h2) \<and> queue_freed h2)"
  proof (cases "cApiDispatcher h'")
    case DispRunning
    then show ?thesis using shutdown_turn_possible [OF inv' sd'] by simp
  qed (simp_all add: shutdown_join_def delete_queue_def)
  ultimately show ?thesis by blast
qed

text \<open>
  Every game state that the C API can show is well formed, whatever the threads do.
\<close>

theorem c_api_states_well_formed:
  "c_run evs sb_game_state_struct_new = Some (Ret h) \<Longrightarrow> gs_inv (gameState h)"
proof (rule run_gs_inv)
  show "gs_inv (gameState sb_game_state_struct_new)"
    by (simp add: sb_game_state_struct_new_def gs_inv_poster gs_inv_new)
qed

section \<open>Runs\<close>

definition env0 :: Env where
  "env0 = \<lparr>net_status = AuthenticatedPaired, sys_now = 0, steady_now = 0\<rparr>"

definition one_thread_run :: "c_event list" where
  "one_thread_run =
     [Call 1 (JobSetGameStarted StartButton), Call 1 (JobSetCapabilities 1), SessionReported env0,
      Turn 1 env0, Turn 1 env0, ShutdownBegin 1, Turn 1 env0]"

lemma one_thread_run_eval: "\<exists>h. c_run one_thread_run sb_game_state_struct_new = Some (Ret h) \<and> cApiDispatcher h = DispEnded"
  by (simp add: one_thread_run_def sb_game_state_struct_new_def postApiJob_def cApiDispatcherLoop_turn_def
      shutdown_begin_def is_api_job_def)

theorem c_api_equals_direct_calls_witness:
  "\<exists>h ops. c_run one_thread_run sb_game_state_struct_new = Some (Ret h) \<and>
     gameState h = gs_run ops (gameState sb_game_state_struct_new) \<and>
     filter (\<lambda>op. \<not> worker_op op) (map fst ops) = [OpGameStarted StartButton, OpCapabilities 1]"
proof -
  obtain h where h: "c_run one_thread_run sb_game_state_struct_new = Some (Ret h)" "cApiDispatcher h = DispEnded"
    using one_thread_run_eval by blast
  have "\<forall>ev \<in> set one_thread_run. single_thread 1 ev"
    by (simp add: one_thread_run_def single_thread_def)
  from c_api_equals_direct_calls [OF h(1) _ this] h show ?thesis
    by (auto simp: one_thread_run_def map_filter_simps)
qed

theorem shutdown_returns_witness:
  "\<exists>h h'. c_run [Call 4 JobCommit, ShutdownBegin 4] sb_game_state_struct_new = Some (Ret h) \<and>
     c_run [Call 5 JobClearModes, Turn 4 env0] h = Some (Ret h') \<and> (\<forall>e. c_step (Turn 4 e) h' \<noteq> None)"
proof -
  obtain h h' where h: "c_run [Call 4 JobCommit, ShutdownBegin 4] sb_game_state_struct_new = Some (Ret h)" "shutdown_by h = Some 4"
    "c_run [Call 5 JobClearModes, Turn 4 env0] h = Some (Ret h')" "cApiDispatcher h' = DispRunning"
    by (simp add: sb_game_state_struct_new_def shutdown_begin_def postApiJob_def is_api_job_def cApiDispatcherLoop_turn_def)
  from shutdown_returns [OF h(1-3)] h(4) h(1,3) show ?thesis by (auto simp del: c_step.simps)
qed

theorem c_api_states_well_formed_witness:
  "\<exists>h. c_run one_thread_run sb_game_state_struct_new = Some (Ret h) \<and> gs_inv (gameState h)"
  using one_thread_run_eval c_api_states_well_formed by blast

text \<open>
  C27. Calls can be lost. In whatever state of a handle whose dispatcher runs: if the calls of a thread are all
  performed and that thread destroys the handle, then its end marker can come out next, before every call that other threads
  made earlier. The queue is then freed with these calls in it, the game is as it was, and no continuation
  performs any of them.
\<close>

theorem poison_overtakes_other_thread:
  assumes "c_run evs sb_game_state_struct_new = Some (Ret h)" "shutdown_by h = None" "of_thread t (cApiQueue h) = []"
  shows "\<exists>h'. c_run [ShutdownBegin t, Turn t e, ShutdownJoin, Delete] h = Some (Ret h') \<and>
    queue_freed h' \<and> cApiQueue h' = cApiQueue h \<and> gameState h' = gameState h \<and>
    (\<forall>more h2. c_run more h' = Some (Ret h2) \<longrightarrow> list_all (\<lambda>ev. \<not> is_turn ev) more \<and> set (cApiQueue h) \<subseteq> set (cApiQueue h2))"
proof -
  have inv: "c_inv h" by (rule c_inv_run [OF assms(1) c_inv_new])
  have run: "cApiDispatcher h = DispRunning" "\<not> queue_freed h" using inv assms(2) by (auto simp: c_inv_def)
  have take: "of_thread t q = [] \<Longrightarrow> take_from t (q @ [(t, x)]) = Some (x, q)" for q :: "(nat \<times> ApiQueueItem) list" and x
    by (induction q) (auto split: if_splits)
  let ?h = "h\<lparr>cApiAccepting := False, shutdown_by := Some t, cApiDispatcher := DispJoined, queue_freed := True\<rparr>"
  have "c_run [ShutdownBegin t, Turn t e, ShutdownJoin, Delete] h = Some (Ret ?h)"
    using assms(2,3) run
    by (simp add: shutdown_begin_def postApiJob_def cApiDispatcherLoop_turn_def take shutdown_join_def delete_queue_def Let_def)
  moreover have "list_all (\<lambda>ev. \<not> is_turn ev) more \<and> set (cApiQueue h) \<subseteq> set (cApiQueue h2)"
    if "c_run more ?h = Some (Ret h2)" for more h2
  proof -
    have none: "list_all (\<lambda>ev. \<not> is_turn ev) more" using no_turn_after_end [OF that] by simp
    have "c_run more g = Some (Ret h2) \<Longrightarrow> list_all (\<lambda>ev. \<not> is_turn ev) more \<Longrightarrow> c_inv g \<Longrightarrow> set (cApiQueue g) \<subseteq> set (cApiQueue h2)" for g
    proof (induction rule: c_run_induct)
      case (Cons ev evs g g1 h2)
      have "\<And>p e. ev \<noteq> Turn p e" using Cons.prems(1) by (auto simp: is_turn_def)
      then have "cApiQueue g1 = cApiQueue g @ enqueued ev" using step_queue [OF Cons.hyps(1) Cons.prems(2)] by blast
      with Cons.IH c_inv_step [OF Cons.hyps(1) Cons.prems(2)] Cons.prems(1) show ?case by simp
    qed simp
    moreover have "c_inv ?h" using inv assms(2) by (simp add: c_inv_def)
    ultimately have "set (cApiQueue ?h) \<subseteq> set (cApiQueue h2)" using that none by blast
    with none show ?thesis by simp
  qed
  ultimately show ?thesis by (intro exI [of _ ?h]) simp
qed

theorem poison_overtakes_other_thread_witness:
  "\<exists>h h'. c_run [Call 1 (JobSetGameStarted StartButton), Turn 1 env0, Call 1 JobSetGameFinished] sb_game_state_struct_new = Some (Ret h) \<and>
     isGameActive (m_data (gameState h)) \<and>
     c_run [ShutdownBegin 2, Turn 2 env0, ShutdownJoin, Delete] h = Some (Ret h') \<and>
     cApiQueue h' = [(1, JobSetGameFinished)] \<and> isGameActive (m_data (gameState h'))"
proof -
  obtain h where h: "c_run [Call 1 (JobSetGameStarted StartButton), Turn 1 env0, Call 1 JobSetGameFinished] sb_game_state_struct_new = Some (Ret h)"
    "shutdown_by h = None" "cApiQueue h = [(1, JobSetGameFinished)]" "isGameActive (m_data (gameState h))"
    by (simp add: sb_game_state_struct_new_def postApiJob_def cApiDispatcherLoop_turn_def is_api_job_def setModeExpiryPoster_def
        GameStateImpl_new_def GameData_empty_def env0_def setGameStarted_active fresh_data_def)
  moreover have "of_thread 2 (cApiQueue h) = []" by (simp add: h(3))
  ultimately show ?thesis using poison_overtakes_other_thread [OF h(1,2), of 2 env0] by auto
qed

definition late_tick_run :: "c_event list" where
  "late_tick_run = [TickCheck 9, ShutdownBegin 1, Turn 1 env0, ShutdownJoin, Delete, TickPost 9]"

text \<open>
  A tick can touch a destroyed queue: the mode timer reads that the API accepts jobs, the handle is
  destroyed, and the tick is posted to the queue that is gone.
\<close>

theorem late_tick_undefined: "c_run late_tick_run sb_game_state_struct_new = Some Undef"
  by (simp add: late_tick_run_def sb_game_state_struct_new_def postApiJob_def cApiDispatcherLoop_turn_def
      shutdown_begin_def shutdown_join_def delete_queue_def expiry_poster_check_def expiry_poster_post_def)

end
