(* ===== verification/Fs_Read_Write.thy ===== *)
theory Fs_Read_Write
  imports Json
begin

text \<open>
  \<^verbatim>\<open>libs/utils/source/fs_read_write.cpp\<close> on Linux: making the file system of a path writable and
  read-only again. The lines of \<^verbatim>\<open>/proc/self/mountinfo\<close> (\<open>None\<close> if it cannot be opened), the canonical
  form of a path and the success of the system call \<^verbatim>\<open>mount\<close> are inputs; the calls of \<^verbatim>\<open>mount\<close> are
  recorded as the mount point and whether it was made read-only.
\<close>

record MountInfo =
  mountPoint :: string
  readOnly :: bool

text \<open>Fields separated by white space, as \<^verbatim>\<open>operator>>\<close> reads them.\<close>

definition ws :: "char \<Rightarrow> bool" where
  "ws c \<longleftrightarrow> c \<in> {CHR 0x20, CHR 0x09, CHR 0x0A, CHR 0x0B, CHR 0x0C, CHR 0x0D}"

function words :: "string \<Rightarrow> string list" where
  "words s =
     (let s = dropWhile ws s
      in if s = [] then [] else takeWhile (\<lambda>c. \<not> ws c) s # words (dropWhile (\<lambda>c. \<not> ws c) s))"
  by auto
termination
proof (relation "measure length", goal_cases)
  case (2 s x)
  then have "x \<noteq> []" "\<not> ws (hd x)" by (auto simp: hd_dropWhile)
  then have "length (dropWhile (\<lambda>c. \<not> ws c) x) < length x"
    by (cases x) (auto intro: le_less_trans [OF length_dropWhile_le])
  moreover from 2 have "length x \<le> length s" by (simp add: length_dropWhile_le)
  ultimately show ?case by simp
qed simp

declare words.simps [simp del]

definition field :: "nat \<Rightarrow> string list \<Rightarrow> string" where
  "field i fs = (if i < length fs then fs ! i else [])"

definition parse_mount_line :: "string \<Rightarrow> MountInfo" where
  "parse_mount_line line =
     (let parts = words line;
          rest = tl (dropWhile (\<lambda>token. token \<noteq> ''-'') (drop 5 parts));
          options = field 2 rest
      in \<lparr>mountPoint = field 4 parts, readOnly = contains_sub options ''ro''\<rparr>)"

definition parseMountInfo :: "string list option \<Rightarrow> MountInfo list res" where
  "parseMountInfo lines = (case lines of None \<Rightarrow> Exn | Some ls \<Rightarrow> Ret (map parse_mount_line ls))"

definition better_mount :: "string \<Rightarrow> string \<Rightarrow> MountInfo \<Rightarrow> string" where
  "better_mount path best m =
     (if starts_with path (mountPoint m) \<and> length (mountPoint m) > length best then mountPoint m else best)"

definition findMountPoint :: "string option \<Rightarrow> string list option \<Rightarrow> string res" where
  "findMountPoint canonical lines =
     res_bind (or_exn canonical) (\<lambda>path.
     res_bind (parseMountInfo lines) (\<lambda>mounts.
       let bestMatch = foldl (better_mount path) [] mounts
       in if bestMatch = [] then Exn else Ret bestMatch))"

definition isReadOnly :: "string list option \<Rightarrow> string \<Rightarrow> bool res" where
  "isReadOnly lines mp =
     res_bind (parseMountInfo lines) (\<lambda>mounts.
       case find (\<lambda>m. mountPoint m = mp) mounts of None \<Rightarrow> Exn | Some m \<Rightarrow> Ret (readOnly m))"

type_synonym mount_calls = "(string \<times> bool) list"

definition remountRW :: "(string \<Rightarrow> bool \<Rightarrow> bool) \<Rightarrow> string \<Rightarrow> mount_calls \<Rightarrow> bool \<times> mount_calls" where
  "remountRW mount_ok mp cs = (mount_ok mp False, cs @ [(mp, False)])"

definition remountRO :: "(string \<Rightarrow> bool \<Rightarrow> bool) \<Rightarrow> string \<Rightarrow> mount_calls \<Rightarrow> bool \<times> mount_calls" where
  "remountRO mount_ok mp cs = (mount_ok mp True, cs @ [(mp, True)])"

record MakeWritableResult =
  mw_ok :: bool
  mw_mountPoint :: string

definition fsMakeWritable ::
  "(string \<Rightarrow> bool \<Rightarrow> bool) \<Rightarrow> string option \<Rightarrow> string list option \<Rightarrow> mount_calls
   \<Rightarrow> (MakeWritableResult \<times> mount_calls) res" where
  "fsMakeWritable mount_ok canonical lines cs =
     res_bind (findMountPoint canonical lines) (\<lambda>mp.
     res_bind (isReadOnly lines mp) (\<lambda>ro.
       if \<not> ro then Ret (\<lparr>mw_ok = True, mw_mountPoint = []\<rparr>, cs)
       else let (ok, cs) = remountRW mount_ok mp cs
            in Ret (\<lparr>mw_ok = ok, mw_mountPoint = mp\<rparr>, cs)))"

definition fsRemountReadOnly :: "(string \<Rightarrow> bool \<Rightarrow> bool) \<Rightarrow> string \<Rightarrow> mount_calls \<Rightarrow> mount_calls" where
  "fsRemountReadOnly mount_ok mp cs = (if mp \<noteq> [] then snd (remountRO mount_ok mp cs) else cs)"

section \<open>Properties\<close>

lemma foldl_better_mount:
  "foldl (better_mount path) best ms = best \<or>
   (\<exists>m \<in> set ms. foldl (better_mount path) best ms = mountPoint m \<and> starts_with path (mountPoint m))"
proof (induction ms arbitrary: best)
  case (Cons m ms)
  from Cons.IH [of "better_mount path best m"] show ?case
    by (cases "better_mount path best m = best") (auto simp: better_mount_def split: if_splits)
qed simp

lemma foldl_better_mount_length:
  "length best \<le> length (foldl (better_mount path) best ms) \<and>
   (\<forall>m \<in> set ms. starts_with path (mountPoint m) \<longrightarrow> length (mountPoint m) \<le> length (foldl (better_mount path) best ms))"
proof (induction ms arbitrary: best)
  case (Cons m ms)
  from Cons.IH [of "better_mount path best m"] show ?case
    by (auto simp: better_mount_def split: if_splits)
qed simp

text \<open>
  Only a file system that was made writable is made read-only again, the mount point is the
  longest one that the path starts with, and a file system whose options do not contain the two letters
  of read-only is not touched at all.
\<close>

theorem make_writable_mounts:
  assumes "fsMakeWritable mount_ok (Some p) (Some ls) cs = Ret (r, cs')"
  shows "(cs' = cs \<and> mw_mountPoint r = [] \<and> mw_ok r \<and> fsRemountReadOnly mount_ok (mw_mountPoint r) cs' = cs' \<or>
      (\<exists>mp. mw_mountPoint r = mp \<and> mp \<noteq> [] \<and> mw_ok r = mount_ok mp False \<and> cs' = cs @ [(mp, False)] \<and>
         starts_with p mp \<and> mp \<in> mountPoint ` set (map parse_mount_line ls) \<and>
         (\<forall>m \<in> set (map parse_mount_line ls). starts_with p (mountPoint m) \<longrightarrow> length (mountPoint m) \<le> length mp) \<and>
         fsRemountReadOnly mount_ok mp cs' = cs @ [(mp, False), (mp, True)]))"
proof -
  let ?ms = "map parse_mount_line ls"
  let ?mp = "foldl (better_mount p) [] ?ms"
  from assms obtain ro where mp: "?mp \<noteq> []" and r: "isReadOnly (Some ls) ?mp = Ret ro"
    "(if \<not> ro then Ret (\<lparr>mw_ok = True, mw_mountPoint = []\<rparr>, cs)
       else Ret (\<lparr>mw_ok = mount_ok ?mp False, mw_mountPoint = ?mp\<rparr>, cs @ [(?mp, False)])) = Ret (r, cs')"
    by (auto simp: fsMakeWritable_def findMountPoint_def parseMountInfo_def res_bind_Ret Let_def remountRW_def
        split: if_splits)
  show ?thesis
  proof (cases ro)
    case True
    from foldl_better_mount [of p "[]" ?ms] mp obtain m where "m \<in> set ?ms" "?mp = mountPoint m" "starts_with p ?mp"
      by metis
    with True r mp foldl_better_mount_length [of "[]" p ?ms] show ?thesis
      by (auto simp: fsRemountReadOnly_def remountRO_def)
  qed (use r in \<open>auto simp: fsRemountReadOnly_def\<close>)
qed

text \<open>A line of a usual Linux root file system, which is writable.\<close>

definition debian_root :: string where
  "debian_root = ''25 1 8:1 / / rw,relatime shared:1 - ext4 /dev/sda1 rw,errors=remount-ro''"

lemma debian_root_parsed: "parse_mount_line debian_root = \<lparr>mountPoint = ''/'', readOnly = True\<rparr>"
  by code_simp

text \<open>
  A writable root file system mounted with the usual option \<open>errors=remount-ro\<close> counts as
  read-only: it is remounted, and made read-only when the update is done.
\<close>

theorem writable_root_made_read_only:
  "fsMakeWritable (\<lambda>_ _. True) (Some ''/usr/bin'') (Some [debian_root]) [] =
     Ret (\<lparr>mw_ok = True, mw_mountPoint = ''/''\<rparr>, [(''/'', False)]) \<and>
   fsRemountReadOnly (\<lambda>_ _. True) ''/'' [(''/'', False)] = [(''/'', False), (''/'', True)]"
  by (simp add: fsMakeWritable_def findMountPoint_def isReadOnly_def parseMountInfo_def debian_root_parsed
      better_mount_def remountRW_def fsRemountReadOnly_def remountRO_def starts_with_def)

theorem make_writable_mounts_witness:
  "\<exists>r. fsMakeWritable (\<lambda>_ _. True) (Some ''/usr/bin'') (Some [debian_root]) [] = Ret (r, [(''/'', False)]) \<and>
     fsRemountReadOnly (\<lambda>_ _. True) (mw_mountPoint r) [(''/'', False)] = [(''/'', False), (''/'', True)]"
proof -
  have "fsMakeWritable (\<lambda>_ _. True) (Some ''/usr/bin'') (Some [debian_root]) [] =
     Ret (\<lparr>mw_ok = True, mw_mountPoint = ''/''\<rparr>, [(''/'', False)])"
    by (simp add: fsMakeWritable_def findMountPoint_def isReadOnly_def parseMountInfo_def debian_root_parsed
        better_mount_def remountRW_def starts_with_def)
  from make_writable_mounts [OF this] this show ?thesis by auto
qed

end
