(* ===== verification/Updater.thy ===== *)
theory Updater
  imports Net_Auth Fs_Read_Write
begin

text \<open>
  \<^verbatim>\<open>source/updater.{h,cpp}\<close>: looking for a new version of the SDK or of the daemon, downloading it and
  replacing the running binary (the branch for POSIX systems).

  \<^item> The file system is a map from paths to contents. Each operation on it that can fail takes whether
    it does as an input; a rename or removal that fails changes nothing.
  \<^item> A path is the text of a canonical path. The files that the archive leaves in the temporary directory
    come as a list in the order in which the directory is walked.
  \<^item> The outcome of the download, the build's constants, the paths of the binaries and the text of an
    exception are inputs. The two formatted time stamps are the input \<open>ue_stamp\<close>.
  \<^item> \<open>res\<close> values: \<open>Exn\<close> is an exception that leaves the function, \<open>Undef\<close> an absent key of a constant
    JSON object.
\<close>

section \<open>Patterns\<close>

definition digit :: "char \<Rightarrow> bool" where
  "digit c \<longleftrightarrow> 48 \<le> (of_char c :: nat) \<and> (of_char c :: nat) \<le> 57"

definition word_char :: "char \<Rightarrow> bool" where
  "word_char c \<longleftrightarrow>
     (let n = of_char c :: nat
      in 48 \<le> n \<and> n \<le> 57 \<or> 65 \<le> n \<and> n \<le> 90 \<or> 97 \<le> n \<and> n \<le> 122 \<or> c = CHR ''_'')"

text \<open>\<open>(\d+\.?)+\<close> on a run of digits and dots: it starts with a digit and has no two dots in a row.\<close>

fun dotted :: "bool \<Rightarrow> string \<Rightarrow> bool" where
  "dotted after_digit [] = True"
| "dotted after_digit (c # s) =
     (if digit c then dotted True s else if c = CHR ''.'' then after_digit \<and> dotted False s else False)"

definition is_version :: "string \<Rightarrow> bool" where
  "is_version v \<longleftrightarrow> v \<noteq> [] \<and> dotted False v"

text \<open>The text after the product's name: version, platform and one of the two extensions; the result
  is the groups 1 and 3.\<close>

definition match_tail :: "string \<Rightarrow> (string \<times> string) option" where
  "match_tail s =
     (let v = takeWhile (\<lambda>c. digit c \<or> c = CHR ''.'') s;
          r = dropWhile (\<lambda>c. digit c \<or> c = CHR ''.'') s;
          p = takeWhile word_char (tl r);
          ext = dropWhile word_char (tl r)
      in if is_version v \<and> r \<noteq> [] \<and> hd r = CHR ''-'' \<and> p \<noteq> [] \<and> (ext = ''.tar.gz'' \<or> ext = ''.tgz'')
         then Some (v, p) else None)"

definition match_after :: "string \<Rightarrow> string \<Rightarrow> (string \<times> string) option" where
  "match_after name s = (if starts_with s name then match_tail (drop (length name) s) else None)"

definition SCORBITD_NAME_PATTERN :: "string \<Rightarrow> (string \<times> string) option" where
  "SCORBITD_NAME_PATTERN s = match_after ''scorbitd-'' s"

text \<open>The leading \<open>.*\<close> takes as much as it can, but no line break.\<close>

fun SDK_URL_PATTERN :: "string \<Rightarrow> (string \<times> string) option" where
  "SDK_URL_PATTERN [] = match_after ''scorbit_sdk-'' []"
| "SDK_URL_PATTERN (c # s) =
     (case (if c = CHR 0x0A \<or> c = CHR 0x0D then None else SDK_URL_PATTERN s) of
        Some m \<Rightarrow> Some m
      | None \<Rightarrow> match_after ''scorbit_sdk-'' (c # s))"

text \<open>\<open>(\.\d+)*\<close> and \<open>(\d+\.)*dylib\<close>.\<close>

fun dot_numbers :: "bool \<Rightarrow> string \<Rightarrow> bool" where
  "dot_numbers after_digit [] = after_digit"
| "dot_numbers after_digit (c # s) =
     (if digit c then dot_numbers True s
      else c = CHR ''.'' \<and> after_digit \<and> s \<noteq> [] \<and> digit (hd s) \<and> dot_numbers False s)"

definition so_suffix :: "string \<Rightarrow> bool" where
  "so_suffix s \<longleftrightarrow> s = [] \<or> (hd s = CHR ''.'' \<and> tl s \<noteq> [] \<and> digit (hd (tl s)) \<and> dot_numbers False (tl s))"

fun dylib_name :: "bool \<Rightarrow> string \<Rightarrow> bool" where
  "dylib_name after_digit s =
     (\<not> after_digit \<and> s = ''dylib'' \<or>
      (case s of
         [] \<Rightarrow> False
       | c # t \<Rightarrow> if digit c then dylib_name True t else c = CHR ''.'' \<and> after_digit \<and> dylib_name False t))"

declare dylib_name.simps [simp del]

definition SDK_LIBRARY_PATTERN :: "string \<Rightarrow> bool" where
  "SDK_LIBRARY_PATTERN s =
     (let s = (if starts_with s ''lib'' then drop 3 s else s)
      in starts_with s ''scorbit_sdk.'' \<and>
         (let e = drop (length ''scorbit_sdk.'') s
          in (starts_with e ''so'' \<and> so_suffix (drop 2 e)) \<or> dylib_name False e \<or> e = ''dll''))"

definition SCORBITD_PATTERN :: "string \<Rightarrow> bool" where
  "SCORBITD_PATTERN s \<longleftrightarrow> s = ''scorbitd'' \<or> s = ''scorbitd.exe''"

section \<open>State and inputs\<close>

type_synonym file_system = "string \<rightharpoonup> ByteArray"

record UpdateUrl =
  uu_url :: string
  uu_version :: string
  uu_contentType :: string
  uu_size :: int

definition UpdateUrl_new :: UpdateUrl where
  "UpdateUrl_new = \<lparr>uu_url = [], uu_version = [], uu_contentType = [], uu_size = -1\<rparr>"

record BinaryInfo =
  bi_path :: string
  bi_re :: "string \<Rightarrow> bool"

record Updater =
  m_updateInProgress :: bool
  m_useEncryptedKey :: bool
  m_scorbitdVersion :: string
  m_scorbitdPlatformId :: string
  m_feedback :: string
  up_fs :: file_system
  up_mounts :: mount_calls
  config_reports :: "(string \<times> string \<times> bool \<times> string) list"
  updated_events :: "(string \<times> string) list"

record replace_faults =
  rf_exists :: bool
  rf_backup :: bool
  rf_install :: bool
  rf_remove :: bool
  rf_restore :: bool

record update_io =
  io_download :: "Error \<times> string"
  io_temp_file :: string
  io_extracted :: bool
  io_files :: "(string \<times> ByteArray) list"
  io_walk_fails :: bool
  io_canonical :: "string \<Rightarrow> string option"
  io_faults :: replace_faults
  io_cleanup_fails :: bool
  io_dir :: "string option"

record 'j update_env =
  ue_json :: "'j json_api"
  ue_what :: string
  ue_sdk_version :: string
  ue_major_minor :: string
  ue_platform :: string
  ue_this_key :: string
  ue_production_key :: string
  ue_sdk_path :: "string option"
  ue_exe_path :: "string option"
  ue_stamp :: string
  ue_mountinfo :: "string list option"
  ue_mount_ok :: "string \<Rightarrow> bool \<Rightarrow> bool"

definition feedback :: "string \<Rightarrow> Updater \<Rightarrow> Updater" where
  "feedback txt u =
     u\<lparr>m_feedback := (if m_feedback u = [] then txt else m_feedback u @ [CHR 0x0A, CHR 0x0A] @ txt)\<rparr>"

section \<open>Reading the release information\<close>

text \<open>One asset: skip it, or the information with what was read so far and whether reading ended
  normally.\<close>

definition without_system :: "string \<Rightarrow> string" where
  "without_system p = (if length p < 3 then p else take (length p - 3) p)"

definition read_scorbitd_asset :: "'j json_api \<Rightarrow> 'j \<Rightarrow> UpdateUrl \<Rightarrow> UpdateUrl \<times> unit res" where
  "read_scorbitd_asset J asset info =
     (case res_bind (or_undef (j_index J asset ''download_url'')) (\<lambda>v. or_exn (j_string J v)) of
        Exn \<Rightarrow> (info, Exn) | Undef \<Rightarrow> (info, Undef)
      | Ret url \<Rightarrow>
          let info = info\<lparr>uu_url := url\<rparr> in
          case res_bind (or_undef (j_index J asset ''content_type'')) (\<lambda>v. or_exn (j_string J v)) of
            Exn \<Rightarrow> (info, Exn) | Undef \<Rightarrow> (info, Undef)
          | Ret ct \<Rightarrow>
              let info = info\<lparr>uu_contentType := ct\<rparr> in
              case res_bind (or_undef (j_index J asset ''size'')) (\<lambda>v. or_exn (j_int J v)) of
                Exn \<Rightarrow> (info, Exn) | Undef \<Rightarrow> (info, Undef)
              | Ret n \<Rightarrow> (info\<lparr>uu_size := n\<rparr>, Ret ()))"

fun find_asset :: "'j update_env \<Rightarrow> string \<Rightarrow> 'j list \<Rightarrow> UpdateUrl \<Rightarrow> UpdateUrl \<times> unit res" where
  "find_asset E plat [] info = (info, Ret ())"
| "find_asset E plat (asset # assets) info =
     (let J = ue_json E in
      if j_is_string J asset then
        case j_string J asset of
          None \<Rightarrow> (info, Exn)
        | Some url \<Rightarrow>
            (case SDK_URL_PATTERN url of
               None \<Rightarrow> find_asset E plat assets info
             | Some (url_version, platformId) \<Rightarrow>
                 if url_version \<noteq> uu_version info then find_asset E plat assets info
                 else if platformId = ue_platform E then (info\<lparr>uu_url := url\<rparr>, Ret ())
                 else find_asset E plat assets info)
      else if j_is_object J asset then
        case res_bind (or_undef (j_index J asset ''name'')) (\<lambda>v. or_exn (j_string J v)) of
          Exn \<Rightarrow> (info, Exn)
        | Undef \<Rightarrow> (info, Undef)
        | Ret name \<Rightarrow>
            (case SCORBITD_NAME_PATTERN name of
               None \<Rightarrow> find_asset E plat assets info
             | Some (url_version, platformId) \<Rightarrow>
                 if url_version \<noteq> uu_version info then find_asset E plat assets info
                 else if platformId = plat \<or> platformId = without_system plat @ ''u18''
                         \<or> platformId = without_system plat @ ''u20''
                 then read_scorbitd_asset J asset info
                 else find_asset E plat assets info)
      else find_asset E plat assets info)"

definition read_urls :: "'j update_env \<Rightarrow> string \<Rightarrow> 'j \<Rightarrow> UpdateUrl \<times> unit res" where
  "read_urls E plat obj =
     (let J = ue_json E; info = UpdateUrl_new in
      case res_bind (or_undef (j_index J obj ''version'')) (\<lambda>v. or_exn (j_string J v)) of
        Exn \<Rightarrow> (info, Exn)
      | Undef \<Rightarrow> (info, Undef)
      | Ret version \<Rightarrow>
          (let info = info\<lparr>uu_version := version\<rparr> in
           case j_index J obj ''assets_json'' of
             None \<Rightarrow> (info, Undef)
           | Some assets \<Rightarrow> find_asset E plat (j_elements J assets) info))"

definition parse_failed :: "'j update_env \<Rightarrow> 'j \<Rightarrow> Updater \<Rightarrow> Updater" where
  "parse_failed E obj u =
     feedback (''Error parsing: '' @ ue_what E @ '', in json: '' @ j_dump (ue_json E) obj) u"

definition parseUrls :: "'j update_env \<Rightarrow> 'j \<Rightarrow> Updater \<Rightarrow> (UpdateUrl \<times> Updater) res" where
  "parseUrls E obj u =
     (case read_urls E (m_scorbitdPlatformId u) obj of
        (info, Ret _) \<Rightarrow> Ret (info, u)
      | (info, Undef) \<Rightarrow> Undef
      | (info, Exn) \<Rightarrow> Ret (info, parse_failed E obj u))"

section \<open>Replacing the binary\<close>

definition fs_rename :: "bool \<Rightarrow> string \<Rightarrow> string \<Rightarrow> file_system \<Rightarrow> file_system res" where
  "fs_rename fails from to fs =
     (if fails then Exn
      else case fs from of
             None \<Rightarrow> Exn
           | Some content \<Rightarrow> Ret (if from = to then fs else (fs(to \<mapsto> content))(from := None)))"

definition fs_remove :: "bool \<Rightarrow> string \<Rightarrow> file_system \<Rightarrow> file_system res" where
  "fs_remove fails p fs = (if fails then Exn else Ret (fs(p := None)))"

definition replace_failed :: "'j update_env \<Rightarrow> Updater \<Rightarrow> Updater" where
  "replace_failed E u = feedback (''Error occurred while replacing library: '' @ ue_what E) u"

definition backup_path :: "string \<Rightarrow> string" where
  "backup_path libPath = libPath @ ''.old''"

text \<open>The inner block: install and remove the backup, or put the original back; \<open>Exn\<close> is what the
  outer handler catches.\<close>

definition install_new ::
  "'j update_env \<Rightarrow> replace_faults \<Rightarrow> string \<Rightarrow> string \<Rightarrow> Updater \<Rightarrow> bool \<times> Updater" where
  "install_new E f libPath newLibPath u =
     (let backupPath = backup_path libPath;
          installed = fs_rename (rf_install f) newLibPath libPath (up_fs u);
          fs1 = (case installed of Ret fs \<Rightarrow> fs | _ \<Rightarrow> up_fs u);
          removed = (case installed of Ret fs \<Rightarrow> fs_remove (rf_remove f) backupPath fs | _ \<Rightarrow> Exn)
      in case removed of
           Ret fs2 \<Rightarrow> (True, u\<lparr>up_fs := fs2\<rparr>)
         | _ \<Rightarrow>
             let u = replace_failed E (u\<lparr>up_fs := fs1\<rparr>) in
             case fs_rename (rf_restore f) backupPath libPath fs1 of
               Ret fs3 \<Rightarrow> (False, u\<lparr>up_fs := fs3\<rparr>)
             | _ \<Rightarrow> (False, replace_failed E u))"

definition replaceBinary ::
  "'j update_env \<Rightarrow> replace_faults \<Rightarrow> string \<Rightarrow> string \<Rightarrow> Updater \<Rightarrow> bool \<times> Updater" where
  "replaceBinary E f libPath newLibPath u =
     (if rf_exists f then (False, replace_failed E u)
      else if up_fs u libPath \<noteq> None then
        (case fs_rename (rf_backup f) libPath (backup_path libPath) (up_fs u) of
           Ret fs \<Rightarrow> install_new E f libPath newLibPath (u\<lparr>up_fs := fs\<rparr>)
         | _ \<Rightarrow> (False, replace_failed E u))
      else
        (case fs_rename (rf_install f) newLibPath libPath (up_fs u) of
           Ret fs \<Rightarrow> (True, u\<lparr>up_fs := fs\<rparr>)
         | _ \<Rightarrow> (False, replace_failed E u)))"

definition UPDATE_DIR :: string where
  "UPDATE_DIR = ''scorbit_update''"

definition temp_dir :: "BinaryInfo \<Rightarrow> string" where
  "temp_dir b = path_append (parent_path (bi_path b)) UPDATE_DIR"

definition findFile :: "(string \<times> ByteArray) list \<Rightarrow> (string \<Rightarrow> bool) \<Rightarrow> string" where
  "findFile files re = (case find (\<lambda>(p, _). re (path_filename p)) files of None \<Rightarrow> [] | Some (p, _) \<Rightarrow> p)"

definition remove_dir :: "string \<Rightarrow> file_system \<Rightarrow> file_system" where
  "remove_dir dir fs = (\<lambda>p. if p = dir \<or> starts_with p (dir @ ''/'') then None else fs p)"

definition cleanup :: "bool \<Rightarrow> string \<Rightarrow> Updater \<Rightarrow> Updater" where
  "cleanup fails dir u = (if fails then u else u\<lparr>up_fs := remove_dir dir (up_fs u)\<rparr>)"

definition update_body :: "'j update_env \<Rightarrow> update_io \<Rightarrow> string \<Rightarrow> BinaryInfo \<Rightarrow> Updater \<Rightarrow> bool \<times> Updater" where
  "update_body E io archive b u =
     (let u = u\<lparr>up_fs := up_fs u ++ map_of (io_files io)\<rparr> in
      if \<not> io_extracted io then (False, feedback (''Failed to extract archive: '' @ archive) u)
      else if io_walk_fails io then (False, feedback (''Error occurred while updating library: '' @ ue_what E) u)
      else let candidatePath = findFile (io_files io) (bi_re b) in
        if candidatePath = [] then (False, feedback ''File is not found in the archive'' u)
        else case io_canonical io candidatePath of
               None \<Rightarrow> (False, feedback (''Error occurred while updating library: '' @ ue_what E) u)
             | Some newLibPath \<Rightarrow> replaceBinary E (io_faults io) (bi_path b) newLibPath u)"

definition update :: "'j update_env \<Rightarrow> update_io \<Rightarrow> string \<Rightarrow> BinaryInfo \<Rightarrow> Updater \<Rightarrow> bool \<times> Updater" where
  "update E io archive b u =
     (let (rv, u) = update_body E io archive b u in (rv, cleanup (io_cleanup_fails io) (temp_dir b) u))"

section \<open>May it be updated?\<close>

definition isPlatformIdValid :: "string \<Rightarrow> Updater \<Rightarrow> bool \<times> Updater" where
  "isPlatformIdValid platformId u =
     (let rv = (platformId \<noteq> [] \<and> \<not> contains_sub platformId ''unknown'')
      in (rv, if rv then u else feedback (''Invalid platform ID: '' @ platformId) u))"

definition isBinaryObjectValid :: "BinaryInfo \<Rightarrow> Updater \<Rightarrow> bool \<times> Updater" where
  "isBinaryObjectValid b u =
     (let rv = bi_re b (path_filename (bi_path b))
      in (rv, if rv then u else feedback (''Binary path doesn't match the pattern, path: '' @ bi_path b) u))"

definition isEncryptedKeyValid :: "'j update_env \<Rightarrow> Updater \<Rightarrow> bool \<times> Updater" where
  "isEncryptedKeyValid E u =
     (if m_useEncryptedKey u \<and> ue_this_key E \<noteq> ue_production_key E
      then (False, feedback (''Using encrypted key, production key hash mismatch: expected ''
              @ ue_production_key E @ '', found '' @ ue_this_key E) u)
      else (True, u))"

definition isSdkVersionCompatible :: "'j update_env \<Rightarrow> string \<Rightarrow> Updater \<Rightarrow> bool \<times> Updater" where
  "isSdkVersionCompatible E newVersion u =
     (if newVersion = ue_sdk_version E then (False, u)
      else if \<not> starts_with newVersion (ue_major_minor E)
      then (False, feedback (''Version mismatch: can only update by '' @ ue_major_minor E @ ''x, found: '' @ newVersion) u)
      else (True, u))"

definition isScorbitdVersionCompatible :: "string \<Rightarrow> Updater \<Rightarrow> bool" where
  "isScorbitdVersionCompatible newVersion u \<longleftrightarrow> m_scorbitdVersion u \<noteq> [] \<and> newVersion \<noteq> m_scorbitdVersion u"

definition no_asset :: "string \<Rightarrow> Updater \<Rightarrow> Updater" where
  "no_asset plat u = feedback (''Couldn't find update file in assets for the platform: '' @ plat) u"

definition canUpdateSdk :: "'j update_env \<Rightarrow> UpdateUrl \<Rightarrow> BinaryInfo \<Rightarrow> Updater \<Rightarrow> bool \<times> Updater" where
  "canUpdateSdk E info b u =
     (case ue_exe_path E of
        None \<Rightarrow> (False, feedback (''Error in 'sdk': '' @ ue_what E) u)
      | Some exe \<Rightarrow>
          if bi_path b = exe then (False, u)
          else let (ok, u) = isPlatformIdValid (ue_platform E) u in
          if \<not> ok then (False, u)
          else if uu_url info = [] then (False, no_asset (ue_platform E) u)
          else let (ok, u) = isBinaryObjectValid b u in
          if \<not> ok then (False, u)
          else let (ok, u) = isEncryptedKeyValid E u in
          if \<not> ok then (False, u)
          else isSdkVersionCompatible E (uu_version info) u)"

definition canUpdateScorbitd :: "UpdateUrl \<Rightarrow> BinaryInfo \<Rightarrow> Updater \<Rightarrow> bool \<times> Updater" where
  "canUpdateScorbitd info b u =
     (if \<not> isScorbitdVersionCompatible (uu_version info) u then (False, u)
      else let (ok, u) = isBinaryObjectValid b u in
      if \<not> ok then (False, u)
      else let (ok, u) = isPlatformIdValid (m_scorbitdPlatformId u) u in
      if \<not> ok then (False, u)
      else if uu_url info = [] then (False, no_asset (m_scorbitdPlatformId u) u)
      else (True, u))"

section \<open>Updating\<close>

text \<open>The name of the temporary file is an input: that the system has a directory for such files is taken for granted
  (if it has none, the source throws here, with the file system still writable).\<close>

definition downloadAndupdateTgz ::
  "'j update_env \<Rightarrow> update_io \<Rightarrow> UpdateUrl \<Rightarrow> BinaryInfo \<Rightarrow> Updater \<Rightarrow> bool \<times> Updater" where
  "downloadAndupdateTgz E io info b u =
     (case io_download io of (error, message) \<Rightarrow>
        if error = Success then
          let (success, u) = update E io (io_temp_file io) b u;
              u = (if success then feedback (''Updated successfully, ver: '' @ uu_version info) u else u)
          in (success, u\<lparr>up_fs := (up_fs u)(io_temp_file io := None)\<rparr>)
        else (False, feedback (''Updater: download failed: '' @ to_string (error_code error) @ '', '' @ message) u))"

definition tryToRemountAndUpdate ::
  "'j update_env \<Rightarrow> update_io \<Rightarrow> UpdateUrl \<Rightarrow> BinaryInfo \<Rightarrow> Updater \<Rightarrow> (bool \<times> Updater) res" where
  "tryToRemountAndUpdate E io info b u =
     res_bind (fsMakeWritable (ue_mount_ok E) (io_dir io) (ue_mountinfo E) (up_mounts u)) (\<lambda>(r, cs).
       let u = u\<lparr>up_mounts := cs\<rparr> in
       if \<not> mw_ok r then Ret (False, feedback (''Failed to make filesystem writable: '' @ mw_mountPoint r) u)
       else let (ok, u) = downloadAndupdateTgz E io info b u
            in Ret (ok, u\<lparr>up_mounts := fsRemountReadOnly (ue_mount_ok E) (mw_mountPoint r) (up_mounts u)\<rparr>))"

definition section_log :: "string \<Rightarrow> 'j update_env \<Rightarrow> bool \<Rightarrow> Updater \<Rightarrow> string" where
  "section_log title E success u =
     (if m_feedback u \<noteq> [] \<or> success
      then ''----- '' @ title @ '' ----- '' @ ue_stamp E @ [CHR 0x0A, CHR 0x0A] @ m_feedback u else [])"

text \<open>The two sections. What a section throws, it throws before it changes anything but the feedback
  text, which nothing reads afterwards: \<open>Exn\<close> leaves the updater as it was before the section.\<close>

definition sdk_section :: "'j update_env \<Rightarrow> update_io \<Rightarrow> 'j \<Rightarrow> Updater \<Rightarrow> (bool \<times> string \<times> Updater) res" where
  "sdk_section E io json u =
     (case j_find_if (ue_json E) (j_is_object (ue_json E)) json ''sdk'' of
        None \<Rightarrow> Ret (False, [], u)
      | Some obj \<Rightarrow>
          res_bind (parseUrls E obj u) (\<lambda>(info, u).
          res_bind (or_exn (ue_sdk_path E)) (\<lambda>path.
            let b = \<lparr>bi_path = path, bi_re = SDK_LIBRARY_PATTERN\<rparr>;
                (can, u) = canUpdateSdk E info b u
            in res_bind (if can then tryToRemountAndUpdate E io info b u else Ret (False, u)) (\<lambda>(success, u).
                 Ret (success, section_log ''SDK'' E success u, u)))))"

definition scorbitd_section ::
  "'j update_env \<Rightarrow> update_io \<Rightarrow> bool \<Rightarrow> 'j \<Rightarrow> bool \<Rightarrow> Updater \<Rightarrow> (bool \<times> string \<times> Updater) res" where
  "scorbitd_section E io eventManager json success u =
     (case j_find_if (ue_json E) (j_is_object (ue_json E)) json ''scorbitd'' of
        None \<Rightarrow> Ret (success, [], u)
      | Some obj \<Rightarrow>
          res_bind (parseUrls E obj u) (\<lambda>(info, u).
          res_bind (or_exn (ue_exe_path E)) (\<lambda>path.
            let b = \<lparr>bi_path = path, bi_re = SCORBITD_PATTERN\<rparr>;
                (can, u) = canUpdateScorbitd info b u
            in res_bind (if can then
                           res_bind (tryToRemountAndUpdate E io info b u) (\<lambda>(ok, u).
                             Ret (ok, if ok \<and> eventManager
                                      then u\<lparr>updated_events := updated_events u @ [(uu_version info, path)]\<rparr> else u))
                         else Ret (success, u))
                 (\<lambda>(success, u). Ret (success, section_log ''scorbitd'' E success u, u)))))"

definition checkNewVersionAndUpdate ::
  "'j update_env \<Rightarrow> update_io \<Rightarrow> update_io \<Rightarrow> bool \<Rightarrow> 'j \<Rightarrow> Updater \<Rightarrow> Updater \<times> unit res" where
  "checkNewVersionAndUpdate E io io' eventManager json u =
     (if m_updateInProgress u then (u, Ret ())
      else let u = u\<lparr>m_updateInProgress := True, m_feedback := []\<rparr> in
        case sdk_section E io json u of
          Exn \<Rightarrow> (u, Exn)
        | Undef \<Rightarrow> (u, Undef)
        | Ret (success, logs, u) \<Rightarrow>
            (let u = u\<lparr>m_feedback := []\<rparr> in
             case scorbitd_section E io' eventManager json success u of
               Exn \<Rightarrow> (u, Exn)
             | Undef \<Rightarrow> (u, Undef)
             | Ret (success, logs', u) \<Rightarrow>
                 (let u = (if logs @ logs' \<noteq> []
                           then u\<lparr>config_reports := config_reports u @ [(''sdk'', ue_sdk_version E, success, logs @ logs')]\<rparr>
                           else u)
                  in (u\<lparr>m_updateInProgress := False\<rparr>, Ret ()))))"

end
