(* ===== verification/Updater_Props.thy ===== *)
theory Updater_Props
  imports Updater
begin

text \<open>
  What an update guarantees: the binary is never lost, only a matching file of a matching version is
  installed, and what is reported; and how an exception blocks every later update.
\<close>

section \<open>Frame lemmas\<close>

lemma feedback_frame [simp]:
  "up_fs (feedback t u) = up_fs u" "up_mounts (feedback t u) = up_mounts u"
  "m_updateInProgress (feedback t u) = m_updateInProgress u"
  "config_reports (feedback t u) = config_reports u" "updated_events (feedback t u) = updated_events u"
  "m_scorbitdVersion (feedback t u) = m_scorbitdVersion u"
  "m_scorbitdPlatformId (feedback t u) = m_scorbitdPlatformId u"
  "m_useEncryptedKey (feedback t u) = m_useEncryptedKey u"
  by (simp_all add: feedback_def)

lemma feedback_nonempty: "t \<noteq> [] \<Longrightarrow> m_feedback (feedback t u) \<noteq> []"
  by (simp add: feedback_def)

lemma replace_failed_frame [simp]: "up_fs (replace_failed E u) = up_fs u"
  by (simp add: replace_failed_def)

lemma backup_path_neq [simp]: "backup_path p \<noteq> p" "p \<noteq> backup_path p"
  by (simp_all add: backup_path_def)

section \<open>Replacing the binary\<close>

lemma fs_rename_Ret:
  "fs_rename fails from to fs = Ret fs' \<longleftrightarrow>
   \<not> fails \<and> (\<exists>c. fs from = Some c \<and> fs' = (if from = to then fs else (fs(to \<mapsto> c))(from := None)))"
  by (auto simp: fs_rename_def split: option.splits)

lemma fs_remove_Ret: "fs_remove fails p fs = Ret fs' \<longleftrightarrow> \<not> fails \<and> fs' = fs(p := None)"
  by (auto simp: fs_remove_def)

lemma fs_rename_not_Undef [simp]: "fs_rename fails from to fs \<noteq> Undef"
  by (auto simp: fs_rename_def split: option.splits)

lemma install_new_safe:
  assumes "replaced = install_new E f lib new u" "up_fs u (backup_path lib) = Some old"
    "up_fs u new = Some content" "new \<noteq> lib" "new \<noteq> backup_path lib"
  shows "if fst replaced then up_fs (snd replaced) = (up_fs u)(lib \<mapsto> content, new := None, backup_path lib := None)
    else up_fs (snd replaced) lib = Some old \<or> rf_restore f \<and> up_fs (snd replaced) (backup_path lib) = Some old"
proof (cases "fs_rename (rf_install f) new lib (up_fs u)")
  case (Ret fs1)
  with assms(3,4) have fs1: "fs1 = (up_fs u)(lib \<mapsto> content, new := None)" by (simp add: fs_rename_Ret)
  with assms(2,5) have old: "fs1 (backup_path lib) = Some old" by simp
  show ?thesis
  proof (cases "rf_remove f")
    case True
    with assms(1) Ret old show ?thesis
      by (auto simp: install_new_def Let_def fs_remove_def fs_rename_def)
  next
    case False
    with assms(1) Ret fs1 show ?thesis by (simp add: install_new_def Let_def fs_remove_def)
  qed
next
  case Exn
  with assms(1,2) show ?thesis
    by (auto simp: install_new_def Let_def fs_rename_def)
qed simp

text \<open>
  C28. Replacing the binary never loses it: when it reports success, the path holds the new contents, the
  downloaded file and the backup are gone and no other file is touched; when it reports failure, the
  path still holds the old contents, or, only if putting it back failed as well, the backup does.
\<close>

theorem replace_binary_safe:
  assumes "replaceBinary E f lib new u = (ok, u')" "up_fs u lib = Some old" "up_fs u new = Some content"
    "new \<noteq> lib" "new \<noteq> backup_path lib"
  shows "if ok then up_fs u' = (up_fs u)(lib \<mapsto> content, new := None, backup_path lib := None)
    else up_fs u' lib = Some old \<or> rf_restore f \<and> up_fs u' (backup_path lib) = Some old"
proof (cases "rf_exists f \<or> rf_backup f")
  case True
  then have "replaceBinary E f lib new u = (False, replace_failed E u)"
    using assms(2) by (auto simp: replaceBinary_def fs_rename_def)
  with assms(1,2) show ?thesis by auto
next
  case False
  let ?u = "u\<lparr>up_fs := (up_fs u)(backup_path lib \<mapsto> old, lib := None)\<rparr>"
  from False assms(1,2) have eq: "install_new E f lib new ?u = (ok, u')"
    by (simp add: replaceBinary_def fs_rename_def)
  from install_new_safe [OF eq [symmetric], of old content] assms(3-5) show ?thesis
    by (auto simp: fun_upd_twist fun_eq_iff split: if_splits)
qed

section \<open>What is installed\<close>

lemma replace_binary_other:
  assumes "replaceBinary E f lib new u = (ok, u')" "p \<noteq> lib" "p \<noteq> backup_path lib" "p \<noteq> new"
  shows "up_fs u' p = up_fs u p"
  using assms
  by (auto simp: replaceBinary_def install_new_def fs_rename_def fs_remove_def Let_def
      split: if_splits option.splits res.splits)

lemma replace_binary_success:
  assumes "replaceBinary E f lib new u = (True, u')"
  shows "up_fs u' lib = up_fs u new \<or> new = backup_path lib"
  using assms
  by (auto simp: replaceBinary_def install_new_def fs_rename_def fs_remove_def Let_def
      split: if_splits option.splits res.splits)

text \<open>The platforms for which an asset of the daemon may be installed.\<close>

definition platform_fits :: "string \<Rightarrow> string \<Rightarrow> bool" where
  "platform_fits plat p \<longleftrightarrow> p = plat \<or> p = without_system plat @ ''u18'' \<or> p = without_system plat @ ''u20''"

lemma read_scorbitd_asset_url:
  assumes "read_scorbitd_asset J asset info = (info', r)"
  shows "uu_version info' = uu_version info \<and>
    (uu_url info' = uu_url info \<or> (\<exists>v. j_index J asset ''download_url'' = Some v \<and> j_string J v = Some (uu_url info')))"
  using assms
  by (auto simp: read_scorbitd_asset_def Let_def or_exn_def or_undef_def
      split: option.splits res.splits if_splits)

definition asset_fits :: "'j update_env \<Rightarrow> string \<Rightarrow> string \<Rightarrow> string \<Rightarrow> 'j \<Rightarrow> bool" where
  "asset_fits E plat version url asset \<longleftrightarrow>
     (let J = ue_json E in
      (\<exists>p. j_string J asset = Some url \<and> SDK_URL_PATTERN url = Some (version, p) \<and> p = ue_platform E) \<or>
      (\<exists>p n name v. j_index J asset ''name'' = Some n \<and> j_string J n = Some name \<and>
         SCORBITD_NAME_PATTERN name = Some (version, p) \<and> platform_fits plat p \<and>
         j_index J asset ''download_url'' = Some v \<and> j_string J v = Some url))"

lemma find_asset_fits:
  "find_asset E plat assets info = (info', r) \<Longrightarrow>
   uu_version info' = uu_version info \<and>
   (uu_url info' = uu_url info \<or> (\<exists>asset \<in> set assets. asset_fits E plat (uu_version info) (uu_url info') asset))"
proof (induction assets)
  case (Cons asset assets)
  show ?case
  proof (cases "find_asset E plat assets info = (info', r)")
    case True
    with Cons.IH show ?thesis by auto
  next
    case False
    with Cons.prems show ?thesis
      by (auto simp: Let_def asset_fits_def platform_fits_def or_exn_def or_undef_def
          split: option.splits res.splits if_splits dest!: read_scorbitd_asset_url)
  qed
qed simp

lemma parent_path_length:
  assumes "p \<noteq> []"
  shows "length p \<le> length (parent_path (p @ ''/'' @ t))"
proof -
  obtain pre where "dropWhile (\<lambda>c. c \<noteq> CHR ''/'') (rev t @ CHR ''/'' # rev p) = pre @ CHR ''/'' # rev p"
  proof (cases "CHR ''/'' \<in> set t")
    case True
    then show thesis by (intro that) (simp add: dropWhile_append1)
  next
    case False
    then show thesis by (intro that [of "[]"], subst dropWhile_append2) auto
  qed
  with assms show ?thesis
    by (cases pre) (auto simp: parent_path_def split: list.splits dest: arg_cong [of _ _ length])
qed

lemma not_in_temp_dir: "\<not> starts_with (bi_path b) (temp_dir b @ ''/'')"
proof
  assume "starts_with (bi_path b) (temp_dir b @ ''/'')"
  then obtain t where t: "bi_path b = temp_dir b @ ''/'' @ t" by (auto simp: starts_with_iff)
  have "temp_dir b \<noteq> []" by (simp add: temp_dir_def path_append_def UPDATE_DIR_def)
  from parent_path_length [OF this, of t] t have "length (temp_dir b) \<le> length (parent_path (bi_path b))" by simp
  then show False by (simp add: temp_dir_def path_append_def UPDATE_DIR_def split: if_splits)
qed

section \<open>Whether and what to update\<close>

lemma checks_True:
  "isPlatformIdValid p u = (True, v) \<Longrightarrow> v = u \<and> p \<noteq> [] \<and> \<not> contains_sub p ''unknown''"
  "isBinaryObjectValid b u = (True, v) \<Longrightarrow> v = u \<and> bi_re b (path_filename (bi_path b))"
  "isEncryptedKeyValid E u = (True, v) \<Longrightarrow> v = u \<and> (m_useEncryptedKey u \<longrightarrow> ue_this_key E = ue_production_key E)"
  "isSdkVersionCompatible E ver u = (True, v) \<Longrightarrow>
     v = u \<and> ver \<noteq> ue_sdk_version E \<and> starts_with ver (ue_major_minor E)"
  by (simp_all add: isPlatformIdValid_def isBinaryObjectValid_def isEncryptedKeyValid_def
      isSdkVersionCompatible_def Let_def split: if_splits)

lemma canUpdateSdk_True:
  assumes "canUpdateSdk E info b u = (True, u')"
  shows "u' = u \<and> (\<exists>exe. ue_exe_path E = Some exe \<and> bi_path b \<noteq> exe) \<and>
    ue_platform E \<noteq> [] \<and> \<not> contains_sub (ue_platform E) ''unknown'' \<and> uu_url info \<noteq> [] \<and>
    bi_re b (path_filename (bi_path b)) \<and> (m_useEncryptedKey u \<longrightarrow> ue_this_key E = ue_production_key E) \<and>
    uu_version info \<noteq> ue_sdk_version E \<and> starts_with (uu_version info) (ue_major_minor E)"
proof -
  obtain exe where exe: "ue_exe_path E = Some exe" "bi_path b \<noteq> exe"
    using assms by (auto simp: canUpdateSdk_def split: option.splits if_splits)
  obtain v1 where v1: "isPlatformIdValid (ue_platform E) u = (True, v1)" "uu_url info \<noteq> []"
    using assms exe by (auto simp: canUpdateSdk_def split: prod.splits if_splits)
  obtain v2 where v2: "isBinaryObjectValid b v1 = (True, v2)"
    using assms exe v1 by (auto simp: canUpdateSdk_def split: prod.splits if_splits)
  obtain v3 where v3: "isEncryptedKeyValid E v2 = (True, v3)"
    using assms exe v1 v2 by (auto simp: canUpdateSdk_def split: prod.splits if_splits)
  have "isSdkVersionCompatible E (uu_version info) v3 = (True, u')"
    using assms exe v1 v2 v3 by (simp add: canUpdateSdk_def)
  from checks_True(4) [OF this] checks_True(1) [OF v1(1)] checks_True(2) [OF v2] checks_True(3) [OF v3] exe v1(2)
  show ?thesis by simp
qed

lemma parse_failed_frame [simp]:
  "up_fs (parse_failed E obj u) = up_fs u" "m_useEncryptedKey (parse_failed E obj u) = m_useEncryptedKey u"
  by (simp_all add: parse_failed_def)

lemma parseUrls_cases:
  assumes "parseUrls E obj u = Ret (info, u')"
  obtains r where "read_urls E (m_scorbitdPlatformId u) obj = (info, r)" "u' = u \<or> u' = parse_failed E obj u"
proof (cases "read_urls E (m_scorbitdPlatformId u) obj")
  case (Pair i r)
  with assms have "i = info \<and> (u' = u \<or> u' = parse_failed E obj u)"
    by (cases r) (simp_all add: parseUrls_def)
  with Pair show ?thesis by (intro that [of r]) simp_all
qed

lemma read_urls_cases:
  assumes "read_urls E plat obj = (info, r)"
  obtains "uu_url info = []"
  | v assets where "j_index (ue_json E) obj ''assets_json'' = Some assets"
      "find_asset E plat (j_elements (ue_json E) assets) (UpdateUrl_new\<lparr>uu_version := v\<rparr>) = (info, r)"
proof (cases "res_bind (or_undef (j_index (ue_json E) obj ''version'')) (\<lambda>v. or_exn (j_string (ue_json E) v))")
  case (Ret v)
  with assms that show ?thesis
    by (cases "j_index (ue_json E) obj ''assets_json''") (auto simp: read_urls_def UpdateUrl_new_def)
qed (use assms that in \<open>auto simp: read_urls_def UpdateUrl_new_def\<close>)

lemma parseUrls_fits:
  assumes "parseUrls E obj u = Ret (info, u')" "uu_url info \<noteq> []"
  shows "\<exists>assets asset. j_index (ue_json E) obj ''assets_json'' = Some assets \<and>
    asset \<in> set (j_elements (ue_json E) assets) \<and>
    asset_fits E (m_scorbitdPlatformId u) (uu_version info) (uu_url info) asset"
proof -
  from assms(1) obtain r where "read_urls E (m_scorbitdPlatformId u) obj = (info, r)"
    by (rule parseUrls_cases)
  then obtain v assets where a: "j_index (ue_json E) obj ''assets_json'' = Some assets"
    "find_asset E (m_scorbitdPlatformId u) (j_elements (ue_json E) assets) (UpdateUrl_new\<lparr>uu_version := v\<rparr>) = (info, r)"
    by (rule read_urls_cases) (use assms(2) in simp)
  from find_asset_fits [OF a(2)] a(1) assms(2) show ?thesis by (auto simp: UpdateUrl_new_def)
qed

lemma findFile_Some:
  assumes "findFile files re \<noteq> []"
  shows "re (path_filename (findFile files re)) \<and> findFile files re \<in> fst ` set files"
proof -
  obtain p c where f: "find (\<lambda>(p, _). re (path_filename p)) files = Some (p, c)"
    using assms by (cases "find (\<lambda>(p, _). re (path_filename p)) files") (auto simp: findFile_def)
  then have "(p, c) \<in> set files" "re (path_filename p)" by (auto simp: find_Some_iff in_set_conv_nth)
  with f show ?thesis by (force simp: findFile_def)
qed

lemma path_filename_append:
  assumes "CHR ''/'' \<notin> set q"
  shows "path_filename (path_append p q) = q"
proof -
  have all: "\<forall>x \<in> set (rev q). x \<noteq> CHR ''/''" using assms by auto
  have slash: "takeWhile (\<lambda>c. c \<noteq> CHR ''/'') (rev q @ CHR ''/'' # r) = rev q" for r
    using all by (subst takeWhile_append2) simp_all
  have none: "takeWhile (\<lambda>c. c \<noteq> CHR ''/'') (rev q) = rev q" using all by (simp only: takeWhile_eq_all_conv)
  show ?thesis
  proof (cases "p = [] \<or> last p = CHR ''/''")
    case True
    then show ?thesis
      by (cases p rule: rev_cases) (simp_all add: path_filename_def path_append_def none slash)
  qed (simp add: path_filename_def path_append_def slash)
qed

lemma path_filename_temp_dir: "path_filename (temp_dir b) = UPDATE_DIR"
  unfolding temp_dir_def by (rule path_filename_append) (simp add: UPDATE_DIR_def)

lemma update_success:
  assumes "update E io archive b u = (True, u')" "path_filename (bi_path b) \<noteq> UPDATE_DIR"
  shows "\<exists>new. io_canonical io (findFile (io_files io) (bi_re b)) = Some new \<and>
    findFile (io_files io) (bi_re b) \<noteq> [] \<and>
    (up_fs u' (bi_path b) = (up_fs u ++ map_of (io_files io)) new \<or> new = backup_path (bi_path b))"
proof -
  obtain v where v: "update_body E io archive b u = (True, v)" "u' = cleanup (io_cleanup_fails io) (temp_dir b) v"
    using assms(1) by (auto simp: update_def Let_def split: prod.splits)
  have "bi_path b \<noteq> temp_dir b" using assms(2) path_filename_temp_dir [of b] by auto
  then have "up_fs u' (bi_path b) = up_fs v (bi_path b)"
    using not_in_temp_dir [of b] by (simp add: v(2) cleanup_def remove_dir_def)
  with v(1) show ?thesis
    by (auto simp: update_body_def Let_def split: if_splits option.splits dest!: replace_binary_success)
qed

lemma download_success:
  assumes "downloadAndupdateTgz E io info b u = (True, u')" "path_filename (bi_path b) \<noteq> UPDATE_DIR"
    "io_temp_file io \<noteq> bi_path b"
  shows "\<exists>new. io_canonical io (findFile (io_files io) (bi_re b)) = Some new \<and>
    findFile (io_files io) (bi_re b) \<noteq> [] \<and>
    (up_fs u' (bi_path b) = (up_fs u ++ map_of (io_files io)) new \<or> new = backup_path (bi_path b))"
proof -
  obtain v where v: "update E io (io_temp_file io) b u = (True, v)" "up_fs u' (bi_path b) = up_fs v (bi_path b)"
    using assms(1,3) by (auto simp: downloadAndupdateTgz_def Let_def split: prod.splits if_splits)
  from update_success [OF v(1) assms(2)] v(2) show ?thesis by simp
qed

lemma remount_success:
  assumes "tryToRemountAndUpdate E io info b u = Ret (True, u')" "path_filename (bi_path b) \<noteq> UPDATE_DIR"
    "io_temp_file io \<noteq> bi_path b"
  shows "\<exists>new. io_canonical io (findFile (io_files io) (bi_re b)) = Some new \<and>
    findFile (io_files io) (bi_re b) \<noteq> [] \<and>
    (up_fs u' (bi_path b) = (up_fs u ++ map_of (io_files io)) new \<or> new = backup_path (bi_path b))"
proof -
  obtain v cs where v: "downloadAndupdateTgz E io info b (u\<lparr>up_mounts := cs\<rparr>) = (True, v)" "up_fs u' = up_fs v"
    using assms(1)
    by (auto simp: tryToRemountAndUpdate_def res_bind_Ret Let_def split: prod.splits if_splits)
  from download_success [OF v(1) assms(2,3)] v(2) show ?thesis by simp
qed

lemma sdk_pattern_not_update_dir: "\<not> SDK_LIBRARY_PATTERN UPDATE_DIR"
  by code_simp

text \<open>
  C29. What an SDK update installs: when the SDK section reports success, the release names another version
  of the same major and minor number, the library was built for a known platform, one of the release's assets
  carries that version for this platform with a download address, the library is not part of the executable and its file is named like the library, the keys agree, and the
  library's path holds the first file of the archive with such a name.
\<close>

theorem sdk_update_checked:
  assumes "sdk_section E io json u = Ret (True, log, u')" "ue_sdk_path E = Some path" "io_temp_file io \<noteq> path"
  shows "\<exists>obj assets asset version url new.
    j_find (ue_json E) json ''sdk'' = Some obj \<and>
    j_index (ue_json E) obj ''assets_json'' = Some assets \<and> asset \<in> set (j_elements (ue_json E) assets) \<and>
    asset_fits E (m_scorbitdPlatformId u) version url asset \<and>
    url \<noteq> [] \<and> ue_platform E \<noteq> [] \<and> \<not> contains_sub (ue_platform E) ''unknown'' \<and>
    version \<noteq> ue_sdk_version E \<and> starts_with version (ue_major_minor E) \<and>
    ue_exe_path E \<noteq> Some path \<and> SDK_LIBRARY_PATTERN (path_filename path) \<and>
    (m_useEncryptedKey u \<longrightarrow> ue_this_key E = ue_production_key E) \<and>
    io_canonical io (findFile (io_files io) SDK_LIBRARY_PATTERN) = Some new \<and>
    SDK_LIBRARY_PATTERN (path_filename (findFile (io_files io) SDK_LIBRARY_PATTERN)) \<and>
    (up_fs u' path = (up_fs u ++ map_of (io_files io)) new \<or> new = backup_path path)"
proof -
  let ?b = "\<lparr>bi_path = path, bi_re = SDK_LIBRARY_PATTERN\<rparr>"
  obtain obj where obj: "j_find_if (ue_json E) (j_is_object (ue_json E)) json ''sdk'' = Some obj"
    using assms(1) by (auto simp: sdk_section_def split: option.splits)
  obtain info v where p: "parseUrls E obj u = Ret (info, v)"
    and rest: "(let (can, w) = canUpdateSdk E info ?b v
      in res_bind (if can then tryToRemountAndUpdate E io info ?b w else Ret (False, w)) (\<lambda>(success, u).
           Ret (success, section_log ''SDK'' E success u, u))) = Ret (True, log, u')"
    using assms(1,2) obj by (auto simp: sdk_section_def res_bind_Ret Let_def)
  obtain can w where cw: "canUpdateSdk E info ?b v = (can, w)" by fastforce
  with rest have can: "canUpdateSdk E info ?b v = (True, w)"
    and upd: "tryToRemountAndUpdate E io info ?b w = Ret (True, u')"
    by (auto simp: res_bind_Ret split: if_splits)
  note c = canUpdateSdk_True [OF can]
  have frame: "up_fs v = up_fs u" "m_useEncryptedKey v = m_useEncryptedKey u"
    using p by (auto elim!: parseUrls_cases)
  have "path_filename path \<noteq> UPDATE_DIR" using c sdk_pattern_not_update_dir by auto
  with remount_success [OF upd] assms(3) obtain new where
    n: "io_canonical io (findFile (io_files io) SDK_LIBRARY_PATTERN) = Some new"
      "findFile (io_files io) SDK_LIBRARY_PATTERN \<noteq> []"
      "up_fs u' path = (up_fs w ++ map_of (io_files io)) new \<or> new = backup_path path" by auto
  from parseUrls_fits [OF p] c obtain assets asset where
    "j_index (ue_json E) obj ''assets_json'' = Some assets" "asset \<in> set (j_elements (ue_json E) assets)"
    "asset_fits E (m_scorbitdPlatformId u) (uu_version info) (uu_url info) asset" by auto
  moreover have "j_find (ue_json E) json ''sdk'' = Some obj"
    using obj by (auto simp: j_find_if_def split: option.splits if_splits)
  moreover have "ue_exe_path E \<noteq> Some path" "m_useEncryptedKey u \<longrightarrow> ue_this_key E = ue_production_key E"
    "SDK_LIBRARY_PATTERN (path_filename path)" "up_fs w = up_fs u"
    using c frame by auto
  moreover have "uu_url info \<noteq> []" "ue_platform E \<noteq> []" "\<not> contains_sub (ue_platform E) ''unknown''" using c by blast+
  moreover have "uu_version info \<noteq> ue_sdk_version E" "starts_with (uu_version info) (ue_major_minor E)"
    using c by simp_all
  moreover have "up_fs u' path = (up_fs u ++ map_of (io_files io)) new \<or> new = backup_path path"
    using n(3) \<open>up_fs w = up_fs u\<close> by simp
  moreover note n(1) findFile_Some [OF n(2), THEN conjunct1]
  ultimately show ?thesis by (intro exI conjI) assumption+
qed

section \<open>Failures\<close>

abbreviation busy :: "Updater \<Rightarrow> bool" where
  "busy \<equiv> m_updateInProgress"

lemma replaceBinary_busy: "replaceBinary E f lib new u = (ok, u') \<Longrightarrow> busy u' = busy u"
  by (auto simp: replaceBinary_def install_new_def replace_failed_def Let_def split: if_splits res.splits)

lemma update_busy: "update E io archive b u = (ok, u') \<Longrightarrow> busy u' = busy u"
  by (auto simp: update_def update_body_def cleanup_def Let_def
      split: if_splits prod.splits option.splits dest!: replaceBinary_busy)

lemma download_busy: "downloadAndupdateTgz E io info b u = (ok, u') \<Longrightarrow> busy u' = busy u"
  by (auto simp: downloadAndupdateTgz_def Let_def split: if_splits prod.splits dest!: update_busy)

lemma remount_busy: "tryToRemountAndUpdate E io info b u = Ret (ok, u') \<Longrightarrow> busy u' = busy u"
  by (auto simp: tryToRemountAndUpdate_def res_bind_Ret Let_def split: if_splits prod.splits dest!: download_busy)

lemma checks_busy:
  "busy (snd (isPlatformIdValid p u)) = busy u" "busy (snd (isBinaryObjectValid b u)) = busy u"
  "busy (snd (isEncryptedKeyValid E u)) = busy u" "busy (snd (isSdkVersionCompatible E ver u)) = busy u"
  by (simp_all add: isPlatformIdValid_def isBinaryObjectValid_def isEncryptedKeyValid_def
      isSdkVersionCompatible_def Let_def)

lemma can_busy: "busy (snd (canUpdateSdk E info b u)) = busy u"
  by (simp add: canUpdateSdk_def no_asset_def checks_busy case_prod_beta Let_def split: option.split)

lemma parse_busy: "parseUrls E obj u = Ret (info, u') \<Longrightarrow> busy u' = busy u"
  by (auto elim!: parseUrls_cases simp: parse_failed_def)

lemma sdk_section_busy:
  assumes "sdk_section E io json u = Ret (ok, log, u')"
  shows "busy u' = busy u"
proof (cases "j_find_if (ue_json E) (j_is_object (ue_json E)) json ''sdk''")
  case None
  with assms show ?thesis by (simp add: sdk_section_def)
next
  case (Some obj)
  with assms obtain info v path where p: "parseUrls E obj u = Ret (info, v)"
    and rest: "(let (can, w) = canUpdateSdk E info \<lparr>bi_path = path, bi_re = SDK_LIBRARY_PATTERN\<rparr> v
      in res_bind (if can then tryToRemountAndUpdate E io info \<lparr>bi_path = path, bi_re = SDK_LIBRARY_PATTERN\<rparr> w
                   else Ret (False, w)) (\<lambda>(success, u).
           Ret (success, section_log ''SDK'' E success u, u))) = Ret (ok, log, u')"
    by (auto simp: sdk_section_def res_bind_Ret Let_def)
  then have "busy u' = busy v"
    using can_busy [of E info "\<lparr>bi_path = path, bi_re = SDK_LIBRARY_PATTERN\<rparr>" v]
    by (auto simp: res_bind_Ret split: if_splits prod.splits dest!: remount_busy)
  with parse_busy [OF p] show ?thesis by simp
qed

text \<open>
  An exception disables updating: when looking at a release throws, which happens when the mount
  table cannot be read or names no mount point for the library, the updater stays marked as busy, and
  from then on every release is ignored.
\<close>

theorem exception_disables_updates:
  assumes "checkNewVersionAndUpdate E io io' em json u = (u', Exn)"
  shows "m_updateInProgress u' \<and> checkNewVersionAndUpdate E2 io2 io2' em2 json2 u' = (u', Ret ())"
proof -
  have "\<not> m_updateInProgress u" using assms by (auto simp: checkNewVersionAndUpdate_def)
  with assms have "m_updateInProgress u'"
    by (auto simp: checkNewVersionAndUpdate_def Let_def split: res.splits prod.splits dest: sdk_section_busy)
  then show ?thesis by (simp add: checkNewVersionAndUpdate_def)
qed

section \<open>A release\<close>

definition no_faults :: replace_faults where
  "no_faults = \<lparr>rf_exists = False, rf_backup = False, rf_install = False, rf_remove = False, rf_restore = False\<rparr>"

definition sample_updater :: Updater where
  "sample_updater =
     \<lparr>m_updateInProgress = False, m_useEncryptedKey = False, m_scorbitdVersion = ''1.0.0'', m_scorbitdPlatformId = ''u20'',
      m_feedback = [], up_fs = [''/l/libscorbit_sdk.so'' \<mapsto> [1]], up_mounts = [], config_reports = [], updated_events = []\<rparr>"

definition sample_io :: update_io where
  "sample_io =
     \<lparr>io_download = (Success, []), io_temp_file = ''/tmp/x.tar.gz'', io_extracted = True,
      io_files = [(''/l/scorbit_update/libscorbit_sdk.so'', [2])], io_walk_fails = False,
      io_canonical = Some, io_faults = no_faults, io_cleanup_fails = False, io_dir = Some ''/l''\<rparr>"

definition sample_update_env :: "jval update_env" where
  "sample_update_env =
     \<lparr>ue_json = jval_api, ue_what = ''what'', ue_sdk_version = ''1.2.3'', ue_major_minor = ''1.2.'', ue_platform = ''u20'',
      ue_this_key = [], ue_production_key = [], ue_sdk_path = Some ''/l/libscorbit_sdk.so'', ue_exe_path = Some ''/l/game'',
      ue_stamp = [], ue_mountinfo = Some [''1 1 8:1 / / rw - ext4 /dev/sda1 rw''], ue_mount_ok = (\<lambda>_ _. True)\<rparr>"

definition sample_release :: jval where
  "sample_release =
     JObj [(''sdk'', JObj [(''version'', JStr ''1.2.4''),
                          (''assets_json'', JArr [JStr ''https://h/scorbit_sdk-1.2.4-u20.tgz''])])]"

lemma sample_sdk_section:
  "\<exists>log u'. sdk_section sample_update_env sample_io sample_release sample_updater = Ret (True, log, u')"
proof -
  have "(case sdk_section sample_update_env sample_io sample_release sample_updater of
      Ret (ok, log, u) \<Rightarrow> ok | _ \<Rightarrow> False) = True"
    by code_simp
  then show ?thesis by (auto split: res.splits)
qed

theorem sdk_update_checked_witness:
  "\<exists>log u' version. sdk_section sample_update_env sample_io sample_release sample_updater = Ret (True, log, u') \<and>
     starts_with version ''1.2.'' \<and> version \<noteq> ''1.2.3'' \<and>
     up_fs u' ''/l/libscorbit_sdk.so'' = Some [2]"
proof -
  obtain log u' where r: "sdk_section sample_update_env sample_io sample_release sample_updater = Ret (True, log, u')"
    using sample_sdk_section by blast
  have f: "findFile (io_files sample_io) SDK_LIBRARY_PATTERN = ''/l/scorbit_update/libscorbit_sdk.so''"
    by code_simp
  have "io_temp_file sample_io \<noteq> ''/l/libscorbit_sdk.so''" by (simp add: sample_io_def)
  with sdk_update_checked [OF r _ this] obtain version new where
    "starts_with version ''1.2.''" "version \<noteq> ''1.2.3''"
    "io_canonical sample_io (findFile (io_files sample_io) SDK_LIBRARY_PATTERN) = Some new"
    "up_fs u' ''/l/libscorbit_sdk.so'' = (up_fs sample_updater ++ map_of (io_files sample_io)) new \<or>
     new = backup_path ''/l/libscorbit_sdk.so''"
    by (auto simp: sample_update_env_def)
  with r f show ?thesis
    by (auto simp: sample_io_def backup_path_def)
qed

definition no_mounts_env :: "jval update_env" where
  "no_mounts_env = sample_update_env\<lparr>ue_mountinfo := None\<rparr>"

theorem exception_disables_updates_witness:
  "\<exists>u'. checkNewVersionAndUpdate no_mounts_env sample_io sample_io True sample_release sample_updater = (u', Exn) \<and>
     checkNewVersionAndUpdate sample_update_env sample_io sample_io True sample_release u' = (u', Ret ())"
proof -
  have "(case snd (checkNewVersionAndUpdate no_mounts_env sample_io sample_io True sample_release sample_updater) of
      Exn \<Rightarrow> True | _ \<Rightarrow> False) = True"
    by code_simp
  then obtain u' where "checkNewVersionAndUpdate no_mounts_env sample_io sample_io True sample_release sample_updater = (u', Exn)"
    by (cases "checkNewVersionAndUpdate no_mounts_env sample_io sample_io True sample_release sample_updater")
      (auto split: res.splits)
  with exception_disables_updates [OF this, of sample_update_env sample_io sample_io True sample_release]
  show ?thesis by blast
qed

text \<open>
  A failed update can be reported as installed: when the SDK's update fails and the daemon's succeeds,
  the report names the SDK, its version, and says that it was installed.
\<close>

definition both_release :: jval where
  "both_release =
     JObj [(''sdk'', JObj [(''version'', JStr ''1.2.4''), (''assets_json'', JArr [])]),
           (''scorbitd'', JObj [(''version'', JStr ''1.0.1''),
              (''assets_json'', JArr [JObj [(''name'', JStr ''scorbitd-1.0.1-u20.tgz''),
                 (''download_url'', JStr ''https://h''), (''content_type'', JStr ''t''), (''size'', JInt 1)]])])]"

definition daemon_io :: update_io where
  "daemon_io = sample_io\<lparr>io_files := [(''/l/scorbit_update/scorbitd'', [3])]\<rparr>"

definition daemon_env :: "jval update_env" where
  "daemon_env = sample_update_env\<lparr>ue_exe_path := Some ''/l/scorbitd''\<rparr>"

theorem sdk_failure_reported_installed:
  "(case sdk_section daemon_env sample_io both_release sample_updater of Ret (ok, _, _) \<Rightarrow> \<not> ok | _ \<Rightarrow> False) \<and>
   map (\<lambda>(type, version, installed, _). (type, version, installed))
     (config_reports (fst (checkNewVersionAndUpdate daemon_env sample_io daemon_io True both_release
        (sample_updater\<lparr>up_fs := [''/l/scorbitd'' \<mapsto> [1]]\<rparr>)))) = [(''sdk'', ''1.2.3'', True)]"
  by code_simp

theorem replace_binary_safe_witness:
  "\<exists>u'. replaceBinary sample_update_env (no_faults\<lparr>rf_remove := True\<rparr>) ''/l/libscorbit_sdk.so'' ''/new''
       (sample_updater\<lparr>up_fs := [''/l/libscorbit_sdk.so'' \<mapsto> [1], ''/new'' \<mapsto> [2]]\<rparr>) = (False, u') \<and>
     up_fs u' ''/l/libscorbit_sdk.so'' = Some [1]"
proof -
  let ?u = "sample_updater\<lparr>up_fs := [''/l/libscorbit_sdk.so'' \<mapsto> [1], ''/new'' \<mapsto> [2]]\<rparr>"
  obtain ok u' where r: "replaceBinary sample_update_env (no_faults\<lparr>rf_remove := True\<rparr>) ''/l/libscorbit_sdk.so'' ''/new'' ?u = (ok, u')"
    by fastforce
  then have "\<not> ok"
    by (auto simp: replaceBinary_def install_new_def no_faults_def fs_rename_def fs_remove_def backup_path_def Let_def)
  with replace_binary_safe [OF r, of "[1]" "[2]"] r show ?thesis
    by (auto simp: no_faults_def backup_path_def)
qed

end
