(* ===== verification/Wire_Util.thy ===== *)
theory Wire_Util
  imports Bytes "HOL-Library.Sublist"
begin

text \<open>
  \<^verbatim>\<open>libs/nfc/include/nfc/Util.h\<close>: the helpers that the code for the probes shares. Numbers in
  little-endian byte order (reading outside the buffer gives 0, writing outside fails and leaves the buffer
  alone), texts that end at a zero byte, numbers read from text, hexadecimal text and the 16-bit checksum of
  the secure element. Overloads carry the width in their name.

  \<^verbatim>\<open>std::stoll\<close> and \<^verbatim>\<open>std::stoull\<close> are \<open>stoll_base\<close> and \<open>stoull_base\<close>: \<open>None\<close> where they throw, otherwise the value
  and the number of characters read. A buffer position is a natural number.
\<close>

section \<open>Numbers in a buffer\<close>

definition ReadUInt16LE :: "ByteArray \<Rightarrow> nat \<Rightarrow> 16 word" where
  "ReadUInt16LE data Pos =
     (if Pos + 2 > length data then 0
      else ucast (data ! Pos) OR push_bit 8 (ucast (data ! (Pos + 1))))"

definition ReadUInt32LE :: "ByteArray \<Rightarrow> nat \<Rightarrow> u32" where
  "ReadUInt32LE data Pos =
     (if Pos + 4 > length data then 0
      else ucast (ReadUInt16LE data Pos) OR push_bit 16 (ucast (ReadUInt16LE data (Pos + 2))))"

definition ReadUInt64LE :: "ByteArray \<Rightarrow> nat \<Rightarrow> u64" where
  "ReadUInt64LE data Pos =
     (if Pos + 8 > length data then 0
      else ucast (ReadUInt32LE data Pos) OR push_bit 32 (ucast (ReadUInt32LE data (Pos + 4))))"

definition WriteLE16 :: "ByteArray \<Rightarrow> nat \<Rightarrow> 16 word \<Rightarrow> bool \<times> ByteArray" where
  "WriteLE16 data Pos value =
     (if Pos + 2 > length data then (False, data)
      else (True, data[Pos := ucast value, Pos + 1 := ucast (drop_bit 8 value)]))"

definition WriteLE32 :: "ByteArray \<Rightarrow> nat \<Rightarrow> u32 \<Rightarrow> bool \<times> ByteArray" where
  "WriteLE32 data Pos value =
     (if Pos + 4 > length data then (False, data)
      else let data = snd (WriteLE16 data Pos (ucast value));
               data = snd (WriteLE16 data (Pos + 2) (ucast (drop_bit 16 value)))
           in (True, data))"

definition WriteLE64 :: "ByteArray \<Rightarrow> nat \<Rightarrow> u64 \<Rightarrow> bool \<times> ByteArray" where
  "WriteLE64 data Pos value =
     (if Pos + 8 > length data then (False, data)
      else let data = snd (WriteLE32 data Pos (ucast value));
               data = snd (WriteLE32 data (Pos + 4) (ucast (drop_bit 32 value)))
           in (True, data))"

definition ReadString :: "ByteArray \<Rightarrow> nat \<Rightarrow> nat \<Rightarrow> string" where
  "ReadString data Pos MaxLen =
     (if Pos \<ge> length data then []
      else let len = min MaxLen (length data - Pos);
               start = take len (drop Pos data)
           in ByteArray_string (takeWhile (\<lambda>b. b \<noteq> 0) start))"

definition ToHexString :: "ByteArray \<Rightarrow> string" where
  "ToHexString Data = concat (map (\<lambda>b.
     [''0123456789abcdef'' ! unat (drop_bit 4 b AND 0x0F), ''0123456789abcdef'' ! unat (b AND 0x0F)]) Data)"

section \<open>Numbers in text\<close>

definition LTrim :: "string \<Rightarrow> string" where
  "LTrim s = dropWhile isspace s"

definition RTrim :: "string \<Rightarrow> string" where
  "RTrim s = rev (dropWhile isspace (rev s))"

definition Trim :: "string \<Rightarrow> string" where
  "Trim s = RTrim (LTrim s)"

definition digit_in :: "nat \<Rightarrow> char \<Rightarrow> nat option" where
  "digit_in base c = (case hex_val c of Some d \<Rightarrow> if d < base then Some d else None | None \<Rightarrow> None)"

definition digits_value :: "nat \<Rightarrow> string \<Rightarrow> int" where
  "digits_value base s = foldl (\<lambda>v c. v * int base + (case digit_in base c of None \<Rightarrow> 0 | Some d \<Rightarrow> int d)) 0 s"

definition is_sign :: "char \<Rightarrow> bool" where
  "is_sign c \<longleftrightarrow> c = CHR ''+'' \<or> c = CHR ''-''"

definition hex_prefixed :: "string \<Rightarrow> bool" where
  "hex_prefixed s \<longleftrightarrow> length s > 2 \<and> s ! 0 = CHR ''0'' \<and> (s ! 1 = CHR ''x'' \<or> s ! 1 = CHR ''X'')"

text \<open>White space, a sign, a prefix in base 16, digits: whether negative, the value, the characters read.\<close>

definition strto :: "nat \<Rightarrow> string \<Rightarrow> (bool \<times> int \<times> nat) option" where
  "strto base s =
     (let t = dropWhile isspace s;
          neg = (t \<noteq> [] \<and> hd t = CHR ''-'');
          t = (if t \<noteq> [] \<and> is_sign (hd t) then tl t else t);
          t = (if base = 16 \<and> hex_prefixed t \<and> digit_in 16 (t ! 2) \<noteq> None then drop 2 t else t);
          ds = takeWhile (\<lambda>c. digit_in base c \<noteq> None) t
      in if ds = [] then None
         else Some (neg, digits_value base ds, length s - length t + length ds))"

definition stoll_base :: "nat \<Rightarrow> string \<Rightarrow> (int \<times> nat) option" where
  "stoll_base base s =
     (case strto base s of
        None \<Rightarrow> None
      | Some (neg, v, idx) \<Rightarrow>
          let i = (if neg then - v else v)
          in if - (2 ^ 63) \<le> i \<and> i < 2 ^ 63 then Some (i, idx) else None)"

definition stoull_base :: "nat \<Rightarrow> string \<Rightarrow> (int \<times> nat) option" where
  "stoull_base base s =
     (case strto base s of
        None \<Rightarrow> None
      | Some (neg, v, idx) \<Rightarrow>
          if v < 2 ^ 64 then Some (if neg then (- v) mod 2 ^ 64 else v, idx) else None)"

text \<open>The value stored, \<open>None\<close> where the function returns false (and stores 0).\<close>

definition FromString_i32 :: "string \<Rightarrow> i32 option" where
  "FromString_i32 s =
     (let parse = Trim s;
          negative = (parse \<noteq> [] \<and> hd parse = CHR ''-'');
          parse = (if parse \<noteq> [] \<and> is_sign (hd parse) then tl parse else parse)
      in if parse \<noteq> [] \<and> is_sign (hd parse) then None
         else let (base, parse) = (if hex_prefixed parse then (16, drop 2 parse) else (10, parse))
              in if parse = [] then None
                 else case stoll_base base parse of
                        None \<Rightarrow> None
                      | Some (raw, idx) \<Rightarrow>
                          if idx \<noteq> length parse then None
                          else let raw = (if negative then - raw else raw)
                               in if raw < - (2 ^ 31) \<or> raw > 2 ^ 31 - 1 then None
                                  else Some (word_of_int raw))"

definition unsigned_from :: "int \<Rightarrow> string \<Rightarrow> int option" where
  "unsigned_from maxval s =
     (if s \<noteq> [] \<and> hd s = CHR ''-'' then None
      else let parse = (if s \<noteq> [] \<and> hd s = CHR ''+'' then tl s else s)
           in if parse \<noteq> [] \<and> is_sign (hd parse) then None
              else let (base, parse) = (if hex_prefixed parse then (16, drop 2 parse) else (10, parse))
                   in if parse = [] then None
                      else case stoull_base base parse of
                             None \<Rightarrow> None
                           | Some (raw, idx) \<Rightarrow>
                               if idx \<noteq> length parse then None
                               else if raw > maxval then None
                               else Some raw)"

definition FromString_u32 :: "string \<Rightarrow> u32 option" where
  "FromString_u32 s = map_option word_of_int (unsigned_from (2 ^ 32 - 1) s)"

definition FromString_u64 :: "string \<Rightarrow> u64 option" where
  "FromString_u64 s = map_option word_of_int (unsigned_from (2 ^ 64 - 1) s)"

section \<open>The checksum of the secure element\<close>

definition crc_bit :: "16 word \<Rightarrow> bool \<Rightarrow> 16 word" where
  "crc_bit crc data_bit =
     (let crc_bit = bit crc 15;
          crc = push_bit 1 crc
      in if data_bit \<noteq> crc_bit then crc XOR 0x8005 else crc)"

definition crc_byte :: "16 word \<Rightarrow> 8 word \<Rightarrow> 16 word" where
  "crc_byte crc b = foldl (\<lambda>crc i. crc_bit crc (bit b i)) crc [0 ..< 8]"

definition Crc16 :: "ByteArray \<Rightarrow> 16 word" where
  "Crc16 Data = foldl crc_byte 0 Data"

section \<open>What is written is read back\<close>

lemma list_split_at:
  assumes "p + n \<le> length data"
  obtains xs ys zs where "data = xs @ ys @ zs" "length xs = p" "length ys = n"
proof
  show "data = take p data @ take n (drop p data) @ drop (p + n) data"
    by (metis append_take_drop_id drop_drop add.commute)
qed (use assms in auto)

definition le16 :: "16 word \<Rightarrow> ByteArray" where
  "le16 v = [ucast v, ucast (drop_bit 8 v)]"
definition le32 :: "u32 \<Rightarrow> ByteArray" where
  "le32 v = le16 (ucast v) @ le16 (ucast (drop_bit 16 v))"
definition le64 :: "u64 \<Rightarrow> ByteArray" where
  "le64 v = le32 (ucast v) @ le32 (ucast (drop_bit 32 v))"

lemma length_le [simp]: "length (le16 a) = 2" "length (le32 b) = 4" "length (le64 c) = 8"
  by (simp_all add: le16_def le32_def le64_def)

lemma write16: "length ys = 2 \<Longrightarrow> WriteLE16 (xs @ ys @ zs) (length xs) v = (True, xs @ le16 v @ zs)"
  by (auto simp: WriteLE16_def le16_def list_update_append length_Suc_conv numeral_2_eq_2)

lemma read16: "ReadUInt16LE (xs @ le16 v @ zs) (length xs) = v"
  by (simp add: ReadUInt16LE_def le16_def nth_append)
    (rule bit_word_eqI, auto simp: bit_simps)

lemma write32:
  assumes "length ys = 4"
  shows "WriteLE32 (xs @ ys @ zs) (length xs) v = (True, xs @ le32 v @ zs)"
proof -
  obtain a b where ys: "ys = a @ b" "length a = 2" "length b = 2"
    using assms by (intro that [of "take 2 ys" "drop 2 ys"]) auto
  show ?thesis
    using write16 [OF ys(2), of xs "b @ zs" "ucast v"]
      write16 [OF ys(3), of "xs @ le16 (ucast v)" zs "ucast (drop_bit 16 v)"] ys
    by (simp add: WriteLE32_def le32_def Let_def)
qed

lemma read32: "ReadUInt32LE (xs @ le32 v @ zs) (length xs) = v"
  using read16 [of xs "ucast v" "le16 (ucast (drop_bit 16 v)) @ zs"]
    read16 [of "xs @ le16 (ucast v)" "ucast (drop_bit 16 v)" zs]
  by (simp add: ReadUInt32LE_def le32_def)
    (rule bit_word_eqI, auto simp: bit_simps)

lemma write64:
  assumes "length ys = 8"
  shows "WriteLE64 (xs @ ys @ zs) (length xs) v = (True, xs @ le64 v @ zs)"
proof -
  obtain a b where ys: "ys = a @ b" "length a = 4" "length b = 4"
    using assms by (intro that [of "take 4 ys" "drop 4 ys"]) auto
  show ?thesis
    using write32 [OF ys(2), of xs "b @ zs" "ucast v"]
      write32 [OF ys(3), of "xs @ le32 (ucast v)" zs "ucast (drop_bit 32 v)"] ys
    by (simp add: WriteLE64_def le64_def Let_def)
qed

lemma read64: "ReadUInt64LE (xs @ le64 v @ zs) (length xs) = v"
  using read32 [of xs "ucast v" "le32 (ucast (drop_bit 32 v)) @ zs"]
    read32 [of "xs @ le32 (ucast v)" "ucast (drop_bit 32 v)" zs]
  by (simp add: ReadUInt64LE_def le64_def)
    (rule bit_word_eqI, auto simp: bit_simps)

lemma read_after_write64:
  assumes "Pos + 8 \<le> length data"
  shows "ReadUInt64LE (snd (WriteLE64 data Pos v)) Pos = v"
  using assms by (elim list_split_at) (auto simp: write64 read64)


section \<open>The checksum\<close>

text \<open>
  The reflected form of the same checksum, with the register read from its other end: the alternative that
  the comment in \<^verbatim>\<open>Crc16\<close> gives.
\<close>

definition arc_bit :: "16 word \<Rightarrow> bool \<Rightarrow> 16 word" where
  "arc_bit crc b = (if b \<noteq> bit crc 0 then drop_bit 1 crc XOR 0xA001 else drop_bit 1 crc)"
definition arc_byte :: "16 word \<Rightarrow> 8 word \<Rightarrow> 16 word" where
  "arc_byte crc b = foldl (\<lambda>crc i. arc_bit crc (bit b i)) crc [0 ..< 8]"

lemma reverse_shift: "push_bit 1 (word_reverse c) = word_reverse (drop_bit 1 (c :: 16 word))"
proof (rule bit_word_eqI)
  fix n assume "n < LENGTH(16)"
  moreover have "15 - m = Suc (14 - m)" if "m < 15" for m :: nat using that by simp
  ultimately show "bit (push_bit 1 (word_reverse c)) n = bit (word_reverse (drop_bit 1 c)) n"
    unfolding bit_push_bit_iff bit_word_reverse_iff bit_drop_bit_eq comp_def
    by (cases n) (auto dest: bit_imp_le_length)
qed

lemma reverse_xor: "word_reverse (a XOR b) = word_reverse a XOR word_reverse (b :: 16 word)"
  by (rule bit_word_eqI) (auto simp: bit_simps bit_word_reverse_iff)

lemma reverse_const: "word_reverse (0xA001 :: 16 word) = 0x8005" "word_reverse (0 :: 16 word) = 0"
  by code_simp+

lemma rev_bit: "crc_bit (word_reverse c) b = word_reverse (arc_bit c b)"
  unfolding crc_bit_def arc_bit_def Let_def reverse_shift
  by (simp add: reverse_xor reverse_const bit_word_reverse_iff)

lemma rev_byte: "crc_byte (word_reverse c) x = word_reverse (arc_byte c x)"
proof -
  have "foldl (\<lambda>crc i. crc_bit crc (bit x i)) (word_reverse c) is =
    word_reverse (foldl (\<lambda>crc i. arc_bit crc (bit x i)) c is)" for "is"
    by (induction "is" arbitrary: c) (simp_all add: rev_bit)
  then show ?thesis by (simp add: crc_byte_def arc_byte_def del: upt_Suc)
qed

definition arc :: "ByteArray \<Rightarrow> 16 word" where
  "arc Data = foldl arc_byte 0 Data"
lemma Crc16_reflected: "Crc16 Data = word_reverse (arc Data)"
proof -
  have "foldl crc_byte (word_reverse c) Data = word_reverse (foldl arc_byte c Data)" for c
    by (induction Data arbitrary: c) (simp_all add: rev_byte)
  from this [of 0] show ?thesis by (simp add: Crc16_def arc_def reverse_const)
qed

lemma crc_bit_xor: "crc_bit (a XOR b) (x \<noteq> y) = crc_bit a x XOR crc_bit b y"
proof -
  have p: "push_bit 1 (a XOR b) = push_bit 1 a XOR push_bit 1 b" by (rule push_bit_xor)
  show ?thesis unfolding crc_bit_def Let_def p bit_xor_iff
    by (auto simp: ac_simps)
qed

lemma crc_byte_xor: "crc_byte (a XOR b) (x XOR y) = crc_byte a x XOR crc_byte b y"
proof -
  have "foldl (\<lambda>crc i. crc_bit crc (bit (x XOR y) i)) (a XOR b) is =
    foldl (\<lambda>crc i. crc_bit crc (bit x i)) a is XOR foldl (\<lambda>crc i. crc_bit crc (bit y i)) b is" for "is"
    by (induction "is" arbitrary: a b) (simp_all only: foldl.simps bit_xor_iff crc_bit_xor)
  then show ?thesis unfolding crc_byte_def by simp
qed

lemma xor_eq_0: "a XOR b = 0 \<longleftrightarrow> a = (b :: 'a::len word)"
  by (metis word_bw_comms(3) word_bw_lcs(3) xor_self_eq xor.right_neutral)

lemma crc_bit_zero: "crc_bit c False = 0 \<Longrightarrow> c = 0"
proof -
  assume z: "crc_bit c False = 0"
  have lost: "\<not> bit c 15" 
  proof
    assume "bit c 15"
    with z have "push_bit 1 c XOR 0x8005 = 0" unfolding crc_bit_def Let_def by simp
    then have "bit (push_bit 1 c) 0 = bit (0x8005 :: 16 word) 0" unfolding xor_eq_0 by (rule arg_cong)
    then show False unfolding bit_push_bit_iff by (simp add: bit_0)
  qed
  with z have p: "push_bit 1 c = 0" unfolding crc_bit_def Let_def by simp
  show "c = 0"
  proof (rule bit_word_eqI)
    fix n assume "n < LENGTH(16)"
    moreover have "bit (push_bit 1 c) (Suc n) = False" unfolding p by simp
    ultimately show "bit c n = bit 0 n" using lost
      unfolding bit_push_bit_iff by (cases "n = 15") auto
  qed
qed

lemma crc_byte_zero: "crc_byte c 0 = 0 \<Longrightarrow> c = 0"
proof -
  have "foldl (\<lambda>crc i. crc_bit crc (bit (0 :: 8 word) i)) c is = 0 \<Longrightarrow> c = 0" for c and "is" :: "nat list"
    by (induction "is" arbitrary: c) (auto dest: crc_bit_zero)
  then show "crc_byte c 0 = 0 \<Longrightarrow> c = 0" unfolding crc_byte_def by blast
qed

lemma crc_low_bits:
  "length xs \<le> 16 \<Longrightarrow> foldl crc_bit c xs = 0 \<Longrightarrow> n < 16 - length xs \<Longrightarrow> \<not> bit c n"
proof (induction xs arbitrary: c n)
  case (Cons x xs)
  have low: "\<not> bit (crc_bit c x) m" if "m < 16 - length xs" for m
    using Cons.IH [of "crc_bit c x" m] Cons.prems(1,2) that by simp
  have shift: "bit (push_bit 1 c) (Suc n) = bit c n"
    using Cons.prems unfolding bit_push_bit_iff by auto
  have zero: "bit (push_bit 1 c XOR 0x8005) 0" "n + 1 < 16 - length xs"
    using Cons.prems unfolding bit_xor_iff bit_push_bit_iff by (simp_all add: bit_0)
  have "crc_bit c x = push_bit 1 c \<or> crc_bit c x = push_bit 1 c XOR 0x8005"
    unfolding crc_bit_def Let_def by presburger
  with low [of 0] zero have "crc_bit c x = push_bit 1 c" by force
  then show ?case using low [of "Suc n"] shift zero(2) by simp
qed simp

lemma crc_bits_zero: "length xs \<le> 16 \<Longrightarrow> foldl crc_bit 0 xs = 0 \<Longrightarrow> True \<notin> set xs"
proof (induction xs)
  case (Cons x xs)
  have "crc_bit 0 True = 0x8005" "crc_bit 0 False = 0" by (simp_all add: crc_bit_def)
  moreover have "bit (0x8005 :: 16 word) 0" by (simp add: bit_0)
  ultimately have "x = False" using crc_low_bits [of xs "0x8005" 0] Cons.prems by (cases x) auto
  then show ?case using Cons \<open>crc_bit 0 False = 0\<close> by simp
qed simp

lemma crc_byte_first: "crc_byte 0 d = 0 \<Longrightarrow> d = 0"
proof -
  assume "crc_byte 0 d = 0"
  moreover have "foldl (\<lambda>c i. crc_bit c (bit d i)) c is = foldl crc_bit c (map (bit d) is)" for c "is"
    by (induction "is" arbitrary: c) auto
  ultimately have "True \<notin> set (map (bit d) [0 ..< 8])"
    unfolding crc_byte_def by (intro crc_bits_zero) simp_all
  then have "\<forall>n < 8. \<not> bit d n" by (auto simp del: upt_Suc)
  then show "d = 0" by (intro bit_word_eqI) simp
qed

lemma crc_foldl_inj: "foldl crc_byte a ys = foldl crc_byte b ys \<Longrightarrow> a = b"
proof (induction ys arbitrary: a b)
  case (Cons y ys)
  then have "crc_byte a y = crc_byte b y" by simp
  then have "crc_byte (a XOR b) (y XOR y) = 0" unfolding crc_byte_xor by simp
  then have "a XOR b = 0" using crc_byte_zero by simp
  then show ?case by (simp only: xor_eq_0)
qed simp

lemma Crc16_single_byte:
  "b \<noteq> b' \<Longrightarrow> Crc16 (xs @ b # ys) \<noteq> Crc16 (xs @ b' # ys)"
proof
  assume "b \<noteq> b'" "Crc16 (xs @ b # ys) = Crc16 (xs @ b' # ys)"
  then have "crc_byte (Crc16 xs) b = crc_byte (Crc16 xs) b'"
    unfolding Crc16_def by (auto dest: crc_foldl_inj)
  then have "crc_byte (Crc16 xs XOR Crc16 xs) (b XOR b') = 0" unfolding crc_byte_xor by simp
  then have "b XOR b' = 0" using crc_byte_first by simp
  with \<open>b \<noteq> b'\<close> show False by (simp only: xor_eq_0)
qed


text \<open>
  Two texts with a sign that the checks for signs do not see: white space before it, or the prefix of
  a hexadecimal number.
\<close>

lemma FromString_wraps:
  "FromString_u64 '' -5'' = Some (- 5)" "FromString_u64 ''0x-5'' = Some (- 5)"
  "FromString_u64 ''-5'' = None" "FromString_i32 ''0x-10'' = Some (- 16)"
  by code_simp+

end
