(* ===== verification/Discovery.thy ===== *)
theory Discovery
  imports Wire_Util Probes
begin

text \<open>
  \<^verbatim>\<open>libs/nfc/include/nfc/Discovery.h\<close>: how a device answers broadcasts on the local network
  (\<open>ListenerThreadProc\<close>) and how another program finds the devices (\<open>Discover\<close>).

  Packets are the bytes on the wire: \<^verbatim>\<open>htonl\<close> and \<^verbatim>\<open>htons\<close> store a number with its highest byte first. A turn of
  a loop is a value: the clock readings of the turn and what the socket delivered. The random delay before
  a reply is not modelled; the flag that stops the listener is read once per turn and once after the delay.
\<close>

definition kMaxPayloadSize :: nat where
  "kMaxPayloadSize = 1024"
definition kMagic :: u32 where
  "kMagic = 0x4E445343"
definition kVersion :: "16 word" where
  "kVersion = 1"
definition kPacketTypeDiscover :: "16 word" where
  "kPacketTypeDiscover = 1"
definition kPacketTypeResponse :: "16 word" where
  "kPacketTypeResponse = 2"

record DeviceInfo_t = DiscoveryInfo +
  IpAddress :: string

definition htons :: "16 word \<Rightarrow> ByteArray" where
  "htons w = [ucast (drop_bit 8 w), ucast w]"

definition htonl :: "u32 \<Rightarrow> ByteArray" where
  "htonl w = htons (ucast (drop_bit 16 w)) @ htons (ucast w)"

definition packet_header :: "16 word \<Rightarrow> ByteArray \<Rightarrow> ByteArray" where
  "packet_header packetType RequestId = htonl kMagic @ htons kVersion @ htons packetType @ RequestId"

definition HEADER_SIZE :: nat where
  "HEADER_SIZE = 12"

definition header_ok :: "16 word \<Rightarrow> ByteArray \<Rightarrow> bool" where
  "header_ok packetType data \<longleftrightarrow>
     take 4 data = htonl kMagic \<and> take 2 (drop 4 data) = htons kVersion \<and>
     take 2 (drop 6 data) = htons packetType"

definition header_id :: "ByteArray \<Rightarrow> ByteArray" where
  "header_id data = take 4 (drop 8 data)"

section \<open>The reply of a device\<close>

definition AppendZ :: "string \<Rightarrow> ByteArray \<times> nat \<Rightarrow> ByteArray \<times> nat" where
  "AppendZ s = (\<lambda>(buffer, pos).
     let s = takeWhile (\<lambda>c. c \<noteq> CHR 0x00) s
     in if pos \<ge> length buffer then (buffer, pos)
        else let remaining = length buffer - pos;
                 toCopy = (if length s > remaining - 1 then remaining - 1 else length s);
                 buffer = take pos buffer @ ByteArray_of_chars (take toCopy s) @ drop (pos + toCopy) buffer;
                 buffer = buffer[pos + toCopy := 0]
             in (buffer, pos + toCopy + 1))"

definition responsePayload :: "DiscoveryInfo \<Rightarrow> ByteArray" where
  "responsePayload info =
     (let buffer = replicate kMaxPayloadSize 0;
          (buffer, Pos) = AppendZ (GameName info) (buffer, 0);
          (buffer, Pos) = AppendZ (ProviderInfo info) (buffer, Pos);
          (written, buffer) = WriteLE64 buffer Pos (ProviderSerial info);
          Pos = (if written then Pos + 8 else length buffer);
          (buffer, Pos) = AppendZ (ExtraInfo info) (buffer, Pos)
      in take Pos buffer)"

text \<open>The reply to a datagram, if it is a request.\<close>

definition respond :: "DiscoveryInfo \<Rightarrow> ByteArray \<Rightarrow> ByteArray option" where
  "respond info data =
     (if length data < HEADER_SIZE then None
      else if \<not> header_ok kPacketTypeDiscover data then None
      else Some (packet_header kPacketTypeResponse (header_id data) @ responsePayload info))"

datatype received =
    NotReadable
  | ReceiveError bool
  | Datagram "string option" ByteArray

definition LISTEN_BUFFER :: nat where
  "LISTEN_BUFFER = 512"

record listen_turn =
  lt_running :: bool
  lt_received :: received
  lt_still_running :: bool

fun ListenerThreadProc :: "DiscoveryInfo \<Rightarrow> listen_turn list \<Rightarrow> ByteArray list" where
  "ListenerThreadProc info [] = []"
| "ListenerThreadProc info (t # ts) =
     (if \<not> lt_running t then []
      else case lt_received t of
             NotReadable \<Rightarrow> ListenerThreadProc info ts
           | ReceiveError retryable \<Rightarrow>
               if \<not> lt_still_running t then []
               else if retryable then ListenerThreadProc info ts
               else []
           | Datagram from_ip data \<Rightarrow>
               (case respond info (take LISTEN_BUFFER data) of
                  None \<Rightarrow> ListenerThreadProc info ts
                | Some response \<Rightarrow>
                    if \<not> lt_still_running t then []
                    else response # ListenerThreadProc info ts))"

section \<open>Looking for devices\<close>

definition ReadNextZ :: "ByteArray \<Rightarrow> nat \<Rightarrow> string \<times> nat" where
  "ReadNextZ buffer pos =
     (if pos \<ge> length buffer then ([], pos)
      else if buffer ! pos = 0 then ([], pos + 1)
      else let start = drop pos buffer;
               len = length (takeWhile (\<lambda>b. b \<noteq> 0) start)
           in if len = length start then ([], pos)
              else (ByteArray_string (take len start), pos + (len + 1)))"

definition decode_payload :: "string \<Rightarrow> ByteArray \<Rightarrow> DeviceInfo_t" where
  "decode_payload ip payload =
     (let (game, Pos) = ReadNextZ payload 0;
          (prov, Pos) = ReadNextZ payload Pos;
          serial = (if Pos + 8 \<le> length payload then ReadUInt64LE payload Pos else 0);
          Pos = Pos + 8;
          (extra, Pos) = ReadNextZ payload Pos
      in \<lparr>ProviderSerial = serial, GameName = game, ProviderInfo = prov, ExtraInfo = extra, IpAddress = ip\<rparr>)"

text \<open>The device that a datagram announces, if it is a reply to this request.\<close>

definition read_response :: "ByteArray \<Rightarrow> string option \<Rightarrow> ByteArray \<Rightarrow> DeviceInfo_t option" where
  "read_response RequestId from_ip data =
     (if length data < HEADER_SIZE then None
      else if \<not> header_ok kPacketTypeResponse data \<or> header_id data \<noteq> RequestId then None
      else case from_ip of
             None \<Rightarrow> None
           | Some ip \<Rightarrow> Some (decode_payload ip (drop HEADER_SIZE data)))"

record discover_turn =
  dt_now :: time_point
  dt_now2 :: time_point
  dt_received :: received

definition remaining_ms :: "time_point \<Rightarrow> time_point \<Rightarrow> int" where
  "remaining_ms deadline now = (deadline - now) div 1000000"

fun discover_loop :: "ByteArray \<Rightarrow> time_point \<Rightarrow> discover_turn list \<Rightarrow> string list \<Rightarrow> DeviceInfo_t list \<Rightarrow> DeviceInfo_t list" where
  "discover_loop RequestId deadline [] seenKeys devices = devices"
| "discover_loop RequestId deadline (t # ts) seenKeys devices =
     (if \<not> dt_now t < deadline then devices
      else if remaining_ms deadline (dt_now2 t) \<le> 0 then devices
      else case dt_received t of
             NotReadable \<Rightarrow> discover_loop RequestId deadline ts seenKeys devices
           | ReceiveError retryable \<Rightarrow>
               if retryable then discover_loop RequestId deadline ts seenKeys devices else devices
           | Datagram from_ip data \<Rightarrow>
               (case read_response RequestId from_ip (take (HEADER_SIZE + kMaxPayloadSize) data) of
                  None \<Rightarrow> discover_loop RequestId deadline ts seenKeys devices
                | Some info \<Rightarrow>
                    if IpAddress info \<in> set seenKeys
                    then discover_loop RequestId deadline ts seenKeys devices
                    else discover_loop RequestId deadline ts (IpAddress info # seenKeys) (devices @ [info])))"

definition discover_request :: "u32 \<Rightarrow> ByteArray" where
  "discover_request RequestId = packet_header kPacketTypeDiscover (htonl RequestId)"

text \<open>The identifier of a request: the low half of a clock, mixed with a counter.\<close>

definition request_id :: "int \<Rightarrow> u32 \<Rightarrow> u32" where
  "request_id now counter = word_of_int now XOR counter"

section \<open>Broadcast addresses\<close>

record ifaddr =
  ifa_addr :: "int option"
  ifa_up :: bool
  ifa_can_broadcast :: bool
  ifa_loopback :: bool
  ifa_broadaddr :: "u32 option"

definition AF_INET :: int where
  "AF_INET = 2"
definition INADDR_BROADCAST :: u32 where
  "INADDR_BROADCAST = 0xFFFFFFFF"

definition broadcast_of :: "ifaddr \<Rightarrow> u32 option" where
  "broadcast_of ifa =
     (if ifa_addr ifa \<noteq> Some AF_INET \<or> \<not> ifa_up ifa \<or> \<not> ifa_can_broadcast ifa \<or> ifa_loopback ifa then None
      else ifa_broadaddr ifa)"

definition GetBroadcastAddresses :: "ifaddr list option \<Rightarrow> u32 list" where
  "GetBroadcastAddresses ifaddrs =
     (let unique = (case ifaddrs of None \<Rightarrow> [] | Some ifas \<Rightarrow> sort (remdups (List.map_filter broadcast_of ifas)));
          unique = (if unique = [] then [INADDR_BROADCAST] else unique)
      in unique)"

definition PrefixLengthToMask :: "u32 \<Rightarrow> u32" where
  "PrefixLengthToMask prefixLength =
     (if prefixLength = 0 then 0
      else if prefixLength \<ge> 32 then 0xFFFFFFFF
      else push_bit (unat (32 - prefixLength)) 0xFFFFFFFF)"

text \<open>
  The search: what is sent, to which addresses, and the devices found. \<open>socket_ok\<close> and \<open>bind_ok\<close> tell whether
  the socket exists and could be bound.
\<close>

definition Discover :: "bool \<Rightarrow> bool \<Rightarrow> ifaddr list option \<Rightarrow> int \<Rightarrow> u32 \<Rightarrow> time_point \<Rightarrow> int \<Rightarrow> discover_turn list
    \<Rightarrow> (u32 \<times> ByteArray) list \<times> DeviceInfo_t list" where
  "Discover socket_ok bind_ok ifaddrs now counter start timeoutMs turns =
     (if \<not> socket_ok then ([], [])
      else if \<not> bind_ok then ([], [])
      else let RequestId = request_id now counter
           in (map (\<lambda>a. (a, discover_request RequestId)) (GetBroadcastAddresses ifaddrs),
               discover_loop (htonl RequestId) (start + milliseconds timeoutMs) turns [] []))"

definition FixedBufferToString :: "string \<Rightarrow> string" where
  "FixedBufferToString buffer = takeWhile (\<lambda>c. c \<noteq> CHR 0x00) buffer"

definition CopyStringToFixed :: "nat \<Rightarrow> string \<Rightarrow> string" where
  "CopyStringToFixed dstSize src =
     (if dstSize = 0 then []
      else let copyLen = (if length src \<ge> dstSize then dstSize - 1 else length src)
           in take copyLen src @ replicate (dstSize - copyLen) (CHR 0x00))"

definition cstr :: "string \<Rightarrow> string" where
  "cstr s = takeWhile (\<lambda>c. c \<noteq> CHR 0x00) s"

definition zstring :: "string \<Rightarrow> ByteArray" where
  "zstring s = ByteArray_of_chars s @ [0]"

lemma length_zstring [simp]: "length (zstring s) = Suc (length s)"
  by (simp add: zstring_def ByteArray_of_chars_def)

lemma cstr_no_zero: "CHR 0x00 \<notin> set (take n (cstr s))"
  by (auto simp: cstr_def dest!: in_set_takeD set_takeWhileD)

lemma AppendZ_at:
  "AppendZ s (w @ replicate (Suc k) 0, length w) =
     (w @ zstring (take k (cstr s)) @ replicate (k - length (take k (cstr s))) 0,
      length w + Suc (length (take k (cstr s))))"
proof -
  define t where "t = take k (cstr s)"
  let ?buffer = "w @ replicate (Suc k) (0 :: 8 word)"
  have room: "(length w \<ge> length ?buffer) = False" by simp
  have t: "(if length (cstr s) > length ?buffer - length w - 1 then length ?buffer - length w - 1 else length (cstr s)) = length t"
    "take (length t) (cstr s) = t" "length t \<le> k"
    by (auto simp: t_def min_def)
  have z: "drop (length t) (replicate (Suc k) (0 :: 8 word)) = 0 # replicate (k - length t) 0"
    using \<open>length t \<le> k\<close> by (metis drop_replicate Suc_diff_le replicate_Suc)
  have len: "length (ByteArray_of_chars t) = length t" by (simp add: ByteArray_of_chars_def)
  have "AppendZ s (?buffer, length w) =
      ((w @ ByteArray_of_chars t @ drop (length t) (replicate (Suc k) 0))[length w + length t := 0], length w + length t + 1)"
    unfolding AppendZ_def cstr_def [symmetric] prod.case Let_def room if_False t by simp
  then show ?thesis unfolding z t_def [symmetric] by (simp add: zstring_def list_update_append len)
qed

lemma AppendZ_full: "AppendZ s (w, length w) = (w, length w)"
  by (simp add: AppendZ_def Let_def)

lemma ReadNextZ_zstring:
  assumes "CHR 0x00 \<notin> set s"
  shows "ReadNextZ (w @ zstring s @ r) (length w) = (s, length w + Suc (length s))"
proof (cases s)
  case Nil
  then show ?thesis by (simp add: ReadNextZ_def zstring_def ByteArray_of_chars_def)
next
  case (Cons c t)
  have nz: "\<forall>b \<in> set (ByteArray_of_chars s). b \<noteq> 0"
    using assms by (auto simp: ByteArray_of_chars_def of_char_word_zero)
  then have tw: "takeWhile (\<lambda>b. b \<noteq> 0) (ByteArray_of_chars s @ 0 # r) = ByteArray_of_chars s"
    by simp
  have len: "length (ByteArray_of_chars s) = length s" by (simp add: ByteArray_of_chars_def)
  have "ByteArray_of_chars s ! 0 \<noteq> 0" using nz Cons len by (metis length_greater_0_conv list.distinct(1) nth_mem)
  then show ?thesis using Cons len
    unfolding ReadNextZ_def Let_def zstring_def append_assoc append_Cons append_Nil
    by (simp add: nth_append) (simp add: tw [unfolded Cons] string_of_chars [of "c # t"])
qed

lemma ReadNextZ_end: "length b \<le> p \<Longrightarrow> ReadNextZ b p = ([], p)"
  by (simp add: ReadNextZ_def)

section \<open>What arrives\<close>

text \<open>
  The device that arrives when this description is announced: every text ends at its first zero byte and takes
  what is left of the payload, the serial number arrives if there is room for all of it.
\<close>

definition wire_field :: "nat \<Rightarrow> string \<Rightarrow> string" where
  "wire_field n s = (if n < kMaxPayloadSize then take (kMaxPayloadSize - n - 1) (cstr s) else [])"

definition wire_after :: "nat \<Rightarrow> string \<Rightarrow> nat" where
  "wire_after n s = (if n < kMaxPayloadSize then n + length (wire_field n s) + 1 else n)"

definition on_wire :: "DiscoveryInfo \<Rightarrow> string \<Rightarrow> DeviceInfo_t" where
  "on_wire info ip =
     (let n1 = wire_after 0 (GameName info);
          n2 = wire_after n1 (ProviderInfo info);
          fits = (n2 + 8 \<le> kMaxPayloadSize)
      in \<lparr>ProviderSerial = (if fits then ProviderSerial info else 0),
          GameName = wire_field 0 (GameName info),
          ProviderInfo = wire_field n1 (ProviderInfo info),
          ExtraInfo = (if fits then wire_field (n2 + 8) (ExtraInfo info) else []),
          IpAddress = ip\<rparr>)"

definition wire_at :: "nat \<Rightarrow> string \<Rightarrow> ByteArray" where
  "wire_at n s = (if n < kMaxPayloadSize then zstring (wire_field n s) else [])"

lemma length_wire_at: "n + length (wire_at n s) = wire_after n s"
  by (simp add: wire_at_def wire_after_def)

lemma wire_at_fits: "n \<le> kMaxPayloadSize \<Longrightarrow> n + length (wire_at n s) \<le> kMaxPayloadSize"
  by (auto simp: wire_at_def wire_field_def)

lemma AppendZ_wire:
  assumes "length w \<le> kMaxPayloadSize"
  shows "AppendZ s (w @ replicate (kMaxPayloadSize - length w) 0, length w) =
    (let w' = w @ wire_at (length w) s in (w' @ replicate (kMaxPayloadSize - length w') 0, length w'))"
proof (cases "length w < kMaxPayloadSize")
  case True
  then obtain k where k: "kMaxPayloadSize = length w + Suc k" by (metis less_imp_Suc_add add_Suc_right)
  then show ?thesis using AppendZ_at [of s w k] unfolding wire_at_def wire_field_def k by simp
next
  case False
  with assms show ?thesis using AppendZ_full [of s w] by (simp add: wire_at_def)
qed

lemma ReadNextZ_wire:
  assumes "length w \<le> kMaxPayloadSize" "length w < kMaxPayloadSize \<or> r = []"
  shows "ReadNextZ (w @ wire_at (length w) s @ r) (length w) = (wire_field (length w) s, wire_after (length w) s)"
  using assms ReadNextZ_zstring [OF cstr_no_zero, of w _ s r]
  by (auto simp: wire_at_def wire_field_def wire_after_def ReadNextZ_end)

lemma responsePayload_wire:
  "responsePayload info =
     (let a = wire_at 0 (GameName info); b = wire_at (length a) (ProviderInfo info);
          n = length (a @ b)
      in if n + 8 \<le> kMaxPayloadSize then a @ b @ le64 (ProviderSerial info) @ wire_at (n + 8) (ExtraInfo info)
         else a @ b @ replicate (kMaxPayloadSize - n) 0)"
proof -
  define a where "a = wire_at 0 (GameName info)"
  define b where "b = wire_at (length a) (ProviderInfo info)"
  define N where "N = kMaxPayloadSize"
  have a: "length a \<le> N" using wire_at_fits [of 0] by (simp add: a_def N_def)
  have ab: "length (a @ b) \<le> N" using wire_at_fits [of "length a"] a by (simp add: b_def N_def)
  have 1: "AppendZ (GameName info) (replicate N 0, 0) = (a @ replicate (N - length a) 0, length a)"
    using AppendZ_wire [of "[]" "GameName info"] by (simp add: a_def N_def Let_def)
  have 2: "AppendZ (ProviderInfo info) (a @ replicate (N - length a) 0, length a) =
      ((a @ b) @ replicate (N - length (a @ b)) 0, length (a @ b))"
    using AppendZ_wire [of a "ProviderInfo info"] a by (simp add: b_def N_def Let_def)
  show ?thesis
  proof (cases "length (a @ b) + 8 \<le> N")
    case True
    then have r: "replicate (N - length (a @ b)) (0 :: 8 word) = replicate 8 0 @ replicate (N - (length (a @ b) + 8)) 0"
      by (metis add_diff_inverse_nat add.commute diff_diff_left le_add_diff_inverse2 nat_le_iff_add replicate_add not_less add_le_imp_le_diff le_add_diff_inverse)
    have 3: "WriteLE64 ((a @ b) @ replicate (N - length (a @ b)) 0) (length (a @ b)) (ProviderSerial info) =
        (True, (a @ b @ le64 (ProviderSerial info)) @ replicate (N - (length (a @ b) + 8)) 0)"
      unfolding r using write64 [of "replicate 8 0" "a @ b"] by simp
    have 4: "AppendZ (ExtraInfo info) ((a @ b @ le64 (ProviderSerial info)) @ replicate (N - (length (a @ b) + 8)) 0, length (a @ b) + 8) =
        (let w = (a @ b @ le64 (ProviderSerial info)) @ wire_at (length (a @ b) + 8) (ExtraInfo info)
         in (w @ replicate (N - length w) 0, length w))"
      using AppendZ_wire [of "a @ b @ le64 (ProviderSerial info)" "ExtraInfo info"] True by (simp add: N_def add.assoc)
    show ?thesis
      unfolding responsePayload_def Let_def N_def [symmetric] a_def [symmetric] 1 prod.case b_def [symmetric] 2 3
      using 4 True by (simp add: Let_def add.assoc)
  next
    case False
    then have 3: "WriteLE64 ((a @ b) @ replicate (N - length (a @ b)) 0) (length (a @ b)) (ProviderSerial info) =
        (False, (a @ b) @ replicate (N - length (a @ b)) 0)"
      using ab by (simp add: WriteLE64_def)
    have len: "length ((a @ b) @ replicate (N - length (a @ b)) (0 :: 8 word)) = N" using ab by simp
    show ?thesis
      unfolding responsePayload_def Let_def N_def [symmetric] a_def [symmetric] 1 prod.case b_def [symmetric] 2 3
      using False AppendZ_full [of "ExtraInfo info" "(a @ b) @ replicate (N - length (a @ b)) 0"] len by simp
  qed
qed

lemma decode_wire: "decode_payload ip (responsePayload info) = on_wire info ip"
proof -
  define a where "a = wire_at 0 (GameName info)"
  define b where "b = wire_at (length a) (ProviderInfo info)"
  have a: "length a \<le> kMaxPayloadSize" using wire_at_fits [of 0] by (simp add: a_def)
  have la: "length a = wire_after 0 (GameName info)" using length_wire_at [of 0] by (simp add: a_def)
  have lb: "length (a @ b) = wire_after (length a) (ProviderInfo info)"
    using length_wire_at [of "length a"] by (simp add: b_def)
  have first: "ReadNextZ (a @ r) 0 = (wire_field 0 (GameName info), length a)" for r
    using ReadNextZ_wire [of "[]" r "GameName info"] la by (simp add: a_def kMaxPayloadSize_def)
  have second: "ReadNextZ (a @ b @ r) (length a) = (wire_field (length a) (ProviderInfo info), length (a @ b))"
    if "length a < kMaxPayloadSize \<or> r = []" for r
    using ReadNextZ_wire [of a r "ProviderInfo info"] a that unfolding lb by (simp add: b_def)
  show ?thesis
  proof (cases "length (a @ b) + 8 \<le> kMaxPayloadSize")
    case True
    define e where "e = wire_at (length (a @ b) + 8) (ExtraInfo info)"
    define s where "s = le64 (ProviderSerial info)"
    have p: "responsePayload info = a @ b @ s @ e"
      using True unfolding responsePayload_wire Let_def a_def [symmetric] b_def [symmetric] e_def s_def by simp
    have lt: "length a < kMaxPayloadSize" using True by simp
    have ls: "length s = 8" by (simp add: s_def)
    have third: "fst (ReadNextZ (a @ b @ s @ e) (length (a @ b) + 8)) = wire_field (length (a @ b) + 8) (ExtraInfo info)"
      using ReadNextZ_wire [of "a @ b @ s" "[]" "ExtraInfo info"] True ls by (simp add: e_def add.assoc)
    have serial: "ReadUInt64LE (a @ b @ s @ e) (length (a @ b)) = ProviderSerial info"
      using read64 [of "a @ b" "ProviderSerial info" e] by (simp add: s_def)
    have len: "length (a @ b) + 8 \<le> length (a @ b @ s @ e)" using ls by simp
    show ?thesis
      unfolding p decode_payload_def first second [OF disjI1 [OF lt]] prod.case Let_def serial
      using True third len unfolding on_wire_def Let_def la [symmetric] lb [symmetric]
      by (cases "ReadNextZ (a @ b @ s @ e) (length (a @ b) + 8)") simp
  next
    case False
    define z where "z = replicate (kMaxPayloadSize - length (a @ b)) (0 :: 8 word)"
    have p: "responsePayload info = a @ b @ z"
      using False unfolding responsePayload_wire Let_def a_def [symmetric] b_def [symmetric] z_def by simp
    have lz: "length (a @ b @ z) = kMaxPayloadSize" using a wire_at_fits [of "length a" "ProviderInfo info"]
      by (simp add: z_def b_def)
    then have dj: "length a < kMaxPayloadSize \<or> z = []" using a by (cases z) auto
    have third: "ReadNextZ (a @ b @ z) (length (a @ b) + 8) = ([], length (a @ b) + 8)"
      by (rule ReadNextZ_end) (use lz False in simp)
    show ?thesis
      unfolding p decode_payload_def first second [OF dj] prod.case Let_def third
      unfolding on_wire_def Let_def la [symmetric] lb [symmetric] lz
      using False by simp
  qed
qed

lemma header_sizes: "length (htons w) = 2" "length (htonl v) = 4"
  by (simp_all add: htons_def htonl_def)

lemma packet_header_fields:
  assumes "length i = 4"
  shows "header_ok ty (packet_header ty i @ r)" "header_id (packet_header ty i @ r) = i"
    "drop HEADER_SIZE (packet_header ty i @ r) = r" "length (packet_header ty i) = HEADER_SIZE"
  using assms by (simp_all add: header_ok_def header_id_def packet_header_def header_sizes HEADER_SIZE_def)

lemma responsePayload_length: "length (responsePayload info) \<le> kMaxPayloadSize"
  using wire_at_fits [of 0 "GameName info"]
    wire_at_fits [of "length (wire_at 0 (GameName info))" "ProviderInfo info"]
    wire_at_fits [of "length (wire_at 0 (GameName info) @ wire_at (length (wire_at 0 (GameName info))) (ProviderInfo info)) + 8" "ExtraInfo info"]
  unfolding responsePayload_wire Let_def by (auto simp: add.assoc)

lemma htons_inj: "htons v = htons w \<longleftrightarrow> v = w"
proof
  assume "htons v = htons w"
  then have hi: "\<And>n. n < 8 \<Longrightarrow> bit v (8 + n) = bit w (8 + n)" and lo: "\<And>n. n < 8 \<Longrightarrow> bit v n = bit w n"
    by (auto simp: htons_def bit_eq_iff bit_simps)
  show "v = w"
  proof (rule bit_word_eqI)
    fix n assume "n < LENGTH(16)"
    then show "bit v n = bit w n" using lo [of n] hi [of "n - 8"] by (cases "n < 8") auto
  qed
qed simp

lemma htonl_inj: "htonl v = htonl w \<longleftrightarrow> v = w"
proof
  assume "htonl v = htonl w"
  then have "ucast (drop_bit 16 v) = (ucast (drop_bit 16 w) :: 16 word)" "ucast v = (ucast w :: 16 word)"
    by (auto simp: htonl_def append_eq_append_conv header_sizes htons_inj)
  then have hi: "\<And>n. n < 16 \<Longrightarrow> bit v (16 + n) = bit w (16 + n)" and lo: "\<And>n. n < 16 \<Longrightarrow> bit v n = bit w n"
    by (auto simp: bit_eq_iff bit_simps)
  show "v = w"
  proof (rule bit_word_eqI)
    fix n assume "n < LENGTH(32)"
    then show "bit v n = bit w n" using lo [of n] hi [of "n - 16"] by (cases "n < 16") auto
  qed
qed simp

text \<open>
  C38. A device that is asked gives its description, and only the one who asked takes it. The listener answers
  every request with a packet that the receiver's buffer holds; a receiver that waits for another request
  ignores it, and the receiver that sent the request reads the description as \<open>on_wire\<close> says: exactly,
  if the texts have no zero byte and fit (\<open>on_wire_exact\<close>), otherwise with its texts cut.
\<close>

theorem discovery_exchange:
  "\<exists>response. respond info (discover_request i) = Some response \<and>
     length response \<le> HEADER_SIZE + kMaxPayloadSize \<and>
     read_response (htonl j) (Some ip) response = (if i = j then Some (on_wire info ip) else None)"
proof -
  note fields = packet_header_fields [OF header_sizes(2)]
  have req: "respond info (discover_request i) = Some (packet_header kPacketTypeResponse (htonl i) @ responsePayload info)"
    using fields(1,2) [of _ _ "[]"] fields(4) by (simp add: respond_def discover_request_def)
  show ?thesis
    unfolding req using responsePayload_length [of info]
    by (simp add: read_response_def fields decode_wire htonl_inj del: drop_append)
qed

lemma cstr_id: "CHR 0x00 \<notin> set s \<Longrightarrow> cstr s = s"
  by (auto simp: cstr_def takeWhile_eq_all_conv)

lemma on_wire_exact:
  assumes "CHR 0x00 \<notin> set (GameName info)" "CHR 0x00 \<notin> set (ProviderInfo info)" "CHR 0x00 \<notin> set (ExtraInfo info)"
    and "length (GameName info) + length (ProviderInfo info) + length (ExtraInfo info) + 11 \<le> kMaxPayloadSize"
  shows "on_wire info ip = \<lparr>ProviderSerial = ProviderSerial info, GameName = GameName info,
    ProviderInfo = ProviderInfo info, ExtraInfo = ExtraInfo info, IpAddress = ip\<rparr>"
  using assms by (simp add: on_wire_def wire_field_def wire_after_def cstr_id Let_def)

section \<open>No device twice\<close>

lemma discover_loop_inv:
  assumes "discover_loop i deadline ts (rev (map IpAddress ds)) ds = ds'" "distinct (map IpAddress ds)"
  shows "distinct (map IpAddress ds') \<and>
    (\<forall>d \<in> set ds'. d \<in> set ds \<or> (\<exists>t ip data. t \<in> set ts \<and> dt_received t = Datagram ip data \<and>
       read_response i ip (take (HEADER_SIZE + kMaxPayloadSize) data) = Some d))"
  using assms
proof (induction ts arbitrary: ds)
  case (Cons t ts)
  let ?run = "discover_loop i deadline (t # ts) (rev (map IpAddress ds)) ds"
  consider (skip) "?run = discover_loop i deadline ts (rev (map IpAddress ds)) ds" | (stop) "?run = ds"
    | (found) ip data d where "dt_received t = Datagram ip data"
        "read_response i ip (take (HEADER_SIZE + kMaxPayloadSize) data) = Some d" "IpAddress d \<notin> set (map IpAddress ds)"
        "?run = discover_loop i deadline ts (rev (map IpAddress (ds @ [d]))) (ds @ [d])"
  proof (cases "dt_now t < deadline \<and> \<not> remaining_ms deadline (dt_now2 t) \<le> 0")
    case False
    then have "?run = ds" by auto
    then show ?thesis by (rule that(2))
  next
    case True
    show ?thesis
    proof (cases "dt_received t")
      case NotReadable
      with True show ?thesis by (intro that(1)) simp
    next
      case (ReceiveError r)
      with True show ?thesis by (cases r) (auto intro: that(1,2))
    next
      case (Datagram ip data)
      show ?thesis
      proof (cases "read_response i ip (take (HEADER_SIZE + kMaxPayloadSize) data)")
        case None
        with True Datagram show ?thesis by (intro that(1)) simp
      next
        case (Some d)
        with True Datagram show ?thesis
          by (cases "IpAddress d \<in> set (map IpAddress ds)") (auto intro: that(1) that(3) [OF Datagram Some])
      qed
    qed
  qed
  then show ?case
  proof cases
    case skip
    with Cons.IH Cons.prems show ?thesis by fastforce
  next
    case stop
    with Cons.prems show ?thesis by metis
  next
    case found
    with Cons.IH [of "ds @ [d]"] Cons.prems show ?thesis by fastforce
  qed
qed auto

lemma Discover_distinct: "distinct (map IpAddress (snd (Discover so bo ifs now c start ms ts)))"
  using discover_loop_inv [of _ _ _ "[]"] by (simp add: Discover_def Let_def)

lemma broadcast_somewhere: "GetBroadcastAddresses ifs \<noteq> []"
  by (simp add: GetBroadcastAddresses_def Let_def)

lemma fixed_buffer_roundtrip:
  "n \<noteq> 0 \<Longrightarrow> CHR 0x00 \<notin> set s \<Longrightarrow> FixedBufferToString (CopyStringToFixed n s) = take (n - 1) s \<and> length (CopyStringToFixed n s) = n"
  by (auto simp: FixedBufferToString_def CopyStringToFixed_def Let_def takeWhile_append takeWhile_eq_all_conv dest: in_set_takeD)

end
