(* ===== verification/Cable.thy ===== *)
theory Cable
  imports Wire_Util
begin

text \<open>
  \<^verbatim>\<open>libs/nfc/include/nfc/Cable.h\<close>: the serial cable to a probe, on Linux. Frames carry a 16-bit checksum;
  a command is sent and its reply awaited under a lock between processes.

  A serial port is what was received and not yet read, the batches that arrive before each further
  \<^verbatim>\<open>read\<close> (an empty batch where nothing arrives), what was sent, which writes succeed, and the number of
  reads so far. The system is \<open>cable_env\<close>: which locks are granted, which devices open, and the port behind
  each. A read that finds nothing costs the 10 ms of \<^verbatim>\<open>usleep\<close>.
\<close>

record port =
  pending :: ByteArray
  arrivals :: "ByteArray list"
  sent :: "ByteArray list"
  write_ok :: "ByteArray \<Rightarrow> bool"
  reads :: nat

definition port_read :: "nat \<Rightarrow> port \<Rightarrow> ByteArray \<times> port" where
  "port_read n p =
     (let available = pending p @ (case arrivals p of [] \<Rightarrow> [] | b # _ \<Rightarrow> b)
      in (take n available,
          p\<lparr>pending := drop n available, arrivals := tl (arrivals p), reads := reads p + 1\<rparr>))"

definition port_write :: "ByteArray \<Rightarrow> port \<Rightarrow> bool \<times> port" where
  "port_write buffer p = (write_ok p buffer, p\<lparr>sent := sent p @ [buffer]\<rparr>)"

section \<open>Reading and writing\<close>

definition DEFAULT_TIMEOUT_MS :: nat where
  "DEFAULT_TIMEOUT_MS = 2000"

function data_read_loop :: "nat \<Rightarrow> nat \<Rightarrow> nat \<Rightarrow> ByteArray \<Rightarrow> port \<Rightarrow> ByteArray \<times> port" where
  "data_read_loop TimeoutMs n time buffer p =
     (if n = 0 then (buffer, p)
      else let (chunk, p) = port_read n p
           in if chunk = []
              then (let time = time + 10
                    in if time \<ge> TimeoutMs then ([], p)
                       else data_read_loop TimeoutMs n time buffer p)
              else data_read_loop TimeoutMs (n - length chunk) 0 (buffer @ chunk) p)"
  by pat_completeness auto
termination
  by (relation "inv_image (less_than <*lex*> less_than) (\<lambda>(T, n, t, _). (n, T - t))")
    (auto simp: port_read_def Let_def)

declare data_read_loop.simps [simp del]

record cable =
  DeviceName :: string
  DeviceIndex :: int
  hSerial :: bool
  cable_port :: port

definition with_port :: "port \<Rightarrow> cable \<Rightarrow> cable" where
  "with_port p c = c\<lparr>cable_port := p\<rparr>"

definition DataRead :: "nat \<Rightarrow> cable \<Rightarrow> ByteArray \<times> cable" where
  "DataRead n c =
     (if \<not> hSerial c then ([], c)
      else case data_read_loop DEFAULT_TIMEOUT_MS n 0 [] (cable_port c) of (buffer, p) \<Rightarrow> (buffer, with_port p c))"

definition DataWrite :: "ByteArray \<Rightarrow> cable \<Rightarrow> bool \<times> cable" where
  "DataWrite buffer c =
     (if \<not> hSerial c then (False, c)
      else case port_write buffer (cable_port c) of (ok, p) \<Rightarrow> (ok, with_port p c))"

text \<open>Discarding what is pending before a read command, one character at a time.\<close>

function flush_input :: "port \<Rightarrow> port" where
  "flush_input p = (case port_read 1 p of (c, p) \<Rightarrow> if c = [] then p else flush_input p)"
  by pat_completeness auto
termination
  by (relation "measure (\<lambda>p. length (pending p) + length (concat (arrivals p)))")
    (auto simp: port_read_def Let_def neq_Nil_conv split: list.splits)

declare flush_input.simps [simp del]

section \<open>Frames\<close>

definition frame_sum :: "ByteArray \<Rightarrow> 16 word" where
  "frame_sum data = NOT (foldl (\<lambda>s b. s + ucast b) 0 data)"

definition AddCrc :: "ByteArray \<Rightarrow> ByteArray" where
  "AddCrc data = (let Crc = frame_sum data in data @ [ucast (Crc AND 0xff), ucast (drop_bit 8 Crc)])"

definition WaitForReply :: "nat \<Rightarrow> cable \<Rightarrow> bool \<times> ByteArray \<times> cable" where
  "WaitForReply n c =
     (let (Header, c) = DataRead 2 c
      in if length Header \<noteq> 2 then (False, [], c)
         else if Header ! 0 \<noteq> 0x04 \<or> Header ! 1 \<noteq> 0x46 then (False, [], c)
         else let (Data, c) = (if n \<noteq> 0 then DataRead n c else ([], c));
                  (Crc, c) = DataRead 2 c
              in if length Crc \<noteq> 2 then (False, Data, c)
                 else let Sum = frame_sum (Header @ Data)
                      in (ucast Sum = Crc ! 0 \<and> ucast (drop_bit 8 Sum) = Crc ! 1, Data, c))"

text \<open>The frames of the three kinds of commands.\<close>

definition command_frame :: "8 word \<Rightarrow> ByteArray" where
  "command_frame cmd = AddCrc [0x03, 0x45, cmd]"

definition write_frame :: "8 word \<Rightarrow> u32 \<Rightarrow> ByteArray \<Rightarrow> ByteArray" where
  "write_frame cmd address data =
     AddCrc ([0x03, 0x45, cmd, ucast address, ucast (drop_bit 8 address),
              word_of_nat (length data), word_of_nat (length data div 256)] @ data)"

definition read_frame :: "8 word \<Rightarrow> u32 \<Rightarrow> nat \<Rightarrow> ByteArray" where
  "read_frame cmd address n =
     AddCrc [0x03, 0x45, cmd, ucast address, ucast (drop_bit 8 address),
             word_of_nat n, word_of_nat (n div 256)]"

record cable_env =
  lock_ok :: "string \<Rightarrow> bool"
  open_ok :: "string \<Rightarrow> bool"
  port_of :: "string \<Rightarrow> port"

text \<open>A command whose reply has no data. Every call is under the lock of the device.\<close>

definition transact :: "cable_env \<Rightarrow> ByteArray \<Rightarrow> cable \<Rightarrow> bool \<times> cable" where
  "transact E frame c =
     (if \<not> lock_ok E (DeviceName c) then (False, c)
      else let (ok, c) = DataWrite frame c
           in if \<not> ok then (False, c)
              else let (ok, Data, c) = WaitForReply 0 c in (ok, c))"

definition Command :: "cable_env \<Rightarrow> 8 word \<Rightarrow> cable \<Rightarrow> bool \<times> cable" where
  "Command E cmd = transact E (command_frame cmd)"

definition CommandWrite :: "cable_env \<Rightarrow> 8 word \<Rightarrow> u32 \<Rightarrow> ByteArray \<Rightarrow> cable \<Rightarrow> bool \<times> cable" where
  "CommandWrite E cmd address data = transact E (write_frame cmd address data)"

definition CommandRead :: "cable_env \<Rightarrow> 8 word \<Rightarrow> u32 \<Rightarrow> nat \<Rightarrow> cable \<Rightarrow> ByteArray \<times> cable" where
  "CommandRead E cmd address n c =
     (if \<not> lock_ok E (DeviceName c) then ([], c)
      else let c = (if hSerial c then with_port (flush_input (cable_port c)) c else c);
               (ok, c) = DataWrite (read_frame cmd address n) c
           in if \<not> ok then ([], c)
              else let (ok, Data, c) = WaitForReply n c
                   in if \<not> ok then ([], c) else (Data, c))"

section \<open>Opening\<close>

definition cable_empty_port :: port where
  "cable_empty_port = \<lparr>pending = [], arrivals = [], sent = [], write_ok = \<lambda>_. False, reads = 0\<rparr>"

definition SerialCable_new :: cable where
  "SerialCable_new = \<lparr>DeviceName = [], DeviceIndex = - 1, hSerial = False, cable_port = cable_empty_port\<rparr>"

definition Cable_Close :: "cable \<Rightarrow> cable" where
  "Cable_Close c = (if hSerial c then c\<lparr>hSerial := False\<rparr> else c)"

definition is_decimal :: "char \<Rightarrow> bool" where
  "is_decimal c \<longleftrightarrow> c \<in> set ''0123456789''"

text \<open>The number at the end of a device name that has another character before it, \<open>None\<close> if it does not
  fit and \<^verbatim>\<open>std::stoi\<close> throws.\<close>

definition trailing_index :: "string \<Rightarrow> int \<Rightarrow> int option" where
  "trailing_index sDevice old =
     (let ds = rev (takeWhile is_decimal (rev sDevice))
      in if length ds = length sDevice \<or> ds = [] then Some old
         else case stoll_base 10 ds of
                None \<Rightarrow> None
              | Some (v, _) \<Rightarrow> if v < 2 ^ 31 then Some v else None)"

definition Cable_Initialize :: "cable_env \<Rightarrow> string \<Rightarrow> cable \<Rightarrow> (bool \<times> cable) option" where
  "Cable_Initialize E sDevice c =
     (let c = c\<lparr>DeviceName := sDevice\<rparr>
      in if \<not> lock_ok E (DeviceName c) then Some (False, c)
         else let c = (if hSerial c then Cable_Close c else c)
              in if \<not> open_ok E sDevice then Some (False, c\<lparr>hSerial := False\<rparr>)
                 else let c = c\<lparr>hSerial := True, cable_port := port_of E sDevice\<rparr>
                      in case trailing_index sDevice (DeviceIndex c) of
                           None \<Rightarrow> None
                         | Some i \<Rightarrow>
                             let c = c\<lparr>DeviceIndex := i\<rparr>;
                                 (_, c) = DataWrite [0, 0, 0, 0, 0] c
                             in Some (True, c))"

definition iFirstDevice :: nat where
  "iFirstDevice = 0"
definition iLastDevice :: nat where
  "iLastDevice = 6"

definition tty_name :: "int \<Rightarrow> string" where
  "tty_name i = ''/dev/ttyACM'' @ to_string i"

fun first_tty :: "cable_env \<Rightarrow> nat list \<Rightarrow> cable \<Rightarrow> (bool \<times> cable) option" where
  "first_tty E [] c = Some (False, c)"
| "first_tty E (i # is) c =
     (case Cable_Initialize E (tty_name (int i)) c of
        None \<Rightarrow> None
      | Some (ok, c) \<Rightarrow> if ok then Some (True, c) else first_tty E is c)"

definition Cable_Initialize_index :: "cable_env \<Rightarrow> int \<Rightarrow> cable \<Rightarrow> (bool \<times> cable) option" where
  "Cable_Initialize_index E iDevice c =
     (let c = c\<lparr>DeviceIndex := iDevice\<rparr>
      in if iDevice \<ge> 0 then Cable_Initialize E (tty_name iDevice) c
         else first_tty E [iFirstDevice ..< iLastDevice] c)"

section \<open>Replies\<close>

definition port_stream :: "port \<Rightarrow> ByteArray" where
  "port_stream p = pending p @ concat (arrivals p)"

text \<open>No more than \<open>k\<close> empty batches now, and never more than 199, one after the other.\<close>

fun steady :: "nat \<Rightarrow> ByteArray list \<Rightarrow> bool" where
  "steady k [] = True"
| "steady k (b # bs) = (if b = [] then k > 0 \<and> steady (k - 1) bs else steady 199 bs)"

lemma steady_mono: "steady k bs \<Longrightarrow> k \<le> l \<Longrightarrow> steady l bs"
proof (induction bs arbitrary: k l)
  case (Cons b bs)
  then show ?case using Cons.IH [of "k - 1" "l - 1"] by (auto split: if_splits)
qed simp

lemma port_read_stream:
  "port_read n p = (chunk, p') \<Longrightarrow>
     port_stream p = chunk @ port_stream p' \<and> length chunk \<le> n \<and> reads p' = Suc (reads p)"
proof -
  assume r: "port_read n p = (chunk, p')"
  define available where "available = pending p @ (case arrivals p of [] \<Rightarrow> [] | b # _ \<Rightarrow> b)"
  have "port_stream p = available @ concat (tl (arrivals p))"
    by (simp add: port_stream_def available_def split: list.split)
  moreover have "chunk = take n available" "p' = p\<lparr>pending := drop n available, arrivals := tl (arrivals p), reads := reads p + 1\<rparr>"
    using r by (simp_all add: port_read_def Let_def available_def)
  ultimately show ?thesis by (simp add: port_stream_def)
qed

lemma steady_tl: "steady k (arrivals p) \<Longrightarrow> k \<le> 199 \<Longrightarrow> steady 199 (tl (arrivals p))"
  by (cases "arrivals p") (auto split: if_splits intro: steady_mono)

lemma data_read_stream:
  assumes "n \<le> length (port_stream p)" "steady k (arrivals p)" "k \<le> 199" "t + 10 * k \<le> 1990"
  shows "\<exists>p'. data_read_loop 2000 n t buffer p = (buffer @ take n (port_stream p), p') \<and>
    port_stream p' = drop n (port_stream p) \<and> steady 199 (arrivals p')"
  using assms
proof (induction "2000 :: nat" n t buffer p arbitrary: k rule: data_read_loop.induct)
  case (1 n t buffer p)
  show ?case
  proof (cases "n = 0")
    case True
    with "1.prems" show ?thesis by (auto simp: data_read_loop.simps intro: steady_mono)
  next
    case n: False
    obtain chunk q where r: "port_read n p = (chunk, q)" by fastforce
    note s = port_read_stream [OF r]
    have tl: "arrivals q = tl (arrivals p)" using r by (auto simp: port_read_def Let_def)
    show ?thesis
    proof (cases "chunk = []")
      case True
      with r n have p: "pending p = []" "arrivals p = [] \<or> (\<exists>bs. arrivals p = [] # bs)"
        by (auto simp: port_read_def Let_def split: list.splits)
      with "1.prems"(1) n obtain bs where bs: "arrivals p = [] # bs" by (auto simp: port_stream_def)
      with "1.prems" have k: "k > 0" "steady (k - 1) bs" "t + 10 < 2000" by auto
      have "\<exists>p'. data_read_loop 2000 n (t + 10) buffer q = (buffer @ take n (port_stream q), p') \<and>
          port_stream p' = drop n (port_stream q) \<and> steady 199 (arrivals p')"
        using "1.hyps"(1) [OF n r [symmetric] refl True refl, of "k - 1"] k "1.prems" s True bs tl by auto
      then show ?thesis using n r True s k by (simp add: data_read_loop.simps [of 2000 n t])
    next
      case False
      have "\<exists>p'. data_read_loop 2000 (n - length chunk) 0 (buffer @ chunk) q =
          ((buffer @ chunk) @ take (n - length chunk) (port_stream q), p') \<and>
          port_stream p' = drop (n - length chunk) (port_stream q) \<and> steady 199 (arrivals p')"
        using "1.hyps"(2) [OF n r [symmetric] refl False, of 199] "1.prems"(1) s tl
          steady_tl [OF "1.prems"(2,3)] by (auto simp: diff_le_mono)
      then show ?thesis using n r False s by (simp add: data_read_loop.simps [of 2000 n t])
    qed
  qed
qed

lemma data_read_bound:
  assumes "data_read_loop T n t buffer p = (b, p')" "T = 10 * m" "m > 0" "t = 10 * j" "j < m"
  shows "reads p' + (if n = 0 then 0 else j) \<le> reads p + m * n"
  using assms
proof (induction T n t buffer p arbitrary: j rule: data_read_loop.induct)
  case (1 T n t buffer p)
  show ?case
  proof (cases "n = 0")
    case True
    with "1.prems" show ?thesis by (auto simp: data_read_loop.simps)
  next
    case n: False
    obtain chunk q where r: "port_read n p = (chunk, q)" by fastforce
    note s = port_read_stream [OF r]
    show ?thesis
    proof (cases "chunk = []")
      case empty: True
      show ?thesis
      proof (cases "t + 10 \<ge> T")
        case True
        with empty n r have "data_read_loop T n t buffer p = ([], q)" by (simp add: data_read_loop.simps [of T n t])
        with "1.prems" s n show ?thesis by (cases n) auto
      next
        case False
        have step: "data_read_loop T n (t + 10) buffer q = (b, p')"
          using "1.prems"(1) n r empty False by (simp add: data_read_loop.simps [of T n t])
        from False have "reads p' + Suc j \<le> reads q + m * n"
          using step "1.IH"(1) [OF n r [symmetric] refl empty refl, of "Suc j"] "1.prems" n by simp
        with s n show ?thesis by simp
      qed
    next
      case False
      then have step: "data_read_loop T (n - length chunk) 0 (buffer @ chunk) q = (b, p')"
        using "1.prems"(1) n r by (simp add: data_read_loop.simps [of T n t])
      have IH: "reads p' + 0 \<le> reads q + m * (n - length chunk)"
        using "1.IH"(2) [OF n r [symmetric] refl False, of 0] step "1.prems" n by simp
      have "length chunk \<ge> 1" "length chunk \<le> n" using False s by (auto simp: Suc_le_eq)
      then obtain k where "n = k + length chunk" and big: "m * length chunk \<ge> m" by (metis le_add_diff_inverse2 mult_le_mono2 mult_1_right)
      then have "m * n = m * (n - length chunk) + m * length chunk" by (simp add: distrib_left)
      with IH s "1.prems"(5) n big show ?thesis by (simp only: n if_False)
    qed
  qed
qed

lemma DataRead_stream:
  assumes "hSerial c" "n \<le> length (port_stream (cable_port c))" "steady 199 (arrivals (cable_port c))"
  shows "\<exists>p'. DataRead n c = (take n (port_stream (cable_port c)), with_port p' c) \<and>
    port_stream p' = drop n (port_stream (cable_port c)) \<and> steady 199 (arrivals p')"
  using data_read_stream [OF assms(2,3), of 0 "[]"] assms(1) by (auto simp: DataRead_def DEFAULT_TIMEOUT_MS_def)

lemma with_port_simps [simp]:
  "hSerial (with_port p c) = hSerial c" "cable_port (with_port p c) = p" "DeviceName (with_port p c) = DeviceName c"
  "with_port q (with_port p c) = with_port q c"
  by (simp_all add: with_port_def)

lemma frame_sum_plus: "foldl (\<lambda>s b. s + ucast b) a (xs :: ByteArray) = a + foldl (\<lambda>s b. s + ucast b) (0 :: 16 word) xs"
proof (induction xs arbitrary: a)
  case (Cons x xs)
  from Cons [of "a + ucast x"] Cons [of "ucast x"] show ?case by simp
qed simp

definition crc_bytes :: "ByteArray \<Rightarrow> ByteArray" where
  "crc_bytes data = [ucast (frame_sum data), ucast (drop_bit 8 (frame_sum data))]"

lemma AddCrc_bytes: "AddCrc data = data @ crc_bytes data"
proof -
  have "ucast (w AND 0xff) = (ucast w :: 8 word)" for w :: "16 word"
  proof -
    have m: "(0xff :: 16 word) = mask 8" by (simp add: mask_eq_exp_minus_1)
    show ?thesis unfolding m by (rule bit_word_eqI) (auto simp: bit_simps)
  qed
  then show ?thesis by (simp add: AddCrc_def crc_bytes_def Let_def)
qed

text \<open>What the reply check computes on a stream that holds a whole reply.\<close>

lemma WaitForReply_stream:
  assumes "hSerial c" "steady 199 (arrivals (cable_port c))"
    and "port_stream (cable_port c) = [0x04, 0x46] @ d @ crc @ rest" "length d = n" "length crc = 2"
  shows "\<exists>p'. WaitForReply n c = (crc_bytes ([0x04, 0x46] @ d) = crc, d, with_port p' c) \<and>
    port_stream p' = rest \<and> steady 199 (arrivals p')"
proof -
  obtain lo hi where crc: "crc = [lo, hi]" using assms(5) by (auto simp: length_Suc_conv numeral_2_eq_2)
  obtain p1 where 1: "DataRead 2 c = ([0x04, 0x46], with_port p1 c)" "port_stream p1 = d @ crc @ rest" "steady 199 (arrivals p1)"
    using DataRead_stream [of c 2] assms by auto
  obtain p2 where 2: "(if n \<noteq> 0 then DataRead n (with_port p1 c) else ([], with_port p1 c)) = (d, with_port p2 c)"
    "port_stream p2 = crc @ rest" "steady 199 (arrivals p2)"
  proof (cases "n = 0")
    case True
    with 1 assms show ?thesis using that [of p1] by simp
  next
    case False
    with DataRead_stream [of "with_port p1 c" n] 1 assms that show ?thesis by auto
  qed
  obtain p3 where 3: "DataRead 2 (with_port p2 c) = (crc, with_port p3 c)" "port_stream p3 = rest" "steady 199 (arrivals p3)"
    using DataRead_stream [of "with_port p2 c" 2] 2 assms by auto
  have "WaitForReply n c = (crc_bytes ([0x04, 0x46] @ d) = crc, d, with_port p3 c)"
    unfolding WaitForReply_def Let_def 1 prod.case 2 3 by (simp add: crc_bytes_def crc)
  with 3 show ?thesis by blast
qed

lemma length_crc_bytes [simp]: "length (crc_bytes d) = 2"
  by (simp add: crc_bytes_def)

lemma crc_bytes_inj: "crc_bytes a = crc_bytes b \<Longrightarrow> frame_sum a = frame_sum b"
proof -
  assume "crc_bytes a = crc_bytes b"
  then have hi: "\<And>n. n < 8 \<Longrightarrow> bit (frame_sum a) (8 + n) = bit (frame_sum b) (8 + n)"
    and lo: "\<And>n. n < 8 \<Longrightarrow> bit (frame_sum a) n = bit (frame_sum b) n"
    by (auto simp: crc_bytes_def bit_eq_iff bit_simps)
  show "frame_sum a = frame_sum b"
  proof (rule bit_word_eqI)
    fix n assume "n < LENGTH(16)"
    then show "bit (frame_sum a) n = bit (frame_sum b) n" using lo [of n] hi [of "n - 8"] by (cases "n < 8") auto
  qed
qed

lemma frame_sum_byte: "frame_sum (xs @ b # ys) = frame_sum (xs @ b' # ys) \<Longrightarrow> b = b'"
proof -
  assume "frame_sum (xs @ b # ys) = frame_sum (xs @ b' # ys)"
  then have "(ucast b :: 16 word) = ucast b'"
    unfolding frame_sum_def by (simp add: frame_sum_plus [of "_ + _"])
  then have "(ucast (ucast b :: 16 word) :: 8 word) = ucast (ucast b' :: 16 word)" by simp
  moreover have "(ucast (ucast x :: 16 word) :: 8 word) = x" for x
    by (rule bit_word_eqI) (auto simp: bit_simps)
  ultimately show "b = b'" by metis
qed

lemma crc_bytes_byte:
  "crc_bytes ([0x04, 0x46] @ xs @ b' # ys) = crc_bytes ([0x04, 0x46] @ xs @ b # ys) \<longleftrightarrow> b = b'"
proof
  assume "crc_bytes ([0x04, 0x46] @ xs @ b' # ys) = crc_bytes ([0x04, 0x46] @ xs @ b # ys)"
  from crc_bytes_inj [OF this] have "b' = b"
    using frame_sum_byte [of "[0x04, 0x46] @ xs" b' ys b] by (simp only: append_assoc)
  then show "b = b'" by simp
qed simp

lemma reply_integrity:
  assumes "hSerial c" "steady 199 (arrivals (cable_port c))"
    and "port_stream (cable_port c) = [0x04, 0x46] @ (xs @ b' # ys) @ crc_bytes ([0x04, 0x46] @ xs @ b # ys) @ rest"
    and "n = length (xs @ b' # ys)"
  shows "\<exists>p'. WaitForReply n c = (b = b', xs @ b' # ys, with_port p' c)"
  using WaitForReply_stream [OF assms(1-3) assms(4) [symmetric] length_crc_bytes] unfolding crc_bytes_byte by blast

text \<open>
  C33. A reply is taken exactly as the probe sent it or not at all. Let a probe that was idle answer a read
  command, its reply arriving in pieces of any size with less than two seconds between them, and let one byte
  of the data be anything. Then the command returns the data if the byte is the one that was sent, and no
  data otherwise.
\<close>

theorem command_read_integrity:
  assumes "lock_ok E (DeviceName c)" "hSerial c" "write_ok (cable_port c) (read_frame cmd address n)"
    and "pending (cable_port c) = []" "arrivals (cable_port c) = [] # bs" "steady 199 bs"
    and "concat bs = [0x04, 0x46] @ (xs @ b' # ys) @ crc_bytes ([0x04, 0x46] @ xs @ b # ys) @ rest"
    and "n = length (xs @ b' # ys)"
  shows "fst (CommandRead E cmd address n c) = (if b = b' then xs @ b # ys else [])"
proof -
  define q where "q = (cable_port c)\<lparr>arrivals := bs, reads := reads (cable_port c) + 1,
    sent := sent (cable_port c) @ [read_frame cmd address n]\<rparr>"
  have flush: "flush_input (cable_port c) = (cable_port c)\<lparr>arrivals := bs, reads := reads (cable_port c) + 1\<rparr>"
    using assms(4,5) by (simp add: flush_input.simps [of "cable_port c"] port_read_def)
  have written: "DataWrite (read_frame cmd address n) (with_port (flush_input (cable_port c)) c) = (True, with_port q c)"
    unfolding flush using assms(2,3) by (simp add: DataWrite_def port_write_def q_def with_port_def)
  have q: "hSerial (with_port q c)" "steady 199 (arrivals (cable_port (with_port q c)))"
    "port_stream (cable_port (with_port q c)) = concat bs"
    using assms(2,4,6) by (simp_all add: q_def port_stream_def)
  obtain p' where "WaitForReply n (with_port q c) = (b = b', xs @ b' # ys, with_port p' (with_port q c))"
    using reply_integrity [OF q(1,2) _ assms(8)] q(3) assms(7) by metis
  then show ?thesis
    using assms(1,2) written by (simp add: CommandRead_def Let_def)
qed

lemma DataRead_bound:
  assumes "DataRead n c = (d, c')"
  shows "reads (cable_port c') \<le> reads (cable_port c) + 200 * n"
proof (cases "hSerial c")
  case True
  obtain b p' where r: "data_read_loop DEFAULT_TIMEOUT_MS n 0 [] (cable_port c) = (b, p')" by fastforce
  have T: "DEFAULT_TIMEOUT_MS = 10 * 200" "(200 :: nat) > 0" "(0 :: nat) = 10 * 0"
    by (simp_all add: DEFAULT_TIMEOUT_MS_def)
  from data_read_bound [OF r T T(2)] have "reads p' \<le> reads (cable_port c) + 200 * n" by (simp split: if_splits)
  moreover have "c' = with_port p' c" using assms True r by (simp add: DataRead_def)
  ultimately show ?thesis by simp
next
  case False
  with assms show ?thesis by (simp add: DataRead_def)
qed

text \<open>However the port behaves, a reply is awaited for at most 200 reads per byte.\<close>

theorem WaitForReply_bound:
  assumes "WaitForReply n c = (ok, d, c')"
  shows "reads (cable_port c') \<le> reads (cable_port c) + 200 * (n + 4)"
proof -
  obtain h c1 where 1: "DataRead 2 c = (h, c1)" by fastforce
  obtain d2 c2 where 2: "(if n \<noteq> 0 then DataRead n c1 else ([], c1)) = (d2, c2)" by fastforce
  obtain k c3 where 3: "DataRead 2 c2 = (k, c3)" by fastforce
  have "c' = c1 \<or> c' = c3" using assms 1 2 3 by (auto simp: WaitForReply_def Let_def split: if_splits)
  moreover have "reads (cable_port c2) \<le> reads (cable_port c1) + 200 * n"
    using 2 DataRead_bound by (cases "n = 0") auto
  ultimately show ?thesis using DataRead_bound [OF 1] DataRead_bound [OF 3] by auto
qed

theorem command_read_integrity_witness:
  "fst (CommandRead \<lparr>lock_ok = \<lambda>_. True, open_ok = \<lambda>_. True, port_of = \<lambda>_. cable_empty_port\<rparr> 0x46 0 2
     (SerialCable_new\<lparr>hSerial := True, cable_port := cable_empty_port\<lparr>write_ok := \<lambda>_. True,
        arrivals := [[], [0x04], [], [0x46, 7], 9 # crc_bytes [0x04, 0x46, 7, 9]]\<rparr>\<rparr>)) = [7, 9]"
  using command_read_integrity [of "\<lparr>lock_ok = \<lambda>_. True, open_ok = \<lambda>_. True, port_of = \<lambda>_. cable_empty_port\<rparr>"
    "SerialCable_new\<lparr>hSerial := True, cable_port := cable_empty_port\<lparr>write_ok := \<lambda>_. True,
        arrivals := [[], [0x04], [], [0x46, 7], 9 # crc_bytes [0x04, 0x46, 7, 9]]\<rparr>\<rparr>" "0x46" 0 2
    "[[0x04], [], [0x46, 7], 9 # crc_bytes [0x04, 0x46, 7, 9]]" "[7]" 9 "[]" 9 "[]"]
  by (simp add: cable_empty_port_def)

end
