(* ===== verification/Probe_Device.thy ===== *)
theory Probe_Device
  imports Cable
begin

text \<open>
  \<^verbatim>\<open>libs/nfc/include/nfc/Probe.h\<close>: a probe behind a serial cable. Its description, finding a probe,
  restarting it, and, on Linux, replacing its firmware; and the commands of the NFC probe.

  A probe is its cable. Operations that wait and try again take the system as a function of the try, \<open>E i\<close>.
  \<open>None\<close> is the exception that leaves \<^verbatim>\<open>std::stoi\<close> in \<^verbatim>\<open>SerialCable::Initialize\<close>.
\<close>

datatype ProbeCommand = ReadProbeInfos | ReadProbeStatus | WriteNfcLedsAnimation | ReadNfcInfos | WriteNfcInfos
  | Reboot | Bootloader | TriggerWatchdog

fun command_code :: "ProbeCommand \<Rightarrow> 8 word" where
  "command_code ReadProbeInfos = 0x02"
| "command_code ReadProbeStatus = 0x06"
| "command_code WriteNfcLedsAnimation = 0x43"
| "command_code ReadNfcInfos = 0x46"
| "command_code WriteNfcInfos = 0x4b"
| "command_code Reboot = 0xf3"
| "command_code Bootloader = 0xf7"
| "command_code TriggerWatchdog = 0xfb"

record probe_description =
  DeviceIndex' :: int
  Magic :: "16 word"
  Id :: string
  Name :: string
  VersionMajor :: "8 word"
  VersionMinor :: "8 word"
  VersionRevision :: "16 word"
  TimestampHeader :: "16 word"
  TimestampUTC :: u64
  Timestamp :: string
  BootReason :: "8 word"
  WatchdogCount :: "8 word"
  TimeMs :: u32
  SysClockFrequency :: u32
  UsbFlags :: "8 word"
  UID :: u32
  TpmSerial :: ByteArray
  TpmType :: "8 word"
  TpmUUID :: ByteArray
  TpmScorbitSerial :: u64

text \<open>A number with leading zeros up to the width; wider numbers are printed whole.\<close>

definition setw0 :: "nat \<Rightarrow> int \<Rightarrow> string" where
  "setw0 w i = (let s = to_string i in replicate (w - length s) (CHR ''0'') @ s)"

text \<open>Two decimal digits at a time, from the right: the year is what is left.\<close>

definition timestamp_fields :: "nat \<Rightarrow> nat \<times> nat \<times> nat \<times> nat \<times> nat \<times> nat" where
  "timestamp_fields ymdhms =
     (let sec = ymdhms mod 100; ymdhms = ymdhms div 100;
          min = ymdhms mod 100; ymdhms = ymdhms div 100;
          hour = ymdhms mod 100; ymdhms = ymdhms div 100;
          day = ymdhms mod 100; ymdhms = ymdhms div 100;
          mon = ymdhms mod 100; ymdhms = ymdhms div 100
      in (ymdhms, mon, day, hour, min, sec))"

definition timestamp_text :: "u64 \<Rightarrow> string" where
  "timestamp_text w =
     (let (year, mon, day, hour, min, sec) = timestamp_fields (unat w)
      in setw0 4 (sint (word_of_nat year :: i32)) @ ''-'' @ setw0 2 (int mon) @ ''-'' @ setw0 2 (int day) @ '' ''
         @ setw0 2 (int hour) @ '':'' @ setw0 2 (int min) @ '':'' @ setw0 2 (int sec))"

definition read_description :: "int \<Rightarrow> ByteArray \<Rightarrow> probe_description option" where
  "read_description index data =
     (if data = [] then None
      else if ReadUInt16LE data 0 \<noteq> 0xCAFE then None
      else let header = ReadUInt16LE data 22;
               stamp = ReadUInt64LE data 24
           in Some \<lparr>DeviceIndex' = index, Magic = ReadUInt16LE data 0,
                Id = ReadString data 2 4, Name = ReadString data 6 12,
                VersionMajor = data ! 18, VersionMinor = data ! 19, VersionRevision = ReadUInt16LE data 20,
                TimestampHeader = header,
                TimestampUTC = (if header \<noteq> 0 then 0 else stamp),
                Timestamp = (if header \<noteq> 0 then ReadString data 22 32 else timestamp_text stamp),
                BootReason = (if header \<noteq> 0 then 0 else data ! 32),
                WatchdogCount = (if header \<noteq> 0 then 0 else data ! 33),
                TimeMs = ReadUInt32LE data 54, SysClockFrequency = ReadUInt32LE data 58,
                UsbFlags = data ! 62, UID = ReadUInt32LE data 64,
                TpmSerial = take 9 (drop 68 data), TpmType = data ! 77, TpmUUID = take 16 (drop 78 data),
                TpmScorbitSerial = ReadUInt64LE data 96\<rparr>)"

definition GetInformations :: "cable_env \<Rightarrow> cable \<Rightarrow> probe_description option \<times> cable" where
  "GetInformations E c =
     (case CommandRead E (command_code ReadProbeInfos) 0 128 c of
        (data, c) \<Rightarrow> (read_description (DeviceIndex c) data, c))"

section \<open>Finding a probe\<close>

definition Probe_Initialize :: "cable_env \<Rightarrow> int \<Rightarrow> string \<Rightarrow> cable \<Rightarrow> (bool \<times> cable) option" where
  "Probe_Initialize E index name c =
     (let c = Cable_Close c
      in if name \<noteq> [] then Cable_Initialize E name c else Cable_Initialize_index E index c)"

fun FindAllProbes :: "cable_env \<Rightarrow> string \<Rightarrow> string list \<Rightarrow> probe_description list option" where
  "FindAllProbes E sType [] = Some []"
| "FindAllProbes E sType (device # devices) =
     (case Probe_Initialize E (- 1) device SerialCable_new of
        None \<Rightarrow> None
      | Some (ok, c) \<Rightarrow>
          let found = (if \<not> ok then []
                       else case fst (GetInformations E c) of
                              None \<Rightarrow> []
                            | Some pbi \<Rightarrow> if sType \<noteq> [] \<and> sType \<noteq> Id pbi then [] else [pbi])
          in map_option ((@) found) (FindAllProbes E sType devices))"

text \<open>The search leaves the cable open on the probe that it found, or on the last device that it tried.\<close>

fun FindProbe :: "cable_env \<Rightarrow> string \<Rightarrow> u32 \<Rightarrow> string list \<Rightarrow> cable \<Rightarrow> (bool \<times> cable) option" where
  "FindProbe E sType uid [] c = Some (False, c)"
| "FindProbe E sType uid (device # devices) c =
     (case Probe_Initialize E (- 1) device c of
        None \<Rightarrow> None
      | Some (ok, c) \<Rightarrow>
          if \<not> ok then FindProbe E sType uid devices c
          else case GetInformations E c of
                 (None, c) \<Rightarrow> FindProbe E sType uid devices c
               | (Some pbi, c) \<Rightarrow>
                   if (sType = [] \<or> Id pbi = sType) \<and> (uid = 0 \<or> UID pbi = uid) then Some (True, c)
                   else FindProbe E sType uid devices c)"

record probe_world =
  pw_cables :: cable_env
  pw_devices :: "string list"

fun find_again :: "(nat \<Rightarrow> probe_world) \<Rightarrow> string \<Rightarrow> u32 \<Rightarrow> nat list \<Rightarrow> cable \<Rightarrow> (bool \<times> cable) option" where
  "find_again W sType uid [] c = Some (False, c)"
| "find_again W sType uid (i # is) c =
     (case FindProbe (pw_cables (W i)) sType uid (pw_devices (W i)) c of
        None \<Rightarrow> None
      | Some (ok, c) \<Rightarrow> if ok then Some (True, c) else find_again W sType uid is c)"

definition MAGIC_WORD :: ByteArray where
  "MAGIC_WORD = [0x05, 0xC0, 0x4B, 0x17]"

definition Probe_Reboot :: "cable_env \<Rightarrow> (nat \<Rightarrow> probe_world) \<Rightarrow> bool \<Rightarrow> cable \<Rightarrow> (bool \<times> cable) option" where
  "Probe_Reboot E W bReconnect c =
     (let (pbi, c) = (if bReconnect then GetInformations E c else (None, c));
          (_, c) = CommandWrite E (command_code Reboot) 0 MAGIC_WORD c
      in case pbi of
           None \<Rightarrow> Some (True, c)
         | Some pbi \<Rightarrow> find_again W (Id pbi) (UID pbi) [0 ..< 10] c)"

definition Probe_TriggerWatchdog :: "cable_env \<Rightarrow> cable \<Rightarrow> bool \<times> cable" where
  "Probe_TriggerWatchdog E c = CommandWrite E (command_code TriggerWatchdog) 0 MAGIC_WORD c"

section \<open>The NFC probe\<close>

record nfc_informations =
  nfc_Flags :: "8 word"
  nfc_Brightness :: "8 word"
  nfc_Capacitance :: "8 word"
  nfc_Unused :: "8 word"
  nfc_LastId :: u32
  nfc_TagUri :: string
  nfc_RSSI :: "16 word"

definition NFC_INFO_LEN :: nat where
  "NFC_INFO_LEN = 8 + 256 + 2"

definition read_nfc_informations :: "ByteArray \<Rightarrow> nfc_informations option" where
  "read_nfc_informations NfcInfos =
     (if length NfcInfos \<noteq> NFC_INFO_LEN then None
      else Some \<lparr>nfc_Flags = NfcInfos ! 0, nfc_Brightness = NfcInfos ! 1, nfc_Capacitance = NfcInfos ! 2,
             nfc_Unused = NfcInfos ! 3, nfc_LastId = ReadUInt32LE NfcInfos 4,
             nfc_TagUri = ByteArray_string (takeWhile (\<lambda>b. b \<noteq> 0) (take 255 (drop 8 NfcInfos))),
             nfc_RSSI = ReadUInt16LE NfcInfos 264\<rparr>)"

definition GetNfcInformations :: "cable_env \<Rightarrow> cable \<Rightarrow> nfc_informations option \<times> cable" where
  "GetNfcInformations E c =
     (case CommandRead E (command_code ReadNfcInfos) 0 NFC_INFO_LEN c of
        (NfcInfos, c) \<Rightarrow> (read_nfc_informations NfcInfos, c))"

definition SetLedsAnimation :: "cable_env \<Rightarrow> ByteArray \<Rightarrow> cable \<Rightarrow> bool \<times> cable" where
  "SetLedsAnimation E AnimationStruct = CommandWrite E (command_code WriteNfcLedsAnimation) 0 AnimationStruct"

definition NFC_FLAG_TAG :: "8 word" where
  "NFC_FLAG_TAG = 0x01"

definition SetFlags :: "cable_env \<Rightarrow> 8 word \<Rightarrow> 8 word \<Rightarrow> cable \<Rightarrow> bool \<times> cable" where
  "SetFlags E Mask Flags = CommandWrite E (command_code WriteNfcInfos) 0 [Mask, Flags, 0xff, 0]"

definition SetType :: "cable_env \<Rightarrow> bool \<Rightarrow> cable \<Rightarrow> bool \<times> cable" where
  "SetType E is_tag = SetFlags E NFC_FLAG_TAG (if is_tag then NFC_FLAG_TAG else 0)"

definition SetLedsBrightness :: "cable_env \<Rightarrow> 8 word \<Rightarrow> cable \<Rightarrow> bool \<times> cable" where
  "SetLedsBrightness E Brightness = CommandWrite E (command_code WriteNfcInfos) 0 [0x00, 0x00, Brightness, 0]"

definition uri_data :: "string \<Rightarrow> ByteArray" where
  "uri_data uri = [0x00, 0x00, 0xff, word_of_nat (length uri)] @ ByteArray_of_chars uri"

definition SetUri :: "cable_env \<Rightarrow> string \<Rightarrow> cable \<Rightarrow> bool \<times> cable" where
  "SetUri E uri = CommandWrite E (command_code WriteNfcInfos) 0 (uri_data uri)"

section \<open>Replacing the firmware\<close>

text \<open>
  On Linux. \<open>upload_env\<close> is the system: files, the time a file was changed (year, month, day, hour, minute,
  second in UTC), privileges, and the outcome of the \<open>i\<close>-th attempt to see and mount the probe's disk. \<open>ue_info i\<close>
  tells whether the mounted directory then has \<^verbatim>\<open>INFO_UF2.TXT\<close>, \<open>ue_umount i\<close> whether the \<open>i\<close>-th attempt to
  unmount succeeds. The steps taken are listed.
\<close>

datatype fw_step =
    FwBootloader
  | FwMount string
  | FwCopy string string
  | FwUnmount string
  | FwSleep nat
  | FwRemoveDir string

record upload_env =
  ue_exists :: "string \<Rightarrow> bool"
  ue_mtime :: "string \<Rightarrow> (nat \<times> nat \<times> nat \<times> nat \<times> nat \<times> nat) option"
  ue_fstab :: bool
  ue_root :: bool
  ue_tmp :: "string option"
  ue_mkdir :: bool
  ue_disk :: "nat \<Rightarrow> bool"
  ue_mount :: "nat \<Rightarrow> bool"
  ue_info :: "nat \<Rightarrow> bool"
  ue_umount :: "nat \<Rightarrow> bool"

fun file_timestamp :: "nat \<times> nat \<times> nat \<times> nat \<times> nat \<times> nat \<Rightarrow> u64" where
  "file_timestamp (year, mon, day, hour, mnt, sec) =
     word_of_nat year * 10000000000 + word_of_nat mon * 100000000 + word_of_nat day * 1000000
     + word_of_nat hour * 10000 + word_of_nat mnt * 100 + word_of_nat sec"

definition up_to_date :: "u64 \<Rightarrow> u64 \<Rightarrow> bool" where
  "up_to_date fileTime probeTime \<longleftrightarrow> sint fileTime - sint probeTime < 30"

definition CopyFirmwareToBootloader :: "bool \<Rightarrow> string \<Rightarrow> string \<Rightarrow> bool \<times> fw_step list" where
  "CopyFirmwareToBootloader has_info FirmwareFilename BootloaderDir =
     (if \<not> has_info then (False, [])
      else (True, [FwCopy FirmwareFilename (BootloaderDir @ ''/firmware.uf2'')]))"

fun copy_tries :: "upload_env \<Rightarrow> (nat \<Rightarrow> bool) \<Rightarrow> nat \<Rightarrow> string \<Rightarrow> string \<Rightarrow> nat list \<Rightarrow> bool \<times> fw_step list" where
  "copy_tries U ready pause file dir [] = (False, [])"
| "copy_tries U ready pause file dir (i # is) =
     (let (copied, steps) =
        (if ready i
         then case CopyFirmwareToBootloader (ue_info U i) file dir of (ok, ss) \<Rightarrow> (ok, FwMount dir # ss)
         else (False, []))
      in if copied then (True, steps)
         else case copy_tries U ready pause file dir is of (ok, further) \<Rightarrow> (ok, steps @ FwSleep pause # further))"

fun UnmountWithRetry :: "upload_env \<Rightarrow> string \<Rightarrow> nat \<Rightarrow> nat list \<Rightarrow> fw_step list" where
  "UnmountWithRetry U dir pause [] = []"
| "UnmountWithRetry U dir pause (j # js) =
     (if ue_umount U j then [FwUnmount dir] else FwSleep pause # UnmountWithRetry U dir pause js)"

definition FSTAB_MOUNT_POINT :: string where
  "FSTAB_MOUNT_POINT = ''/mnt/RPI-RP2''"

text \<open>\<open>None\<close>: the function returns false at once.\<close>

definition copy_as_root :: "upload_env \<Rightarrow> string \<Rightarrow> (bool \<times> fw_step list) option" where
  "copy_as_root U file =
     (case ue_tmp U of
        None \<Rightarrow> None
      | Some tmp \<Rightarrow>
          let dir = path_append tmp ''bootloader''
          in if \<not> ue_mkdir U then None
             else let (bOk, steps) = copy_tries U (\<lambda>i. ue_disk U i \<and> ue_mount U i) 600 file dir [0 ..< 10];
                      steps = steps @ UnmountWithRetry U dir 100 [0 ..< 100];
                      steps = (if bOk then steps @ [FwSleep 1000] else steps)
                  in Some (bOk, steps @ [FwRemoveDir dir]))"

definition copy_by_fstab :: "upload_env \<Rightarrow> string \<Rightarrow> bool \<times> fw_step list" where
  "copy_by_fstab U file =
     (let (bOk, steps) = copy_tries U (ue_mount U) 500 file FSTAB_MOUNT_POINT [0 ..< 10]
      in (bOk, if bOk then steps @ UnmountWithRetry U FSTAB_MOUNT_POINT 500 [0 ..< 10] else steps))"

text \<open>The result where the checks settle it, \<open>None\<close> where the firmware is to be replaced.\<close>

definition upload_settled :: "upload_env \<Rightarrow> string \<Rightarrow> bool \<Rightarrow> probe_description option \<Rightarrow> bool option" where
  "upload_settled U file bForceUpgrade pbi =
     (if file = [] then None
      else case pbi of
             None \<Rightarrow> None
           | Some pbi \<Rightarrow>
               if bForceUpgrade then None
               else case ue_mtime U file of
                      None \<Rightarrow> Some False
                    | Some t \<Rightarrow> if up_to_date (file_timestamp t) (TimestampUTC pbi) then Some True else None)"

definition UploadFirmware :: "upload_env \<Rightarrow> cable_env \<Rightarrow> (nat \<Rightarrow> probe_world) \<Rightarrow> string \<Rightarrow> bool \<Rightarrow> cable
    \<Rightarrow> (bool \<times> cable \<times> fw_step list) option" where
  "UploadFirmware U E W file bForceUpgrade c =
     (let bUploadFile = (file \<noteq> [])
      in if bUploadFile \<and> \<not> ue_exists U file then Some (False, c, [])
         else let (pbi, c) = (if bUploadFile \<and> hSerial c then GetInformations E c else (None, c))
              in case upload_settled U file bForceUpgrade pbi of
                   Some r \<Rightarrow> Some (r, c, [])
                 | None \<Rightarrow>
                     if bUploadFile \<and> \<not> ue_root U \<and> \<not> ue_fstab U then Some (False, c, [])
                     else let (c, steps) =
                            (if hSerial c
                             then (snd (CommandWrite E (command_code Bootloader) 0 MAGIC_WORD c), [FwBootloader, FwSleep 1000])
                             else (c, []))
                          in if \<not> bUploadFile then Some (True, c, steps)
                             else case (if ue_root U then copy_as_root U file else Some (copy_by_fstab U file)) of
                                    None \<Rightarrow> Some (False, c, steps)
                                  | Some (bOk, further) \<Rightarrow>
                                      (case pbi of
                                         None \<Rightarrow> Some (bOk, c, steps @ further)
                                       | Some pbi \<Rightarrow>
                                           map_option (\<lambda>(found, c). (bOk, c, steps @ further))
                                             (find_again W (Id pbi) (UID pbi) [0 ..< 10] c)))"

section \<open>Properties\<close>

definition valid_time :: "nat \<times> nat \<times> nat \<times> nat \<times> nat \<times> nat \<Rightarrow> bool" where
  "valid_time = (\<lambda>(year, mon, day, hour, mnt, sec).
     year \<le> 9999 \<and> mon \<le> 12 \<and> day \<le> 31 \<and> hour \<le> 23 \<and> mnt \<le> 59 \<and> sec \<le> 60)"

fun time_number :: "nat \<times> nat \<times> nat \<times> nat \<times> nat \<times> nat \<Rightarrow> nat" where
  "time_number (year, mon, day, hour, mnt, sec) =
     ((((year * 100 + mon) * 100 + day) * 100 + hour) * 100 + mnt) * 100 + sec"

lemma time_number_less: "valid_time t \<Longrightarrow> time_number t < 10 ^ 14"
  by (cases t) (simp add: valid_time_def)

lemma unat_small: "n < 10 ^ 14 \<Longrightarrow> unat (word_of_nat n :: u64) = n"
  by (simp add: unat_of_nat)

lemma sint_small: "n < 10 ^ 14 \<Longrightarrow> sint (word_of_nat n :: u64) = int n"
  by (simp add: signed_of_nat signed_take_bit_int_eq_self)

lemma file_timestamp_number: "file_timestamp t = word_of_nat (time_number t)"
  by (cases t) (simp add: algebra_simps)

text \<open>The probe's clock and the file's clock use the same numbers: what is composed is taken apart again.\<close>

theorem timestamp_roundtrip:
  assumes "valid_time t"
  shows "timestamp_fields (unat (file_timestamp t)) = t"
proof -
  have horner: "(a * 100 + b) mod 100 = b" "(a * 100 + b) div 100 = a" if "b < 100" for a b :: nat
    using that by simp_all
  show ?thesis
    using assms unat_small [OF time_number_less [OF assms]]
    by (cases t) (simp add: file_timestamp_number timestamp_fields_def valid_time_def Let_def horner
        del: distrib_right_numeral distrib_left_numeral)
qed

fun minute_of :: "nat \<times> nat \<times> nat \<times> nat \<times> nat \<times> nat \<Rightarrow> nat" where
  "minute_of (year, mon, day, hour, mnt, sec) = (((year * 100 + mon) * 100 + day) * 100 + hour) * 100 + mnt"

fun second_of :: "nat \<times> nat \<times> nat \<times> nat \<times> nat \<times> nat \<Rightarrow> nat" where
  "second_of (year, mon, day, hour, mnt, sec) = sec"

lemma upgrade_decision:
  assumes "valid_time f" "valid_time p"
  shows "up_to_date (file_timestamp f) (file_timestamp p) \<longleftrightarrow>
    minute_of f < minute_of p \<or> minute_of f = minute_of p \<and> second_of f < second_of p + 30"
proof -
  have number: "time_number t = minute_of t * 100 + second_of t" for t by (cases t) simp
  have "second_of f \<le> 60" "second_of p \<le> 60" using assms by (cases f; cases p; simp add: valid_time_def)+
  then show ?thesis using number [of f] number [of p]
    unfolding up_to_date_def file_timestamp_number
      sint_small [OF time_number_less [OF assms(1)]] sint_small [OF time_number_less [OF assms(2)]]
    by linarith
qed

text \<open>The tolerance is of numbers, not of seconds: it does not reach over the end of a minute.\<close>

lemma tolerance_ends_with_minute:
  "\<not> up_to_date (file_timestamp (2025, 8, 12, 12, 1, 5)) (file_timestamp (2025, 8, 12, 12, 0, 50))"
  "up_to_date (file_timestamp (2025, 8, 12, 12, 0, 29)) (file_timestamp (2025, 8, 12, 12, 0, 0))"
  by (subst upgrade_decision; simp add: valid_time_def)+

text \<open>The length byte of a tag's address says the length modulo 256.\<close>

lemma uri_length_byte: "unat (uri_data uri ! 3) = length uri mod 256"
  by (simp add: uri_data_def unat_of_nat)

end
