(* ===== verification/Cdc_Tpm.thy ===== *)
theory Cdc_Tpm
  imports Cable
begin

text \<open>
  \<^verbatim>\<open>libs/nfc/include/nfc/CdcTpm.h\<close>: the secure element of an NFC probe behind a serial port, spoken to in
  lines of text. Serial ports are those of \<open>Cable\<close>; a read that waited in vain delivers nothing.
  A function that reads outside its buffer has no result (\<open>None\<close>).
\<close>

record cdc_tpm =
  fd_serial :: bool
  cdc_port :: port
  m_devicePath :: string

definition CdcTpm_new :: cdc_tpm where
  "CdcTpm_new = \<lparr>fd_serial = False, cdc_port = cable_empty_port, m_devicePath = []\<rparr>"

section \<open>The serial line\<close>

definition SerialWrite :: "ByteArray \<Rightarrow> cdc_tpm \<Rightarrow> bool \<times> cdc_tpm" where
  "SerialWrite data t =
     (if \<not> fd_serial t then (False, t)
      else case port_write data (cdc_port t) of (ok, p) \<Rightarrow> (ok, t\<lparr>cdc_port := p\<rparr>))"

definition SerialRead :: "nat \<Rightarrow> cdc_tpm \<Rightarrow> ByteArray \<times> cdc_tpm" where
  "SerialRead maxLen t =
     (if \<not> fd_serial t then ([], t)
      else case port_read maxLen (cdc_port t) of (bs, p) \<Rightarrow> (bs, t\<lparr>cdc_port := p\<rparr>))"

function SerialFlush :: "cdc_tpm \<Rightarrow> cdc_tpm" where
  "SerialFlush t = (case SerialRead 64 t of (bs, t) \<Rightarrow> if bs = [] then t else SerialFlush t)"
  by pat_completeness auto
termination
  by (relation "measure (\<lambda>t. length (port_stream (cdc_port t)))")
    (auto simp: SerialRead_def split: if_splits prod.splits dest: port_read_stream)

declare SerialFlush.simps [simp del]

definition SerialClose :: "cdc_tpm \<Rightarrow> cdc_tpm" where
  "SerialClose t = (if fd_serial t then t\<lparr>fd_serial := False\<rparr> else t)"

definition SerialOpen :: "cable_env \<Rightarrow> string \<Rightarrow> cdc_tpm \<Rightarrow> bool \<times> cdc_tpm" where
  "SerialOpen E path t =
     (if \<not> open_ok E path then (False, t\<lparr>fd_serial := False\<rparr>)
      else (True, t\<lparr>fd_serial := True, cdc_port := port_of E path\<rparr>))"

section \<open>Which device it is\<close>

definition c_string :: "ByteArray \<Rightarrow> string" where
  "c_string bs = ByteArray_string (takeWhile (\<lambda>b. b \<noteq> 0) bs)"

definition IDENTIFY_BUFFER :: nat where
  "IDENTIFY_BUFFER = 256"

fun identify_loop :: "nat \<Rightarrow> ByteArray \<Rightarrow> cdc_tpm \<Rightarrow> ByteArray \<times> cdc_tpm" where
  "identify_loop 0 response t = (response, t)"
| "identify_loop (Suc attempts) response t =
     (let (bs, t) = SerialRead (IDENTIFY_BUFFER - 1 - length response) t
      in if bs \<noteq> []
         then let response = response @ bs
              in if contains_sub (c_string response) ''ECC508'' then (response, t)
                 else identify_loop attempts response t
         else if response \<noteq> [] then (response, t)
         else identify_loop attempts response t)"

definition IDENTIFY_COMMAND :: string where
  "IDENTIFY_COMMAND = [CHR 0x0A] @ ''board:device(00)'' @ [CHR 0x0A]"

definition IdentifyTpmDevice :: "cable_env \<Rightarrow> string \<Rightarrow> cdc_tpm \<Rightarrow> bool \<times> cdc_tpm" where
  "IdentifyTpmDevice E path t =
     (let (ok, t) = SerialOpen E path t
      in if \<not> ok then (False, t)
         else let t = SerialFlush t;
                  (ok, t) = SerialWrite (ByteArray_of_chars IDENTIFY_COMMAND) t
              in if \<not> ok then (False, SerialClose t)
                 else let (response, t) = identify_loop 5 [] t
                      in (response \<noteq> [] \<and> contains_sub (c_string response) ''ECC508'', SerialClose t))"

fun DiscoverTpmDevice :: "cable_env \<Rightarrow> string list \<Rightarrow> cdc_tpm \<Rightarrow> string \<times> cdc_tpm" where
  "DiscoverTpmDevice E [] t = ([], t)"
| "DiscoverTpmDevice E (path # paths) t =
     (let (found, t) = IdentifyTpmDevice E path t
      in if found then (path, t) else DiscoverTpmDevice E paths t)"

definition Cdc_Initialize :: "cable_env \<Rightarrow> string list \<Rightarrow> cdc_tpm \<Rightarrow> bool \<times> cdc_tpm" where
  "Cdc_Initialize E devices t =
     (let (path, t) = DiscoverTpmDevice E devices t;
          t = t\<lparr>m_devicePath := path\<rparr>
      in if m_devicePath t = [] then (False, t) else SerialOpen E (m_devicePath t) t)"

section \<open>Commands\<close>

text \<open>A line: whether it is complete, and what was received. The limit is one less than the size of the
  caller's buffer; a caller without a buffer has none.\<close>

fun receive_bytes :: "nat option \<Rightarrow> ByteArray \<Rightarrow> ByteArray \<Rightarrow> bool \<times> ByteArray" where
  "receive_bytes limit rx [] = (False, rx)"
| "receive_bytes limit rx (b # bs) =
     (if (case limit of None \<Rightarrow> False | Some l \<Rightarrow> length rx \<ge> l) then (True, rx)
      else if b = 10 \<or> b = 13 \<or> b = 0 then (True, rx @ [b])
      else receive_bytes limit (rx @ [b]) bs)"

fun receive_loop :: "nat \<Rightarrow> nat option \<Rightarrow> ByteArray \<Rightarrow> cdc_tpm \<Rightarrow> bool \<times> ByteArray \<times> cdc_tpm" where
  "receive_loop 0 limit rx t = (False, rx, t)"
| "receive_loop (Suc attempts) limit rx t =
     (let (bs, t) = SerialRead 128 t
      in if bs = []
         then (if rx \<noteq> [] then (False, rx, t) else receive_loop attempts limit rx t)
         else let (completed, rx) = receive_bytes limit rx bs
              in if completed then (True, rx, t) else receive_loop attempts limit rx t)"

definition SendReceive :: "string \<Rightarrow> nat option \<Rightarrow> cdc_tpm \<Rightarrow> bool \<times> ByteArray \<times> cdc_tpm" where
  "SendReceive Cmd SizeofResponse t =
     (let t = SerialFlush t;
          (ok, t) = SerialWrite (ByteArray_of_chars Cmd) t
      in if \<not> ok then (False, [], t)
         else receive_loop 50 (map_option (\<lambda>s. s - 1) SizeofResponse) [] t)"

text \<open>One conversion \<^verbatim>\<open>%02hhX\<close>: white space is skipped, at most two characters are read.\<close>

definition scan_hhX :: "string \<Rightarrow> 8 word option" where
  "scan_hhX s = map_option word_of_int (stoi16 (take 2 (dropWhile isspace s)))"

function parse_digits :: "string \<Rightarrow> nat \<Rightarrow> nat \<Rightarrow> ByteArray \<Rightarrow> ByteArray option" where
  "parse_digits rx start outDataCapacity out =
     (if start \<ge> length rx then None
      else if rx ! start = CHR '')'' \<or> rx ! start = CHR 0x00 then Some out
      else if length out \<ge> outDataCapacity then Some []
      else case scan_hhX (takeWhile (\<lambda>c. c \<noteq> CHR 0x00) (drop start rx)) of
             None \<Rightarrow> Some []
           | Some b \<Rightarrow> parse_digits rx (start + 2) outDataCapacity (out @ [b]))"
  by pat_completeness auto
termination
  by (relation "measure (\<lambda>(rx, start, _). length rx - start)") auto

declare parse_digits.simps [simp del]

text \<open>The bytes between the parentheses, none where the answer is refused. \<open>rx\<close> is the whole buffer.\<close>

definition ParseTpmResponse :: "string \<Rightarrow> nat \<Rightarrow> ByteArray option" where
  "ParseTpmResponse rx outDataCapacity =
     (if outDataCapacity = 0 then Some []
      else let before = takeWhile (\<lambda>c. c \<noteq> CHR ''('') (takeWhile (\<lambda>c. c \<noteq> CHR 0x00) rx)
           in if length before = length (takeWhile (\<lambda>c. c \<noteq> CHR 0x00) rx) then Some []
              else parse_digits rx (length before + 1) outDataCapacity [])"

definition RX_BUFFER :: nat where
  "RX_BUFFER = 512"

definition packet_line :: "ByteArray \<Rightarrow> string" where
  "packet_line packet =
     (let len = unat (packet ! 0);
          crc = Crc16 (take (len - 2) packet);
          packet = packet @ [ucast (crc AND 0xFF), ucast (drop_bit 8 crc AND 0xFF)]
      in ''E:t('' @ ToHexString packet @ '')'' @ [CHR 0x0A])"

definition Wakeup :: "cdc_tpm \<Rightarrow> cdc_tpm" where
  "Wakeup t = snd (snd (SendReceive (''E:w()'' @ [CHR 0x0A]) None t))"

definition Tpm_Sleep :: "cdc_tpm \<Rightarrow> cdc_tpm" where
  "Tpm_Sleep t = snd (snd (SendReceive (''E:i()'' @ [CHR 0x0A]) None t))"

definition rx_memory :: "ByteArray \<Rightarrow> string" where
  "rx_memory rx = ByteArray_string (rx @ replicate (RX_BUFFER - length rx) 0)"

text \<open>The bytes of the answer; none means that the exchange failed.\<close>

definition SendPacket :: "ByteArray \<Rightarrow> nat \<Rightarrow> cdc_tpm \<Rightarrow> (ByteArray \<times> cdc_tpm) option" where
  "SendPacket packet responseCapacity t =
     (if responseCapacity = 0 then Some ([], t)
      else let t = Wakeup t;
               (completed, rx, t) = SendReceive (packet_line packet) (Some RX_BUFFER) t
           in if \<not> completed then Some ([], Tpm_Sleep t)
              else map_option (\<lambda>response. (response, Tpm_Sleep t))
                     (ParseTpmResponse (rx_memory rx) responseCapacity))"

definition Cdc_ReadSerial :: "cdc_tpm \<Rightarrow> (ByteArray option \<times> cdc_tpm) option" where
  "Cdc_ReadSerial t =
     map_option (\<lambda>(resp, t).
       (if length resp \<ge> 13 then Some (take 4 (drop 1 resp) @ take 5 (drop 9 resp)) else None, t))
       (SendPacket [7, 0x02, 0x80, 0x00, 0x00] 64 t)"

definition UUID_ADDRESS :: "16 word" where
  "UUID_ADDRESS = push_bit 3 5"

definition Cdc_ReadUUID :: "cdc_tpm \<Rightarrow> ((u64 \<times> ByteArray) option \<times> cdc_tpm) option" where
  "Cdc_ReadUUID t =
     map_option (\<lambda>(resp, t).
       (if length resp \<ge> 25 then Some (ReadUInt64LE resp 1, take 16 (drop 9 resp)) else None, t))
       (SendPacket [7, 0x02, 0x82, ucast (UUID_ADDRESS AND 0xFF), ucast (drop_bit 8 UUID_ADDRESS)] 64 t)"

definition Cdc_SignDigest :: "16 word \<Rightarrow> ByteArray \<Rightarrow> cdc_tpm \<Rightarrow> (ByteArray option \<times> cdc_tpm) option" where
  "Cdc_SignDigest iSlot Digest32 t =
     (case SendPacket ([0x27, 0x16, 0x03, 0x00, 0x00] @ Digest32) 256 t of
        None \<Rightarrow> None
      | Some (resp, t) \<Rightarrow>
          if length resp \<noteq> 4 then Some (None, t)
          else map_option (\<lambda>(resp, t).
                 (if length resp = 64 + 3 then Some (take 64 (drop 1 resp)) else None, t))
                 (SendPacket [0x07, 0x41, 0x80, ucast iSlot, 0x00] 256 t))"

section \<open>Answers\<close>

lemma byte_hex_chars: "c \<in> set (byte_hex upper b) \<Longrightarrow> c \<noteq> CHR 0x00 \<and> c \<noteq> CHR '')'' \<and> c \<noteq> CHR ''(''"
proof -
  assume c: "c \<in> set (byte_hex upper b)"
  have "unat b < 256" using unsigned_less [of b, where ?'a = nat] by simp
  then have "unat b div 16 < 16" "unat b mod 16 < 16" by auto
  with c hex_val_chars have "\<exists>d. hex_val c = Some d" by (auto simp: byte_hex_def)
  moreover have "hex_val (CHR 0x00) = None" "hex_val (CHR '')'') = None" "hex_val (CHR ''('') = None" by code_simp+
  ultimately show ?thesis by auto
qed

lemma parse_hex:
  assumes "length bs \<le> cap - length out" "length out \<le> cap"
  shows "parse_digits (pre @ hex upper [] [] bs @ '')'' @ rest) (length pre) cap out = Some (out @ bs)"
  using assms
proof (induction bs arbitrary: pre out)
  case Nil
  then show ?case by (simp add: parse_digits.simps [of _ "length pre"] hex_def nth_append)
next
  case (Cons b bs)
  obtain x y where xy: "byte_hex upper b = [x, y]" by (simp add: byte_hex_def)
  have plain: "\<not> isspace x" "x \<noteq> CHR 0x00" "y \<noteq> CHR 0x00" "x \<noteq> CHR '')''"
    using byte_hex_chars [of _ upper b] byte_hex_plain [of _ upper b] xy by auto
  have hex: "hex upper [] [] (b # bs) = x # y # hex upper [] [] bs"
    by (simp add: hex_plain xy)
  have scan: "scan_hhX (takeWhile (\<lambda>c. c \<noteq> CHR 0x00) (x # y # r)) = Some b" for r
    using byte_hex_read [of upper b] plain by (simp add: scan_hhX_def xy)
  show ?case
    using Cons.IH [of "out @ [b]" "pre @ [x, y]"] Cons.prems plain scan
    by (subst parse_digits.simps) (simp add: hex nth_append)
qed

lemma response_roundtrip:
  assumes "length bs \<le> cap" "cap > 0" "CHR ''('' \<notin> set pre" "CHR 0x00 \<notin> set pre"
  shows "ParseTpmResponse (pre @ ''('' @ hex upper [] [] bs @ '')'' @ rest) cap = Some bs"
proof -
  have tw: "takeWhile (\<lambda>c. c \<noteq> CHR 0x00) (pre @ CHR ''('' # r) = pre @ CHR ''('' # takeWhile (\<lambda>c. c \<noteq> CHR 0x00) r" for r
    using assms(4) by (induction pre) auto
  have before: "takeWhile (\<lambda>c. c \<noteq> CHR ''('') (pre @ CHR ''('' # r) = pre" for r
    using assms(3) by (induction pre) auto
  have "parse_digits ((pre @ ''('') @ hex upper [] [] bs @ '')'' @ rest) (length (pre @ ''('')) cap [] = Some ([] @ bs)"
    using assms(1) by (intro parse_hex) auto
  then show ?thesis using assms(2) by (simp add: ParseTpmResponse_def tw before)
qed

lemma scan_single: "hex_val c = Some d \<Longrightarrow> scan_hhX [c] = Some (word_of_int (int d))"
  using hex_val_plain [of c d] by (simp add: scan_hhX_def stoi16_def hex_number_def)

text \<open>
  A line that fills the buffer and ends in the middle of a byte: the reader steps over its end.
\<close>

lemma overrun:
  assumes "hex_val c = Some d" "CHR ''('' \<notin> set pre" "CHR 0x00 \<notin> set pre" "cap > 0" "c \<noteq> CHR '')''" "c \<noteq> CHR 0x00"
  shows "ParseTpmResponse (pre @ [CHR ''('', c, CHR 0x00]) cap = None"
proof -
  have tw: "takeWhile (\<lambda>c. c \<noteq> CHR 0x00) (pre @ CHR ''('' # r) = pre @ CHR ''('' # takeWhile (\<lambda>c. c \<noteq> CHR 0x00) r" for r
    using assms(3) by (induction pre) auto
  have before: "takeWhile (\<lambda>c. c \<noteq> CHR ''('') (pre @ CHR ''('' # r) = pre" for r
    using assms(2) by (induction pre) auto
  have "parse_digits (pre @ [CHR ''('', c, CHR 0x00]) (length pre + 1) cap [] = None"
    using assms scan_single [OF assms(1)]
    by (subst parse_digits.simps, simp add: nth_append) (subst parse_digits.simps, simp)
  then show ?thesis using assms(4) by (simp add: ParseTpmResponse_def tw before)
qed

definition plain_line :: "ByteArray \<Rightarrow> bool" where
  "plain_line cs \<longleftrightarrow> 10 \<notin> set cs \<and> 13 \<notin> set cs \<and> 0 \<notin> set cs \<and> length cs < 128"

lemma receive_line:
  "10 \<notin> set cs \<Longrightarrow> 13 \<notin> set cs \<Longrightarrow> 0 \<notin> set cs \<Longrightarrow> (case limit of None \<Rightarrow> True | Some l \<Rightarrow> length rx + length cs < l) \<Longrightarrow>
    receive_bytes limit rx (cs @ [10]) = (True, rx @ cs @ [10])"
  by (induction cs arbitrary: rx) (auto split: option.splits)

lemma SendReceive_line:
  assumes "fd_serial t" "pending (cdc_port t) = []" "arrivals (cdc_port t) = [] # (cs @ [10]) # bs"
    "plain_line cs" "\<forall>b. write_ok (cdc_port t) b" "case limit of None \<Rightarrow> True | Some l \<Rightarrow> l > 128"
  shows "\<exists>t'. SendReceive Cmd limit t = (True, cs @ [10], t') \<and> fd_serial t' \<and> pending (cdc_port t') = [] \<and>
    arrivals (cdc_port t') = bs \<and> write_ok (cdc_port t') = write_ok (cdc_port t)"
proof -
  have b: "receive_bytes (map_option (\<lambda>s. s - 1) limit) [] (cs @ [10]) = (True, cs @ [10])"
    using receive_line [where cs = cs and rx = "[]" and limit = "map_option (\<lambda>s. s - 1) limit"] assms(4,6)
    by (auto simp: plain_line_def split: option.splits)
  have len: "length cs < 128" using assms(4) by (simp add: plain_line_def)
  show ?thesis
    using assms len b receive_loop.simps(2) [of 49 "map_option (\<lambda>s. s - 1) limit" "[]"]
    by (simp add: SendReceive_def SerialFlush.simps [of t] SerialRead_def port_read_def SerialWrite_def
        port_write_def)
qed

lemma hex_plain_line: "c \<in> set (hex upper [] [] bs) \<Longrightarrow> \<exists>d. hex_val c = Some d"
proof -
  assume "c \<in> set (hex upper [] [] bs)"
  then obtain b where c: "c \<in> set (byte_hex upper b)" by (auto simp: hex_plain)
  have "unat b < 256" using unsigned_less [of b, where ?'a = nat] by simp
  then have "unat b div 16 < 16" "unat b mod 16 < 16" by auto
  with c hex_val_chars show ?thesis by (auto simp: byte_hex_def)
qed

definition answer_line :: "bool \<Rightarrow> ByteArray \<Rightarrow> ByteArray" where
  "answer_line upper bs = ByteArray_of_chars (''00('' @ hex upper [] [] bs @ '')'')"

lemma answer_line_plain: "length bs \<le> 61 \<Longrightarrow> plain_line (answer_line upper bs)"
proof -
  assume "length bs \<le> 61"
  then have "length (answer_line upper bs) < 128"
    by (simp add: answer_line_def ByteArray_of_chars_def hex_plain length_hex)
  moreover have "b \<notin> {10, 13, 0}" if b: "b \<in> set (answer_line upper bs)" for b
  proof -
    obtain c where c: "c \<in> set (''00('' @ hex upper [] [] bs @ '')'')" "b = of_char c"
      using b unfolding answer_line_def ByteArray_of_chars_def set_map by (elim imageE)
    have "hex_val (CHR 0x0A) = None" "hex_val (CHR 0x0D) = None" "hex_val (CHR 0x00) = None" by code_simp+
    then have n: "c \<notin> {CHR 0x0A, CHR 0x0D, CHR 0x00}" using c(1) hex_plain_line [of c upper bs] by auto
    have "of_char (CHR 0x0A) = (10 :: nat)" "of_char (CHR 0x0D) = (13 :: nat)" "of_char (CHR 0x00) = (0 :: nat)" by simp_all
    then have "(of_char c :: nat) \<noteq> 10" "(of_char c :: nat) \<noteq> 13" "(of_char c :: nat) \<noteq> 0"
      using n by (metis insertCI of_char_eq_iff)+
    moreover have "unat b = of_char c" using c(2) by (simp add: unat_of_char)
    ultimately show ?thesis by (auto simp: unat_eq_zero)
  qed
  ultimately show ?thesis by (auto simp: plain_line_def)
qed

section \<open>An exchange\<close>

lemma rx_memory_line: "rx_memory (ByteArray_of_chars line) = line @ replicate (RX_BUFFER - length line) (CHR 0x00)"
proof -
  have zero: "char_of (0 :: nat) = CHR 0x00" by (simp add: char_of_def)
  show ?thesis
    using string_of_chars [of line]
    by (simp add: rx_memory_def ByteArray_string_def zero) (simp add: ByteArray_of_chars_def)
qed

lemma SendPacket_answer:
  assumes "fd_serial t" "pending (cdc_port t) = []" "\<forall>b. write_ok (cdc_port t) b"
    and "arrivals (cdc_port t) = [[], w @ [10], [], answer_line upper bs @ [10], [], s @ [10]] @ further"
    and "plain_line w" "plain_line s" "length bs \<le> 61" "length bs \<le> cap" "cap > 0"
  shows "\<exists>t'. SendPacket packet cap t = Some (bs, t') \<and> fd_serial t' \<and> pending (cdc_port t') = [] \<and>
    arrivals (cdc_port t') = further \<and> write_ok (cdc_port t') = write_ok (cdc_port t)"
proof -
  obtain t1 where 1: "Wakeup t = t1" "fd_serial t1" "pending (cdc_port t1) = []"
    "arrivals (cdc_port t1) = [[], answer_line upper bs @ [10], [], s @ [10]] @ further" "write_ok (cdc_port t1) = write_ok (cdc_port t)"
    using SendReceive_line [OF assms(1,2) _ assms(5,3), of "[[], answer_line upper bs @ [10], [], s @ [10]] @ further" None "''E:w()'' @ [CHR 0x0A]"] assms(4)
    by (auto simp: Wakeup_def)
  obtain t2 where 2: "SendReceive (packet_line packet) (Some RX_BUFFER) t1 = (True, answer_line upper bs @ [10], t2)"
    "fd_serial t2" "pending (cdc_port t2) = []" "arrivals (cdc_port t2) = [[], s @ [10]] @ further"
    "write_ok (cdc_port t2) = write_ok (cdc_port t)"
    using SendReceive_line [OF 1(2,3) _ answer_line_plain [OF assms(7)], of upper "[[], s @ [10]] @ further" "Some RX_BUFFER" "packet_line packet"]
      1(4,5) assms(3) by (auto simp: RX_BUFFER_def)
  obtain t3 where 3: "Tpm_Sleep t2 = t3" "fd_serial t3" "pending (cdc_port t3) = []" "arrivals (cdc_port t3) = further"
    "write_ok (cdc_port t3) = write_ok (cdc_port t)"
    using SendReceive_line [OF 2(2,3) _ assms(6), of further None "''E:i()'' @ [CHR 0x0A]"] 2(4,5) assms(3)
    by (auto simp: Tpm_Sleep_def)
  have line: "answer_line upper bs @ [10] = ByteArray_of_chars (''00('' @ hex upper [] [] bs @ '')'' @ [CHR 0x0A])"
    by (simp add: answer_line_def ByteArray_of_chars_def)
  have len: "length (''00('' @ hex upper [] [] bs @ '')'' @ [CHR 0x0A]) \<le> 128"
    using assms(7) by (simp add: hex_plain length_hex)
  have "ParseTpmResponse (rx_memory (answer_line upper bs @ [10])) cap = Some bs"
    unfolding line rx_memory_line
    using response_roundtrip [OF assms(8,9), of "''00''" upper "CHR 0x0A # replicate (RX_BUFFER - Suc (Suc (Suc (Suc (Suc (2 * length bs)))))) (CHR 0x00)"]
    by (simp add: hex_plain length_hex)
  with 1 2 3 show ?thesis using assms(9) by (simp add: SendPacket_def Let_def)
qed

text \<open>
  C34. The identity that the secure element holds is the identity read. Whatever it answers to being woken and
  put to sleep, if its answer to the read is a line with the count, the serial number in little-endian order,
  the 16 bytes of the UUID and further bytes, in digits of either case, then reading the identity succeeds
  with that serial number and UUID. The further bytes hold the answer's checksum, which is not examined.
\<close>

theorem uuid_exchange:
  assumes "fd_serial t" "pending (cdc_port t) = []" "\<forall>b. write_ok (cdc_port t) b"
    and "arrivals (cdc_port t) = [[], w @ [10], [], answer_line upper ([n] @ le64 serial @ uuid @ tail) @ [10], [], s @ [10]] @ further"
    and "plain_line w" "plain_line s" "length uuid = 16" "length tail \<le> 36"
  shows "\<exists>t'. Cdc_ReadUUID t = Some (Some (serial, uuid), t')"
proof -
  have "ReadUInt64LE ([n] @ le64 serial @ uuid @ tail) (length [n]) = serial" by (rule read64)
  then have fields: "ReadUInt64LE ([n] @ le64 serial @ uuid @ tail) 1 = serial"
    "take 16 (drop 9 ([n] @ le64 serial @ uuid @ tail)) = uuid"
    using assms(7) by simp_all
  have len: "length ([n] @ le64 serial @ uuid @ tail) \<le> 61" using assms(7,8) by simp
  obtain t' where "SendPacket [7, 0x02, 0x82, ucast (UUID_ADDRESS AND 0xFF), ucast (drop_bit 8 UUID_ADDRESS)] 64 t
      = Some ([n] @ le64 serial @ uuid @ tail, t')"
    using SendPacket_answer [OF assms(1-6) len, of 64] len by auto
  moreover have "length ([n] @ le64 serial @ uuid @ tail) \<ge> 25" using assms(7) by simp
  ultimately show ?thesis using fields by (simp only: Cdc_ReadUUID_def option.map prod.case if_True) simp
qed

theorem uuid_exchange_witness:
  "\<exists>t'. Cdc_ReadUUID (CdcTpm_new\<lparr>fd_serial := True, cdc_port := cable_empty_port\<lparr>write_ok := \<lambda>_. True,
      arrivals := [[], [0x30] @ [10], [], answer_line True ([35] @ le64 15009 @ replicate 16 7 @ replicate 9 0) @ [10],
        [], [0x30] @ [10]]\<rparr>\<rparr>) = Some (Some (15009, replicate 16 7), t')"
  by (rule uuid_exchange [where further = "[]" and w = "[0x30]" and s = "[0x30]" and n = 35 and upper = True
        and tail = "replicate 9 0"]) (simp_all add: cable_empty_port_def plain_line_def)

section \<open>The checksum of a packet\<close>

text \<open>A packet on the line: every one that the operations send is followed by its checksum, low byte first.\<close>

lemma packet_line_crc:
  assumes "unat (packet ! 0) = length packet + 2"
  shows "packet_line packet = ''E:t('' @ ToHexString (packet @ [ucast (Crc16 packet AND 0xFF), ucast (drop_bit 8 (Crc16 packet) AND 0xFF)])
    @ '')'' @ [CHR 0x0A]"
  using assms by (simp add: packet_line_def Let_def)

lemma packet_lengths:
  "unat (([7, 0x02, 0x80, 0x00, 0x00] :: ByteArray) ! 0) = length ([7, 0x02, 0x80, 0x00, 0x00] :: ByteArray) + 2"
  "length Digest32 = 32 \<Longrightarrow> unat (([0x27, 0x16, 0x03, 0x00, 0x00] @ Digest32 :: ByteArray) ! 0) = length ([0x27, 0x16, 0x03, 0x00, 0x00] @ Digest32) + 2"
  by simp_all

end
