(* ===== verification/Tpm.thy ===== *)
theory Tpm
  imports Wire_Util Flags
begin

text \<open>
  The secure element of the hardware: \<^verbatim>\<open>libs/utils/include/utils/flags.h\<close> at its one instance, the buses, and
  \<^verbatim>\<open>libs/tpm/source/tpm.cpp\<close>.

  The library \<^verbatim>\<open>cryptoauthlib\<close> is the parameter \<open>atca_lib\<close>: each of its calls takes the state of the hardware
  \<open>'w\<close>, the contents of the caller's buffer where it has one, and returns a status, the buffer, and the state. The
  codes that the source names are constructors. The \<open>i\<close>-th draw of the random delay after a receive error is
  \<open>rnd i\<close>. A \<open>Tpm\<close> object carries the state of the hardware and the delays that it waited, in milliseconds.
\<close>

section \<open>Sets of buses\<close>

record Flags8 = m_flags :: "8 word"

definition Flags_none :: Flags8 where
  "Flags_none = \<lparr>m_flags = 0\<rparr>"
definition Flags_of :: "8 word \<Rightarrow> Flags8" where
  "Flags_of flag = \<lparr>m_flags = flag\<rparr>"
definition hasFlag :: "Flags8 \<Rightarrow> 8 word \<Rightarrow> bool" where
  "hasFlag s flag \<longleftrightarrow> m_flags s AND flag \<noteq> 0"
definition hasAnyFlag :: "Flags8 \<Rightarrow> Flags8 \<Rightarrow> bool" where
  "hasAnyFlag s t \<longleftrightarrow> m_flags s AND m_flags t \<noteq> 0"
definition hasAllFlags :: "Flags8 \<Rightarrow> Flags8 \<Rightarrow> bool" where
  "hasAllFlags s t \<longleftrightarrow> m_flags s AND m_flags t = m_flags t"
definition Flags_isEmpty :: "Flags8 \<Rightarrow> bool" where
  "Flags_isEmpty s \<longleftrightarrow> m_flags s = 0"
definition setFlag :: "8 word \<Rightarrow> Flags8 \<Rightarrow> Flags8" where
  "setFlag flag s = s\<lparr>m_flags := m_flags s OR flag\<rparr>"
definition clearFlag :: "8 word \<Rightarrow> Flags8 \<Rightarrow> Flags8" where
  "clearFlag flag s = s\<lparr>m_flags := m_flags s AND NOT flag\<rparr>"
definition toggleFlag :: "8 word \<Rightarrow> Flags8 \<Rightarrow> Flags8" where
  "toggleFlag flag s = s\<lparr>m_flags := m_flags s XOR flag\<rparr>"
definition Flags_clear :: "Flags8 \<Rightarrow> Flags8" where
  "Flags_clear s = s\<lparr>m_flags := 0\<rparr>"
definition Flags_or :: "Flags8 \<Rightarrow> Flags8 \<Rightarrow> Flags8" where
  "Flags_or s t = \<lparr>m_flags = m_flags s OR m_flags t\<rparr>"
definition Flags_and :: "Flags8 \<Rightarrow> Flags8 \<Rightarrow> Flags8" where
  "Flags_and s t = \<lparr>m_flags = m_flags s AND m_flags t\<rparr>"
definition Flags_xor :: "Flags8 \<Rightarrow> Flags8 \<Rightarrow> Flags8" where
  "Flags_xor s t = \<lparr>m_flags = m_flags s XOR m_flags t\<rparr>"
definition Flags_not :: "Flags8 \<Rightarrow> Flags8" where
  "Flags_not s = \<lparr>m_flags = NOT (m_flags s)\<rparr>"

datatype TpmBus = NoBus | I2C | USB

fun TpmBus_value :: "TpmBus \<Rightarrow> 8 word" where
  "TpmBus_value NoBus = 0"
| "TpmBus_value I2C = 1"
| "TpmBus_value USB = 2"

definition TpmBus_All :: Flags8 where
  "TpmBus_All = Flags_or (Flags_of (TpmBus_value I2C)) (Flags_of (TpmBus_value USB))"

section \<open>The library\<close>

datatype ATCA_STATUS = ATCA_SUCCESS | ATCA_RX_CRC_ERROR | ATCA_RX_FAIL | ATCA_COMM_FAIL | ATCA_GEN_FAIL | ATCA_OTHER int

datatype atca_iface = I2cIface "8 word" | UartIface string | HidIface

datatype lock_zone = LOCK_ZONE_CONFIG | LOCK_ZONE_DATA

type_synonym ('w, 'b) atca_call = "'b \<times> 'w \<Rightarrow> ATCA_STATUS \<times> 'b \<times> 'w"

record 'w atca_lib =
  at_init :: "atca_iface \<Rightarrow> 'w \<Rightarrow> ATCA_STATUS \<times> 'w"
  at_release :: "'w \<Rightarrow> 'w"
  calib_info :: "('w, ByteArray) atca_call"
  calib_read_serial_number :: "('w, ByteArray) atca_call"
  calib_read_bytes_zone :: "nat \<Rightarrow> ('w, ByteArray) atca_call"
  calib_is_locked :: "lock_zone \<Rightarrow> ('w, bool) atca_call"
  calib_read_config_zone :: "('w, ByteArray) atca_call"
  calib_verify_extern :: "ByteArray \<Rightarrow> ByteArray \<Rightarrow> ByteArray \<Rightarrow> ('w, bool) atca_call"
  calib_sign :: "nat \<Rightarrow> ByteArray \<Rightarrow> ('w, ByteArray) atca_call"
  calib_get_pubkey :: "nat \<Rightarrow> ('w, ByteArray) atca_call"
  calib_write_config_zone :: "ByteArray \<Rightarrow> ('w, unit) atca_call"
  calib_lock_config_zone :: "('w, unit) atca_call"
  calib_lock_data_zone :: "('w, unit) atca_call"
  calib_priv_write :: "nat \<Rightarrow> ByteArray \<Rightarrow> ('w, unit) atca_call"
  calib_genkey :: "nat \<Rightarrow> ('w, unit) atca_call"
  calib_write_bytes_zone :: "nat \<Rightarrow> ByteArray \<Rightarrow> ('w, unit) atca_call"
  atcah_sha256 :: "ByteArray \<Rightarrow> ByteArray"

definition MAX_RETRY_TIMES :: nat where
  "MAX_RETRY_TIMES = 5"
definition DELAY_BEFORE_RETRY :: int where
  "DELAY_BEFORE_RETRY = 20"
definition RX_ERROR_RETRY_MIN_DELAY :: int where
  "RX_ERROR_RETRY_MIN_DELAY = 2000"
definition RX_ERROR_RETRY_MAX_DELAY :: int where
  "RX_ERROR_RETRY_MAX_DELAY = 5000"

definition shouldUseRxErrorRetryDelay :: "ATCA_STATUS \<Rightarrow> bool" where
  "shouldUseRxErrorRetryDelay status \<longleftrightarrow> status = ATCA_RX_CRC_ERROR \<or> status = ATCA_RX_FAIL"

definition retryDelayForStatus :: "int \<Rightarrow> ATCA_STATUS \<Rightarrow> int" where
  "retryDelayForStatus draw status =
     (if \<not> shouldUseRxErrorRetryDelay status then DELAY_BEFORE_RETRY else draw)"

text \<open>\<open>n\<close> attempts are left; the last failure is not followed by a delay.\<close>

fun retry_loop :: "(nat \<Rightarrow> int) \<Rightarrow> nat \<Rightarrow> ('w, 'b) atca_call \<Rightarrow> ATCA_STATUS \<Rightarrow> 'b \<times> 'w \<Rightarrow> int list
    \<Rightarrow> ATCA_STATUS \<times> ('b \<times> 'w) \<times> int list" where
  "retry_loop rnd 0 func status s slept = (status, s, slept)"
| "retry_loop rnd (Suc n) func status s slept =
     (case func s of
        (status, s) \<Rightarrow>
          if status = ATCA_SUCCESS then (status, s, slept)
          else retry_loop rnd n func status s
                 (if n > 0 then slept @ [retryDelayForStatus (rnd (length slept)) status] else slept))"

record 'w Tpm =
  infoResult :: ByteArray
  tpm_uuid :: ByteArray
  tpm_serialNumber :: u64
  tpm_bus :: TpmBus
  tpm_i2cBus :: "8 word"
  tpm_usbDevicePath :: string
  has_atcaDevice :: bool
  hardware :: 'w
  slept_ms :: "int list"

definition atcaRetry :: "(nat \<Rightarrow> int) \<Rightarrow> ('w, 'b) atca_call \<Rightarrow> 'b \<Rightarrow> 'w Tpm \<Rightarrow> ATCA_STATUS \<times> 'b \<times> 'w Tpm" where
  "atcaRetry rnd func buffer t =
     (case retry_loop rnd MAX_RETRY_TIMES func ATCA_SUCCESS (buffer, hardware t) (slept_ms t) of
        (status, (buffer, w), slept) \<Rightarrow> (status, buffer, t\<lparr>hardware := w, slept_ms := slept\<rparr>))"

definition Tpm_Impl :: "'w \<Rightarrow> 'w Tpm" where
  "Tpm_Impl w = \<lparr>infoResult = [], tpm_uuid = replicate 16 0, tpm_serialNumber = 0, tpm_bus = NoBus,
     tpm_i2cBus = 0, tpm_usbDevicePath = [], has_atcaDevice = False, hardware = w, slept_ms = []\<rparr>"

section \<open>Operations\<close>

text \<open>Sizes that the library's headers fix.\<close>

definition INFO_SIZE :: nat where
  "INFO_SIZE = 4"
definition ATCA_SERIAL_NUM_SIZE :: nat where
  "ATCA_SERIAL_NUM_SIZE = 9"
definition ATCA_BLOCK_SIZE :: nat where
  "ATCA_BLOCK_SIZE = 32"
definition ATCA_ECC_CONFIG_SIZE :: nat where
  "ATCA_ECC_CONFIG_SIZE = 128"
definition ATCA_ECCP256_SIG_SIZE :: nat where
  "ATCA_ECCP256_SIG_SIZE = 64"
definition ATCA_ECCP256_PUBKEY_SIZE :: nat where
  "ATCA_ECCP256_PUBKEY_SIZE = 64"
definition ATCA_ECCP256_KEY_SIZE :: nat where
  "ATCA_ECCP256_KEY_SIZE = 32"
definition SERIAL_SLOT :: nat where
  "SERIAL_SLOT = 5"

definition tpm_ok :: "'w Tpm \<Rightarrow> bool" where
  "tpm_ok t \<longleftrightarrow> infoResult t \<noteq> []"

definition bytes_or_none :: "ATCA_STATUS \<times> ByteArray \<times> 'w Tpm \<Rightarrow> ByteArray \<times> 'w Tpm" where
  "bytes_or_none r = (case r of (status, result, t) \<Rightarrow> if status \<noteq> ATCA_SUCCESS then ([], t) else (result, t))"

definition succeeded :: "ATCA_STATUS \<times> unit \<times> 'w Tpm \<Rightarrow> bool \<times> 'w Tpm" where
  "succeeded r = (case r of (status, _, t) \<Rightarrow> if status \<noteq> ATCA_SUCCESS then (False, t) else (True, t))"

definition tpm_info :: "'w atca_lib \<Rightarrow> (nat \<Rightarrow> int) \<Rightarrow> 'w Tpm \<Rightarrow> ByteArray \<times> 'w Tpm" where
  "tpm_info L rnd t =
     (if infoResult t \<noteq> [] then (infoResult t, t)
      else bytes_or_none (atcaRetry rnd (calib_info L) (replicate INFO_SIZE 0) t))"

definition tpmSerialNumber :: "'w atca_lib \<Rightarrow> (nat \<Rightarrow> int) \<Rightarrow> 'w Tpm \<Rightarrow> ByteArray \<times> 'w Tpm" where
  "tpmSerialNumber L rnd t =
     bytes_or_none (atcaRetry rnd (calib_read_serial_number L) (replicate ATCA_SERIAL_NUM_SIZE 0) t)"

definition readSerialUuid :: "'w atca_lib \<Rightarrow> (nat \<Rightarrow> int) \<Rightarrow> 'w Tpm \<Rightarrow> bool \<times> 'w Tpm" where
  "readSerialUuid L rnd t =
     (let (status, data, t) = atcaRetry rnd (calib_read_bytes_zone L SERIAL_SLOT) (replicate ATCA_BLOCK_SIZE 0) t
      in if status \<noteq> ATCA_SUCCESS then (False, t)
         else (True, t\<lparr>tpm_serialNumber := ReadUInt64LE data 0,
                       tpm_uuid := take (length (tpm_uuid t)) (drop 8 data)\<rparr>))"

definition isLocked :: "'w atca_lib \<Rightarrow> (nat \<Rightarrow> int) \<Rightarrow> lock_zone \<Rightarrow> 'w Tpm \<Rightarrow> bool \<times> 'w Tpm" where
  "isLocked L rnd zone t =
     (let (status, locked, t) = atcaRetry rnd (calib_is_locked L zone) False t in (locked, t))"

definition isConfigLocked :: "'w atca_lib \<Rightarrow> (nat \<Rightarrow> int) \<Rightarrow> 'w Tpm \<Rightarrow> bool \<times> 'w Tpm" where
  "isConfigLocked L rnd t = isLocked L rnd LOCK_ZONE_CONFIG t"

definition isDataLocked :: "'w atca_lib \<Rightarrow> (nat \<Rightarrow> int) \<Rightarrow> 'w Tpm \<Rightarrow> bool \<times> 'w Tpm" where
  "isDataLocked L rnd t = isLocked L rnd LOCK_ZONE_DATA t"

definition tpm_readIdentity :: "'w atca_lib \<Rightarrow> (nat \<Rightarrow> int) \<Rightarrow> 'w Tpm \<Rightarrow> bool \<times> 'w Tpm" where
  "tpm_readIdentity L rnd t =
     (if \<not> tpm_ok t then (False, t)
      else let (locked, t) = isDataLocked L rnd t
           in if locked then readSerialUuid L rnd t else (False, t))"

definition readConfig :: "'w atca_lib \<Rightarrow> (nat \<Rightarrow> int) \<Rightarrow> 'w Tpm \<Rightarrow> ByteArray \<times> 'w Tpm" where
  "readConfig L rnd t =
     bytes_or_none (atcaRetry rnd (calib_read_config_zone L) (replicate ATCA_ECC_CONFIG_SIZE 0) t)"

text \<open>The flag that the library fills has no initial value: \<open>unset\<close> is what it happens to hold.\<close>

definition verifySignature :: "'w atca_lib \<Rightarrow> (nat \<Rightarrow> int) \<Rightarrow> bool \<Rightarrow> ByteArray \<Rightarrow> ByteArray \<Rightarrow> ByteArray \<Rightarrow> 'w Tpm \<Rightarrow> bool \<times> 'w Tpm" where
  "verifySignature L rnd unset message signature publicKey t =
     (let digest = atcah_sha256 L message;
          (status, isVerified, t) = atcaRetry rnd (calib_verify_extern L digest signature publicKey) unset t
      in if status \<noteq> ATCA_SUCCESS then (False, t) else (isVerified, t))"

definition tpm_signDigest :: "'w atca_lib \<Rightarrow> (nat \<Rightarrow> int) \<Rightarrow> nat \<Rightarrow> ByteArray \<Rightarrow> 'w Tpm \<Rightarrow> ByteArray \<times> 'w Tpm" where
  "tpm_signDigest L rnd keyId digest t =
     bytes_or_none (atcaRetry rnd (calib_sign L keyId digest) (replicate ATCA_ECCP256_SIG_SIZE 0) t)"

definition tpm_signMessage :: "'w atca_lib \<Rightarrow> (nat \<Rightarrow> int) \<Rightarrow> nat \<Rightarrow> ByteArray \<Rightarrow> 'w Tpm \<Rightarrow> ByteArray \<times> 'w Tpm" where
  "tpm_signMessage L rnd keyId message t = tpm_signDigest L rnd keyId (atcah_sha256 L message) t"

definition getPublicKey :: "'w atca_lib \<Rightarrow> (nat \<Rightarrow> int) \<Rightarrow> nat \<Rightarrow> 'w Tpm \<Rightarrow> ByteArray \<times> 'w Tpm" where
  "getPublicKey L rnd keyId t =
     bytes_or_none (atcaRetry rnd (calib_get_pubkey L keyId) (replicate ATCA_ECCP256_PUBKEY_SIZE 0) t)"

definition writeConfig :: "'w atca_lib \<Rightarrow> (nat \<Rightarrow> int) \<Rightarrow> ByteArray \<Rightarrow> 'w Tpm \<Rightarrow> bool \<times> 'w Tpm" where
  "writeConfig L rnd config t = succeeded (atcaRetry rnd (calib_write_config_zone L config) () t)"

definition lockConfig :: "'w atca_lib \<Rightarrow> (nat \<Rightarrow> int) \<Rightarrow> 'w Tpm \<Rightarrow> bool \<times> 'w Tpm" where
  "lockConfig L rnd t = succeeded (atcaRetry rnd (calib_lock_config_zone L) () t)"

definition lockData :: "'w atca_lib \<Rightarrow> (nat \<Rightarrow> int) \<Rightarrow> 'w Tpm \<Rightarrow> bool \<times> 'w Tpm" where
  "lockData L rnd t =
     (let (locked, t) = isDataLocked L rnd t
      in if locked then (False, t)
         else succeeded (atcaRetry rnd (calib_lock_data_zone L) () t))"

definition writeKey :: "'w atca_lib \<Rightarrow> (nat \<Rightarrow> int) \<Rightarrow> nat \<Rightarrow> ByteArray \<Rightarrow> 'w Tpm \<Rightarrow> bool \<times> 'w Tpm" where
  "writeKey L rnd keyId key t =
     (if length key \<noteq> 4 + ATCA_ECCP256_KEY_SIZE then (False, t)
      else succeeded (atcaRetry rnd (calib_priv_write L keyId key) () t))"

definition genKey :: "'w atca_lib \<Rightarrow> (nat \<Rightarrow> int) \<Rightarrow> nat \<Rightarrow> 'w Tpm \<Rightarrow> bool \<times> 'w Tpm" where
  "genKey L rnd keyId t = succeeded (atcaRetry rnd (calib_genkey L keyId) () t)"

definition writeData :: "'w atca_lib \<Rightarrow> (nat \<Rightarrow> int) \<Rightarrow> nat \<Rightarrow> ByteArray \<Rightarrow> 'w Tpm \<Rightarrow> bool \<times> 'w Tpm" where
  "writeData L rnd slot data t =
     (if length data = 0 \<or> length data mod ATCA_BLOCK_SIZE \<noteq> 0 then (False, t)
      else succeeded (atcaRetry rnd (calib_write_bytes_zone L slot data) () t))"

section \<open>Finding the device\<close>

definition SLB_I2C_BUS :: "8 word" where
  "SLB_I2C_BUS = 1"
definition SCORBITRON_V1_I2C_BUS :: "8 word" where
  "SCORBITRON_V1_I2C_BUS = 0"

definition reinit :: "'w atca_lib \<Rightarrow> 'w Tpm \<Rightarrow> 'w Tpm" where
  "reinit L t = (if has_atcaDevice t then t\<lparr>has_atcaDevice := False, hardware := at_release L (hardware t)\<rparr> else t)"

definition open_device :: "'w atca_lib \<Rightarrow> (nat \<Rightarrow> int) \<Rightarrow> atca_iface \<Rightarrow> ('w Tpm \<Rightarrow> 'w Tpm) \<Rightarrow> 'w Tpm \<Rightarrow> bool \<times> 'w Tpm" where
  "open_device L rnd iface found t =
     (case at_init L iface (hardware t) of
        (status, w) \<Rightarrow>
          let t = t\<lparr>hardware := w, has_atcaDevice := (status = ATCA_SUCCESS)\<rparr>
          in if status \<noteq> ATCA_SUCCESS then (False, t)
             else let (info, t) = tpm_info L rnd t;
                      t = t\<lparr>infoResult := info\<rparr>;
                      t = (if tpm_ok t then found t else t)
                  in (tpm_ok t, t))"

definition tryI2cBus :: "'w atca_lib \<Rightarrow> (nat \<Rightarrow> int) \<Rightarrow> 8 word \<Rightarrow> 'w Tpm \<Rightarrow> bool \<times> 'w Tpm" where
  "tryI2cBus L rnd i2cBus t =
     open_device L rnd (I2cIface i2cBus)
       (\<lambda>t. t\<lparr>tpm_bus := I2C, tpm_i2cBus := i2cBus, tpm_usbDevicePath := []\<rparr>) (reinit L t)"

definition tryUsbBus :: "'w atca_lib \<Rightarrow> (nat \<Rightarrow> int) \<Rightarrow> string \<Rightarrow> 'w Tpm \<Rightarrow> bool \<times> 'w Tpm" where
  "tryUsbBus L rnd devicePath t =
     open_device L rnd (if devicePath \<noteq> [] then UartIface devicePath else HidIface)
       (\<lambda>t. t\<lparr>tpm_bus := USB, tpm_i2cBus := 0, tpm_usbDevicePath := devicePath\<rparr>) (reinit L t)"

definition Tpm_new :: "'w atca_lib \<Rightarrow> (nat \<Rightarrow> int) \<Rightarrow> Flags8 \<Rightarrow> string \<Rightarrow> 'w \<Rightarrow> 'w Tpm" where
  "Tpm_new L rnd busFlags usbDevicePath w =
     (let (found, t) =
        (if hasFlag busFlags (TpmBus_value I2C)
         then case tryI2cBus L rnd SLB_I2C_BUS (Tpm_Impl w) of
                (found, t) \<Rightarrow> if found then (True, t) else tryI2cBus L rnd SCORBITRON_V1_I2C_BUS t
         else (False, Tpm_Impl w));
          (found, t) =
        (if \<not> found \<and> hasFlag busFlags (TpmBus_value USB) then tryUsbBus L rnd usbDevicePath t else (found, t))
      in if found then snd (tpm_readIdentity L rnd t) else t)"

definition Tpm_of_device :: "'w atca_lib \<Rightarrow> (nat \<Rightarrow> int) \<Rightarrow> TpmBus \<Rightarrow> 8 word \<Rightarrow> string \<Rightarrow> 'w \<Rightarrow> 'w Tpm" where
  "Tpm_of_device L rnd bus i2cBus usbDevicePath w =
     (let (found, t) =
        (if bus = I2C then tryI2cBus L rnd i2cBus (Tpm_Impl w)
         else if bus = USB then tryUsbBus L rnd usbDevicePath (Tpm_Impl w)
         else (False, Tpm_Impl w))
      in if found then snd (tpm_readIdentity L rnd t) else t)"

section \<open>Bits of a set\<close>

lemma hasFlag_bus: "b \<noteq> NoBus \<Longrightarrow> hasFlag s (TpmBus_value b) \<longleftrightarrow> bit (m_flags s) (if b = I2C then 0 else 1)"
proof -
  have "v AND 1 \<noteq> 0 \<longleftrightarrow> bit v 0" "v AND 2 \<noteq> 0 \<longleftrightarrow> bit v 1" for v :: "8 word"
    using and_exp_eq_0_iff_not_bit [of v 0] and_exp_eq_0_iff_not_bit [of v 1] by simp_all
  then show "b \<noteq> NoBus \<Longrightarrow> ?thesis" by (cases b) (auto simp: hasFlag_def)
qed

lemma bus_set_all: "hasFlag TpmBus_All (TpmBus_value I2C)" "hasFlag TpmBus_All (TpmBus_value USB)"
  "\<not> hasFlag Flags_none v"
  by (simp_all add: hasFlag_def TpmBus_All_def Flags_or_def Flags_of_def Flags_none_def)

section \<open>Retries\<close>

fun attempt :: "('w, 'b) atca_call \<Rightarrow> nat \<Rightarrow> 'b \<times> 'w \<Rightarrow> 'b \<times> 'w" where
  "attempt func 0 s = s"
| "attempt func (Suc k) s = snd (func (attempt func k s))"

lemma attempt_Suc: "attempt func (Suc k) s = attempt func k (snd (func s))"
  by (induction k) simp_all

text \<open>After \<open>k\<close> failures and the outcome of the attempt after them.\<close>

definition retried :: "nat \<Rightarrow> ('w, 'b) atca_call \<Rightarrow> 'b \<times> 'w \<Rightarrow> nat \<Rightarrow> ATCA_STATUS \<times> 'b \<times> 'w \<Rightarrow> bool" where
  "retried n func s k r \<longleftrightarrow>
     k < n \<and> r = func (attempt func k s) \<and> (\<forall>i < k. fst (func (attempt func i s)) \<noteq> ATCA_SUCCESS) \<and>
     (fst r = ATCA_SUCCESS \<or> k = n - 1)"

lemma retry_loop_spec:
  assumes "retry_loop rnd n func st0 s sl = (st, s', sl')" "n > 0"
  shows "\<exists>k ds. retried n func s k (st, s') \<and> sl' = sl @ ds \<and> length ds = k \<and>
    (\<forall>d \<in> set ds. d = DELAY_BEFORE_RETRY \<or> (\<exists>i. d = rnd i))"
  using assms
proof (induction n arbitrary: st0 s sl)
  case (Suc n)
  obtain st1 s1 where f: "func s = (st1, s1)" by (cases "func s")
  show ?case
  proof (cases "st1 = ATCA_SUCCESS")
    case True
    with Suc.prems f show ?thesis by (intro exI [of _ 0] exI [of _ "[]"]) (auto simp: retried_def)
  next
    case fail: False
    show ?thesis
    proof (cases "n = 0")
      case True
      with Suc.prems f fail show ?thesis by (intro exI [of _ 0] exI [of _ "[]"]) (auto simp: retried_def)
    next
      case False
      let ?d = "retryDelayForStatus (rnd (length sl)) st1"
      have "retry_loop rnd n func st1 s1 (sl @ [?d]) = (st, s', sl')" using Suc.prems f fail False by simp
      from Suc.IH [OF this] False obtain k ds where k: "retried n func s1 k (st, s')" "sl' = (sl @ [?d]) @ ds" "length ds = k"
        "\<forall>d \<in> set ds. d = DELAY_BEFORE_RETRY \<or> (\<exists>i. d = rnd i)" by blast
      have "fst (func (attempt func i s)) \<noteq> ATCA_SUCCESS" if "i < Suc k" for i
        using that k(1) f fail attempt_Suc [of func _ s] by (cases i) (auto simp: retried_def simp del: attempt.simps(2))
      moreover have "func (attempt func (Suc k) s) = (st, s')" "k < n" "st = ATCA_SUCCESS \<or> k = n - 1"
        using k(1) f attempt_Suc [of func k s] by (simp_all add: retried_def del: attempt.simps(2))
      ultimately have "retried (Suc n) func s (Suc k) (st, s')"
        using False unfolding retried_def by (auto simp del: attempt.simps(2))
      with k show ?thesis
        by (intro exI [of _ "Suc k"] exI [of _ "?d # ds"]) (auto simp: retryDelayForStatus_def)
    qed
  qed
qed simp

text \<open>
  C35. A call of the secure element is tried until it succeeds, at most five times. The result, the
  buffer and the hardware are those of the first attempt that succeeds, or of the fifth attempt; there is a
  delay after every failed attempt but the last, and all of them take at most 20 seconds.
\<close>

theorem retry_bounded:
  assumes "\<forall>i. RX_ERROR_RETRY_MIN_DELAY \<le> rnd i \<and> rnd i \<le> RX_ERROR_RETRY_MAX_DELAY"
    and "atcaRetry rnd func buffer t = (st, buffer', t')"
  shows "\<exists>k ds. retried MAX_RETRY_TIMES func (buffer, hardware t) k (st, buffer', hardware t') \<and>
    slept_ms t' = slept_ms t @ ds \<and> length ds = k \<and> sum_list ds \<le> 20000"
proof -
  obtain sl' where loop: "retry_loop rnd MAX_RETRY_TIMES func ATCA_SUCCESS (buffer, hardware t) (slept_ms t) = (st, (buffer', hardware t'), sl')"
    and sl: "slept_ms t' = sl'"
    using assms(2) by (auto simp: atcaRetry_def split: prod.splits)
  have "MAX_RETRY_TIMES > 0" by (simp add: MAX_RETRY_TIMES_def)
  from retry_loop_spec [OF loop this] obtain k ds where k: "retried MAX_RETRY_TIMES func (buffer, hardware t) k (st, buffer', hardware t')"
    "sl' = slept_ms t @ ds" "length ds = k" "\<forall>d \<in> set ds. d = DELAY_BEFORE_RETRY \<or> (\<exists>i. d = rnd i)" by blast
  have "\<forall>d \<in> set ds. d \<le> 5000"
    using k(4) assms(1) by (force simp: DELAY_BEFORE_RETRY_def RX_ERROR_RETRY_MAX_DELAY_def)
  then have "sum_list ds \<le> 5000 * int (length ds)" by (induction ds) auto
  moreover have "length ds \<le> 4" using k(1,3) by (simp add: retried_def MAX_RETRY_TIMES_def)
  ultimately show ?thesis using k sl by (intro exI [of _ k] exI [of _ ds]) auto
qed

definition flaky :: "(nat, ByteArray) atca_call" where
  "flaky = (\<lambda>(b, w). if w < 2 then (ATCA_RX_FAIL, b, w + 1) else (ATCA_SUCCESS, [1], w + 1))"

theorem retry_bounded_witness:
  "\<exists>k ds. retried MAX_RETRY_TIMES flaky ([], 0) k (ATCA_SUCCESS, [1], 3) \<and> length ds = k \<and> sum_list ds \<le> (20000 :: int)"
proof -
  have run: "atcaRetry (\<lambda>_. 3000) flaky [] (Tpm_Impl 0) =
      (ATCA_SUCCESS, [1], (Tpm_Impl 0)\<lparr>hardware := 3, slept_ms := [3000, 3000]\<rparr>)"
    by (simp add: atcaRetry_def MAX_RETRY_TIMES_def eval_nat_numeral flaky_def Tpm_Impl_def retryDelayForStatus_def
        shouldUseRxErrorRetryDelay_def)
  have delays: "\<forall>i. RX_ERROR_RETRY_MIN_DELAY \<le> (\<lambda>_ :: nat. 3000) i \<and> (\<lambda>_ :: nat. 3000) i \<le> RX_ERROR_RETRY_MAX_DELAY"
    by (simp add: RX_ERROR_RETRY_MIN_DELAY_def RX_ERROR_RETRY_MAX_DELAY_def)
  from retry_bounded [OF delays run] obtain k and ds :: "int list" where
    r: "retried MAX_RETRY_TIMES flaky ([], hardware (Tpm_Impl 0)) k
       (ATCA_SUCCESS, [1], hardware ((Tpm_Impl 0)\<lparr>hardware := 3, slept_ms := [3000, 3000]\<rparr>))"
    "length ds = k" "sum_list ds \<le> 20000"
    by (elim exE conjE)
  have "hardware (Tpm_Impl 0) = (0 :: nat)" by (simp add: Tpm_Impl_def)
  with r show ?thesis by (intro exI [of _ k] exI [of _ ds]) simp
qed

section \<open>Which device\<close>

definition same_device :: "'w Tpm \<Rightarrow> 'w Tpm \<Rightarrow> bool" where
  "same_device t t' \<longleftrightarrow> infoResult t' = infoResult t \<and> tpm_bus t' = tpm_bus t \<and>
     tpm_i2cBus t' = tpm_i2cBus t \<and> tpm_usbDevicePath t' = tpm_usbDevicePath t"

lemma atcaRetry_frame: "atcaRetry rnd f b t = (st, b', t') \<Longrightarrow> same_device t t'"
  by (auto simp: atcaRetry_def same_device_def split: prod.splits)

lemma isDataLocked_frame: "isDataLocked L rnd t = (r, t') \<Longrightarrow> same_device t t'"
  by (auto simp: isDataLocked_def isLocked_def Let_def dest: atcaRetry_frame split: prod.splits)

lemma readSerialUuid_frame: "readSerialUuid L rnd t = (r, t') \<Longrightarrow> same_device t t'"
  by (auto simp: readSerialUuid_def Let_def same_device_def dest!: atcaRetry_frame split: prod.splits if_splits)

lemma readIdentity_frame: "tpm_readIdentity L rnd t = (r, t') \<Longrightarrow> same_device t t'"
  by (auto simp: tpm_readIdentity_def Let_def same_device_def
      dest!: isDataLocked_frame readSerialUuid_frame split: prod.splits if_splits)

text \<open>An object is on a device exactly if it has the device's information.\<close>

definition on_device :: "'w Tpm \<Rightarrow> bool" where
  "on_device t \<longleftrightarrow> (tpm_ok t \<longleftrightarrow> tpm_bus t \<noteq> NoBus)"

lemma open_device_on:
  assumes "open_device L rnd iface g t = (found, t')" "\<not> tpm_ok t" "tpm_bus t = NoBus"
    and "\<And>t. infoResult (g t) = infoResult t \<and> tpm_bus (g t) = b" "b \<noteq> NoBus"
  shows "(found \<longleftrightarrow> tpm_ok t') \<and> on_device t' \<and> (found \<longrightarrow> tpm_bus t' = b)"
proof -
  obtain status w where i: "at_init L iface (hardware t) = (status, w)" by (cases "at_init L iface (hardware t)")
  let ?t = "t\<lparr>hardware := w, has_atcaDevice := (status = ATCA_SUCCESS)\<rparr>"
  obtain info t1 where 1: "tpm_info L rnd ?t = (info, t1)" by fastforce
  then have "tpm_bus t1 = NoBus"
    using assms(2,3)
    by (auto simp: tpm_info_def tpm_ok_def bytes_or_none_def same_device_def dest!: atcaRetry_frame split: prod.splits if_splits)
  with assms i 1 show ?thesis
    by (auto simp: open_device_def Let_def on_device_def tpm_ok_def split: if_splits)
qed

lemma reinit_frame [simp]:
  "tpm_ok (reinit L t) = tpm_ok t" "tpm_bus (reinit L t) = tpm_bus t"
  by (simp_all add: reinit_def tpm_ok_def)

lemma tryI2cBus_on:
  "tryI2cBus L rnd b t = (found, t') \<Longrightarrow> \<not> tpm_ok t \<Longrightarrow> tpm_bus t = NoBus \<Longrightarrow>
     (found \<longleftrightarrow> tpm_ok t') \<and> on_device t' \<and> (found \<longrightarrow> tpm_bus t' = I2C)"
  unfolding tryI2cBus_def by (erule open_device_on) simp_all

lemma tryUsbBus_on:
  "tryUsbBus L rnd p t = (found, t') \<Longrightarrow> \<not> tpm_ok t \<Longrightarrow> tpm_bus t = NoBus \<Longrightarrow>
     (found \<longleftrightarrow> tpm_ok t') \<and> on_device t' \<and> (found \<longrightarrow> tpm_bus t' = USB)"
  unfolding tryUsbBus_def by (erule open_device_on) simp_all

lemma readIdentity_on: "on_device (snd (tpm_readIdentity L rnd t)) = on_device t"
  "tpm_bus (snd (tpm_readIdentity L rnd t)) = tpm_bus t"
  using readIdentity_frame [of L rnd t "fst (tpm_readIdentity L rnd t)" "snd (tpm_readIdentity L rnd t)"]
  by (simp_all add: on_device_def tpm_ok_def same_device_def)

lemma Impl_off: "\<not> tpm_ok (Tpm_Impl w)" "tpm_bus (Tpm_Impl w) = NoBus" "on_device (Tpm_Impl w)"
  by (simp_all add: Tpm_Impl_def tpm_ok_def on_device_def)

lemma off_device: "on_device t \<Longrightarrow> \<not> tpm_ok t \<Longrightarrow> tpm_bus t = NoBus"
  by (simp add: on_device_def)

lemma Tpm_new_on:
  "on_device (Tpm_new L rnd flags path w) \<and>
     (tpm_bus (Tpm_new L rnd flags path w) = NoBus \<or>
      hasFlag flags (TpmBus_value (tpm_bus (Tpm_new L rnd flags path w))))"
proof -
  obtain f1 t1 where 1: "(if hasFlag flags (TpmBus_value I2C)
         then case tryI2cBus L rnd SLB_I2C_BUS (Tpm_Impl w) of
                (found, t) \<Rightarrow> if found then (True, t) else tryI2cBus L rnd SCORBITRON_V1_I2C_BUS t
         else (False, Tpm_Impl w)) = (f1, t1)" by fastforce
  have a: "(f1 \<longleftrightarrow> tpm_ok t1) \<and> on_device t1 \<and> (f1 \<longrightarrow> tpm_bus t1 = I2C \<and> hasFlag flags (TpmBus_value I2C))"
  proof (cases "hasFlag flags (TpmBus_value I2C)")
    case True
    obtain f0 t0 where 0: "tryI2cBus L rnd SLB_I2C_BUS (Tpm_Impl w) = (f0, t0)" by fastforce
    from tryI2cBus_on [OF 0 Impl_off(1,2)] tryI2cBus_on [of L rnd SCORBITRON_V1_I2C_BUS t0 f1 t1] 1 0 True off_device
    show ?thesis by (cases f0) auto
  next
    case False
    with 1 Impl_off [of w] show ?thesis by auto
  qed
  obtain f2 t2 where 2: "(if \<not> f1 \<and> hasFlag flags (TpmBus_value USB) then tryUsbBus L rnd path t1 else (f1, t1)) = (f2, t2)"
    by fastforce
  have "on_device t2 \<and> (tpm_bus t2 = NoBus \<or> hasFlag flags (TpmBus_value (tpm_bus t2)))"
    using a 2 tryUsbBus_on [of L rnd path t1 f2 t2] off_device [of t1] off_device [of t2] by (auto split: if_splits)
  then show ?thesis
    using 1 2 by (simp add: Tpm_new_def Let_def readIdentity_on)
qed

text \<open>
  A locked element is not locked again, and an identity is only read from an element that says it is locked.
\<close>

lemma lockData_locked: "isDataLocked L rnd t = (True, t1) \<Longrightarrow> lockData L rnd t = (False, t1)"
  by (simp add: lockData_def)

lemma identity_locked:
  "tpm_readIdentity L rnd t = (True, t') \<Longrightarrow> tpm_ok t \<and> fst (isDataLocked L rnd t)"
  by (auto simp: tpm_readIdentity_def Let_def split: if_splits prod.splits)

end
