(* ===== verification/Hardware_Tpm.thy ===== *)
theory Hardware_Tpm
  imports Tpm Probes
begin

text \<open>
  \<^verbatim>\<open>libs/tpm/source/hardwaretpm.cpp\<close>: the identity and the signatures of the secure element. The object keeps
  the identity and where the device was found; every operation opens the device anew and closes it.
  \<open>hw_world\<close> is the state of the hardware.
\<close>

definition HW_PROVIDER :: string where
  "HW_PROVIDER = ''scorbitron''"
definition KEY4_SLOT :: nat where
  "KEY4_SLOT = 4"

record 'w HardwareTpm =
  hw_busFlags :: Flags8
  hw_usbDevicePath :: string
  hw_bus :: TpmBus
  hw_i2cBus :: "8 word"
  hw_devicePath :: string
  hw_serial :: u64
  hw_uuid :: ByteArray
  hw_world :: 'w

definition hw_tpm :: "'w atca_lib \<Rightarrow> (nat \<Rightarrow> int) \<Rightarrow> 'w HardwareTpm \<Rightarrow> 'w Tpm" where
  "hw_tpm L rnd h =
     (if hw_bus h \<noteq> NoBus then Tpm_of_device L rnd (hw_bus h) (hw_i2cBus h) (hw_devicePath h) (hw_world h)
      else Tpm_new L rnd (hw_busFlags h) (hw_usbDevicePath h) (hw_world h))"

text \<open>The destructor of the temporary object releases the device.\<close>

definition tpm_closed :: "'w atca_lib \<Rightarrow> 'w Tpm \<Rightarrow> 'w HardwareTpm \<Rightarrow> 'w HardwareTpm" where
  "tpm_closed L t h = h\<lparr>hw_world := hardware (reinit L t)\<rparr>"

definition hw_readIdentity :: "'w atca_lib \<Rightarrow> (nat \<Rightarrow> int) \<Rightarrow> 'w HardwareTpm \<Rightarrow> bool \<times> 'w HardwareTpm" where
  "hw_readIdentity L rnd h =
     (let t = hw_tpm L rnd h;
          (ok, t) = (if \<not> tpm_ok t then (False, t) else tpm_readIdentity L rnd t)
      in if \<not> ok then (False, tpm_closed L t (h\<lparr>hw_serial := 0, hw_uuid := [], hw_bus := NoBus, hw_i2cBus := 0, hw_devicePath := []\<rparr>))
         else (True, tpm_closed L t (h\<lparr>hw_serial := tpm_serialNumber t, hw_uuid := tpm_uuid t, hw_bus := tpm_bus t,
                                       hw_i2cBus := tpm_i2cBus t, hw_devicePath := tpm_usbDevicePath t\<rparr>)))"

definition HardwareTpm_new :: "'w atca_lib \<Rightarrow> (nat \<Rightarrow> int) \<Rightarrow> Flags8 \<Rightarrow> string \<Rightarrow> 'w \<Rightarrow> 'w HardwareTpm" where
  "HardwareTpm_new L rnd busFlags usbDevicePath w =
     snd (hw_readIdentity L rnd \<lparr>hw_busFlags = busFlags, hw_usbDevicePath = usbDevicePath, hw_bus = NoBus, hw_i2cBus = 0,
            hw_devicePath = [], hw_serial = 0, hw_uuid = [], hw_world = w\<rparr>)"

definition hasTpm :: "'w atca_lib \<Rightarrow> (nat \<Rightarrow> int) \<Rightarrow> 'w HardwareTpm \<Rightarrow> bool \<times> 'w HardwareTpm" where
  "hasTpm L rnd h = (let t = hw_tpm L rnd h in (tpm_ok t, tpm_closed L t h))"

definition hw_isValid :: "'w HardwareTpm \<Rightarrow> bool" where
  "hw_isValid h =
     (if unat (hw_serial h) < 15004 then False
      else serial_sum (unat (hw_serial h)) 0 mod 10 = 0 \<and> length (hw_uuid h) = 16)"

definition hw_uuid_text :: "'w HardwareTpm \<Rightarrow> string" where
  "hw_uuid_text h = hex False [] [] (hw_uuid h)"

definition hw_signDigest :: "'w atca_lib \<Rightarrow> (nat \<Rightarrow> int) \<Rightarrow> ByteArray \<Rightarrow> 'w HardwareTpm \<Rightarrow> ByteArray \<times> 'w HardwareTpm" where
  "hw_signDigest L rnd digest h =
     (case tpm_signDigest L rnd KEY4_SLOT digest (hw_tpm L rnd h) of (sig, t) \<Rightarrow> (sig, tpm_closed L t h))"

definition hw_signMessage :: "'w atca_lib \<Rightarrow> (nat \<Rightarrow> int) \<Rightarrow> ByteArray \<Rightarrow> 'w HardwareTpm \<Rightarrow> string \<times> 'w HardwareTpm" where
  "hw_signMessage L rnd message h =
     (case tpm_signMessage L rnd KEY4_SLOT message (hw_tpm L rnd h) of
        (sig, t) \<Rightarrow> (hex False [] [] sig, tpm_closed L t h))"

section \<open>Properties\<close>

text \<open>The identity is complete or absent: with no device there is no serial number and no UUID.\<close>

definition identity_whole :: "'w HardwareTpm \<Rightarrow> bool" where
  "identity_whole h \<longleftrightarrow>
     (hw_bus h = NoBus \<longrightarrow> hw_serial h = 0 \<and> hw_uuid h = []) \<and>
     (hw_bus h \<noteq> NoBus \<longrightarrow> hasFlag (hw_busFlags h) (TpmBus_value (hw_bus h)))"

lemma readIdentity_bus:
  assumes "tpm_readIdentity L rnd t = (r, t')"
  shows "tpm_bus t' = tpm_bus t" "tpm_ok t' = tpm_ok t"
  using readIdentity_frame [OF assms] by (simp_all add: same_device_def tpm_ok_def)

lemma new_identity_whole: "identity_whole (HardwareTpm_new L rnd busFlags path w)"
proof -
  let ?h = "\<lparr>hw_busFlags = busFlags, hw_usbDevicePath = path, hw_bus = NoBus, hw_i2cBus = 0,
            hw_devicePath = [], hw_serial = 0, hw_uuid = [], hw_world = w\<rparr>"
  let ?t = "Tpm_new L rnd busFlags path w"
  have t: "hw_tpm L rnd ?h = ?t" by (simp add: hw_tpm_def)
  note on = Tpm_new_on [of L rnd busFlags path w]
  show ?thesis
  proof (cases "tpm_ok ?t \<and> fst (tpm_readIdentity L rnd ?t)")
    case True
    obtain t' where r: "tpm_readIdentity L rnd ?t = (True, t')" using True by (cases "tpm_readIdentity L rnd ?t") auto
    have "tpm_bus t' \<noteq> NoBus \<and> hasFlag busFlags (TpmBus_value (tpm_bus t'))"
      using on True readIdentity_bus [OF r] by (auto simp: on_device_def)
    then show ?thesis
      using True r by (simp add: HardwareTpm_new_def hw_readIdentity_def t tpm_closed_def identity_whole_def)
  next
    case False
    then show ?thesis
      by (auto simp: HardwareTpm_new_def hw_readIdentity_def t tpm_closed_def identity_whole_def Let_def
          split: prod.splits if_splits)
  qed
qed

lemma valid_needs_device: "identity_whole h \<Longrightarrow> hw_isValid h \<Longrightarrow> hw_bus h \<noteq> NoBus"
  by (auto simp: identity_whole_def hw_isValid_def)

text \<open>The interface under which a device was found.\<close>

definition found_at :: "'w HardwareTpm \<Rightarrow> atca_iface" where
  "found_at h =
     (if hw_bus h = I2C then I2cIface (hw_i2cBus h)
      else if hw_devicePath h \<noteq> [] then UartIface (hw_devicePath h) else HidIface)"

lemma calls_init_irrelevant:
  "tpm_info (L\<lparr>at_init := i\<rparr>) = tpm_info L" "reinit (L\<lparr>at_init := i\<rparr>) = reinit L"
  "isDataLocked (L\<lparr>at_init := i\<rparr>) = isDataLocked L" "readSerialUuid (L\<lparr>at_init := i\<rparr>) = readSerialUuid L"
  "tpm_signDigest (L\<lparr>at_init := i\<rparr>) = tpm_signDigest L"
  by (simp_all add: fun_eq_iff tpm_info_def reinit_def isDataLocked_def isLocked_def readSerialUuid_def tpm_signDigest_def)

lemma init_irrelevant:
  "tpm_readIdentity (L\<lparr>at_init := i\<rparr>) = tpm_readIdentity L"
  "tpm_signMessage (L\<lparr>at_init := i\<rparr>) = tpm_signMessage L" "tpm_closed (L\<lparr>at_init := i\<rparr>) = tpm_closed L"
  unfolding fun_eq_iff tpm_readIdentity_def tpm_signMessage_def tpm_closed_def calls_init_irrelevant by simp_all

lemma open_device_init:
  "i iface = at_init L iface \<Longrightarrow> open_device (L\<lparr>at_init := i\<rparr>) rnd iface g t = open_device L rnd iface g t"
  unfolding open_device_def calls_init_irrelevant by simp

lemma hw_tpm_found:
  assumes "hw_bus h \<noteq> NoBus" "init (found_at h) = at_init L (found_at h)"
  shows "hw_tpm (L\<lparr>at_init := init\<rparr>) rnd h = hw_tpm L rnd h"
  using assms unfolding hw_tpm_def Tpm_of_device_def tryI2cBus_def tryUsbBus_def init_irrelevant calls_init_irrelevant
  by (cases "hw_bus h") (simp_all add: open_device_init found_at_def)

text \<open>
  C36. The identity and the signatures come from one and the same device. A new object that is valid is on a
  bus that it was allowed to use; from then on it signs, for a digest and for a message, through the interface
  under which it found that device and no other: if every other interface of the system behaved differently,
  the signature and the state of the hardware would be the same.
\<close>

theorem one_device:
  assumes "hw_isValid (HardwareTpm_new L rnd busFlags path w)"
    and "init (found_at (HardwareTpm_new L rnd busFlags path w)) = at_init L (found_at (HardwareTpm_new L rnd busFlags path w))"
  shows "(let h = HardwareTpm_new L rnd busFlags path w
          in hasFlag busFlags (TpmBus_value (hw_bus h)) \<and>
             hw_signDigest (L\<lparr>at_init := init\<rparr>) rnd d h = hw_signDigest L rnd d h \<and>
             hw_signMessage (L\<lparr>at_init := init\<rparr>) rnd m h = hw_signMessage L rnd m h)"
proof -
  let ?h = "HardwareTpm_new L rnd busFlags path w"
  note whole = new_identity_whole [of L rnd busFlags path w]
  have bus: "hw_bus ?h \<noteq> NoBus" using valid_needs_device [OF whole assms(1)] .
  have flags: "hw_busFlags ?h = busFlags"
    by (simp add: HardwareTpm_new_def hw_readIdentity_def tpm_closed_def Let_def split: prod.split)
  have "hasFlag busFlags (TpmBus_value (hw_bus ?h))"
    using whole bus unfolding identity_whole_def flags by blast
  moreover have "hw_signDigest (L\<lparr>at_init := init\<rparr>) rnd d ?h = hw_signDigest L rnd d ?h"
    unfolding hw_signDigest_def hw_tpm_found [of ?h init L rnd, OF bus assms(2)] init_irrelevant calls_init_irrelevant ..
  moreover have "hw_signMessage (L\<lparr>at_init := init\<rparr>) rnd m ?h = hw_signMessage L rnd m ?h"
    unfolding hw_signMessage_def hw_tpm_found [of ?h init L rnd, OF bus assms(2)] init_irrelevant calls_init_irrelevant ..
  ultimately show ?thesis unfolding Let_def by blast
qed

definition sample_atca :: "nat atca_lib" where
  "sample_atca =
     \<lparr>at_init = (\<lambda>iface w. (if iface = UartIface ''ttyACM1'' then ATCA_SUCCESS else ATCA_COMM_FAIL, w)),
      at_release = id, calib_info = (\<lambda>(b, w). (ATCA_SUCCESS, [0, 0, 0x50, 0], w)),
      calib_read_serial_number = (\<lambda>(b, w). (ATCA_SUCCESS, b, w)),
      calib_read_bytes_zone = (\<lambda>slot (b, w). (ATCA_SUCCESS, le64 15004 @ replicate 16 7 @ replicate 8 0, w)),
      calib_is_locked = (\<lambda>zone (b, w). (ATCA_SUCCESS, True, w)),
      calib_read_config_zone = (\<lambda>(b, w). (ATCA_SUCCESS, b, w)),
      calib_verify_extern = (\<lambda>_ _ _ (b, w). (ATCA_SUCCESS, True, w)),
      calib_sign = (\<lambda>k d (b, w). (ATCA_SUCCESS, d @ d, w)),
      calib_get_pubkey = (\<lambda>k (b, w). (ATCA_SUCCESS, b, w)),
      calib_write_config_zone = (\<lambda>c (b, w). (ATCA_SUCCESS, b, w)),
      calib_lock_config_zone = (\<lambda>(b, w). (ATCA_SUCCESS, b, w)),
      calib_lock_data_zone = (\<lambda>(b, w). (ATCA_SUCCESS, b, w)),
      calib_priv_write = (\<lambda>k key (b, w). (ATCA_SUCCESS, b, w)),
      calib_genkey = (\<lambda>k (b, w). (ATCA_SUCCESS, b, w)),
      calib_write_bytes_zone = (\<lambda>s d (b, w). (ATCA_SUCCESS, b, w)),
      atcah_sha256 = (\<lambda>m. replicate 32 0)\<rparr>"

lemma sample_retry: "atcaRetry rnd (\<lambda>(b, w). (ATCA_SUCCESS, g b, w)) b t = (ATCA_SUCCESS, g b, t)"
  by (simp add: atcaRetry_def MAX_RETRY_TIMES_def eval_nat_numeral)

lemma sample_calls:
  "calib_info sample_atca = (\<lambda>(b, w). (ATCA_SUCCESS, [0, 0, 0x50, 0], w))"
  "calib_is_locked sample_atca zone = (\<lambda>(b, w). (ATCA_SUCCESS, True, w))"
  "calib_read_bytes_zone sample_atca slot = (\<lambda>(b, w). (ATCA_SUCCESS, le64 15004 @ replicate 16 7 @ replicate 8 0, w))"
  by (simp_all add: sample_atca_def)

lemma sample_info: "infoResult t = [] \<Longrightarrow> tpm_info sample_atca rnd t = ([0, 0, 0x50, 0], t)"
  unfolding tpm_info_def bytes_or_none_def sample_calls sample_retry by simp

lemma sample_identity:
  assumes "infoResult t \<noteq> []" "length (tpm_uuid t) = 16"
  shows "tpm_readIdentity sample_atca rnd t = (True, t\<lparr>tpm_serialNumber := 15004, tpm_uuid := replicate 16 7\<rparr>)"
  unfolding tpm_readIdentity_def isDataLocked_def isLocked_def readSerialUuid_def sample_calls sample_retry
  using assms read64 [of "[]" 15004 "replicate 16 7 @ replicate 8 0"] by (simp add: tpm_ok_def)

lemma sample_valid:
  "hw_isValid (HardwareTpm_new sample_atca (\<lambda>_. 0) (Flags_of (TpmBus_value USB)) ''ttyACM1'' 0)"
proof -
  have init: "at_init sample_atca (UartIface ''ttyACM1'') w = (ATCA_SUCCESS, w)" for w
    by (simp add: sample_atca_def)
  have sum: "serial_sum 15004 0 = 10" by (simp add: serial_sum.simps)
  show ?thesis
    by (simp add: HardwareTpm_new_def hw_readIdentity_def hw_tpm_def Tpm_new_def hasFlag_def Flags_of_def tryUsbBus_def
        open_device_def reinit_def init sample_info sample_identity tpm_ok_def tpm_closed_def Tpm_Impl_def
        hw_isValid_def sum)
qed

theorem one_device_witness:
  "hasFlag (Flags_of (TpmBus_value USB)) (TpmBus_value (hw_bus
     (HardwareTpm_new sample_atca (\<lambda>_. 0) (Flags_of (TpmBus_value USB)) ''ttyACM1'' 0)))"
  using one_device [OF sample_valid, where init = "at_init sample_atca"] unfolding Let_def by blast

end
