(* ===== verification/Software_Tpm.thy ===== *)
theory Software_Tpm
  imports Crypto Net_State
begin

text \<open>
  A device identity kept in a file: \<^verbatim>\<open>libs/tpm/source/softwaretpm.cpp\<close>, with the signature formats and
  checks of \<^verbatim>\<open>libs/tpm/source/crypto_helpers.cpp\<close> and \<^verbatim>\<open>crypto_utils.cpp\<close> and the JSON files of
  \<^verbatim>\<open>libs/utils/source/utils.cpp\<close>.

  Parameters: OpenSSL beyond \<open>crypto_api\<close> (\<open>ec_api\<close>: DER coding of a signature's two numbers, and the check of
  one), JSON texts with comments (\<open>json_file_api\<close>), and a file system that maps names to contents and says which
  files can be written. The key pair that OpenSSL generates is an argument.
\<close>

section \<open>Signatures\<close>

record ec_api =
  der_encode :: "nat \<times> nat \<Rightarrow> ByteArray option"
  der_decode :: "ByteArray \<Rightarrow> (nat \<times> nat) option"
  ec_verify :: "ByteArray \<Rightarrow> ByteArray \<Rightarrow> ByteArray \<Rightarrow> bool"

definition kP256PubKeySize :: nat where
  "kP256PubKeySize = 65"
definition kP256SigSize :: nat where
  "kP256SigSize = 64"
definition kUncompressedKeyPrefix :: "8 word" where
  "kUncompressedKeyPrefix = 0x04"

text \<open>\<^verbatim>\<open>BN_bin2bn\<close> and \<^verbatim>\<open>BN_bn2binpad\<close>: numbers with the highest byte first, padded to a length.\<close>

definition bin2bn :: "ByteArray \<Rightarrow> nat" where
  "bin2bn bs = foldl (\<lambda>n b. n * 256 + unat b) 0 bs"

fun bn_bytes :: "nat \<Rightarrow> nat \<Rightarrow> ByteArray" where
  "bn_bytes 0 n = []"
| "bn_bytes (Suc len) n = bn_bytes len (n div 256) @ [word_of_nat (n mod 256)]"

definition bn2binpad :: "nat \<Rightarrow> nat \<Rightarrow> ByteArray option" where
  "bn2binpad n len = (if n < 256 ^ len then Some (bn_bytes len n) else None)"

definition derToRaw :: "ec_api \<Rightarrow> ByteArray \<Rightarrow> ByteArray option" where
  "derToRaw V der =
     (case der_decode V der of
        None \<Rightarrow> None
      | Some (r, s) \<Rightarrow>
          (case (bn2binpad r kP256KeySize, bn2binpad s kP256KeySize) of
             (Some a, Some b) \<Rightarrow> Some (a @ b)
           | _ \<Rightarrow> None))"

definition rawToDer :: "ec_api \<Rightarrow> ByteArray \<Rightarrow> ByteArray option" where
  "rawToDer V raw =
     (if length raw \<noteq> kP256SigSize then None
      else der_encode V (bin2bn (take kP256KeySize raw), bin2bn (take kP256KeySize (drop kP256KeySize raw))))"

definition ecdsaVerify :: "ec_api \<Rightarrow> ByteArray \<Rightarrow> ByteArray \<Rightarrow> ByteArray \<Rightarrow> bool" where
  "ecdsaVerify V publicKey hash signature =
     (if length publicKey \<noteq> kP256PubKeySize then False
      else if publicKey ! 0 \<noteq> kUncompressedKeyPrefix then False
      else if length hash \<noteq> kSHA256Size then False
      else if length signature \<noteq> kP256SigSize then False
      else case rawToDer V signature of
             None \<Rightarrow> False
           | Some der \<Rightarrow> ec_verify V publicKey hash der)"

section \<open>JSON files\<close>

record 'j json_file_api =
  jf_parse :: "string \<Rightarrow> 'j option"
  jf_empty :: "'j \<Rightarrow> bool"
  jf_print :: "'j doc \<Rightarrow> string"

record key_files =
  kf_contents :: "string \<Rightarrow> string option"
  kf_writable :: "string \<Rightarrow> bool"

text \<open>\<open>None\<close> is the null value that remains if the file cannot be opened or parsed.\<close>

definition readJsonFile :: "'j json_file_api \<Rightarrow> key_files \<Rightarrow> string \<Rightarrow> 'j option" where
  "readJsonFile F K jsonFilename =
     (case kf_contents K jsonFilename of None \<Rightarrow> None | Some text \<Rightarrow> jf_parse F text)"

definition writeJsonFile :: "'j json_file_api \<Rightarrow> string \<Rightarrow> 'j doc \<Rightarrow> key_files \<Rightarrow> bool \<times> key_files" where
  "writeJsonFile F jsonFilename jsonObj K =
     (if \<not> kf_writable K jsonFilename then (False, K)
      else (True, K\<lparr>kf_contents := (kf_contents K)(jsonFilename \<mapsto> jf_print F jsonObj @ [CHR 0x0A])\<rparr>))"

section \<open>The identity\<close>

definition SW_PROVIDER :: string where
  "SW_PROVIDER = ''vscorbitron''"
definition ECCP256_KEY_SIZE :: nat where
  "ECCP256_KEY_SIZE = 32"

record SoftwareTpm =
  sw_serial :: u64
  sw_uuid :: ByteArray
  sw_key :: ByteArray
  sw_publicKey :: ByteArray
  sw_verifyPublicKey :: ByteArray
  sw_initArray :: ByteArray

definition sw_isValid :: "SoftwareTpm \<Rightarrow> bool" where
  "sw_isValid t \<longleftrightarrow> length (sw_uuid t) = 16 \<and> length (sw_key t) = ECCP256_KEY_SIZE"

definition getCompiledMessageDigest :: "crypto_api \<Rightarrow> SoftwareTpm \<Rightarrow> ByteArray" where
  "getCompiledMessageDigest C t =
     sha256 C (ByteArray_of_chars (to_string (uint (sw_serial t))) @ sw_uuid t @ sw_key t)"

definition sw_clear :: "SoftwareTpm \<Rightarrow> SoftwareTpm" where
  "sw_clear t = t\<lparr>sw_serial := 0, sw_uuid := [], sw_key := []\<rparr>"

text \<open>The conversion of the default value \<^verbatim>\<open>0\<close> makes the serial number an \<^verbatim>\<open>int\<close>.\<close>

definition readData :: "'j json_api \<Rightarrow> 'j json_file_api \<Rightarrow> crypto_api \<Rightarrow> ec_api \<Rightarrow> key_files \<Rightarrow> string \<Rightarrow> SoftwareTpm \<Rightarrow> SoftwareTpm res" where
  "readData J F C V K filename t =
     (case readJsonFile F K filename of
        None \<Rightarrow> Ret t
      | Some json \<Rightarrow>
          if jf_empty F json then Ret t
          else
            res_bind (j_value J (j_int J) json ''serial'' 0) (\<lambda>serial.
            res_bind (j_value J (j_string J) json ''uuid'' []) (\<lambda>uuid.
            res_bind (j_value J (j_string J) json ''key'' []) (\<lambda>key.
              let t = t\<lparr>sw_serial := word_of_int serial, sw_uuid := ByteArray_of_hex uuid, sw_key := ByteArray_of_hex key\<rparr>
              in if \<not> sw_isValid t then Ret (sw_clear t)
                 else res_bind (j_value J (j_string J) json ''signature'' []) (\<lambda>sig.
                   let signature = ByteArray_of_hex sig;
                       t = t\<lparr>sw_key := initialize (sw_initArray t) (sw_key t)\<rparr>;
                       digest = getCompiledMessageDigest C t
                   in if \<not> ecdsaVerify V (sw_verifyPublicKey t) digest signature then Ret (sw_clear t)
                      else Ret t)))))"

text \<open>The member for the serial number has no initial value: \<open>unset\<close> is what it happens to hold.\<close>

definition SoftwareTpm_new :: "'j json_api \<Rightarrow> 'j json_file_api \<Rightarrow> crypto_api \<Rightarrow> ec_api \<Rightarrow> key_files \<Rightarrow> u64 \<Rightarrow> string \<Rightarrow> ByteArray \<Rightarrow> SoftwareTpm res" where
  "SoftwareTpm_new J F C V K unset keyFile verifyPublicKey =
     readData J F C V K keyFile
       \<lparr>sw_serial = unset, sw_uuid = [], sw_key = [], sw_publicKey = [], sw_verifyPublicKey = verifyPublicKey,
        sw_initArray = sha256 C (ByteArray_of_chars ''dtm'')\<rparr>"

definition sw_signDigest :: "crypto_api \<Rightarrow> nat \<Rightarrow> SoftwareTpm \<Rightarrow> ByteArray \<Rightarrow> ByteArray" where
  "sw_signDigest C draw t digest =
     (if \<not> sw_isValid t then []
      else case ecdsaSign C draw (sw_key t) digest of None \<Rightarrow> [] | Some signature \<Rightarrow> signature)"

definition sw_signMessage :: "crypto_api \<Rightarrow> nat \<Rightarrow> SoftwareTpm \<Rightarrow> ByteArray \<Rightarrow> string" where
  "sw_signMessage C draw t message = hex False [] [] (sw_signDigest C draw t (sha256 C message))"

definition sw_uuid_text :: "SoftwareTpm \<Rightarrow> string" where
  "sw_uuid_text t = hex False [] [] (sw_uuid t)"

definition key_entries :: "SoftwareTpm \<Rightarrow> ByteArray \<Rightarrow> (string \<times> 'j doc) list" where
  "key_entries t signature =
     [(''key'', DStr (hex False [] [] (initialize (sw_initArray t) (sw_key t)))),
      (''serial'', DInt (uint (sw_serial t))),
      (''signature'', DStr (hex False [] [] signature)),
      (''uuid'', DStr (hex False [] [] (sw_uuid t)))]"

definition key_document :: "SoftwareTpm \<Rightarrow> ByteArray \<Rightarrow> 'j doc" where
  "key_document t signature = DObj (key_entries t signature)"

text \<open>The result, the object and the files; \<open>keypair\<close> is whether OpenSSL generated
  a key pair, and the public and the private key that it left.\<close>

definition startProvisioning :: "'j json_api \<Rightarrow> 'j json_file_api \<Rightarrow> crypto_api \<Rightarrow> nat \<Rightarrow> ec_api \<Rightarrow> bool \<times> ByteArray \<times> ByteArray
    \<Rightarrow> key_files \<Rightarrow> string \<Rightarrow> u64 \<Rightarrow> ByteArray \<Rightarrow> ByteArray \<Rightarrow> SoftwareTpm \<Rightarrow> (bool \<times> SoftwareTpm \<times> key_files) res" where
  "startProvisioning J F C draw V keypair K filename serial uuid signKey t =
     (let t = t\<lparr>sw_serial := serial, sw_uuid := uuid\<rparr>;
          signKey = initialize (sw_initArray t) signKey;
          (generated, publicKey, privateKey) = keypair;
          t = t\<lparr>sw_publicKey := publicKey, sw_key := privateKey\<rparr>
      in if \<not> generated then Ret (False, t, K)
         else let digest = getCompiledMessageDigest C t
              in case ecdsaSign C draw signKey digest of
                   None \<Rightarrow> Ret (False, t, K)
                 | Some signature \<Rightarrow>
                     let (written, K) = writeJsonFile F filename (key_document t signature) K
                     in if \<not> written then Ret (False, t, K)
                        else res_bind (readData J F C V K filename t) (\<lambda>t. Ret (sw_isValid t, t, K)))"

section \<open>Signature formats\<close>

lemma bin2bn_snoc: "bin2bn (bs @ [b]) = bin2bn bs * 256 + unat b"
  by (simp add: bin2bn_def)

lemma byte_less: "unat (b :: 8 word) < 256"
  using unsigned_less [of b, where ?'a = nat] by simp

lemma bn_bytes_bin2bn: "bn_bytes (length bs) (bin2bn bs) = bs \<and> bin2bn bs < 256 ^ length bs"
proof (induction bs rule: rev_induct)
  case (snoc b bs)
  have "(bin2bn bs * 256 + unat b) div 256 = bin2bn bs" "(bin2bn bs * 256 + unat b) mod 256 = unat b"
    using byte_less [of b] by simp_all
  moreover have "bin2bn bs * 256 + unat b < 256 * 256 ^ length bs" using snoc byte_less [of b] by linarith
  ultimately show ?case using snoc by (simp add: bin2bn_snoc)
qed (simp add: bin2bn_def)

text \<open>The two formats of a signature are converted without loss.\<close>

lemma raw_der_roundtrip:
  assumes "\<forall>rs der. der_encode V rs = Some der \<longrightarrow> der_decode V der = Some rs" "rawToDer V raw = Some der"
  shows "derToRaw V der = Some raw"
proof -
  have len: "length raw = 64" using assms(2) by (simp add: rawToDer_def kP256SigSize_def split: if_splits)
  let ?a = "take 32 raw" and ?b = "take 32 (drop 32 raw)"
  have ab: "length ?a = 32" "length ?b = 32" "?a @ ?b = raw" using len by simp_all
  have "der_decode V der = Some (bin2bn ?a, bin2bn ?b)"
    using assms len by (simp add: rawToDer_def kP256SigSize_def kP256KeySize_def)
  then show ?thesis
    using bn_bytes_bin2bn [of ?a] bn_bytes_bin2bn [of ?b] ab
    by (simp add: derToRaw_def bn2binpad_def kP256KeySize_def)
qed

section \<open>The key file\<close>

text \<open>
  What it means that a printed object is parsed back: strings as they are, and numbers as the library converts them to \<^verbatim>\<open>int\<close>,
  by their lowest 32 bits.
\<close>

definition as_int :: "int \<Rightarrow> int" where
  "as_int i = sint (word_of_int i :: i32)"

lemma as_int_bits: "as_int i = signed_take_bit 31 i"
  by (simp add: as_int_def signed_of_int)

lemma as_int_small: "0 \<le> i \<Longrightarrow> i < 2 ^ 31 \<Longrightarrow> as_int i = i"
  by (simp add: as_int_bits signed_take_bit_int_eq_self)

lemma as_int_range: "- (2 ^ 31) \<le> as_int i \<and> as_int i < 2 ^ 31"
  unfolding as_int_bits using signed_take_bit_int_greater_eq_minus_exp [of 31 i] signed_take_bit_int_less_exp [of 31 i] by simp

definition json_reads :: "'j json_api \<Rightarrow> 'j json_file_api \<Rightarrow> (string \<times> 'j doc) list \<Rightarrow> 'j \<Rightarrow> bool" where
  "json_reads J F kvs j \<longleftrightarrow>
     jf_parse F (jf_print F (DObj kvs) @ [CHR 0x0A]) = Some j \<and> \<not> jf_empty F j \<and> j_is_object J j \<and>
     list_all (\<lambda>(k, d). case (d, j_find J j k) of
         (DStr s, Some v) \<Rightarrow> j_string J v = Some s
       | (DInt i, Some v) \<Rightarrow> j_int J v = Some (as_int i)
       | _ \<Rightarrow> False) kvs"

lemma read_key_document:
  assumes "json_reads J F (key_entries t signature) j"
    and "kf_contents K filename = Some (jf_print F (key_document t signature) @ [CHR 0x0A])"
    and "length (sw_uuid t) = 16" "length (sw_key t) = 32" "sw_initArray t' = sw_initArray t"
  shows "readData J F C V K filename t' =
     (let s = t'\<lparr>sw_serial := word_of_int (as_int (uint (sw_serial t))), sw_uuid := sw_uuid t, sw_key := sw_key t\<rparr>
      in Ret (if ecdsaVerify V (sw_verifyPublicKey t') (getCompiledMessageDigest C s) signature then s else sw_clear s))"
proof -
  have vals: "j_value J (j_int J) j ''serial'' 0 = Ret (as_int (uint (sw_serial t)))"
    "j_value J (j_string J) j ''uuid'' [] = Ret (hex False [] [] (sw_uuid t))"
    "j_value J (j_string J) j ''key'' [] = Ret (hex False [] [] (initialize (sw_initArray t) (sw_key t)))"
    "j_value J (j_string J) j ''signature'' [] = Ret (hex False [] [] signature)"
    using assms(1) by (auto simp: json_reads_def key_entries_def j_value_def split: option.splits)
  have contents: "readJsonFile F K filename = Some j" "\<not> jf_empty F j"
    using assms(1,2) by (simp_all add: readJsonFile_def key_document_def json_reads_def)
  have len: "length (initialize (sw_initArray t) (sw_key t)) = 32"
    using assms(4) by (simp add: initialize_def initialize_loop_length)
  show ?thesis
    unfolding readData_def contents option.case vals res_bind.simps
    using assms(3,5) contents(2) len
    by (simp add: sw_isValid_def ECCP256_KEY_SIZE_def initialize_involution Let_def)
qed

text \<open>
  C37. A provisioned identity is there after a restart. Let the key pair be generated, the file be writable and
  the provider's key sign for the public key that the object checks with. For a serial number below
  2147483648 provisioning succeeds, and an object that is created from the file later, whatever its
  memory held, has the serial number, the UUID and the private key of the first: with the same random draw it makes
  the same signature, and if whatever that key signs is valid for the new public key, then so is whatever
  the later object signs.
\<close>

theorem identity_survives:
  assumes "json_reads J F (key_entries (t\<lparr>sw_serial := serial, sw_uuid := uuid, sw_publicKey := publicKey, sw_key := privateKey\<rparr>) signature) j"
    and "kf_writable K filename" "sw_initArray t = sha256 C (ByteArray_of_chars ''dtm'')"
    and "length uuid = 16" "length privateKey = 32" "uint serial < 2 ^ 31"
    and "ecdsaSign C draw (initialize (sw_initArray t) signKey)
           (getCompiledMessageDigest C (t\<lparr>sw_serial := serial, sw_uuid := uuid, sw_key := privateKey\<rparr>)) = Some signature"
    and "ecdsaVerify V (sw_verifyPublicKey t)
           (getCompiledMessageDigest C (t\<lparr>sw_serial := serial, sw_uuid := uuid, sw_key := privateKey\<rparr>)) signature"
  shows "\<exists>t1 K1 t2. startProvisioning J F C draw V (True, publicKey, privateKey) K filename serial uuid signKey t = Ret (True, t1, K1) \<and>
    SoftwareTpm_new J F C V K1 unset filename (sw_verifyPublicKey t) = Ret t2 \<and>
    sw_isValid t2 \<and> sw_serial t2 = serial \<and> sw_uuid t2 = uuid \<and>
    sw_serial t1 = serial \<and> sw_uuid t1 = uuid \<and> sw_key t1 = privateKey \<and> sw_key t2 = privateKey \<and>
    (\<forall>n d. sw_signDigest C n t2 d = sw_signDigest C n t1 d) \<and>
    ((\<forall>n d sig. ecdsaSign C n privateKey d = Some sig \<longrightarrow> ecdsaVerify V publicKey d sig) \<longrightarrow>
      (\<forall>n d. sw_signDigest C n t2 d = [] \<or> ecdsaVerify V publicKey d (sw_signDigest C n t2 d)))"
proof -
  let ?t = "t\<lparr>sw_serial := serial, sw_uuid := uuid, sw_publicKey := publicKey, sw_key := privateKey\<rparr>"
  let ?K = "K\<lparr>kf_contents := (kf_contents K)(filename \<mapsto> jf_print F (key_document ?t signature) @ [CHR 0x0A])\<rparr>"
  have digest: "getCompiledMessageDigest C s = getCompiledMessageDigest C (t\<lparr>sw_serial := serial, sw_uuid := uuid, sw_key := privateKey\<rparr>)"
    if "sw_serial s = serial" "sw_uuid s = uuid" "sw_key s = privateKey" for s
    using that by (simp add: getCompiledMessageDigest_def)
  have "as_int (uint serial) = uint serial"
    using assms(6) by (intro as_int_small) simp_all
  then have serial: "word_of_int (as_int (uint serial)) = serial" by simp
  have K: "kf_contents ?K filename = Some (jf_print F (key_document ?t signature) @ [CHR 0x0A])" by simp
  have read: "readData J F C V ?K filename t' =
      Ret (t'\<lparr>sw_serial := serial, sw_uuid := uuid, sw_key := privateKey\<rparr>)"
    if "sw_initArray t' = sw_initArray t" "sw_verifyPublicKey t' = sw_verifyPublicKey t" for t'
    using read_key_document [OF assms(1) K, of t' C V] that assms(4,5,8) serial
      digest [of "t'\<lparr>sw_serial := serial, sw_uuid := uuid, sw_key := privateKey\<rparr>"]
    by (simp add: Let_def del: of_int_uint word_of_int_uint)
  have sign: "ecdsaSign C draw (initialize (sw_initArray t) signKey) (getCompiledMessageDigest C ?t) = Some signature"
    using assms(7) digest [of ?t] by simp
  have "startProvisioning J F C draw V (True, publicKey, privateKey) K filename serial uuid signKey t = Ret (True, ?t, ?K)"
    using assms(2,4,5) sign read [of ?t]
    by (simp add: startProvisioning_def writeJsonFile_def sw_isValid_def ECCP256_KEY_SIZE_def Let_def)
  moreover have "SoftwareTpm_new J F C V ?K unset filename (sw_verifyPublicKey t) = Ret
      \<lparr>sw_serial = serial, sw_uuid = uuid, sw_key = privateKey, sw_publicKey = [], sw_verifyPublicKey = sw_verifyPublicKey t,
       sw_initArray = sha256 C (ByteArray_of_chars ''dtm'')\<rparr>"
    using assms(3) by (simp add: SoftwareTpm_new_def read)
  ultimately show ?thesis
    using assms(4,5) by (simp add: sw_isValid_def ECCP256_KEY_SIZE_def sw_signDigest_def split: option.split)
qed

text \<open>One key file of a concrete library.\<close>

definition sw_sample :: SoftwareTpm where
  "sw_sample = \<lparr>sw_serial = 0, sw_uuid = [], sw_key = [], sw_publicKey = [], sw_verifyPublicKey = 4 # replicate 64 1,
     sw_initArray = replicate 32 0\<rparr>"

definition sw_provisioned :: SoftwareTpm where
  "sw_provisioned = sw_sample\<lparr>sw_serial := 5, sw_uuid := replicate 16 9, sw_publicKey := 4 # replicate 64 1, sw_key := replicate 32 7\<rparr>"

definition sw_crypto :: crypto_api where
  "sw_crypto =
     \<lparr>bio_decode = (\<lambda>_. None), bio_encode = (\<lambda>_. []), pbkdf2 = (\<lambda>_ _ _. []), gcm_open = (\<lambda>_ _ _ _. None),
      gcm_seal = (\<lambda>_ _ _. ([], [])), hmac_sha256 = (\<lambda>_ _. []), sha256 = (\<lambda>_. replicate 32 0),
      ec_sign = (\<lambda>_ _ _. Some (replicate 64 3))\<rparr>"

definition sw_ec :: ec_api where
  "sw_ec = \<lparr>der_encode = (\<lambda>_. Some []), der_decode = (\<lambda>_. None), ec_verify = (\<lambda>_ _ _. True)\<rparr>"

definition sw_object :: jval where
  "sw_object = JObj [(''key'', JStr (hex False [] [] (replicate 32 7))), (''serial'', JInt 5),
     (''signature'', JStr (hex False [] [] (replicate 64 3))), (''uuid'', JStr (hex False [] [] (replicate 16 9)))]"

definition sw_file :: "jval json_file_api" where
  "sw_file = \<lparr>jf_parse = (\<lambda>s. if s = [] then None else Some sw_object), jf_empty = (\<lambda>j. j = JNull), jf_print = (\<lambda>_. ''doc'')\<rparr>"

lemma sw_sample_reads:
  "json_reads jval_api sw_file (key_entries sw_provisioned (replicate 64 3)) sw_object"
proof -
  have "initialize (replicate 32 0) (replicate 32 7) = replicate 32 7" by code_simp
  moreover have "as_int 5 = 5" by (simp add: as_int_small)
  ultimately show ?thesis
    by (simp add: json_reads_def key_entries_def sw_file_def sw_object_def jval_api_def jval_get_def
        sw_provisioned_def sw_sample_def)
qed

theorem identity_survives_witness:
  "\<exists>t1 K1 t2.
    startProvisioning jval_api sw_file sw_crypto 0 sw_ec (True, 4 # replicate 64 1, replicate 32 7) \<lparr>kf_contents = (\<lambda>_. None), kf_writable = (\<lambda>_. True)\<rparr>
      ''k'' 5 (replicate 16 9) (replicate 32 1) sw_sample = Ret (True, t1, K1) \<and>
    SoftwareTpm_new jval_api sw_file sw_crypto sw_ec K1 77 ''k'' (sw_verifyPublicKey sw_sample) = Ret t2 \<and>
    sw_isValid t2 \<and> sw_serial t2 = 5 \<and> sw_uuid t2 = replicate 16 9 \<and>
    sw_serial t1 = 5 \<and> sw_uuid t1 = replicate 16 9 \<and> sw_key t1 = replicate 32 7 \<and> sw_key t2 = replicate 32 7 \<and>
    (\<forall>n d. sw_signDigest sw_crypto n t2 d = sw_signDigest sw_crypto n t1 d) \<and>
    (\<forall>n d. sw_signDigest sw_crypto n t2 d = [] \<or> ecdsaVerify sw_ec (4 # replicate 64 1) d (sw_signDigest sw_crypto n t2 d))"
proof -
  have "ecdsaVerify sw_ec (4 # replicate 64 1) d sig" if "ecdsaSign sw_crypto n (replicate 32 7) d = Some sig" for n d sig
    using that by (auto simp: ecdsaSign_def sw_crypto_def sw_ec_def validateEcdsaInputs_def ecdsaVerify_def kSHA256Size_def
        kP256PubKeySize_def kUncompressedKeyPrefix_def kP256SigSize_def rawToDer_def split: if_splits)
  moreover have "\<exists>t1 K1 t2.
    startProvisioning jval_api sw_file sw_crypto 0 sw_ec (True, 4 # replicate 64 1, replicate 32 7) \<lparr>kf_contents = (\<lambda>_. None), kf_writable = (\<lambda>_. True)\<rparr>
      ''k'' 5 (replicate 16 9) (replicate 32 1) sw_sample = Ret (True, t1, K1) \<and>
    SoftwareTpm_new jval_api sw_file sw_crypto sw_ec K1 77 ''k'' (sw_verifyPublicKey sw_sample) = Ret t2 \<and>
    sw_isValid t2 \<and> sw_serial t2 = 5 \<and> sw_uuid t2 = replicate 16 9 \<and>
    sw_serial t1 = 5 \<and> sw_uuid t1 = replicate 16 9 \<and> sw_key t1 = replicate 32 7 \<and> sw_key t2 = replicate 32 7 \<and>
    (\<forall>n d. sw_signDigest sw_crypto n t2 d = sw_signDigest sw_crypto n t1 d) \<and>
    ((\<forall>n d sig. ecdsaSign sw_crypto n (replicate 32 7) d = Some sig \<longrightarrow> ecdsaVerify sw_ec (4 # replicate 64 1) d sig) \<longrightarrow>
      (\<forall>n d. sw_signDigest sw_crypto n t2 d = [] \<or> ecdsaVerify sw_ec (4 # replicate 64 1) d (sw_signDigest sw_crypto n t2 d)))"
  proof (rule identity_survives [where signature = "replicate 64 3" and j = sw_object])
    show "json_reads jval_api sw_file (key_entries (sw_sample\<lparr>sw_serial := 5, sw_uuid := replicate 16 9, sw_publicKey := 4 # replicate 64 1,
        sw_key := replicate 32 7\<rparr>) (replicate 64 3)) sw_object"
      using sw_sample_reads by (simp add: sw_provisioned_def)
  qed (simp_all add: sw_sample_def sw_crypto_def sw_ec_def ecdsaSign_def validateEcdsaInputs_def kP256KeySize_def
    kSHA256Size_def getCompiledMessageDigest_def initialize_def initialize_loop_length ecdsaVerify_def kP256PubKeySize_def
    kUncompressedKeyPrefix_def kP256SigSize_def rawToDer_def)
  ultimately show ?thesis by meson
qed

text \<open>
  A larger serial number does not survive: its lowest 32 bits are read back, the digest is another one, and if the
  signature is not valid for that digest, provisioning fails although the file was written.
\<close>

lemma large_serial_refused:
  assumes "json_reads J F (key_entries (t\<lparr>sw_serial := serial, sw_uuid := uuid, sw_publicKey := publicKey, sw_key := privateKey\<rparr>) signature) j"
    and "kf_writable K filename" "length uuid = 16" "length privateKey = 32"
    and "ecdsaSign C draw (initialize (sw_initArray t) signKey)
           (getCompiledMessageDigest C (t\<lparr>sw_serial := serial, sw_uuid := uuid, sw_key := privateKey\<rparr>)) = Some signature"
    and "\<not> ecdsaVerify V (sw_verifyPublicKey t) (getCompiledMessageDigest C
           (t\<lparr>sw_serial := word_of_int (as_int (uint serial)), sw_uuid := uuid, sw_key := privateKey\<rparr>)) signature"
  shows "\<exists>t1 K1. startProvisioning J F C draw V (True, publicKey, privateKey) K filename serial uuid signKey t = Ret (False, t1, K1) \<and>
    kf_contents K1 filename \<noteq> None \<and> sw_serial t1 = 0"
proof -
  let ?t = "t\<lparr>sw_serial := serial, sw_uuid := uuid, sw_publicKey := publicKey, sw_key := privateKey\<rparr>"
  let ?K = "K\<lparr>kf_contents := (kf_contents K)(filename \<mapsto> jf_print F (key_document ?t signature) @ [CHR 0x0A])\<rparr>"
  have K: "kf_contents ?K filename = Some (jf_print F (key_document ?t signature) @ [CHR 0x0A])" by simp
  have sign: "ecdsaSign C draw (initialize (sw_initArray t) signKey) (getCompiledMessageDigest C ?t) = Some signature"
    using assms(5) by (simp add: getCompiledMessageDigest_def)
  have "\<not> ecdsaVerify V (sw_verifyPublicKey t) (getCompiledMessageDigest C
      (?t\<lparr>sw_serial := word_of_int (as_int (uint serial)), sw_uuid := uuid, sw_key := privateKey\<rparr>)) signature"
    using assms(6) by (simp add: getCompiledMessageDigest_def)
  then have "readData J F C V ?K filename ?t =
      Ret (sw_clear (?t\<lparr>sw_serial := word_of_int (as_int (uint serial)), sw_uuid := uuid, sw_key := privateKey\<rparr>))"
    using read_key_document [OF assms(1) K, of ?t C V] assms(3,4) by (simp add: Let_def)
  then show ?thesis
    using assms(2) sign
    by (simp add: startProvisioning_def writeJsonFile_def sw_isValid_def ECCP256_KEY_SIZE_def sw_clear_def Let_def)
qed

lemma large_serial_changes:
  assumes "2 ^ 31 \<le> uint (serial :: u64)" "uint serial < 2 ^ 64 - 2 ^ 31"
  shows "word_of_int (as_int (uint serial)) \<noteq> serial"
proof
  have "uint (word_of_int i :: u64) = i mod 2 ^ 64" for i by (simp add: unsigned_of_int take_bit_eq_mod)
  moreover assume "word_of_int (as_int (uint serial)) = serial"
  ultimately have "uint serial = as_int (uint serial) mod 2 ^ 64" by metis
  moreover have "as_int (uint serial) mod 2 ^ 64 =
      (if as_int (uint serial) < 0 then as_int (uint serial) + 2 ^ 64 else as_int (uint serial))"
    using as_int_range [of "uint serial"]
      mod_pos_pos_trivial [of "as_int (uint serial) + 2 ^ 64" "2 ^ 64"] by simp
  ultimately show False using assms as_int_range [of "uint serial"] by (simp split: if_splits)
qed

end
