(* ===== verification/Cpp_Event.thy ===== *)
theory Cpp_Event
  imports Event_Helpers Leaderboard
begin

text \<open>
  The header-only C++ interface for reading: \<^verbatim>\<open>include/scorbit_sdk/event.h\<close>, \<^verbatim>\<open>player_info.h\<close>,
  \<^verbatim>\<open>pricing_info.h\<close> and \<^verbatim>\<open>leaderboard.h\<close>. Every function is written over the C function that it calls, as the
  header is: it copies the texts that C hands out, up to their first null character, into \<^verbatim>\<open>std::string\<close>. A
  parameter that is passed by reference is an argument and a part of the result.
\<close>

section \<open>Events\<close>

record BundlePrice =
  bp_credits :: int
  bp_price :: string
  bp_regularPrice :: string
  bp_salePrice :: string

record PricingInfo =
  pi_freePlay :: bool
  pi_paymentsEnabled :: bool
  pi_creditPrice :: string
  pi_creditRegularPrice :: string
  pi_creditSalePrice :: string
  pi_bundles :: "BundlePrice list"

record PlayerInfo =
  pl_id :: string
  pl_preferredName :: string
  pl_name :: string
  pl_initials :: string
  pl_pictureUrl :: string
  pl_claimDeeplink :: string

definition BundlePrice_new :: BundlePrice where
  "BundlePrice_new = \<lparr>bp_credits = 0, bp_price = [], bp_regularPrice = [], bp_salePrice = []\<rparr>"

definition PricingInfo_new :: PricingInfo where
  "PricingInfo_new = \<lparr>pi_freePlay = False, pi_paymentsEnabled = False, pi_creditPrice = [], pi_creditRegularPrice = [],
     pi_creditSalePrice = [], pi_bundles = []\<rparr>"

definition PlayerInfo_new :: PlayerInfo where
  "PlayerInfo_new = \<lparr>pl_id = [], pl_preferredName = [], pl_name = [], pl_initials = [], pl_pictureUrl = [], pl_claimDeeplink = []\<rparr>"

definition PlayerInfo_hasInfo :: "PlayerInfo \<Rightarrow> bool" where
  "PlayerInfo_hasInfo i \<longleftrightarrow> pl_id i \<noteq> []"

text \<open>A call that succeeds assigns its result, a call that fails leaves the variable as it was.\<close>

definition assigned :: "'a option \<Rightarrow> 'a \<Rightarrow> 'a" where
  "assigned r old = (case r of None \<Rightarrow> old | Some v \<Rightarrow> v)"

lemma assigned_simps [simp]: "assigned None old = old" "assigned (Some v) old = v"
  by (simp_all add: assigned_def)

definition getGameStartRequested :: "'j EventBase option \<Rightarrow> int \<Rightarrow> bool \<times> int" where
  "getGameStartRequested e old =
     (let r = sb_event_game_start_requested e True in (r \<noteq> None, assigned r old))"

definition getCreditsAddRequested :: "'j EventBase option \<Rightarrow> int \<times> string \<Rightarrow> bool \<times> int \<times> string" where
  "getCreditsAddRequested e old =
     (case sb_event_credits_add_requested e True True of None \<Rightarrow> (False, old) | Some new \<Rightarrow> (True, new))"

definition pricing_bundle :: "'j EventBase option \<Rightarrow> int \<Rightarrow> BundlePrice" where
  "pricing_bundle e i =
     (let bundle = BundlePrice_new;
          bundle = bundle\<lparr>bp_credits := assigned (sb_event_pricing_bundle_credits e i True) (bp_credits bundle)\<rparr>;
          bundle = bundle\<lparr>bp_price := assigned (sb_event_pricing_bundle_price e i True) (bp_price bundle)\<rparr>;
          bundle = bundle\<lparr>bp_regularPrice := assigned (sb_event_pricing_bundle_regular_price e i True) (bp_regularPrice bundle)\<rparr>
      in bundle\<lparr>bp_salePrice := assigned (sb_event_pricing_bundle_sale_price e i True) (bp_salePrice bundle)\<rparr>)"

definition getPricingReceived :: "'j EventBase option \<Rightarrow> PricingInfo \<Rightarrow> bool \<times> PricingInfo" where
  "getPricingReceived e info =
     (case sb_event_pricing_free_play e True of
        None \<Rightarrow> (False, info)
      | Some freePlay \<Rightarrow>
          let info = info\<lparr>pi_freePlay := freePlay\<rparr>;
              info = info\<lparr>pi_paymentsEnabled := assigned (sb_event_pricing_payments_enabled e True) (pi_paymentsEnabled info)\<rparr>;
              info = info\<lparr>pi_creditPrice := assigned (sb_event_pricing_credit_price e True) (pi_creditPrice info)\<rparr>;
              info = info\<lparr>pi_creditRegularPrice := assigned (sb_event_pricing_credit_regular_price e True) (pi_creditRegularPrice info)\<rparr>;
              info = info\<lparr>pi_creditSalePrice := assigned (sb_event_pricing_credit_sale_price e True) (pi_creditSalePrice info)\<rparr>;
              n = assigned (sb_event_pricing_bundles_count e True) 0
          in (True, info\<lparr>pi_bundles := map (pricing_bundle e) [0 .. n - 1]\<rparr>))"

definition getPairingStatusChanged :: "'j EventBase option \<Rightarrow> bool \<Rightarrow> bool \<times> bool" where
  "getPairingStatusChanged e isPaired =
     (let r = sb_event_pairing_status_changed e True in (r \<noteq> None, assigned r isPaired))"

definition event_player :: "'j EventBase option \<Rightarrow> sb_player_t \<Rightarrow> PlayerInfo" where
  "event_player e p =
     (let info = PlayerInfo_new;
          info = info\<lparr>pl_id := assigned (sb_event_player_id e p True) (pl_id info)\<rparr>;
          info = info\<lparr>pl_preferredName := assigned (sb_event_player_preferred_name e p True) (pl_preferredName info)\<rparr>;
          info = info\<lparr>pl_name := assigned (sb_event_player_name e p True) (pl_name info)\<rparr>;
          info = info\<lparr>pl_initials := assigned (sb_event_player_initials e p True) (pl_initials info)\<rparr>;
          info = info\<lparr>pl_pictureUrl := assigned (sb_event_player_picture_url e p True) (pl_pictureUrl info)\<rparr>
      in info\<lparr>pl_claimDeeplink := assigned (sb_event_player_claim_deeplink e p True) (pl_claimDeeplink info)\<rparr>)"

text \<open>The keys are \<^verbatim>\<open>1\<close> to the count; \<^verbatim>\<open>emplace\<close> does not replace.\<close>

definition getPlayersUpdated :: "'j EventBase option \<Rightarrow> (sb_player_t \<rightharpoonup> PlayerInfo) \<Rightarrow> bool \<times> (sb_player_t \<rightharpoonup> PlayerInfo)" where
  "getPlayersUpdated e old =
     (case sb_event_players_updated e True of
        None \<Rightarrow> (False, old)
      | Some n \<Rightarrow> (True, map_of (map (\<lambda>i. let p = word_of_int i in (p, event_player e p)) [1 .. n])))"

definition getPlayerPictureReady :: "'j EventBase option \<Rightarrow> sb_player_t \<times> Picture \<Rightarrow> bool \<times> sb_player_t \<times> Picture" where
  "getPlayerPictureReady e old =
     (case sb_event_player_picture_ready e True True True of
        None \<Rightarrow> (False, old)
      | Some (player, data, sz) \<Rightarrow> (True, player, take sz data))"

definition getDiagnosticsUploadRequested :: "'j EventBase option \<Rightarrow> bool \<Rightarrow> bool \<times> bool" where
  "getDiagnosticsUploadRequested e old =
     (let r = sb_event_diagnostics_upload_requested e True in (r \<noteq> None, assigned r old))"

definition getDiagnosticsUploaded :: "'j EventBase option \<Rightarrow> bool \<Rightarrow> bool \<times> bool" where
  "getDiagnosticsUploaded e old =
     (let r = sb_event_diagnostics_uploaded e True in (r \<noteq> None, assigned r old))"

definition eventConfigReceived :: "'j json_api \<Rightarrow> 'j EventBase option \<Rightarrow> string \<Rightarrow> bool \<times> string" where
  "eventConfigReceived J e old =
     (case sb_event_config_received J e True of None \<Rightarrow> (False, old) | Some s \<Rightarrow> (True, s))"

definition eventScorbitdUpdateReceived :: "'j EventBase option \<Rightarrow> string \<Rightarrow> bool \<times> string" where
  "eventScorbitdUpdateReceived e old =
     (case sb_event_scorbitd_update_received e True of None \<Rightarrow> (False, old) | Some s \<Rightarrow> (True, s))"

definition eventScorbitdUpdated :: "'j EventBase option \<Rightarrow> string \<times> string \<Rightarrow> bool \<times> string \<times> string" where
  "eventScorbitdUpdated e old =
     (case sb_event_scorbitd_updated e True True of None \<Rightarrow> (False, old) | Some new \<Rightarrow> (True, new))"

definition eventFirmwaresListReceived :: "'j EventBase option \<Rightarrow> string \<Rightarrow> bool \<times> string" where
  "eventFirmwaresListReceived e old =
     (case sb_event_firmwares_list_received e True of None \<Rightarrow> (False, old) | Some s \<Rightarrow> (True, s))"

section \<open>Leaderboards\<close>

record LeaderboardPlayer =
  lbp_id :: string
  lbp_username :: string
  lbp_displayName :: string
  lbp_initials :: string
  lbp_avatarUrl :: string
  lbp_followerCount :: int
  lbp_followingCount :: int
  lbp_lastLogin :: string

record LeaderboardEntry =
  lb_id :: u64
  lb_rank :: int
  lb_player :: LeaderboardPlayer
  lb_highScore :: sb_score_t
  lb_image :: string
  lb_reactionCount :: int
  lb_scoreCount :: int
  lb_isNfcVerified :: bool
  lb_isVerified :: bool
  lb_isVpin :: bool
  lb_created :: string

definition LeaderboardPlayer_new :: LeaderboardPlayer where
  "LeaderboardPlayer_new = \<lparr>lbp_id = [], lbp_username = [], lbp_displayName = [], lbp_initials = [], lbp_avatarUrl = [],
     lbp_followerCount = 0, lbp_followingCount = 0, lbp_lastLogin = []\<rparr>"

definition LeaderboardEntry_new :: LeaderboardEntry where
  "LeaderboardEntry_new = \<lparr>lb_id = 0, lb_rank = 0, lb_player = LeaderboardPlayer_new, lb_highScore = 0, lb_image = [],
     lb_reactionCount = 0, lb_scoreCount = 0, lb_isNfcVerified = False, lb_isVerified = False, lb_isVpin = False,
     lb_created = []\<rparr>"

definition leaderboard_text :: "(sb_leaderboard_t option \<Rightarrow> nat \<Rightarrow> bool \<Rightarrow> string option) \<Rightarrow> sb_leaderboard_t option \<Rightarrow> nat \<Rightarrow> string \<Rightarrow> string" where
  "leaderboard_text f leaderboard i old = assigned (map_option c_str (f leaderboard i True)) old"

definition player_fromC :: "sb_leaderboard_t option \<Rightarrow> nat \<Rightarrow> LeaderboardPlayer" where
  "player_fromC lb i =
     (let p = LeaderboardPlayer_new;
          p = p\<lparr>lbp_id := leaderboard_text sb_leaderboard_entry_player_id lb i (lbp_id p)\<rparr>;
          p = p\<lparr>lbp_username := leaderboard_text sb_leaderboard_entry_player_username lb i (lbp_username p)\<rparr>;
          p = p\<lparr>lbp_displayName := leaderboard_text sb_leaderboard_entry_player_display_name lb i (lbp_displayName p)\<rparr>;
          p = p\<lparr>lbp_initials := leaderboard_text sb_leaderboard_entry_player_initials lb i (lbp_initials p)\<rparr>;
          p = p\<lparr>lbp_avatarUrl := leaderboard_text sb_leaderboard_entry_player_avatar lb i (lbp_avatarUrl p)\<rparr>;
          p = p\<lparr>lbp_followerCount := assigned (sb_leaderboard_entry_player_follower_count lb i True) (lbp_followerCount p)\<rparr>;
          p = p\<lparr>lbp_followingCount := assigned (sb_leaderboard_entry_player_following_count lb i True) (lbp_followingCount p)\<rparr>
      in p\<lparr>lbp_lastLogin := leaderboard_text sb_leaderboard_entry_player_last_login lb i (lbp_lastLogin p)\<rparr>)"

definition entry_fromC :: "sb_leaderboard_t option \<Rightarrow> nat \<Rightarrow> LeaderboardEntry" where
  "entry_fromC lb i =
     (let e = LeaderboardEntry_new;
          e = e\<lparr>lb_id := assigned (sb_leaderboard_entry_id lb i True) (lb_id e)\<rparr>;
          e = e\<lparr>lb_rank := assigned (sb_leaderboard_entry_rank lb i True) (lb_rank e)\<rparr>;
          e = e\<lparr>lb_highScore := assigned (sb_leaderboard_entry_high_score lb i True) (lb_highScore e)\<rparr>;
          e = e\<lparr>lb_image := leaderboard_text sb_leaderboard_entry_image lb i (lb_image e)\<rparr>;
          e = e\<lparr>lb_reactionCount := assigned (sb_leaderboard_entry_reaction_count lb i True) (lb_reactionCount e)\<rparr>;
          e = e\<lparr>lb_scoreCount := assigned (sb_leaderboard_entry_score_count lb i True) (lb_scoreCount e)\<rparr>;
          e = e\<lparr>lb_isNfcVerified := assigned (sb_leaderboard_entry_is_nfc_verified lb i True) (lb_isNfcVerified e)\<rparr>;
          e = e\<lparr>lb_isVerified := assigned (sb_leaderboard_entry_is_verified lb i True) (lb_isVerified e)\<rparr>;
          e = e\<lparr>lb_isVpin := assigned (sb_leaderboard_entry_is_vpin lb i True) (lb_isVpin e)\<rparr>;
          e = e\<lparr>lb_created := leaderboard_text sb_leaderboard_entry_created lb i (lb_created e)\<rparr>
      in e\<lparr>lb_player := player_fromC lb i\<rparr>)"

definition fromC :: "sb_leaderboard_t option \<Rightarrow> LeaderboardEntry list" where
  "fromC leaderboard = map (entry_fromC leaderboard) [0 ..< sb_leaderboard_entries_count leaderboard]"

section \<open>Properties\<close>

lemma c_str_simps [simp]: "c_str [] = []"
  by (simp add: c_str_def)

lemma int_of_size_small: "n < 2 ^ 31 \<Longrightarrow> int_of_size n = int n"
  by (simp add: int_of_size_def signed_of_nat signed_take_bit_int_eq_self_iff)

text \<open>What the C++ types say of a profile, of a bundle and of an entry.\<close>

definition profile_info :: "PlayerProfile \<Rightarrow> PlayerInfo" where
  "profile_info p =
     \<lparr>pl_id = c_str (pp_id p), pl_preferredName = c_str (if preferInitials p then initials p else pp_name p),
      pl_name = c_str (pp_name p), pl_initials = c_str (initials p), pl_pictureUrl = c_str (pictureUrl p),
      pl_claimDeeplink = c_str (claimDeeplink p)\<rparr>"

definition bundle_info :: "Bundle \<Rightarrow> BundlePrice" where
  "bundle_info b = \<lparr>bp_credits = b_credits b, bp_price = c_str (b_price b), bp_regularPrice = c_str (b_regularPrice b),
     bp_salePrice = c_str (b_salePrice b)\<rparr>"

definition entry_info :: "LeaderboardEntryData \<Rightarrow> LeaderboardEntry" where
  "entry_info e =
     \<lparr>lb_id = le_id e, lb_rank = le_rank e,
      lb_player = \<lparr>lbp_id = c_str (lp_id (le_player e)), lbp_username = c_str (lp_username (le_player e)),
        lbp_displayName = c_str (lp_displayName (le_player e)), lbp_initials = c_str (lp_initials (le_player e)),
        lbp_avatarUrl = c_str (lp_avatar (le_player e)), lbp_followerCount = lp_followerCount (le_player e),
        lbp_followingCount = lp_followingCount (le_player e), lbp_lastLogin = c_str (lp_lastLogin (le_player e))\<rparr>,
      lb_highScore = le_highScore e, lb_image = c_str (le_image e), lb_reactionCount = le_reactionCount e,
      lb_scoreCount = le_scoreCount e, lb_isNfcVerified = le_isNfcVerified e, lb_isVerified = le_isVerified e,
      lb_isVpin = le_isVpin e, lb_created = c_str (le_created e)\<rparr>"

lemma entry_fromC_nth: "i < length lb \<Longrightarrow> entry_fromC (Some lb) i = entry_info (lb ! i)"
  by (simp add: entry_fromC_def player_fromC_def Let_def LeaderboardEntry_new_def LeaderboardPlayer_new_def entry_info_def
      leaderboard_text_def player_text_def getEntry_def sb_leaderboard_entry_id_def sb_leaderboard_entry_rank_def
      sb_leaderboard_entry_high_score_def sb_leaderboard_entry_image_def sb_leaderboard_entry_reaction_count_def
      sb_leaderboard_entry_score_count_def sb_leaderboard_entry_is_nfc_verified_def sb_leaderboard_entry_is_verified_def
      sb_leaderboard_entry_is_vpin_def sb_leaderboard_entry_created_def sb_leaderboard_entry_player_id_def
      sb_leaderboard_entry_player_username_def sb_leaderboard_entry_player_display_name_def
      sb_leaderboard_entry_player_initials_def sb_leaderboard_entry_player_avatar_def
      sb_leaderboard_entry_player_last_login_def sb_leaderboard_entry_player_follower_count_def
      sb_leaderboard_entry_player_following_count_def)

lemma fromC_exact: "fromC (Some lb) = map entry_info lb" "fromC None = []"
proof -
  show "fromC (Some lb) = map entry_info lb"
    by (rule nth_equalityI) (simp_all add: fromC_def sb_leaderboard_entries_count_def entry_fromC_nth)
qed (simp add: fromC_def sb_leaderboard_entries_count_def)

lemma event_player_nth:
  assumes "ev_body e = PlayersUpdatedEvent ps" "p \<noteq> 0" "unat p \<le> length ps"
  shows "event_player (Some e) p = profile_info (ps ! (unat p - 1))"
proof -
  have "toPlayerProfile (Some e) p = Some (ps ! (unat p - 1))"
    using assms by (simp add: toPlayerProfile_def playerByNumber_def)
  then show ?thesis
    by (simp add: event_player_def PlayerInfo_new_def profile_info_def Let_def sb_event_player_id_def
        sb_event_player_preferred_name_def sb_event_player_name_def sb_event_player_initials_def
        sb_event_player_picture_url_def sb_event_player_claim_deeplink_def)
qed

lemma map_of_words:
  assumes "n < 2 ^ 31"
  shows "map_of (map (\<lambda>i. let p = word_of_int i in (p :: u32, f p)) [1 .. n]) =
    (\<lambda>p. if 1 \<le> uint p \<and> uint p \<le> n then Some (f p) else None)"
proof
  fix p :: u32
  have inverse: "uint (word_of_int i :: u32) = i" if "i \<in> {1 .. n}" for i
    using that assms by (simp add: unsigned_of_int take_bit_int_eq_self)
  have keys: "p \<in> word_of_int ` {1 .. n} \<longleftrightarrow> uint p \<in> {1 .. n}"
    using inverse by (metis image_iff word_of_int_uint)
  show "map_of (map (\<lambda>i. let p = word_of_int i in (p :: u32, f p)) [1 .. n]) p =
    (if 1 \<le> uint p \<and> uint p \<le> n then Some (f p) else None)"
  proof (cases "uint p \<in> {1 .. n}")
    case True
    then have "p \<in> dom (map_of (map (\<lambda>i. let p = word_of_int i in (p :: u32, f p)) [1 .. n]))"
      using keys by (simp add: dom_map_of_conv_image_fst image_image Let_def)
    then obtain v where v: "map_of (map (\<lambda>i. let p = word_of_int i in (p :: u32, f p)) [1 .. n]) p = Some v" by blast
    from map_of_SomeD [OF this] have "v = f p" by (auto simp: Let_def)
    with v True show ?thesis by simp
  next
    case False
    then have "map_of (map (\<lambda>i. let p = word_of_int i in (p :: u32, f p)) [1 .. n]) p = None"
      using keys by (simp add: map_of_eq_None_iff image_image Let_def)
    with False show ?thesis by simp
  qed
qed

text \<open>
  The C++ interface shows an event as it is. The players of an event come back under their numbers, each
  with its texts up to the first null character; whatever the map held before is gone.
\<close>

theorem players_event_exact:
  assumes "ev_body e = PlayersUpdatedEvent ps" "length ps < 2 ^ 31"
  shows "getPlayersUpdated (Some e) old = (True, \<lambda>p.
    if p \<noteq> 0 \<and> unat p \<le> length ps then Some (profile_info (ps ! (unat p - 1))) else None)"
proof -
  have n: "sb_event_players_updated (Some e) True = Some (int (length ps))"
    using assms by (simp add: sb_event_players_updated_def playersCount_def int_of_size_small)
  have "1 \<le> uint p \<and> uint p \<le> int (length ps) \<longleftrightarrow> p \<noteq> 0 \<and> unat p \<le> length ps" for p :: u32
  proof -
    have "1 \<le> unat p \<longleftrightarrow> p \<noteq> 0" by (metis Suc_le_eq One_nat_def unat_gt_0)
    moreover have "1 \<le> u \<and> u \<le> int n \<longleftrightarrow> 1 \<le> k \<and> k \<le> n" if "u = int k" for u k n using that by auto
    from this [OF uint_nat] have "1 \<le> uint p \<and> uint p \<le> int (length ps) \<longleftrightarrow> 1 \<le> unat p \<and> unat p \<le> length ps" .
    ultimately show ?thesis by blast
  qed
  then show ?thesis
    using assms event_player_nth [OF assms(1)]
    by (auto simp: getPlayersUpdated_def n map_of_words)
qed

theorem players_event_exact_witness:
  "getPlayersUpdated (Some (fst (make_event (PlayersUpdatedEvent [\<lparr>pp_player = 1, preferInitials = True, pp_id = ''a'',
      username = [], pp_name = ''n'', initials = ''i'', pictureUrl = [], pp_url = [], claimDeeplink = []\<rparr>]) 0) :: jval EventBase))
     Map.empty = (True, [1 \<mapsto> \<lparr>pl_id = ''a'', pl_preferredName = ''i'', pl_name = ''n'', pl_initials = ''i'',
      pl_pictureUrl = [], pl_claimDeeplink = []\<rparr>])"
proof -
  let ?p = "\<lparr>pp_player = 1, preferInitials = True, pp_id = ''a'', username = [], pp_name = ''n'', initials = ''i'',
    pictureUrl = [], pp_url = [], claimDeeplink = []\<rparr>"
  let ?i = "\<lparr>pl_id = ''a'', pl_preferredName = ''i'', pl_name = ''n'', pl_initials = ''i'', pl_pictureUrl = [], pl_claimDeeplink = []\<rparr>"
  have info: "profile_info ?p = ?i" by (simp add: profile_info_def c_str_def)
  have one: "(p :: u32) \<noteq> 0 \<and> unat p \<le> 1 \<longleftrightarrow> p = 1" for p
    by unat_arith
  have body: "ev_body (fst (make_event (PlayersUpdatedEvent [?p]) 0 :: jval EventBase \<times> u64)) = PlayersUpdatedEvent [?p]"
    by (simp add: make_event_def Let_def)
  show ?thesis
    using players_event_exact [OF body, of Map.empty] one info by (auto simp: fun_eq_iff)
qed

text \<open>A pricing event reads into a fresh object as it is.\<close>

lemma pricing_bundle_nth:
  assumes "ev_body e = PricingReceivedEvent p" "length (m_bundles p) < 2 ^ 31" "i < length (m_bundles p)"
  shows "pricing_bundle (Some e) (int i) = bundle_info (m_bundles p ! i)"
proof -
  have "bundle_at (int i) p = Some (m_bundles p ! i)" using assms by (simp add: bundle_at_Some)
  then show ?thesis
    using assms(1)
    by (simp add: pricing_bundle_def BundlePrice_new_def bundle_info_def Let_def toPricingEvent_def
        sb_event_pricing_bundle_credits_def sb_event_pricing_bundle_price_def
        sb_event_pricing_bundle_regular_price_def sb_event_pricing_bundle_sale_price_def)
qed

lemma pricing_event_exact:
  assumes "ev_body e = PricingReceivedEvent p" "length (m_bundles p) < 2 ^ 31" "hasPrices p"
  shows "getPricingReceived (Some e) info = (True,
    \<lparr>pi_freePlay = m_freePlay p, pi_paymentsEnabled = m_paymentsEnabled p, pi_creditPrice = c_str (m_creditPrice p),
     pi_creditRegularPrice = c_str (m_creditRegularPrice p),
     pi_creditSalePrice = (if m_creditSalePrice p = [] then pi_creditSalePrice info else c_str (m_creditSalePrice p)),
     pi_bundles = map bundle_info (m_bundles p)\<rparr>)"
proof -
  have "map (pricing_bundle (Some e)) [0 .. int (length (m_bundles p)) - 1] = map bundle_info (m_bundles p)"
    using pricing_bundle_nth [OF assms(1,2)]
    by (intro nth_equalityI) (simp_all add: nth_upto)
  then show ?thesis
    using assms
    by (simp add: getPricingReceived_def toPricingEvent_def sb_event_pricing_free_play_def
        sb_event_pricing_payments_enabled_def sb_event_pricing_credit_price_def sb_event_pricing_credit_regular_price_def
        sb_event_pricing_credit_sale_price_def sb_event_pricing_bundles_count_def bundlesCount_def int_of_size_small Let_def)
qed

text \<open>An object that is used again keeps the sale price of an earlier event after the sale has ended.\<close>

lemma stale_sale_price:
  assumes "ev_body e = PricingReceivedEvent p" "length (m_bundles p) < 2 ^ 31" "hasPrices p" "m_creditSalePrice p = []"
  shows "pi_creditSalePrice (snd (getPricingReceived (Some e) info)) = pi_creditSalePrice info"
  using pricing_event_exact [OF assms(1-3)] assms(4) by simp

end
