(* ===== verification/Cpp_Game_State.thy ===== *)
theory Cpp_Game_State
  imports Cpp_Event Game_State_C Net_Device
begin

text \<open>
  The header-only C++ interface for configuring and playing: \<^verbatim>\<open>include/scorbit_sdk/config.h\<close>,
  \<^verbatim>\<open>game_state.h\<close> and \<^verbatim>\<open>game_state_factory.h\<close>. It passes texts on as C strings, and gives C the address of a
  closure on the heap together with a static function that calls it.

  Closures are numbers, and what a closure does is an argument. The heap maps the address of an object
  to the closure in it, \<open>None\<close> for an empty \<^verbatim>\<open>std::function\<close>; an address that is not in the heap is dangling, and
  using it is \<open>Undef\<close>. A new object is put at an address that the caller chooses.
\<close>

type_synonym cpp_heap = "nat \<rightharpoonup> nat option"

text \<open>The static functions as C function pointers.\<close>

datatype cpp_function = StringFn | BufferFn | LeaderboardFn | EventFn | SaveKeyFn | LoadKeyFn

fun fn_pointer :: "cpp_function \<Rightarrow> nat" where
  "fn_pointer StringFn = 1"
| "fn_pointer BufferFn = 2"
| "fn_pointer LeaderboardFn = 3"
| "fn_pointer EventFn = 4"
| "fn_pointer SaveKeyFn = 5"
| "fn_pointer LoadKeyFn = 6"

section \<open>Callbacks of requests\<close>

text \<open>What the closures are called with; an \<^verbatim>\<open>Error\<close> is shown by its code.\<close>

datatype cpp_act =
    CppString nat int string
  | CppBuffer nat int ByteArray
  | CppLeaderboard nat int "LeaderboardEntry list"

definition prepareCallback :: "cpp_function \<Rightarrow> nat \<Rightarrow> nat option \<Rightarrow> cpp_heap \<Rightarrow> (nat option \<times> nat) \<times> cpp_heap" where
  "prepareCallback f address callback heap = ((Some (fn_pointer f), address), heap(address := Some callback))"

text \<open>A call of an empty function throws, and the object is not deleted then.\<close>

definition call_and_delete :: "(nat \<Rightarrow> cpp_act) \<Rightarrow> nat \<Rightarrow> cpp_heap \<Rightarrow> (cpp_act \<times> cpp_heap) res" where
  "call_and_delete act user_data heap =
     (case heap user_data of
        None \<Rightarrow> Undef
      | Some None \<Rightarrow> Exn
      | Some (Some cb) \<Rightarrow> Ret (act cb, heap(user_data := None)))"

definition string_callback_c :: "int \<Rightarrow> string option \<Rightarrow> nat \<Rightarrow> cpp_heap \<Rightarrow> (cpp_act \<times> cpp_heap) res" where
  "string_callback_c error reply = call_and_delete (\<lambda>cb. CppString cb error (case reply of None \<Rightarrow> [] | Some s \<Rightarrow> c_str s))"

definition buffer_callback_c :: "int \<Rightarrow> ByteArray option \<Rightarrow> nat \<Rightarrow> nat \<Rightarrow> cpp_heap \<Rightarrow> (cpp_act \<times> cpp_heap) res" where
  "buffer_callback_c error data sz =
     (let sz = (if data = None then 0 else sz)
      in call_and_delete (\<lambda>cb. CppBuffer cb error (case data of None \<Rightarrow> [] | Some d \<Rightarrow> take sz d)))"

definition leaderboard_callback_c :: "int \<Rightarrow> sb_leaderboard_t option \<Rightarrow> nat \<Rightarrow> cpp_heap \<Rightarrow> (cpp_act \<times> cpp_heap) res" where
  "leaderboard_callback_c error leaderboard =
     call_and_delete (\<lambda>cb. CppLeaderboard cb error (case leaderboard of None \<Rightarrow> [] | Some lb \<Rightarrow> fromC (Some lb)))"

section \<open>Calls\<close>

definition toCHeaders :: "HttpHeaders \<Rightarrow> (string option \<times> string option) list" where
  "toCHeaders headers = map (\<lambda>(name, value). (Some (c_str name), Some (c_str value))) headers"

definition path_array :: "string list \<Rightarrow> string option list option" where
  "path_array paths = (if paths = [] then None else Some (map (\<lambda>p. Some (c_str p)) paths))"

text \<open>
  The methods of \<^verbatim>\<open>GameState\<close>. A method with a callback says at which address its object is put and which
  closure it holds.
\<close>

definition GameState_setGameStarted :: "nat \<Rightarrow> GameStartOrigin \<Rightarrow> sb_game_state_struct \<Rightarrow> sb_game_state_struct" where
  "GameState_setGameStarted t origin = sb_set_game_started t origin"

definition GameState_setGameFinished :: "nat \<Rightarrow> sb_game_state_struct \<Rightarrow> sb_game_state_struct" where
  "GameState_setGameFinished t = sb_set_game_finished t"

definition GameState_setCurrentBall :: "nat \<Rightarrow> sb_ball_t \<Rightarrow> sb_game_state_struct \<Rightarrow> sb_game_state_struct" where
  "GameState_setCurrentBall t b = sb_set_current_ball t b"

definition GameState_setActivePlayer :: "nat \<Rightarrow> sb_player_t \<Rightarrow> sb_game_state_struct \<Rightarrow> sb_game_state_struct" where
  "GameState_setActivePlayer t player = sb_set_active_player t player"

definition GameState_setScore :: "nat \<Rightarrow> sb_player_t \<Rightarrow> sb_score_t \<Rightarrow> sb_score_feature_t \<Rightarrow> sb_game_state_struct \<Rightarrow> sb_game_state_struct" where
  "GameState_setScore t player score feature = sb_set_score t player score feature"

definition GameState_addMode :: "nat \<Rightarrow> string \<Rightarrow> sb_game_state_struct \<Rightarrow> sb_game_state_struct" where
  "GameState_addMode t mode = sb_add_mode t (Some (c_str mode))"

definition GameState_addModeExpiring :: "nat \<Rightarrow> string \<Rightarrow> u32 \<Rightarrow> sb_game_state_struct \<Rightarrow> sb_game_state_struct" where
  "GameState_addModeExpiring t mode duration_s = sb_add_mode_expiring t (Some (c_str mode)) duration_s"

definition GameState_removeMode :: "nat \<Rightarrow> string \<Rightarrow> sb_game_state_struct \<Rightarrow> sb_game_state_struct" where
  "GameState_removeMode t mode = sb_remove_mode t (Some (c_str mode))"

definition GameState_clearModes :: "nat \<Rightarrow> sb_game_state_struct \<Rightarrow> sb_game_state_struct" where
  "GameState_clearModes t = sb_clear_modes t"

definition GameState_commit :: "nat \<Rightarrow> sb_game_state_struct \<Rightarrow> sb_game_state_struct" where
  "GameState_commit t = sb_commit t"

definition GameState_requestTopScores :: "nat \<Rightarrow> LeaderboardScope \<Rightarrow> LeaderboardPeriod \<Rightarrow> string \<Rightarrow> LeaderboardVpinFilter \<Rightarrow> nat \<Rightarrow> nat option
    \<Rightarrow> sb_game_state_struct \<times> cpp_heap \<Rightarrow> (sb_game_state_struct \<times> cpp_heap) res" where
  "GameState_requestTopScores t scope period since vpinFilter a callback = (\<lambda>(h, heap).
     let ((cb, ud), heap) = prepareCallback LeaderboardFn a callback heap
     in Ret (sb_request_top_scores t scope period (if since = [] then None else Some (c_str since)) vpinFilter cb ud h, heap))"

definition GameState_requestPairCode :: "nat \<Rightarrow> nat \<Rightarrow> nat option
    \<Rightarrow> sb_game_state_struct \<times> cpp_heap \<Rightarrow> (sb_game_state_struct \<times> cpp_heap) res" where
  "GameState_requestPairCode t a callback = (\<lambda>(h, heap).
     let ((cb, ud), heap) = prepareCallback StringFn a callback heap
     in Ret (sb_request_pair_code t cb ud h, heap))"

definition GameState_requestUnpair :: "nat \<Rightarrow> nat \<Rightarrow> nat option
    \<Rightarrow> sb_game_state_struct \<times> cpp_heap \<Rightarrow> (sb_game_state_struct \<times> cpp_heap) res" where
  "GameState_requestUnpair t a callback = (\<lambda>(h, heap).
     let ((cb, ud), heap) = prepareCallback StringFn a callback heap
     in Ret (sb_request_unpair t cb ud h, heap))"

definition GameState_setCapabilities :: "nat \<Rightarrow> u32 \<Rightarrow> sb_game_state_struct \<Rightarrow> sb_game_state_struct" where
  "GameState_setCapabilities t capabilities = sb_set_capabilities t capabilities"

definition GameState_setCreditsDropped :: "nat \<Rightarrow> int \<Rightarrow> string \<Rightarrow> bool \<Rightarrow> sb_game_state_struct \<Rightarrow> sb_game_state_struct" where
  "GameState_setCreditsDropped t credits transaction success = sb_set_credits_dropped t credits (Some (c_str transaction)) success"

definition GameState_setCreditsStatus :: "nat \<Rightarrow> bool \<Rightarrow> int \<Rightarrow> int \<Rightarrow> (string option) \<Rightarrow> sb_game_state_struct \<Rightarrow> sb_game_state_struct" where
  "GameState_setCreditsStatus t freePlay credits maxCredits pricing = sb_set_credits_status t freePlay credits maxCredits (map_option c_str pricing)"

definition GameState_uploadDiagnostics :: "nat \<Rightarrow> (string list) \<Rightarrow> (string list) \<Rightarrow> string
    \<Rightarrow> sb_game_state_struct \<Rightarrow> sb_game_state_struct res" where
  "GameState_uploadDiagnostics t logPaths recordingPaths logString =
     sb_upload_diagnostics t (path_array logPaths) (length logPaths) (path_array recordingPaths)
       (length recordingPaths) (Some (c_str logString))"

definition GameState_requestPairMachine :: "nat \<Rightarrow> string \<Rightarrow> string \<Rightarrow> nat \<Rightarrow> nat option
    \<Rightarrow> sb_game_state_struct \<times> cpp_heap \<Rightarrow> (sb_game_state_struct \<times> cpp_heap) res" where
  "GameState_requestPairMachine t machine owner a callback = (\<lambda>(h, heap).
     let ((cb, ud), heap) = prepareCallback StringFn a callback heap
     in Ret (sb_game_request_pair_machine t (Some (c_str machine)) (Some (c_str owner)) cb ud h, heap))"

definition GameState_download :: "nat \<Rightarrow> string \<Rightarrow> string \<Rightarrow> HttpHeaders \<Rightarrow> nat \<Rightarrow> nat option
    \<Rightarrow> sb_game_state_struct \<times> cpp_heap \<Rightarrow> (sb_game_state_struct \<times> cpp_heap) res" where
  "GameState_download t url filename headers a callback = (\<lambda>(h, heap).
     let ((cb, ud), heap) = prepareCallback StringFn a callback heap
     in res_bind (sb_download t (Some (c_str url)) (Some (c_str filename)) (Some (toCHeaders headers))
          (length (toCHeaders headers)) cb ud h)
          (\<lambda>h. Ret (h, heap)))"

definition GameState_downloadBuffer :: "nat \<Rightarrow> string \<Rightarrow> nat \<Rightarrow> HttpHeaders \<Rightarrow> nat \<Rightarrow> nat option
    \<Rightarrow> sb_game_state_struct \<times> cpp_heap \<Rightarrow> (sb_game_state_struct \<times> cpp_heap) res" where
  "GameState_downloadBuffer t url reserve headers a callback = (\<lambda>(h, heap).
     let ((cb, ud), heap) = prepareCallback BufferFn a callback heap
     in res_bind (sb_download_buffer t (Some (c_str url)) reserve (Some (toCHeaders headers))
          (length (toCHeaders headers)) cb ud h)
          (\<lambda>h. Ret (h, heap)))"

text \<open>
  The methods that read. The C functions return pointers to texts that the network layer keeps, and the code of the
  status is converted back.
\<close>

fun AuthStatus_of :: "int \<Rightarrow> AuthStatus option" where
  "AuthStatus_of i =
     (if i = 0 then Some NotAuthenticated else if i = 1 then Some Authenticating
      else if i = 2 then Some AuthenticatedCheckingPairing else if i = 3 then Some AuthenticatedUnpaired
      else if i = 4 then Some AuthenticatedPaired else if i = 5 then Some AuthenticationFailed else None)"

definition GameState_getStatus :: "'j Net \<Rightarrow> AuthStatus option" where
  "GameState_getStatus n = AuthStatus_of (sb_get_status n)"
definition GameState_getMachineUuid :: "'j Net \<Rightarrow> string" where
  "GameState_getMachineUuid n = c_str (sb_get_machine_uuid n)"
definition GameState_getMachineSerial :: "'j Net \<Rightarrow> u64" where
  "GameState_getMachineSerial n = sb_get_machine_serial n"
definition GameState_getPairDeeplink :: "'j Net \<Rightarrow> string" where
  "GameState_getPairDeeplink n = c_str (getPairDeeplink n)"

lemma getStatus_exact: "GameState_getStatus n = Some (m_status n)"
  by (cases "m_status n") (simp_all add: GameState_getStatus_def sb_get_status_def)

text \<open>A call of any method that changes the game.\<close>

datatype cpp_method =
    Cpp_setGameStarted GameStartOrigin
  | Cpp_setGameFinished
  | Cpp_setCurrentBall sb_ball_t
  | Cpp_setActivePlayer sb_player_t
  | Cpp_setScore sb_player_t sb_score_t sb_score_feature_t
  | Cpp_addMode string
  | Cpp_addModeExpiring string u32
  | Cpp_removeMode string
  | Cpp_clearModes
  | Cpp_commit
  | Cpp_requestTopScores LeaderboardScope LeaderboardPeriod string LeaderboardVpinFilter nat "nat option"
  | Cpp_requestPairCode nat "nat option"
  | Cpp_requestUnpair nat "nat option"
  | Cpp_setCapabilities u32
  | Cpp_setCreditsDropped int string bool
  | Cpp_setCreditsStatus bool int int "string option"
  | Cpp_uploadDiagnostics "string list" "string list" string
  | Cpp_requestPairMachine string string nat "nat option"
  | Cpp_download string string HttpHeaders nat "nat option"
  | Cpp_downloadBuffer string nat HttpHeaders nat "nat option"

fun GameState_call :: "nat \<Rightarrow> cpp_method \<Rightarrow> sb_game_state_struct \<times> cpp_heap \<Rightarrow> (sb_game_state_struct \<times> cpp_heap) res" where
  "GameState_call t (Cpp_setGameStarted origin) (h, heap) = Ret (GameState_setGameStarted t origin h, heap)"
| "GameState_call t Cpp_setGameFinished (h, heap) = Ret (GameState_setGameFinished t h, heap)"
| "GameState_call t (Cpp_setCurrentBall b) (h, heap) = Ret (GameState_setCurrentBall t b h, heap)"
| "GameState_call t (Cpp_setActivePlayer player) (h, heap) = Ret (GameState_setActivePlayer t player h, heap)"
| "GameState_call t (Cpp_setScore player score feature) (h, heap) = Ret (GameState_setScore t player score feature h, heap)"
| "GameState_call t (Cpp_addMode mode) (h, heap) = Ret (GameState_addMode t mode h, heap)"
| "GameState_call t (Cpp_addModeExpiring mode duration_s) (h, heap) = Ret (GameState_addModeExpiring t mode duration_s h, heap)"
| "GameState_call t (Cpp_removeMode mode) (h, heap) = Ret (GameState_removeMode t mode h, heap)"
| "GameState_call t Cpp_clearModes (h, heap) = Ret (GameState_clearModes t h, heap)"
| "GameState_call t Cpp_commit (h, heap) = Ret (GameState_commit t h, heap)"
| "GameState_call t (Cpp_requestTopScores scope period since vpinFilter a callback) (h, heap) =
     GameState_requestTopScores t scope period since vpinFilter a callback (h, heap)"
| "GameState_call t (Cpp_requestPairCode a callback) (h, heap) =
     GameState_requestPairCode t a callback (h, heap)"
| "GameState_call t (Cpp_requestUnpair a callback) (h, heap) =
     GameState_requestUnpair t a callback (h, heap)"
| "GameState_call t (Cpp_setCapabilities capabilities) (h, heap) = Ret (GameState_setCapabilities t capabilities h, heap)"
| "GameState_call t (Cpp_setCreditsDropped credits transaction success) (h, heap) = Ret (GameState_setCreditsDropped t credits transaction success h, heap)"
| "GameState_call t (Cpp_setCreditsStatus freePlay credits maxCredits pricing) (h, heap) = Ret (GameState_setCreditsStatus t freePlay credits maxCredits pricing h, heap)"
| "GameState_call t (Cpp_uploadDiagnostics logPaths recordingPaths logString) (h, heap) =
     res_bind (GameState_uploadDiagnostics t logPaths recordingPaths logString h) (\<lambda>h. Ret (h, heap))"
| "GameState_call t (Cpp_requestPairMachine machine owner a callback) (h, heap) =
     GameState_requestPairMachine t machine owner a callback (h, heap)"
| "GameState_call t (Cpp_download url filename headers a callback) (h, heap) =
     GameState_download t url filename headers a callback (h, heap)"
| "GameState_call t (Cpp_downloadBuffer url reserve headers a callback) (h, heap) =
     GameState_downloadBuffer t url reserve headers a callback (h, heap)"

section \<open>Configuration\<close>

record Config =
  cfg_handle :: sb_config_t
  cfg_event :: "nat option"
  cfg_saveKey :: "nat option"
  cfg_loadKey :: "nat option"

definition Config_new :: Config where
  "Config_new = \<lparr>cfg_handle = sb_config_create, cfg_event = None, cfg_saveKey = None, cfg_loadKey = None\<rparr>"

definition Config_isValid :: "Config \<Rightarrow> bool" where
  "Config_isValid c \<longleftrightarrow> cfg_handle c \<noteq> None"

definition on_handle :: "(sb_config_t \<Rightarrow> sb_config_t) \<Rightarrow> Config \<Rightarrow> Config" where
  "on_handle f c = c\<lparr>cfg_handle := f (cfg_handle c)\<rparr>"

definition Config_setProvider :: "string \<Rightarrow> Config \<Rightarrow> Config" where
  "Config_setProvider s = on_handle (sb_config_set_provider (Some (c_str s)))"
definition Config_setMachineId :: "int \<Rightarrow> Config \<Rightarrow> Config" where
  "Config_setMachineId i = on_handle (sb_config_set_machine_id i)"
definition Config_setGameCodeVersion :: "string \<Rightarrow> Config \<Rightarrow> Config" where
  "Config_setGameCodeVersion s = on_handle (sb_config_set_game_code_version (Some (c_str s)))"
definition Config_setHostname :: "string \<Rightarrow> Config \<Rightarrow> Config" where
  "Config_setHostname s = on_handle (sb_config_set_hostname (Some (c_str s)))"
definition Config_setCfHostname :: "string \<Rightarrow> Config \<Rightarrow> Config" where
  "Config_setCfHostname s = on_handle (sb_config_set_cf_hostname (Some (c_str s)))"
definition Config_setUuid :: "string \<Rightarrow> Config \<Rightarrow> Config" where
  "Config_setUuid s = on_handle (sb_config_set_uuid (Some (c_str s)))"
definition Config_setSerialNumber :: "u64 \<Rightarrow> Config \<Rightarrow> Config" where
  "Config_setSerialNumber n = on_handle (sb_config_set_serial_number n)"
definition Config_setAutoDownloadPlayerPics :: "bool \<Rightarrow> Config \<Rightarrow> Config" where
  "Config_setAutoDownloadPlayerPics enable = on_handle (sb_config_set_auto_download_player_pics enable)"
definition Config_setThreadsPriority :: "int \<Rightarrow> Config \<Rightarrow> Config" where
  "Config_setThreadsPriority i = on_handle (sb_config_set_threads_priority i)"
definition Config_setScoreFeatures :: "string list \<Rightarrow> int \<Rightarrow> Config \<Rightarrow> Config res" where
  "Config_setScoreFeatures features version c =
     (let ptrs = map (\<lambda>f. Some (c_str f)) features
      in res_bind (sb_config_set_score_features (Some ptrs) (length ptrs) version (cfg_handle c))
           (\<lambda>h. Ret (c\<lparr>cfg_handle := h\<rparr>)))"
definition Config_setEncryptedKey :: "string \<Rightarrow> Config \<Rightarrow> Config" where
  "Config_setEncryptedKey s = on_handle (sb_config_set_encrypted_key (Some (c_str s)))"
definition Config_setSigner :: "reply_bridge \<Rightarrow> Config \<Rightarrow> Config" where
  "Config_setSigner b = on_handle (sb_config_set_signer b)"
definition Config_setScorbitdVersion :: "string \<Rightarrow> Config \<Rightarrow> Config" where
  "Config_setScorbitdVersion s = on_handle (sb_config_set_scorbitd_version (Some (c_str s)))"
definition Config_setScorbitdPlatformId :: "string \<Rightarrow> Config \<Rightarrow> Config" where
  "Config_setScorbitdPlatformId s = on_handle (sb_config_set_scorbitd_platform_id (Some (c_str s)))"
definition Config_setMachineTitle :: "string \<Rightarrow> Config \<Rightarrow> Config" where
  "Config_setMachineTitle s = on_handle (sb_config_set_machine_title (Some (c_str s)))"
definition Config_setExtraFingerprint :: "string \<Rightarrow> Config \<Rightarrow> Config" where
  "Config_setExtraFingerprint s = on_handle (sb_config_set_extra_fingerprint (Some (c_str s)))"

text \<open>Assigning a storage deletes the object that it owned.\<close>

definition freed :: "nat option \<Rightarrow> cpp_heap \<Rightarrow> cpp_heap" where
  "freed owned heap = (case owned of None \<Rightarrow> heap | Some a \<Rightarrow> heap(a := None))"

definition Config_setEventCallback :: "nat \<Rightarrow> nat option \<Rightarrow> Config \<times> cpp_heap \<Rightarrow> Config \<times> cpp_heap" where
  "Config_setEventCallback a cb = (\<lambda>(c, heap).
     (on_handle (sb_config_set_event_callback \<lparr>br_cb = Some (fn_pointer EventFn), br_user_data = a\<rparr>) (c\<lparr>cfg_event := Some a\<rparr>),
      (freed (cfg_event c) heap)(a := Some cb)))"
definition Config_setSaveKeyCallback :: "nat \<Rightarrow> nat option \<Rightarrow> Config \<times> cpp_heap \<Rightarrow> Config \<times> cpp_heap" where
  "Config_setSaveKeyCallback a cb = (\<lambda>(c, heap).
     (on_handle (sb_config_set_save_key_callback \<lparr>br_cb = Some (fn_pointer SaveKeyFn), br_user_data = a\<rparr>) (c\<lparr>cfg_saveKey := Some a\<rparr>),
      (freed (cfg_saveKey c) heap)(a := Some cb)))"
definition Config_setLoadKeyCallback :: "nat \<Rightarrow> nat option \<Rightarrow> Config \<times> cpp_heap \<Rightarrow> Config \<times> cpp_heap" where
  "Config_setLoadKeyCallback a cb = (\<lambda>(c, heap).
     (on_handle (sb_config_set_load_key_callback \<lparr>br_cb = Some (fn_pointer LoadKeyFn), br_user_data = a\<rparr>) (c\<lparr>cfg_loadKey := Some a\<rparr>),
      (freed (cfg_loadKey c) heap)(a := Some cb)))"

text \<open>The three functions that C calls; the first two give the closure and what it is called with, if it is called.\<close>

definition event_callback_c :: "'j EventBase option \<Rightarrow> nat \<Rightarrow> cpp_heap \<Rightarrow> (nat \<times> 'j EventBase) option res" where
  "event_callback_c event user_data heap =
     (case heap user_data of
        None \<Rightarrow> Undef
      | Some cb \<Rightarrow> Ret (case (cb, event) of (Some f, Some e) \<Rightarrow> Some (f, e) | _ \<Rightarrow> None))"

definition save_key_callback_c :: "string option \<Rightarrow> nat \<Rightarrow> cpp_heap \<Rightarrow> (nat \<times> string) option res" where
  "save_key_callback_c key user_data heap =
     (case heap user_data of
        None \<Rightarrow> Undef
      | Some cb \<Rightarrow> Ret (case (cb, key) of (Some f, Some k) \<Rightarrow> Some (f, c_str k) | _ \<Rightarrow> None))"

text \<open>\<open>keys f\<close> is the text that closure \<open>f\<close> returns; the buffer is filled with zeros before.\<close>

definition load_key_callback_c :: "(nat \<Rightarrow> string) \<Rightarrow> nat \<Rightarrow> nat \<Rightarrow> cpp_heap \<Rightarrow> (int \<times> string) res" where
  "load_key_callback_c keys buffer_size user_data heap =
     (let zeros = replicate buffer_size (CHR 0x00)
      in case heap user_data of
           None \<Rightarrow> Undef
         | Some None \<Rightarrow> Ret (0, zeros)
         | Some (Some f) \<Rightarrow>
             let key = keys f
             in if key = [] then Ret (0, zeros)
                else if length key + 1 > buffer_size then Ret (-1, zeros)
                else Ret (int (length key), key @ [CHR 0x00] @ drop (length key + 1) zeros))"

section \<open>Game states\<close>

record GameState =
  gs_valid :: bool
  gs_event :: "nat option"
  gs_saveKey :: "nat option"
  gs_loadKey :: "nat option"

text \<open>The storages move from the configuration, whose handle keeps their addresses.\<close>

definition GameState_new :: "bool \<Rightarrow> Config \<Rightarrow> GameState \<times> Config" where
  "GameState_new handle config =
     (\<lparr>gs_valid = handle, gs_event = cfg_event config, gs_saveKey = cfg_saveKey config, gs_loadKey = cfg_loadKey config\<rparr>,
      config\<lparr>cfg_event := None, cfg_saveKey := None, cfg_loadKey := None\<rparr>)"

definition createGameState :: "(nat \<Rightarrow> nat \<Rightarrow> ByteArray \<Rightarrow> nat \<Rightarrow> int \<times> nat \<times> ByteArray) \<Rightarrow> Config \<Rightarrow> GameState \<times> Config" where
  "createGameState call config = GameState_new (sb_create_game_state call (cfg_handle config) \<noteq> None) config"

definition GameState_delete :: "GameState \<Rightarrow> cpp_heap \<Rightarrow> cpp_heap" where
  "GameState_delete g heap = freed (gs_event g) (freed (gs_saveKey g) (freed (gs_loadKey g) heap))"

section \<open>The deprecated structure\<close>

text \<open>\<^verbatim>\<open>sb_device_info_t\<close> and the conversions of \<^verbatim>\<open>source/device_info.h\<close>. Reading more features than the array has
  is undefined.\<close>

record sb_device_info_t =
  dev_provider :: "string option"
  dev_machine_id :: int
  dev_game_code_version :: "string option"
  dev_hostname :: "string option"
  dev_uuid :: "string option"
  dev_serial_number :: u64
  dev_auto_download :: bool
  dev_score_features :: "string option list option"
  dev_score_features_count :: nat
  dev_score_features_version :: int
  dev_scorbitd_version :: "string option"
  dev_scorbitd_platform_id :: "string option"

definition device_features :: "sb_device_info_t \<Rightarrow> string list res" where
  "device_features di =
     (case dev_score_features di of
        None \<Rightarrow> Ret []
      | Some fs \<Rightarrow>
          if dev_score_features_count di > 0
          then if length fs < dev_score_features_count di then Undef
               else Ret (map str_or_empty (take (dev_score_features_count di) fs))
          else Ret [])"

definition DeviceInfo_of_c :: "sb_device_info_t \<Rightarrow> DeviceInfo res" where
  "DeviceInfo_of_c di =
     res_bind (device_features di) (\<lambda>features.
       Ret \<lparr>provider = str_or_empty (dev_provider di), machineId = dev_machine_id di,
         gameCodeVersion = str_or_empty (dev_game_code_version di), di_hostname = str_or_empty (dev_hostname di),
         di_cfHostname = [], di_uuid = str_or_empty (dev_uuid di), serialNumber = dev_serial_number di,
         autoDownloadPlayerPics = dev_auto_download di, scoreFeatures = features,
         scoreFeaturesVersion = dev_score_features_version di, threadsNice = 0, encryptedKey = [], signerCallback = False,
         scorbitdVersion = str_or_empty (dev_scorbitd_version di),
         scorbitdPlatformId = str_or_empty (dev_scorbitd_platform_id di), machineTitle = [], extraFingerprint = [],
         saveKeyCallback = False, loadKeyCallback = False\<rparr>)"

definition c_of_DeviceInfo :: "DeviceInfo \<Rightarrow> sb_device_info_t" where
  "c_of_DeviceInfo d =
     \<lparr>dev_provider = Some (c_str (provider d)), dev_machine_id = machineId d,
      dev_game_code_version = Some (c_str (gameCodeVersion d)), dev_hostname = Some (c_str (di_hostname d)),
      dev_uuid = Some (c_str (di_uuid d)), dev_serial_number = serialNumber d,
      dev_auto_download = autoDownloadPlayerPics d,
      dev_score_features = (if scoreFeatures d \<noteq> [] then Some (map (\<lambda>f. Some (c_str f)) (scoreFeatures d)) else None),
      dev_score_features_count = length (scoreFeatures d), dev_score_features_version = scoreFeaturesVersion d,
      dev_scorbitd_version = Some (c_str (scorbitdVersion d)), dev_scorbitd_platform_id = Some (c_str (scorbitdPlatformId d))\<rparr>"

text \<open>Converted to the structure and back, a description keeps what the structure has fields for, and the
  credentials and callbacks are gone.\<close>

lemma device_info_roundtrip:
  assumes "c_str (provider d) = provider d" "c_str (gameCodeVersion d) = gameCodeVersion d"
    "c_str (di_hostname d) = di_hostname d" "c_str (di_uuid d) = di_uuid d" "c_str (scorbitdVersion d) = scorbitdVersion d"
    "c_str (scorbitdPlatformId d) = scorbitdPlatformId d" "map c_str (scoreFeatures d) = scoreFeatures d"
  shows "DeviceInfo_of_c (c_of_DeviceInfo d) =
    Ret (d\<lparr>di_cfHostname := [], threadsNice := 0, encryptedKey := [], signerCallback := False, machineTitle := [],
      extraFingerprint := [], saveKeyCallback := False, loadKeyCallback := False\<rparr>)"
proof -
  have "device_features (c_of_DeviceInfo d) = Ret (scoreFeatures d)"
    using assms(7) by (simp add: device_features_def c_of_DeviceInfo_def comp_def str_or_empty_def)
  then show ?thesis
    using assms(1-6) by (simp add: DeviceInfo_of_c_def) (simp add: c_of_DeviceInfo_def str_or_empty_def)
qed

section \<open>Calls reach the queue\<close>

text \<open>The job that a method stands for.\<close>

fun cpp_job :: "cpp_method \<Rightarrow> ApiQueueItem" where
  "cpp_job (Cpp_setGameStarted origin) = JobSetGameStarted origin"
| "cpp_job Cpp_setGameFinished = JobSetGameFinished"
| "cpp_job (Cpp_setCurrentBall b) = JobSetCurrentBall b"
| "cpp_job (Cpp_setActivePlayer player) = JobSetActivePlayer player"
| "cpp_job (Cpp_setScore player score feature) = JobSetScore player score feature"
| "cpp_job (Cpp_addMode mode) = JobAddMode (c_str mode)"
| "cpp_job (Cpp_addModeExpiring mode duration_s) = JobAddModeExpiring (c_str mode) duration_s"
| "cpp_job (Cpp_removeMode mode) = JobRemoveMode (c_str mode)"
| "cpp_job Cpp_clearModes = JobClearModes"
| "cpp_job Cpp_commit = JobCommit"
| "cpp_job (Cpp_requestTopScores scope period since vpinFilter a callback) =
     JobRequestTopScores scope period (c_str since) vpinFilter (Some 3) a"
| "cpp_job (Cpp_requestPairCode a callback) = JobRequestPairCode (Some 1) a"
| "cpp_job (Cpp_requestUnpair a callback) = JobRequestUnpair (Some 1) a"
| "cpp_job (Cpp_setCapabilities capabilities) = JobSetCapabilities capabilities"
| "cpp_job (Cpp_setCreditsDropped credits transaction success) = JobCreditsDropped credits (c_str transaction) success"
| "cpp_job (Cpp_setCreditsStatus freePlay credits maxCredits pricing) =
     JobCreditsStatus freePlay credits maxCredits (case pricing of None \<Rightarrow> [] | Some p \<Rightarrow> c_str p)"
| "cpp_job (Cpp_uploadDiagnostics logPaths recordingPaths logString) =
     JobUploadDiagnostics (map c_str logPaths) (map c_str recordingPaths) (c_str logString)"
| "cpp_job (Cpp_requestPairMachine machine owner a callback) = JobPairMachine (c_str machine) (c_str owner) (Some 1) a"
| "cpp_job (Cpp_download url filename headers a callback) =
     JobDownload (c_str url) (c_str filename) (map (map_prod c_str c_str) headers) (Some 1) a"
| "cpp_job (Cpp_downloadBuffer url reserve headers a callback) =
     JobDownloadBuffer (c_str url) reserve (map (map_prod c_str c_str) headers) (Some 2) a"

text \<open>The closures on the heap after a call.\<close>

fun heap_after :: "cpp_method \<Rightarrow> cpp_heap \<Rightarrow> cpp_heap" where
  "heap_after (Cpp_requestTopScores scope period since vpinFilter a callback) heap = heap(a := Some callback)"
| "heap_after (Cpp_requestPairCode a callback) heap = heap(a := Some callback)"
| "heap_after (Cpp_requestUnpair a callback) heap = heap(a := Some callback)"
| "heap_after (Cpp_requestPairMachine machine owner a callback) heap = heap(a := Some callback)"
| "heap_after (Cpp_download url filename headers a callback) heap = heap(a := Some callback)"
| "heap_after (Cpp_downloadBuffer url reserve headers a callback) heap = heap(a := Some callback)"
| "heap_after _ heap = heap"

lemma copyHeaders_toC: "copyHeaders (Some (toCHeaders hs)) (length (toCHeaders hs)) = Ret (map (map_prod c_str c_str) hs)"
  by (cases hs) (auto simp: copyHeaders_def toCHeaders_def copyCStr_def)

lemma map_filter_Some: "List.map_filter id (map (\<lambda>p. Some (f p)) ps) = map f ps"
  by (induction ps) (simp_all add: List.map_filter_simps)

lemma copy_path_array: "copy_paths (path_array ps) (length ps) = Ret (map c_str ps)"
  by (simp add: copy_paths_def path_array_def map_filter_Some)

lemmas c_api_defs = sb_set_game_started_def sb_set_game_finished_def sb_set_current_ball_def sb_set_active_player_def
  sb_set_score_def sb_add_mode_def sb_add_mode_expiring_def sb_remove_mode_def sb_clear_modes_def sb_commit_def
  sb_request_top_scores_def sb_request_pair_code_def sb_request_unpair_def sb_set_capabilities_def
  sb_set_credits_dropped_def sb_set_credits_status_def sb_upload_diagnostics_def sb_game_request_pair_machine_def
  sb_download_def sb_download_buffer_def

lemmas cpp_method_defs = GameState_setGameStarted_def GameState_setGameFinished_def GameState_setCurrentBall_def
  GameState_setActivePlayer_def GameState_setScore_def GameState_addMode_def GameState_addModeExpiring_def
  GameState_removeMode_def GameState_clearModes_def GameState_commit_def GameState_requestTopScores_def
  GameState_requestPairCode_def GameState_requestUnpair_def GameState_setCapabilities_def
  GameState_setCreditsDropped_def GameState_setCreditsStatus_def GameState_uploadDiagnostics_def
  GameState_requestPairMachine_def GameState_download_def GameState_downloadBuffer_def

text \<open>Every method posts the job it stands for, and its closure is on the heap by then.\<close>

lemma cpp_call_posts: "GameState_call t m (h, heap) = Ret (postApiJob t (cpp_job m) h, heap_after m heap)"
  by (cases m) (auto simp: cpp_method_defs prepareCallback_def c_api_defs copyHeaders_toC copy_path_array copyCStr_def
      simp del: length_map split: option.split)

section \<open>Replies\<close>

text \<open>What the static functions do with the calls that the C interface makes.\<close>

fun deliver :: "bridge_act \<Rightarrow> cpp_heap \<Rightarrow> (cpp_act option \<times> cpp_heap) res" where
  "deliver (CallC f code reply ud) heap = map_res (map_prod Some id) (string_callback_c code (Some reply) ud heap)"
| "deliver (CallCBuffer f code data ud) heap = map_res (map_prod Some id) (buffer_callback_c code (Some data) (length data) ud heap)"
| "deliver (CallCLeaderboard f code lb ud) heap = map_res (map_prod Some id) (leaderboard_callback_c code lb ud heap)"
| "deliver (DestroyLeaderboard lb) heap = Ret (None, heap)"

fun deliver_all :: "bridge_act list \<Rightarrow> cpp_heap \<Rightarrow> (cpp_act list \<times> cpp_heap) res" where
  "deliver_all [] heap = Ret ([], heap)"
| "deliver_all (a # as) heap =
     res_bind (deliver a heap) (\<lambda>(r, heap).
       map_res (map_prod (\<lambda>rs. (case r of None \<Rightarrow> rs | Some r \<Rightarrow> r # rs)) id) (deliver_all as heap))"

text \<open>
  A reply reaches the closure that asked for it, once, and leaves nothing behind: the closure of a request is
  called with the error code and a copy of the reply, the leaderboard in full, and its object is deleted. A
  second reply to the same request would be undefined.
\<close>

theorem reply_reaches_closure:
  assumes "heap a = None"
  shows "(let ((cb, ud), heap') = prepareCallback StringFn a (Some f) heap
          in deliver_all (makeCStringReplyBridge (bridge cb ud) e reply) heap' = Ret ([CppString f (error_code e) (c_str reply)], heap)) \<and>
    (let ((cb, ud), heap') = prepareCallback BufferFn a (Some f) heap
     in deliver_all (makeBufferReplyBridge (bridge cb ud) e data) heap' = Ret ([CppBuffer f (error_code e) data], heap)) \<and>
    (let ((cb, ud), heap') = prepareCallback LeaderboardFn a (Some f) heap
     in deliver_all (makeLeaderboardReplyBridge (bridge cb ud) e lb) heap' =
          Ret ([CppLeaderboard f (error_code e) (case lb of None \<Rightarrow> [] | Some es \<Rightarrow> map entry_info es)], heap)) \<and>
    deliver (CallC 1 c reply a) heap = Undef"
proof -
  have "heap(a := None) = heap" using assms by auto
  then show ?thesis
    using assms
    by (auto simp: prepareCallback_def makeCStringReplyBridge_def makeBufferReplyBridge_def makeLeaderboardReplyBridge_def
        bridge_def string_callback_c_def buffer_callback_c_def leaderboard_callback_c_def call_and_delete_def fromC_exact
        split: option.split)
qed

theorem reply_reaches_closure_witness:
  "deliver_all (makeCStringReplyBridge (bridge (Some 1) 7) Success ''ok'') (Map.empty(7 := Some (Some 2))) =
     Ret ([CppString 2 0 (c_str ''ok'')], Map.empty)"
  using reply_reaches_closure [of Map.empty 7 2 Success "''ok''" "[]" None 0] by (simp add: prepareCallback_def)

text \<open>A callback that is empty makes the static function throw, where C accepts a null callback.\<close>

lemma empty_callback_throws:
  "prepareCallback StringFn a None heap = ((cb, ud), heap') \<Longrightarrow>
     deliver_all (makeCStringReplyBridge (bridge cb ud) e reply) heap' = Exn"
  by (auto simp: prepareCallback_def makeCStringReplyBridge_def bridge_def string_callback_c_def call_and_delete_def)

section \<open>Saved keys\<close>

definition cpp_loader :: "(nat \<Rightarrow> string) \<Rightarrow> cpp_heap \<Rightarrow> nat \<Rightarrow> nat \<Rightarrow> nat \<Rightarrow> int \<times> string" where
  "cpp_loader keys heap = (\<lambda>f sz ud. case load_key_callback_c keys sz ud heap of Ret r \<Rightarrow> r | _ \<Rightarrow> (0, []))"

text \<open>
  C40. A key that the application keeps for the C++ interface is read whole. After \<^verbatim>\<open>setLoadKeyCallback\<close>, in whatever
  order other objects were allocated, the SDK reads exactly the key that the closure returns if it is
  shorter than 16384 bytes, one of 1024 bytes included, and no key otherwise.
\<close>

theorem cpp_key_loads:
  assumes "cfg_handle c = Some h" "Config_setLoadKeyCallback a (Some f) (c, heap) = (c', heap')" "cfg_handle c' = Some h'"
  shows "loadKeyCallback h' \<and>
    load_key (cpp_loader keys heap') (load_key_bridge h') = (if length (keys f) < 16384 then keys f else [])"
proof -
  have h': "h' = h\<lparr>loadKeyCallback := True, load_key_bridge := \<lparr>br_cb = Some 6, br_user_data = a\<rparr>\<rparr>"
    and heap': "heap' a = Some (Some f)"
    using assms by (auto simp: Config_setLoadKeyCallback_def on_handle_def sb_config_set_load_key_callback_def)
  show ?thesis
    using heap' unfolding h'
    by (auto simp: load_key_def cpp_loader_def load_key_callback_c_def FIRST_BUFFER_def LARGE_BUFFER_def Let_def)
qed

theorem cpp_key_loads_witness:
  "\<exists>h'. cfg_handle (fst (Config_setLoadKeyCallback 5 (Some 1) (Config_new, Map.empty))) = Some h' \<and>
     load_key (cpp_loader (\<lambda>_. ''key'') (snd (Config_setLoadKeyCallback 5 (Some 1) (Config_new, Map.empty)))) (load_key_bridge h') = ''key''"
proof -
  obtain h where h: "cfg_handle Config_new = Some h" by (simp add: Config_new_def sb_config_create_def)
  obtain h' where h': "cfg_handle (fst (Config_setLoadKeyCallback 5 (Some 1) (Config_new, Map.empty))) = Some h'"
    using h by (simp add: Config_setLoadKeyCallback_def on_handle_def sb_config_set_load_key_callback_def)
  have "Config_setLoadKeyCallback 5 (Some 1) (Config_new, Map.empty) =
      (fst (Config_setLoadKeyCallback 5 (Some 1) (Config_new, Map.empty)), snd (Config_setLoadKeyCallback 5 (Some 1) (Config_new, Map.empty)))"
    by simp
  from cpp_key_loads [OF h this h', of "\<lambda>_. ''key''"] h' show ?thesis by auto
qed

text \<open>
  A configuration that is used for a second game state after the first was deleted still names the closures of the
  first: loading the key is undefined.
\<close>

lemma reused_config_dangles:
  assumes "Config_setLoadKeyCallback a (Some f) (c, heap) = (c1, heap1)" "createGameState call c1 = (g, c2)"
  shows "cfg_handle c2 = cfg_handle c1 \<and> load_key_callback_c keys sz a (GameState_delete g heap1) = Undef"
  using assms
  by (auto simp: Config_setLoadKeyCallback_def createGameState_def GameState_new_def
      GameState_delete_def freed_def load_key_callback_c_def on_handle_def
      split: option.splits)

end
