(* ===== verification/Logger.thy ===== *)
theory Logger
  imports Bytes Json Producer_Queue
begin

text \<open>
  The logger that hands messages to callbacks: \<^verbatim>\<open>libs/logger/logger_callback/logger_callback.cpp\<close>,
  \<^verbatim>\<open>libs/logger/detail/cut_long_string.h\<close>, \<^verbatim>\<open>source/log_c.cpp\<close> and \<^verbatim>\<open>include/scorbit_sdk/log.h\<close>.

  Threads put messages into a queue, which keeps the order of each thread's items only; one thread takes them out and
  calls every callback. It holds the lock
  while it looks at the vector of callbacks and gives it up for each call, so that the vector may change in the
  middle of its loop. The state counts how often the elements of the vector were moved or destroyed: an iterator
  from before is dangling, and using it is undefined. Whether adding a callback moves the elements is the
  library's choice, an input of the step. Callbacks are numbers; \<open>None\<close> is an empty function.
\<close>

section \<open>Long messages\<close>

definition ELIDE_STRING :: string where
  "ELIDE_STRING = '' ... ''"

text \<open>Sizes are 64-bit numbers and wrap around. \<^verbatim>\<open>substr\<close> throws if it begins behind the end.\<close>

definition cutLongString :: "string \<Rightarrow> u64 \<Rightarrow> string res" where
  "cutLongString str maxLength =
     (let sz = word_of_nat (length str)
      in if sz \<le> maxLength then Ret str
         else let halfSize = (maxLength - word_of_nat (length ELIDE_STRING)) div 2;
                  begin_tail = sz - halfSize
              in if begin_tail > sz then Exn
                 else Ret (take (unat halfSize) str @ ELIDE_STRING @ drop (unat begin_tail) str))"

section \<open>The logger\<close>

datatype log_level = Log_Debug | Log_Info | Log_Warn | Log_Error

record LogData =
  ld_message :: string
  ld_level :: log_level
  ld_file :: string
  ld_line :: int
  ld_timestamp :: int

datatype LogQueueItem = LogItem LogData | LogDispatcherStop

record CallbackAndData =
  cad_callback :: "nat option"
  cad_maxLength :: u64

text \<open>The thread: waiting for a message, at the head of the loop over the callbacks with the iterator
  and the end that it took, calling with a copied callback, after that call, finished, or ended by an
  exception, which terminates the program.\<close>

datatype log_thread =
    LogWaiting
  | LogLoop LogData nat nat nat
  | LogCalling LogData nat nat nat CallbackAndData
  | LogStopped
  | LogTerminated

text \<open>The queue with the threads that enqueued; the thread that destroys the logger, and whether it is gone.\<close>

record CallbackLogger =
  lg_queue :: "(nat \<times> LogQueueItem) list"
  lg_callbacks :: "CallbackAndData list"
  lg_version :: nat
  lg_thread :: log_thread
  lg_delivered :: "(nat \<times> string \<times> LogData) list"
  lg_destroyer :: "nat option"
  lg_gone :: bool

definition CallbackLogger_new :: CallbackLogger where
  "CallbackLogger_new = \<lparr>lg_queue = [], lg_callbacks = [], lg_version = 0, lg_thread = LogWaiting,
     lg_delivered = [], lg_destroyer = None, lg_gone = False\<rparr>"

definition logger_addCallback :: "nat option \<Rightarrow> u64 \<Rightarrow> bool \<Rightarrow> CallbackLogger \<Rightarrow> CallbackLogger" where
  "logger_addCallback callback maxLength moves s =
     s\<lparr>lg_callbacks := lg_callbacks s @ [\<lparr>cad_callback = callback, cad_maxLength = maxLength\<rparr>],
       lg_version := (if moves then lg_version s + 1 else lg_version s)\<rparr>"

definition logger_clear :: "CallbackLogger \<Rightarrow> CallbackLogger" where
  "logger_clear s = s\<lparr>lg_callbacks := [], lg_version := lg_version s + 1\<rparr>"

definition logger_log :: "nat \<Rightarrow> string \<Rightarrow> log_level \<Rightarrow> string \<Rightarrow> int \<Rightarrow> int \<Rightarrow> CallbackLogger \<Rightarrow> CallbackLogger" where
  "logger_log caller message level file_name line_no timestamp s =
     s\<lparr>lg_queue := lg_queue s @ [(caller, LogItem \<lparr>ld_message = message, ld_level = level, ld_file = file_name,
       ld_line = line_no, ld_timestamp = timestamp\<rparr>)]\<rparr>"

text \<open>What the destructor does before it joins the thread, and the join, which waits until the thread ended.\<close>

definition logger_destroy :: "nat \<Rightarrow> CallbackLogger \<Rightarrow> CallbackLogger" where
  "logger_destroy caller s = s\<lparr>lg_queue := lg_queue s @ [(caller, LogDispatcherStop)], lg_destroyer := Some caller\<rparr>"

definition logger_join :: "CallbackLogger \<Rightarrow> CallbackLogger option" where
  "logger_join s = (if lg_thread s = LogStopped then Some (s\<lparr>lg_gone := True\<rparr>) else None)"

text \<open>The text that a callback gets.\<close>

definition callback_text :: "u64 \<Rightarrow> string \<Rightarrow> string res" where
  "callback_text maxLength message =
     (if word_of_nat (length message) < maxLength then Ret message else cutLongString message (maxLength - 1))"

text \<open>One step of the thread: up to where it waits, gives up the lock or takes it. The queue serves the thread \<open>p\<close>
  when it waits. \<open>None\<close>: it cannot move.\<close>

fun processLogs_step :: "nat \<Rightarrow> CallbackLogger \<Rightarrow> CallbackLogger res option" where
  "processLogs_step p s =
     (case lg_thread s of
        LogWaiting \<Rightarrow>
          (case take_from p (lg_queue s) of
             None \<Rightarrow> None
           | Some (LogDispatcherStop, rest) \<Rightarrow> Some (Ret (s\<lparr>lg_queue := rest, lg_thread := LogStopped\<rparr>))
           | Some (LogItem d, rest) \<Rightarrow>
               Some (Ret (s\<lparr>lg_queue := rest, lg_thread := LogLoop d 0 (length (lg_callbacks s)) (lg_version s)\<rparr>)))
      | LogLoop d i e v \<Rightarrow>
          if v \<noteq> lg_version s then Some Undef
          else if i = e then Some (Ret (s\<lparr>lg_thread := LogWaiting\<rparr>))
          else Some (Ret (s\<lparr>lg_thread := LogCalling d i e v (lg_callbacks s ! i)\<rparr>))
      | LogCalling d i e v cbItem \<Rightarrow>
          (case cad_callback cbItem of
             None \<Rightarrow> Some (Ret (s\<lparr>lg_thread := LogLoop d (i + 1) e v\<rparr>))
           | Some f \<Rightarrow>
               (case callback_text (cad_maxLength cbItem) (ld_message d) of
                  Ret text \<Rightarrow> Some (Ret (s\<lparr>lg_delivered := lg_delivered s @ [(f, text, d)], lg_thread := LogLoop d (i + 1) e v\<rparr>))
                | _ \<Rightarrow> Some (Ret (s\<lparr>lg_thread := LogTerminated\<rparr>))))
      | LogStopped \<Rightarrow> None
      | LogTerminated \<Rightarrow> None)"

text \<open>
  Steps of all threads, in any order. A thread that destroys the logger does nothing else until the logger is gone;
  using a logger that is gone is undefined.
\<close>

datatype log_event =
    LogAdd "nat option" u64 bool
  | LogReset
  | LogCall nat string log_level string int int
  | LogStep nat
  | LogDestroy nat
  | LogJoin

fun log_step :: "log_event \<Rightarrow> CallbackLogger \<Rightarrow> CallbackLogger res option" where
  "log_step (LogAdd cb n moves) s = Some (if lg_gone s then Undef else Ret (logger_addCallback cb n moves s))"
| "log_step LogReset s = Some (if lg_gone s then Undef else Ret (logger_clear s))"
| "log_step (LogCall t m l f n ts) s =
     (if lg_gone s then Some Undef
      else if lg_destroyer s = Some t then None else Some (Ret (logger_log t m l f n ts s)))"
| "log_step (LogStep p) s = processLogs_step p s"
| "log_step (LogDestroy t) s = (if lg_destroyer s = None then Some (Ret (logger_destroy t s)) else None)"
| "log_step LogJoin s = map_option Ret (logger_join s)"

fun log_run :: "log_event list \<Rightarrow> CallbackLogger \<Rightarrow> CallbackLogger res option" where
  "log_run [] s = Some (Ret s)"
| "log_run (e # evs) s = (case log_step e s of Some (Ret s) \<Rightarrow> log_run evs s | r \<Rightarrow> r)"

section \<open>The C functions\<close>

definition sb_logger_callbacks_supported :: bool where
  "sb_logger_callbacks_supported = True"

definition sb_add_logger_callback :: "nat \<Rightarrow> u64 \<Rightarrow> bool \<Rightarrow> CallbackLogger \<Rightarrow> CallbackLogger" where
  "sb_add_logger_callback callback max_length = logger_addCallback (Some callback) max_length"

definition sb_reset_logger :: "CallbackLogger \<Rightarrow> CallbackLogger" where
  "sb_reset_logger = logger_clear"

section \<open>Cut messages\<close>

lemma cut_halfSize:
  assumes "5 \<le> maxLength" "(maxLength :: u64) \<le> word_of_nat n"
  shows "unat ((maxLength - 5) div 2) = (unat maxLength - 5) div 2"
    and "word_of_nat n - (maxLength - 5) div 2 \<le> (word_of_nat n :: u64)"
proof -
  have sub: "unat (maxLength - 5) = unat maxLength - 5"
    using assms(1) by (simp add: unat_sub)
  show half: "unat ((maxLength - 5) div 2) = (unat maxLength - 5) div 2" by (simp add: unat_div sub)
  have "(maxLength - 5) div 2 \<le> word_of_nat n"
    using assms(2) half by (simp add: word_le_nat_alt)
  then show "word_of_nat n - (maxLength - 5) div 2 \<le> (word_of_nat n :: u64)" by (rule word_sub_le)
qed

text \<open>
  A callback that asks for texts below a limit of at least 6 bytes gets them: a shorter message whole, a longer one
  as its beginning, three dots and its end.
\<close>

lemma callback_text_fits:
  assumes "6 \<le> maxLength" "length m < 2 ^ 64"
  shows "\<exists>text. callback_text maxLength m = Ret text \<and> length text < unat maxLength \<and>
    (text = m \<or> (\<exists>k. text = take k m @ ELIDE_STRING @ drop (length m - k) m \<and> 2 * k + 5 < unat maxLength))"
proof -
  have size: "unat (word_of_nat (length m) :: u64) = length m"
    using assms(2) by (simp add: unsigned_of_nat take_bit_nat_eq_self)
  have max: "unat (maxLength - 1) = unat maxLength - 1" "5 \<le> maxLength - 1" "6 \<le> unat maxLength"
  proof -
    show m6: "6 \<le> unat maxLength" using assms(1) by (simp add: word_le_nat_alt)
    have "1 \<le> maxLength" using m6 by (simp add: word_le_nat_alt)
    then show m1: "unat (maxLength - 1) = unat maxLength - 1" by (simp add: unat_sub)
    show "5 \<le> maxLength - 1" using m6 m1 by (simp add: word_le_nat_alt)
  qed
  show ?thesis
  proof (cases "word_of_nat (length m) < maxLength")
    case True
    then show ?thesis using size by (simp add: callback_text_def word_less_nat_alt)
  next
    case False
    then have long: "unat maxLength \<le> length m" using size by (simp add: word_less_nat_alt)
    have notshort: "\<not> word_of_nat (length m) \<le> maxLength - 1"
      using long max size by (simp add: word_le_nat_alt)
    have le: "maxLength - 1 \<le> word_of_nat (length m)" using notshort by simp
    define k where "k = (unat maxLength - 1 - 5) div 2"
    have half: "unat ((maxLength - 1 - 5) div 2) = k"
      using cut_halfSize(1) [OF max(2) le] max(1) by (simp add: k_def)
    have below: "word_of_nat (length m) - (maxLength - 1 - 5) div 2 \<le> (word_of_nat (length m) :: u64)"
      by (rule cut_halfSize(2) [OF max(2) le])
    have k: "2 * k + 5 < unat maxLength" using max(3) by (simp add: k_def)
    have "(maxLength - 1 - 5) div 2 \<le> word_of_nat (length m)"
      using half k long size by (simp add: word_le_nat_alt)
    then have tail: "unat (word_of_nat (length m) - (maxLength - 1 - 5) div 2 :: u64) = length m - k"
      using half size by (simp add: unat_sub)
    have "callback_text maxLength m = Ret (take k m @ ELIDE_STRING @ drop (length m - k) m)"
      using False notshort below half tail
      by (simp add: callback_text_def cutLongString_def Let_def ELIDE_STRING_def)
    moreover have "length (take k m @ ELIDE_STRING @ drop (length m - k) m) < unat maxLength"
      using k long by (simp add: ELIDE_STRING_def)
    ultimately show ?thesis using k by blast
  qed
qed

section \<open>Every message to every callback\<close>

text \<open>What the callbacks are to get of one message.\<close>

definition text_for :: "CallbackAndData \<Rightarrow> LogData \<Rightarrow> string" where
  "text_for c d = (case callback_text (cad_maxLength c) (ld_message d) of Ret t \<Rightarrow> t | _ \<Rightarrow> [])"

definition deliveries :: "CallbackAndData list \<Rightarrow> LogData \<Rightarrow> (nat \<times> string \<times> LogData) list" where
  "deliveries cs d = List.map_filter (\<lambda>c. map_option (\<lambda>f. (f, text_for c d, d)) (cad_callback c)) cs"

fun item_data :: "LogQueueItem \<Rightarrow> LogData list" where
  "item_data (LogItem d) = [d]"
| "item_data LogDispatcherStop = []"

text \<open>The messages of a thread that wait in the queue.\<close>

definition waiting :: "nat \<Rightarrow> CallbackLogger \<Rightarrow> LogData list" where
  "waiting t s = concat (map item_data (of_thread t (lg_queue s)))"

text \<open>What the message that was taken last still has to bring.\<close>

definition pending :: "CallbackLogger \<Rightarrow> (nat \<times> string \<times> LogData) list" where
  "pending s =
     (case lg_thread s of
        LogLoop d i e v \<Rightarrow> deliveries (drop i (lg_callbacks s)) d
      | LogCalling d i e v c \<Rightarrow> deliveries (drop i (lg_callbacks s)) d
      | _ \<Rightarrow> [])"

definition log_work :: "CallbackLogger \<Rightarrow> nat" where
  "log_work s =
     (case lg_thread s of
        LogLoop d i e v \<Rightarrow> 2 * (e - i) + 1
      | LogCalling d i e v c \<Rightarrow> 2 * (e - i)
      | _ \<Rightarrow> 0) + (2 * length (lg_callbacks s) + 2) * length (lg_queue s)"

definition callback_ok :: "CallbackAndData \<Rightarrow> bool" where
  "callback_ok c \<longleftrightarrow> 6 \<le> cad_maxLength c"

definition message_ok :: "LogData \<Rightarrow> bool" where
  "message_ok d \<longleftrightarrow> length (ld_message d) < 2 ^ 64"

text \<open>The thread is where it should be and the vector was not touched since it began its loop.\<close>

definition thread_ok :: "CallbackAndData list \<Rightarrow> CallbackLogger \<Rightarrow> bool" where
  "thread_ok cs s \<longleftrightarrow>
     lg_callbacks s = cs \<and> (\<forall>(t, x) \<in> set (lg_queue s). list_all message_ok (item_data x)) \<and>
     (case lg_thread s of
        LogLoop d i e v \<Rightarrow> message_ok d \<and> i \<le> e \<and> e = length cs \<and> v = lg_version s
      | LogCalling d i e v c \<Rightarrow> message_ok d \<and> i < e \<and> e = length cs \<and> v = lg_version s \<and> c = cs ! i
      | LogTerminated \<Rightarrow> False
      | _ \<Rightarrow> True)"

text \<open>Only the destroying thread enqueues the marker, as its last item; the thread stops when it took it.\<close>

definition marker_ok :: "CallbackLogger \<Rightarrow> bool" where
  "marker_ok s \<longleftrightarrow>
     (\<forall>t. (t, LogDispatcherStop) \<in> set (lg_queue s) \<longrightarrow> lg_destroyer s = Some t) \<and>
     (case lg_destroyer s of
        None \<Rightarrow> lg_thread s \<noteq> LogStopped
      | Some u \<Rightarrow>
          if lg_thread s = LogStopped then of_thread u (lg_queue s) = []
          else \<exists>ds. of_thread u (lg_queue s) = map LogItem ds @ [LogDispatcherStop]) \<and>
     (lg_gone s \<longrightarrow> lg_thread s = LogStopped)"

lemma deliveries_drop:
  "i < length cs \<Longrightarrow> deliveries (drop i cs) d =
     (case cad_callback (cs ! i) of None \<Rightarrow> [] | Some f \<Rightarrow> [(f, text_for (cs ! i) d, d)]) @ deliveries (drop (i + 1) cs) d"
  by (simp add: deliveries_def Cons_nth_drop_Suc [symmetric] List.map_filter_simps split: option.split)

text \<open>A step inside the loop delivers what is next and is one step nearer to the end.\<close>

lemma loop_step:
  assumes "thread_ok cs s" "list_all callback_ok cs" "lg_thread s \<noteq> LogWaiting" "lg_thread s \<noteq> LogStopped"
  shows "\<exists>s'. processLogs_step p s = Some (Ret s') \<and> thread_ok cs s' \<and> lg_thread s' \<noteq> LogStopped \<and>
    lg_queue s' = lg_queue s \<and> lg_destroyer s' = lg_destroyer s \<and> lg_gone s' = lg_gone s \<and>
    lg_delivered s' @ pending s' = lg_delivered s @ pending s \<and> Suc (log_work s') = log_work s"
proof (cases "lg_thread s")
  case (LogLoop d i e v)
  then show ?thesis
    using assms(1)
    by (cases "i = e") (auto simp: thread_ok_def pending_def log_work_def deliveries_def List.map_filter_simps)
next
  case (LogCalling d i e v c)
  have i: "i < length cs" "c = cs ! i" "lg_callbacks s = cs" "e = length cs" "message_ok d"
    using assms(1) LogCalling by (auto simp: thread_ok_def)
  note first = deliveries_drop [OF i(1), of d]
  show ?thesis
  proof (cases "cad_callback c")
    case None
    then show ?thesis using assms(1) LogCalling i first by (auto simp: thread_ok_def pending_def log_work_def)
  next
    case (Some f)
    have "callback_ok c" using assms(2) i by (simp add: list_all_length)
    then obtain shown where shown: "callback_text (cad_maxLength c) (ld_message d) = Ret shown"
      using callback_text_fits [of "cad_maxLength c" "ld_message d"] i(5)
      by (auto simp: callback_ok_def message_ok_def)
    then have "text_for c d = shown" by (simp add: text_for_def)
    then show ?thesis
      using assms(1) LogCalling i first Some shown by (auto simp: thread_ok_def pending_def log_work_def)
  qed
qed (use assms in \<open>simp_all add: thread_ok_def\<close>)

text \<open>The messages of a run, with the threads that logged them.\<close>

fun logged :: "log_event list \<Rightarrow> (nat \<times> LogData) list" where
  "logged [] = []"
| "logged (LogCall t m l f n ts # evs) =
     (t, \<lparr>ld_message = m, ld_level = l, ld_file = f, ld_line = n, ld_timestamp = ts\<rparr>) # logged evs"
| "logged (_ # evs) = logged evs"

lemma logged_append: "logged (xs @ ys) = logged xs @ logged ys"
  by (induction xs rule: logged.induct) simp_all

fun is_log_step :: "log_event \<Rightarrow> bool" where
  "is_log_step (LogStep p) = True"
| "is_log_step _ = False"

fun only_logging :: "log_event \<Rightarrow> bool" where
  "only_logging (LogAdd cb n moves) = False"
| "only_logging LogReset = False"
| "only_logging _ = True"

definition logs_when_gone :: "log_event list \<Rightarrow> bool" where
  "logs_when_gone evs \<longleftrightarrow> (\<exists>before t m l f n ts after. evs = before @ LogCall t m l f n ts # after \<and> LogJoin \<in> set before)"

lemma log_run_snoc:
  "log_run (evs @ [e]) s = (case log_run evs s of Some (Ret s) \<Rightarrow> log_step e s | r \<Rightarrow> r)"
  by (induction evs arbitrary: s) (auto split: option.splits res.splits)

definition log_inv :: "CallbackAndData list \<Rightarrow> log_event list \<Rightarrow> (nat \<times> LogData) list \<Rightarrow> CallbackLogger \<Rightarrow> bool" where
  "log_inv cs evs taken s \<longleftrightarrow>
     thread_ok cs s \<and> marker_ok s \<and>
     (\<forall>t. of_thread t taken @ waiting t s = of_thread t (logged evs)) \<and>
     lg_delivered s @ pending s = concat (map (deliveries cs \<circ> snd) taken) \<and>
     length (filter is_log_step evs) + log_work s \<le>
       (2 * length cs + 2) * (length (logged evs) + (if lg_destroyer s = None then 0 else 1)) \<and>
     (\<forall>u. lg_destroyer s = Some u \<longrightarrow> LogDestroy u \<in> set evs) \<and> lg_gone s = (LogJoin \<in> set evs)"

lemma log_inv_take:
  assumes inv: "log_inv cs evs taken s" and waits: "lg_thread s = LogWaiting"
    and took: "take_from p (lg_queue s) = Some (LogItem d, rest)"
  shows "log_inv cs (evs @ [LogStep p]) (taken @ [(p, d)])
    (s\<lparr>lg_queue := rest, lg_thread := LogLoop d 0 (length (lg_callbacks s)) (lg_version s)\<rparr>)"
proof -
  note of = take_from_thread [OF took] and len = take_from_length [OF took] and members = take_from_set [OF took]
  let ?s = "s\<lparr>lg_queue := rest, lg_thread := LogLoop d 0 (length (lg_callbacks s)) (lg_version s)\<rparr>"
  have cs: "lg_callbacks s = cs" using inv by (simp add: log_inv_def thread_ok_def)
  have "thread_ok cs ?s" using inv members by (auto simp: log_inv_def thread_ok_def)
  moreover have "marker_ok ?s"
  proof -
    have "\<exists>ds. of_thread u rest = map LogItem ds @ [LogDispatcherStop]"
      if "of_thread u (lg_queue s) = map LogItem ds @ [LogDispatcherStop]" for u ds
    proof (cases "u = p")
      case True
      then show ?thesis using that of [of u] by (cases ds) (auto dest: sym)
    next
      case False
      then show ?thesis using that of [of u] by auto
    qed
    then show ?thesis
      using inv members waits by (auto simp: log_inv_def marker_ok_def split: option.splits)
  qed
  moreover have "of_thread t (taken @ [(p, d)]) @ waiting t ?s = of_thread t (logged evs)" for t
  proof -
    have "of_thread t taken @ waiting t s = of_thread t (logged evs)" using inv by (simp add: log_inv_def)
    then show ?thesis using of [of t] by (auto simp: waiting_def)
  qed
  moreover have "lg_delivered ?s @ pending ?s = concat (map (deliveries cs \<circ> snd) (taken @ [(p, d)]))"
    using inv waits cs by (simp add: log_inv_def pending_def)
  moreover have "Suc (log_work ?s) = log_work s" using len waits cs by (simp add: log_work_def)
  ultimately show ?thesis
    using inv by (simp add: log_inv_def logged_append)
qed

lemma log_inv_stop:
  assumes inv: "log_inv cs evs taken s" and waits: "lg_thread s = LogWaiting"
    and took: "take_from p (lg_queue s) = Some (LogDispatcherStop, rest)"
  shows "log_inv cs (evs @ [LogStep p]) taken (s\<lparr>lg_queue := rest, lg_thread := LogStopped\<rparr>)"
proof -
  note of = take_from_thread [OF took] and len = take_from_length [OF took] and members = take_from_set [OF took]
  let ?s = "s\<lparr>lg_queue := rest, lg_thread := LogStopped\<rparr>"
  have p: "lg_destroyer s = Some p" using inv members by (auto simp: log_inv_def marker_ok_def)
  then obtain ds where ds: "of_thread p (lg_queue s) = map LogItem ds @ [LogDispatcherStop]"
    using inv waits by (auto simp: log_inv_def marker_ok_def)
  then have last: "of_thread p rest = []" using of [of p] by (cases ds) auto
  have "thread_ok cs ?s" using inv members by (auto simp: log_inv_def thread_ok_def)
  moreover have "marker_ok ?s" using inv members p last by (auto simp: log_inv_def marker_ok_def)
  moreover have "waiting t ?s = waiting t s" for t using of [of t] by (auto simp: waiting_def)
  moreover have "pending ?s = pending s" using waits by (simp add: pending_def)
  moreover have "Suc (log_work ?s) \<le> log_work s" using len waits by (simp add: log_work_def)
  ultimately show ?thesis
    using inv p by (simp add: log_inv_def logged_append)
qed

lemma log_inv_step:
  assumes "log_inv cs evs taken s" "list_all callback_ok cs" "log_step (LogStep p) s = Some r"
  shows "\<exists>s' taken'. r = Ret s' \<and> log_inv cs (evs @ [LogStep p]) taken' s'"
proof -
  have ok: "thread_ok cs s" using assms(1) by (simp add: log_inv_def)
  consider (wait) "lg_thread s = LogWaiting" | (loop) "lg_thread s \<noteq> LogWaiting" "lg_thread s \<noteq> LogStopped"
    | (stop) "lg_thread s = LogStopped" by blast
  then show ?thesis
  proof cases
    case wait
    obtain x rest where took: "take_from p (lg_queue s) = Some (x, rest)" using assms(3) wait by (auto split: option.splits)
    show ?thesis
    proof (cases x)
      case (LogItem d)
      with log_inv_take [OF assms(1) wait, of p d rest] took assms(3) wait show ?thesis by auto
    next
      case LogDispatcherStop
      with log_inv_stop [OF assms(1) wait, of p rest] took assms(3) wait show ?thesis by auto
    qed
  next
    case loop
    from loop_step [OF ok assms(2) loop, of p] obtain s' where s': "processLogs_step p s = Some (Ret s')" "thread_ok cs s'"
      "lg_thread s' \<noteq> LogStopped" "lg_queue s' = lg_queue s" "lg_destroyer s' = lg_destroyer s" "lg_gone s' = lg_gone s"
      "lg_delivered s' @ pending s' = lg_delivered s @ pending s" "Suc (log_work s') = log_work s" by blast
    have "marker_ok s" using assms(1) by (simp add: log_inv_def)
    then have "marker_ok s'" using s'(3-6) loop(2) by (cases "lg_destroyer s") (simp_all add: marker_ok_def)
    with s' assms(1) have "log_inv cs (evs @ [LogStep p]) taken s'"
      by (simp add: log_inv_def waiting_def logged_append)
    with s'(1) assms(3) show ?thesis by (auto simp del: processLogs_step.simps)
  qed (use assms(3) in simp)
qed

lemma log_inv_event:
  assumes inv: "log_inv cs evs taken s" and e: "only_logging e" "\<And>p. e \<noteq> LogStep p" "list_all (message_ok \<circ> snd) (logged [e])"
    and step: "log_step e s = Some r"
  shows "(r = Undef \<and> lg_gone s \<and> (\<exists>t m l f n ts. e = LogCall t m l f n ts)) \<or> (\<exists>s'. r = Ret s' \<and> log_inv cs (evs @ [e]) taken s')"
proof (cases e)
  case (LogCall t m l f n ts)
  let ?d = "\<lparr>ld_message = m, ld_level = l, ld_file = f, ld_line = n, ld_timestamp = ts\<rparr>" and ?s = "logger_log t m l f n ts s"
  show ?thesis
  proof (cases "lg_gone s")
    case False
    have r: "r = Ret ?s" "lg_destroyer s \<noteq> Some t" using step LogCall False by (auto split: if_splits)
    have "thread_ok cs ?s" using inv e(3) LogCall by (auto simp: log_inv_def thread_ok_def logger_log_def split: log_thread.splits)
    moreover have "marker_ok ?s"
      using inv r(2) False by (auto simp: log_inv_def marker_ok_def logger_log_def split: option.splits)
    moreover have "waiting t' ?s = waiting t' s @ (if t' = t then [?d] else [])" for t'
      by (simp add: waiting_def logger_log_def)
    moreover have "pending ?s = pending s" "lg_delivered ?s = lg_delivered s" "lg_destroyer ?s = lg_destroyer s" "lg_gone ?s = lg_gone s"
      by (simp_all add: pending_def logger_log_def cong: log_thread.case_cong)
    moreover have "log_work ?s = log_work s + (2 * length cs + 2)"
      using inv by (simp add: log_work_def logger_log_def log_inv_def thread_ok_def algebra_simps)
    ultimately have "log_inv cs (evs @ [e]) taken ?s"
      using inv LogCall by (auto simp: log_inv_def logged_append algebra_simps)
    with r show ?thesis by blast
  qed (use step LogCall in auto)
next
  case (LogDestroy u)
  let ?s = "logger_destroy u s"
  have r: "r = Ret ?s" "lg_destroyer s = None" using step LogDestroy by (auto split: if_splits)
  have none: "(t, LogDispatcherStop) \<notin> set (lg_queue s)" for t using inv r(2) by (auto simp: log_inv_def marker_ok_def)
  have "\<exists>ds. xs = map LogItem ds" if "LogDispatcherStop \<notin> set xs" for xs
    using that
  proof (induction xs)
    case (Cons x xs)
    then obtain d ds where "x = LogItem d" "xs = map LogItem ds" by (cases x) auto
    then show ?case by (intro exI [of _ "d # ds"]) simp
  qed simp
  then have "\<exists>ds. of_thread u (lg_queue s) = map LogItem ds" using none by (simp add: set_of_thread)
  then have "marker_ok ?s" using inv r(2) none by (auto simp: log_inv_def marker_ok_def logger_destroy_def)
  moreover have "thread_ok cs ?s" using inv by (auto simp: log_inv_def thread_ok_def logger_destroy_def split: log_thread.splits)
  moreover have "waiting t ?s = waiting t s" for t by (simp add: waiting_def logger_destroy_def)
  moreover have "pending ?s = pending s" "lg_delivered ?s = lg_delivered s" "lg_destroyer ?s = Some u" "lg_gone ?s = lg_gone s"
    by (simp_all add: pending_def logger_destroy_def cong: log_thread.case_cong)
  moreover have "log_work ?s = log_work s + (2 * length cs + 2)"
    using inv by (simp add: log_work_def logger_destroy_def log_inv_def thread_ok_def algebra_simps)
  ultimately have "log_inv cs (evs @ [e]) taken ?s"
    using inv r(2) LogDestroy by (auto simp: log_inv_def logged_append algebra_simps)
  with r show ?thesis by blast
next
  case LogJoin
  then have r: "r = Ret (s\<lparr>lg_gone := True\<rparr>)" "lg_thread s = LogStopped"
    using step by (auto simp: logger_join_def split: if_splits)
  moreover obtain u where "lg_destroyer s = Some u"
    using inv r(2) by (auto simp: log_inv_def marker_ok_def split: option.splits)
  ultimately have "log_inv cs (evs @ [e]) taken (s\<lparr>lg_gone := True\<rparr>)"
    using inv LogJoin by (auto simp: log_inv_def marker_ok_def thread_ok_def logged_append waiting_def pending_def log_work_def)
  with r show ?thesis by blast
qed (use e in simp_all)

definition logger_with :: "CallbackAndData list \<Rightarrow> CallbackLogger" where
  "logger_with cs = CallbackLogger_new\<lparr>lg_callbacks := cs\<rparr>"

lemma log_run_inv:
  assumes "log_run evs (logger_with cs) = Some r" "list_all only_logging evs" "list_all (message_ok \<circ> snd) (logged evs)"
    and "list_all callback_ok cs"
  shows "(r = Undef \<and> logs_when_gone evs) \<or> (\<exists>s taken. r = Ret s \<and> log_inv cs evs taken s)"
  using assms(1-3)
proof (induction evs arbitrary: r rule: rev_induct)
  case Nil
  have "log_inv cs [] [] (logger_with cs)"
    by (simp add: log_inv_def logger_with_def CallbackLogger_new_def thread_ok_def marker_ok_def waiting_def pending_def log_work_def)
  with Nil show ?case by auto
next
  case (snoc e evs)
  obtain r1 where r1: "log_run evs (logger_with cs) = Some r1"
    using snoc.prems(1) by (auto simp: log_run_snoc split: option.splits)
  have ok: "list_all only_logging evs" "only_logging e" "list_all (message_ok \<circ> snd) (logged evs)" "list_all (message_ok \<circ> snd) (logged [e])"
    using snoc.prems(2,3) by (simp_all add: logged_append comp_def)
  from snoc.IH [OF r1 ok(1,3)] show ?case
  proof (elim disjE exE conjE)
    assume "r1 = Undef" "logs_when_gone evs"
    moreover have "r = Undef" using snoc.prems(1) r1 \<open>r1 = Undef\<close> by (simp add: log_run_snoc)
    ultimately show ?case by (fastforce simp: logs_when_gone_def)
  next
    fix s taken
    assume s: "r1 = Ret s" "log_inv cs evs taken s"
    have step: "log_step e s = Some r" using snoc.prems(1) r1 s(1) by (simp add: log_run_snoc)
    show ?case
    proof (cases "\<exists>p. e = LogStep p")
      case True
      with log_inv_step [OF s(2) assms(4)] step show ?thesis by blast
    next
      case False
      have "logs_when_gone (evs @ [e])" if "lg_gone s" "e = LogCall t m l f n ts" for t m l f n ts
      proof -
      have "LogJoin \<in> set evs" using that(1) s(2) by (simp add: log_inv_def)
      with that(2) show ?thesis unfolding logs_when_gone_def by blast
    qed
      with log_inv_event [OF s(2) ok(2) _ ok(4) step] False show ?thesis by blast
    qed
  qed
qed

lemma no_step_waits:
  assumes "thread_ok cs s" "list_all callback_ok cs" "lg_thread s \<noteq> LogStopped" "\<And>p. processLogs_step p s = None"
  shows "lg_thread s = LogWaiting \<and> lg_queue s = []"
proof (cases "lg_thread s = LogWaiting")
  case True
  have "lg_queue s = []"
  proof (rule ccontr)
    assume "lg_queue s \<noteq> []"
    then obtain p x rest where "take_from p (lg_queue s) = Some (x, rest)" using take_from_nonempty by blast
    with True assms(4) [of p] show False by (cases x) simp_all
  qed
  with True show ?thesis by simp
next
  case False
  from loop_step [OF assms(1,2) False assms(3), of 0] assms(4) [of 0] show ?thesis by (simp del: processLogs_step.simps)
qed

text \<open>
  C39. Logged messages reach every callback, in each thread's order. Let callbacks with limits of at least 6 bytes be
  registered and then only messages be logged, by any threads, in any interleaving with the steps of the logger's thread, however
  its queue chooses between the threads, and with the destruction of the logger. Then nothing is undefined, unless a thread logs
  after the logger is gone, and nothing ends the program. The messages that were taken and those that wait are, for
  each thread, exactly those it logged, in its order; what was delivered is the beginning of the deliveries of the
  taken messages, message by message and for each message callback by callback. The logger's thread makes at most two steps for
  each callback and two more for each message and the marker; when it can make none and was not stopped, everything
  logged is delivered. The logger is gone only after its thread stopped; and then all that was taken is delivered, which includes
  every message that the destroying thread logged.
\<close>

theorem logged_in_order:
  assumes "list_all callback_ok cs" "list_all only_logging evs" "list_all (message_ok \<circ> snd) (logged evs)"
    and "log_run evs (logger_with cs) = Some r"
  shows "(r = Undef \<and> logs_when_gone evs) \<or>
    (\<exists>s taken further. r = Ret s \<and> lg_thread s \<noteq> LogTerminated \<and>
      (\<forall>t. of_thread t taken @ waiting t s = of_thread t (logged evs)) \<and>
      lg_delivered s @ further = concat (map (deliveries cs \<circ> snd) taken) \<and>
      length (filter is_log_step evs) \<le> (2 * length cs + 2) * (length (logged evs) + 1) \<and>
      (lg_thread s \<noteq> LogStopped \<and> (\<forall>p. processLogs_step p s = None) \<longrightarrow>
         further = [] \<and> (\<forall>t. of_thread t taken = of_thread t (logged evs))) \<and>
      (LogJoin \<in> set evs \<longrightarrow> lg_thread s = LogStopped) \<and>
      (lg_thread s = LogStopped \<longrightarrow>
         further = [] \<and> (\<exists>u. LogDestroy u \<in> set evs \<and> of_thread u taken = of_thread u (logged evs))))"
  using log_run_inv [OF assms(4,2,3,1)]
proof (elim disjE exE conjE)
  fix s taken
  assume r: "r = Ret s" and inv: "log_inv cs evs taken s"
  have ok: "thread_ok cs s" "marker_ok s" and deliv: "lg_delivered s @ pending s = concat (map (deliveries cs \<circ> snd) taken)"
    and order: "\<forall>t. of_thread t taken @ waiting t s = of_thread t (logged evs)"
    using inv by (simp_all add: log_inv_def)
  have "length (filter is_log_step evs) \<le> (2 * length cs + 2) * (length (logged evs) + (if lg_destroyer s = None then 0 else 1))"
    using inv by (simp add: log_inv_def)
  also have "\<dots> \<le> (2 * length cs + 2) * (length (logged evs) + 1)" by (intro mult_le_mono2) simp
  finally have steps: "length (filter is_log_step evs) \<le> (2 * length cs + 2) * (length (logged evs) + 1)" .
  have idle: "pending s = [] \<and> (\<forall>t. of_thread t taken = of_thread t (logged evs))"
    if "lg_thread s \<noteq> LogStopped" "\<forall>p. processLogs_step p s = None"
  proof -
    have q: "lg_thread s = LogWaiting" "lg_queue s = []" using no_step_waits [OF ok(1) assms(1) that(1)] that(2) by blast+
    then show ?thesis using order by (simp add: pending_def waiting_def)
  qed
  have stopped: "pending s = [] \<and> (\<exists>u. LogDestroy u \<in> set evs \<and> of_thread u taken = of_thread u (logged evs))"
    if stop: "lg_thread s = LogStopped"
  proof -
    obtain u where u: "lg_destroyer s = Some u" "of_thread u (lg_queue s) = []"
      using ok(2) stop by (auto simp: marker_ok_def split: option.splits)
    have "of_thread u taken = of_thread u (logged evs)" using order [rule_format, of u] u(2) by (simp add: waiting_def)
    then show ?thesis using stop u(1) inv by (auto simp: pending_def log_inv_def)
  qed
  have "LogJoin \<in> set evs \<longrightarrow> lg_thread s = LogStopped"
    using inv by (simp add: log_inv_def marker_ok_def)
  moreover have "lg_thread s \<noteq> LogTerminated" using ok(1) by (auto simp: thread_ok_def)
  ultimately show ?thesis using r order deliv steps idle stopped by blast
qed simp

theorem logged_in_order_witness:
  "\<exists>s taken. log_run [LogCall 1 ''hello world'' Log_Info ''f'' 1 2, LogDestroy 1, LogStep 1, LogStep 1, LogStep 1, LogStep 1, LogStep 1, LogJoin]
       (logger_with [\<lparr>cad_callback = Some 4, cad_maxLength = 10\<rparr>]) = Some (Ret s) \<and>
     of_thread 1 taken = [\<lparr>ld_message = ''hello world'', ld_level = Log_Info, ld_file = ''f'', ld_line = 1, ld_timestamp = 2\<rparr>] \<and>
     lg_delivered s = concat (map (deliveries [\<lparr>cad_callback = Some 4, cad_maxLength = 10\<rparr>] \<circ> snd) taken) \<and>
     lg_delivered s = [(4, ''he ... ld'', \<lparr>ld_message = ''hello world'', ld_level = Log_Info, ld_file = ''f'', ld_line = 1, ld_timestamp = 2\<rparr>)]"
proof -
  let ?cs = "[\<lparr>cad_callback = Some 4, cad_maxLength = 10\<rparr>]"
  let ?evs = "[LogCall 1 ''hello world'' Log_Info ''f'' 1 2, LogDestroy 1, LogStep 1, LogStep 1, LogStep 1, LogStep 1, LogStep 1, LogJoin]"
  let ?d = "\<lparr>ld_message = ''hello world'', ld_level = Log_Info, ld_file = ''f'', ld_line = 1, ld_timestamp = 2\<rparr>"
  have cut: "callback_text 10 ''hello world'' = Ret ''he ... ld''" by code_simp
  then obtain s where s: "log_run ?evs (logger_with ?cs) = Some (Ret s)" "lg_delivered s = [(4, ''he ... ld'', ?d)]"
    by (simp add: logger_with_def CallbackLogger_new_def logger_log_def logger_destroy_def logger_join_def)
  have "list_all callback_ok ?cs" "list_all only_logging ?evs" "list_all (message_ok \<circ> snd) (logged ?evs)"
    by (simp_all add: callback_ok_def message_ok_def)
  from logged_in_order [OF this s(1)] s show ?thesis by auto
qed

section \<open>Where the logger fails\<close>

text \<open>A limit of 1 to 5 bytes makes the first longer message end the program.\<close>

lemma small_limit_terminates:
  "callback_text 3 ''hello'' = Exn"
  "\<exists>s. log_run [LogAdd (Some 4) 3 True, LogCall 7 ''hello'' Log_Info ''f'' 1 2, LogStep 7, LogStep 7, LogStep 7] CallbackLogger_new = Some (Ret s) \<and>
     lg_thread s = LogTerminated"
proof -
  show exn: "callback_text 3 ''hello'' = Exn" by code_simp
  show "\<exists>s. log_run [LogAdd (Some 4) 3 True, LogCall 7 ''hello'' Log_Info ''f'' 1 2, LogStep 7, LogStep 7, LogStep 7] CallbackLogger_new = Some (Ret s) \<and>
     lg_thread s = LogTerminated"
    using exn by (simp add: CallbackLogger_new_def logger_addCallback_def logger_log_def)
qed

text \<open>No limit at all is a limit of zero: the text is passed whole.\<close>

lemma zero_limit: "length m < 2 ^ 64 - 1 \<Longrightarrow> callback_text 0 m = Ret m"
proof -
  assume m: "length m < 2 ^ 64 - 1"
  have "word_of_nat (length m) \<le> (- 1 :: u64)" by simp
  then show ?thesis by (simp add: callback_text_def cutLongString_def)
qed

text \<open>Removing the callbacks while one of them runs leaves the thread with a dangling iterator.\<close>

lemma reset_during_call_undefined:
  "log_run [LogAdd (Some 4) 100 True, LogCall 7 ''m'' Log_Info ''f'' 1 2, LogStep 7, LogStep 7, LogReset, LogStep 7, LogStep 7] CallbackLogger_new =
     Some Undef"
proof -
  have "callback_text 100 ''m'' = Ret ''m''" by code_simp
  then show ?thesis by (simp add: CallbackLogger_new_def logger_addCallback_def logger_log_def logger_clear_def)
qed

text \<open>
  The stop marker of the thread that destroys the logger can come out before the messages of another thread,
  which no callback then gets.
\<close>

lemma stop_overtakes_message:
  assumes "t \<noteq> u"
  shows "\<exists>s. log_run [LogCall t m l f n ts, LogDestroy u, LogStep u, LogJoin] (logger_with cs) = Some (Ret s) \<and>
    lg_gone s \<and> lg_delivered s = [] \<and>
    lg_queue s = [(t, LogItem \<lparr>ld_message = m, ld_level = l, ld_file = f, ld_line = n, ld_timestamp = ts\<rparr>)]"
  using assms
  by (simp add: logger_with_def CallbackLogger_new_def logger_log_def logger_destroy_def logger_join_def)

end
