(* ===== verification/Encrypt_Tool.thy ===== *)
theory Encrypt_Tool
  imports Wire_Util Key_Resolver
begin

text \<open>
  \<^verbatim>\<open>encrypt_tool/source/main.cpp\<close>: the program that a provider runs once to encrypt the key of its devices. The
  encrypted text goes into the configuration of the SDK, which decrypts it in \<open>soft_tryResolve\<close>. Its function
  \<^verbatim>\<open>encryptSecret\<close> is a copy of the one in \<^verbatim>\<open>source/utils/decrypt.cpp\<close>, statement by statement, and so is represented
  by the same definition. The random bytes and the obfuscated ending of the password are arguments.
\<close>

text \<open>\<open>None\<close> where an exception is thrown; \<^verbatim>\<open>std::stoul\<close> is \<open>stoull_base\<close>, an unsigned long having 64 bits.\<close>

fun hex2bytes_loop :: "string \<Rightarrow> ByteArray option" where
  "hex2bytes_loop (a # b # s) =
     (case stoull_base 16 [a, b] of
        None \<Rightarrow> None
      | Some (v, pos) \<Rightarrow>
          if pos \<noteq> 2 then None else map_option ((#) (word_of_int v)) (hex2bytes_loop s))"
| "hex2bytes_loop s = Some []"

definition hex2bytes :: "string \<Rightarrow> ByteArray option" where
  "hex2bytes s = (if length s \<noteq> AES_KEY_SIZE * 2 then None else hex2bytes_loop s)"

text \<open>The exit code, and the text printed if it is 0.\<close>

definition tool_main :: "crypto_api \<Rightarrow> ByteArray \<Rightarrow> ByteArray \<Rightarrow> string \<Rightarrow> string list \<Rightarrow> int \<times> string option" where
  "tool_main C salt iv ending argv =
     (if length argv \<noteq> 3 then (1, None)
      else case hex2bytes (argv ! 1) of
             None \<Rightarrow> (1, None)
           | Some secret \<Rightarrow> (0, Some (encryptSecret C salt iv secret (argv ! 2 @ ending))))"

lemma stoull_digits:
  assumes "hex_val a = Some x" "hex_val b = Some y"
  shows "stoull_base 16 [a, b] = Some (int (x * 16 + y), 2)"
proof -
  have plain: "\<not> isspace a" "a \<noteq> CHR ''-''" "\<not> is_sign a" "x < 16" "y < 16"
    using hex_val_plain [OF assms(1)] hex_val_plain [OF assms(2)] by (auto simp: is_sign_def)
  then have "strto 16 [a, b] = Some (False, int (x * 16 + y), 2)"
    using assms by (simp add: strto_def hex_prefixed_def digit_in_def digits_value_def)
  then show ?thesis using plain by (simp add: stoull_base_def)
qed

lemma hex2bytes_pair: "hex2bytes_loop (byte_hex upper b @ s) = map_option ((#) b) (hex2bytes_loop s)"
proof -
  have b: "unat b < 256" using unsigned_less [of b, where ?'a = nat] by simp
  then have "stoull_base 16 (byte_hex upper b) = Some (int (unat b div 16 * 16 + unat b mod 16), 2)"
    unfolding byte_hex_def by (intro stoull_digits hex_val_chars) auto
  then have "stoull_base 16 (byte_hex upper b) = Some (uint b, 2)" by simp
  then show ?thesis by (simp add: byte_hex_def)
qed

lemma hex2bytes_hex:
  assumes "length key = AES_KEY_SIZE"
  shows "hex2bytes (hex upper [] [] key) = Some key"
proof -
  have "hex2bytes_loop (concat (map (byte_hex upper) bs)) = Some bs" for bs
    by (induction bs) (simp_all add: hex2bytes_pair)
  moreover have "length (concat (map (byte_hex upper) bs)) = 2 * length bs" for bs
    by (induction bs) (simp_all add: byte_hex_def)
  ultimately show ?thesis using assms by (simp add: hex2bytes_def hex_plain)
qed

text \<open>
  The key that a provider encrypts is the key that its devices use. For every key of 32 bytes, in digits of either
  case, the tool succeeds; a configuration with the text that it prints and the same provider and ending
  decrypts it to that key, whose digits are the password under which a saved key is then looked for.
\<close>

theorem tool_key_resolves:
  assumes "crypto_law C" "length salt = SALT_SIZE" "length iv = AES_IV_SIZE" "length key = AES_KEY_SIZE"
    and "tool_main C salt iv ending [prog, hex upper [] [] key, provider info] = (code, Some (encryptedKey info))"
    and "hasSoftKeyProvisioning info"
    and "tryLoadKey J C keyData (r\<lparr>m_deviceKeyPassword := hex False [] [] key\<rparr>) info = (True, r1, info1)"
  shows "code = 0 \<and> soft_tryResolve J dump C ending io keyData now r info =
    Ret \<lparr>rr_ok = True, rr_resolver = r1, rr_info = info1, rr_saved = None, rr_requests = []\<rparr>"
proof -
  have printed: "code = 0" "encryptedKey info = encryptSecret C salt iv key (provider info @ ending)"
    using assms(5) hex2bytes_hex [OF assms(4)] by (simp_all add: tool_main_def)
  have "decryptSecret C (encryptedKey info) (provider info @ ending) = Ret key"
    unfolding printed(2) by (rule decrypt_encrypt [OF assms(1-3)])
  moreover have "key \<noteq> []" using assms(4) by (auto simp: AES_KEY_SIZE_def)
  ultimately show ?thesis using assms(6,7) printed(1) by (simp add: soft_tryResolve_def Let_def)
qed

text \<open>A sign or a blank in front of a digit is accepted: \<^verbatim>\<open>"-1"\<close> is the byte 255 and \<^verbatim>\<open>" 7"\<close> the byte 7.\<close>

lemma hex2bytes_accepts_signs: "hex2bytes_loop ''-1 7+a'' = Some [255, 7, 10]"
  by code_simp

end
