(* ===== verification/Host.thy ===== *)
theory Host
  imports Crypto Cdc_Tpm
begin

text \<open>
  What the sources make of answers of the operating system, on Linux: the device directory
  (\<^verbatim>\<open>libs/nfc/source/list_usb_devices.cpp\<close>), the network interfaces (\<^verbatim>\<open>source/utils/mac_address.cpp\<close>,
  \<^verbatim>\<open>source/utils/lan_ip.cpp\<close>), child processes (\<^verbatim>\<open>libs/utils/source/commandrunner.cpp\<close>), niceness
  (\<^verbatim>\<open>source/utils/thread_priority.cpp\<close>) and two text functions (\<^verbatim>\<open>libs/utils/source/toupper.cpp\<close>). The answers are
  arguments; the address classes of the I/O library are the parameter \<open>address_api\<close>.
\<close>

section \<open>Devices\<close>

text \<open>The entries of \<^verbatim>\<open>/dev\<close> up to where reading it fails: a name and whether it is a character device.\<close>

definition listUsbDevices :: "(string \<times> bool) list \<Rightarrow> string list" where
  "listUsbDevices entries =
     map (\<lambda>(filename, _). ''/dev/'' @ filename)
       (filter (\<lambda>(filename, is_character_file). is_character_file \<and> take 6 filename = ''ttyACM'') entries)"

section \<open>Hardware address\<close>

text \<open>The pattern ignores case; \<^verbatim>\<open>lo\<close> must be the whole name, the others begin it.\<close>

definition isVirtualInterface :: "string \<Rightarrow> bool" where
  "isVirtualInterface interfaceName =
     (let name = map tolower interfaceName
      in name = ''lo'' \<or>
         list_ex (\<lambda>p. take (length p) name = p)
           [''docker'', ''veth'', ''virbr'', ''br-'', ''tap'', ''tun'', ''awdl'', ''dummy'', ''anpi'', ''bridge'', ''vnet''])"

record net_interface =
  ni_name :: string
  ni_packet :: "ByteArray option option"

text \<open>\<open>ni_packet\<close>: \<open>None\<close> without an address, \<open>Some None\<close> with one of another family, otherwise the link-layer address.\<close>

fun getMacAddress_loop :: "net_interface list \<Rightarrow> string" where
  "getMacAddress_loop [] = []"
| "getMacAddress_loop (ifa # ifas) =
     (case ni_packet ifa of
        None \<Rightarrow> getMacAddress_loop ifas
      | Some packet \<Rightarrow>
          if isVirtualInterface (ni_name ifa) then getMacAddress_loop ifas
          else (case packet of
                  None \<Rightarrow> getMacAddress_loop ifas
                | Some addr \<Rightarrow> if length addr = 6 then hex False '':'' [] addr else getMacAddress_loop ifas))"

definition getMacAddress :: "net_interface list option \<Rightarrow> string" where
  "getMacAddress ifaddr = (case ifaddr of None \<Rightarrow> [] | Some ifas \<Rightarrow> getMacAddress_loop ifas)"

section \<open>Serial numbers\<close>

text \<open>\<open>files path\<close> is the contents of a file, \<open>None\<close> if it cannot be opened.\<close>

definition first_line :: "string \<Rightarrow> string" where
  "first_line contents = takeWhile (\<lambda>c. c \<noteq> CHR 0x0A) contents"

definition readSysfsFile :: "(string \<Rightarrow> string option) \<Rightarrow> string \<Rightarrow> string" where
  "readSysfsFile files path =
     (case files path of None \<Rightarrow> [] | Some contents \<Rightarrow> RTrim (first_line contents))"

definition getBoardSerial :: "(string \<Rightarrow> string option) \<Rightarrow> string" where
  "getBoardSerial files =
     (let serial = readSysfsFile files ''/sys/class/dmi/id/board_serial''
      in if serial = [] then readSysfsFile files ''/sys/class/dmi/id/product_serial'' else serial)"

definition drop_chars :: "string \<Rightarrow> string \<Rightarrow> string" where
  "drop_chars cs s = dropWhile (\<lambda>c. c \<in> set cs) s"

text \<open>The first line that begins with \<^verbatim>\<open>Serial\<close> and has a colon.\<close>

fun cpu_serial_in :: "string list \<Rightarrow> string" where
  "cpu_serial_in [] = []"
| "cpu_serial_in (line # lines) =
     (if take 6 line = ''Serial'' \<and> CHR '':'' \<in> set line
      then let serial = drop_chars [CHR 0x20, CHR 0x09] (tl (dropWhile (\<lambda>c. c \<noteq> CHR '':'') line))
           in rev (drop_chars [CHR 0x20, CHR 0x09, CHR 0x0A, CHR 0x0D] (rev serial))
      else cpu_serial_in lines)"

definition getCpuSerial :: "string list option \<Rightarrow> string" where
  "getCpuSerial cpuinfo = (case cpuinfo of None \<Rightarrow> [] | Some lines \<Rightarrow> cpu_serial_in lines)"

text \<open>The fingerprint of a machine from its interfaces and files.\<close>

definition host_fingerprint :: "net_interface list option \<Rightarrow> (string \<Rightarrow> string option) \<Rightarrow> string list option \<Rightarrow> string \<Rightarrow> string \<Rightarrow> MachineFingerprint" where
  "host_fingerprint ifaddr files cpuinfo platformId extraFingerprint =
     collectFingerprints (getMacAddress ifaddr) (getBoardSerial files) (getCpuSerial cpuinfo) platformId extraFingerprint"

section \<open>Local address\<close>

record 'a address_api =
  ad_unspecified :: "'a \<Rightarrow> bool"
  ad_loopback :: "'a \<Rightarrow> bool"
  ad_multicast :: "'a \<Rightarrow> bool"
  ad_v4 :: "'a \<Rightarrow> u32 option"
  ad_v6_link_local :: "'a \<Rightarrow> bool"
  ad_text :: "'a \<Rightarrow> string"

definition isIpv4LinkLocal :: "u32 \<Rightarrow> bool" where
  "isIpv4LinkLocal address \<longleftrightarrow> address AND 0xFFFF0000 = 0xA9FE0000"

definition isUsableLanAddress :: "'a address_api \<Rightarrow> 'a \<Rightarrow> bool" where
  "isUsableLanAddress A address =
     (if ad_unspecified A address \<or> ad_loopback A address \<or> ad_multicast A address then False
      else case ad_v4 A address of
             Some v4 \<Rightarrow> \<not> isIpv4LinkLocal v4
           | None \<Rightarrow> \<not> ad_v6_link_local A address)"

text \<open>\<open>route\<close> is the local end of a socket that was connected to the target, \<open>None\<close> where opening, connecting or
  asking failed.\<close>

definition getLanIpForDefaultRoute :: "'a address_api \<Rightarrow> (string \<Rightarrow> 'a option) \<Rightarrow> string \<Rightarrow> string" where
  "getLanIpForDefaultRoute A route routeTarget =
     (case route routeTarget of
        None \<Rightarrow> []
      | Some localEndpoint \<Rightarrow> if \<not> isUsableLanAddress A localEndpoint then [] else ad_text A localEndpoint)"

definition lan_targets :: "string list" where
  "lan_targets = [''8.8.8.8'', ''1.1.1.1'', ''2001:4860:4860::8888'', ''2606:4700:4700::1111'']"

fun first_lan_ip :: "'a address_api \<Rightarrow> (string \<Rightarrow> 'a option) \<Rightarrow> string list \<Rightarrow> string" where
  "first_lan_ip A route [] = []"
| "first_lan_ip A route (target # targets) =
     (let lanIp = getLanIpForDefaultRoute A route target
      in if lanIp \<noteq> [] then lanIp else first_lan_ip A route targets)"

definition getPrimaryLanIp :: "'a address_api \<Rightarrow> (string \<Rightarrow> 'a option) \<Rightarrow> string" where
  "getPrimaryLanIp A route = first_lan_ip A route lan_targets"

section \<open>Processes\<close>

text \<open>A child: not created, ended with an exit status, or ended by a signal.\<close>

datatype child = NoChild | Exited int | Signalled

definition runCommand :: "child \<Rightarrow> int" where
  "runCommand c = (case c of NoChild \<Rightarrow> -1 | Exited status \<Rightarrow> status | Signalled \<Rightarrow> -1)"

text \<open>\<open>None\<close> where the future is not valid.\<close>

definition runCommandAndGetResult :: "child option \<Rightarrow> int" where
  "runCommandAndGetResult runResult = (case runResult of None \<Rightarrow> 1 | Some c \<Rightarrow> runCommand c)"

text \<open>The output and the return code that the library reports; \<open>None\<close> for each that an exception prevents.\<close>

definition runCommandAndGetOutput :: "string option \<Rightarrow> int option \<Rightarrow> int \<times> string" where
  "runCommandAndGetOutput communicated retcode =
     (case communicated of
        None \<Rightarrow> (-1, [])
      | Some buf \<Rightarrow> (case retcode of None \<Rightarrow> (-1, buf) | Some r \<Rightarrow> (r, buf)))"

text \<open>The call of \<^verbatim>\<open>setpriority\<close> for the calling thread, if there is one.\<close>

definition applySdkThreadNice :: "int \<Rightarrow> int \<Rightarrow> (int \<times> int) option" where
  "applySdkThreadNice tid niceValue = (if niceValue = 0 then None else Some (tid, niceValue))"

section \<open>Texts\<close>

definition toupper :: "char \<Rightarrow> char" where
  "toupper c = (let n = of_char c :: nat in if 97 \<le> n \<and> n \<le> 122 then char_of (n - 32) else c)"

definition toUpper :: "string \<Rightarrow> string" where
  "toUpper s = map toupper s"

definition utils_cutLongString :: "string \<Rightarrow> nat \<Rightarrow> string" where
  "utils_cutLongString str maxLength =
     (let halfSize = maxLength div 2
      in if length str > maxLength
         then take halfSize str @ '' ... '' @ drop (length str - halfSize) str
         else str)"

section \<open>Properties\<close>

text \<open>An address that is announced can be used, and belongs to the first target whose route has such an address.\<close>

lemma first_lan_ip_usable:
  assumes "first_lan_ip A route targets = ip" "ip \<noteq> []"
  shows "\<exists>before t behind a. targets = before @ t # behind \<and> route t = Some a \<and> isUsableLanAddress A a \<and> ad_text A a = ip \<and>
    (\<forall>t' \<in> set before. getLanIpForDefaultRoute A route t' = [])"
  using assms
proof (induction targets)
  case (Cons t ts)
  show ?case
  proof (cases "getLanIpForDefaultRoute A route t = []")
    case True
    with Cons obtain before t1 behind a where "ts = before @ t1 # behind" "route t1 = Some a" "isUsableLanAddress A a"
        "ad_text A a = ip" "\<forall>t' \<in> set before. getLanIpForDefaultRoute A route t' = []"
      by (auto simp: Let_def)
    with True show ?thesis by (intro exI [of _ "t # before"] exI [of _ t1] exI [of _ behind] exI [of _ a]) simp
  next
    case False
    with Cons.prems show ?thesis
      by (intro exI [of _ "[]"] exI [of _ t] exI [of _ ts]) (auto simp: getLanIpForDefaultRoute_def Let_def split: option.splits if_splits)
  qed
qed simp

text \<open>A hardware address has 17 characters and is that of an interface that does not look virtual.\<close>

lemma hex_colon_length: "length (hex False '':'' [] bs) = (if bs = [] then 0 else 3 * length bs - 1)"
proof -
  have "length (foldl (\<lambda>r b. r @ '':'' @ [] @ byte_hex False b) s bs) = length s + 3 * length bs" for s bs
    by (induction bs arbitrary: s) (simp_all add: byte_hex_def)
  then show ?thesis by (cases bs) (simp_all add: hex_def byte_hex_def)
qed

lemma mac_address_physical:
  assumes "getMacAddress (Some ifas) = mac" "mac \<noteq> []"
  shows "length mac = 17 \<and> (\<exists>ifa \<in> set ifas. \<not> isVirtualInterface (ni_name ifa) \<and>
    (\<exists>addr. ni_packet ifa = Some (Some addr) \<and> mac = hex False '':'' [] addr))"
  using assms unfolding getMacAddress_def option.case
proof (induction ifas)
  case (Cons ifa ifas)
  show ?case
  proof (cases "\<exists>addr. ni_packet ifa = Some (Some addr) \<and> length addr = 6 \<and> \<not> isVirtualInterface (ni_name ifa)")
    case True
    with Cons.prems show ?thesis by (auto simp: hex_colon_length)
  next
    case False
    then have "getMacAddress_loop (ifa # ifas) = getMacAddress_loop ifas" by (auto split: option.split)
    with Cons show ?thesis by auto
  qed
qed simp

text \<open>White space around the serial numbers does not enter the fingerprint's hash.\<close>

lemma fingerprint_blank:
  assumes "\<forall>c \<in> set s. c \<in> {CHR 0x20, CHR 0x09, CHR 0x0A, CHR 0x0D}"
  shows "normalize (s @ t) = normalize t" "normalize (t @ s) = normalize t"
  using assms by (simp_all add: normalize_def filter_empty_conv)

lemma cpu_serial_hash:
  assumes "take 6 line = ''Serial''" "line = a @ CHR '':'' # serial" "CHR '':'' \<notin> set a"
  shows "normalize (getCpuSerial (Some (line # rest))) = normalize serial"
proof -
  have after: "tl (dropWhile (\<lambda>c. c \<noteq> CHR '':'') line) = serial"
    using assms(2,3) by (simp add: dropWhile_append)
  let ?b = "[CHR 0x20, CHR 0x09]" and ?e = "[CHR 0x20, CHR 0x09, CHR 0x0A, CHR 0x0D]"
  have pre: "normalize (drop_chars ?b s) = normalize s" for s
  proof -
    have "\<forall>c \<in> set (takeWhile (\<lambda>c. c \<in> set ?b) s). c \<in> {CHR 0x20, CHR 0x09, CHR 0x0A, CHR 0x0D}"
      by (auto dest: set_takeWhileD)
    from fingerprint_blank(1) [OF this, of "dropWhile (\<lambda>c. c \<in> set ?b) s"] show ?thesis
      unfolding drop_chars_def takeWhile_dropWhile_id by simp
  qed
  have post: "normalize (rev (drop_chars ?e (rev s))) = normalize s" for s
  proof -
    have "s = rev (takeWhile (\<lambda>c. c \<in> set ?e) (rev s) @ dropWhile (\<lambda>c. c \<in> set ?e) (rev s))"
      unfolding takeWhile_dropWhile_id by simp
    then have split: "s = rev (drop_chars ?e (rev s)) @ rev (takeWhile (\<lambda>c. c \<in> set ?e) (rev s))"
      unfolding drop_chars_def rev_append .
    have "\<forall>c \<in> set (rev (takeWhile (\<lambda>c. c \<in> set ?e) (rev s))). c \<in> {CHR 0x20, CHR 0x09, CHR 0x0A, CHR 0x0D}"
      by (auto dest: set_takeWhileD)
    from fingerprint_blank(2) [OF this, of "rev (drop_chars ?e (rev s))"] split show ?thesis by metis
  qed
  have "getCpuSerial (Some (line # rest)) = rev (drop_chars ?e (rev (drop_chars ?b serial)))"
    using assms(1,2) after by (simp add: getCpuSerial_def Let_def)
  then show ?thesis using post [of "drop_chars ?b serial"] pre [of serial] by simp
qed

text \<open>The devices tried for a probe are serial ports of the directory.\<close>

lemma listUsbDevices_tty:
  "d \<in> set (listUsbDevices entries) \<longleftrightarrow> (\<exists>n. d = ''/dev/'' @ n \<and> (n, True) \<in> set entries \<and> take 6 n = ''ttyACM'')"
  by (auto simp: listUsbDevices_def)

text \<open>A text that is cut can be longer than the limit, by the length of the dots.\<close>

lemma utils_cut_length:
  "length str > maxLength \<Longrightarrow> length (utils_cutLongString str maxLength) = 2 * (maxLength div 2) + 5"
  by (auto simp: utils_cutLongString_def Let_def)

end
