(* ===== verification/Spec2Isabelle.thy ===== *)
theory Spec2Isabelle
  imports System_Props Event_Helpers Key_Resolver_Props Net_Auth_Props Game_State_C_Props Updater_Props
    Discovery Probe_Device Cdc_Tpm Hardware_Tpm Software_Tpm Cpp_Game_State Logger Encrypt_Tool Host
begin

text \<open>
  A verification library for the Scorbit SDK, the C++ library that a pinball machine links in order to report
  its games to a server, show leaderboards, take credits and keep itself up to date.

  \<^bold>\<open>How the program works.\<close> The application calls the C API (\<^verbatim>\<open>source/game_state_c.cpp\<close>), directly or through
  the header-only C++ classes of \<^verbatim>\<open>include/scorbit_sdk\<close>. A call puts a job into a queue; one thread performs the
  jobs on the game state (\<^verbatim>\<open>source/game_state_impl.cpp\<close>). The game state keeps the scores, the modes and the ball,
  and hands changed data to the network layer (\<^verbatim>\<open>source/net.cpp\<close>), which runs tasks on a pool of threads with
  strands and timers (\<^verbatim>\<open>source/worker.cpp\<close>): authentication, sessions, requests, downloads, and the messages of a
  real-time client. What the server says comes back as events (\<^verbatim>\<open>source/event_manager.h\<close>), which one strand
  delivers to the application. A device proves its identity with a secure element, a key file or a provisioned key
  (\<^verbatim>\<open>libs/tpm\<close>, the key resolvers); a probe with an NFC chip hangs on a serial cable (\<^verbatim>\<open>libs/nfc\<close>).

  \<^bold>\<open>Conventions.\<close> A C++ class is a record, its methods are functions that return the changed record; an
  enumeration is a datatype; machine integers are words of their width, and conversions are written out. A function
  that can throw or has undefined behaviour returns \<open>res\<close> (\<open>Ret\<close>, \<open>Exn\<close>, \<open>Undef\<close>), a null pointer is \<open>None\<close>. A task
  that is posted is a constructor of \<open>net_task\<close>, and running it a function of its own; effects on the outside
  (requests, timers, events, publications) are recorded in call order. Threads are interleavings: a step relation or a
  list of steps, where a closure that gives up a lock in the middle is two steps. Libraries that are not part of the
  sources are parameters: records of their functions (\<open>json_api\<close>, \<open>timer_api\<close>, \<open>crypto_api\<close>, \<open>ec_api\<close>, \<open>atca_lib\<close>,
  \<open>address_api\<close>) with their documented laws as named hypotheses (\<open>timer_law\<close>, \<open>crypto_law\<close>), each
  satisfied by a sample instance. What differs from call to call (clocks, random bytes, the random number of a
  signature) is an argument of the call or a numbered draw.

  \<^bold>\<open>Theories.\<close>
  \<^item> \<open>Prelude\<close>: integer types, \<open>res\<close>, ordered maps, text functions, and the lemmas all theories share. \<open>Types\<close>:
    the enumerations of \<^verbatim>\<open>net_types.h\<close>. \<open>Flags\<close>: \<^verbatim>\<open>dflags.h\<close>, \<^verbatim>\<open>session_flags.h\<close>; the locale \<open>flag_set\<close>.
    \<open>Identifiers\<close>: the constants of \<^verbatim>\<open>identifiers.h\<close>. \<open>Json\<close>: the interface of the JSON library. \<open>Producer_Queue\<close>: the
    concurrent queue library, which keeps the order of each producer only.
  \<^item> \<open>Modes\<close> (\<^verbatim>\<open>modes.cpp\<close>), \<open>Game_Data\<close> (\<^verbatim>\<open>game_data.h\<close>, \<^verbatim>\<open>player_state.cpp\<close>), \<open>Game_State\<close> and \<open>Game_State_Props\<close>
    (\<^verbatim>\<open>game_state_impl.cpp\<close>): the invariant of every reachable state, what is submitted and in which order.
  \<^item> \<open>Lru_Cache\<close> (\<^verbatim>\<open>utils/lru_cache.hpp\<close>; the locale \<open>bounded_cache\<close>) and \<open>Profiles\<close> (\<^verbatim>\<open>player_profiles_manager.cpp\<close>).
  \<^item> \<open>Events\<close> (\<^verbatim>\<open>event_classes.h\<close>), \<open>Event_Queue\<close> (\<^verbatim>\<open>event_queue.h\<close>, \<^verbatim>\<open>event_manager.h\<close>; the locale \<open>max_queue\<close>) and
    \<open>Event_Helpers\<close> (\<^verbatim>\<open>event_helpers_c.cpp\<close>): nothing is lost, the order of delivery, what C can read.
  \<^item> \<open>Worker\<close> (\<^verbatim>\<open>worker.cpp\<close>; the locale \<open>worker_timers\<close>): a timer holds the last task started on it.
  \<^item> \<open>Net_State\<close>, \<open>Net_Util\<close>, \<open>Net_Session\<close>, \<open>Net_Http\<close>, \<open>Net_Centrifugo\<close>, \<open>Net_Pairing\<close>, \<open>Net_Auth\<close>, \<open>Net_Device\<close>
    and \<open>Leaderboard\<close>: the class \<^verbatim>\<open>Net\<close> by subject, with \<^verbatim>\<open>net_util.cpp\<close>, \<^verbatim>\<open>device_info.h\<close> and
    \<^verbatim>\<open>leaderboard_c.cpp\<close>. Theories that end in \<open>_Props\<close> hold what is shown of them.
  \<^item> \<open>System\<close> and \<open>System_Props\<close>: the game state on top of the network layer, with the worker's tasks between any two
    calls. The theorems of this file are about this composition.
  \<^item> \<open>Game_State_C\<close>, \<open>Game_State_C_Props\<close> and \<open>Config_C\<close> (\<^verbatim>\<open>game_state_c.cpp\<close>, \<^verbatim>\<open>config_c.cpp\<close>): the C API, its queue,
    its end, and its configuration. \<open>Cpp_Event\<close> and \<open>Cpp_Game_State\<close>: the C++ classes over it, with the closures they
    keep on the heap.
  \<^item> \<open>Bytes\<close>, \<open>Jwt\<close>, \<open>Crypto\<close>, \<open>Key_Resolver\<close>, \<open>Key_Resolver_Props\<close>, \<open>Net_Auth_Props\<close>: byte arrays, access tokens,
    encrypted secrets, signatures, the fingerprint of a machine, and where the key comes from. \<open>Encrypt_Tool\<close>: the
    program that encrypts it.
  \<^item> \<open>Updater\<close>, \<open>Updater_Props\<close>, \<open>Archiver\<close>, \<open>Fs_Read_Write\<close>: updates, archives and read-only file systems.
  \<^item> \<open>Probes\<close>, \<open>Wire_Util\<close>, \<open>Discovery\<close>, \<open>Cable\<close>, \<open>Probe_Device\<close>, \<open>Cdc_Tpm\<close>: \<^verbatim>\<open>libs/nfc\<close>, the devices at the serial
    cable and on the network. \<open>Tpm\<close>, \<open>Hardware_Tpm\<close>, \<open>Software_Tpm\<close>: \<^verbatim>\<open>libs/tpm\<close>, the identities.
  \<^item> \<open>Logger\<close> (\<^verbatim>\<open>libs/logger\<close>, \<^verbatim>\<open>log_c.cpp\<close>) and \<open>Host\<close>: what is made of the answers of the operating system.

  \<^bold>\<open>What is shown.\<close> Invariants of all reachable states (game state, sessions, real-time client, pairing); composition
  (no submission lost or recorded twice, a finished game reported in whatever order the pool runs, the asynchronous API equal to direct calls);
  refinement (the cache as a list in order of use, the network layer's timers as the worker's); termination and bounds
  (requests, authentication, shutdown, retries of the secure element); safety (where the device token goes, which
  updates are installed, which keys are accepted, integrity of replies over the cable); round trips (keys, archives,
  identities, packets of the discovery). Lemmas that show a defect construct the state in which it appears.

  \<^bold>\<open>Interfaces.\<close> \<open>flag_set\<close>, \<open>bounded_cache\<close>, \<open>max_queue\<close> and \<open>worker_timers\<close> state what the clients rely on; each is
  interpreted on the model's own definitions in the theory that provides them. \<open>worker_timers\<close> has the I/O
  library's timer beneath it, so its instance is the model of the worker over a list-based timer that satisfies \<open>timer_law\<close>.

  \<^bold>\<open>Bounds and fuel.\<close> Loops over data are structural. A loop that waits for the outside takes the list of what the
  outside does, one element per turn: \<open>http_loop\<close>, \<open>auth_loop\<close>, \<open>server_time\<close>, the listener and the search of
  \<open>Discovery\<close>, the reads of \<open>Cable\<close>. \<open>None\<close> then means that the task still runs. \<open>request_task_bounded\<close>,
  \<open>auth_task_returns\<close> and \<open>shutdown_returns\<close> say how many turns are enough. \<open>retry_loop\<close> of \<open>Tpm\<close> counts the
  five attempts of the source.

  \<^bold>\<open>Not modelled.\<close>
  \<^item> Examples, tests, the bindings for other languages and vendored code; headers that only declare.
  \<^item> The branches for Windows and macOS; \<^verbatim>\<open>date_time_parser.cpp\<close>, which calls the library's parser and sets the clock; the
    stub \<^verbatim>\<open>fake_atca_hal.c\<close>; \<^verbatim>\<open>fmt_formatters.h\<close>, \<^verbatim>\<open>safe_multipart.h\<close>; the \<^verbatim>\<open>spdlog\<close> back end of the logger and the text of
    log messages.
  \<^item> \<^verbatim>\<open>deriveUuid\<close> and \<^verbatim>\<open>makeSslOptions\<close>, which only call a library, and the system calls of \<^verbatim>\<open>nfc/Util.h\<close>; their results are
    inputs.
  \<^item> Data races: steps are atomic between two points at which a lock is given up or taken. Where the sources share data
    without a lock this is more than they promise. So are the check of the status and the sending of a request
    in \<open>http_loop\<close>; the upload of diagnostics sees one snapshot of the files.
  \<^item> What lies beyond resources: the session counter is an unbounded number, memory does not run out, there is a
    directory for temporary files. Unpacking writes contents only: directories, modes and the padding of a damaged entry
    are left to the archive library.
\<close>

section \<open>Both layers together\<close>

text \<open>
  C1. No data of a game is lost or recorded twice between the game state and the network layer. In every
  state that the two can reach, under every interleaving of the application's calls with the tasks and
  the replies: as long as a session was not removed, the data in its history together with the submissions
  that still wait for a thread are exactly the data of its creation and of all submissions, each once.
\<close>

theorem every_submission_recorded:
  assumes "sys_reachable J s" "sid \<notin> sy_closed s"
  shows "mset (history_of sid (sy_net s)) + mset (pending_of sid s) = mset (all_data sid (sy_game s))"
  using reachable_recorded [OF assms] by (simp add: recorded_def)

theorem every_submission_recorded_witness:
  "\<exists>s :: jval System. sys_reachable sample_json s \<and> isGameActive (m_data (sy_game s)) \<and> 1 \<notin> sy_closed s \<and>
     mset (history_of 1 (sy_net s)) + mset (pending_of 1 s) = {#fresh_data 1 0#}"
proof -
  obtain s :: "jval System" where s: "sys_reachable sample_json s" "isGameActive (m_data (sy_game s))" "sy_closed s = {}"
    "all_data 1 (sy_game s) = [fresh_data 1 0]" using reachable_started by blast
  with every_submission_recorded [OF s(1), of 1] show ?thesis by auto
qed

text \<open>
  C2. A game that ends is reported and forgotten. Let the server have named the session of the running game, and let
  the device not be barred. After the game was finished and the pool has run all waiting submissions, in whatever
  order and at whatever times: a request for this session was posted that carries the mark of completion and the
  history up to data of the finished game, and the final data is in the history. If the data that was recorded last is
  not of the running game, the server's confirmation of any update removes the session; it is the final
  data if the pool took the submissions in the order of posting.
\<close>

theorem finished_game_reported:
  assumes "sys_reachable J s" "isGameActive (m_data (sy_game s))" "net_status e \<noteq> AuthenticationFailed"
    and "named (m_sessionId (sy_game s)) (sy_net s)" "app_call E c OpGameFinished e s = Ret s1"
    and "sy_pending (run_pool ts s1) = []"
  shows "(\<exists>out' \<in> set (drop (length (outs (sy_net s1))) (outs (sy_net (run_pool ts s1)))).
      \<exists>h d rest. final_report (m_sessionId (sy_game s)) (h @ [d]) out' \<and> \<not> isGameActive d \<and>
        history_of (m_sessionId (sy_game s)) (sy_net (run_pool ts s1)) = h @ d # rest) \<and>
    finished_data e (sy_game s) \<in> set (history_of (m_sessionId (sy_game s)) (sy_net (run_pool ts s1))) \<and>
    (\<not> isGameActive (last (history_of (m_sessionId (sy_game s)) (sy_net (run_pool ts s1)))) \<longrightarrow>
      session_updated J (m_sessionId (sy_game s)) Success reply (sy_net (run_pool ts s1)) =
        Ret (erase_session (m_sessionId (sy_game s)) (sy_net (run_pool ts s1)))) \<and>
    (snd ` set ts \<subseteq> {0} \<longrightarrow>
      last (history_of (m_sessionId (sy_game s)) (sy_net (run_pool ts s1))) = finished_data e (sy_game s))"
proof -
  let ?sid = "m_sessionId (sy_game s)" and ?final = "finished_data e (sy_game s)"
  obtain bonus f where subs: "submissions (calls (setGameFinished e (sy_game s))) =
      submissions (calls (sy_game s)) @ bonus @ [(?final, f)]" "list_all (ends_session ?sid) bonus"
    "gd_id ?final = ?sid" "\<not> isGameActive ?final" "bonus = [] \<longrightarrow> has_flag f UploadHistoryLogs"
    using finish_submissions [OF reachable_game [OF assms(1)] assms(2,3)] by blast
  from app_call_adds [OF assms(5), of "bonus @ [(?final, f)]"] subs(1)
  have s1: "sy_pending s1 = sy_pending s @ bonus @ [(?final, f)]" "named ?sid (sy_net s1)"
    using assms(4) by (simp_all add: finish_creations named_def)
  obtain ds where ds: "sy_net (run_pool ts s1) = run_list ds (sy_net s1)" "mset (map snd ds) = mset (sy_pending s1)"
    "snd ` set ts \<subseteq> {0} \<longrightarrow> map snd ds = sy_pending s1"
    using run_pool_order [of ts s1] assms(6) by auto
  have all: "snd ` set ds = set (sy_pending s1)" using arg_cong [OF ds(2), of set_mset] by simp
  obtain d g where d: "(d, g) \<in> snd ` set ds" "ends_session ?sid (d, g)"
  proof (cases bonus)
    case Nil
    with subs s1(1) all that [of ?final f] show ?thesis by (simp add: ends_session_def)
  next
    case (Cons x xs)
    with subs(2) s1(1) all that [of "fst x" "snd x"] show ?thesis by simp
  qed
  have "(?final, f) \<in> snd ` set ds" using s1(1) all by simp
  then obtain x where x: "x \<in> set ds" "fst (snd x) = ?final" by force
  have last: "last (history_of ?sid (run_list ds (sy_net s1))) = ?final" if "map snd ds = sy_pending s1"
  proof -
    have "map (fst \<circ> snd) ds = map fst (sy_pending s1)" using that by (simp flip: map_map)
    then show ?thesis using s1(1) subs(3) by (simp add: run_list_history)
  qed
  have ex: "\<exists>x \<in> set ds. gd_id (fst (snd x)) = ?sid" using x subs(3) by force
  have "?final \<in> set (history_of ?sid (run_list ds (sy_net s1)))" using x subs(3) by (force simp: run_list_history)
  with run_list_reports [OF s1(2) d(1)] d(2) confirmed_update [OF ex] last ds(1,3) show ?thesis
    by (auto simp: ends_session_def)
qed

theorem finished_game_reported_witness:
  "\<exists>(s :: jval System) s1 ts out' h. sys_reachable sample_json s \<and>
     app_call sample_sys_env sample_clock OpGameFinished sample_gs_env s = Ret s1 \<and>
     out' \<in> set (outs (sy_net (run_pool ts s1))) \<and> final_report (m_sessionId (sy_game s)) h out' \<and>
     session_updated sample_json (m_sessionId (sy_game s)) Success ''ok'' (sy_net (run_pool ts s1)) =
       Ret (erase_session (m_sessionId (sy_game s)) (sy_net (run_pool ts s1)))"
proof -
  obtain s :: "jval System" where s: "sys_reachable sample_json s" "isGameActive (m_data (sy_game s))"
    "named (m_sessionId (sy_game s)) (sy_net s)" using reachable_started by blast
  let ?g = "gs_step OpGameFinished sample_gs_env (sy_game s)"
  have e: "net_status sample_gs_env \<noteq> AuthenticationFailed" by (simp add: sample_gs_env_def)
  have "calls ?g = calls (sy_game s) @ drop (length (calls (sy_game s))) (calls ?g)"
    by (rule adds_calls_split [OF adds_calls_step])
  moreover have "CallSetProbesManager \<notin> set (drop (length (calls (sy_game s))) (calls ?g))"
    using s(2) by (auto simp: setGameFinished_def Let_def submitGameData_def split: option.splits if_splits)
  ultimately obtain s1 where s1: "app_call sample_sys_env sample_clock OpGameFinished sample_gs_env s = Ret s1"
    using app_call_defined by blast
  obtain ts where ts: "snd ` set ts \<subseteq> {0}" "sy_pending (run_pool ts s1) = []" using run_pool_all by blast
  have "\<not> isGameActive (finished_data sample_gs_env (sy_game s))" by (simp add: finished_data_def)
  with finished_game_reported [OF s(1,2) e s(3) s1 ts(2), of "''ok''"] ts(1) obtain out' h where
    "out' \<in> set (outs (sy_net (run_pool ts s1)))" "final_report (m_sessionId (sy_game s)) h out'"
    "session_updated sample_json (m_sessionId (sy_game s)) Success ''ok'' (sy_net (run_pool ts s1)) =
       Ret (erase_session (m_sessionId (sy_game s)) (sy_net (run_pool ts s1)))"
    using in_set_dropD by fastforce
  with s(1) s1 show ?thesis by blast
qed

end
